(* ===== verification/Nrf_Prelude.thy ===== *)
theory Nrf_Prelude
  imports Main "HOL-Library.Word" "HOL-Library.Monad_Syntax"
begin

text \<open>Shared vocabulary of the development: the machine types of the 32-bit target,
  the status code every driver routine returns, the partial and total
  correctness predicates for routines that may fail to return, the little-endian codec
  of the bus, and general lemmas on words, lists and options.\<close>

unbundle bit_operations_syntax

section \<open>Machine types and the status code\<close>

text \<open>\<open>unsigned char\<close>, \<open>unsigned short\<close> and, on the ILP32 target, both
  \<open>unsigned int\<close> and \<open>unsigned long\<close>.\<close>

type_synonym u8 = "8 word"
type_synonym u16 = "16 word"
type_synonym u32 = "32 word"

text \<open>\<open>enum nrf_wifi_status\<close> of \<open>os_if/inc/osal_structs.h\<close>.\<close>

datatype nrf_status = NRF_WIFI_STATUS_SUCCESS | NRF_WIFI_STATUS_FAIL

abbreviation SUCCESS :: nrf_status where "SUCCESS \<equiv> NRF_WIFI_STATUS_SUCCESS"
abbreviation FAIL :: nrf_status where "FAIL \<equiv> NRF_WIFI_STATUS_FAIL"

lemma nrf_status_neq [simp]:
  "(st \<noteq> SUCCESS) = (st = FAIL)" "(st \<noteq> FAIL) = (st = SUCCESS)"
  by (cases st; simp)+

section \<open>Routines that may not return\<close>

text \<open>A routine whose C code may loop for ever or run into undefined behaviour
  returns an option; \<open>None\<close> is the absence of a normal return.
  \<open>sat\<close> is partial correctness, \<open>returns\<close> total correctness.\<close>

definition sat :: "'a option \<Rightarrow> ('a \<Rightarrow> bool) \<Rightarrow> bool" where
  "sat m Q = (case m of None \<Rightarrow> True | Some r \<Rightarrow> Q r)"

definition returns :: "'a option \<Rightarrow> ('a \<Rightarrow> bool) \<Rightarrow> bool" where
  "returns m Q = (case m of None \<Rightarrow> False | Some r \<Rightarrow> Q r)"

named_theorems sat_intros \<open>introduction rules for \<open>sat\<close>\<close>
named_theorems pres \<open>preservation lemmas of the operations\<close>
named_theorems frame \<open>frame lemmas: what an operation leaves alone\<close>
named_theorems op_defs \<open>definitions of operations, for execution\<close>

lemma sat_None [simp]: "sat None Q"
  by (simp add: sat_def)

lemma sat_Some [simp]: "sat (Some r) Q = Q r"
  by (simp add: sat_def)

lemma returns_None [simp]: "\<not> returns None Q"
  by (simp add: returns_def)

lemma returns_Some [simp]: "returns (Some r) Q = Q r"
  by (simp add: returns_def)

lemma sat_bind [sat_intros]: "sat m (\<lambda>r. sat (f r) Q) \<Longrightarrow> sat (Option.bind m f) Q"
  by (cases m) auto

lemma returns_bind: "returns m (\<lambda>r. returns (f r) Q) \<Longrightarrow> returns (Option.bind m f) Q"
  by (cases m) auto

lemma sat_mono: "sat m P \<Longrightarrow> (\<And>r. P r \<Longrightarrow> Q r) \<Longrightarrow> sat m Q"
  by (cases m) auto

lemma returns_mono: "returns m P \<Longrightarrow> (\<And>r. P r \<Longrightarrow> Q r) \<Longrightarrow> returns m Q"
  by (cases m) auto

lemma sat_bindI:
  assumes "sat m P" and "\<And>r. P r \<Longrightarrow> sat (f r) Q"
  shows "sat (Option.bind m f) Q"
  using assms by (cases m) auto

lemma returns_bindI:
  assumes "returns m P" and "\<And>r. P r \<Longrightarrow> returns (f r) Q"
  shows "returns (Option.bind m f) Q"
  using assms by (cases m) auto

lemma sat_conj: "sat m P \<Longrightarrow> sat m Q \<Longrightarrow> sat m (\<lambda>r. P r \<and> Q r)"
  by (cases m) auto

lemma sat_SomeD: "sat m Q \<Longrightarrow> m = Some r \<Longrightarrow> Q r"
  by simp

lemma returns_ex: "returns m Q = (\<exists>r. m = Some r \<and> Q r)"
  by (cases m) auto

lemma returns_sat: "returns m Q \<Longrightarrow> sat m Q"
  by (cases m) auto

lemma returns_combine: "returns m P \<Longrightarrow> sat m Q \<Longrightarrow> returns m (\<lambda>r. P r \<and> Q r)"
  by (cases m) auto

lemma satI: "(\<And>r. m = Some r \<Longrightarrow> Q r) \<Longrightarrow> sat m Q"
  by (cases m) auto

text \<open>Elimination of a step with a pair or a triple as its result.\<close>

lemma bind2E:
  assumes "Option.bind m f = Some r"
  obtains a b where "m = Some (a, b)" "f (a, b) = Some r"
  using assms by (cases m) auto

lemma bind3E:
  assumes "Option.bind m f = Some r"
  obtains a b c where "m = Some (a, b, c)" "f (a, b, c) = Some r"
  using assms by (cases m) auto

fun the_default :: "'a \<Rightarrow> 'a option \<Rightarrow> 'a" where
  "the_default d None = d"
| "the_default d (Some x) = x"

section \<open>Little-endian words\<close>

text \<open>The bus and the RPU memory are byte addressed and little-endian.\<close>

definition le32_bytes :: "u32 \<Rightarrow> u8 list" where
  "le32_bytes w = [ucast w, ucast (drop_bit 8 w), ucast (drop_bit 16 w), ucast (drop_bit 24 w)]"

definition le32_get :: "u8 list \<Rightarrow> u32" where
  "le32_get bs = ucast (bs ! 0) OR push_bit 8 (ucast (bs ! 1))
     OR push_bit 16 (ucast (bs ! 2)) OR push_bit 24 (ucast (bs ! 3))"

lemma le32_bytes_length [simp]: "length (le32_bytes w) = 4"
  by (simp add: le32_bytes_def)

lemma le32_round [simp]: "le32_get (le32_bytes w) = w"
proof (rule bit_word_eqI)
  fix n assume "n < LENGTH(32)"
  then have n: "n < 32" by simp
  show "bit (le32_get (le32_bytes w)) n = bit w n"
    using n by (cases "n < 8"; cases "n < 16"; cases "n < 24")
      (auto simp: le32_get_def le32_bytes_def bit_simps)
qed

lemma le32_bytes_inj [simp]: "(le32_bytes a = le32_bytes b) = (a = b)"
  by (metis le32_round)

section \<open>Words as numbers\<close>

lemma u32_le_iff: "(a::u32) \<le> b \<longleftrightarrow> unat a \<le> unat b"
  by (rule word_le_nat_alt)

lemma u32_less_iff: "(a::u32) < b \<longleftrightarrow> unat a < unat b"
  by (rule word_less_nat_alt)

lemma unat_add_small:
  fixes a b :: "'a::len word"
  assumes "unat a + unat b < 2 ^ LENGTH('a)"
  shows "unat (a + b) = unat a + unat b"
  using assms by (rule unat_add_lem [THEN iffD1])

lemma unat_of_nat_small:
  "n < 2 ^ LENGTH('a) \<Longrightarrow> unat (of_nat n :: 'a::len word) = n"
  by (simp add: unat_of_nat take_bit_nat_eq_self)

section \<open>Lists\<close>

lemma update_out_of_range [simp]: "length xs \<le> i \<Longrightarrow> xs[i := v] = xs"
  by (rule list_update_beyond)

lemma hd_tl_Cons: "xs \<noteq> [] \<Longrightarrow> hd xs # tl xs = xs"
  by simp

lemma drop_less_length: "xs \<noteq> [] \<Longrightarrow> 0 < n \<Longrightarrow> length (drop n xs) < length xs"
  by simp

end
