(* ===== verification/Linked_Queue.thy ===== *)
theory Linked_Queue
  imports Nrf_Prelude
begin

text \<open>\<open>utils/src/list.c\<close> and \<open>utils/src/queue.c\<close> over the linked-list
  primitives of the OS, which are a parameter: a record of operations on an abstract memory.
  A pointer is a number and NULL is 0. The locale \<open>osal_llist\<close> states what
  \<open>os_if/inc/osal_ops.h\<close> documents of the primitives; inside it the driver's list
  routines are proved to implement a FIFO queue. A heap of nodes is an instance.\<close>

section \<open>The primitives of the OS\<close>

type_synonym ptr = nat

abbreviation NULL :: ptr where "NULL \<equiv> 0"

record 'w llist_ops =
  llist_alloc :: "'w \<Rightarrow> ptr \<times> 'w"
  ctrl_llist_alloc :: "'w \<Rightarrow> ptr \<times> 'w"
  llist_init :: "ptr \<Rightarrow> 'w \<Rightarrow> 'w"
  llist_free :: "ptr \<Rightarrow> 'w \<Rightarrow> 'w"
  ctrl_llist_free :: "ptr \<Rightarrow> 'w \<Rightarrow> 'w"
  llist_node_alloc :: "'w \<Rightarrow> ptr \<times> 'w"
  ctrl_llist_node_alloc :: "'w \<Rightarrow> ptr \<times> 'w"
  llist_node_free :: "ptr \<Rightarrow> 'w \<Rightarrow> 'w"
  ctrl_llist_node_free :: "ptr \<Rightarrow> 'w \<Rightarrow> 'w"
  llist_node_data_get :: "ptr \<Rightarrow> 'w \<Rightarrow> ptr"
  llist_node_data_set :: "ptr \<Rightarrow> ptr \<Rightarrow> 'w \<Rightarrow> 'w"
  llist_add_node_tail :: "ptr \<Rightarrow> ptr \<Rightarrow> 'w \<Rightarrow> 'w"
  llist_add_node_head :: "ptr \<Rightarrow> ptr \<Rightarrow> 'w \<Rightarrow> 'w"
  llist_get_node_head :: "ptr \<Rightarrow> 'w \<Rightarrow> ptr"
  llist_get_node_nxt :: "ptr \<Rightarrow> ptr \<Rightarrow> 'w \<Rightarrow> ptr"
  llist_del_node :: "ptr \<Rightarrow> ptr \<Rightarrow> 'w \<Rightarrow> 'w"
  llist_len :: "ptr \<Rightarrow> 'w \<Rightarrow> u32"

section \<open>list.c\<close>

definition nrf_wifi_utils_list_alloc :: "'w llist_ops \<Rightarrow> 'w \<Rightarrow> ptr \<times> 'w" where
  "nrf_wifi_utils_list_alloc os w =
    (let (l, w) = llist_alloc os w
     in if l = NULL then (NULL, w) else (l, llist_init os l w))"

definition nrf_wifi_utils_ctrl_list_alloc :: "'w llist_ops \<Rightarrow> 'w \<Rightarrow> ptr \<times> 'w" where
  "nrf_wifi_utils_ctrl_list_alloc os w =
    (let (l, w) = ctrl_llist_alloc os w
     in if l = NULL then (NULL, w) else (l, llist_init os l w))"

definition nrf_wifi_utils_list_free :: "'w llist_ops \<Rightarrow> ptr \<Rightarrow> 'w \<Rightarrow> 'w" where
  "nrf_wifi_utils_list_free os l w = llist_free os l w"

definition nrf_wifi_utils_ctrl_list_free :: "'w llist_ops \<Rightarrow> ptr \<Rightarrow> 'w \<Rightarrow> 'w" where
  "nrf_wifi_utils_ctrl_list_free os l w = ctrl_llist_free os l w"

definition nrf_wifi_utils_list_add_tail ::
    "'w llist_ops \<Rightarrow> ptr \<Rightarrow> ptr \<Rightarrow> 'w \<Rightarrow> nrf_status \<times> 'w" where
  "nrf_wifi_utils_list_add_tail os l d w =
    (let (n, w) = llist_node_alloc os w
     in if n = NULL then (FAIL, w)
        else let w = llist_node_data_set os n d w;
                 w = llist_add_node_tail os l n w
             in (SUCCESS, w))"

definition nrf_wifi_utils_ctrl_list_add_tail ::
    "'w llist_ops \<Rightarrow> ptr \<Rightarrow> ptr \<Rightarrow> 'w \<Rightarrow> nrf_status \<times> 'w" where
  "nrf_wifi_utils_ctrl_list_add_tail os l d w =
    (let (n, w) = ctrl_llist_node_alloc os w
     in if n = NULL then (FAIL, w)
        else let w = llist_node_data_set os n d w;
                 w = llist_add_node_tail os l n w
             in (SUCCESS, w))"

definition nrf_wifi_utils_list_add_head ::
    "'w llist_ops \<Rightarrow> ptr \<Rightarrow> ptr \<Rightarrow> 'w \<Rightarrow> nrf_status \<times> 'w" where
  "nrf_wifi_utils_list_add_head os l d w =
    (let (n, w) = llist_node_alloc os w
     in if n = NULL then (FAIL, w)
        else let w = llist_node_data_set os n d w;
                 w = llist_add_node_head os l n w
             in (SUCCESS, w))"

partial_function (option) list_del_node_loop ::
    "'w llist_ops \<Rightarrow> ptr \<Rightarrow> ptr \<Rightarrow> ptr \<Rightarrow> 'w \<Rightarrow> 'w option" where
  "list_del_node_loop os l d n w =
    (if n = NULL then Some w
     else let stored = llist_node_data_get os n w;
              nxt = llist_get_node_nxt os l n w;
              w = (if stored = d
                   then llist_node_free os n (llist_del_node os l n w) else w)
          in list_del_node_loop os l d nxt w)"

definition nrf_wifi_utils_list_del_node ::
    "'w llist_ops \<Rightarrow> ptr \<Rightarrow> ptr \<Rightarrow> 'w \<Rightarrow> 'w option" where
  "nrf_wifi_utils_list_del_node os l d w =
    list_del_node_loop os l d (llist_get_node_head os l w) w"

definition nrf_wifi_utils_list_del_head ::
    "'w llist_ops \<Rightarrow> ptr \<Rightarrow> 'w \<Rightarrow> ptr \<times> 'w" where
  "nrf_wifi_utils_list_del_head os l w =
    (let n = llist_get_node_head os l w
     in if n = NULL then (NULL, w)
        else let d = llist_node_data_get os n w;
                 w = llist_del_node os l n w;
                 w = llist_node_free os n w
             in (d, w))"

definition nrf_wifi_utils_ctrl_list_del_head ::
    "'w llist_ops \<Rightarrow> ptr \<Rightarrow> 'w \<Rightarrow> ptr \<times> 'w" where
  "nrf_wifi_utils_ctrl_list_del_head os l w =
    (let n = llist_get_node_head os l w
     in if n = NULL then (NULL, w)
        else let d = llist_node_data_get os n w;
                 w = llist_del_node os l n w;
                 w = ctrl_llist_node_free os n w
             in (d, w))"

definition nrf_wifi_utils_list_peek :: "'w llist_ops \<Rightarrow> ptr \<Rightarrow> 'w \<Rightarrow> ptr" where
  "nrf_wifi_utils_list_peek os l w =
    (let n = llist_get_node_head os l w
     in if n = NULL then NULL else llist_node_data_get os n w)"

definition nrf_wifi_utils_list_len :: "'w llist_ops \<Rightarrow> ptr \<Rightarrow> 'w \<Rightarrow> u32" where
  "nrf_wifi_utils_list_len os l w = llist_len os l w"

text \<open>The callback of \<open>list_traverse\<close> may change the memory and the caller's data.\<close>

partial_function (option) list_traverse_loop ::
    "'w llist_ops \<Rightarrow> ptr \<Rightarrow> ('c \<Rightarrow> ptr \<Rightarrow> 'w \<Rightarrow> nrf_status \<times> 'c \<times> 'w)
      \<Rightarrow> nrf_status \<Rightarrow> ptr \<Rightarrow> 'c \<Rightarrow> 'w \<Rightarrow> (nrf_status \<times> 'c \<times> 'w) option" where
  "list_traverse_loop os l cb st n c w =
    (if n = NULL then Some (st, c, w)
     else let d = llist_node_data_get os n w;
              (st, c, w) = cb c d w
          in if st \<noteq> SUCCESS then Some (st, c, w)
             else list_traverse_loop os l cb st (llist_get_node_nxt os l n w) c w)"

definition nrf_wifi_utils_list_traverse ::
    "'w llist_ops \<Rightarrow> ptr \<Rightarrow> 'c \<Rightarrow> ('c \<Rightarrow> ptr \<Rightarrow> 'w \<Rightarrow> nrf_status \<times> 'c \<times> 'w)
      \<Rightarrow> 'w \<Rightarrow> (nrf_status \<times> 'c \<times> 'w) option" where
  "nrf_wifi_utils_list_traverse os l c cb w =
    list_traverse_loop os l cb FAIL (llist_get_node_head os l w) c w"

section \<open>queue.c\<close>

definition nrf_wifi_utils_q_alloc :: "'w llist_ops \<Rightarrow> 'w \<Rightarrow> ptr \<times> 'w" where
  "nrf_wifi_utils_q_alloc os w = nrf_wifi_utils_list_alloc os w"

definition nrf_wifi_utils_ctrl_q_alloc :: "'w llist_ops \<Rightarrow> 'w \<Rightarrow> ptr \<times> 'w" where
  "nrf_wifi_utils_ctrl_q_alloc os w = nrf_wifi_utils_ctrl_list_alloc os w"

definition nrf_wifi_utils_q_free :: "'w llist_ops \<Rightarrow> ptr \<Rightarrow> 'w \<Rightarrow> 'w" where
  "nrf_wifi_utils_q_free os q w = nrf_wifi_utils_list_free os q w"

definition nrf_wifi_utils_ctrl_q_free :: "'w llist_ops \<Rightarrow> ptr \<Rightarrow> 'w \<Rightarrow> 'w" where
  "nrf_wifi_utils_ctrl_q_free os q w = nrf_wifi_utils_ctrl_list_free os q w"

definition nrf_wifi_utils_q_enqueue ::
    "'w llist_ops \<Rightarrow> ptr \<Rightarrow> ptr \<Rightarrow> 'w \<Rightarrow> nrf_status \<times> 'w" where
  "nrf_wifi_utils_q_enqueue os q d w = nrf_wifi_utils_list_add_tail os q d w"

definition nrf_wifi_utils_ctrl_q_enqueue ::
    "'w llist_ops \<Rightarrow> ptr \<Rightarrow> ptr \<Rightarrow> 'w \<Rightarrow> nrf_status \<times> 'w" where
  "nrf_wifi_utils_ctrl_q_enqueue os q d w = nrf_wifi_utils_ctrl_list_add_tail os q d w"

definition nrf_wifi_utils_q_enqueue_head ::
    "'w llist_ops \<Rightarrow> ptr \<Rightarrow> ptr \<Rightarrow> 'w \<Rightarrow> nrf_status \<times> 'w" where
  "nrf_wifi_utils_q_enqueue_head os q d w = nrf_wifi_utils_list_add_head os q d w"

definition nrf_wifi_utils_q_dequeue :: "'w llist_ops \<Rightarrow> ptr \<Rightarrow> 'w \<Rightarrow> ptr \<times> 'w" where
  "nrf_wifi_utils_q_dequeue os q w = nrf_wifi_utils_list_del_head os q w"

definition nrf_wifi_utils_ctrl_q_dequeue :: "'w llist_ops \<Rightarrow> ptr \<Rightarrow> 'w \<Rightarrow> ptr \<times> 'w" where
  "nrf_wifi_utils_ctrl_q_dequeue os q w = nrf_wifi_utils_ctrl_list_del_head os q w"

definition nrf_wifi_utils_q_peek :: "'w llist_ops \<Rightarrow> ptr \<Rightarrow> 'w \<Rightarrow> ptr" where
  "nrf_wifi_utils_q_peek os q w = nrf_wifi_utils_list_peek os q w"

definition nrf_wifi_utils_q_len :: "'w llist_ops \<Rightarrow> ptr \<Rightarrow> 'w \<Rightarrow> u32" where
  "nrf_wifi_utils_q_len os q w = nrf_wifi_utils_list_len os q w"

lemmas queue_defs =
  nrf_wifi_utils_q_alloc_def nrf_wifi_utils_ctrl_q_alloc_def nrf_wifi_utils_q_enqueue_def
  nrf_wifi_utils_ctrl_q_enqueue_def nrf_wifi_utils_q_enqueue_head_def
  nrf_wifi_utils_q_dequeue_def nrf_wifi_utils_ctrl_q_dequeue_def nrf_wifi_utils_q_peek_def
  nrf_wifi_utils_q_len_def nrf_wifi_utils_list_alloc_def nrf_wifi_utils_ctrl_list_alloc_def
  nrf_wifi_utils_list_add_tail_def nrf_wifi_utils_ctrl_list_add_tail_def
  nrf_wifi_utils_list_add_head_def nrf_wifi_utils_list_del_head_def
  nrf_wifi_utils_ctrl_list_del_head_def nrf_wifi_utils_list_peek_def
  nrf_wifi_utils_list_len_def

section \<open>The contract of a queue, and what follows from it\<close>

fun enq_all :: "(ptr \<Rightarrow> 'w \<Rightarrow> nrf_status \<times> 'w) \<Rightarrow> ptr list \<Rightarrow> 'w \<Rightarrow> nrf_status \<times> 'w" where
  "enq_all enq [] w = (SUCCESS, w)"
| "enq_all enq (d # ds) w =
    (let (st, w) = enq d w in if st = SUCCESS then enq_all enq ds w else (st, w))"

fun deq_n :: "('w \<Rightarrow> ptr \<times> 'w) \<Rightarrow> nat \<Rightarrow> 'w \<Rightarrow> ptr list \<times> 'w" where
  "deq_n deq 0 w = ([], w)"
| "deq_n deq (Suc n) w = (let (d, w) = deq w; (ds, w) = deq_n deq n w in (d # ds, w))"

locale nrf_queue =
  fixes ok :: "'w \<Rightarrow> bool"
    and cont :: "'w \<Rightarrow> ptr \<Rightarrow> ptr list option"
    and enq :: "ptr \<Rightarrow> ptr \<Rightarrow> 'w \<Rightarrow> nrf_status \<times> 'w"
    and deq :: "ptr \<Rightarrow> 'w \<Rightarrow> ptr \<times> 'w"
  assumes enq_law: "ok w \<Longrightarrow> cont w q = Some xs \<Longrightarrow> enq q d w = (st, w') \<Longrightarrow>
      ok w' \<and> cont w' = (if st = SUCCESS then (cont w)(q \<mapsto> xs @ [d]) else cont w)"
    and deq_law: "ok w \<Longrightarrow> cont w q = Some xs \<Longrightarrow> deq q w = (d, w') \<Longrightarrow>
      ok w' \<and> cont w' = (cont w)(q \<mapsto> tl xs) \<and> d = (if xs = [] then NULL else hd xs)"
begin

lemma enq_all_cont:
  assumes "ok w" "cont w q = Some xs" "enq_all (enq q) ds w = (SUCCESS, w')"
  shows "ok w' \<and> cont w' = (cont w)(q \<mapsto> xs @ ds)"
  using assms
proof (induction ds arbitrary: w xs)
  case Nil
  then show ?case by (simp add: fun_upd_idem)
next
  case (Cons d ds)
  obtain st w1 where e: "enq q d w = (st, w1)" by fastforce
  with Cons.prems have st: "st = SUCCESS" and rest: "enq_all (enq q) ds w1 = (SUCCESS, w')"
    by (cases st; simp)+
  from enq_law [OF Cons.prems(1,2) e] st
  have "ok w1" and c1: "cont w1 = (cont w)(q \<mapsto> xs @ [d])" by simp_all
  from Cons.IH [OF this(1) _ rest, of "xs @ [d]"] c1 show ?case by (simp add: fun_eq_iff)
qed

lemma deq_n_cont:
  assumes "ok w" "cont w q = Some xs" "deq_n (deq q) n w = (ds, w')" "n \<le> length xs"
  shows "ok w' \<and> cont w' = (cont w)(q \<mapsto> drop n xs) \<and> ds = take n xs"
  using assms
proof (induction n arbitrary: w xs ds)
  case 0
  then show ?case by (simp add: fun_upd_idem)
next
  case (Suc n)
  obtain d w1 where e: "deq q w = (d, w1)" by fastforce
  obtain ds1 w2 where r: "deq_n (deq q) n w1 = (ds1, w2)" by fastforce
  from Suc.prems e r have eq: "ds = d # ds1" "w' = w2" by simp_all
  from Suc.prems(4) have ne: "xs \<noteq> []" by auto
  from deq_law [OF Suc.prems(1,2) e] ne
  have w1: "ok w1" "cont w1 = (cont w)(q \<mapsto> tl xs)" "d = hd xs" by simp_all
  have "ok w2 \<and> cont w2 = (cont w1)(q \<mapsto> drop n (tl xs)) \<and> ds1 = take n (tl xs)"
    using Suc.IH [of w1 "tl xs" ds1] r eq w1(1,2) Suc.prems(4) by (simp add: fun_eq_iff)
  with w1 eq ne show ?case by (cases xs) (simp_all add: fun_eq_iff)
qed

lemma fifo:
  assumes "ok w" "cont w q = Some []" "enq_all (enq q) ds w = (SUCCESS, w1)"
    and "deq_n (deq q) (length ds) w1 = (rs, w2)"
  shows "rs = ds \<and> cont w2 q = Some []"
  using enq_all_cont [OF assms(1-3)] deq_n_cont [of w1 q ds "length ds" rs w2] assms(4) by simp

end

section \<open>What the OS documents of its linked lists\<close>

text \<open>\<open>nds w l\<close> is the node sequence of the initialised list \<open>l\<close>, \<open>loose w n\<close> says that
  node \<open>n\<close> is allocated and on no list.\<close>

locale osal_llist =
  fixes os :: "'w llist_ops"
    and ok :: "'w \<Rightarrow> bool"
    and nds :: "'w \<Rightarrow> ptr \<Rightarrow> ptr list option"
    and loose :: "'w \<Rightarrow> ptr \<Rightarrow> bool"
  assumes nodes_wf: "ok w \<Longrightarrow> nds w l = Some ns \<Longrightarrow> distinct ns \<and> NULL \<notin> set ns"
    and nodes_disj: "ok w \<Longrightarrow> nds w l = Some ns \<Longrightarrow> nds w l' = Some ns' \<Longrightarrow> l \<noteq> l' \<Longrightarrow>
      set ns \<inter> set ns' = {}"
    and loose_wf: "ok w \<Longrightarrow> loose w n \<Longrightarrow> n \<noteq> NULL \<and> (\<forall>l ns. nds w l = Some ns \<longrightarrow> n \<notin> set ns)"
    and node_alloc_law: "ok w \<Longrightarrow> f \<in> {llist_node_alloc os, ctrl_llist_node_alloc os} \<Longrightarrow>
      f w = (n, w') \<Longrightarrow> ok w' \<and> nds w' = nds w \<and> (n \<noteq> NULL \<longrightarrow> loose w' n) \<and>
      (\<forall>l ns. nds w l = Some ns \<longrightarrow> (\<forall>m \<in> set ns.
        llist_node_data_get os m w' = llist_node_data_get os m w))"
    and data_set_law: "ok w \<Longrightarrow> loose w n \<Longrightarrow> w' = llist_node_data_set os n d w \<Longrightarrow>
      ok w' \<and> nds w' = nds w \<and> loose w' n \<and> llist_node_data_get os n w' = d \<and>
      (\<forall>m. m \<noteq> n \<longrightarrow> llist_node_data_get os m w' = llist_node_data_get os m w)"
    and add_tail_law: "ok w \<Longrightarrow> loose w n \<Longrightarrow> nds w l = Some ns \<Longrightarrow>
      w' = llist_add_node_tail os l n w \<Longrightarrow>
      ok w' \<and> nds w' = (nds w)(l \<mapsto> ns @ [n]) \<and>
      (\<forall>m. llist_node_data_get os m w' = llist_node_data_get os m w)"
    and add_head_law: "ok w \<Longrightarrow> loose w n \<Longrightarrow> nds w l = Some ns \<Longrightarrow>
      w' = llist_add_node_head os l n w \<Longrightarrow>
      ok w' \<and> nds w' = (nds w)(l \<mapsto> n # ns) \<and>
      (\<forall>m. llist_node_data_get os m w' = llist_node_data_get os m w)"
    and head_law: "ok w \<Longrightarrow> nds w l = Some ns \<Longrightarrow>
      llist_get_node_head os l w = (if ns = [] then NULL else hd ns)"
    and nxt_law: "ok w \<Longrightarrow> nds w l = Some (xs @ n # ys) \<Longrightarrow>
      llist_get_node_nxt os l n w = (if ys = [] then NULL else hd ys)"
    and del_law: "ok w \<Longrightarrow> nds w l = Some ns \<Longrightarrow> n \<in> set ns \<Longrightarrow>
      w' = llist_del_node os l n w \<Longrightarrow>
      ok w' \<and> nds w' = (nds w)(l \<mapsto> remove1 n ns) \<and> loose w' n \<and>
      (\<forall>m. llist_node_data_get os m w' = llist_node_data_get os m w)"
    and node_free_law: "ok w \<Longrightarrow> loose w n \<Longrightarrow> g \<in> {llist_node_free os, ctrl_llist_node_free os} \<Longrightarrow>
      w' = g n w \<Longrightarrow> ok w' \<and> nds w' = nds w \<and>
      (\<forall>m. m \<noteq> n \<longrightarrow> llist_node_data_get os m w' = llist_node_data_get os m w)"
    and len_law: "ok w \<Longrightarrow> nds w l = Some ns \<Longrightarrow> llist_len os l w = of_nat (length ns)"
    and alloc_law: "ok w \<Longrightarrow> f \<in> {llist_alloc os, ctrl_llist_alloc os} \<Longrightarrow>
      f w = (l, w') \<Longrightarrow> l \<noteq> NULL \<Longrightarrow> w'' = llist_init os l w' \<Longrightarrow>
      ok w'' \<and> nds w l = None \<and> nds w'' = (nds w)(l \<mapsto> []) \<and>
      (\<forall>l ns. nds w l = Some ns \<longrightarrow> (\<forall>m \<in> set ns.
        llist_node_data_get os m w'' = llist_node_data_get os m w))"
begin

text \<open>The contents of a list are the data pointers of its nodes.\<close>

definition cont :: "'w \<Rightarrow> ptr \<Rightarrow> ptr list option" where
  "cont w l = map_option (map (\<lambda>n. llist_node_data_get os n w)) (nds w l)"

lemma cont_SomeE:
  assumes "cont w l = Some xs"
  obtains ns where "nds w l = Some ns" "xs = map (\<lambda>n. llist_node_data_get os n w) ns"
  using assms by (auto simp: cont_def)

lemma cont_same:
  assumes "nds w' = nds w"
    and "\<forall>l ns. nds w l = Some ns \<longrightarrow> (\<forall>m \<in> set ns.
      llist_node_data_get os m w' = llist_node_data_get os m w)"
  shows "cont w' = cont w"
  using assms by (auto simp: cont_def fun_eq_iff map_option_case split: option.splits)

lemma enq_with:
  assumes ok: "ok w" and c: "cont w q = Some xs"
    and f: "f \<in> {llist_node_alloc os, ctrl_llist_node_alloc os}"
    and r: "(st, w') = (let (n, w) = f w
       in if n = NULL then (FAIL, w)
          else let w = llist_node_data_set os n d w; w = llist_add_node_tail os q n w
               in (SUCCESS, w))"
  shows "ok w' \<and> cont w' = (if st = SUCCESS then (cont w)(q \<mapsto> xs @ [d]) else cont w)"
proof -
  obtain n w1 where a: "f w = (n, w1)" by fastforce
  note al = node_alloc_law [OF ok f a]
  then have same: "cont w1 = cont w" by (intro cont_same) auto
  show ?thesis
  proof (cases "n = NULL")
    case True
    with a r al same show ?thesis by simp
  next
    case False
    obtain ns where ns: "nds w q = Some ns"
        "xs = map (\<lambda>n. llist_node_data_get os n w) ns"
      using c by (rule cont_SomeE)
    define w2 where "w2 = llist_node_data_set os n d w1"
    define w3 where "w3 = llist_add_node_tail os q n w2"
    from False al have lo: "loose w1 n" and ok1: "ok w1" and nds1: "nds w1 = nds w" by auto
    note ds = data_set_law [OF ok1 lo w2_def]
    then have ad: "ok w3 \<and> nds w3 = (nds w)(q \<mapsto> ns @ [n]) \<and>
        (\<forall>m. llist_node_data_get os m w3 = llist_node_data_get os m w2)"
      using add_tail_law [of w2 n q ns w3] ns nds1 by (simp add: w3_def)
    have notin: "\<And>l ms m. nds w l = Some ms \<Longrightarrow> m \<in> set ms \<Longrightarrow> m \<noteq> n"
      using loose_wf [OF ok1 lo] nds1 by auto
    have "cont w3 = (cont w)(q \<mapsto> xs @ [d])"
    proof
      fix l
      show "cont w3 l = ((cont w)(q \<mapsto> xs @ [d])) l"
      proof (cases "l = q")
        case True
        then show ?thesis
          using ad ds al ns notin by (auto simp: cont_def)
      next
        case False
        then show ?thesis
          using ad ds al notin by (cases "nds w l") (auto simp: cont_def)
      qed
    qed
    moreover from r a False have "st = SUCCESS" "w' = w3"
      by (simp_all add: w2_def w3_def Let_def)
    ultimately show ?thesis using ad by simp
  qed
qed

lemma deq_with:
  assumes ok: "ok w" and c: "cont w q = Some xs"
    and g: "g \<in> {llist_node_free os, ctrl_llist_node_free os}"
    and r: "(d, w') = (let n = llist_get_node_head os q w
       in if n = NULL then (NULL, w)
          else let d = llist_node_data_get os n w; w = llist_del_node os q n w; w = g n w
               in (d, w))"
  shows "ok w' \<and> cont w' = (cont w)(q \<mapsto> tl xs) \<and> d = (if xs = [] then NULL else hd xs)"
proof -
  obtain ns where ns: "nds w q = Some ns" "xs = map (\<lambda>n. llist_node_data_get os n w) ns"
    using c by (rule cont_SomeE)
  note wf = nodes_wf [OF ok ns(1)]
  show ?thesis
  proof (cases ns)
    case Nil
    with ns c r head_law [OF ok ns(1)] ok show ?thesis by (simp add: fun_upd_idem)
  next
    case (Cons n ms)
    with wf head_law [OF ok ns(1)] have h: "llist_get_node_head os q w = n" "n \<noteq> NULL" by auto
    define w1 where "w1 = llist_del_node os q n w"
    have dl: "ok w1 \<and> nds w1 = (nds w)(q \<mapsto> ms) \<and> loose w1 n \<and>
        (\<forall>m. llist_node_data_get os m w1 = llist_node_data_get os m w)"
      using del_law [OF ok ns(1) _ w1_def] Cons by simp
    from r h have w': "w' = g n w1" and d: "d = llist_node_data_get os n w"
      by (simp_all add: w1_def Let_def)
    have fr: "ok w' \<and> nds w' = nds w1 \<and>
        (\<forall>m. m \<noteq> n \<longrightarrow> llist_node_data_get os m w' = llist_node_data_get os m w1)"
      using node_free_law [of w1 n g w'] dl g w' by blast
    have notin: "\<And>l ks m. nds w1 l = Some ks \<Longrightarrow> m \<in> set ks \<Longrightarrow> m \<noteq> n"
      using loose_wf [of w1 n] dl by auto
    have "cont w' l = ((cont w)(q \<mapsto> tl xs)) l" for l
    proof (cases "l = q")
      case True
      then show ?thesis
        using fr dl ns notin [of q ms] Cons by (auto simp: cont_def)
    next
      case False
      with notin [of l] dl have "\<And>ks. nds w l = Some ks \<Longrightarrow> n \<notin> set ks" by auto
      with False show ?thesis
        using fr dl by (cases "nds w l") (auto simp: cont_def)
    qed
    then show ?thesis using fr dl d ns Cons by (auto simp: fun_eq_iff)
  qed
qed

lemma q_enqueue_law:
  "ok w \<Longrightarrow> cont w q = Some xs \<Longrightarrow> nrf_wifi_utils_q_enqueue os q d w = (st, w') \<Longrightarrow>
   ok w' \<and> cont w' = (if st = SUCCESS then (cont w)(q \<mapsto> xs @ [d]) else cont w)"
  by (rule enq_with [of w q xs "llist_node_alloc os"]) (auto simp: queue_defs)

lemma ctrl_q_enqueue_law:
  "ok w \<Longrightarrow> cont w q = Some xs \<Longrightarrow> nrf_wifi_utils_ctrl_q_enqueue os q d w = (st, w') \<Longrightarrow>
   ok w' \<and> cont w' = (if st = SUCCESS then (cont w)(q \<mapsto> xs @ [d]) else cont w)"
  by (rule enq_with [of w q xs "ctrl_llist_node_alloc os"]) (auto simp: queue_defs)

lemma q_dequeue_law:
  "ok w \<Longrightarrow> cont w q = Some xs \<Longrightarrow> nrf_wifi_utils_q_dequeue os q w = (d, w') \<Longrightarrow>
   ok w' \<and> cont w' = (cont w)(q \<mapsto> tl xs) \<and> d = (if xs = [] then NULL else hd xs)"
  by (rule deq_with [of w q xs "llist_node_free os"]) (auto simp: queue_defs)

lemma ctrl_q_dequeue_law:
  "ok w \<Longrightarrow> cont w q = Some xs \<Longrightarrow> nrf_wifi_utils_ctrl_q_dequeue os q w = (d, w') \<Longrightarrow>
   ok w' \<and> cont w' = (cont w)(q \<mapsto> tl xs) \<and> d = (if xs = [] then NULL else hd xs)"
  by (rule deq_with [of w q xs "ctrl_llist_node_free os"]) (auto simp: queue_defs)

lemma q_peek_law:
  "ok w \<Longrightarrow> cont w q = Some xs \<Longrightarrow>
   nrf_wifi_utils_q_peek os q w = (if xs = [] then NULL else hd xs)"
proof (erule cont_SomeE)
  fix ns
  assume ok: "ok w" and ns: "nds w q = Some ns" "xs = map (\<lambda>n. llist_node_data_get os n w) ns"
  show ?thesis
    using nodes_wf [OF ok ns(1)] head_law [OF ok ns(1)] ns(2)
    by (cases ns) (auto simp: queue_defs)
qed

lemma q_len_law:
  "ok w \<Longrightarrow> cont w q = Some xs \<Longrightarrow> nrf_wifi_utils_q_len os q w = of_nat (length xs)"
  by (auto simp: queue_defs len_law elim!: cont_SomeE)

text \<open>Deleting by data walks the whole list, taking the successor before the node may go.\<close>

lemma del_node_loop:
  assumes "ok w" "nds w l = Some (xs @ ys)"
  shows "\<exists>w'. list_del_node_loop os l d (if ys = [] then NULL else hd ys) w = Some w' \<and> ok w' \<and>
    nds w' = (nds w)(l \<mapsto> xs @ filter (\<lambda>n. llist_node_data_get os n w \<noteq> d) ys) \<and>
    (\<forall>m. m \<notin> {n \<in> set ys. llist_node_data_get os n w = d} \<longrightarrow>
      llist_node_data_get os m w' = llist_node_data_get os m w)"
  using assms
proof (induction ys arbitrary: xs w)
  case Nil
  then show ?case
    by (subst list_del_node_loop.simps) (auto simp: fun_upd_idem)
next
  case (Cons n ys)
  note wf = nodes_wf [OF Cons.prems]
  have nx: "llist_get_node_nxt os l n w = (if ys = [] then NULL else hd ys)"
    by (rule nxt_law [OF Cons.prems])
  show ?case
  proof (cases "llist_node_data_get os n w = d")
    case False
    with Cons.IH [of w "xs @ [n]"] Cons.prems wf nx show ?thesis
      by (subst list_del_node_loop.simps) (auto simp: Let_def fun_eq_iff)
  next
    case True
    define w1 where "w1 = llist_del_node os l n w"
    define w2 where "w2 = llist_node_free os n w1"
    from wf have rem: "remove1 n (xs @ n # ys) = xs @ ys"
      by (simp add: remove1_append)
    have dl: "ok w1" "nds w1 = (nds w)(l \<mapsto> xs @ ys)" "loose w1 n"
        "\<And>m. llist_node_data_get os m w1 = llist_node_data_get os m w"
      using del_law [OF Cons.prems(1,2) _ w1_def] rem by auto
    have fr: "ok w2" "nds w2 = nds w1"
        "\<And>m. m \<noteq> n \<Longrightarrow> llist_node_data_get os m w2 = llist_node_data_get os m w1"
      using node_free_law [OF dl(1,3), of "llist_node_free os" w2] by (auto simp: w2_def)
    have same: "\<And>m. m \<in> set ys \<Longrightarrow> llist_node_data_get os m w2 = llist_node_data_get os m w"
      using fr(3) dl(4) wf by fastforce
    then have fil: "filter (\<lambda>n. llist_node_data_get os n w2 \<noteq> d) ys
        = filter (\<lambda>n. llist_node_data_get os n w \<noteq> d) ys"
      by (auto intro: filter_cong)
    have n2: "nds w2 l = Some (xs @ ys)" using fr dl by simp
    obtain w' where w': "list_del_node_loop os l d (if ys = [] then NULL else hd ys) w2 = Some w'"
        "ok w'" "nds w' = (nds w2)(l \<mapsto> xs @ filter (\<lambda>n. llist_node_data_get os n w2 \<noteq> d) ys)"
        "\<forall>m. m \<notin> {n \<in> set ys. llist_node_data_get os n w2 = d} \<longrightarrow>
           llist_node_data_get os m w' = llist_node_data_get os m w2"
      using Cons.IH [OF fr(1) n2] by blast
    have step: "list_del_node_loop os l d n w
        = list_del_node_loop os l d (if ys = [] then NULL else hd ys) w2"
      using wf True nx by (subst list_del_node_loop.simps) (simp add: Let_def w1_def w2_def)
    have "llist_node_data_get os m w' = llist_node_data_get os m w"
      if "m \<notin> {k \<in> set (n # ys). llist_node_data_get os k w = d}" for m
      using that True w'(4) same fr(3) dl(4) by (metis (mono_tags, lifting) list.set_intros mem_Collect_eq)
    with w' step fil fr(2) dl(2) True show ?thesis by (auto simp: fun_eq_iff)
  qed
qed

lemma list_del_node_law:
  assumes ok: "ok w" and c: "cont w l = Some ds"
  shows "\<exists>w'. nrf_wifi_utils_list_del_node os l d w = Some w' \<and> ok w' \<and>
    cont w' = (cont w)(l \<mapsto> filter (\<lambda>x. x \<noteq> d) ds)"
proof -
  obtain ns where ns: "nds w l = Some ns" "ds = map (\<lambda>n. llist_node_data_get os n w) ns"
    using c by (rule cont_SomeE)
  obtain w' where w': "list_del_node_loop os l d (if ns = [] then NULL else hd ns) w = Some w'"
      "ok w'" "nds w' = (nds w)(l \<mapsto> filter (\<lambda>n. llist_node_data_get os n w \<noteq> d) ns)"
      "\<forall>m. m \<notin> {n \<in> set ns. llist_node_data_get os n w = d} \<longrightarrow>
         llist_node_data_get os m w' = llist_node_data_get os m w"
    using del_node_loop [of w l "[]" ns d] ok ns by auto
  have "cont w' k = ((cont w)(l \<mapsto> filter (\<lambda>x. x \<noteq> d) ds)) k" for k
  proof (cases "k = l")
    case True
    then show ?thesis
      using w' ns by (simp add: cont_def filter_map o_def)
  next
    case False
    have "m \<notin> set ns" if "nds w k = Some ks" "m \<in> set ks" for m ks
      using nodes_disj [OF ok that(1) ns(1) False] that(2) by auto
    with False show ?thesis
      using w' by (cases "nds w k") (auto simp: cont_def)
  qed
  then have "cont w' = (cont w)(l \<mapsto> filter (\<lambda>x. x \<noteq> d) ds)" by (rule ext)
  with w' head_law [OF ok ns(1)] show ?thesis
    by (simp add: nrf_wifi_utils_list_del_node_def)
qed

end

sublocale osal_llist \<subseteq> data_q: nrf_queue ok cont "nrf_wifi_utils_q_enqueue os" "nrf_wifi_utils_q_dequeue os"
  by unfold_locales (blast dest: q_enqueue_law q_dequeue_law)+

sublocale osal_llist \<subseteq> ctrl_q: nrf_queue ok cont "nrf_wifi_utils_ctrl_q_enqueue os" "nrf_wifi_utils_ctrl_q_dequeue os"
  by unfold_locales (blast dest: ctrl_q_enqueue_law ctrl_q_dequeue_law)+

context osal_llist
begin

lemma q_fifo_nodes:
  assumes "ok w" "nds w q = Some []"
    and "enq_all (nrf_wifi_utils_q_enqueue os q) ds w = (SUCCESS, w1)"
    and "deq_n (nrf_wifi_utils_q_dequeue os q) (length ds) w1 = (rs, w2)"
  shows "rs = ds \<and> nds w2 q = Some []"
proof -
  have c: "cont w q = Some []" using assms(2) by (simp add: cont_def)
  show ?thesis
    using data_q.fifo [OF assms(1) c assms(3,4)] by (auto simp: cont_def)
qed

lemma del_node_nodes:
  assumes "ok w" "nds w l = Some ns"
  shows "\<exists>w'. nrf_wifi_utils_list_del_node os l d w = Some w' \<and>
    nds w' = (nds w)(l \<mapsto> filter (\<lambda>n. llist_node_data_get os n w \<noteq> d) ns)"
  using del_node_loop [of w l "[]" ns d] head_law [OF assms] assms
  by (auto simp: nrf_wifi_utils_list_del_node_def)

end

section \<open>A heap of nodes\<close>

text \<open>An instance of the primitives: a bump allocator with a budget, node sequences per list
  and a data word per node.\<close>

record lheap =
  lh_nodes :: "ptr \<Rightarrow> ptr list option"
  lh_data :: "ptr \<Rightarrow> ptr"
  lh_loose :: "ptr \<Rightarrow> bool"
  lh_next :: nat
  lh_budget :: nat

fun succ_of :: "ptr \<Rightarrow> ptr list \<Rightarrow> ptr" where
  "succ_of n [] = NULL"
| "succ_of n (m # ms) = (if m = n then (if ms = [] then NULL else hd ms) else succ_of n ms)"

definition lh_alloc_list :: "lheap \<Rightarrow> ptr \<times> lheap" where
  "lh_alloc_list h = (if lh_budget h = 0 then (NULL, h)
     else (lh_next h, h\<lparr>lh_next := lh_next h + 1, lh_budget := lh_budget h - 1\<rparr>))"

definition lh_alloc_node :: "lheap \<Rightarrow> ptr \<times> lheap" where
  "lh_alloc_node h = (if lh_budget h = 0 then (NULL, h)
     else (lh_next h, h\<lparr>lh_next := lh_next h + 1, lh_budget := lh_budget h - 1,
       lh_loose := (lh_loose h)(lh_next h := True)\<rparr>))"

definition lh_free_node :: "ptr \<Rightarrow> lheap \<Rightarrow> lheap" where
  "lh_free_node n h = h\<lparr>lh_loose := (lh_loose h)(n := False), lh_budget := lh_budget h + 1\<rparr>"

definition lh_add :: "(ptr list \<Rightarrow> ptr list) \<Rightarrow> ptr \<Rightarrow> ptr \<Rightarrow> lheap \<Rightarrow> lheap" where
  "lh_add f l n h = h\<lparr>lh_nodes := (lh_nodes h)(l := map_option f (lh_nodes h l)),
     lh_loose := (lh_loose h)(n := False)\<rparr>"

definition lheap_ops :: "lheap llist_ops" where
  "lheap_ops = \<lparr>llist_alloc = lh_alloc_list, ctrl_llist_alloc = lh_alloc_list,
     llist_init = (\<lambda>l h. h\<lparr>lh_nodes := (lh_nodes h)(l \<mapsto> [])\<rparr>),
     llist_free = (\<lambda>l h. h\<lparr>lh_nodes := (lh_nodes h)(l := None)\<rparr>),
     ctrl_llist_free = (\<lambda>l h. h\<lparr>lh_nodes := (lh_nodes h)(l := None)\<rparr>),
     llist_node_alloc = lh_alloc_node, ctrl_llist_node_alloc = lh_alloc_node,
     llist_node_free = lh_free_node, ctrl_llist_node_free = lh_free_node,
     llist_node_data_get = (\<lambda>n h. lh_data h n),
     llist_node_data_set = (\<lambda>n d h. h\<lparr>lh_data := (lh_data h)(n := d)\<rparr>),
     llist_add_node_tail = (\<lambda>l n. lh_add (\<lambda>ns. ns @ [n]) l n),
     llist_add_node_head = (\<lambda>l n. lh_add (\<lambda>ns. n # ns) l n),
     llist_get_node_head = (\<lambda>l h. case lh_nodes h l of Some (n # _) \<Rightarrow> n | _ \<Rightarrow> NULL),
     llist_get_node_nxt = (\<lambda>l n h. case lh_nodes h l of Some ns \<Rightarrow> succ_of n ns | None \<Rightarrow> NULL),
     llist_del_node = (\<lambda>l n h. h\<lparr>lh_nodes := (lh_nodes h)(l := map_option (remove1 n) (lh_nodes h l)),
       lh_loose := (lh_loose h)(n := True)\<rparr>),
     llist_len = (\<lambda>l h. case lh_nodes h l of Some ns \<Rightarrow> of_nat (length ns) | None \<Rightarrow> 0)\<rparr>"

definition lh_ok :: "lheap \<Rightarrow> bool" where
  "lh_ok h = (0 < lh_next h \<and> (\<forall>n. lh_loose h n \<longrightarrow> 0 < n \<and> n < lh_next h)
    \<and> (\<forall>l ns. lh_nodes h l = Some ns \<longrightarrow> l < lh_next h \<and> distinct ns \<and>
         (\<forall>n \<in> set ns. 0 < n \<and> n < lh_next h \<and> \<not> lh_loose h n))
    \<and> (\<forall>l l' ns ns'. lh_nodes h l = Some ns \<longrightarrow> lh_nodes h l' = Some ns' \<longrightarrow> l \<noteq> l' \<longrightarrow>
         set ns \<inter> set ns' = {}))"

definition lh_init :: "nat \<Rightarrow> lheap" where
  "lh_init b = \<lparr>lh_nodes = (\<lambda>_. None), lh_data = (\<lambda>_. 0), lh_loose = (\<lambda>_. False),
     lh_next = 1, lh_budget = b\<rparr>"

lemma succ_of_mid: "distinct (xs @ n # ys) \<Longrightarrow> succ_of n (xs @ n # ys) = (if ys = [] then NULL else hd ys)"
  by (induction xs) auto

lemmas lheap_defs = lheap_ops_def lh_alloc_list_def lh_alloc_node_def lh_free_node_def lh_add_def

lemma lh_okD:
  assumes "lh_ok h"
  shows "0 < lh_next h" "lh_loose h n \<Longrightarrow> 0 < n \<and> n < lh_next h"
    "lh_nodes h l = Some ns \<Longrightarrow> l < lh_next h \<and> distinct ns"
    "lh_nodes h l = Some ns \<Longrightarrow> n \<in> set ns \<Longrightarrow> 0 < n \<and> n < lh_next h \<and> \<not> lh_loose h n"
    "lh_nodes h l = Some ns \<Longrightarrow> lh_nodes h l' = Some ns' \<Longrightarrow> l \<noteq> l' \<Longrightarrow> set ns \<inter> set ns' = {}"
    "lh_nodes h l = Some ns \<Longrightarrow> lh_nodes h l' = Some ns' \<Longrightarrow> n \<in> set ns \<Longrightarrow> n \<in> set ns' \<Longrightarrow> l = l'"
  using assms unfolding lh_ok_def by blast+

lemma lh_okI:
  assumes "0 < lh_next h" "\<And>n. lh_loose h n \<Longrightarrow> 0 < n \<and> n < lh_next h"
    "\<And>l ns. lh_nodes h l = Some ns \<Longrightarrow> l < lh_next h \<and> distinct ns"
    "\<And>l ns n. lh_nodes h l = Some ns \<Longrightarrow> n \<in> set ns \<Longrightarrow> 0 < n \<and> n < lh_next h \<and> \<not> lh_loose h n"
    "\<And>l l' ns ns' n. lh_nodes h l = Some ns \<Longrightarrow> lh_nodes h l' = Some ns' \<Longrightarrow>
      n \<in> set ns \<Longrightarrow> n \<in> set ns' \<Longrightarrow> l = l'"
  shows "lh_ok h"
  using assms unfolding lh_ok_def by blast

lemma lh_ok_alloc_node:
  "lh_ok h \<Longrightarrow> lh_alloc_node h = (n, h') \<Longrightarrow> lh_ok h' \<and> lh_nodes h' = lh_nodes h \<and>
   (n \<noteq> NULL \<longrightarrow> lh_loose h' n) \<and> lh_data h' = lh_data h"
proof (cases "lh_budget h = 0")
  case False
  assume ok: "lh_ok h" and a: "lh_alloc_node h = (n, h')"
  with False have h': "n = lh_next h" "h' = h\<lparr>lh_next := lh_next h + 1, lh_budget := lh_budget h - 1,
       lh_loose := (lh_loose h)(lh_next h := True)\<rparr>"
    by (auto simp: lh_alloc_node_def)
  have "lh_ok h'"
    using lh_okD(1) [OF ok] unfolding h'(2)
    by (intro lh_okI) (auto split: if_splits dest: lh_okD(2-4) [OF ok] lh_okD(6) [OF ok])
  then show ?thesis using h' by simp
qed (auto simp: lh_alloc_node_def)

lemma lh_ok_add:
  assumes ok: "lh_ok h" and lo: "lh_loose h n" and ns: "lh_nodes h l = Some ns"
    and f: "\<And>xs. distinct xs \<Longrightarrow> n \<notin> set xs \<Longrightarrow> distinct (f xs) \<and> set (f xs) = insert n (set xs)"
  shows "lh_ok (lh_add f l n h)"
proof -
  have nin: "n \<notin> set ks" if "lh_nodes h k = Some ks" for k ks
    using lh_okD(4) [OF ok that, of n] lo by auto
  have fs: "distinct (f ns) \<and> set (f ns) = insert n (set ns)"
    using f lh_okD(3) [OF ok ns] nin [OF ns] by blast
  show ?thesis
    unfolding lh_ok_def
    using lh_okD(1) [OF ok] lh_okD(2) [OF ok] lh_okD(3) [OF ok] lh_okD(4) [OF ok] lh_okD(5) [OF ok]
      lo ns fs nin
    by (auto simp: lh_add_def split: if_splits)
qed

lemma lh_ok_del:
  assumes ok: "lh_ok h" and ns: "lh_nodes h l = Some ns" and n: "n \<in> set ns"
  shows "lh_ok (h\<lparr>lh_nodes := (lh_nodes h)(l := map_option (remove1 n) (lh_nodes h l)),
       lh_loose := (lh_loose h)(n := True)\<rparr>)"
proof -
  have nin: "n \<notin> set ks" if "lh_nodes h k = Some ks" "k \<noteq> l" for k ks
    using lh_okD(5) [OF ok that(1) ns that(2)] n by auto
  have rs: "distinct (remove1 n ns)" "set (remove1 n ns) = set ns - {n}"
    using lh_okD(3) [OF ok ns] by auto
  show ?thesis
    using lh_okD(1) [OF ok] lh_okD(3,4) [OF ok ns] ns n rs
    by (intro lh_okI) (auto split: if_splits dest: lh_okD(2-4) [OF ok] lh_okD(6) [OF ok] nin)
qed

lemma lh_ok_free: "lh_ok h \<Longrightarrow> lh_ok (lh_free_node n h)"
  unfolding lh_ok_def lh_free_node_def by auto

lemma lh_ok_init_list:
  "lh_ok h \<Longrightarrow> lh_alloc_list h = (l, h') \<Longrightarrow> l \<noteq> NULL \<Longrightarrow>
   lh_ok (h'\<lparr>lh_nodes := (lh_nodes h')(l \<mapsto> [])\<rparr>) \<and> lh_nodes h l = None \<and>
   lh_nodes h' = lh_nodes h \<and> lh_data h' = lh_data h"
proof -
  assume ok: "lh_ok h" and a: "lh_alloc_list h = (l, h')" and l: "l \<noteq> NULL"
  then have h': "l = lh_next h" "h' = h\<lparr>lh_next := lh_next h + 1, lh_budget := lh_budget h - 1\<rparr>"
    by (auto simp: lh_alloc_list_def split: if_splits)
  have none: "lh_nodes h l = None"
    using lh_okD(3) [OF ok, of l] h'(1) by (cases "lh_nodes h l") auto
  have "lh_ok (h'\<lparr>lh_nodes := (lh_nodes h')(l \<mapsto> [])\<rparr>)"
  proof (intro lh_okI, goal_cases)
    case (5 k k' ks ks' n)
    then show ?case
      using lh_okD(6) [OF ok, of k ks k' ks' n] h'(2) by (auto split: if_splits)
  qed (use h' lh_okD(1) [OF ok] in \<open>auto split: if_splits dest: lh_okD(2-4) [OF ok]\<close>)
  with none h' show ?thesis by simp
qed

interpretation lh: osal_llist lheap_ops lh_ok lh_nodes lh_loose
proof (unfold_locales, goal_cases)
  case 1 then show ?case using lh_okD(3,4) by blast
next
  case 2 then show ?case using lh_okD(5) by blast
next
  case 3 then show ?case using lh_okD(2,4) by blast
next
  case (4 w f n w')
  then have "lh_alloc_node w = (n, w')" by (auto simp: lheap_ops_def)
  with lh_ok_alloc_node [of w n w'] 4 show ?case by (simp add: lheap_ops_def)
next
  case 5 then show ?case by (auto simp: lheap_ops_def lh_ok_def)
next
  case (6 w n l ns w')
  then show ?case
    using lh_ok_add [of w n l ns "\<lambda>ns. ns @ [n]"] by (auto simp: lheap_ops_def lh_add_def)
next
  case (7 w n l ns w')
  then show ?case
    using lh_ok_add [of w n l ns "\<lambda>ns. n # ns"] by (auto simp: lheap_ops_def lh_add_def)
next
  case 8 then show ?case by (auto simp: lheap_ops_def split: list.splits)
next
  case (9 w l xs n ys)
  then show ?case using lh_okD(3) [OF 9] by (simp add: lheap_ops_def succ_of_mid)
next
  case (10 w l ns n w')
  then show ?case using lh_ok_del [of w l ns n] by (auto simp: lheap_ops_def)
next
  case (11 w n g w') then show ?case
    using lh_ok_free by (auto simp: lheap_ops_def lh_free_node_def)
next
  case 12 then show ?case by (auto simp: lheap_ops_def)
next
  case (13 w f l w' w'')
  then show ?case using lh_ok_init_list [of w l w'] by (auto simp: lheap_ops_def)
qed

lemma lh_init_ok [simp]: "lh_ok (lh_init b)"
  by (simp add: lh_ok_def lh_init_def)

section \<open>Properties\<close>

text \<open>C18 Over any OS lists that behave as documented, the driver's queue is first in, first out:
  when every one of a sequence of enqueues on an empty queue succeeds, the same number of
  dequeues hands the data back in the order of the enqueues and leaves the queue empty.\<close>

theorem q_fifo:
  assumes "osal_llist os ok nds loose" "ok w" "nds w q = Some []"
    and "enq_all (nrf_wifi_utils_q_enqueue os q) ds w = (SUCCESS, w1)"
    and "deq_n (nrf_wifi_utils_q_dequeue os q) (length ds) w1 = (rs, w2)"
  shows "rs = ds \<and> nds w2 q = Some []"
  by (rule osal_llist.q_fifo_nodes [OF assms])

definition lh_demo :: lheap where
  "lh_demo = snd (nrf_wifi_utils_q_alloc lheap_ops (lh_init 9))"

lemma lh_demo_eq: "lh_demo = \<lparr>lh_nodes = [1 \<mapsto> []], lh_data = (\<lambda>_. 0), lh_loose = (\<lambda>_. False),
    lh_next = 2, lh_budget = 8\<rparr>"
  by (simp add: lh_demo_def queue_defs lheap_defs lh_init_def)

lemma lh_demo_ok: "lh_ok lh_demo"
  by (simp add: lh_ok_def lh_demo_eq)

lemma lh_demo_run:
  "\<exists>w1 w2. enq_all (nrf_wifi_utils_q_enqueue lheap_ops 1) [7, 5, 7] lh_demo = (SUCCESS, w1) \<and>
    deq_n (nrf_wifi_utils_q_dequeue lheap_ops 1) 3 w1 = ([7, 5, 7], w2)"
  by (simp add: lh_demo_eq queue_defs lheap_defs eval_nat_numeral)

theorem q_fifo_witness:
  "\<exists>w1 w2. enq_all (nrf_wifi_utils_q_enqueue lheap_ops 1) [7, 5, 7] lh_demo = (SUCCESS, w1) \<and>
    deq_n (nrf_wifi_utils_q_dequeue lheap_ops 1) 3 w1 = ([7, 5, 7], w2) \<and> lh_nodes w2 1 = Some []"
proof -
  obtain w1 w2 where r: "enq_all (nrf_wifi_utils_q_enqueue lheap_ops 1) [7, 5, 7] lh_demo = (SUCCESS, w1)"
      "deq_n (nrf_wifi_utils_q_dequeue lheap_ops 1) 3 w1 = ([7, 5, 7], w2)"
    using lh_demo_run by blast
  have "lh_nodes lh_demo 1 = Some []" by (simp add: lh_demo_eq)
  moreover have "deq_n (nrf_wifi_utils_q_dequeue lheap_ops 1) (length [7::ptr, 5, 7]) w1 = ([7, 5, 7], w2)"
    using r(2) by (simp only: numeral_3_eq_3 list.size add_Suc_right add_0_right)
  ultimately have "lh_nodes w2 1 = Some []"
    using q_fifo [OF lh.osal_llist_axioms lh_demo_ok _ r(1)] by blast
  with r show ?thesis by blast
qed

text \<open>Deleting by data always ends, although it unlinks nodes while it walks the list: it
  removes exactly the nodes that hold the given data, keeps the order of the others and touches no
  other list.\<close>

theorem list_del_node_total:
  assumes "osal_llist os ok nds loose" "ok w" "nds w l = Some ns"
  shows "\<exists>w'. nrf_wifi_utils_list_del_node os l d w = Some w' \<and>
    nds w' = (nds w)(l \<mapsto> filter (\<lambda>n. llist_node_data_get os n w \<noteq> d) ns)"
  by (rule osal_llist.del_node_nodes [OF assms])

theorem list_del_node_total_witness:
  "\<exists>w'. nrf_wifi_utils_list_del_node lheap_ops 1 7
      (snd (enq_all (nrf_wifi_utils_q_enqueue lheap_ops 1) [7, 5, 7] lh_demo)) = Some w' \<and>
    lh_nodes w' 1 = Some [3]"
proof -
  define w where "w = snd (enq_all (nrf_wifi_utils_q_enqueue lheap_ops 1) [7, 5, 7] lh_demo)"
  have w: "w = \<lparr>lh_nodes = [1 \<mapsto> [2, 3, 4]], lh_data = (\<lambda>_. 0)(2 := 7, 3 := 5, 4 := 7),
      lh_loose = (\<lambda>_. False), lh_next = 5, lh_budget = 5\<rparr>"
    by (simp add: w_def lh_demo_eq queue_defs lheap_defs eval_nat_numeral fun_eq_iff)
  have "lh_ok w" by (simp add: w lh_ok_def)
  moreover have "lh_nodes w 1 = Some [2, 3, 4]" by (simp add: w)
  ultimately obtain w' where d: "nrf_wifi_utils_list_del_node lheap_ops 1 7 w = Some w'"
      "lh_nodes w' = (lh_nodes w)(1 \<mapsto> filter (\<lambda>n. llist_node_data_get lheap_ops n w \<noteq> 7) [2, 3, 4])"
    using list_del_node_total [OF lh.osal_llist_axioms, of w 1 "[2, 3, 4]" 7] by blast
  have "lh_nodes w' 1 = Some [3]"
    unfolding d(2) by (simp add: w lheap_ops_def)
  with d(1) show ?thesis unfolding w_def by blast
qed

end
