(* ===== verification/Util.thy ===== *)
theory Util
  imports Nrf_Prelude
begin

text \<open>\<open>utils/src/util.c\<close>: hex strings, MAC addresses and channel numbers.
  A C string is the list of its bytes without the terminator, so
  \<open>nrf_wifi_osal_strlen\<close> is \<open>length\<close>; an output array is a list that is
  returned updated.\<close>

section \<open>Hex strings\<close>

text \<open>One iteration of the loop computes the lower-case character, then its value.\<close>

definition hex_lower :: "u8 \<Rightarrow> u8" where
  "hex_lower c = (if 0x41 \<le> c \<and> c \<le> 0x5A then c + 32 else c)"

definition hex_char_ok :: "u8 \<Rightarrow> bool" where
  "hex_char_ok ch = (\<not> ((ch < 0x30 \<or> 0x39 < ch) \<and> (ch < 0x61 \<or> 0x66 < ch)))"

definition hex_char_val :: "u8 \<Rightarrow> u8" where
  "hex_char_val ch = (if 0x30 \<le> ch \<and> ch \<le> 0x39 then ch - 0x30 else ch - 0x61 + 10)"

fun hex_loop :: "u8 list \<Rightarrow> nat \<Rightarrow> nat \<Rightarrow> u8 \<Rightarrow> u8 list \<Rightarrow> int \<times> u8 list" where
  "hex_loop [] i j val arr = (int j, arr)"
| "hex_loop (c # cs) i j val arr =
    (let ch = hex_lower c in
     if \<not> hex_char_ok ch then (- 1, arr)
     else let val' = val + hex_char_val ch in
       if i mod 2 = 0 then hex_loop cs (i + 1) j (push_bit 4 val') arr
       else hex_loop cs (i + 1) (j + 1) 0 (arr[j := val']))"

definition nrf_wifi_utils_hex_str_to_val :: "u8 list \<Rightarrow> nat \<Rightarrow> u8 list \<Rightarrow> int \<times> u8 list" where
  "nrf_wifi_utils_hex_str_to_val hex_arr hex_arr_sz str =
    (let len = length str in
     if len div 2 > hex_arr_sz then (- 1, hex_arr)
     else if len mod 2 \<noteq> 0 then (- 1, hex_arr)
     else hex_loop str 0 0 0 hex_arr)"

text \<open>Reference: the value of a digit pair, and the printer it inverts.\<close>

definition hex_digit :: "u8 \<Rightarrow> u8" where
  "hex_digit n = (if n < 10 then n + 0x30 else n - 10 + 0x61)"

definition hex_print :: "u8 list \<Rightarrow> u8 list" where
  "hex_print bs = concat (map (\<lambda>b. [hex_digit (drop_bit 4 b), hex_digit (b AND 0xF)]) bs)"

fun hex_decode :: "u8 list \<Rightarrow> u8 list" where
  "hex_decode (a # b # cs) =
     (push_bit 4 (hex_char_val (hex_lower a)) + hex_char_val (hex_lower b)) # hex_decode cs"
| "hex_decode _ = []"

definition hex_ok :: "u8 list \<Rightarrow> bool" where
  "hex_ok str = list_all (\<lambda>c. hex_char_ok (hex_lower c)) str"

lemma hex_decode_length: "even (length cs) \<Longrightarrow> length (hex_decode cs) = length cs div 2"
  by (induction cs rule: hex_decode.induct) auto

lemma hex_loop_ok:
  assumes "hex_ok cs" "even (length cs)" "even i" "j + length cs div 2 \<le> length arr"
  shows "hex_loop cs i j 0 arr
    = (int (j + length cs div 2),
       take j arr @ hex_decode cs @ drop (j + length cs div 2) arr)"
  using assms
proof (induction cs arbitrary: i j arr rule: hex_decode.induct)
  case (1 a b cs)
  let ?v = "push_bit 4 (hex_char_val (hex_lower a)) + hex_char_val (hex_lower b)"
  from 1 have ok: "hex_char_ok (hex_lower a)" "hex_char_ok (hex_lower b)" "hex_ok cs"
    and ev: "even (length cs)" "even (i + 2)" and len: "j < length arr"
      "Suc j + length cs div 2 \<le> length (arr[j := ?v])"
    by (auto simp: hex_ok_def)
  have "take (Suc j) (arr[j := ?v]) = take j arr @ [?v]"
    using len by (simp add: take_Suc_conv_app_nth)
  moreover have "drop (Suc j + length cs div 2) (arr[j := ?v]) = drop (Suc j + length cs div 2) arr"
    by simp
  ultimately show ?case
    using 1 ok ev len by (simp add: even_iff_mod_2_eq_zero mod_Suc)
qed auto

lemma hex_loop_bad:
  "\<not> hex_ok cs \<Longrightarrow> fst (hex_loop cs i j v arr) = - 1"
  by (induction cs arbitrary: i j v arr) (auto simp: hex_ok_def Let_def)

lemma hex_loop_arr_length: "length (snd (hex_loop cs i j v arr)) = length arr"
  by (induction cs arbitrary: i j v arr) (auto simp: Let_def)

lemma hex_digit_vals:
  "list_all (\<lambda>n. hex_char_ok (hex_lower (hex_digit n))
      \<and> hex_char_val (hex_lower (hex_digit n)) = n) (map word_of_nat [0..<16])"
  by code_simp

lemma hex_digit_val:
  assumes "n < 16"
  shows "hex_char_ok (hex_lower (hex_digit n)) \<and> hex_char_val (hex_lower (hex_digit n)) = n"
proof -
  have "unat n < 16" using assms by (simp add: word_less_nat_alt)
  then have "n \<in> set (map word_of_nat [0..<16])"
    by (auto intro: image_eqI [of _ _ "unat n"])
  with hex_digit_vals show ?thesis
    by (simp only: list_all_iff)
qed

lemma nibble_lt: "drop_bit 4 (b::u8) < 16" "(b AND 0xF) < (16::u8)"
proof -
  have b: "unat b < 256"
    using unsigned_less [of b] by simp
  have "unat (drop_bit 4 b) < 16"
    unfolding unat_drop_bit_eq using b by (simp add: drop_bit_eq_div)
  then show "drop_bit 4 (b::u8) < 16" by (simp add: word_less_nat_alt)
  have "b AND 0xF = take_bit 4 b"
    by (simp add: take_bit_eq_mask mask_numeral)
  then show "(b AND 0xF) < (16::u8)"
    using take_bit_nat_less_exp [of 4 "unat b"]
    by (simp add: word_less_nat_alt unsigned_take_bit_eq)
qed

lemma nibbles_join: "push_bit 4 (drop_bit 4 b) + (b AND 0xF) = (b::u8)"
proof -
  have "b AND 0xF = take_bit 4 b"
    by (simp add: take_bit_eq_mask mask_numeral)
  then show ?thesis
    by (metis bits_ident)
qed

lemma hex_print_ok: "hex_ok (hex_print bs)"
  by (induction bs) (auto simp: hex_ok_def hex_print_def hex_digit_val nibble_lt)

lemma hex_decode_print: "hex_decode (hex_print bs) = bs"
  by (induction bs) (auto simp: hex_print_def hex_digit_val nibble_lt nibbles_join)

lemma hex_print_length: "length (hex_print bs) = 2 * length bs"
  by (induction bs) (auto simp: hex_print_def)

lemma hex_str_ok:
  assumes "hex_ok str" "even (length str)" "length str div 2 \<le> sz" "sz \<le> length arr"
  shows "nrf_wifi_utils_hex_str_to_val arr sz str
    = (int (length str div 2), hex_decode str @ drop (length str div 2) arr)"
  using assms hex_loop_ok [of str 0 0 arr]
  by (simp add: nrf_wifi_utils_hex_str_to_val_def Let_def even_iff_mod_2_eq_zero)

section \<open>MAC addresses\<close>

text \<open>The pointer argument is \<open>None\<close> when it is NULL; \<open>memcmp\<close> with the six zero
  bytes decides whether the address is all zero.\<close>

abbreviation NRF_WIFI_ETH_ADDR_LEN :: nat where "NRF_WIFI_ETH_ADDR_LEN \<equiv> 6"

definition nrf_wifi_utils_is_mac_addr_valid :: "u8 list option \<Rightarrow> bool" where
  "nrf_wifi_utils_is_mac_addr_valid mac_addr = (case mac_addr of
     None \<Rightarrow> False
   | Some m \<Rightarrow> take NRF_WIFI_ETH_ADDR_LEN m \<noteq> replicate NRF_WIFI_ETH_ADDR_LEN 0
       \<and> \<not> ((m ! 0) AND 0x1 \<noteq> 0))"

section \<open>Channels\<close>

datatype nrf_wifi_band =
  NRF_WIFI_BAND_2GHZ | NRF_WIFI_BAND_5GHZ | NRF_WIFI_BAND_60GHZ | NRF_WIFI_BAND_INVALID

definition valid_5g_chans :: "u16 list" where
  "valid_5g_chans = [32, 36, 40, 44, 48, 52, 56, 60, 64, 68, 96, 100, 104,
     108, 112, 116, 120, 124, 128, 132, 136, 140, 144, 149, 153, 157, 159, 161, 163,
     165, 167, 169, 171, 173, 175, 177]"

fun chan_5g_loop :: "u16 list \<Rightarrow> u16 \<Rightarrow> int" where
  "chan_5g_loop [] chan = - 1"
| "chan_5g_loop (c # cs) chan =
    (if chan = c then uint chan * 5 + 5000 else chan_5g_loop cs chan)"

fun nrf_wifi_utils_chan_to_freq :: "nrf_wifi_band \<Rightarrow> u16 \<Rightarrow> int" where
  "nrf_wifi_utils_chan_to_freq NRF_WIFI_BAND_2GHZ chan =
    (if 1 \<le> chan \<and> chan \<le> 13 then (uint chan - 1) * 5 + 2412
     else if chan = 14 then 2484 else - 1)"
| "nrf_wifi_utils_chan_to_freq NRF_WIFI_BAND_5GHZ chan = chan_5g_loop valid_5g_chans chan"
| "nrf_wifi_utils_chan_to_freq _ chan = - 1"

lemma chan_5g_loop_eq:
  "chan_5g_loop cs chan = (if chan \<in> set cs then uint chan * 5 + 5000 else - 1)"
  by (induction cs) auto

definition chan_valid :: "nrf_wifi_band \<Rightarrow> u16 \<Rightarrow> bool" where
  "chan_valid band chan = (case band of
     NRF_WIFI_BAND_2GHZ \<Rightarrow> 1 \<le> chan \<and> chan \<le> 14
   | NRF_WIFI_BAND_5GHZ \<Rightarrow> chan \<in> set valid_5g_chans
   | _ \<Rightarrow> False)"

lemma u16_uint_le: "(a::u16) \<le> b \<longleftrightarrow> uint a \<le> uint b"
  by (rule word_le_def)

lemma chan_le_14: "(chan::u16) \<le> 14 \<longleftrightarrow> chan \<le> 13 \<or> chan = 14"
  unfolding u16_uint_le word_uint_eq_iff by auto

lemma chan_13_not_14: "(chan::u16) \<le> 13 \<Longrightarrow> chan \<noteq> 14"
  unfolding u16_uint_le word_uint_eq_iff by auto

lemma freq_2g:
  "nrf_wifi_utils_chan_to_freq NRF_WIFI_BAND_2GHZ chan
    = (if chan_valid NRF_WIFI_BAND_2GHZ chan
       then if chan = 14 then 2484 else 2407 + 5 * uint chan else - 1)"
proof (cases "chan \<le> 13")
  case True
  then show ?thesis
    using chan_13_not_14 [OF True] by (simp add: chan_valid_def chan_le_14 algebra_simps)
next
  case False
  then show ?thesis
    by (cases "chan = 14") (simp_all add: chan_valid_def chan_le_14)
qed

lemma freq_5g:
  "nrf_wifi_utils_chan_to_freq NRF_WIFI_BAND_5GHZ chan
    = (if chan_valid NRF_WIFI_BAND_5GHZ chan then 5000 + 5 * uint chan else - 1)"
  by (simp add: chan_5g_loop_eq chan_valid_def)

lemma valid_5g_range: "chan \<in> set valid_5g_chans \<Longrightarrow> 32 \<le> uint chan \<and> uint chan \<le> 177"
  by (auto simp: valid_5g_chans_def)

text \<open>C27 Parsing the hexadecimal text of any byte string returns the number of bytes and
  stores exactly those bytes at the front of the array, leaving the rest of it alone: the parser
  inverts the printer for every array that is large enough.\<close>

theorem hex_str_round_trip:
  assumes "length bs \<le> sz" "sz \<le> length arr"
  shows "nrf_wifi_utils_hex_str_to_val arr sz (hex_print bs)
    = (int (length bs), bs @ drop (length bs) arr)"
  using assms
  by (simp add: hex_str_ok hex_print_ok hex_print_length hex_decode_print)

theorem hex_str_round_trip_witness:
  "nrf_wifi_utils_hex_str_to_val [0, 0, 7] 3 (hex_print [0xAB, 0x01]) = (2, [0xAB, 0x01, 7])"
  using hex_str_round_trip [of "[0xAB, 0x01]" 3 "[0, 0, 7]"] by simp

end
