(* ===== verification/Osal.thy ===== *)
theory Osal
  imports Nrf_Prelude
begin

text \<open>The environment below the driver: \<open>os_if\<close>, whose functions hand every call to
  the operations table of the OS (\<open>os_if/src/osal.c\<close>), and the device behind the bus. Neither
  is part of the repository, so they are a parameter \<open>os\<close> of the model: a record of response
  functions, each of which may depend on everything the driver did so far. What the driver did is
  the trace, a list of events with the newest first, that every call extends.\<close>

section \<open>Events and responses\<close>

datatype os_lock = LOCK_HAL | LOCK_RX | LOCK_PS | LOCK_RECOVERY | LOCK_TX

datatype os_tasklet = TASKLET_EVENT | TASKLET_RECOVERY | TASKLET_TX_DONE

datatype os_obj =
    OBJ_HAL_PRIV | OBJ_HAL_DEV | OBJ_BAL_PRIV | OBJ_BAL_DEV | OBJ_BUS_PRIV | OBJ_BUS_DEV
  | OBJ_OS_BUS | OBJ_OS_BUS_DEV | OBJ_CMD_Q | OBJ_EVENT_Q | OBJ_LOCK os_lock
  | OBJ_TASKLET os_tasklet | OBJ_PS_TIMER | OBJ_RX_BUF_INFO nat | OBJ_TX_BUF_INFO
  | OBJ_CMD | OBJ_HAL_MSG | OBJ_EVENT | OBJ_EVENT_DATA | OBJ_FW_CHUNK | OBJ_Q_NODE | OBJ_MAC_DEV
  | OBJ_FMAC_PRIV | OBJ_FMAC_DEV | OBJ_VIF_CTX | OBJ_FMAC_RX_INFO | OBJ_FMAC_TX_INFO
  | OBJ_PENDING_Q nat nat | OBJ_COALESCE | OBJ_PKT_INFO | OBJ_PKT_LIST nat | OBJ_BUF_POOL_BMP
  | OBJ_WAKEUP_Q | OBJ_REG_INFO | OBJ_REG_CHANGE | OBJ_UMAC_CMD | OBJ_WIPHY_INFO | OBJ_TX_PWR_CEIL
  | OBJ_RX_BUF_LIST

text \<open>The callbacks of the layer above (\<open>struct nrf_wifi_fmac_callbk_fns\<close>) that the data path and
  the event handling invoke.\<close>

datatype fmac_cb =
    CB_rpu_recovery | CB_scan_start | CB_scan_done | CB_scan_abort
  | CB_scan_res | CB_disp_scan_res | CB_rx_bcn_prb_resp | CB_event_get_reg
  | CB_set_if | CB_if_carr_state_chg | CB_rx_frm | CB_auth_resp
  | CB_assoc_resp | CB_deauth | CB_disassoc | CB_mgmt_rx
  | CB_unprot_mlme_mgmt_rx | CB_tx_pwr_get | CB_chnl_get
  | CB_cookie_rsp | CB_tx_status | CB_roc | CB_roc_cancel
  | CB_get_station | CB_get_interface | CB_mgmt_tx_status | CB_twt_config
  | CB_twt_teardown | CB_event_get_wiphy | CB_twt_sleep | CB_event_get_ps_info
  | CB_get_conn_info | CB_process_rssi_from_rx | CB_sniffer | CB_reg_change

text \<open>A network buffer as the driver sees it through the accessors of the OS: its handle, the
  address and the bytes of its data area, its priority and its checksum flag.\<close>

record nbuf =
  nb_ptr :: u32
  nb_data_ptr :: u32
  nb_data :: "u8 list"
  nb_priority :: u8
  nb_chksum_done :: bool

datatype io =
    IoRead32 u32 u32 | IoWrite32 u32 u32
  | IoReadBlock u32 nat | IoWriteBlock u32 "u8 list"
  | IoPsWake | IoPsSleep | IoPsStatus u32
  | IoLock os_lock | IoUnlock os_lock
  | IoTimerSchedule u32 | IoTimerKill
  | IoTaskletSchedule os_tasklet | IoTaskletKill os_tasklet
  | IoDelayUs u32 | IoSleepMs u32
  | IoCurrUs u32 | IoCurrMs u32 | IoElapsedUs u32 | IoElapsedMs u32
  | IoAlloc os_obj bool | IoFree os_obj
  | IoHostMap u32 | IoBusDevInit nrf_status | IoBusDevDeinit | IoIntrReg nrf_status | IoIntrUnreg
  | IoIntrCallback "u8 list" nrf_status | IoRecoveryCallback nrf_status
  | IoNbufAlloc "u32 option" | IoNbufFree u32 | IoFmacCallback fmac_cb u8 "u8 list"

record os =
  os_alloc :: "io list \<Rightarrow> os_obj \<Rightarrow> bool"
  os_read32 :: "io list \<Rightarrow> u32 \<Rightarrow> u32"
  os_readb :: "io list \<Rightarrow> u32 \<Rightarrow> nat \<Rightarrow> u8"
  os_ps_status :: "io list \<Rightarrow> u32"
  os_curr_us :: "io list \<Rightarrow> u32"
  os_curr_ms :: "io list \<Rightarrow> u32"
  os_elapsed_us :: "io list \<Rightarrow> u32 \<Rightarrow> u32"
  os_elapsed_ms :: "io list \<Rightarrow> u32 \<Rightarrow> u32"
  os_host_map :: "io list \<Rightarrow> u32"
  os_bus_dev_init :: "io list \<Rightarrow> nrf_status"
  os_intr_reg :: "io list \<Rightarrow> nrf_status"
  os_nbuf_alloc :: "io list \<Rightarrow> u32 \<Rightarrow> nbuf option"
  os_nbuf_put :: "u8 list \<Rightarrow> nbuf \<Rightarrow> nbuf"
  os_nbuf_pull :: "nat \<Rightarrow> nbuf \<Rightarrow> nbuf"
  os_nbuf_push :: "nat \<Rightarrow> nbuf \<Rightarrow> nbuf"
  os_host_byte :: "u32 \<Rightarrow> u8"

record world =
  w_trace :: "io list"

abbreviation emit :: "io \<Rightarrow> 'a world_scheme \<Rightarrow> 'a world_scheme" where
  "emit e s \<equiv> s\<lparr>w_trace := e # w_trace s\<rparr>"

section \<open>The OSAL calls\<close>

definition osal_alloc :: "os \<Rightarrow> os_obj \<Rightarrow> 'a world_scheme \<Rightarrow> bool \<times> 'a world_scheme" where
  "osal_alloc os x s = (let ok = os_alloc os (w_trace s) x in (ok, emit (IoAlloc x ok) s))"

definition osal_time_get_curr_us :: "os \<Rightarrow> 'a world_scheme \<Rightarrow> u32 \<times> 'a world_scheme" where
  "osal_time_get_curr_us os s = (let t = os_curr_us os (w_trace s) in (t, emit (IoCurrUs t) s))"

definition osal_time_get_curr_ms :: "os \<Rightarrow> 'a world_scheme \<Rightarrow> u32 \<times> 'a world_scheme" where
  "osal_time_get_curr_ms os s = (let t = os_curr_ms os (w_trace s) in (t, emit (IoCurrMs t) s))"

definition osal_time_elapsed_us :: "os \<Rightarrow> u32 \<Rightarrow> 'a world_scheme \<Rightarrow> u32 \<times> 'a world_scheme" where
  "osal_time_elapsed_us os t0 s =
    (let t = os_elapsed_us os (w_trace s) t0 in (t, emit (IoElapsedUs t) s))"

definition osal_time_elapsed_ms :: "os \<Rightarrow> u32 \<Rightarrow> 'a world_scheme \<Rightarrow> u32 \<times> 'a world_scheme" where
  "osal_time_elapsed_ms os t0 s =
    (let t = os_elapsed_ms os (w_trace s) t0 in (t, emit (IoElapsedMs t) s))"

definition osal_nbuf_alloc :: "os \<Rightarrow> u32 \<Rightarrow> 'a world_scheme \<Rightarrow> nbuf option \<times> 'a world_scheme" where
  "osal_nbuf_alloc os n s =
    (let r = os_nbuf_alloc os (w_trace s) n in (r, emit (IoNbufAlloc (map_option nb_ptr r)) s))"

lemmas osal_defs = osal_nbuf_alloc_def osal_alloc_def osal_time_get_curr_us_def osal_time_get_curr_ms_def
  osal_time_elapsed_us_def osal_time_elapsed_ms_def

section \<open>What a trace shows\<close>

text \<open>The locks that are held, and whether the device is known to be awake: the last thing
  it was seen to do is to report the ready state, and it was not put to sleep since.\<close>

definition ps_ready :: "u32 \<Rightarrow> bool" where
  "ps_ready v = (v AND 6 = 6)"

fun held :: "io list \<Rightarrow> os_lock list" where
  "held [] = []"
| "held (IoLock l # tr) = l # held tr"
| "held (IoUnlock l # tr) = remove1 l (held tr)"
| "held (_ # tr) = held tr"

fun awake :: "io list \<Rightarrow> bool" where
  "awake [] = False"
| "awake (IoPsStatus v # tr) = ps_ready v"
| "awake (IoPsSleep # tr) = False"
| "awake (_ # tr) = awake tr"

fun bus_access :: "io \<Rightarrow> bool" where
  "bus_access (IoRead32 _ _) = True"
| "bus_access (IoWrite32 _ _) = True"
| "bus_access (IoReadBlock _ _) = True"
| "bus_access (IoWriteBlock _ _) = True"
| "bus_access _ = False"

text \<open>The bus accesses of a trace, newest first.\<close>

definition accs :: "io list \<Rightarrow> io list" where
  "accs tr = filter bus_access tr"

lemma accs_Nil [simp]: "accs [] = []"
  by (simp add: accs_def)

lemma accs_Cons [simp]: "accs (e # tr) = (if bus_access e then e # accs tr else accs tr)"
  by (simp add: accs_def)

text \<open>\<open>ev_ok b e tr\<close>: event \<open>e\<close> is legal after \<open>tr\<close>. No lock is taken twice or released without
  being held, and, when \<open>b\<close> says that the firmware runs, the bus is not touched while the
  device may sleep.\<close>

fun ev_ok :: "bool \<Rightarrow> io \<Rightarrow> io list \<Rightarrow> bool" where
  "ev_ok b (IoLock l) tr = (l \<notin> set (held tr))"
| "ev_ok b (IoUnlock l) tr = (l \<in> set (held tr))"
| "ev_ok b e tr = (b \<and> bus_access e \<longrightarrow> awake tr)"

fun ext_ok :: "bool \<Rightarrow> io list \<Rightarrow> io list \<Rightarrow> bool" where
  "ext_ok b [] tr = True"
| "ext_ok b (e # es) tr = (ev_ok b e (es @ tr) \<and> ext_ok b es tr)"

lemma ext_ok_append [simp]:
  "ext_ok b (xs @ ys) tr = (ext_ok b ys tr \<and> ext_ok b xs (ys @ tr))"
  by (induction xs) auto

text \<open>A trace that grows legally and leaves the same locks held.\<close>

definition legal :: "bool \<Rightarrow> io list \<Rightarrow> io list \<Rightarrow> bool" where
  "legal b tr tr' = (\<exists>es. tr' = es @ tr \<and> ext_ok b es tr \<and> held tr' = held tr)"

text \<open>The events of the network buffers and of the callbacks, which belong to the FMAC, newest
  first.\<close>

fun host_event :: "io \<Rightarrow> bool" where
  "host_event (IoNbufAlloc _) = True"
| "host_event (IoNbufFree _) = True"
| "host_event (IoFmacCallback _ _ _) = True"
| "host_event _ = False"

definition host_evs :: "io list \<Rightarrow> io list" where
  "host_evs tr = filter host_event tr"

lemma host_evs_simps [simp]:
  "host_evs [] = []" "host_evs (e # tr) = (if host_event e then e # host_evs tr else host_evs tr)"
  by (simp_all add: host_evs_def)

text \<open>What the HAL does to a trace: it grows legally and without such an event.\<close>

definition grows :: "bool \<Rightarrow> io list \<Rightarrow> io list \<Rightarrow> bool" where
  "grows b tr tr' = (legal b tr tr' \<and> host_evs tr' = host_evs tr)"

lemma legal_refl [simp, intro]: "legal b tr tr"
  by (simp add: legal_def)

lemma legal_trans: "legal b t1 t2 \<Longrightarrow> legal b t2 t3 \<Longrightarrow> legal b t1 t3"
  unfolding legal_def by (metis append_assoc ext_ok_append)

lemma legal_held: "legal b tr tr' \<Longrightarrow> held tr' = held tr"
  by (auto simp: legal_def)

lemma grows_legal: "grows b tr tr' \<Longrightarrow> legal b tr tr'"
  by (simp add: grows_def)

lemma grows_host_evs: "grows b tr tr' \<Longrightarrow> host_evs tr' = host_evs tr"
  by (simp add: grows_def)

lemma grows_refl [simp, intro]: "grows b tr tr"
  by (simp add: grows_def)

lemma grows_trans: "grows b t1 t2 \<Longrightarrow> grows b t2 t3 \<Longrightarrow> grows b t1 t3"
  unfolding grows_def using legal_trans by auto

lemma grows_held: "grows b tr tr' \<Longrightarrow> held tr' = held tr"
  by (auto simp: grows_def dest: legal_held)

lemma grows_bI: "(b \<Longrightarrow> grows True tr tr') \<Longrightarrow> (\<not> b \<Longrightarrow> grows False tr tr') \<Longrightarrow> grows b tr tr'"
  by (cases b) auto

text \<open>Events of the HAL that touch neither a lock nor the bus nor the power state.\<close>

fun quiet :: "io \<Rightarrow> bool" where
  "quiet (IoLock _) = False"
| "quiet (IoUnlock _) = False"
| "quiet (IoPsSleep) = False"
| "quiet (IoPsStatus _) = False"
| "quiet e = (\<not> bus_access e \<and> \<not> host_event e)"

lemma quiet_simps:
  "quiet e \<Longrightarrow> held (e # tr) = held tr" "quiet e \<Longrightarrow> awake (e # tr) = awake tr"
  "quiet e \<Longrightarrow> ev_ok b e tr"
  by (cases e; simp)+

lemma quiet_host: "quiet e \<Longrightarrow> \<not> host_event e"
  by (cases e) auto

lemma legal_event: "ev_ok b e t2 \<Longrightarrow> held (e # t2) = held t2 \<Longrightarrow> legal b t1 t2 \<Longrightarrow> legal b t1 (e # t2)"
  unfolding legal_def by (metis append_Cons ext_ok.simps(2))

lemma legal_host_event: "host_event e \<Longrightarrow> legal b t1 t2 \<Longrightarrow> legal b t1 (e # t2)"
  by (rule legal_event; cases e; simp)

lemma grows_quiet: "quiet e \<Longrightarrow> grows b t1 t2 \<Longrightarrow> grows b t1 (e # t2)"
  unfolding grows_def using legal_event quiet_simps(1,3) quiet_host by auto

lemma grows_power: "e = IoPsSleep \<or> e = IoPsStatus v \<Longrightarrow> grows b t1 t2 \<Longrightarrow> grows b t1 (e # t2)"
  unfolding grows_def using legal_event by auto

lemma grows_access:
  "bus_access e \<Longrightarrow> (b \<Longrightarrow> awake t2) \<Longrightarrow> grows b t1 t2 \<Longrightarrow> grows b t1 (e # t2)"
  unfolding grows_def by (cases e) (auto intro: legal_event)

lemma legal_lock:
  assumes "l \<notin> set (held tr)" "legal b (IoLock l # tr) tr'"
  shows "legal b tr (IoUnlock l # tr')"
proof -
  obtain es where es: "tr' = es @ IoLock l # tr" "ext_ok b es (IoLock l # tr)"
      "held tr' = l # held tr"
    using assms(2) by (auto simp: legal_def)
  have "IoUnlock l # tr' = (IoUnlock l # es @ [IoLock l]) @ tr" using es(1) by simp
  moreover have "ext_ok b (IoUnlock l # es @ [IoLock l]) tr"
    using es assms(1) by simp
  moreover have "held (IoUnlock l # tr') = held tr" using es(3) by simp
  ultimately show ?thesis unfolding legal_def by blast
qed

lemma grows_lock:
  "l \<notin> set (held tr) \<Longrightarrow> grows b (IoLock l # tr) tr' \<Longrightarrow> grows b tr (IoUnlock l # tr')"
  by (simp add: grows_def legal_lock)

section \<open>Network buffers\<close>

text \<open>What the driver relies on of the network buffers of the OS: putting extends the data
  area at its end over the bytes that are in memory there, pulling drops bytes at its start, and
  pushing gives back room at its start that was pulled before, with unknown bytes in it.\<close>

locale os_nbufs =
  fixes os :: os
  assumes put_law: "nb_data (os_nbuf_put os bs b) = nb_data b @ bs"
    and pull_law: "n \<le> length (nb_data b) \<Longrightarrow> nb_data (os_nbuf_pull os n b) = drop n (nb_data b)"
    and push_law: "m \<le> length (nb_data b) \<Longrightarrow> n \<le> m \<Longrightarrow>
      \<exists>h. length h = n \<and> nb_data (os_nbuf_push os n (os_nbuf_pull os m b)) = h @ drop m (nb_data b)"
    and handle_law: "nb_ptr (os_nbuf_put os bs b) = nb_ptr b" "nb_ptr (os_nbuf_pull os n b) = nb_ptr b"
      "nb_ptr (os_nbuf_push os n b) = nb_ptr b"
begin

lemma push_drop:
  assumes "m \<le> length (nb_data b)" "n \<le> m"
  shows "drop n (nb_data (os_nbuf_push os n (os_nbuf_pull os m b))) = drop m (nb_data b)"
  using push_law [OF assms] by (metis append_eq_conv_conj)

end

section \<open>A clock\<close>

text \<open>What the driver relies on of time: there is a clock that advances with every call, by at
  most a second beyond what a delay asks for, and the time queries read it through a 32-bit
  counter of microseconds.\<close>

fun delay_of :: "io \<Rightarrow> nat" where
  "delay_of (IoDelayUs d) = unat d"
| "delay_of (IoSleepMs d) = 1000 * unat d"
| "delay_of _ = 0"

locale os_clock =
  fixes os :: os and now :: "io list \<Rightarrow> nat"
  assumes tick: "now tr < now (e # tr)"
    and tock: "now (e # tr) \<le> now tr + 1000000 + delay_of e"
    and curr_us_law: "os_curr_us os tr = of_nat (now tr)"
    and elapsed_us_law: "t0 \<le> now tr \<Longrightarrow>
      os_elapsed_us os tr (of_nat t0) = of_nat (now tr - t0)"
begin

lemma elapsed_unat:
  "t0 \<le> now tr \<Longrightarrow> now tr - t0 < 2 ^ 32 \<Longrightarrow> unat (os_elapsed_us os tr (of_nat t0)) = now tr - t0"
  by (subst elapsed_us_law, assumption, rule unat_of_nat_small) simp

end

text \<open>An environment with a clock: every event takes one microsecond. Memory, registers and the
  power status are given.\<close>

definition tick_os :: "(io list \<Rightarrow> os_obj \<Rightarrow> bool) \<Rightarrow> (io list \<Rightarrow> u32 \<Rightarrow> u32) \<Rightarrow> (io list \<Rightarrow> u32) \<Rightarrow> os" where
  "tick_os al rd ps = \<lparr>os_alloc = al, os_read32 = rd, os_readb = (\<lambda>tr a i. 0), os_ps_status = ps,
     os_curr_us = (\<lambda>tr. of_nat (length tr)), os_curr_ms = (\<lambda>tr. of_nat (length tr div 1000)),
     os_elapsed_us = (\<lambda>tr t0. of_nat (length tr) - t0),
     os_elapsed_ms = (\<lambda>tr t0. of_nat (length tr div 1000) - t0),
     os_host_map = (\<lambda>tr. 0x40000000), os_bus_dev_init = (\<lambda>tr. SUCCESS),
     os_intr_reg = (\<lambda>tr. SUCCESS),
     os_nbuf_alloc = (\<lambda>tr n. Some \<lparr>nb_ptr = 0x30000000 + of_nat (length tr), nb_data_ptr = 0x31000000 + of_nat (length tr),
       nb_data = [], nb_priority = 0, nb_chksum_done = False\<rparr>),
     os_nbuf_put = (\<lambda>bs b. b\<lparr>nb_data := nb_data b @ bs\<rparr>),
     os_nbuf_pull = (\<lambda>n b. b\<lparr>nb_data := drop n (nb_data b)\<rparr>),
     os_nbuf_push = (\<lambda>n b. b\<lparr>nb_data := replicate n 0 @ nb_data b\<rparr>),
     os_host_byte = (\<lambda>a. 0)\<rparr>"

interpretation tick_nbufs: os_nbufs "tick_os al rd ps"
  by unfold_locales (auto simp: tick_os_def)

interpretation tick: os_clock "tick_os al rd ps" length
  by unfold_locales (auto simp: tick_os_def)

end
