(* ===== verification/Bus.thy ===== *)
theory Bus
  imports Osal
begin

text \<open>The bus abstraction \<open>bus_if/bal/src/bal.c\<close> over the QSPI and SPI bus layers
  (\<open>bus_if/bus/qspi/src/qspi.c\<close>, \<open>bus_if/bus/spi/src/spi.c\<close>). A device context pointer
  is the state itself; a routine that returns a context or NULL returns whether it succeeded.\<close>

datatype bus_kind = BUS_QSPI | BUS_SPI

record bal = world +
  bal_bus :: bus_kind
  bus_cfg_pktram_base :: u32
  bus_host_addr_base :: u32
  bus_addr_pktram_base :: u32
  bal_fw_booted :: bool

section \<open>The QSPI bus\<close>

definition nrf_wifi_bus_qspi_dev_add :: "os \<Rightarrow> 'a bal_scheme \<Rightarrow> bool \<times> 'a bal_scheme" where
  "nrf_wifi_bus_qspi_dev_add os s =
    (let (ok, s) = osal_alloc os OBJ_BUS_DEV s in
     if \<not> ok then (False, s)
     else let (ok, s) = osal_alloc os OBJ_OS_BUS_DEV s in
       if \<not> ok then (False, emit (IoFree OBJ_BUS_DEV) s)
       else let m = os_host_map os (w_trace s);
                s = emit (IoHostMap m) s
            in (True, s\<lparr>bus_host_addr_base := m,
                        bus_addr_pktram_base := m + bus_cfg_pktram_base s\<rparr>))"

definition nrf_wifi_bus_qspi_dev_rem :: "'a bal_scheme \<Rightarrow> 'a bal_scheme" where
  "nrf_wifi_bus_qspi_dev_rem s = emit (IoFree OBJ_BUS_DEV) (emit (IoFree OBJ_OS_BUS_DEV) s)"

definition nrf_wifi_bus_qspi_dev_init :: "os \<Rightarrow> 'a bal_scheme \<Rightarrow> nrf_status \<times> 'a bal_scheme" where
  "nrf_wifi_bus_qspi_dev_init os s =
    (let st = os_intr_reg os (w_trace s);
         s = emit (IoIntrReg st) s in
     if st \<noteq> SUCCESS then (st, s)
     else let st = os_bus_dev_init os (w_trace s);
              s = emit (IoBusDevInit st) s in
       if st \<noteq> SUCCESS then (st, emit IoIntrUnreg s) else (st, s))"

definition nrf_wifi_bus_qspi_dev_deinit :: "'a bal_scheme \<Rightarrow> 'a bal_scheme" where
  "nrf_wifi_bus_qspi_dev_deinit s = emit IoBusDevDeinit (emit IoIntrUnreg s)"

definition nrf_wifi_bus_qspi_init :: "os \<Rightarrow> u32 \<Rightarrow> 'a bal_scheme \<Rightarrow> bool \<times> 'a bal_scheme" where
  "nrf_wifi_bus_qspi_init os cfg_pktram_base s =
    (let (ok, s) = osal_alloc os OBJ_BUS_PRIV s in
     if \<not> ok then (False, s)
     else let s = s\<lparr>bus_cfg_pktram_base := cfg_pktram_base\<rparr>;
              (ok, s) = osal_alloc os OBJ_OS_BUS s in
       if \<not> ok then (False, emit (IoFree OBJ_BUS_PRIV) s) else (True, s))"

definition nrf_wifi_bus_qspi_deinit :: "'a bal_scheme \<Rightarrow> 'a bal_scheme" where
  "nrf_wifi_bus_qspi_deinit s = emit (IoFree OBJ_BUS_PRIV) (emit (IoFree OBJ_OS_BUS) s)"

definition nrf_wifi_bus_qspi_read_word :: "os \<Rightarrow> u32 \<Rightarrow> 'a bal_scheme \<Rightarrow> u32 \<times> 'a bal_scheme" where
  "nrf_wifi_bus_qspi_read_word os off s =
    (let a = bus_host_addr_base s + off; v = os_read32 os (w_trace s) a
     in (v, emit (IoRead32 a v) s))"

definition nrf_wifi_bus_qspi_write_word :: "u32 \<Rightarrow> u32 \<Rightarrow> 'a bal_scheme \<Rightarrow> 'a bal_scheme" where
  "nrf_wifi_bus_qspi_write_word off v s = emit (IoWrite32 (bus_host_addr_base s + off) v) s"

definition nrf_wifi_bus_qspi_read_block ::
    "os \<Rightarrow> u32 \<Rightarrow> nat \<Rightarrow> 'a bal_scheme \<Rightarrow> u8 list \<times> 'a bal_scheme" where
  "nrf_wifi_bus_qspi_read_block os off len s =
    (let a = bus_host_addr_base s + off
     in (map (os_readb os (w_trace s) a) [0..<len], emit (IoReadBlock a len) s))"

definition nrf_wifi_bus_qspi_write_block :: "u32 \<Rightarrow> u8 list \<Rightarrow> 'a bal_scheme \<Rightarrow> 'a bal_scheme" where
  "nrf_wifi_bus_qspi_write_block off bs s = emit (IoWriteBlock (bus_host_addr_base s + off) bs) s"

definition nrf_wifi_bus_qspi_dma_map :: "u32 \<Rightarrow> 'a bal_scheme \<Rightarrow> u32" where
  "nrf_wifi_bus_qspi_dma_map virt s = bus_host_addr_base s + (virt - bus_addr_pktram_base s)"

definition nrf_wifi_bus_qspi_dma_unmap :: "u32 \<Rightarrow> 'a bal_scheme \<Rightarrow> u32" where
  "nrf_wifi_bus_qspi_dma_unmap phy s = bus_addr_pktram_base s + (phy - bus_host_addr_base s)"

definition nrf_wifi_bus_qspi_ps_sleep :: "'a bal_scheme \<Rightarrow> 'a bal_scheme" where
  "nrf_wifi_bus_qspi_ps_sleep s = emit IoPsSleep s"

definition nrf_wifi_bus_qspi_ps_wake :: "'a bal_scheme \<Rightarrow> 'a bal_scheme" where
  "nrf_wifi_bus_qspi_ps_wake s = emit IoPsWake s"

definition nrf_wifi_bus_qspi_ps_status :: "os \<Rightarrow> 'a bal_scheme \<Rightarrow> u32 \<times> 'a bal_scheme" where
  "nrf_wifi_bus_qspi_ps_status os s =
    (let v = os_ps_status os (w_trace s) in (v, emit (IoPsStatus v) s))"

section \<open>The SPI bus\<close>

text \<open>The same code but for \<open>dev_rem\<close>, which does not release the OS device.\<close>

definition nrf_wifi_bus_spi_dev_add :: "os \<Rightarrow> 'a bal_scheme \<Rightarrow> bool \<times> 'a bal_scheme" where
  "nrf_wifi_bus_spi_dev_add os s =
    (let (ok, s) = osal_alloc os OBJ_BUS_DEV s in
     if \<not> ok then (False, s)
     else let (ok, s) = osal_alloc os OBJ_OS_BUS_DEV s in
       if \<not> ok then (False, emit (IoFree OBJ_BUS_DEV) s)
       else let m = os_host_map os (w_trace s);
                s = emit (IoHostMap m) s
            in (True, s\<lparr>bus_host_addr_base := m,
                        bus_addr_pktram_base := m + bus_cfg_pktram_base s\<rparr>))"

definition nrf_wifi_bus_spi_dev_rem :: "'a bal_scheme \<Rightarrow> 'a bal_scheme" where
  "nrf_wifi_bus_spi_dev_rem s = emit (IoFree OBJ_BUS_DEV) s"

definition nrf_wifi_bus_spi_dev_init :: "os \<Rightarrow> 'a bal_scheme \<Rightarrow> nrf_status \<times> 'a bal_scheme" where
  "nrf_wifi_bus_spi_dev_init os s =
    (let st = os_intr_reg os (w_trace s);
         s = emit (IoIntrReg st) s in
     if st \<noteq> SUCCESS then (st, s)
     else let st = os_bus_dev_init os (w_trace s);
              s = emit (IoBusDevInit st) s in
       if st \<noteq> SUCCESS then (st, emit IoIntrUnreg s) else (st, s))"

definition nrf_wifi_bus_spi_dev_deinit :: "'a bal_scheme \<Rightarrow> 'a bal_scheme" where
  "nrf_wifi_bus_spi_dev_deinit s = emit IoBusDevDeinit (emit IoIntrUnreg s)"

definition nrf_wifi_bus_spi_init :: "os \<Rightarrow> u32 \<Rightarrow> 'a bal_scheme \<Rightarrow> bool \<times> 'a bal_scheme" where
  "nrf_wifi_bus_spi_init os cfg_pktram_base s =
    (let (ok, s) = osal_alloc os OBJ_BUS_PRIV s in
     if \<not> ok then (False, s)
     else let s = s\<lparr>bus_cfg_pktram_base := cfg_pktram_base\<rparr>;
              (ok, s) = osal_alloc os OBJ_OS_BUS s in
       if \<not> ok then (False, emit (IoFree OBJ_BUS_PRIV) s) else (True, s))"

definition nrf_wifi_bus_spi_deinit :: "'a bal_scheme \<Rightarrow> 'a bal_scheme" where
  "nrf_wifi_bus_spi_deinit s = emit (IoFree OBJ_BUS_PRIV) (emit (IoFree OBJ_OS_BUS) s)"

definition nrf_wifi_bus_spi_read_word :: "os \<Rightarrow> u32 \<Rightarrow> 'a bal_scheme \<Rightarrow> u32 \<times> 'a bal_scheme" where
  "nrf_wifi_bus_spi_read_word os off s =
    (let a = bus_host_addr_base s + off; v = os_read32 os (w_trace s) a
     in (v, emit (IoRead32 a v) s))"

definition nrf_wifi_bus_spi_write_word :: "u32 \<Rightarrow> u32 \<Rightarrow> 'a bal_scheme \<Rightarrow> 'a bal_scheme" where
  "nrf_wifi_bus_spi_write_word off v s = emit (IoWrite32 (bus_host_addr_base s + off) v) s"

definition nrf_wifi_bus_spi_read_block ::
    "os \<Rightarrow> u32 \<Rightarrow> nat \<Rightarrow> 'a bal_scheme \<Rightarrow> u8 list \<times> 'a bal_scheme" where
  "nrf_wifi_bus_spi_read_block os off len s =
    (let a = bus_host_addr_base s + off
     in (map (os_readb os (w_trace s) a) [0..<len], emit (IoReadBlock a len) s))"

definition nrf_wifi_bus_spi_write_block :: "u32 \<Rightarrow> u8 list \<Rightarrow> 'a bal_scheme \<Rightarrow> 'a bal_scheme" where
  "nrf_wifi_bus_spi_write_block off bs s = emit (IoWriteBlock (bus_host_addr_base s + off) bs) s"

definition nrf_wifi_bus_spi_dma_map :: "u32 \<Rightarrow> 'a bal_scheme \<Rightarrow> u32" where
  "nrf_wifi_bus_spi_dma_map virt s = bus_host_addr_base s + (virt - bus_addr_pktram_base s)"

definition nrf_wifi_bus_spi_dma_unmap :: "u32 \<Rightarrow> 'a bal_scheme \<Rightarrow> u32" where
  "nrf_wifi_bus_spi_dma_unmap phy s = bus_addr_pktram_base s + (phy - bus_host_addr_base s)"

definition nrf_wifi_bus_spi_ps_sleep :: "'a bal_scheme \<Rightarrow> 'a bal_scheme" where
  "nrf_wifi_bus_spi_ps_sleep s = emit IoPsSleep s"

definition nrf_wifi_bus_spi_ps_wake :: "'a bal_scheme \<Rightarrow> 'a bal_scheme" where
  "nrf_wifi_bus_spi_ps_wake s = emit IoPsWake s"

definition nrf_wifi_bus_spi_ps_status :: "os \<Rightarrow> 'a bal_scheme \<Rightarrow> u32 \<times> 'a bal_scheme" where
  "nrf_wifi_bus_spi_ps_status os s =
    (let v = os_ps_status os (w_trace s) in (v, emit (IoPsStatus v) s))"

section \<open>bal.c\<close>

text \<open>The operations table of a bus (\<open>struct nrf_wifi_bal_ops\<close>) and the table that the
  build configuration selects.\<close>

record 's bal_ops =
  bus_init :: "os \<Rightarrow> u32 \<Rightarrow> 's \<Rightarrow> bool \<times> 's"
  bus_deinit :: "'s \<Rightarrow> 's"
  bus_dev_add :: "os \<Rightarrow> 's \<Rightarrow> bool \<times> 's"
  bus_dev_rem :: "'s \<Rightarrow> 's"
  bus_dev_init :: "os \<Rightarrow> 's \<Rightarrow> nrf_status \<times> 's"
  bus_dev_deinit :: "'s \<Rightarrow> 's"
  bus_read_word :: "os \<Rightarrow> u32 \<Rightarrow> 's \<Rightarrow> u32 \<times> 's"
  bus_write_word :: "u32 \<Rightarrow> u32 \<Rightarrow> 's \<Rightarrow> 's"
  bus_read_block :: "os \<Rightarrow> u32 \<Rightarrow> nat \<Rightarrow> 's \<Rightarrow> u8 list \<times> 's"
  bus_write_block :: "u32 \<Rightarrow> u8 list \<Rightarrow> 's \<Rightarrow> 's"
  bus_dma_map :: "u32 \<Rightarrow> 's \<Rightarrow> u32"
  bus_dma_unmap :: "u32 \<Rightarrow> 's \<Rightarrow> u32"
  bus_ps_sleep :: "'s \<Rightarrow> 's"
  bus_ps_wake :: "'s \<Rightarrow> 's"
  bus_ps_status :: "os \<Rightarrow> 's \<Rightarrow> u32 \<times> 's"

definition nrf_wifi_bus_qspi_ops :: "'a bal_scheme bal_ops" where
  "nrf_wifi_bus_qspi_ops = \<lparr>bus_init = nrf_wifi_bus_qspi_init, bus_deinit = nrf_wifi_bus_qspi_deinit,
     bus_dev_add = nrf_wifi_bus_qspi_dev_add, bus_dev_rem = nrf_wifi_bus_qspi_dev_rem,
     bus_dev_init = nrf_wifi_bus_qspi_dev_init, bus_dev_deinit = nrf_wifi_bus_qspi_dev_deinit,
     bus_read_word = nrf_wifi_bus_qspi_read_word, bus_write_word = nrf_wifi_bus_qspi_write_word,
     bus_read_block = nrf_wifi_bus_qspi_read_block, bus_write_block = nrf_wifi_bus_qspi_write_block,
     bus_dma_map = nrf_wifi_bus_qspi_dma_map, bus_dma_unmap = nrf_wifi_bus_qspi_dma_unmap,
     bus_ps_sleep = nrf_wifi_bus_qspi_ps_sleep, bus_ps_wake = nrf_wifi_bus_qspi_ps_wake,
     bus_ps_status = nrf_wifi_bus_qspi_ps_status\<rparr>"

definition nrf_wifi_bus_spi_ops :: "'a bal_scheme bal_ops" where
  "nrf_wifi_bus_spi_ops = \<lparr>bus_init = nrf_wifi_bus_spi_init, bus_deinit = nrf_wifi_bus_spi_deinit,
     bus_dev_add = nrf_wifi_bus_spi_dev_add, bus_dev_rem = nrf_wifi_bus_spi_dev_rem,
     bus_dev_init = nrf_wifi_bus_spi_dev_init, bus_dev_deinit = nrf_wifi_bus_spi_dev_deinit,
     bus_read_word = nrf_wifi_bus_spi_read_word, bus_write_word = nrf_wifi_bus_spi_write_word,
     bus_read_block = nrf_wifi_bus_spi_read_block, bus_write_block = nrf_wifi_bus_spi_write_block,
     bus_dma_map = nrf_wifi_bus_spi_dma_map, bus_dma_unmap = nrf_wifi_bus_spi_dma_unmap,
     bus_ps_sleep = nrf_wifi_bus_spi_ps_sleep, bus_ps_wake = nrf_wifi_bus_spi_ps_wake,
     bus_ps_status = nrf_wifi_bus_spi_ps_status\<rparr>"

fun get_bus_ops :: "bus_kind \<Rightarrow> 'a bal_scheme bal_ops" where
  "get_bus_ops BUS_QSPI = nrf_wifi_bus_qspi_ops"
| "get_bus_ops BUS_SPI = nrf_wifi_bus_spi_ops"

abbreviation bal_ops_of :: "'a bal_scheme \<Rightarrow> 'a bal_scheme bal_ops" where
  "bal_ops_of s \<equiv> get_bus_ops (bal_bus s)"

definition nrf_wifi_bal_init :: "os \<Rightarrow> u32 \<Rightarrow> 'a bal_scheme \<Rightarrow> bool \<times> 'a bal_scheme" where
  "nrf_wifi_bal_init os cfg s =
    (let (ok, s) = osal_alloc os OBJ_BAL_PRIV s in
     if \<not> ok then (False, s)
     else let (ok, s) = bus_init (bal_ops_of s) os cfg s in
       if \<not> ok then (False, emit (IoFree OBJ_BAL_PRIV) s) else (True, s))"

definition nrf_wifi_bal_deinit :: "'a bal_scheme \<Rightarrow> 'a bal_scheme" where
  "nrf_wifi_bal_deinit s = emit (IoFree OBJ_BAL_PRIV) (bus_deinit (bal_ops_of s) s)"

text \<open>\<open>dev_add\<close> zero-allocates the device context, so its booted flag starts false.\<close>

definition nrf_wifi_bal_dev_add :: "os \<Rightarrow> 'a bal_scheme \<Rightarrow> bool \<times> 'a bal_scheme" where
  "nrf_wifi_bal_dev_add os s =
    (let (ok, s) = osal_alloc os OBJ_BAL_DEV s in
     if \<not> ok then (False, s)
     else let s = s\<lparr>bal_fw_booted := False\<rparr>;
              (ok, s) = bus_dev_add (bal_ops_of s) os s in
       if \<not> ok then (False, emit (IoFree OBJ_BAL_DEV) s) else (True, s))"

definition nrf_wifi_bal_dev_rem :: "'a bal_scheme \<Rightarrow> 'a bal_scheme" where
  "nrf_wifi_bal_dev_rem s = emit (IoFree OBJ_BAL_DEV) (bus_dev_rem (bal_ops_of s) s)"

definition nrf_wifi_bal_dev_init :: "os \<Rightarrow> 'a bal_scheme \<Rightarrow> nrf_status \<times> 'a bal_scheme" where
  "nrf_wifi_bal_dev_init os s =
    (let s = s\<lparr>bal_fw_booted := True\<rparr> in bus_dev_init (bal_ops_of s) os s)"

definition nrf_wifi_bal_dev_deinit :: "'a bal_scheme \<Rightarrow> 'a bal_scheme" where
  "nrf_wifi_bal_dev_deinit s = bus_dev_deinit (bal_ops_of s) s"

definition nrf_wifi_bal_read_word :: "os \<Rightarrow> u32 \<Rightarrow> 'a bal_scheme \<Rightarrow> u32 \<times> 'a bal_scheme" where
  "nrf_wifi_bal_read_word os off s = bus_read_word (bal_ops_of s) os off s"

definition nrf_wifi_bal_write_word :: "u32 \<Rightarrow> u32 \<Rightarrow> 'a bal_scheme \<Rightarrow> 'a bal_scheme" where
  "nrf_wifi_bal_write_word off v s = bus_write_word (bal_ops_of s) off v s"

definition nrf_wifi_bal_read_block ::
    "os \<Rightarrow> u32 \<Rightarrow> nat \<Rightarrow> 'a bal_scheme \<Rightarrow> u8 list \<times> 'a bal_scheme" where
  "nrf_wifi_bal_read_block os off len s = bus_read_block (bal_ops_of s) os off len s"

definition nrf_wifi_bal_write_block :: "u32 \<Rightarrow> u8 list \<Rightarrow> 'a bal_scheme \<Rightarrow> 'a bal_scheme" where
  "nrf_wifi_bal_write_block off bs s = bus_write_block (bal_ops_of s) off bs s"

definition nrf_wifi_bal_dma_map :: "u32 \<Rightarrow> 'a bal_scheme \<Rightarrow> u32" where
  "nrf_wifi_bal_dma_map virt s = bus_dma_map (bal_ops_of s) virt s"

definition nrf_wifi_bal_dma_unmap :: "u32 \<Rightarrow> 'a bal_scheme \<Rightarrow> u32" where
  "nrf_wifi_bal_dma_unmap phy s = bus_dma_unmap (bal_ops_of s) phy s"

definition nrf_wifi_bal_rpu_ps_sleep :: "'a bal_scheme \<Rightarrow> 'a bal_scheme" where
  "nrf_wifi_bal_rpu_ps_sleep s = bus_ps_sleep (bal_ops_of s) s"

definition nrf_wifi_bal_rpu_ps_wake :: "'a bal_scheme \<Rightarrow> 'a bal_scheme" where
  "nrf_wifi_bal_rpu_ps_wake s = bus_ps_wake (bal_ops_of s) s"

definition nrf_wifi_bal_rpu_ps_status :: "os \<Rightarrow> 'a bal_scheme \<Rightarrow> u32 \<times> 'a bal_scheme" where
  "nrf_wifi_bal_rpu_ps_status os s = bus_ps_status (bal_ops_of s) os s"

section \<open>What the HAL relies on of a bus\<close>

text \<open>Every access is one event at the host base plus the offset and changes nothing else, the
  power calls are one event each, and unmapping undoes mapping.\<close>

locale bal_bus_ops =
  fixes ops :: "'a bal_scheme bal_ops"
  assumes read_word_law: "bus_read_word ops os off s =
      (let a = bus_host_addr_base s + off; v = os_read32 os (w_trace s) a
       in (v, emit (IoRead32 a v) s))"
    and write_word_law: "bus_write_word ops off v s = emit (IoWrite32 (bus_host_addr_base s + off) v) s"
    and read_block_law: "bus_read_block ops os off len s =
      (let a = bus_host_addr_base s + off
       in (map (os_readb os (w_trace s) a) [0..<len], emit (IoReadBlock a len) s))"
    and write_block_law: "bus_write_block ops off bs s =
      emit (IoWriteBlock (bus_host_addr_base s + off) bs) s"
    and dma_map_law: "bus_dma_map ops v s = bus_host_addr_base s + (v - bus_addr_pktram_base s)"
    and unmap_map: "bus_dma_unmap ops (bus_dma_map ops v s) s = v"
    and map_unmap: "bus_dma_map ops (bus_dma_unmap ops v s) s = v"
    and ps_sleep_law: "bus_ps_sleep ops s = emit IoPsSleep s"
    and ps_wake_law: "bus_ps_wake ops s = emit IoPsWake s"
    and ps_status_law: "bus_ps_status ops os s =
      (let v = os_ps_status os (w_trace s) in (v, emit (IoPsStatus v) s))"
begin

lemma dma_map_inj: "bus_dma_map ops v s = bus_dma_map ops v' s \<Longrightarrow> v = v'"
  by (metis unmap_map)

lemma dma_map_shift: "bus_dma_map ops (v + d) s = bus_dma_map ops v s + d"
  by (simp add: dma_map_law)

lemma dma_unmap_shift: "bus_dma_unmap ops (p + d) s = bus_dma_unmap ops p s + d"
  by (metis dma_map_shift map_unmap unmap_map)

end

interpretation qspi: bal_bus_ops nrf_wifi_bus_qspi_ops
  by unfold_locales (simp_all add: nrf_wifi_bus_qspi_ops_def nrf_wifi_bus_qspi_read_word_def
      nrf_wifi_bus_qspi_write_word_def nrf_wifi_bus_qspi_read_block_def
      nrf_wifi_bus_qspi_write_block_def nrf_wifi_bus_qspi_dma_map_def
      nrf_wifi_bus_qspi_dma_unmap_def nrf_wifi_bus_qspi_ps_sleep_def
      nrf_wifi_bus_qspi_ps_wake_def nrf_wifi_bus_qspi_ps_status_def)

interpretation spi: bal_bus_ops nrf_wifi_bus_spi_ops
  by unfold_locales (simp_all add: nrf_wifi_bus_spi_ops_def nrf_wifi_bus_spi_read_word_def
      nrf_wifi_bus_spi_write_word_def nrf_wifi_bus_spi_read_block_def
      nrf_wifi_bus_spi_write_block_def nrf_wifi_bus_spi_dma_map_def
      nrf_wifi_bus_spi_dma_unmap_def nrf_wifi_bus_spi_ps_sleep_def
      nrf_wifi_bus_spi_ps_wake_def nrf_wifi_bus_spi_ps_status_def)

interpretation bus: bal_bus_ops "get_bus_ops k"
  by (cases k) (simp_all add: qspi.bal_bus_ops_axioms spi.bal_bus_ops_axioms)

text \<open>The BAL calls of the HAL, whichever bus is configured.\<close>

lemma bal_read_word: "nrf_wifi_bal_read_word os off s =
    (os_read32 os (w_trace s) (bus_host_addr_base s + off),
     emit (IoRead32 (bus_host_addr_base s + off)
       (os_read32 os (w_trace s) (bus_host_addr_base s + off))) s)"
  by (simp add: nrf_wifi_bal_read_word_def bus.read_word_law Let_def)

lemma bal_write_word:
  "nrf_wifi_bal_write_word off v s = emit (IoWrite32 (bus_host_addr_base s + off) v) s"
  by (simp add: nrf_wifi_bal_write_word_def bus.write_word_law)

lemma bal_read_block: "nrf_wifi_bal_read_block os off len s =
    (map (os_readb os (w_trace s) (bus_host_addr_base s + off)) [0..<len],
     emit (IoReadBlock (bus_host_addr_base s + off) len) s)"
  by (simp add: nrf_wifi_bal_read_block_def bus.read_block_law Let_def)

lemma bal_write_block:
  "nrf_wifi_bal_write_block off bs s = emit (IoWriteBlock (bus_host_addr_base s + off) bs) s"
  by (simp add: nrf_wifi_bal_write_block_def bus.write_block_law)

lemma bal_unmap_map [simp]: "nrf_wifi_bal_dma_unmap (nrf_wifi_bal_dma_map v s) s = v"
  by (simp add: nrf_wifi_bal_dma_map_def nrf_wifi_bal_dma_unmap_def bus.unmap_map)

lemma bal_dma_map:
  "nrf_wifi_bal_dma_map v s = bus_host_addr_base s + (v - bus_addr_pktram_base s)"
  by (simp add: nrf_wifi_bal_dma_map_def bus.dma_map_law)

lemma bal_dma_unmap:
  "nrf_wifi_bal_dma_unmap p s = bus_addr_pktram_base s + (p - bus_host_addr_base s)"
  by (metis bal_dma_map add_diff_cancel_left' bus.map_unmap diff_add_cancel
      nrf_wifi_bal_dma_map_def nrf_wifi_bal_dma_unmap_def add.commute)

lemma bal_ps_sleep: "nrf_wifi_bal_rpu_ps_sleep s = emit IoPsSleep s"
  by (simp add: nrf_wifi_bal_rpu_ps_sleep_def bus.ps_sleep_law)

lemma bal_ps_wake: "nrf_wifi_bal_rpu_ps_wake s = emit IoPsWake s"
  by (simp add: nrf_wifi_bal_rpu_ps_wake_def bus.ps_wake_law)

lemma bal_ps_status: "nrf_wifi_bal_rpu_ps_status os s =
    (os_ps_status os (w_trace s), emit (IoPsStatus (os_ps_status os (w_trace s))) s)"
  by (simp add: nrf_wifi_bal_rpu_ps_status_def bus.ps_status_law Let_def)

lemmas bal_calls = bal_read_word bal_write_word bal_read_block bal_write_block
  bal_ps_sleep bal_ps_wake bal_ps_status

end
