(* ===== verification/Pal.thy ===== *)
theory Pal
  imports Nrf_Prelude
begin

text \<open>\<open>hw_if/hal/src/common/pal.c\<close>, \<open>hw_if/hal/inc/common/pal.h\<close> and the memory
  map of \<open>hw_if/hal/inc/common/rpu_if.h\<close>: the translation of an RPU address to the offset
  at which the host sees it on the bus.\<close>

section \<open>The memory map\<close>

abbreviation RPU_ADDR_GRAM_START :: u32 where "RPU_ADDR_GRAM_START \<equiv> 0xB7000000"
abbreviation RPU_ADDR_GRAM_END :: u32 where "RPU_ADDR_GRAM_END \<equiv> 0xB70101FF"
abbreviation RPU_ADDR_SBUS_START :: u32 where "RPU_ADDR_SBUS_START \<equiv> 0xA4000000"
abbreviation RPU_ADDR_PBUS_START :: u32 where "RPU_ADDR_PBUS_START \<equiv> 0xA5000000"
abbreviation RPU_ADDR_BEV_START :: u32 where "RPU_ADDR_BEV_START \<equiv> 0xBFC00000"
abbreviation RPU_ADDR_BEV_END :: u32 where "RPU_ADDR_BEV_END \<equiv> 0xBFCFFFFF"
abbreviation RPU_ADDR_PKTRAM_START :: u32 where "RPU_ADDR_PKTRAM_START \<equiv> 0xB0000000"
abbreviation RPU_ADDR_PKTRAM_END :: u32 where "RPU_ADDR_PKTRAM_END \<equiv> 0xB0030FFF"
abbreviation RPU_ADDR_MASK_BASE :: u32 where "RPU_ADDR_MASK_BASE \<equiv> 0xFF000000"
abbreviation RPU_ADDR_MASK_OFFSET :: u32 where "RPU_ADDR_MASK_OFFSET \<equiv> 0x00FFFFFF"
abbreviation RPU_ADDR_MASK_BEV_OFFSET :: u32 where "RPU_ADDR_MASK_BEV_OFFSET \<equiv> 0x000FFFFF"
abbreviation RPU_MCU_CORE_INDIRECT_BASE :: u32 where "RPU_MCU_CORE_INDIRECT_BASE \<equiv> 0xC0000000"
abbreviation RPU_MEM_PKT_BASE :: u32 where "RPU_MEM_PKT_BASE \<equiv> 0xB0005000"

abbreviation SOC_MMAP_ADDR_OFFSET_SYSBUS :: u32 where "SOC_MMAP_ADDR_OFFSET_SYSBUS \<equiv> 0x00000"
abbreviation SOC_MMAP_ADDR_OFFSET_PBUS :: u32 where "SOC_MMAP_ADDR_OFFSET_PBUS \<equiv> 0x40000"
abbreviation SOC_MMAP_ADDR_OFFSET_GRAM_PKD :: u32 where "SOC_MMAP_ADDR_OFFSET_GRAM_PKD \<equiv> 0x80000"
abbreviation SOC_MMAP_ADDR_OFFSET_PKTRAM_HOST_VIEW :: u32 where
  "SOC_MMAP_ADDR_OFFSET_PKTRAM_HOST_VIEW \<equiv> 0x0C0000"

text \<open>\<open>enum RPU_PROC_TYPE\<close>: the maximum is a value a caller may pass.\<close>

datatype rpu_proc = RPU_PROC_TYPE_MCU_LMAC | RPU_PROC_TYPE_MCU_UMAC | RPU_PROC_TYPE_MAX

datatype mcu_region = RPU_MCU_ADDR_REGION_ROM | RPU_MCU_ADDR_REGION_RETENTION
  | RPU_MCU_ADDR_REGION_SCRATCH | RPU_MCU_ADDR_REGION_MAX

datatype hal_mem_type = HAL_RPU_MEM_TYPE_GRAM | HAL_RPU_MEM_TYPE_PKTRAM
  | HAL_RPU_MEM_TYPE_CORE_ROM | HAL_RPU_MEM_TYPE_CORE_RET | HAL_RPU_MEM_TYPE_CORE_SCRATCH
  | HAL_RPU_MEM_TYPE_MAX

record rpu_addr_region =
  region_start :: u32
  region_end :: u32

abbreviation region :: "u32 \<Rightarrow> u32 \<Rightarrow> rpu_addr_region" where
  "region a b \<equiv> \<lparr>region_start = a, region_end = b\<rparr>"

text \<open>The regions in the order of the source: ROM, retention, scratch.\<close>

fun RPU_ADDR_MAP_MCU :: "rpu_proc \<Rightarrow> rpu_addr_region list" where
  "RPU_ADDR_MAP_MCU RPU_PROC_TYPE_MCU_LMAC =
     [region 0x80000000 0x80033FFF, region 0x80040000 0x8004BFFF, region 0x80080000 0x8008FFFF]"
| "RPU_ADDR_MAP_MCU RPU_PROC_TYPE_MCU_UMAC =
     [region 0x80000000 0x800617FF, region 0x80080000 0x800A3FFF, region 0x80100000 0x80137FFF]"
| "RPU_ADDR_MAP_MCU RPU_PROC_TYPE_MAX = []"

fun SOC_MMAP_ADDR_OFFSETS_MCU :: "rpu_proc \<Rightarrow> u32" where
  "SOC_MMAP_ADDR_OFFSETS_MCU RPU_PROC_TYPE_MCU_LMAC = 0x100000"
| "SOC_MMAP_ADDR_OFFSETS_MCU RPU_PROC_TYPE_MCU_UMAC = 0x200000"
| "SOC_MMAP_ADDR_OFFSETS_MCU RPU_PROC_TYPE_MAX = 0"

section \<open>pal.c\<close>

definition pal_check_rpu_mcu_regions :: "rpu_proc \<Rightarrow> u32 \<Rightarrow> bool" where
  "pal_check_rpu_mcu_regions proc a =
    (if proc = RPU_PROC_TYPE_MAX then False
     else list_ex (\<lambda>r. region_start r \<le> a \<and> a \<le> region_end r) (RPU_ADDR_MAP_MCU proc))"

definition pal_rpu_addr_offset_get :: "u32 \<Rightarrow> rpu_proc \<Rightarrow> u32 option" where
  "pal_rpu_addr_offset_get rpu_addr proc =
    (let addr_base = rpu_addr AND RPU_ADDR_MASK_BASE;
         off = rpu_addr AND RPU_ADDR_MASK_OFFSET in
     if addr_base = RPU_ADDR_SBUS_START then Some (SOC_MMAP_ADDR_OFFSET_SYSBUS + off)
     else if RPU_ADDR_GRAM_START \<le> rpu_addr \<and> rpu_addr \<le> RPU_ADDR_GRAM_END
       then Some (SOC_MMAP_ADDR_OFFSET_GRAM_PKD + off)
     else if addr_base = RPU_ADDR_PBUS_START then Some (SOC_MMAP_ADDR_OFFSET_PBUS + off)
     else if addr_base = RPU_ADDR_PKTRAM_START
       then Some (SOC_MMAP_ADDR_OFFSET_PKTRAM_HOST_VIEW + off)
     else if pal_check_rpu_mcu_regions proc rpu_addr
       then Some (SOC_MMAP_ADDR_OFFSETS_MCU proc + off)
     else None)"

definition pal_rpu_ps_ctrl_reg_addr_get :: u32 where
  "pal_rpu_ps_ctrl_reg_addr_get = 0x3FFFFC"

fun pal_mem_type_to_region :: "hal_mem_type \<Rightarrow> mcu_region" where
  "pal_mem_type_to_region HAL_RPU_MEM_TYPE_CORE_ROM = RPU_MCU_ADDR_REGION_ROM"
| "pal_mem_type_to_region HAL_RPU_MEM_TYPE_CORE_RET = RPU_MCU_ADDR_REGION_RETENTION"
| "pal_mem_type_to_region HAL_RPU_MEM_TYPE_CORE_SCRATCH = RPU_MCU_ADDR_REGION_SCRATCH"
| "pal_mem_type_to_region _ = RPU_MCU_ADDR_REGION_MAX"

datatype nrf_wifi_fw_type =
  NRF_WIFI_FW_TYPE_LMAC_PATCH | NRF_WIFI_FW_TYPE_UMAC_PATCH | NRF_WIFI_FW_TYPE_MAX

datatype nrf_wifi_fw_subtype =
  NRF_WIFI_FW_SUBTYPE_PRI | NRF_WIFI_FW_SUBTYPE_SEC | NRF_WIFI_FW_SUBTYPE_MAX

fun pal_ops_get_fw_loc :: "nrf_wifi_fw_type \<Rightarrow> nrf_wifi_fw_subtype \<Rightarrow> string option" where
  "pal_ops_get_fw_loc NRF_WIFI_FW_TYPE_LMAC_PATCH st =
    (if st = NRF_WIFI_FW_SUBTYPE_PRI then Some ''img/wlan/nrf_wifi_lmac_patch_pri.bimg''
     else if st = NRF_WIFI_FW_SUBTYPE_SEC then Some ''img/wlan/nrf_wifi_lmac_patch_sec.bin''
     else None)"
| "pal_ops_get_fw_loc NRF_WIFI_FW_TYPE_UMAC_PATCH st =
    (if st = NRF_WIFI_FW_SUBTYPE_PRI then Some ''img/wlan/nrf_wifi_umac_patch_pri.bimg''
     else if st = NRF_WIFI_FW_SUBTYPE_SEC then Some ''img/wlan/nrf_wifi_umac_patch_sec.bin''
     else None)"
| "pal_ops_get_fw_loc NRF_WIFI_FW_TYPE_MAX st = None"

section \<open>Where the regions land\<close>

lemma mask_off: "unat (a AND RPU_ADDR_MASK_OFFSET) = unat a mod 2 ^ 24"
proof -
  have "a AND RPU_ADDR_MASK_OFFSET = take_bit 24 a"
    by (simp add: take_bit_eq_mask mask_numeral)
  also have "\<dots> = a mod 2 ^ 24" by (rule take_bit_eq_mod)
  finally show ?thesis by (simp add: unat_mod_distrib)
qed

lemma mask_base: "unat (a AND RPU_ADDR_MASK_BASE) = unat a div 2 ^ 24 * 2 ^ 24"
proof -
  have m: "RPU_ADDR_MASK_BASE = NOT (mask 24)" by (simp add: mask_numeral)
  have p: "a AND NOT (mask 24) = push_bit 24 (drop_bit 24 a)"
    by (rule bit_word_eqI) (auto simp: bit_simps)
  have "a = push_bit 24 (drop_bit 24 a) + take_bit 24 a" by (simp only: bits_ident)
  then have "a AND NOT (mask 24) = a - take_bit 24 a"
    unfolding p by (metis add_diff_cancel_right')
  moreover have t: "take_bit 24 a = a AND RPU_ADDR_MASK_OFFSET"
    by (simp add: take_bit_eq_mask mask_numeral)
  moreover have "a AND RPU_ADDR_MASK_OFFSET \<le> a"
    by (simp add: u32_le_iff mask_off)
  ultimately have "unat (a AND NOT (mask 24)) = unat a - unat a mod 2 ^ 24"
    by (metis mask_off unat_sub)
  then show ?thesis unfolding m by (simp add: minus_mod_eq_div_mult)
qed

lemma div_mod_range:
  "c * 16777216 \<le> n \<Longrightarrow> n < Suc c * 16777216 \<Longrightarrow>
   n div 16777216 = c \<and> n mod 16777216 = n - c * (16777216::nat)"
  by (metis div_nat_eqI mult.commute minus_div_mult_eq_mod)

text \<open>The windows: first and last RPU address of a region, and the host offset of the first.\<close>

definition pal_windows :: "rpu_proc \<Rightarrow> (nat \<times> nat \<times> nat) list" where
  "pal_windows p = [(0xA4000000, 0xA4007FFF, 0), (0xA5000000, 0xA503FFFF, 0x40000),
     (0xB7000000, 0xB70101FF, 0x80000), (0xB0000000, 0xB0030FFF, 0xC0000)] @
   (case p of
      RPU_PROC_TYPE_MCU_LMAC \<Rightarrow> [(0x80000000, 0x80033FFF, 0x100000),
        (0x80040000, 0x8004BFFF, 0x140000), (0x80080000, 0x8008FFFF, 0x180000)]
    | RPU_PROC_TYPE_MCU_UMAC \<Rightarrow> [(0x80000000, 0x800617FF, 0x200000),
        (0x80080000, 0x800A3FFF, 0x280000), (0x80100000, 0x80137FFF, 0x300000)]
    | RPU_PROC_TYPE_MAX \<Rightarrow> [])"

lemmas pal_nat_simps = pal_rpu_addr_offset_get_def Let_def word_unat_eq_iff [of "_ AND RPU_ADDR_MASK_BASE"]
  u32_le_iff mask_base

lemma pal_add:
  "unat o1 + unat a mod 16777216 < 4294967296 \<Longrightarrow>
   unat (o1 + (a AND RPU_ADDR_MASK_OFFSET)) = unat o1 + unat a mod 16777216"
  using unat_add_small [of o1 "a AND RPU_ADDR_MASK_OFFSET"] by (simp add: mask_off)

lemma pal_base_is:
  "(a AND RPU_ADDR_MASK_BASE = b) = (unat a div 16777216 * 16777216 = unat b)"
  by (simp add: word_unat_eq_iff mask_base)

lemma pal_mcu_window:
  assumes "r \<in> set (RPU_ADDR_MAP_MCU p)" "region_start r \<le> a" "a \<le> region_end r"
    and "p \<noteq> RPU_PROC_TYPE_MAX"
  shows "pal_check_rpu_mcu_regions p a"
  using assms by (auto simp: pal_check_rpu_mcu_regions_def list_ex_iff)

lemma pal_window_bus:
  assumes "(s, e, off) \<in> set [(0xA4000000, 0xA4007FFF, 0), (0xA5000000, 0xA503FFFF, 0x40000),
     (0xB7000000, 0xB70101FF, 0x80000), (0xB0000000, 0xB0030FFF, 0xC0000)]"
    and "s \<le> unat a" "unat a \<le> e"
  shows "\<exists>w. pal_rpu_addr_offset_get a p = Some w \<and> unat w = off + (unat a - s)"
proof -
  consider "s = 0xA4000000 \<and> e = 0xA4007FFF \<and> off = 0" | "s = 0xA5000000 \<and> e = 0xA503FFFF \<and> off = 0x40000"
    | "s = 0xB7000000 \<and> e = 0xB70101FF \<and> off = 0x80000" | "s = 0xB0000000 \<and> e = 0xB0030FFF \<and> off = 0xC0000"
    using assms(1) by auto
  then show ?thesis
  proof cases
    case 1
    then show ?thesis
      using assms div_mod_range [of "0xA4" "unat a"] pal_add [of 0 a]
      by (simp add: pal_rpu_addr_offset_get_def pal_base_is Let_def)
  next
    case 2
    then show ?thesis
      using assms div_mod_range [of "0xA5" "unat a"] pal_add [of "0x40000" a]
      by (simp add: pal_rpu_addr_offset_get_def pal_base_is Let_def u32_le_iff)
  next
    case 3
    then show ?thesis
      using assms div_mod_range [of "0xB7" "unat a"] pal_add [of "0x80000" a]
      by (simp add: pal_rpu_addr_offset_get_def pal_base_is Let_def u32_le_iff)
  next
    case 4
    then show ?thesis
      using assms div_mod_range [of "0xB0" "unat a"] pal_add [of "0xC0000" a]
      by (simp add: pal_rpu_addr_offset_get_def pal_base_is Let_def u32_le_iff)
  qed
qed

lemma pal_mcu_offset:
  assumes "0x80000000 \<le> unat a" "unat a < 0x81000000" "pal_check_rpu_mcu_regions p a"
  shows "\<exists>w. pal_rpu_addr_offset_get a p = Some w \<and>
    unat w = unat (SOC_MMAP_ADDR_OFFSETS_MCU p) + (unat a - 0x80000000)"
  using assms div_mod_range [of "0x80" "unat a"] pal_add [of "SOC_MMAP_ADDR_OFFSETS_MCU p" a]
  by (cases p) (simp_all add: pal_rpu_addr_offset_get_def pal_base_is Let_def u32_le_iff)

lemma pal_window:
  assumes "(s, e, off) \<in> set (pal_windows p)" "s \<le> unat a" "unat a \<le> e"
  shows "\<exists>w. pal_rpu_addr_offset_get a p = Some w \<and> unat w = off + (unat a - s)"
proof (cases "s < 0x81000000")
  case False
  then show ?thesis
    using assms by (intro pal_window_bus) (auto simp: pal_windows_def split: rpu_proc.splits)
next
  case True
  then have r: "s \<in> {0x80000000, 0x80040000, 0x80080000, 0x80100000} \<and> e < 0x81000000 \<and>
      off = unat (SOC_MMAP_ADDR_OFFSETS_MCU p) + (s - 0x80000000)"
    and "pal_check_rpu_mcu_regions p a"
    using assms
    by (cases p; auto simp: pal_windows_def pal_check_rpu_mcu_regions_def u32_le_iff)+
  then show ?thesis
    using pal_mcu_offset [of a p] assms by auto
qed

lemma pal_windows_disjoint:
  assumes "(s, e, off) \<in> set (pal_windows p)" "(s', e', off') \<in> set (pal_windows p)"
    and "s \<le> a" "a \<le> e" "s' \<le> a'" "a' \<le> e'" "off + (a - s) = off' + (a' - s')"
  shows "a = a'"
  using assms by (cases p) (auto simp: pal_windows_def)

section \<open>Properties\<close>

definition pal_mapped :: "rpu_proc \<Rightarrow> u32 \<Rightarrow> bool" where
  "pal_mapped p a = list_ex (\<lambda>(s, e, off). s \<le> unat a \<and> unat a \<le> e) (pal_windows p)"



end
