(* ===== verification/Hal_State.thy ===== *)
theory Hal_State
  imports Bus Pal
begin

text \<open>The device context of the HAL: \<open>struct nrf_wifi_hal_dev_ctx\<close> with the parts of
  \<open>struct nrf_wifi_hal_priv\<close> it points to (\<open>hw_if/hal/inc/common/hal_structs_common.h\<close>),
  on top of the bus context. Queues hold messages, a message is its bytes; a pointer to a buffer
  that the code keeps is the buffer, or \<open>None\<close> when the pointer is NULL. The locks, tasklets
  and the timer appear as events of the trace only.\<close>

abbreviation MAX_NUM_OF_RX_QUEUES :: nat where "MAX_NUM_OF_RX_QUEUES \<equiv> 3"
abbreviation RPU_EVENT_COMMON_SIZE_MAX :: nat where "RPU_EVENT_COMMON_SIZE_MAX \<equiv> 128"
abbreviation MAX_EVENT_POOL_LEN :: nat where "MAX_EVENT_POOL_LEN \<equiv> 1000"
abbreviation NRF70_RPU_PS_IDLE_TIMEOUT_MS :: u32 where "NRF70_RPU_PS_IDLE_TIMEOUT_MS \<equiv> 10"

record host_rpu_hpq =
  enqueue_addr :: u32
  dequeue_addr :: u32

record host_rpu_hpqm_info =
  event_busy_queue :: host_rpu_hpq
  event_avl_queue :: host_rpu_hpq
  cmd_busy_queue :: host_rpu_hpq
  cmd_avl_queue :: host_rpu_hpq
  rx_buf_busy_queue :: "host_rpu_hpq list"

record buf_map_info =
  mapped :: bool
  virt_addr :: u32
  phy_addr :: u32
  buf_len :: u32

record rx_buf_pool_params =
  buf_sz :: u16
  num_bufs :: u16

record hal_cfg_params =
  max_cmd_size :: u32
  max_event_size :: u32
  rx_buf_headroom_sz :: u8
  tx_buf_headroom_sz :: u8
  max_tx_frms :: u32
  rx_buf_pool :: "rx_buf_pool_params list"
  max_tx_frm_sz :: u32
  max_ampdu_len_per_token :: u32

datatype hal_msg_type = NRF_WIFI_HAL_MSG_TYPE_CMD_CTRL | NRF_WIFI_HAL_MSG_TYPE_EVENT
  | NRF_WIFI_HAL_MSG_TYPE_CMD_DATA_RX | NRF_WIFI_HAL_MSG_TYPE_CMD_DATA_MGMT
  | NRF_WIFI_HAL_MSG_TYPE_CMD_DATA_TX | NRF_WIFI_HAL_MSG_TYPE_MAX

datatype rpu_ps_state = RPU_PS_STATE_ASLEEP | RPU_PS_STATE_AWAKE

datatype hal_status = NRF_WIFI_HAL_STATUS_ENABLED | NRF_WIFI_HAL_STATUS_DISABLED

record hal = bal +
  cfg_params :: hal_cfg_params
  addr_pktram_base :: u32
  num_devs :: u8
  idx :: u8
  hpqm_info :: host_rpu_hpqm_info
  rx_cmd_base :: u32
  tx_cmd_base :: u32
  num_cmds :: u32
  cmd_q :: "u8 list list"
  event_q :: "u8 list list"
  curr_proc :: rpu_proc
  rx_buf_info :: "buf_map_info list option list"
  tx_buf_info :: "buf_map_info list option"
  addr_rpu_pktram_base :: u32
  addr_rpu_pktram_base_tx :: u32
  addr_rpu_pktram_base_rx_pool :: "u32 list"
  tx_frame_offset :: u32
  is_wakeup_now_asserted :: bool
  last_wakeup_now_asserted_time_ms :: u32
  last_wakeup_now_deasserted_time_ms :: u32
  last_rpu_sleep_opp_time_ms :: u32
  wdt_irq_received :: int
  wdt_irq_ignored :: int
  rpu_ps_state :: rpu_ps_state
  dbg_enable :: bool
  rpu_fw_booted :: bool
  event_data :: "u8 list option"
  event_data_curr :: nat
  event_data_len :: u32
  event_data_pending :: u32
  event_resubmit :: u32
  hal_status :: hal_status

section \<open>The contract of the HAL operations\<close>

text \<open>The HAL knows whether the device is awake: when the firmware runs and the state says
  awake, the trace shows it.\<close>

definition ps_coherent :: "hal \<Rightarrow> bool" where
  "ps_coherent s = (rpu_fw_booted s \<and> rpu_ps_state s = RPU_PS_STATE_AWAKE \<longrightarrow> awake (w_trace s))"

text \<open>What no operation on the running device changes: the configuration, the maps and the
  layout that were set up when the device was added.\<close>

definition same_setup :: "hal \<Rightarrow> hal \<Rightarrow> bool" where
  "same_setup s t = (bal_bus t = bal_bus s \<and> bus_host_addr_base t = bus_host_addr_base s
     \<and> bus_addr_pktram_base t = bus_addr_pktram_base s \<and> cfg_params t = cfg_params s
     \<and> addr_pktram_base t = addr_pktram_base s
     \<and> addr_rpu_pktram_base t = addr_rpu_pktram_base s
     \<and> addr_rpu_pktram_base_tx t = addr_rpu_pktram_base_tx s
     \<and> addr_rpu_pktram_base_rx_pool t = addr_rpu_pktram_base_rx_pool s
     \<and> rpu_fw_booted t = rpu_fw_booted s)"

text \<open>A step of the HAL: from a coherent state in which the locks \<open>L\<close> are free the trace grows
  legally, the locks are as before, the state stays coherent and the setup is kept.\<close>

definition hal_step :: "os_lock set \<Rightarrow> hal \<Rightarrow> hal \<Rightarrow> bool" where
  "hal_step L s t = (same_setup s t \<and>
     (ps_coherent s \<and> set (held (w_trace s)) \<inter> L = {} \<longrightarrow>
       ps_coherent t \<and> grows (rpu_fw_booted s) (w_trace s) (w_trace t)))"

lemma same_setup_refl [simp]: "same_setup s s"
  by (simp add: same_setup_def)

lemma same_setup_trans: "same_setup s t \<Longrightarrow> same_setup t u \<Longrightarrow> same_setup s u"
  by (simp add: same_setup_def)

lemma same_setup_booted: "same_setup s t \<Longrightarrow> rpu_fw_booted t = rpu_fw_booted s"
  by (simp add: same_setup_def)

lemma hal_step_refl [simp, intro]: "hal_step L s s"
  by (simp add: hal_step_def)

lemma hal_step_trans:
  assumes "hal_step L s t" "hal_step L t u"
  shows "hal_step L s u"
proof -
  have b: "rpu_fw_booted t = rpu_fw_booted s"
    using assms(1) by (simp add: hal_step_def same_setup_booted)
  have "ps_coherent u \<and> grows (rpu_fw_booted s) (w_trace s) (w_trace u)"
    if "ps_coherent s" "set (held (w_trace s)) \<inter> L = {}"
  proof -
    have t: "ps_coherent t" "grows (rpu_fw_booted s) (w_trace s) (w_trace t)"
      using assms(1) that by (simp_all add: hal_step_def)
    then have "held (w_trace t) = held (w_trace s)" by (simp add: grows_held)
    then have "ps_coherent u" "grows (rpu_fw_booted s) (w_trace t) (w_trace u)"
      using assms(2) that t b by (simp_all add: hal_step_def)
    with t grows_trans show ?thesis by blast
  qed
  moreover have "same_setup s u"
    using assms same_setup_trans by (auto simp: hal_step_def)
  ultimately show ?thesis by (simp add: hal_step_def)
qed

lemma hal_step_mono: "hal_step L s t \<Longrightarrow> L \<subseteq> M \<Longrightarrow> hal_step M s t"
  unfolding hal_step_def by blast

text \<open>Changing fields that are neither setup nor power state, and quiet events.\<close>

lemma hal_step_same:
  assumes "hal_step L s t" "same_setup t u" "w_trace u = w_trace t" "rpu_ps_state u = rpu_ps_state t"
  shows "hal_step L s u"
proof -
  have "hal_step L t u"
    using assms(2-4) same_setup_booted [OF assms(2)] by (simp add: hal_step_def ps_coherent_def)
  with assms(1) show ?thesis by (rule hal_step_trans)
qed

lemma hal_step_quiet:
  assumes "quiet e" "hal_step L s t" "same_setup t u" "w_trace u = e # w_trace t"
    and "rpu_ps_state u = rpu_ps_state t"
  shows "hal_step L s u"
proof -
  have "hal_step L t u"
    using assms(3-5) same_setup_booted [OF assms(3)] quiet_simps(2) [OF assms(1)]
      grows_quiet [OF assms(1) grows_refl]
    by (simp add: hal_step_def ps_coherent_def)
  with assms(2) show ?thesis by (rule hal_step_trans)
qed

lemma hal_step_held:
  "hal_step L s t \<Longrightarrow> ps_coherent s \<Longrightarrow> set (held (w_trace s)) \<inter> L = {} \<Longrightarrow>
   held (w_trace t) = held (w_trace s)"
  by (auto simp: hal_step_def dest: grows_held)

text \<open>A critical section of a lock that the body leaves alone.\<close>

lemma hal_step_locked:
  assumes "hal_step (L - {l}) (emit (IoLock l) s) t" "l \<in> L"
  shows "hal_step L s (emit (IoUnlock l) t)"
proof -
  have s: "same_setup s (emit (IoUnlock l) t)"
    using assms(1) by (simp add: hal_step_def same_setup_def)
  have "ps_coherent (emit (IoUnlock l) t) \<and>
      grows (rpu_fw_booted s) (w_trace s) (w_trace (emit (IoUnlock l) t))"
    if c: "ps_coherent s" "set (held (w_trace s)) \<inter> L = {}"
  proof -
    have "ps_coherent (emit (IoLock l) s)" using c(1) by (simp add: ps_coherent_def)
    moreover have "set (held (w_trace (emit (IoLock l) s))) \<inter> (L - {l}) = {}"
      using c(2) by auto
    ultimately have t: "ps_coherent t" "grows (rpu_fw_booted s) (IoLock l # w_trace s) (w_trace t)"
      using assms(1) by (auto simp: hal_step_def)
    have "l \<notin> set (held (w_trace s))" using c(2) assms(2) by auto
    with grows_lock [OF _ t(2)] t(1) show ?thesis by (simp add: ps_coherent_def)
  qed
  with s show ?thesis by (simp add: hal_step_def)
qed

end
