(* ===== verification/Hal_Reg.thy ===== *)
theory Hal_Reg
  imports Hal_State
begin

text \<open>Power save, registers, memory and hardware queues:
  \<open>hal_rpu_ps_wake\<close> and its companions of \<open>hal_api_common.c\<close>, \<open>hal_reg.c\<close>, \<open>hal_mem.c\<close> and
  \<open>hpqm.c\<close> under \<open>hw_if/hal/src/common/\<close>, for the configuration with \<open>NRF_WIFI_LOW_POWER\<close> and
  \<open>NRF_WIFI_RPU_RECOVERY\<close>. The context pointer is the state, so its NULL checks do not occur;
  the OS log is not modelled. A result \<open>None\<close> means that a polling loop does not end.\<close>

section \<open>Power save\<close>

abbreviation RPU_PS_WAKE_INTERVAL_MS :: u32 where "RPU_PS_WAKE_INTERVAL_MS \<equiv> 1"
abbreviation RPU_PS_WAKE_TIMEOUT_S :: u32 where "RPU_PS_WAKE_TIMEOUT_S \<equiv> 1"
abbreviation NRF_WIFI_RPU_MIN_TIME_TO_ENTER_SLEEP_MS :: u32 where
  "NRF_WIFI_RPU_MIN_TIME_TO_ENTER_SLEEP_MS \<equiv> 1000"

abbreviation rpu_ps_state_mask :: u32 where "rpu_ps_state_mask \<equiv> 6"

definition did_rpu_had_sleep_opp :: "os \<Rightarrow> hal \<Rightarrow> hal" where
  "did_rpu_had_sleep_opp os s =
    (let (diff, s) = osal_time_elapsed_ms os (last_wakeup_now_deasserted_time_ms s) s
     in if diff > NRF_WIFI_RPU_MIN_TIME_TO_ENTER_SLEEP_MS
        then s\<lparr>last_rpu_sleep_opp_time_ms := last_wakeup_now_deasserted_time_ms s\<rparr> else s)"

partial_function (option) ps_idle_loop :: "os \<Rightarrow> u32 \<Rightarrow> hal \<Rightarrow> hal option" where
  "ps_idle_loop os t0 s =
    (let (t, s) = osal_time_elapsed_us os t0 s
     in if t div 1000 < RPU_PS_WAKE_INTERVAL_MS then ps_idle_loop os t0 s else Some s)"

partial_function (option) ps_wake_loop :: "os \<Rightarrow> u32 \<Rightarrow> hal \<Rightarrow> (nrf_status \<times> hal) option" where
  "ps_wake_loop os start s =
    (let (v, s) = nrf_wifi_bal_rpu_ps_status os s
     in if v AND rpu_ps_state_mask = rpu_ps_state_mask then Some (SUCCESS, s)
        else let (t0, s) = osal_time_get_curr_us os s
             in do {
               s \<leftarrow> ps_idle_loop os t0 s;
               let (el, s) = osal_time_elapsed_us os start s;
               if el div 1000000 < RPU_PS_WAKE_TIMEOUT_S then ps_wake_loop os start s
               else Some (FAIL, s)
             })"

definition hal_rpu_ps_wake :: "os \<Rightarrow> hal \<Rightarrow> (nrf_status \<times> hal) option" where
  "hal_rpu_ps_wake os s =
    (if \<not> rpu_fw_booted s then Some (SUCCESS, s)
     else let s = emit IoTimerKill s
      in if rpu_ps_state s = RPU_PS_STATE_AWAKE then Some (SUCCESS, s)
         else let s = nrf_wifi_bal_rpu_ps_wake s;
                  s = s\<lparr>is_wakeup_now_asserted := True\<rparr>;
                  (ms, s) = osal_time_get_curr_ms os s;
                  s = s\<lparr>last_wakeup_now_asserted_time_ms := ms\<rparr>;
                  (start, s) = osal_time_get_curr_us os s;
                  s = emit (IoDelayUs 1000) s
          in do {
            (st, s) \<leftarrow> ps_wake_loop os start s;
            if st \<noteq> SUCCESS then Some (st, emit (IoTaskletSchedule TASKLET_RECOVERY) s)
            else Some (st, did_rpu_had_sleep_opp os (s\<lparr>rpu_ps_state := RPU_PS_STATE_AWAKE\<rparr>))
          })"

text \<open>The sleep timer's callback.\<close>

definition hal_rpu_ps_sleep :: "os \<Rightarrow> hal \<Rightarrow> hal" where
  "hal_rpu_ps_sleep os s =
    (let s = emit (IoLock LOCK_PS) s;
         s = nrf_wifi_bal_rpu_ps_sleep s;
         s = s\<lparr>is_wakeup_now_asserted := False\<rparr>;
         (ms, s) = osal_time_get_curr_ms os s;
         s = s\<lparr>last_wakeup_now_deasserted_time_ms := ms\<rparr>;
         s = s\<lparr>rpu_ps_state := RPU_PS_STATE_ASLEEP\<rparr>
     in emit (IoUnlock LOCK_PS) s)"

definition hal_rpu_ps_init :: "os \<Rightarrow> hal \<Rightarrow> nrf_status \<times> hal" where
  "hal_rpu_ps_init os s =
    (let (ok, s) = osal_alloc os (OBJ_LOCK LOCK_PS) s in
     if \<not> ok then (FAIL, s)
     else let (ok, s) = osal_alloc os OBJ_PS_TIMER s in
       if \<not> ok then (FAIL, emit (IoFree (OBJ_LOCK LOCK_PS)) s)
       else (SUCCESS, s\<lparr>rpu_ps_state := RPU_PS_STATE_ASLEEP, dbg_enable := True\<rparr>))"

definition hal_rpu_ps_deinit :: "hal \<Rightarrow> hal" where
  "hal_rpu_ps_deinit s =
    emit (IoFree (OBJ_LOCK LOCK_PS)) (emit (IoFree OBJ_PS_TIMER) (emit IoTimerKill s))"

definition nrf_wifi_hal_get_rpu_ps_state :: "hal \<Rightarrow> nrf_status \<times> rpu_ps_state" where
  "nrf_wifi_hal_get_rpu_ps_state s = (SUCCESS, rpu_ps_state s)"

text \<open>The frame every access to the device has: under the power-save lock the device is woken and
  accessed, and after the lock is released the sleep timer is armed if all went well.\<close>

definition hal_ps_access ::
    "os \<Rightarrow> (hal \<Rightarrow> nrf_status \<times> 'r \<times> hal) \<Rightarrow> 'r \<Rightarrow> hal \<Rightarrow> (nrf_status \<times> 'r \<times> hal) option" where
  "hal_ps_access os access none s = do {
     let s = emit (IoLock LOCK_PS) s;
     (st, s) \<leftarrow> hal_rpu_ps_wake os s;
     let (st, r, s) = (if st \<noteq> SUCCESS then (st, none, s) else access s);
     let s = emit (IoUnlock LOCK_PS) s;
     Some (st, r, if st = SUCCESS then emit (IoTimerSchedule NRF70_RPU_PS_IDLE_TIMEOUT_MS) s else s)
   }"

section \<open>Registers\<close>

definition hal_rpu_is_reg :: "u32 \<Rightarrow> bool" where
  "hal_rpu_is_reg a =
    (let base = a AND RPU_ADDR_MASK_BASE
     in base = RPU_ADDR_SBUS_START \<or> base = RPU_ADDR_PBUS_START)"

text \<open>The value read is stored through the caller's pointer even when it is all ones; it is
  \<open>None\<close> when nothing was stored.\<close>

definition hal_rpu_reg_read :: "os \<Rightarrow> u32 \<Rightarrow> hal \<Rightarrow> (nrf_status \<times> u32 option \<times> hal) option" where
  "hal_rpu_reg_read os rpu_reg_addr s =
    (if \<not> hal_rpu_is_reg rpu_reg_addr then Some (FAIL, None, s)
     else case pal_rpu_addr_offset_get rpu_reg_addr (curr_proc s) of
       None \<Rightarrow> Some (FAIL, None, s)
     | Some off \<Rightarrow> hal_ps_access os (\<lambda>s.
         let (v, s) = nrf_wifi_bal_read_word os off s
         in (if v = 0xFFFFFFFF then FAIL else SUCCESS, Some v, s)) None s)"

definition hal_rpu_reg_write :: "os \<Rightarrow> u32 \<Rightarrow> u32 \<Rightarrow> hal \<Rightarrow> (nrf_status \<times> hal) option" where
  "hal_rpu_reg_write os rpu_reg_addr v s =
    (if \<not> hal_rpu_is_reg rpu_reg_addr then Some (FAIL, s)
     else case pal_rpu_addr_offset_get rpu_reg_addr (curr_proc s) of
       None \<Rightarrow> Some (FAIL, s)
     | Some off \<Rightarrow> do {
         (st, _, s) \<leftarrow> hal_ps_access os (\<lambda>s. (SUCCESS, (), nrf_wifi_bal_write_word off v s)) () s;
         Some (st, s)
       })"

section \<open>Hardware queues\<close>

definition hal_rpu_hpq_enqueue :: "os \<Rightarrow> host_rpu_hpq \<Rightarrow> u32 \<Rightarrow> hal \<Rightarrow> (nrf_status \<times> hal) option" where
  "hal_rpu_hpq_enqueue os hpq v s = hal_rpu_reg_write os (enqueue_addr hpq) v s"

definition hal_rpu_hpq_dequeue ::
    "os \<Rightarrow> host_rpu_hpq \<Rightarrow> hal \<Rightarrow> (nrf_status \<times> u32 option \<times> hal) option" where
  "hal_rpu_hpq_dequeue os hpq s = do {
     (st, v, s) \<leftarrow> hal_rpu_reg_read os (dequeue_addr hpq) s;
     if st \<noteq> SUCCESS then Some (st, v, s)
     else case v of
       None \<Rightarrow> Some (st, v, s)
     | Some w \<Rightarrow> if w \<noteq> 0 then do {
           (st, s) \<leftarrow> hal_rpu_reg_write os (dequeue_addr hpq) w s;
           Some (st, v, s)
         } else Some (st, v, s)
   }"

section \<open>Memory\<close>

definition hal_rpu_is_mem_ram :: "rpu_proc \<Rightarrow> u32 \<Rightarrow> bool" where
  "hal_rpu_is_mem_ram proc a =
    ((RPU_ADDR_GRAM_START \<le> a \<and> a \<le> RPU_ADDR_GRAM_END) \<or>
     (RPU_ADDR_PKTRAM_START \<le> a \<and> a \<le> RPU_ADDR_PKTRAM_END))"

definition hal_rpu_is_mem_bev :: "u32 \<Rightarrow> bool" where
  "hal_rpu_is_mem_bev a = (RPU_ADDR_BEV_START \<le> a \<and> a \<le> RPU_ADDR_BEV_END)"

definition hal_rpu_is_mem_core_direct :: "rpu_proc \<Rightarrow> u32 \<Rightarrow> bool" where
  "hal_rpu_is_mem_core_direct proc a = pal_check_rpu_mcu_regions proc a"

definition hal_rpu_is_mem_core_indirect :: "rpu_proc \<Rightarrow> u32 \<Rightarrow> bool" where
  "hal_rpu_is_mem_core_indirect proc a = (a AND 0xFF000000 = RPU_MCU_CORE_INDIRECT_BASE)"

definition hal_rpu_is_mem_readable :: "rpu_proc \<Rightarrow> u32 \<Rightarrow> bool" where
  "hal_rpu_is_mem_readable proc a = (hal_rpu_is_mem_ram proc a \<or> hal_rpu_is_mem_core_direct proc a)"

definition hal_rpu_is_mem_writable :: "rpu_proc \<Rightarrow> u32 \<Rightarrow> bool" where
  "hal_rpu_is_mem_writable proc a =
    (hal_rpu_is_mem_ram proc a \<or> hal_rpu_is_mem_core_indirect proc a \<or>
     hal_rpu_is_mem_core_direct proc a \<or> hal_rpu_is_mem_bev a)"

text \<open>A read hands back the bytes, or none when it failed and left the buffer alone.\<close>

definition rpu_mem_read_ram ::
    "os \<Rightarrow> u32 \<Rightarrow> nat \<Rightarrow> hal \<Rightarrow> (nrf_status \<times> u8 list \<times> hal) option" where
  "rpu_mem_read_ram os ram_addr_val len s =
    (case pal_rpu_addr_offset_get ram_addr_val (curr_proc s) of
       None \<Rightarrow> Some (FAIL, [], s)
     | Some off \<Rightarrow> hal_ps_access os (\<lambda>s.
         let (bs, s) = nrf_wifi_bal_read_block os off len s in (SUCCESS, bs, s)) [] s)"

definition rpu_mem_write_ram :: "os \<Rightarrow> u32 \<Rightarrow> u8 list \<Rightarrow> hal \<Rightarrow> (nrf_status \<times> hal) option" where
  "rpu_mem_write_ram os ram_addr_val bs s =
    (case pal_rpu_addr_offset_get ram_addr_val (curr_proc s) of
       None \<Rightarrow> Some (FAIL, s)
     | Some off \<Rightarrow> do {
         (st, _, s) \<leftarrow> hal_ps_access os (\<lambda>s. (SUCCESS, (), nrf_wifi_bal_write_block off bs s)) () s;
         Some (st, s)
       })"

text \<open>The words of a buffer, as \<open>*((unsigned int *)src_addr + i)\<close> reads them for
  \<open>i < len / sizeof(int)\<close>.\<close>

definition words_of :: "u8 list \<Rightarrow> u32 list" where
  "words_of bs = map (\<lambda>i. le32_get (drop (4 * i) bs)) [0..<length bs div 4]"

lemma le32_get_append: "le32_get (le32_bytes w @ bs) = w"
proof -
  have "le32_get (le32_bytes w @ bs) = le32_get (le32_bytes w)"
    by (simp add: le32_get_def le32_bytes_def nth_append)
  then show ?thesis by simp
qed

lemma words_of_Nil [simp]: "words_of [] = []"
  by (simp add: words_of_def)

lemma words_of_append [simp]: "words_of (le32_bytes w @ bs) = w # words_of bs"
proof -
  have len: "length (le32_bytes w @ bs) div 4 = Suc (length bs div 4)" by simp
  have "words_of (le32_bytes w @ bs)
      = le32_get (le32_bytes w @ bs) # map (\<lambda>i. le32_get (drop (4 * Suc i) (le32_bytes w @ bs))) [0..<length bs div 4]"
    unfolding words_of_def len map_upt_Suc by simp
  then show ?thesis by (simp add: words_of_def le32_get_append)
qed

lemma words_of_single [simp]: "words_of (le32_bytes w) = [w]"
  using words_of_append [of w "[]"] by simp

fun core_write_loop ::
    "os \<Rightarrow> u32 \<Rightarrow> u32 list \<Rightarrow> nrf_status \<Rightarrow> hal \<Rightarrow> (nrf_status \<times> hal) option" where
  "core_write_loop os data_reg [] st s = Some (st, s)"
| "core_write_loop os data_reg (w # ws) st s = do {
     (st, s) \<leftarrow> hal_rpu_reg_write os data_reg w s;
     if st \<noteq> SUCCESS then Some (st, s) else core_write_loop os data_reg ws st s
   }"

abbreviation RPU_REG_MIPS_MCU_SYS_CORE_MEM_CTRL :: u32 where
  "RPU_REG_MIPS_MCU_SYS_CORE_MEM_CTRL \<equiv> 0xA4000030"
abbreviation RPU_REG_MIPS_MCU_SYS_CORE_MEM_WDATA :: u32 where
  "RPU_REG_MIPS_MCU_SYS_CORE_MEM_WDATA \<equiv> 0xA4000034"
abbreviation RPU_REG_MIPS_MCU2_SYS_CORE_MEM_CTRL :: u32 where
  "RPU_REG_MIPS_MCU2_SYS_CORE_MEM_CTRL \<equiv> 0xA4000130"
abbreviation RPU_REG_MIPS_MCU2_SYS_CORE_MEM_WDATA :: u32 where
  "RPU_REG_MIPS_MCU2_SYS_CORE_MEM_WDATA \<equiv> 0xA4000134"
abbreviation RPU_REG_MIPS_MCU_BOOT_EXCP_INSTR_0 :: u32 where
  "RPU_REG_MIPS_MCU_BOOT_EXCP_INSTR_0 \<equiv> 0xA4000050"
abbreviation RPU_REG_MIPS_MCU2_BOOT_EXCP_INSTR_0 :: u32 where
  "RPU_REG_MIPS_MCU2_BOOT_EXCP_INSTR_0 \<equiv> 0xA4000150"

definition rpu_mem_write_core :: "os \<Rightarrow> u32 \<Rightarrow> u8 list \<Rightarrow> hal \<Rightarrow> (nrf_status \<times> hal) option" where
  "rpu_mem_write_core os core_addr_val bs s =
    (if \<not> hal_rpu_is_mem_core_indirect (curr_proc s) core_addr_val then Some (FAIL, s)
     else if core_addr_val mod 4 \<noteq> 0 then Some (FAIL, s)
     else let addr = (core_addr_val AND RPU_ADDR_MASK_OFFSET) div 4;
              (addr_reg, data_reg) =
                (if curr_proc s = RPU_PROC_TYPE_MCU_UMAC
                 then (RPU_REG_MIPS_MCU2_SYS_CORE_MEM_CTRL, RPU_REG_MIPS_MCU2_SYS_CORE_MEM_WDATA)
                 else (RPU_REG_MIPS_MCU_SYS_CORE_MEM_CTRL, RPU_REG_MIPS_MCU_SYS_CORE_MEM_WDATA))
      in do {
        (st, s) \<leftarrow> hal_rpu_reg_write os addr_reg addr s;
        if st \<noteq> SUCCESS then Some (st, s) else core_write_loop os data_reg (words_of bs) st s
      })"

definition rpu_get_bev_addr_remap :: "hal \<Rightarrow> u32 \<Rightarrow> u32" where
  "rpu_get_bev_addr_remap s bev_addr_val =
    (let offset = bev_addr_val AND RPU_ADDR_MASK_BEV_OFFSET
     in if curr_proc s = RPU_PROC_TYPE_MCU_UMAC then RPU_REG_MIPS_MCU2_BOOT_EXCP_INSTR_0 + offset
        else RPU_REG_MIPS_MCU_BOOT_EXCP_INSTR_0 + offset)"

fun bev_write_loop ::
    "os \<Rightarrow> u32 \<Rightarrow> u32 list \<Rightarrow> nrf_status \<Rightarrow> hal \<Rightarrow> (nrf_status \<times> hal) option" where
  "bev_write_loop os bev_addr [] st s = Some (st, s)"
| "bev_write_loop os bev_addr (w # ws) st s = do {
     (st, s) \<leftarrow> hal_rpu_reg_write os (rpu_get_bev_addr_remap s bev_addr) w s;
     if st \<noteq> SUCCESS then Some (st, s) else bev_write_loop os (bev_addr + 4) ws st s
   }"

definition rpu_mem_write_bev :: "os \<Rightarrow> u32 \<Rightarrow> u8 list \<Rightarrow> hal \<Rightarrow> (nrf_status \<times> hal) option" where
  "rpu_mem_write_bev os bev_addr_val bs s =
    (if bev_addr_val < RPU_ADDR_BEV_START \<or> RPU_ADDR_BEV_END < bev_addr_val \<or> bev_addr_val mod 4 \<noteq> 0
     then Some (FAIL, s)
     else bev_write_loop os bev_addr_val (words_of bs) FAIL s)"

definition hal_rpu_mem_read ::
    "os \<Rightarrow> u32 \<Rightarrow> nat \<Rightarrow> hal \<Rightarrow> (nrf_status \<times> u8 list \<times> hal) option" where
  "hal_rpu_mem_read os rpu_mem_addr_val len s =
    (if \<not> hal_rpu_is_mem_readable (curr_proc s) rpu_mem_addr_val then Some (FAIL, [], s)
     else rpu_mem_read_ram os rpu_mem_addr_val len s)"

definition hal_rpu_mem_write :: "os \<Rightarrow> u32 \<Rightarrow> u8 list \<Rightarrow> hal \<Rightarrow> (nrf_status \<times> hal) option" where
  "hal_rpu_mem_write os a bs s =
    (if \<not> hal_rpu_is_mem_writable (curr_proc s) a then Some (FAIL, s)
     else if hal_rpu_is_mem_core_indirect (curr_proc s) a then rpu_mem_write_core os a bs s
     else if hal_rpu_is_mem_core_direct (curr_proc s) a \<or> hal_rpu_is_mem_ram (curr_proc s) a
       then rpu_mem_write_ram os a bs s
     else if hal_rpu_is_mem_bev a then rpu_mem_write_bev os a bs s
     else Some (FAIL, s))"

partial_function (option) mem_clr_loop :: "os \<Rightarrow> u32 \<Rightarrow> u32 \<Rightarrow> hal \<Rightarrow> (nrf_status \<times> hal) option" where
  "mem_clr_loop os mem_addr end_addr s =
    (if mem_addr \<le> end_addr then do {
       (st, s) \<leftarrow> hal_rpu_mem_write os mem_addr (le32_bytes 0) s;
       if st \<noteq> SUCCESS then Some (st, s) else mem_clr_loop os (mem_addr + 4) end_addr s
     } else Some (SUCCESS, s))"

fun region_index :: "mcu_region \<Rightarrow> nat" where
  "region_index RPU_MCU_ADDR_REGION_ROM = 0"
| "region_index RPU_MCU_ADDR_REGION_RETENTION = 1"
| "region_index RPU_MCU_ADDR_REGION_SCRATCH = 2"
| "region_index RPU_MCU_ADDR_REGION_MAX = 3"

text \<open>The address map has no entry for \<open>RPU_PROC_TYPE_MAX\<close>: indexing it there is undefined.\<close>

definition hal_rpu_mem_clr :: "os \<Rightarrow> rpu_proc \<Rightarrow> hal_mem_type \<Rightarrow> hal \<Rightarrow> (nrf_status \<times> hal) option" where
  "hal_rpu_mem_clr os proc mem_type s =
    (let mcu_region = pal_mem_type_to_region mem_type in
     if mem_type = HAL_RPU_MEM_TYPE_GRAM then mem_clr_loop os RPU_ADDR_GRAM_START RPU_ADDR_GRAM_END s
     else if mem_type = HAL_RPU_MEM_TYPE_PKTRAM
       then mem_clr_loop os RPU_ADDR_PKTRAM_START RPU_ADDR_PKTRAM_END s
     else if mcu_region \<noteq> RPU_MCU_ADDR_REGION_MAX then
       (if proc = RPU_PROC_TYPE_MAX then None
        else let r = RPU_ADDR_MAP_MCU proc ! region_index mcu_region
             in mem_clr_loop os (region_start r) (region_end r) s)
     else Some (FAIL, s))"

section \<open>The contract of the power-save frame\<close>

text \<open>What an access may change of the state: the trace and the power bookkeeping.\<close>

definition ps_norm :: "hal \<Rightarrow> hal" where
  "ps_norm s = s\<lparr>w_trace := [], is_wakeup_now_asserted := False,
     last_wakeup_now_asserted_time_ms := 0, last_rpu_sleep_opp_time_ms := 0,
     rpu_ps_state := RPU_PS_STATE_ASLEEP\<rparr>"

definition ps_frame :: "hal \<Rightarrow> hal \<Rightarrow> bool" where
  "ps_frame s t = (ps_norm t = ps_norm s)"

lemma ps_frame_refl [simp]: "ps_frame s s"
  by (simp add: ps_frame_def)

lemma ps_frame_trans: "ps_frame s t \<Longrightarrow> ps_frame t u \<Longrightarrow> ps_frame s u"
  by (simp add: ps_frame_def)

lemma ps_frame_upd [simp]:
  "ps_frame s (t\<lparr>w_trace := tr\<rparr>) = ps_frame s t"
  "ps_frame s (t\<lparr>is_wakeup_now_asserted := a\<rparr>) = ps_frame s t"
  "ps_frame s (t\<lparr>last_wakeup_now_asserted_time_ms := m\<rparr>) = ps_frame s t"
  "ps_frame s (t\<lparr>last_rpu_sleep_opp_time_ms := m\<rparr>) = ps_frame s t"
  "ps_frame s (t\<lparr>rpu_ps_state := p\<rparr>) = ps_frame s t"
  "ps_frame (s\<lparr>w_trace := tr\<rparr>) t = ps_frame s t"
  "ps_frame (s\<lparr>is_wakeup_now_asserted := a\<rparr>) t = ps_frame s t"
  "ps_frame (s\<lparr>last_wakeup_now_asserted_time_ms := m\<rparr>) t = ps_frame s t"
  "ps_frame (s\<lparr>last_rpu_sleep_opp_time_ms := m\<rparr>) t = ps_frame s t"
  "ps_frame (s\<lparr>rpu_ps_state := p\<rparr>) t = ps_frame s t"
  by (simp_all add: ps_frame_def ps_norm_def)

lemma ps_frame_fields:
  assumes "ps_frame s t"
  shows "bal_bus t = bal_bus s" "bus_host_addr_base t = bus_host_addr_base s"
    "bus_addr_pktram_base t = bus_addr_pktram_base s" "cfg_params t = cfg_params s"
    "addr_pktram_base t = addr_pktram_base s" "hpqm_info t = hpqm_info s"
    "rx_cmd_base t = rx_cmd_base s" "tx_cmd_base t = tx_cmd_base s" "num_cmds t = num_cmds s"
    "cmd_q t = cmd_q s" "event_q t = event_q s" "curr_proc t = curr_proc s"
    "rx_buf_info t = rx_buf_info s" "tx_buf_info t = tx_buf_info s"
    "addr_rpu_pktram_base t = addr_rpu_pktram_base s"
    "addr_rpu_pktram_base_tx t = addr_rpu_pktram_base_tx s"
    "addr_rpu_pktram_base_rx_pool t = addr_rpu_pktram_base_rx_pool s"
    "tx_frame_offset t = tx_frame_offset s" "rpu_fw_booted t = rpu_fw_booted s"
    "event_data t = event_data s" "event_data_curr t = event_data_curr s"
    "event_data_len t = event_data_len s" "event_data_pending t = event_data_pending s"
    "event_resubmit t = event_resubmit s" "hal_status t = hal_status s"
    "wdt_irq_received t = wdt_irq_received s" "wdt_irq_ignored t = wdt_irq_ignored s"
  using assms by (cases s, cases t, simp add: ps_frame_def ps_norm_def)+

lemma ps_frame_setup: "ps_frame s t \<Longrightarrow> same_setup s t"
  by (simp add: same_setup_def ps_frame_fields)

text \<open>The bus accesses only grow.\<close>

definition acc_ext :: "hal \<Rightarrow> hal \<Rightarrow> bool" where
  "acc_ext s t = (\<exists>es. accs (w_trace t) = es @ accs (w_trace s))"

lemma acc_ext_refl [simp]: "acc_ext s s"
  by (simp add: acc_ext_def)

lemma acc_ext_trans: "acc_ext s t \<Longrightarrow> acc_ext t u \<Longrightarrow> acc_ext s u"
  by (auto simp: acc_ext_def)

text \<open>An operation that only uses the power-save lock.\<close>

definition ps_op :: "hal \<Rightarrow> hal \<Rightarrow> bool" where
  "ps_op s t = (ps_frame s t \<and> hal_step {LOCK_PS} s t \<and> acc_ext s t)"

lemma ps_op_refl [simp]: "ps_op s s"
  by (simp add: ps_op_def)

lemma ps_op_trans: "ps_op s t \<Longrightarrow> ps_op t u \<Longrightarrow> ps_op s u"
  unfolding ps_op_def using ps_frame_trans hal_step_trans acc_ext_trans by blast

lemma quiet_no_access: "quiet e \<Longrightarrow> \<not> bus_access e"
  by (cases e) auto

lemma ps_op_quiet: "quiet e \<Longrightarrow> ps_op s t \<Longrightarrow> ps_op s (emit e t)"
  unfolding ps_op_def
  by (auto intro: hal_step_quiet simp: same_setup_def acc_ext_def quiet_no_access)

lemma ps_op_accs: "ps_op s t \<Longrightarrow> \<exists>es. accs (w_trace t) = es @ accs (w_trace s)"
  by (simp add: ps_op_def acc_ext_def)

lemma ps_op_frame: "ps_op s t \<Longrightarrow> ps_frame s t"
  by (simp add: ps_op_def)

lemma ps_op_step: "ps_op s t \<Longrightarrow> LOCK_PS \<in> L \<Longrightarrow> hal_step L s t"
  unfolding ps_op_def by (auto intro: hal_step_mono)

lemma ps_idle_sat:
  "sat (ps_idle_loop os t0 s) (\<lambda>t. ps_frame s t \<and> rpu_ps_state t = rpu_ps_state s \<and>
     accs (w_trace t) = accs (w_trace s) \<and> (\<forall>b tr. grows b tr (w_trace s) \<longrightarrow> grows b tr (w_trace t)))"
proof (rule satI)
  fix t assume eq: "ps_idle_loop os t0 s = Some t"
  show "ps_frame s t \<and> rpu_ps_state t = rpu_ps_state s \<and>
     accs (w_trace t) = accs (w_trace s) \<and> (\<forall>b tr. grows b tr (w_trace s) \<longrightarrow> grows b tr (w_trace t))"
  proof (induction os t0 s t rule: ps_idle_loop.raw_induct)
    case (1 f os t0 s r)
    let ?s = "emit (IoElapsedUs (os_elapsed_us os (w_trace s) t0)) s"
    show ?case
    proof (cases "os_elapsed_us os (w_trace s) t0 div 1000 < 1")
      case True
      with 1(2) have "f os t0 ?s = Some r" by (simp add: osal_defs Let_def)
      from 1(1) [OF this] show ?thesis
        using grows_quiet [of "IoElapsedUs (os_elapsed_us os (w_trace s) t0)"] by simp
    next
      case False
      with 1(2) have "r = ?s" by (simp add: osal_defs Let_def)
      then show ?thesis by (simp add: grows_quiet)
    qed
  qed (rule eq)
qed

lemma ps_wake_loop_sat:
  "sat (ps_wake_loop os start s) (\<lambda>(st, t). ps_frame s t \<and> rpu_ps_state t = rpu_ps_state s \<and>
     (st = SUCCESS \<longrightarrow> awake (w_trace t)) \<and> accs (w_trace t) = accs (w_trace s) \<and>
     (\<forall>b tr. grows b tr (w_trace s) \<longrightarrow> grows b tr (w_trace t)))"
proof (rule satI)
  fix r assume eq: "ps_wake_loop os start s = Some r"
  show "case r of (st, t) \<Rightarrow> ps_frame s t \<and> rpu_ps_state t = rpu_ps_state s \<and>
     (st = SUCCESS \<longrightarrow> awake (w_trace t)) \<and> accs (w_trace t) = accs (w_trace s) \<and>
     (\<forall>b tr. grows b tr (w_trace s) \<longrightarrow> grows b tr (w_trace t))"
  proof (induction os start s r rule: ps_wake_loop.raw_induct)
    case (1 f os start s r)
    let ?v = "os_ps_status os (w_trace s)"
    let ?s1 = "emit (IoPsStatus ?v) s"
    let ?t0 = "os_curr_us os (w_trace ?s1)"
    let ?s2 = "emit (IoCurrUs ?t0) ?s1"
    have g2: "grows b tr (w_trace s) \<Longrightarrow> grows b tr (w_trace ?s2)" for b tr
      by (simp add: grows_quiet grows_power)
    show ?case
    proof (cases "?v AND rpu_ps_state_mask = rpu_ps_state_mask")
      case True
      with 1(2) have "r = (SUCCESS, ?s1)" by (simp add: bal_ps_status)
      with True show ?thesis by (simp add: grows_power ps_ready_def)
    next
      case False
      with 1(2) obtain s3 where s3: "ps_idle_loop os ?t0 ?s2 = Some s3"
        and r: "(let (el, s) = osal_time_elapsed_us os start s3 in
           if el div 1000000 < RPU_PS_WAKE_TIMEOUT_S then f os start s else Some (FAIL, s)) = Some r"
        by (auto simp: bal_ps_status osal_time_get_curr_us_def Let_def split: bind_splits)
      have i3: "ps_frame ?s2 s3 \<and> rpu_ps_state s3 = rpu_ps_state ?s2 \<and>
         accs (w_trace s3) = accs (w_trace ?s2) \<and> (\<forall>b tr. grows b tr (w_trace ?s2) \<longrightarrow> grows b tr (w_trace s3))"
        using ps_idle_sat [of os ?t0 ?s2] s3 by simp
      let ?el = "os_elapsed_us os (w_trace s3) start"
      let ?s4 = "emit (IoElapsedUs ?el) s3"
      have g4: "grows b tr (w_trace s) \<Longrightarrow> grows b tr (w_trace ?s4)" for b tr
        using i3 g2 [of b tr] by (simp add: grows_quiet)
      show ?thesis
      proof (cases "?el div 1000000 < RPU_PS_WAKE_TIMEOUT_S")
        case True
        with r have "f os start ?s4 = Some r" by (simp add: osal_defs Let_def)
        from 1(1) [OF this] show ?thesis
          using i3 g4 ps_frame_trans [of s ?s4] by (auto split: prod.splits)
      next
        case False
        with r have "r = (FAIL, ?s4)" by (simp add: osal_defs Let_def)
        then show ?thesis using i3 g4 by simp
      qed
    qed
  qed (rule eq)
qed

lemma sleep_opp_frame:
  "ps_frame s (did_rpu_had_sleep_opp os t) = ps_frame s t"
  "rpu_ps_state (did_rpu_had_sleep_opp os t) = rpu_ps_state t"
  "awake (w_trace (did_rpu_had_sleep_opp os t)) = awake (w_trace t)"
  "accs (w_trace (did_rpu_had_sleep_opp os t)) = accs (w_trace t)"
  "grows b tr (w_trace t) \<Longrightarrow> grows b tr (w_trace (did_rpu_had_sleep_opp os t))"
  by (simp_all add: did_rpu_had_sleep_opp_def osal_defs Let_def grows_quiet)

lemma ps_wake_sat:
  "sat (hal_rpu_ps_wake os s) (\<lambda>(st, t). ps_frame s t \<and> hal_step {} s t \<and>
     accs (w_trace t) = accs (w_trace s) \<and>
     (st = FAIL \<longrightarrow> rpu_ps_state t = rpu_ps_state s \<and>
        hd (w_trace t) = IoTaskletSchedule TASKLET_RECOVERY) \<and>
     (st = SUCCESS \<and> rpu_fw_booted s \<longrightarrow> rpu_ps_state t = RPU_PS_STATE_AWAKE))"
proof -
  let ?s1 = "emit IoTimerKill s"
  have k: "hal_step {} s ?s1"
    by (rule hal_step_quiet [of IoTimerKill _ s s]) (simp_all add: same_setup_def)
  consider "\<not> rpu_fw_booted s" | "rpu_fw_booted s" "rpu_ps_state s = RPU_PS_STATE_AWAKE"
    | "rpu_fw_booted s" "rpu_ps_state s = RPU_PS_STATE_ASLEEP"
    by (cases "rpu_ps_state s") auto
  then show ?thesis
  proof cases
    case 1
    then show ?thesis by (simp add: hal_rpu_ps_wake_def)
  next
    case 2
    with k show ?thesis by (simp add: hal_rpu_ps_wake_def)
  next
    case 3
    let ?ms = "os_curr_ms os (IoPsWake # w_trace ?s1)"
    let ?start = "os_curr_us os (IoCurrMs ?ms # IoPsWake # w_trace ?s1)"
    let ?s2 = "s\<lparr>is_wakeup_now_asserted := True, last_wakeup_now_asserted_time_ms := ?ms,
       w_trace := IoDelayUs 1000 # IoCurrUs ?start # IoCurrMs ?ms # IoPsWake # w_trace ?s1\<rparr>"
    have g2: "grows b (w_trace s) (w_trace ?s2)" for b by (simp add: grows_quiet)
    have run: "hal_rpu_ps_wake os s = Option.bind (ps_wake_loop os ?start ?s2) (\<lambda>(st, s).
        if st \<noteq> SUCCESS then Some (st, emit (IoTaskletSchedule TASKLET_RECOVERY) s)
        else Some (st, did_rpu_had_sleep_opp os (s\<lparr>rpu_ps_state := RPU_PS_STATE_AWAKE\<rparr>)))"
      using 3 by (simp add: hal_rpu_ps_wake_def bal_ps_wake osal_defs Let_def)
    show ?thesis
      unfolding run
    proof (rule sat_bindI [OF ps_wake_loop_sat], clarify)
      fix st t
      assume t: "ps_frame ?s2 t" "rpu_ps_state t = rpu_ps_state ?s2"
        "st = SUCCESS \<longrightarrow> awake (w_trace t)" "accs (w_trace t) = accs (w_trace ?s2)"
        "\<forall>b tr. grows b tr (w_trace ?s2) \<longrightarrow> grows b tr (w_trace t)"
      have fr: "ps_frame s t" using t(1) by simp
      note b = ps_frame_fields(19) [OF fr] and g = t(5) [rule_format, OF g2]
      show "sat (if st \<noteq> SUCCESS then Some (st, emit (IoTaskletSchedule TASKLET_RECOVERY) t)
          else Some (st, did_rpu_had_sleep_opp os (t\<lparr>rpu_ps_state := RPU_PS_STATE_AWAKE\<rparr>)))
        (\<lambda>(st, t). ps_frame s t \<and> hal_step {} s t \<and> accs (w_trace t) = accs (w_trace s) \<and>
          (st = FAIL \<longrightarrow> rpu_ps_state t = rpu_ps_state s \<and>
             hd (w_trace t) = IoTaskletSchedule TASKLET_RECOVERY) \<and>
          (st = SUCCESS \<and> rpu_fw_booted s \<longrightarrow> rpu_ps_state t = RPU_PS_STATE_AWAKE))"
        using fr t(2-4) b g 3 ps_frame_setup [OF fr]
        by (cases st) (auto simp: hal_step_def ps_coherent_def sleep_opp_frame grows_quiet
            ps_frame_setup)
    qed
  qed
qed

lemma hal_step_access:
  assumes "hal_step L s t" "rpu_fw_booted s \<longrightarrow> rpu_ps_state t = RPU_PS_STATE_AWAKE" "bus_access e"
  shows "hal_step L s (emit e t)"
proof -
  have "rpu_fw_booted t = rpu_fw_booted s" using assms(1) by (simp add: hal_step_def same_setup_def)
  moreover have "awake (e # tr) = awake tr" for tr using assms(3) by (cases e) auto
  moreover have "same_setup s (emit e t)" using assms(1) by (simp add: hal_step_def same_setup_def)
  ultimately show ?thesis
    using assms by (auto simp: hal_step_def ps_coherent_def intro: grows_access)
qed

lemma ps_access_sat:
  assumes acc: "\<And>u. \<exists>st r e. access u = (st, r, emit e u) \<and> bus_access e"
  shows "sat (hal_ps_access os access none s) (\<lambda>(st, r, t). ps_op s t \<and>
    (st \<noteq> SUCCESS \<longrightarrow> r = none \<or> (\<exists>u. ps_frame s u \<and> fst (access u) \<noteq> SUCCESS \<and> r = fst (snd (access u)))) \<and>
    (st = SUCCESS \<longrightarrow> (\<exists>u. ps_frame s u \<and> accs (w_trace u) = accs (w_trace s) \<and> (rpu_fw_booted s \<and> ps_coherent s \<and> LOCK_PS \<notin> set (held (w_trace s)) \<longrightarrow> awake (w_trace u)) \<and>
       fst (access u) = SUCCESS \<and> r = fst (snd (access u)) \<and>
       w_trace t = IoTimerSchedule 10 # IoUnlock LOCK_PS # w_trace (snd (snd (access u))))))"
proof -
  let ?s1 = "emit (IoLock LOCK_PS) s"
  show ?thesis
    unfolding hal_ps_access_def Let_def
  proof (rule sat_bindI [OF ps_wake_sat], clarify)
    fix st t
    assume fr: "ps_frame ?s1 t" and hs: "hal_step {} ?s1 t"
      and ac: "accs (w_trace t) = accs (w_trace ?s1)"
      and aw: "st = SUCCESS \<and> rpu_fw_booted ?s1 \<longrightarrow> rpu_ps_state t = RPU_PS_STATE_AWAKE"
    have cl: "hal_step {LOCK_PS} s (emit (IoUnlock LOCK_PS) u)" if "hal_step {} ?s1 u" for u
      using hal_step_locked [of "{LOCK_PS}" LOCK_PS s u] that by simp
    obtain ast r e where a: "access t = (ast, r, emit e t)" "bus_access e"
      using acc by blast
    show "sat (case if st \<noteq> SUCCESS then (st, none, t) else access t of
           (st, r, s) \<Rightarrow> Some (st, r, if st = SUCCESS
             then emit (IoTimerSchedule NRF70_RPU_PS_IDLE_TIMEOUT_MS) (emit (IoUnlock LOCK_PS) s)
             else emit (IoUnlock LOCK_PS) s))
       (\<lambda>(st, r, t). ps_op s t \<and>
    (st \<noteq> SUCCESS \<longrightarrow> r = none \<or> (\<exists>u. ps_frame s u \<and> fst (access u) \<noteq> SUCCESS \<and> r = fst (snd (access u)))) \<and>
    (st = SUCCESS \<longrightarrow> (\<exists>u. ps_frame s u \<and> accs (w_trace u) = accs (w_trace s) \<and> (rpu_fw_booted s \<and> ps_coherent s \<and> LOCK_PS \<notin> set (held (w_trace s)) \<longrightarrow> awake (w_trace u)) \<and>
       fst (access u) = SUCCESS \<and> r = fst (snd (access u)) \<and>
       w_trace t = IoTimerSchedule 10 # IoUnlock LOCK_PS # w_trace (snd (snd (access u))))))"
    proof (cases st)
      case NRF_WIFI_STATUS_FAIL
      then show ?thesis using fr cl [OF hs] ac by (simp add: ps_op_def acc_ext_def)
    next
      case NRF_WIFI_STATUS_SUCCESS
      have hs': "hal_step {} ?s1 (emit e t)"
        using hs aw NRF_WIFI_STATUS_SUCCESS a(2) by (intro hal_step_access) simp_all
      have op: "ps_op s (emit (IoUnlock LOCK_PS) (emit e t))"
        using cl [OF hs'] fr ac a(2) by (simp add: ps_op_def acc_ext_def)
      then have op': "ps_op s (emit (IoTimerSchedule 10) (emit (IoUnlock LOCK_PS) (emit e t)))"
        by (rule ps_op_quiet [rotated]) simp
      have "awake (w_trace t)" if "rpu_fw_booted s" "ps_coherent s" "LOCK_PS \<notin> set (held (w_trace s))"
      proof -
        have "ps_coherent t" using hs that by (simp add: hal_step_def ps_coherent_def)
        then show ?thesis
          using aw that NRF_WIFI_STATUS_SUCCESS ps_frame_fields(19) [OF fr]
          by (simp add: ps_coherent_def)
      qed
      with NRF_WIFI_STATUS_SUCCESS a op op' fr ac show ?thesis
        by (cases ast) (auto intro!: exI [of _ t])
    qed
  qed
qed

lemma ps_access_op:
  assumes "\<And>u. \<exists>st r e. access u = (st, r, emit e u) \<and> bus_access e"
  shows "sat (hal_ps_access os access none s) (\<lambda>(st, r, t). ps_op s t)"
  by (rule sat_mono [OF ps_access_sat [OF assms]]) auto

section \<open>The contracts of registers, queues and memory\<close>

lemma emit_ex: "bus_access e \<Longrightarrow> \<exists>e'. emit e (u::hal) = emit e' u \<and> bus_access e'"
  by blast

lemma reg_read_sat:
  "sat (hal_rpu_reg_read os a s) (\<lambda>(st, v, t). ps_op s t \<and>
     (st = SUCCESS \<longrightarrow> (\<exists>w off. v = Some w \<and> w \<noteq> 0xFFFFFFFF \<and> hal_rpu_is_reg a \<and>
        pal_rpu_addr_offset_get a (curr_proc s) = Some off \<and>
        accs (w_trace t) = IoRead32 (bus_host_addr_base s + off) w # accs (w_trace s))))"
proof (cases "hal_rpu_is_reg a \<and> pal_rpu_addr_offset_get a (curr_proc s) \<noteq> None")
  case False
  then show ?thesis by (auto simp: hal_rpu_reg_read_def)
next
  case True
  then obtain off where off: "pal_rpu_addr_offset_get a (curr_proc s) = Some off" by auto
  show ?thesis
    using True off unfolding hal_rpu_reg_read_def
    by (auto intro!: sat_mono [OF ps_access_sat] emit_ex simp: bal_read_word Let_def
        dest: ps_frame_fields(2) split: if_splits)
qed

lemma reg_write_sat:
  "sat (hal_rpu_reg_write os a v s) (\<lambda>(st, t). ps_op s t \<and>
     (st = SUCCESS \<longrightarrow> (\<exists>off. hal_rpu_is_reg a \<and>
        pal_rpu_addr_offset_get a (curr_proc s) = Some off \<and>
        accs (w_trace t) = IoWrite32 (bus_host_addr_base s + off) v # accs (w_trace s))))"
proof (cases "hal_rpu_is_reg a \<and> pal_rpu_addr_offset_get a (curr_proc s) \<noteq> None")
  case False
  then show ?thesis by (auto simp: hal_rpu_reg_write_def)
next
  case True
  then obtain off where off: "pal_rpu_addr_offset_get a (curr_proc s) = Some off" by auto
  show ?thesis
    using True off unfolding hal_rpu_reg_write_def
    by (auto intro!: sat_bindI [OF ps_access_sat] emit_ex simp: bal_write_word
        dest: ps_frame_fields(2) split: if_splits)
qed

lemma mem_read_ram_sat:
  "sat (rpu_mem_read_ram os a len s) (\<lambda>(st, bs, t). ps_op s t \<and>
     (st = SUCCESS \<longrightarrow> length bs = len) \<and> (st \<noteq> SUCCESS \<longrightarrow> bs = []))"
proof (cases "pal_rpu_addr_offset_get a (curr_proc s)")
  case (Some off)
  then show ?thesis
    unfolding rpu_mem_read_ram_def
    by (auto intro!: sat_mono [OF ps_access_sat] emit_ex simp: bal_read_block Let_def)
qed (simp add: rpu_mem_read_ram_def)

lemma mem_write_ram_sat:
  "sat (rpu_mem_write_ram os a bs s) (\<lambda>(st, t). ps_op s t \<and>
     (st = SUCCESS \<longrightarrow> (\<exists>off. pal_rpu_addr_offset_get a (curr_proc s) = Some off \<and>
        accs (w_trace t) = IoWriteBlock (bus_host_addr_base s + off) bs # accs (w_trace s))))"
proof (cases "pal_rpu_addr_offset_get a (curr_proc s)")
  case (Some off)
  then show ?thesis
    unfolding rpu_mem_write_ram_def
    by (auto intro!: sat_bindI [OF ps_access_sat] emit_ex simp: bal_write_block dest: ps_frame_fields(2))
qed (simp add: rpu_mem_write_ram_def)

text \<open>Operations that return a status and only use the power-save lock.\<close>

definition ps_ok :: "hal \<Rightarrow> (nrf_status \<times> hal) option \<Rightarrow> bool" where
  "ps_ok s m = sat m (\<lambda>(st, t). ps_op s t)"

lemma ps_ok_Some [simp]: "ps_ok s (Some (st, t)) = ps_op s t"
  by (simp add: ps_ok_def)

lemma ps_ok_None [simp]: "ps_ok s None"
  by (simp add: ps_ok_def)

lemma ps_ok_bind:
  assumes "ps_ok s m" "\<And>st t. ps_op s t \<Longrightarrow> ps_ok t (f (st, t))"
  shows "ps_ok s (Option.bind m f)"
  using assms unfolding ps_ok_def
  by (cases m) (auto intro: sat_mono ps_op_trans)

lemma reg_write_ok [pres]: "ps_ok s (hal_rpu_reg_write os a v s)"
  unfolding ps_ok_def by (rule sat_mono [OF reg_write_sat]) auto

lemma hpq_enqueue_ok [pres]: "ps_ok s (hal_rpu_hpq_enqueue os q v s)"
  by (simp add: hal_rpu_hpq_enqueue_def reg_write_ok)

lemma mem_write_ram_ok [pres]: "ps_ok s (rpu_mem_write_ram os a bs s)"
  unfolding ps_ok_def by (rule sat_mono [OF mem_write_ram_sat]) auto

lemma core_write_loop_ok [pres]: "ps_ok s (core_write_loop os r ws st s)"
proof (induction ws arbitrary: st s)
  case (Cons w ws)
  then show ?case by (auto intro!: ps_ok_bind reg_write_ok)
qed simp

lemma bev_write_loop_ok [pres]: "ps_ok s (bev_write_loop os a ws st s)"
proof (induction ws arbitrary: a st s)
  case (Cons w ws)
  then show ?case by (auto intro!: ps_ok_bind reg_write_ok)
qed simp

lemma mem_write_core_ok [pres]: "ps_ok s (rpu_mem_write_core os a bs s)"
  by (auto simp: rpu_mem_write_core_def Let_def intro!: ps_ok_bind reg_write_ok core_write_loop_ok)

lemma mem_write_bev_ok [pres]: "ps_ok s (rpu_mem_write_bev os a bs s)"
  by (auto simp: rpu_mem_write_bev_def intro!: bev_write_loop_ok)

lemma mem_write_ok [pres]: "ps_ok s (hal_rpu_mem_write os a bs s)"
  by (simp add: hal_rpu_mem_write_def mem_write_core_ok mem_write_ram_ok mem_write_bev_ok)

lemma mem_read_sat:
  "sat (hal_rpu_mem_read os a len s) (\<lambda>(st, bs, t). ps_op s t \<and>
     (st = SUCCESS \<longrightarrow> length bs = len) \<and> (st \<noteq> SUCCESS \<longrightarrow> bs = []))"
  using mem_read_ram_sat [of os a len s] by (simp add: hal_rpu_mem_read_def)

lemma hpq_dequeue_sat:
  "sat (hal_rpu_hpq_dequeue os q s) (\<lambda>(st, v, t). ps_op s t \<and> (st = SUCCESS \<longrightarrow> v \<noteq> None))"
  unfolding hal_rpu_hpq_dequeue_def
proof (rule sat_bindI [OF reg_read_sat], clarify)
  fix st v t
  assume op: "ps_op s t" and ok: "st = SUCCESS \<longrightarrow> (\<exists>w off. v = Some w \<and> w \<noteq> 0xFFFFFFFF \<and>
      hal_rpu_is_reg (dequeue_addr q) \<and>
      pal_rpu_addr_offset_get (dequeue_addr q) (curr_proc s) = Some off \<and>
      accs (w_trace t) = IoRead32 (bus_host_addr_base s + off) w # accs (w_trace s))"
  show "sat (if st \<noteq> SUCCESS then Some (st, v, t)
      else case v of None \<Rightarrow> Some (st, v, t)
        | Some w \<Rightarrow> if w \<noteq> 0 then do {
              (st, s) \<leftarrow> hal_rpu_reg_write os (dequeue_addr q) w t; Some (st, v, s) }
            else Some (st, v, t))
     (\<lambda>(st, v, t). ps_op s t \<and> (st = SUCCESS \<longrightarrow> v \<noteq> None))"
    using op ok by (auto split: option.splits intro!: sat_bindI [OF reg_write_sat]
        intro: ps_op_trans)
qed

lemma mem_clr_loop_ok [pres]: "ps_ok s (mem_clr_loop os a e s)"
  unfolding ps_ok_def
proof (rule satI)
  fix r assume eq: "mem_clr_loop os a e s = Some r"
  show "case r of (st, t) \<Rightarrow> ps_op s t"
  proof (induction os a e s r rule: mem_clr_loop.raw_induct)
    case (1 f os a e s r)
    show ?case
    proof (cases "a \<le> e")
      case True
      with 1(2) obtain st t where m: "hal_rpu_mem_write os a (le32_bytes 0) s = Some (st, t)"
        and r: "(if st \<noteq> SUCCESS then Some (st, t) else f os (a + 4) e t) = Some r"
        by (auto split: bind_splits)
      have op: "ps_op s t" using mem_write_ok [of s os a "le32_bytes 0"] m by simp
      then show ?thesis
        using r 1(1) [of os "a + 4" e t r] by (auto split: if_splits prod.splits intro: ps_op_trans)
    qed (use 1(2) in auto)
  qed (rule eq)
qed

lemma mem_clr_ok [pres]: "ps_ok s (hal_rpu_mem_clr os p ty s)"
  by (simp add: hal_rpu_mem_clr_def Let_def mem_clr_loop_ok)

lemma ps_sleep_step: "hal_step {LOCK_PS} s (hal_rpu_ps_sleep os s)"
proof -
  let ?ms = "os_curr_ms os (IoPsSleep # IoLock LOCK_PS # w_trace s)"
  let ?t = "s\<lparr>is_wakeup_now_asserted := False, last_wakeup_now_deasserted_time_ms := ?ms,
     rpu_ps_state := RPU_PS_STATE_ASLEEP,
     w_trace := IoCurrMs ?ms # IoPsSleep # IoLock LOCK_PS # w_trace s\<rparr>"
  have "hal_step ({LOCK_PS} - {LOCK_PS}) (emit (IoLock LOCK_PS) s) ?t"
    by (simp add: hal_step_def same_setup_def ps_coherent_def grows_quiet grows_power)
  then have "hal_step {LOCK_PS} s (emit (IoUnlock LOCK_PS) ?t)"
    by (rule hal_step_locked) simp
  then show ?thesis
    by (simp add: hal_rpu_ps_sleep_def bal_ps_sleep osal_defs Let_def)
qed

section \<open>The wake-up ends\<close>

context os_clock
begin

lemma idle_returns:
  assumes "T0 \<le> now (w_trace s)" "now (w_trace s) - T0 < 3000000"
  shows "\<exists>t. ps_idle_loop os (of_nat T0) s = Some t \<and> now (w_trace s) < now (w_trace t) \<and>
    now (w_trace t) \<le> max (now (w_trace s)) (T0 + 1001000) + 1000000"
  using assms
proof (induction "1000 - (now (w_trace s) - T0)" arbitrary: s rule: less_induct)
  case less
  let ?n = "now (w_trace s)"
  let ?e = "IoElapsedUs (os_elapsed_us os (w_trace s) (of_nat T0))"
  let ?s = "emit ?e s"
  have el: "unat (os_elapsed_us os (w_trace s) (of_nat T0)) = ?n - T0"
    using less.prems by (intro elapsed_unat) simp_all
  have tk: "?n < now (w_trace ?s)" "now (w_trace ?s) \<le> ?n + 1000000"
    using tick [of "w_trace s" ?e] tock [of ?e "w_trace s"] by simp_all
  have test: "(os_elapsed_us os (w_trace s) (of_nat T0) div 1000 = 0) = (?n - T0 < 1000)"
    by (simp add: word_unat_eq_iff unat_div el div_eq_0_iff)
  have un: "ps_idle_loop os (of_nat T0) s
      = (if ?n - T0 < 1000 then ps_idle_loop os (of_nat T0) ?s else Some ?s)"
    by (subst ps_idle_loop.simps) (simp add: osal_defs Let_def test)
  show ?case
  proof (cases "?n - T0 < 1000")
    case True
    have "1000 - (now (w_trace ?s) - T0) < 1000 - (?n - T0)"
      using True tk(1) less.prems(1) by linarith
    moreover have "T0 \<le> now (w_trace ?s)" "now (w_trace ?s) - T0 < 3000000"
      using tk less.prems(1) True by linarith+
    ultimately obtain t where t: "ps_idle_loop os (of_nat T0) ?s = Some t"
        "now (w_trace ?s) < now (w_trace t)"
        "now (w_trace t) \<le> max (now (w_trace ?s)) (T0 + 1001000) + 1000000"
      using less.hyps [of ?s] by blast
    moreover have "now (w_trace ?s) \<le> T0 + 1001000"
      using tk(2) True less.prems(1) by linarith
    ultimately show ?thesis using un True tk(1) by auto
  next
    case False
    with un tk show ?thesis by auto
  qed
qed

lemma wake_loop_returns:
  assumes "S0 \<le> now (w_trace s)" "now (w_trace s) - S0 < 10000000"
  shows "\<exists>st t. ps_wake_loop os (of_nat S0) s = Some (st, t) \<and> now (w_trace s) < now (w_trace t) \<and>
    now (w_trace t) \<le> max (now (w_trace s)) (S0 + 7000000) + 6000000"
  using assms
proof (induction "1000000 - (now (w_trace s) - S0)" arbitrary: s rule: less_induct)
  case less
  let ?n = "now (w_trace s)"
  let ?v = "os_ps_status os (w_trace s)"
  let ?s1 = "emit (IoPsStatus ?v) s"
  let ?t0 = "os_curr_us os (w_trace ?s1)"
  let ?s2 = "emit (IoCurrUs ?t0) ?s1"
  have k1: "?n < now (w_trace ?s1)" "now (w_trace ?s1) \<le> ?n + 1000000"
    using tick [of "w_trace s" "IoPsStatus ?v"] tock [of "IoPsStatus ?v" "w_trace s"] by simp_all
  have k2: "now (w_trace ?s1) < now (w_trace ?s2)" "now (w_trace ?s2) \<le> now (w_trace ?s1) + 1000000"
    using tick [of "w_trace ?s1" "IoCurrUs ?t0"] tock [of "IoCurrUs ?t0" "w_trace ?s1"] by simp_all
  show ?case
  proof (cases "?v AND rpu_ps_state_mask = rpu_ps_state_mask")
    case True
    then show ?thesis
      using k1 by (subst ps_wake_loop.simps) (auto simp: bal_ps_status)
  next
    case False
    have t0: "?t0 = of_nat (now (w_trace ?s1))" by (rule curr_us_law)
    have "now (w_trace ?s1) \<le> now (w_trace ?s2)" "now (w_trace ?s2) - now (w_trace ?s1) < 3000000"
      using k2 by linarith+
    then obtain s3 where s3: "ps_idle_loop os ?t0 ?s2 = Some s3" "now (w_trace ?s2) < now (w_trace s3)"
        "now (w_trace s3) \<le> max (now (w_trace ?s2)) (now (w_trace ?s1) + 1001000) + 1000000"
      using idle_returns [of "now (w_trace ?s1)" ?s2] t0 by auto
    let ?el = "os_elapsed_us os (w_trace s3) (of_nat S0)"
    let ?s4 = "emit (IoElapsedUs ?el) s3"
    have b3: "?n < now (w_trace s3)" "now (w_trace s3) \<le> ?n + 4000000"
      using k1 k2 s3 by linarith+
    have k4: "now (w_trace s3) < now (w_trace ?s4)" "now (w_trace ?s4) \<le> now (w_trace s3) + 1000000"
      using tick [of "w_trace s3" "IoElapsedUs ?el"] tock [of "IoElapsedUs ?el" "w_trace s3"]
      by simp_all
    have "now (w_trace s3) - S0 < 4294967296" using less.prems b3 by linarith
    then have el: "unat ?el = now (w_trace s3) - S0"
      using less.prems b3 by (intro elapsed_unat) simp_all
    have test: "(?el div 1000000 = 0) = (now (w_trace s3) - S0 < 1000000)"
      by (simp add: word_unat_eq_iff unat_div el div_eq_0_iff)
    have un: "ps_wake_loop os (of_nat S0) s =
        (if now (w_trace s3) - S0 < 1000000 then ps_wake_loop os (of_nat S0) ?s4 else Some (FAIL, ?s4))"
      using False s3(1)
      by (subst ps_wake_loop.simps) (simp add: bal_ps_status osal_defs Let_def test)
    show ?thesis
    proof (cases "now (w_trace s3) - S0 < 1000000")
      case True
      have "1000000 - (now (w_trace ?s4) - S0) < 1000000 - (?n - S0)"
        using True b3 k4 less.prems(1) by linarith
      moreover have "S0 \<le> now (w_trace ?s4)" "now (w_trace ?s4) - S0 < 10000000"
        using True b3 k4 less.prems(1) by linarith+
      ultimately obtain st t where t: "ps_wake_loop os (of_nat S0) ?s4 = Some (st, t)"
          "now (w_trace ?s4) < now (w_trace t)"
          "now (w_trace t) \<le> max (now (w_trace ?s4)) (S0 + 7000000) + 6000000"
        using less.hyps [of ?s4] by blast
      moreover have "now (w_trace ?s4) \<le> S0 + 7000000"
        using True b3 k4 less.prems(1) by linarith
      moreover have "?n < now (w_trace t)" using b3 k4 t(2) by linarith
      ultimately show ?thesis using un True by auto
    next
      case False
      with un b3 k4 show ?thesis by auto
    qed
  qed
qed

lemma ps_wake_returns: "\<exists>st t. hal_rpu_ps_wake os s = Some (st, t)"
proof (cases "rpu_fw_booted s \<and> rpu_ps_state s = RPU_PS_STATE_ASLEEP")
  case False
  then show ?thesis
    by (cases "rpu_ps_state s") (auto simp: hal_rpu_ps_wake_def Let_def)
next
  case True
  let ?ms = "os_curr_ms os (IoPsWake # IoTimerKill # w_trace s)"
  let ?tr = "IoCurrMs ?ms # IoPsWake # IoTimerKill # w_trace s"
  let ?e = "IoCurrUs (of_nat (now ?tr))"
  let ?tr2 = "?e # ?tr"
  let ?s2 = "s\<lparr>is_wakeup_now_asserted := True, last_wakeup_now_asserted_time_ms := ?ms,
       w_trace := IoDelayUs 1000 # ?tr2\<rparr>"
  have "now ?tr < now ?tr2" "now ?tr2 \<le> now ?tr + 1000000"
    using tick [of ?tr ?e] tock [of ?e ?tr] by simp_all
  moreover have "now ?tr2 < now (w_trace ?s2)" "now (w_trace ?s2) \<le> now ?tr2 + 1001000"
    using tick [of ?tr2 "IoDelayUs 1000"] tock [of "IoDelayUs 1000" ?tr2] by simp_all
  ultimately have "now ?tr \<le> now (w_trace ?s2)" "now (w_trace ?s2) - now ?tr < 10000000"
    by linarith+
  then obtain st t where "ps_wake_loop os (of_nat (now ?tr)) ?s2 = Some (st, t)"
    using wake_loop_returns [of "now ?tr" ?s2] by blast
  with True show ?thesis
    by (simp add: hal_rpu_ps_wake_def bal_ps_wake osal_defs Let_def curr_us_law)
qed

lemma ps_access_returns: "\<exists>st r t. hal_ps_access os access none s = Some (st, r, t)"
proof -
  obtain st t where "hal_rpu_ps_wake os (emit (IoLock LOCK_PS) s) = Some (st, t)"
    using ps_wake_returns by blast
  then show ?thesis by (simp add: hal_ps_access_def Let_def split: prod.splits)
qed

lemma reg_read_returns: "\<exists>st v t. hal_rpu_reg_read os a s = Some (st, v, t)"
  by (auto simp: hal_rpu_reg_read_def ps_access_returns split: option.splits)

lemma reg_write_returns: "\<exists>st t. hal_rpu_reg_write os a v s = Some (st, t)"
proof (cases "pal_rpu_addr_offset_get a (curr_proc s)")
  case (Some off)
  then show ?thesis
    using ps_access_returns [of "\<lambda>s. (SUCCESS, (), nrf_wifi_bal_write_word off v s)" "()" s]
    by (auto simp: hal_rpu_reg_write_def)
qed (simp add: hal_rpu_reg_write_def)

lemma hpq_dequeue_returns: "\<exists>st v t. hal_rpu_hpq_dequeue os q s = Some (st, v, t)"
proof -
  obtain st v t where r: "hal_rpu_reg_read os (dequeue_addr q) s = Some (st, v, t)"
    using reg_read_returns by blast
  show ?thesis
    using r reg_write_returns [of "dequeue_addr q" "the v" t]
    by (cases v) (auto simp: hal_rpu_hpq_dequeue_def)
qed

lemma mem_read_returns: "\<exists>st bs t. hal_rpu_mem_read os a n s = Some (st, bs, t)"
  by (auto simp: hal_rpu_mem_read_def rpu_mem_read_ram_def ps_access_returns split: option.splits)

lemma core_write_loop_returns: "\<exists>st' t. core_write_loop os r ws st s = Some (st', t)"
proof (induction ws arbitrary: st s)
  case (Cons w ws)
  obtain st1 t1 where "hal_rpu_reg_write os r w s = Some (st1, t1)" using reg_write_returns by blast
  with Cons show ?case by auto
qed simp

lemma bev_write_loop_returns: "\<exists>st' t. bev_write_loop os a ws st s = Some (st', t)"
proof (induction ws arbitrary: a st s)
  case (Cons w ws)
  obtain st1 t1 where "hal_rpu_reg_write os (rpu_get_bev_addr_remap s a) w s = Some (st1, t1)"
    using reg_write_returns by blast
  with Cons show ?case by auto
qed simp

lemma mem_write_ram_returns: "\<exists>st t. rpu_mem_write_ram os a bs s = Some (st, t)"
proof (cases "pal_rpu_addr_offset_get a (curr_proc s)")
  case (Some off)
  then show ?thesis
    using ps_access_returns [of "\<lambda>s. (SUCCESS, (), nrf_wifi_bal_write_block off bs s)" "()" s]
    by (auto simp: rpu_mem_write_ram_def)
qed (simp add: rpu_mem_write_ram_def)

lemma mem_write_returns: "\<exists>st t. hal_rpu_mem_write os a bs s = Some (st, t)"
proof -
  obtain st t where "hal_rpu_reg_write os RPU_REG_MIPS_MCU_SYS_CORE_MEM_CTRL
      ((a AND RPU_ADDR_MASK_OFFSET) div 4) s = Some (st, t)" using reg_write_returns by blast
  moreover obtain st' t' where "hal_rpu_reg_write os RPU_REG_MIPS_MCU2_SYS_CORE_MEM_CTRL
      ((a AND RPU_ADDR_MASK_OFFSET) div 4) s = Some (st', t')" using reg_write_returns by blast
  ultimately show ?thesis
    using core_write_loop_returns bev_write_loop_returns mem_write_ram_returns
    by (auto simp: hal_rpu_mem_write_def rpu_mem_write_core_def rpu_mem_write_bev_def)
qed

end

section \<open>What reaches the bus\<close>

lemma pal_sbus: "a AND RPU_ADDR_MASK_BASE = RPU_ADDR_SBUS_START \<Longrightarrow>
  pal_rpu_addr_offset_get a p = Some (a AND RPU_ADDR_MASK_OFFSET)"
  by (simp add: pal_rpu_addr_offset_get_def Let_def)

lemma core_write_loop_accs:
  assumes "core_write_loop os r ws st s = Some (SUCCESS, t)"
    and "pal_rpu_addr_offset_get r (curr_proc s) = Some off"
  shows "accs (w_trace t) =
    rev (map (IoWrite32 (bus_host_addr_base s + off)) ws) @ accs (w_trace s)"
  using assms
proof (induction ws arbitrary: st s)
  case (Cons w ws)
  obtain st1 s1 where w: "hal_rpu_reg_write os r w s = Some (st1, s1)"
      and r: "(if st1 \<noteq> SUCCESS then Some (st1, s1) else core_write_loop os r ws st1 s1) = Some (SUCCESS, t)"
    using Cons.prems(1) by (auto split: bind_splits)
  from r have st1: "st1 = SUCCESS" by (cases st1) auto
  from reg_write_sat [of os r w s] w st1 Cons.prems(2)
  have a: "ps_op s s1" "accs (w_trace s1) = IoWrite32 (bus_host_addr_base s + off) w # accs (w_trace s)"
    by auto
  note f = ps_frame_fields [OF ps_op_frame [OF a(1)]]
  have "accs (w_trace t) = rev (map (IoWrite32 (bus_host_addr_base s1 + off)) ws) @ accs (w_trace s1)"
    using Cons.IH [of st1 s1] r st1 Cons.prems(2) f(12) by simp
  with a(2) f(2) show ?case by simp
qed simp

lemma mem_write_core_accs:
  assumes "rpu_mem_write_core os a bs s = Some (SUCCESS, t)"
  shows "\<exists>c d. (c, d) = (if curr_proc s = RPU_PROC_TYPE_MCU_UMAC then (0x130, 0x134) else (0x30, 0x34)) \<and>
    rev (accs (w_trace t)) = rev (accs (w_trace s)) @
      IoWrite32 (bus_host_addr_base s + c) ((a AND RPU_ADDR_MASK_OFFSET) div 4) #
      map (IoWrite32 (bus_host_addr_base s + d)) (words_of bs)"
proof -
  let ?u = "curr_proc s = RPU_PROC_TYPE_MCU_UMAC"
  let ?c = "if ?u then 0xA4000130 else 0xA4000030 :: u32"
  let ?d = "if ?u then 0xA4000134 else 0xA4000034 :: u32"
  let ?w = "(a AND RPU_ADDR_MASK_OFFSET) div 4"
  obtain st1 s1 where w: "hal_rpu_reg_write os ?c ?w s = Some (st1, s1)"
      and r: "(if st1 \<noteq> SUCCESS then Some (st1, s1) else core_write_loop os ?d (words_of bs) st1 s1)
        = Some (SUCCESS, t)"
    using assms by (auto simp: rpu_mem_write_core_def Let_def split: if_splits bind_splits)
  from r have st1: "st1 = SUCCESS" by (cases st1) auto
  have pc: "pal_rpu_addr_offset_get ?c p = Some (if ?u then 0x130 else 0x30)"
    and pd: "pal_rpu_addr_offset_get ?d p = Some (if ?u then 0x134 else 0x34)" for p
    by (simp_all add: pal_sbus)
  from reg_write_sat [of os ?c ?w s] w st1 pc
  have a: "ps_op s s1" "accs (w_trace s1) =
      IoWrite32 (bus_host_addr_base s + (if ?u then 0x130 else 0x30)) ?w # accs (w_trace s)"
    by auto
  note f = ps_frame_fields [OF ps_op_frame [OF a(1)]]
  have "accs (w_trace t) = rev (map (IoWrite32 (bus_host_addr_base s1 + (if ?u then 0x134 else 0x34)))
      (words_of bs)) @ accs (w_trace s1)"
    by (rule core_write_loop_accs [of os ?d _ st1]) (use r st1 pd in auto)
  with a(2) f(2) show ?thesis by (cases ?u) simp_all
qed

lemma hpq_dequeue_accs:
  assumes "hal_rpu_hpq_dequeue os q s = Some (SUCCESS, v, t)"
  shows "\<exists>w off. v = Some w \<and> w \<noteq> 0xFFFFFFFF \<and>
    pal_rpu_addr_offset_get (dequeue_addr q) (curr_proc s) = Some off \<and>
    accs (w_trace t) = (if w = 0 then [] else [IoWrite32 (bus_host_addr_base s + off) w]) @
      IoRead32 (bus_host_addr_base s + off) w # accs (w_trace s)"
proof -
  obtain st1 v1 s1 where r: "hal_rpu_reg_read os (dequeue_addr q) s = Some (st1, v1, s1)"
    using assms by (auto simp: hal_rpu_hpq_dequeue_def split: bind_splits)
  with assms have st1: "st1 = SUCCESS"
    by (cases st1) (auto simp: hal_rpu_hpq_dequeue_def)
  from reg_read_sat [of os "dequeue_addr q" s] r st1 obtain w off where
    w: "v1 = Some w" "w \<noteq> 0xFFFFFFFF" "ps_op s s1"
      "pal_rpu_addr_offset_get (dequeue_addr q) (curr_proc s) = Some off"
      "accs (w_trace s1) = IoRead32 (bus_host_addr_base s + off) w # accs (w_trace s)"
    by auto
  note f = ps_frame_fields [OF ps_op_frame [OF w(3)]]
  show ?thesis
  proof (cases "w = 0")
    case True
    with assms r st1 w show ?thesis by (auto simp: hal_rpu_hpq_dequeue_def)
  next
    case False
    with assms r st1 w obtain s2 where "hal_rpu_reg_write os (dequeue_addr q) w s1 = Some (SUCCESS, s2)"
        "v = Some w" "t = s2"
      by (auto simp: hal_rpu_hpq_dequeue_def split: bind_splits)
    with reg_write_sat [of os "dequeue_addr q" w s1] w f False show ?thesis by auto
  qed
qed

text \<open>Accesses to a device that is awake.\<close>

lemma wake_awake:
  "rpu_fw_booted s \<Longrightarrow> rpu_ps_state s = RPU_PS_STATE_AWAKE \<Longrightarrow>
   hal_rpu_ps_wake os s = Some (SUCCESS, emit IoTimerKill s)"
  by (simp add: hal_rpu_ps_wake_def)

lemma reg_write_awake:
  "hal_rpu_is_reg a \<Longrightarrow> pal_rpu_addr_offset_get a (curr_proc s) = Some off \<Longrightarrow>
   rpu_fw_booted s \<Longrightarrow> rpu_ps_state s = RPU_PS_STATE_AWAKE \<Longrightarrow>
   hal_rpu_reg_write os a v s = Some (SUCCESS,
     s\<lparr>w_trace := [IoTimerSchedule 10, IoUnlock LOCK_PS, IoWrite32 (bus_host_addr_base s + off) v,
       IoTimerKill, IoLock LOCK_PS] @ w_trace s\<rparr>)"
  by (simp add: hal_rpu_reg_write_def hal_ps_access_def wake_awake bal_write_word)

lemma reg_read_awake:
  "hal_rpu_is_reg a \<Longrightarrow> pal_rpu_addr_offset_get a (curr_proc s) = Some off \<Longrightarrow>
   rpu_fw_booted s \<Longrightarrow> rpu_ps_state s = RPU_PS_STATE_AWAKE \<Longrightarrow>
   v = os_read32 os (IoTimerKill # IoLock LOCK_PS # w_trace s) (bus_host_addr_base s + off) \<Longrightarrow>
   hal_rpu_reg_read os a s = Some (if v = 0xFFFFFFFF then FAIL else SUCCESS, Some v,
    s\<lparr>w_trace := (if v = 0xFFFFFFFF then [] else [IoTimerSchedule 10]) @
      [IoUnlock LOCK_PS, IoRead32 (bus_host_addr_base s + off) v, IoTimerKill, IoLock LOCK_PS] @
      w_trace s\<rparr>)"
  by (simp add: hal_rpu_reg_read_def hal_ps_access_def wake_awake bal_read_word)

lemma mem_write_ram_awake:
  "pal_rpu_addr_offset_get a (curr_proc s) = Some off \<Longrightarrow>
   rpu_fw_booted s \<Longrightarrow> rpu_ps_state s = RPU_PS_STATE_AWAKE \<Longrightarrow>
   rpu_mem_write_ram os a bs s = Some (SUCCESS,
     s\<lparr>w_trace := [IoTimerSchedule 10, IoUnlock LOCK_PS, IoWriteBlock (bus_host_addr_base s + off) bs,
       IoTimerKill, IoLock LOCK_PS] @ w_trace s\<rparr>)"
  by (simp add: rpu_mem_write_ram_def hal_ps_access_def wake_awake bal_write_block)

lemma mem_read_ram_awake:
  "pal_rpu_addr_offset_get a (curr_proc s) = Some off \<Longrightarrow>
   rpu_fw_booted s \<Longrightarrow> rpu_ps_state s = RPU_PS_STATE_AWAKE \<Longrightarrow>
   rpu_mem_read_ram os a n s = Some (SUCCESS,
     map (os_readb os (IoTimerKill # IoLock LOCK_PS # w_trace s) (bus_host_addr_base s + off)) [0..<n],
     s\<lparr>w_trace := [IoTimerSchedule 10, IoUnlock LOCK_PS, IoReadBlock (bus_host_addr_base s + off) n,
       IoTimerKill, IoLock LOCK_PS] @ w_trace s\<rparr>)"
  by (simp add: rpu_mem_read_ram_def hal_ps_access_def wake_awake bal_read_block)

section \<open>Properties\<close>

text \<open>C2 Waking the device always ends: with a clock that advances, \<open>hal_rpu_ps_wake\<close> returns
  within its timeout whatever the device answers. If it succeeds on running firmware the device
  was seen ready and the state says awake; if it gives up, the recovery tasklet was
  scheduled and the recorded power state is the old one.\<close>

theorem ps_wake_total:
  assumes "os_clock os now" "ps_coherent s"
  shows "\<exists>st t. hal_rpu_ps_wake os s = Some (st, t) \<and>
    (st = SUCCESS \<and> rpu_fw_booted s \<longrightarrow> rpu_ps_state t = RPU_PS_STATE_AWAKE \<and> awake (w_trace t)) \<and>
    (st = FAIL \<longrightarrow> rpu_ps_state t = rpu_ps_state s \<and>
       hd (w_trace t) = IoTaskletSchedule TASKLET_RECOVERY)"
proof -
  obtain st t where r: "hal_rpu_ps_wake os s = Some (st, t)"
    using os_clock.ps_wake_returns [OF assms(1)] by blast
  with ps_wake_sat [of os s] assms(2) ps_frame_fields(19) [of s t] show ?thesis
    by (auto simp: hal_step_def ps_coherent_def)
qed

definition hal_demo :: hal where
  "hal_demo = \<lparr>w_trace = [], bal_bus = BUS_QSPI, bus_cfg_pktram_base = 0xC0000,
     bus_host_addr_base = 0x40000000, bus_addr_pktram_base = 0x400C0000, bal_fw_booted = True,
     cfg_params = \<lparr>max_cmd_size = 400, max_event_size = 1000, rx_buf_headroom_sz = 4,
       tx_buf_headroom_sz = 52, max_tx_frms = 40,
       rx_buf_pool = replicate 3 \<lparr>buf_sz = 1600, num_bufs = 16\<rparr>, max_tx_frm_sz = 1600,
       max_ampdu_len_per_token = 65536\<rparr>,
     addr_pktram_base = 0xC0000, num_devs = 1, idx = 0,
     hpqm_info = \<lparr>event_busy_queue = \<lparr>enqueue_addr = 0xA4001000, dequeue_addr = 0xA4001004\<rparr>,
       event_avl_queue = \<lparr>enqueue_addr = 0xA4001008, dequeue_addr = 0xA400100C\<rparr>,
       cmd_busy_queue = \<lparr>enqueue_addr = 0xA4001010, dequeue_addr = 0xA4001014\<rparr>,
       cmd_avl_queue = \<lparr>enqueue_addr = 0xA4001018, dequeue_addr = 0xA400101C\<rparr>,
       rx_buf_busy_queue = replicate 3 \<lparr>enqueue_addr = 0xA4001020, dequeue_addr = 0xA4001024\<rparr>\<rparr>,
     rx_cmd_base = 0xB7001000, tx_cmd_base = 0xB00000B8, num_cmds = 0, cmd_q = [], event_q = [],
     curr_proc = RPU_PROC_TYPE_MCU_LMAC, rx_buf_info = [None, None, None], tx_buf_info = None,
     addr_rpu_pktram_base = 0xB0005000, addr_rpu_pktram_base_tx = 0xB0005000,
     addr_rpu_pktram_base_rx_pool = [0xB0010000, 0xB0018000, 0xB0020000], tx_frame_offset = 0xB0005000,
     is_wakeup_now_asserted = False, last_wakeup_now_asserted_time_ms = 0,
     last_wakeup_now_deasserted_time_ms = 0, last_rpu_sleep_opp_time_ms = 0,
     wdt_irq_received = 0, wdt_irq_ignored = 0, rpu_ps_state = RPU_PS_STATE_ASLEEP,
     dbg_enable = True, rpu_fw_booted = True, event_data = None, event_data_curr = 0,
     event_data_len = 0, event_data_pending = 0, event_resubmit = 0,
     hal_status = NRF_WIFI_HAL_STATUS_ENABLED\<rparr>"

theorem ps_wake_total_witness:
  "\<exists>st t. hal_rpu_ps_wake (tick_os (\<lambda>_ _. True) (\<lambda>_ _. 0) (\<lambda>_. 6)) hal_demo = Some (st, t)"
  using ps_wake_total [OF tick.os_clock_axioms, of hal_demo "\<lambda>_ _. True" "\<lambda>_ _. 0" "\<lambda>_. 6"]
  by (auto simp: ps_coherent_def hal_demo_def)

text \<open>A write to core memory through the indirect registers, when it succeeds, reaches
  the bus as exactly one write of the word address to the control register of the current
  processor followed by the words of the buffer, in order, to its data register.\<close>

theorem mem_write_core_order:
  assumes "rpu_mem_write_core os a bs s = Some (SUCCESS, t)"
  shows "rev (accs (w_trace t)) = rev (accs (w_trace s)) @
      IoWrite32 (bus_host_addr_base s + (if curr_proc s = RPU_PROC_TYPE_MCU_UMAC then 0x130 else 0x30))
        ((a AND RPU_ADDR_MASK_OFFSET) div 4) #
      map (IoWrite32 (bus_host_addr_base s +
        (if curr_proc s = RPU_PROC_TYPE_MCU_UMAC then 0x134 else 0x34))) (words_of bs)"
  using mem_write_core_accs [OF assms] by (cases "curr_proc s = RPU_PROC_TYPE_MCU_UMAC") auto

abbreviation demo_os :: os where
  "demo_os \<equiv> tick_os (\<lambda>_ _. True) (\<lambda>_ _. 0) (\<lambda>_. 6)"

definition hal_awake :: hal where
  "hal_awake = hal_demo\<lparr>rpu_ps_state := RPU_PS_STATE_AWAKE, w_trace := [IoPsStatus 6]\<rparr>"

lemma core_run:
  "\<exists>t. rpu_mem_write_core demo_os 0xC0000010 (le32_bytes 7 @ le32_bytes 9) hal_awake = Some (SUCCESS, t)"
  by (simp add: rpu_mem_write_core_def hal_rpu_is_mem_core_indirect_def hal_awake_def hal_demo_def
      reg_write_awake hal_rpu_is_reg_def pal_sbus)

theorem mem_write_core_order_witness:
  "\<exists>t. rpu_mem_write_core demo_os 0xC0000010 (le32_bytes 7 @ le32_bytes 9) hal_awake = Some (SUCCESS, t) \<and>
    rev (accs (w_trace t)) = [IoWrite32 0x40000030 4, IoWrite32 0x40000034 7, IoWrite32 0x40000034 9]"
proof -
  obtain t where t: "rpu_mem_write_core demo_os 0xC0000010 (le32_bytes 7 @ le32_bytes 9) hal_awake
      = Some (SUCCESS, t)" using core_run by blast
  from mem_write_core_order [OF t] have
    "rev (accs (w_trace t)) = [IoWrite32 0x40000030 4, IoWrite32 0x40000034 7, IoWrite32 0x40000034 9]"
    by (simp add: hal_awake_def hal_demo_def)
  with t show ?thesis by blast
qed

text \<open>Reading a register of a device that is awake takes one bus read, and an all-ones
  answer is an error. On that error path the sleep timer has been killed and is not armed again, so
  nothing is left that would let the device go back to sleep.\<close>

theorem reg_read_awake_exact:
  assumes "hal_rpu_is_reg a" "pal_rpu_addr_offset_get a (curr_proc s) = Some off"
    and "rpu_fw_booted s" "rpu_ps_state s = RPU_PS_STATE_AWAKE"
    and "v = os_read32 os (IoTimerKill # IoLock LOCK_PS # w_trace s) (bus_host_addr_base s + off)"
  shows "hal_rpu_reg_read os a s = Some (if v = 0xFFFFFFFF then FAIL else SUCCESS, Some v,
    s\<lparr>w_trace := (if v = 0xFFFFFFFF then [] else [IoTimerSchedule NRF70_RPU_PS_IDLE_TIMEOUT_MS]) @
      [IoUnlock LOCK_PS, IoRead32 (bus_host_addr_base s + off) v, IoTimerKill, IoLock LOCK_PS] @
      w_trace s\<rparr>)"
  using assms by (simp add: reg_read_awake)

theorem reg_read_awake_exact_witness:
  "hal_rpu_reg_read (tick_os (\<lambda>_ _. True) (\<lambda>_ _. 0xFFFFFFFF) (\<lambda>_. 6)) 0xA4000400 hal_awake =
    Some (FAIL, Some 0xFFFFFFFF, hal_awake\<lparr>w_trace := [IoUnlock LOCK_PS,
      IoRead32 0x40000400 0xFFFFFFFF, IoTimerKill, IoLock LOCK_PS, IoPsStatus 6]\<rparr>)"
  using reg_read_awake_exact [of "0xA4000400" hal_awake "0x400" "0xFFFFFFFF"
      "tick_os (\<lambda>_ _. True) (\<lambda>_ _. 0xFFFFFFFF) (\<lambda>_. 6)"]
  by (simp add: hal_awake_def hal_demo_def hal_rpu_is_reg_def pal_sbus tick_os_def)

end
