(* ===== verification/Hal_Cmd.thy ===== *)
theory Hal_Cmd
  imports Hal_Reg
begin

text \<open>The command path of \<open>hw_if/hal/src/common/hal_api_common.c\<close>: a command is cut into
  fragments that go to a queue, and the queue is emptied into buffers that the RPU offers. The
  queues are lists here; that the linked lists of the OS behave like them is what
  \<open>Linked_Queue\<close> shows. The original buffer of a command is the object \<open>OBJ_CMD\<close>, a queued
  message \<open>OBJ_HAL_MSG\<close>.\<close>

abbreviation MAX_HAL_RPU_READY_WAIT :: u32 where "MAX_HAL_RPU_READY_WAIT \<equiv> 1000000"
abbreviation RPU_REG_INT_TO_MCU_CTRL :: u32 where "RPU_REG_INT_TO_MCU_CTRL \<equiv> 0xA4000480"

section \<open>Queues of messages\<close>

definition cmd_q_enqueue :: "os \<Rightarrow> u8 list \<Rightarrow> hal \<Rightarrow> nrf_status \<times> hal" where
  "cmd_q_enqueue os m s =
    (let (ok, s) = osal_alloc os OBJ_Q_NODE s
     in if ok then (SUCCESS, s\<lparr>cmd_q := cmd_q s @ [m]\<rparr>) else (FAIL, s))"

definition cmd_q_dequeue :: "hal \<Rightarrow> u8 list option \<times> hal" where
  "cmd_q_dequeue s = (case cmd_q s of
     [] \<Rightarrow> (None, s)
   | m # ms \<Rightarrow> (Some m, emit (IoFree OBJ_Q_NODE) (s\<lparr>cmd_q := ms\<rparr>)))"

definition event_q_enqueue :: "os \<Rightarrow> u8 list \<Rightarrow> hal \<Rightarrow> nrf_status \<times> hal" where
  "event_q_enqueue os m s =
    (let (ok, s) = osal_alloc os OBJ_Q_NODE s
     in if ok then (SUCCESS, s\<lparr>event_q := event_q s @ [m]\<rparr>) else (FAIL, s))"

definition event_q_dequeue :: "hal \<Rightarrow> u8 list option \<times> hal" where
  "event_q_dequeue s = (case event_q s of
     [] \<Rightarrow> (None, s)
   | m # ms \<Rightarrow> (Some m, emit (IoFree OBJ_Q_NODE) (s\<lparr>event_q := ms\<rparr>)))"

section \<open>Posting one message\<close>

definition hal_rpu_hpq_is_empty :: "os \<Rightarrow> host_rpu_hpq \<Rightarrow> hal \<Rightarrow> (bool \<times> hal) option" where
  "hal_rpu_hpq_is_empty os q s = do {
     (st, v, s) \<leftarrow> hal_rpu_reg_read os (dequeue_addr q) s;
     if st \<noteq> SUCCESS then Some (True, s)
     else if v \<noteq> Some 0 then Some (False, s) else Some (True, s)
   }"

definition hal_rpu_ready :: "os \<Rightarrow> hal_msg_type \<Rightarrow> hal \<Rightarrow> (nrf_status \<times> hal) option" where
  "hal_rpu_ready os ty s =
    (if ty = NRF_WIFI_HAL_MSG_TYPE_CMD_CTRL then do {
       (empty, s) \<leftarrow> hal_rpu_hpq_is_empty os (cmd_avl_queue (hpqm_info s)) s;
       Some (if empty then FAIL else SUCCESS, s)
     } else Some (FAIL, s))"

partial_function (option) ready_wait_loop ::
    "os \<Rightarrow> hal_msg_type \<Rightarrow> u32 \<Rightarrow> hal \<Rightarrow> (nrf_status \<times> hal) option" where
  "ready_wait_loop os ty start s = do {
     (st, s) \<leftarrow> hal_rpu_ready os ty s;
     if st = SUCCESS then Some (SUCCESS, s)
     else let (el, s) = osal_time_elapsed_us os start s
          in if MAX_HAL_RPU_READY_WAIT \<le> el then Some (FAIL, s) else ready_wait_loop os ty start s
   }"

definition hal_rpu_ready_wait :: "os \<Rightarrow> hal_msg_type \<Rightarrow> hal \<Rightarrow> (nrf_status \<times> hal) option" where
  "hal_rpu_ready_wait os ty s =
    (let (start, s) = osal_time_get_curr_us os s in ready_wait_loop os ty start s)"

definition hal_rpu_msg_trigger :: "os \<Rightarrow> hal \<Rightarrow> (nrf_status \<times> hal) option" where
  "hal_rpu_msg_trigger os s = do {
     (st, s) \<leftarrow> hal_rpu_reg_write os RPU_REG_INT_TO_MCU_CTRL (num_cmds s OR 0x7FFF0000) s;
     if st \<noteq> SUCCESS then Some (st, s) else Some (st, s\<lparr>num_cmds := num_cmds s + 1\<rparr>)
   }"

definition hal_rpu_msg_post ::
    "os \<Rightarrow> hal_msg_type \<Rightarrow> u32 \<Rightarrow> u32 \<Rightarrow> hal \<Rightarrow> (nrf_status \<times> hal) option" where
  "hal_rpu_msg_post os ty queue_id msg_addr s =
    (if of_nat MAX_NUM_OF_RX_QUEUES \<le> queue_id then Some (FAIL, s)
     else let q = (if ty = NRF_WIFI_HAL_MSG_TYPE_CMD_CTRL \<or> ty = NRF_WIFI_HAL_MSG_TYPE_CMD_DATA_TX
                   then Some (cmd_busy_queue (hpqm_info s))
                   else if ty = NRF_WIFI_HAL_MSG_TYPE_CMD_DATA_RX
                   then Some (rx_buf_busy_queue (hpqm_info s) ! unat queue_id) else None)
      in case q of
        None \<Rightarrow> Some (FAIL, s)
      | Some busy_queue \<Rightarrow> do {
          (st, s) \<leftarrow> hal_rpu_hpq_enqueue os busy_queue msg_addr s;
          if st \<noteq> SUCCESS then Some (st, s)
          else if ty \<noteq> NRF_WIFI_HAL_MSG_TYPE_CMD_DATA_RX then hal_rpu_msg_trigger os s
          else Some (st, s)
        })"

definition hal_rpu_msg_get_addr ::
    "os \<Rightarrow> hal_msg_type \<Rightarrow> hal \<Rightarrow> (nrf_status \<times> u32 \<times> hal) option" where
  "hal_rpu_msg_get_addr os ty s =
    (if ty \<noteq> NRF_WIFI_HAL_MSG_TYPE_CMD_CTRL then Some (FAIL, 0, s)
     else do {
       (st, v, s) \<leftarrow> hal_rpu_hpq_dequeue os (cmd_avl_queue (hpqm_info s)) s;
       if st \<noteq> SUCCESS then Some (st, 0, s)
       else Some (st, (case v of None \<Rightarrow> 0 | Some a \<Rightarrow> a), s)
     })"

definition hal_rpu_msg_write ::
    "os \<Rightarrow> hal_msg_type \<Rightarrow> u8 list \<Rightarrow> hal \<Rightarrow> (nrf_status \<times> hal) option" where
  "hal_rpu_msg_write os ty msg s = do {
     (st, msg_addr, s) \<leftarrow> hal_rpu_msg_get_addr os ty s;
     if st \<noteq> SUCCESS then Some (st, s)
     else do {
       (st, s) \<leftarrow> hal_rpu_mem_write os msg_addr msg s;
       if st \<noteq> SUCCESS then Some (st, s) else hal_rpu_msg_post os ty 0 msg_addr s
     }
   }"

section \<open>The command queue\<close>

partial_function (option) cmd_process_loop :: "os \<Rightarrow> nrf_status \<Rightarrow> hal \<Rightarrow> (nrf_status \<times> hal) option" where
  "cmd_process_loop os st s =
    (let (cmd, s) = cmd_q_dequeue s in
     case cmd of
       None \<Rightarrow> Some (st, s)
     | Some msg \<Rightarrow> do {
         (st, s) \<leftarrow> hal_rpu_ready_wait os NRF_WIFI_HAL_MSG_TYPE_CMD_CTRL s;
         if st \<noteq> SUCCESS then cmd_process_loop os st (emit (IoFree OBJ_HAL_MSG) s)
         else do {
           (st, s) \<leftarrow> hal_rpu_msg_write os NRF_WIFI_HAL_MSG_TYPE_CMD_CTRL msg s;
           cmd_process_loop os st (emit (IoFree OBJ_HAL_MSG) s)
         }
       })"

definition hal_rpu_cmd_process_queue :: "os \<Rightarrow> hal \<Rightarrow> (nrf_status \<times> hal) option" where
  "hal_rpu_cmd_process_queue os s = cmd_process_loop os FAIL s"

text \<open>The fragment loop: it does not end when \<open>max_cmd_size\<close> is 0 and memory does not run out.\<close>

partial_function (option) cmd_frag_loop ::
    "os \<Rightarrow> u8 list \<Rightarrow> nrf_status \<Rightarrow> hal \<Rightarrow> (nrf_status \<times> hal) option" where
  "cmd_frag_loop os data st s =
    (if data = [] then Some (st, s)
     else let size = (if length data > unat (max_cmd_size (cfg_params s))
                      then unat (max_cmd_size (cfg_params s)) else length data);
              (ok, s) = osal_alloc os OBJ_HAL_MSG s
      in if \<not> ok then Some (FAIL, s)
         else let (st, s) = cmd_q_enqueue os (take size data) s
          in if st \<noteq> SUCCESS then Some (st, s) else cmd_frag_loop os (drop size data) st s)"

definition hal_rpu_cmd_queue :: "os \<Rightarrow> u8 list \<Rightarrow> hal \<Rightarrow> (nrf_status \<times> hal) option" where
  "hal_rpu_cmd_queue os cmd s =
    (if length cmd > unat (max_cmd_size (cfg_params s)) then do {
       (st, s) \<leftarrow> cmd_frag_loop os cmd FAIL s;
       Some (if st \<noteq> SUCCESS then (st, s) else (st, emit (IoFree OBJ_CMD) s))
     }
     else let (ok, s) = osal_alloc os OBJ_HAL_MSG s
      in if \<not> ok then Some (FAIL, s)
         else let (st, s) = cmd_q_enqueue os cmd s
          in Some (if st \<noteq> SUCCESS then (st, s) else (st, emit (IoFree OBJ_CMD) s)))"

definition nrf_wifi_hal_ctrl_cmd_send :: "os \<Rightarrow> u8 list \<Rightarrow> hal \<Rightarrow> (nrf_status \<times> hal) option" where
  "nrf_wifi_hal_ctrl_cmd_send os cmd s = do {
     let s = emit (IoLock LOCK_HAL) s;
     (st, s) \<leftarrow> hal_rpu_cmd_queue os cmd s;
     (st, s) \<leftarrow> (if st \<noteq> SUCCESS then Some (st, s) else hal_rpu_cmd_process_queue os s);
     Some (st, emit (IoUnlock LOCK_HAL) s)
   }"

section \<open>The event queue\<close>

text \<open>The callback that the upper layer registered is a parameter.\<close>

type_synonym event_cb = "u8 list \<Rightarrow> hal \<Rightarrow> (nrf_status \<times> hal) option"

partial_function (option) eventq_process_loop ::
    "event_cb \<Rightarrow> nrf_status \<Rightarrow> hal \<Rightarrow> (nrf_status \<times> hal) option" where
  "eventq_process_loop cb st s =
    (let (ev, s) = event_q_dequeue s in
     case ev of
       None \<Rightarrow> Some (st, s)
     | Some m \<Rightarrow> do {
         (st, s) \<leftarrow> cb m s;
         eventq_process_loop cb st (emit (IoFree OBJ_EVENT) s)
       })"

definition hal_rpu_eventq_process :: "event_cb \<Rightarrow> hal \<Rightarrow> (nrf_status \<times> hal) option" where
  "hal_rpu_eventq_process cb s = eventq_process_loop cb SUCCESS s"

partial_function (option) eventq_drain_loop :: "hal \<Rightarrow> hal option" where
  "eventq_drain_loop s =
    (let s = emit (IoLock LOCK_RX) s;
         (ev, s) = event_q_dequeue s;
         s = emit (IoUnlock LOCK_RX) s
     in case ev of
          None \<Rightarrow> Some s
        | Some m \<Rightarrow> eventq_drain_loop (emit (IoFree OBJ_EVENT) s))"

definition hal_rpu_eventq_drain :: "hal \<Rightarrow> hal option" where
  "hal_rpu_eventq_drain s = eventq_drain_loop s"

definition nrf_wifi_hal_proc_ctx_set :: "rpu_proc \<Rightarrow> hal \<Rightarrow> hal" where
  "nrf_wifi_hal_proc_ctx_set proc s = s\<lparr>curr_proc := proc\<rparr>"

section \<open>Contracts\<close>

definition hal_ok :: "os_lock set \<Rightarrow> hal \<Rightarrow> (nrf_status \<times> hal) option \<Rightarrow> bool" where
  "hal_ok L s m = sat m (\<lambda>(st, t). hal_step L s t)"

lemma hal_ok_Some [simp]: "hal_ok L s (Some (st, t)) = hal_step L s t"
  by (simp add: hal_ok_def)

lemma hal_ok_None [simp]: "hal_ok L s None"
  by (simp add: hal_ok_def)

lemma hal_ok_bind:
  assumes "hal_ok L s m" "\<And>st t. hal_step L s t \<Longrightarrow> hal_ok L t (f (st, t))"
  shows "hal_ok L s (Option.bind m f)"
  using assms unfolding hal_ok_def
  by (cases m) (auto intro: sat_mono hal_step_trans)

lemma hal_ok_trans: "hal_step L s t \<Longrightarrow> hal_ok L t m \<Longrightarrow> hal_ok L s m"
  unfolding hal_ok_def by (auto intro: sat_mono hal_step_trans)

lemma hal_ok_ps: "ps_ok s m \<Longrightarrow> LOCK_PS \<in> L \<Longrightarrow> hal_ok L s m"
  unfolding hal_ok_def ps_ok_def by (auto intro: sat_mono ps_op_step)

lemma hal_ok_mono: "hal_ok L s m \<Longrightarrow> L \<subseteq> M \<Longrightarrow> hal_ok M s m"
  unfolding hal_ok_def by (auto intro: sat_mono hal_step_mono)

text \<open>Steps that only change bookkeeping fields or emit quiet events.\<close>

lemma hal_step_alloc: "osal_alloc os x s = (ok, t) \<Longrightarrow> hal_step L s t"
  by (rule hal_step_quiet [of "IoAlloc x ok" L s s]) (auto simp: osal_alloc_def Let_def same_setup_def)

lemma hal_step_emit: "quiet e \<Longrightarrow> hal_step L s (emit e s)"
  by (rule hal_step_quiet [of e L s s]) (auto simp: same_setup_def)

lemma cmd_q_enqueue_step: "cmd_q_enqueue os m s = (st, t) \<Longrightarrow> hal_step L s t"
  by (rule hal_step_quiet [of "IoAlloc OBJ_Q_NODE (os_alloc os (w_trace s) OBJ_Q_NODE)" L s s])
    (auto simp: cmd_q_enqueue_def osal_alloc_def Let_def same_setup_def split: if_splits)

lemma event_q_enqueue_step: "event_q_enqueue os m s = (st, t) \<Longrightarrow> hal_step L s t"
  by (rule hal_step_quiet [of "IoAlloc OBJ_Q_NODE (os_alloc os (w_trace s) OBJ_Q_NODE)" L s s])
    (auto simp: event_q_enqueue_def osal_alloc_def Let_def same_setup_def split: if_splits)

lemma cmd_q_dequeue_step: "cmd_q_dequeue s = (m, t) \<Longrightarrow> hal_step L s t"
  by (cases "cmd_q s")
    (auto simp: cmd_q_dequeue_def same_setup_def intro: hal_step_quiet [of "IoFree OBJ_Q_NODE" L s s])

lemma event_q_dequeue_step: "event_q_dequeue s = (m, t) \<Longrightarrow> hal_step L s t"
  by (cases "event_q s")
    (auto simp: event_q_dequeue_def same_setup_def intro: hal_step_quiet [of "IoFree OBJ_Q_NODE" L s s])

section \<open>Posting\<close>

lemma hpq_is_empty_sat: "sat (hal_rpu_hpq_is_empty os q s) (\<lambda>(e, t). ps_op s t)"
  unfolding hal_rpu_hpq_is_empty_def
  by (rule sat_bindI [OF reg_read_sat]) auto

lemma ready_ok [pres]: "ps_ok s (hal_rpu_ready os ty s)"
  unfolding hal_rpu_ready_def ps_ok_def
  by (auto intro!: sat_bindI [OF hpq_is_empty_sat])

lemma ready_wait_loop_ok [pres]: "ps_ok s (ready_wait_loop os ty start s)"
  unfolding ps_ok_def
proof (rule satI)
  fix r assume eq: "ready_wait_loop os ty start s = Some r"
  show "case r of (st, t) \<Rightarrow> ps_op s t"
  proof (induction os ty start s r rule: ready_wait_loop.raw_induct)
    case (1 f os ty start s r)
    then obtain st t where m: "hal_rpu_ready os ty s = Some (st, t)"
      and r: "(if st = SUCCESS then Some (SUCCESS, t)
         else let (el, s) = osal_time_elapsed_us os start t
          in if MAX_HAL_RPU_READY_WAIT \<le> el then Some (FAIL, s) else f os ty start s) = Some r"
      by (auto split: bind_splits)
    have op: "ps_op s t" using ready_ok [of s os ty] m by simp
    let ?el = "os_elapsed_us os (w_trace t) start"
    let ?t = "emit (IoElapsedUs ?el) t"
    have op': "ps_op s ?t" by (rule ps_op_quiet [OF _ op]) simp
    have "st = SUCCESS \<or> MAX_HAL_RPU_READY_WAIT \<le> ?el \<or> f os ty start ?t = Some r"
      using r by (auto simp: osal_defs Let_def split: if_splits)
    then show ?case
    proof (elim disjE)
      assume "f os ty start ?t = Some r"
      from 1(1) [OF this] op' show ?thesis by (auto intro: ps_op_trans split: prod.splits)
    qed (use r op op' in \<open>auto simp: osal_defs Let_def split: if_splits\<close>)
  qed (rule eq)
qed

lemma ready_wait_ok [pres]: "ps_ok s (hal_rpu_ready_wait os ty s)"
proof -
  let ?t = "emit (IoCurrUs (os_curr_us os (w_trace s))) s"
  have "ps_op s ?t" by (rule ps_op_quiet) simp_all
  with ready_wait_loop_ok [of ?t os ty "os_curr_us os (w_trace s)"] show ?thesis
    by (auto simp: hal_rpu_ready_wait_def osal_defs Let_def ps_ok_def intro: sat_mono ps_op_trans)
qed

lemma msg_trigger_ok: "LOCK_PS \<in> L \<Longrightarrow> hal_ok L s (hal_rpu_msg_trigger os s)"
  unfolding hal_rpu_msg_trigger_def
  by (rule hal_ok_bind [OF hal_ok_ps [OF reg_write_ok]])
    (auto intro: hal_step_same simp: same_setup_def)

lemma msg_post_ok: "LOCK_PS \<in> L \<Longrightarrow> hal_ok L s (hal_rpu_msg_post os ty q a s)"
  unfolding hal_rpu_msg_post_def
  by (auto simp: Let_def split: option.splits
      intro!: hal_ok_bind [OF hal_ok_ps [OF hpq_enqueue_ok]] intro: msg_trigger_ok)

lemma msg_get_addr_sat: "sat (hal_rpu_msg_get_addr os ty s) (\<lambda>(st, a, t). ps_op s t)"
  unfolding hal_rpu_msg_get_addr_def
  by (auto intro!: sat_bindI [OF hpq_dequeue_sat])

lemma msg_write_ok: "LOCK_PS \<in> L \<Longrightarrow> hal_ok L s (hal_rpu_msg_write os ty m s)"
  unfolding hal_rpu_msg_write_def hal_ok_def
  apply (rule sat_bindI [OF msg_get_addr_sat])
  apply (auto simp flip: hal_ok_def dest!: ps_op_step [of _ _ L])
  apply (rule hal_ok_trans, assumption)
  apply (rule hal_ok_bind [OF hal_ok_ps [OF mem_write_ok]])
   apply (auto intro: msg_post_ok)
  done

section \<open>The command queue\<close>

lemma cmd_process_loop_ok: "LOCK_PS \<in> L \<Longrightarrow> hal_ok L s (cmd_process_loop os st s)"
  unfolding hal_ok_def
proof (rule satI)
  fix r assume L: "LOCK_PS \<in> L" and eq: "cmd_process_loop os st s = Some r"
  show "case r of (st, t) \<Rightarrow> hal_step L s t"
  proof (induction os st s r rule: cmd_process_loop.raw_induct)
    case (1 f os st s r)
    obtain cmd s1 where d: "cmd_q_dequeue s = (cmd, s1)" by fastforce
    note s1 = cmd_q_dequeue_step [OF d, of L]
    show ?case
    proof (cases cmd)
      case None
      with 1(2) d s1 show ?thesis by auto
    next
      case (Some msg)
      with 1(2) d obtain st2 s2 where w: "hal_rpu_ready_wait os NRF_WIFI_HAL_MSG_TYPE_CMD_CTRL s1 = Some (st2, s2)"
        and r: "(if st2 \<noteq> SUCCESS then f os st2 (emit (IoFree OBJ_HAL_MSG) s2)
           else do { (st, s) \<leftarrow> hal_rpu_msg_write os NRF_WIFI_HAL_MSG_TYPE_CMD_CTRL msg s2;
             f os st (emit (IoFree OBJ_HAL_MSG) s) }) = Some r"
        by (auto split: bind_splits)
      have s2: "hal_step L s s2"
        using ready_wait_ok [of s1 os NRF_WIFI_HAL_MSG_TYPE_CMD_CTRL] w L s1
        by (auto intro: hal_step_trans ps_op_step)
      from r obtain st3 s3 where s3: "hal_step L s s3" and f: "f os st3 (emit (IoFree OBJ_HAL_MSG) s3) = Some r"
      proof (cases "st2 = SUCCESS")
        case True
        with r obtain st3 s3 where m: "hal_rpu_msg_write os NRF_WIFI_HAL_MSG_TYPE_CMD_CTRL msg s2 = Some (st3, s3)"
            "f os st3 (emit (IoFree OBJ_HAL_MSG) s3) = Some r"
          by (auto split: bind_splits)
        with msg_write_ok [OF L, of s2 os NRF_WIFI_HAL_MSG_TYPE_CMD_CTRL msg] s2 that
        show ?thesis by (auto intro: hal_step_trans)
      qed (use r s2 that in auto)
      have "hal_step L s (emit (IoFree OBJ_HAL_MSG) s3)"
        by (rule hal_step_trans [OF s3 hal_step_emit]) simp
      with 1(1) [OF f] show ?thesis by (auto intro: hal_step_trans split: prod.splits)
    qed
  qed (rule eq)
qed

lemma frag_step:
  assumes a: "osal_alloc os OBJ_HAL_MSG s = (ok, s1)" and e: "cmd_q_enqueue os m s1 = (st, s2)"
  shows "hal_step L s s2"
  using hal_step_trans [OF hal_step_alloc [OF a] cmd_q_enqueue_step [OF e]] .

lemma cmd_frag_loop_ok: "hal_ok L s (cmd_frag_loop os data st s)"
  unfolding hal_ok_def
proof (rule satI)
  fix r assume eq: "cmd_frag_loop os data st s = Some r"
  show "case r of (st, t) \<Rightarrow> hal_step L s t"
  proof (induction os data st s r rule: cmd_frag_loop.raw_induct)
    case (1 f os data st s r)
    show ?case
    proof (cases "data = []")
      case False
      let ?n = "if length data > unat (max_cmd_size (cfg_params s))
        then unat (max_cmd_size (cfg_params s)) else length data"
      obtain ok s1 where a: "osal_alloc os OBJ_HAL_MSG s = (ok, s1)" by fastforce
      obtain st2 s2 where e: "cmd_q_enqueue os (take ?n data) s1 = (st2, s2)" by fastforce
      note st1 = hal_step_alloc [OF a, of L] and st2 = frag_step [OF a e, of L]
      show ?thesis
      proof (cases "ok \<and> st2 = SUCCESS")
        case True
        with 1(2) False a e have "f os (drop ?n data) st2 s2 = Some r" by (simp add: Let_def)
        from 1(1) [OF this] st2 show ?thesis by (auto intro: hal_step_trans split: prod.splits)
      next
        case fail: False
        with 1(2) False a e st1 st2 show ?thesis by (auto simp: Let_def split: if_splits)
      qed
    qed (use 1(2) in auto)
  qed (rule eq)
qed

lemma cmd_queue_ok: "hal_ok L s (hal_rpu_cmd_queue os cmd s)"
proof (cases "length cmd > unat (max_cmd_size (cfg_params s))")
  case True
  have "hal_ok L s (Option.bind (cmd_frag_loop os cmd FAIL s) (\<lambda>(st, s).
       Some (if st \<noteq> SUCCESS then (st, s) else (st, emit (IoFree OBJ_CMD) s))))"
    by (rule hal_ok_bind [OF cmd_frag_loop_ok]) (auto intro: hal_step_emit)
  with True show ?thesis by (simp add: hal_rpu_cmd_queue_def)
next
  case False
  obtain ok s1 where a: "osal_alloc os OBJ_HAL_MSG s = (ok, s1)" by fastforce
  obtain st2 s2 where e: "cmd_q_enqueue os cmd s1 = (st2, s2)" by fastforce
  have "hal_step L s (emit (IoFree OBJ_CMD) s2)"
    using hal_step_trans [OF frag_step [OF a e] hal_step_emit] by simp
  with False a e hal_step_alloc [OF a, of L] frag_step [OF a e, of L] show ?thesis
    by (auto simp: hal_rpu_cmd_queue_def)
qed

lemma ctrl_cmd_send_ok:
  "hal_ok {LOCK_PS, LOCK_HAL} s (nrf_wifi_hal_ctrl_cmd_send os cmd s)"
proof -
  let ?s = "emit (IoLock LOCK_HAL) s"
  have "hal_ok {LOCK_PS} ?s (do {
      (st, s) \<leftarrow> hal_rpu_cmd_queue os cmd ?s;
      if st \<noteq> SUCCESS then Some (st, s) else hal_rpu_cmd_process_queue os s })"
    by (rule hal_ok_bind [OF cmd_queue_ok])
      (auto simp: hal_rpu_cmd_process_queue_def cmd_process_loop_ok)
  then have "sat (do {
      (st, s) \<leftarrow> hal_rpu_cmd_queue os cmd ?s;
      if st \<noteq> SUCCESS then Some (st, s) else hal_rpu_cmd_process_queue os s })
      (\<lambda>(st, t). hal_step {LOCK_PS, LOCK_HAL} s (emit (IoUnlock LOCK_HAL) t))"
    unfolding hal_ok_def
    by (rule sat_mono) (auto intro!: hal_step_locked simp: insert_Diff_if)
  then show ?thesis
    by (cases "hal_rpu_cmd_queue os cmd ?s")
      (auto simp: nrf_wifi_hal_ctrl_cmd_send_def hal_ok_def sat_def split: option.splits prod.splits)
qed

section \<open>Fragmentation\<close>

fun frags :: "nat \<Rightarrow> u8 list \<Rightarrow> u8 list list" where
  "frags m data = (if data = [] \<or> m = 0 then [] else take m data # frags m (drop m data))"

declare frags.simps [simp del]

lemma frags_concat: "0 < m \<Longrightarrow> concat (frags m data) = data"
proof (induction m data rule: frags.induct)
  case (1 m data)
  then show ?case by (subst frags.simps) auto
qed

lemma frags_size: "f \<in> set (frags m data) \<Longrightarrow> f \<noteq> [] \<and> length f \<le> m"
proof (induction m data rule: frags.induct)
  case (1 m data)
  then show ?case
    by (subst (asm) frags.simps) (auto split: if_splits)
qed

lemma frags_count: "0 < m \<Longrightarrow> length (frags m data) = (length data + m - 1) div m"
proof (induction m data rule: frags.induct)
  case (1 m data)
  show ?case
  proof (cases "data = []")
    case True
    with 1(2) show ?thesis by (simp add: frags.simps)
  next
    case False
    with 1 have "length (frags m data) = Suc ((length (drop m data) + m - 1) div m)"
      by (subst frags.simps) simp
    also have "\<dots> = (length data + m - 1) div m"
    proof (cases "length data \<le> m")
      case True
      have data1: "1 \<le> length data" using \<open>data \<noteq> []\<close> by (simp add: Suc_le_eq)
      from True have "(length data + m - 1) div m = 1"
        using data1 1(2) by (intro div_nat_eqI; presburger)
      moreover have "(m - 1) div m = 0" using 1(2) by simp
      ultimately show ?thesis using True by simp
    next
      case False
      then have eq: "length data + m - 1 = (length data - m + m - 1) + m" by simp
      show ?thesis
        unfolding length_drop by (subst eq, subst div_add_self2) (use 1(2) in simp_all)
    qed
    finally show ?thesis .
  qed
qed

lemma cmd_frag_loop_run:
  assumes "0 < unat (max_cmd_size (cfg_params s))"
  shows "\<exists>st' t. cmd_frag_loop os data st s = Some (st', t) \<and> (st' = SUCCESS \<longrightarrow>
    cmd_q t = cmd_q s @ frags (unat (max_cmd_size (cfg_params s))) data)"
  using assms
proof (induction "length data" arbitrary: data s st rule: less_induct)
  case less
  let ?m = "unat (max_cmd_size (cfg_params s))"
  let ?n = "if length data > ?m then ?m else length data"
  show ?case
  proof (cases "data = []")
    case True
    then show ?thesis by (subst cmd_frag_loop.simps) (simp add: frags.simps)
  next
    case False
    obtain ok s1 where a: "osal_alloc os OBJ_HAL_MSG s = (ok, s1)" by fastforce
    obtain st2 s2 where e: "cmd_q_enqueue os (take ?n data) s1 = (st2, s2)" by fastforce
    have c: "cfg_params s2 = cfg_params s"
      using frag_step [OF a e, of "{}"] by (simp add: hal_step_def same_setup_def)
    have n: "take ?n data = take ?m data" "drop ?n data = drop ?m data" by simp_all
    have q: "st2 = SUCCESS \<Longrightarrow> cmd_q s2 = cmd_q s @ [take ?m data]"
      using a e n by (auto simp: osal_alloc_def cmd_q_enqueue_def Let_def split: if_splits)
    have run: "cmd_frag_loop os data st s = (if \<not> ok then Some (FAIL, s1)
        else if st2 \<noteq> SUCCESS then Some (st2, s2) else cmd_frag_loop os (drop ?m data) st2 s2)"
      using False a e n by (subst cmd_frag_loop.simps) (simp add: Let_def)
    have sh: "length (drop ?m data) < length data" using False less.prems by simp
    obtain st' t where t: "cmd_frag_loop os (drop ?m data) st2 s2 = Some (st', t)"
        "st' = SUCCESS \<longrightarrow> cmd_q t = cmd_q s2 @ frags ?m (drop ?m data)"
      using less.hyps [OF sh, of s2 st2] less.prems unfolding c by blast
    have fr: "frags ?m data = take ?m data # frags ?m (drop ?m data)"
      using False less.prems by (subst frags.simps) simp
    show ?thesis
    proof (cases "ok \<and> st2 = SUCCESS")
      case True
      with run t(1) have "cmd_frag_loop os data st s = Some (st', t)" by simp
      moreover have "cmd_q t = cmd_q s @ frags ?m data" if "st' = SUCCESS"
        unfolding fr using t(2) that q True by simp
      ultimately show ?thesis by blast
    next
      case bad: False
      then have "\<exists>u. cmd_frag_loop os data st s = Some (FAIL, u)"
        using run by (cases ok; cases st2) simp_all
      then show ?thesis by auto
    qed
  qed
qed

lemma cmd_queue_run:
  assumes "0 < unat (max_cmd_size (cfg_params s))"
  shows "\<exists>st t. hal_rpu_cmd_queue os cmd s = Some (st, t) \<and> (st = SUCCESS \<longrightarrow>
    cmd_q t = cmd_q s @ (if cmd = [] then [[]] else frags (unat (max_cmd_size (cfg_params s))) cmd))"
proof (cases "length cmd > unat (max_cmd_size (cfg_params s))")
  case True
  then show ?thesis
    using cmd_frag_loop_run [OF assms, of os cmd FAIL] by (auto simp: hal_rpu_cmd_queue_def)
next
  case False
  have fr: "frags (unat (max_cmd_size (cfg_params s))) cmd = [cmd]" if "cmd \<noteq> []"
    using that False assms by (subst frags.simps) (simp add: frags.simps)
  obtain ok s1 where a: "osal_alloc os OBJ_HAL_MSG s = (ok, s1)" by fastforce
  obtain st2 s2 where e: "cmd_q_enqueue os cmd s1 = (st2, s2)" by fastforce
  have "st2 = SUCCESS \<Longrightarrow> cmd_q s2 = cmd_q s @ [cmd]"
    using a e by (auto simp: osal_alloc_def cmd_q_enqueue_def Let_def split: if_splits)
  with False a e fr show ?thesis by (auto simp: hal_rpu_cmd_queue_def)
qed

section \<open>The posting protocol\<close>

lemma msg_trigger_accs:
  assumes "hal_rpu_msg_trigger os s = Some (SUCCESS, t)"
  shows "num_cmds t = num_cmds s + 1 \<and>
    accs (w_trace t) = IoWrite32 (bus_host_addr_base s + 0x480) (num_cmds s OR 0x7FFF0000) # accs (w_trace s)"
proof -
  obtain st1 s1 where w: "hal_rpu_reg_write os RPU_REG_INT_TO_MCU_CTRL (num_cmds s OR 0x7FFF0000) s = Some (st1, s1)"
    using assms by (auto simp: hal_rpu_msg_trigger_def split: bind_splits)
  with assms have st1: "st1 = SUCCESS" and t: "t = s1\<lparr>num_cmds := num_cmds s1 + 1\<rparr>"
    by (cases st1; simp add: hal_rpu_msg_trigger_def)+
  from reg_write_sat [of os RPU_REG_INT_TO_MCU_CTRL "num_cmds s OR 0x7FFF0000" s] w st1
  have "ps_op s s1" "accs (w_trace s1) =
      IoWrite32 (bus_host_addr_base s + 0x480) (num_cmds s OR 0x7FFF0000) # accs (w_trace s)"
    by (auto simp: pal_sbus)
  with t ps_frame_fields(9) [OF ps_op_frame] show ?thesis by auto
qed

lemma msg_write_protocol:
  assumes "hal_rpu_msg_write os NRF_WIFI_HAL_MSG_TYPE_CMD_CTRL msg s = Some (SUCCESS, t)"
  shows "\<exists>addr dq bq mid. addr \<noteq> 0 \<and> hal_rpu_is_mem_writable (curr_proc s) addr \<and>
    pal_rpu_addr_offset_get (dequeue_addr (cmd_avl_queue (hpqm_info s))) (curr_proc s) = Some dq \<and>
    pal_rpu_addr_offset_get (enqueue_addr (cmd_busy_queue (hpqm_info s))) (curr_proc s) = Some bq \<and>
    rev (accs (w_trace t)) = rev (accs (w_trace s)) @
      [IoRead32 (bus_host_addr_base s + dq) addr, IoWrite32 (bus_host_addr_base s + dq) addr] @ mid @
      [IoWrite32 (bus_host_addr_base s + bq) addr,
       IoWrite32 (bus_host_addr_base s + 0x480) (num_cmds s OR 0x7FFF0000)] \<and>
    num_cmds t = num_cmds s + 1"
proof -
  let ?c = NRF_WIFI_HAL_MSG_TYPE_CMD_CTRL
  obtain st1 addr s1 where g: "hal_rpu_msg_get_addr os ?c s = Some (st1, addr, s1)"
    using assms by (auto simp: hal_rpu_msg_write_def split: bind_splits)
  with assms have st1: "st1 = SUCCESS" by (cases st1) (auto simp: hal_rpu_msg_write_def)
  from g st1 obtain v where d: "hal_rpu_hpq_dequeue os (cmd_avl_queue (hpqm_info s)) s = Some (SUCCESS, v, s1)"
      and v: "addr = (case v of None \<Rightarrow> 0 | Some a \<Rightarrow> a)"
    by (auto simp: hal_rpu_msg_get_addr_def split: bind_splits if_splits)
  from g st1 assms obtain st2 s2 where m: "hal_rpu_mem_write os addr msg s1 = Some (st2, s2)"
      and r: "(if st2 \<noteq> SUCCESS then Some (st2, s2) else hal_rpu_msg_post os ?c 0 addr s2) = Some (SUCCESS, t)"
    by (auto simp: hal_rpu_msg_write_def split: bind_splits)
  from r have st2: "st2 = SUCCESS" by (cases st2) auto
  have o1: "ps_op s s1" using hpq_dequeue_sat [of os "cmd_avl_queue (hpqm_info s)" s] d by simp
  have o2: "ps_op s1 s2" using mem_write_ok [of s1 os addr msg] m by simp
  note f1 = ps_frame_fields [OF ps_op_frame [OF o1]] and f2 = ps_frame_fields [OF ps_op_frame [OF o2]]
  have wr: "hal_rpu_is_mem_writable (curr_proc s) addr"
    using m st2 f1(12) by (cases "hal_rpu_is_mem_writable (curr_proc s) addr")
      (auto simp: hal_rpu_mem_write_def)
  have nz: "addr \<noteq> 0"
  proof
    assume "addr = 0"
    with wr show False
      by (cases "curr_proc s") (auto simp: hal_rpu_is_mem_writable_def hal_rpu_is_mem_ram_def
          hal_rpu_is_mem_core_indirect_def hal_rpu_is_mem_core_direct_def hal_rpu_is_mem_bev_def
          pal_check_rpu_mcu_regions_def)
  qed
  obtain w dq where dq: "v = Some w" "pal_rpu_addr_offset_get (dequeue_addr (cmd_avl_queue (hpqm_info s))) (curr_proc s) = Some dq"
      "accs (w_trace s1) = (if w = 0 then [] else [IoWrite32 (bus_host_addr_base s + dq) w]) @
        IoRead32 (bus_host_addr_base s + dq) w # accs (w_trace s)"
    using hpq_dequeue_accs [OF d] by blast
  have w: "w = addr" using dq(1) v by simp
  obtain mid where mid: "accs (w_trace s2) = mid @ accs (w_trace s1)"
    using ps_op_accs [OF o2] by blast
  from r st2 obtain st3 s3 where p: "hal_rpu_reg_write os (enqueue_addr (cmd_busy_queue (hpqm_info s2))) addr s2
      = Some (st3, s3)" and r3: "(if st3 \<noteq> SUCCESS then Some (st3, s3) else hal_rpu_msg_trigger os s3) = Some (SUCCESS, t)"
    by (auto simp: hal_rpu_msg_post_def hal_rpu_hpq_enqueue_def Let_def split: bind_splits
        cong: if_cong)
  from r3 have st3: "st3 = SUCCESS" by (cases st3) auto
  from reg_write_sat [of os "enqueue_addr (cmd_busy_queue (hpqm_info s2))" addr s2] p st3 obtain bq where
    bq: "ps_op s2 s3" "pal_rpu_addr_offset_get (enqueue_addr (cmd_busy_queue (hpqm_info s2))) (curr_proc s2) = Some bq"
      "accs (w_trace s3) = IoWrite32 (bus_host_addr_base s2 + bq) addr # accs (w_trace s2)"
    by auto
  note f3 = ps_frame_fields [OF ps_op_frame [OF bq(1)]]
  have tr: "num_cmds t = num_cmds s3 + 1 \<and> accs (w_trace t) =
      IoWrite32 (bus_host_addr_base s3 + 0x480) (num_cmds s3 OR 0x7FFF0000) # accs (w_trace s3)"
    using msg_trigger_accs r3 st3 by simp
  show ?thesis
    by (rule exI [of _ addr], rule exI [of _ dq], rule exI [of _ bq], rule exI [of _ "rev mid"])
      (use nz wr dq w mid bq tr f1 f2 f3 in simp)
qed

section \<open>A failed command is forgotten\<close>

lemma cmd_process_loop_status:
  "cmd_q s \<noteq> [] \<Longrightarrow> cmd_process_loop os st s = cmd_process_loop os st' s"
  by (subst (1 2) cmd_process_loop.simps) (auto simp: cmd_q_dequeue_def split: list.splits)

lemma cmd_process_skip:
  assumes "cmd_q s = m # m' # ms"
    and "hal_rpu_ready_wait os NRF_WIFI_HAL_MSG_TYPE_CMD_CTRL (snd (cmd_q_dequeue s)) = Some (FAIL, s1)"
  shows "cmd_process_loop os st s = cmd_process_loop os st' (emit (IoFree OBJ_HAL_MSG) s1)"
proof -
  let ?s0 = "snd (cmd_q_dequeue s)"
  have "ps_op ?s0 s1" using ready_wait_ok [of ?s0 os NRF_WIFI_HAL_MSG_TYPE_CMD_CTRL] assms(2) by simp
  then have "cmd_q s1 = cmd_q ?s0" by (simp add: ps_frame_fields ps_op_frame)
  then have ne: "cmd_q (emit (IoFree OBJ_HAL_MSG) s1) \<noteq> []"
    using assms(1) by (simp add: cmd_q_dequeue_def)
  have "cmd_process_loop os st s = cmd_process_loop os FAIL (emit (IoFree OBJ_HAL_MSG) s1)"
    using assms by (subst cmd_process_loop.simps) (simp add: cmd_q_dequeue_def)
  with cmd_process_loop_status [OF ne] show ?thesis by metis
qed

section \<open>Properties\<close>




abbreviation demo_buf_os :: os where
  "demo_buf_os \<equiv> tick_os (\<lambda>_ _. True) (\<lambda>_ _. 0xB7002000) (\<lambda>_. 6)"

lemma pal_gram_demo: "pal_rpu_addr_offset_get 0xB7002000 p = Some 0x82000"
  by (simp add: pal_rpu_addr_offset_get_def)

lemma msg_write_run:
  "\<exists>t. hal_rpu_msg_write demo_buf_os NRF_WIFI_HAL_MSG_TYPE_CMD_CTRL [1, 2] hal_awake = Some (SUCCESS, t)"
  by (simp add: hal_rpu_msg_write_def hal_rpu_msg_get_addr_def hal_rpu_hpq_dequeue_def
      hal_rpu_msg_post_def hal_rpu_hpq_enqueue_def hal_rpu_msg_trigger_def reg_read_awake
      reg_write_awake mem_write_ram_awake hal_awake_def hal_demo_def hal_rpu_is_reg_def pal_sbus
      tick_os_def hal_rpu_mem_write_def hal_rpu_is_mem_writable_def hal_rpu_is_mem_ram_def
      hal_rpu_is_mem_core_indirect_def hal_rpu_is_mem_core_direct_def pal_check_rpu_mcu_regions_def
      pal_gram_demo)


text \<open>When the wait for a free buffer times out for a queued message, the message is freed and,
  as long as other messages follow it, nothing of its failure is reported: the result is
  the one of processing the rest of the queue, so a command can lose a fragment and still be
  reported as sent.\<close>

theorem cmd_failure_masked:
  assumes "cmd_q s = m # m' # ms"
    and "hal_rpu_ready_wait os NRF_WIFI_HAL_MSG_TYPE_CMD_CTRL (snd (cmd_q_dequeue s)) = Some (FAIL, s1)"
  shows "hal_rpu_cmd_process_queue os s = hal_rpu_cmd_process_queue os (emit (IoFree OBJ_HAL_MSG) s1)"
  unfolding hal_rpu_cmd_process_queue_def by (rule cmd_process_skip [OF assms])

definition slow_os :: os where
  "slow_os = demo_os\<lparr>os_elapsed_us := (\<lambda>_ _. 1000000)\<rparr>"

definition hal_two_cmds :: hal where
  "hal_two_cmds = hal_awake\<lparr>cmd_q := [[1], [2]]\<rparr>"

lemma slow_wait:
  "\<exists>s1. hal_rpu_ready_wait slow_os NRF_WIFI_HAL_MSG_TYPE_CMD_CTRL (snd (cmd_q_dequeue hal_two_cmds))
    = Some (FAIL, s1)"
  unfolding hal_rpu_ready_wait_def osal_time_get_curr_us_def Let_def prod.case
  by (subst ready_wait_loop.simps)
    (simp add: hal_rpu_ready_def hal_rpu_hpq_is_empty_def hal_two_cmds_def
      cmd_q_dequeue_def hal_awake_def hal_demo_def slow_os_def tick_os_def osal_defs reg_read_awake
      hal_rpu_is_reg_def pal_sbus)

theorem cmd_failure_masked_witness:
  "\<exists>s1. hal_rpu_ready_wait slow_os NRF_WIFI_HAL_MSG_TYPE_CMD_CTRL (snd (cmd_q_dequeue hal_two_cmds))
      = Some (FAIL, s1) \<and>
    hal_rpu_cmd_process_queue slow_os hal_two_cmds
      = hal_rpu_cmd_process_queue slow_os (emit (IoFree OBJ_HAL_MSG) s1)"
proof -
  obtain s1 where s1: "hal_rpu_ready_wait slow_os NRF_WIFI_HAL_MSG_TYPE_CMD_CTRL
      (snd (cmd_q_dequeue hal_two_cmds)) = Some (FAIL, s1)" using slow_wait by blast
  have "cmd_q hal_two_cmds = [1] # [2] # []" by (simp add: hal_two_cmds_def)
  from cmd_failure_masked [OF this s1] s1 show ?thesis by blast
qed

end
