(* ===== verification/Hal_Irq.thy ===== *)
theory Hal_Irq
  imports Hal_Cmd
begin

text \<open>Interrupts, events and the watchdog: \<open>hw_if/hal/src/common/hal_interrupt.c\<close>, the
  interrupt handler and the enable flag of \<open>hal_api_common.c\<close> and the ISR of \<open>bal.c\<close>. An event
  arrives in one or more buffers of the RPU and is assembled in \<open>event_data\<close>. Copying from the
  NULL pointer is undefined behaviour, so such a run has the result \<open>None\<close>.\<close>

abbreviation RPU_REG_INT_FROM_RPU_CTRL :: u32 where "RPU_REG_INT_FROM_RPU_CTRL \<equiv> 0xA4000400"
abbreviation RPU_REG_INT_FROM_MCU_ACK :: u32 where "RPU_REG_INT_FROM_MCU_ACK \<equiv> 0xA4000488"
abbreviation RPU_REG_INT_FROM_MCU_CTRL :: u32 where "RPU_REG_INT_FROM_MCU_CTRL \<equiv> 0xA4000494"
abbreviation RPU_REG_MIPS_MCU_UCCP_INT_STATUS :: u32 where
  "RPU_REG_MIPS_MCU_UCCP_INT_STATUS \<equiv> 0xA4000004"
abbreviation RPU_REG_MIPS_MCU_UCCP_INT_CLEAR :: u32 where
  "RPU_REG_MIPS_MCU_UCCP_INT_CLEAR \<equiv> 0xA400000C"
abbreviation RPU_REG_MIPS_MCU_TIMER :: u32 where "RPU_REG_MIPS_MCU_TIMER \<equiv> 0xA400004C"
abbreviation RPU_REG_MIPS_MCU_TIMER_RESET_VAL :: u32 where
  "RPU_REG_MIPS_MCU_TIMER_RESET_VAL \<equiv> 0xFFFFFF"
abbreviation NRF_WIFI_RPU_RECOVERY_PS_ACTIVE_TIMEOUT_MS :: u32 where
  "NRF_WIFI_RPU_RECOVERY_PS_ACTIVE_TIMEOUT_MS \<equiv> 50000"

section \<open>Interrupt lines\<close>

definition hal_rpu_irq_enable :: "os \<Rightarrow> hal \<Rightarrow> (nrf_status \<times> hal) option" where
  "hal_rpu_irq_enable os s = do {
     (st, v, s) \<leftarrow> hal_rpu_reg_read os RPU_REG_INT_FROM_RPU_CTRL s;
     if st \<noteq> SUCCESS then Some (st, s)
     else do {
       (st, s) \<leftarrow> hal_rpu_reg_write os RPU_REG_INT_FROM_RPU_CTRL
         (the_default 0 v OR push_bit 17 1) s;
       if st \<noteq> SUCCESS then Some (st, s)
       else hal_rpu_reg_write os RPU_REG_INT_FROM_MCU_CTRL (push_bit 31 1) s
     }
   }"

definition hal_rpu_irq_disable :: "os \<Rightarrow> hal \<Rightarrow> (nrf_status \<times> hal) option" where
  "hal_rpu_irq_disable os s = do {
     (st, v, s) \<leftarrow> hal_rpu_reg_read os RPU_REG_INT_FROM_RPU_CTRL s;
     if st \<noteq> SUCCESS then Some (st, s)
     else do {
       (st, s) \<leftarrow> hal_rpu_reg_write os RPU_REG_INT_FROM_RPU_CTRL
         (the_default 0 v AND NOT (push_bit 17 1)) s;
       if st \<noteq> SUCCESS then Some (st, s)
       else hal_rpu_reg_write os RPU_REG_INT_FROM_MCU_CTRL (NOT (push_bit 31 1)) s
     }
   }"

definition hal_rpu_irq_ack :: "os \<Rightarrow> hal \<Rightarrow> (nrf_status \<times> hal) option" where
  "hal_rpu_irq_ack os s = hal_rpu_reg_write os RPU_REG_INT_FROM_MCU_ACK (push_bit 31 1) s"

section \<open>Watchdog\<close>

text \<open>\<open>n\<close> reads are left; the loop ends early on any answer but \<open>0xAAAAAAAA\<close>.\<close>

fun wdog_chk_loop :: "os \<Rightarrow> nat \<Rightarrow> hal \<Rightarrow> (bool \<times> hal) option" where
  "wdog_chk_loop os 0 s = Some (False, s)"
| "wdog_chk_loop os (Suc n) s = do {
     (st, v, s) \<leftarrow> hal_rpu_reg_read os RPU_REG_MIPS_MCU_UCCP_INT_STATUS s;
     if st \<noteq> SUCCESS then Some (False, s)
     else if the_default 0 v \<noteq> 0xAAAAAAAA then Some (the_default 0 v AND 2 \<noteq> 0, s)
     else wdog_chk_loop os n s
   }"

definition hal_rpu_irq_wdog_chk :: "os \<Rightarrow> hal \<Rightarrow> (bool \<times> hal) option" where
  "hal_rpu_irq_wdog_chk os s = wdog_chk_loop os 10 s"

definition hal_rpu_irq_wdog_ack :: "os \<Rightarrow> hal \<Rightarrow> (nrf_status \<times> hal) option" where
  "hal_rpu_irq_wdog_ack os s = hal_rpu_reg_write os RPU_REG_MIPS_MCU_UCCP_INT_CLEAR 2 s"

definition hal_rpu_irq_wdog_rearm :: "os \<Rightarrow> hal \<Rightarrow> (nrf_status \<times> hal) option" where
  "hal_rpu_irq_wdog_rearm os s =
    hal_rpu_reg_write os RPU_REG_MIPS_MCU_TIMER RPU_REG_MIPS_MCU_TIMER_RESET_VAL s"

definition is_rpu_recovery_needed :: "os \<Rightarrow> hal \<Rightarrow> bool \<times> hal" where
  "is_rpu_recovery_needed os s =
    (let (diff, s) = osal_time_elapsed_ms os (last_rpu_sleep_opp_time_ms s) s
     in if NRF_WIFI_RPU_RECOVERY_PS_ACTIVE_TIMEOUT_MS \<le> diff then (False, s) else (True, s))"

text \<open>With recovery configured the first re-arm of the source is dead: every path takes the
  one after the label. Its status is dropped.\<close>

definition hal_rpu_process_wdog :: "os \<Rightarrow> hal \<Rightarrow> (nrf_status \<times> bool \<times> hal) option" where
  "hal_rpu_process_wdog os s =
    (let (need, s) = is_rpu_recovery_needed os s;
         s = (if need then s else s\<lparr>wdt_irq_ignored := wdt_irq_ignored s + 1\<rparr>)
     in do {
       (_, s) \<leftarrow> hal_rpu_irq_wdog_rearm os s;
       Some (SUCCESS, need, s)
     })"

section \<open>Events\<close>

definition hal_rpu_event_free :: "os \<Rightarrow> u32 \<Rightarrow> hal \<Rightarrow> (nrf_status \<times> hal) option" where
  "hal_rpu_event_free os event_addr s =
    hal_rpu_hpq_enqueue os (event_avl_queue (hpqm_info s)) event_addr s"

definition event_data_drop :: "hal \<Rightarrow> hal" where
  "event_data_drop s = emit (IoFree OBJ_EVENT_DATA) (s\<lparr>event_data := None\<rparr>)"

text \<open>Storing bytes at the current position of the buffer.\<close>

definition event_store :: "u8 list \<Rightarrow> hal \<Rightarrow> hal" where
  "event_store bs s = s\<lparr>event_data := map_option (\<lambda>buf. take (event_data_curr s) buf @ bs @
     drop (event_data_curr s + length bs) buf) (event_data s)\<rparr>"

definition event_advance :: "u32 \<Rightarrow> hal \<Rightarrow> hal" where
  "event_advance n s = s\<lparr>event_data_pending := event_data_pending s - n,
     event_data_curr := event_data_curr s + unat n\<rparr>"

text \<open>Giving the RPU its buffer back if it asked for that.\<close>

definition event_resubmit_step :: "os \<Rightarrow> u32 \<Rightarrow> nrf_status \<Rightarrow> hal \<Rightarrow> (nrf_status \<times> hal) option" where
  "event_resubmit_step os event_addr st s =
    (if event_resubmit s \<noteq> 0 then do {
       (st, s) \<leftarrow> hal_rpu_event_free os event_addr s;
       if st \<noteq> SUCCESS then Some (st, event_data_drop s) else Some (st, s)
     } else Some (st, s))"

text \<open>The tail: a complete event goes to the event queue.\<close>

definition event_complete :: "os \<Rightarrow> nrf_status \<Rightarrow> hal \<Rightarrow> (nrf_status \<times> hal) option" where
  "event_complete os st s =
    (if event_data_pending s \<noteq> 0 then Some (st, s)
     else let (ok, s) = osal_alloc os OBJ_EVENT s in
       if \<not> ok then Some (st, event_data_drop s)
       else if event_data s = None \<and> event_data_len s \<noteq> 0 then None
       else let msg = take (unat (event_data_len s)) (the_default [] (event_data s));
                (st, s) = event_q_enqueue os msg s in
         if st \<noteq> SUCCESS then Some (st, event_data_drop (emit (IoFree OBJ_EVENT) s))
         else Some (st, (event_data_drop s)\<lparr>event_data_curr := 0, event_data_len := 0,
           event_resubmit := 0\<rparr>))"

text \<open>The first buffer of an event, after the header was read into \<open>typ\<close> and space was allocated:
  the data is read, the buffer handed back and the position advanced.\<close>

definition event_first :: "os \<Rightarrow> u32 \<Rightarrow> u8 list \<Rightarrow> u32 \<Rightarrow> hal \<Rightarrow> (nrf_status \<times> hal) option" where
  "event_first os event_addr typ len s =
    (let max = max_event_size (cfg_params s) in
     if max < len then do {
       (st, bs, s) \<leftarrow> hal_rpu_mem_read os event_addr (unat max) s;
       if st \<noteq> SUCCESS then Some (st, event_data_drop s)
       else do {
         (st, s) \<leftarrow> event_resubmit_step os event_addr st (event_store bs s);
         if st \<noteq> SUCCESS then Some (st, s) else event_complete os st (event_advance max s)
       }
     } else do {
       (st, bs, s) \<leftarrow> (if of_nat RPU_EVENT_COMMON_SIZE_MAX < len
          then hal_rpu_mem_read os event_addr (unat len) s
          else Some (SUCCESS, take (unat len) typ, s));
       if st \<noteq> SUCCESS then Some (st, event_data_drop s)
       else do {
         (st, s) \<leftarrow> event_resubmit_step os event_addr st (event_store bs s);
         if st \<noteq> SUCCESS then Some (st, s) else event_complete os st (event_advance len s)
       }
     })"

definition event_next :: "os \<Rightarrow> u32 \<Rightarrow> hal \<Rightarrow> (nrf_status \<times> hal) option" where
  "event_next os event_addr s =
    (let max = max_event_size (cfg_params s);
         size = (if max < event_data_pending s then max else event_data_pending s)
     in do {
       (st, s) \<leftarrow> (if event_data s \<noteq> None then do {
            (st, bs, s) \<leftarrow> hal_rpu_mem_read os event_addr (unat size) s;
            Some (st, if st \<noteq> SUCCESS then event_data_drop s else event_store bs s)
          } else Some (SUCCESS, s));
       if st \<noteq> SUCCESS then Some (st, s)
       else do {
         (st, s) \<leftarrow> event_resubmit_step os event_addr (if event_data s = None then FAIL else st) s;
         if event_resubmit s \<noteq> 0 \<and> st \<noteq> SUCCESS then Some (st, s)
         else event_complete os st (event_advance size s)
       }
     })"

definition hal_rpu_event_get :: "os \<Rightarrow> u32 \<Rightarrow> hal \<Rightarrow> (nrf_status \<times> hal) option" where
  "hal_rpu_event_get os event_addr s =
    (if event_data_pending s = 0 then do {
       (st, typ, s) \<leftarrow> hal_rpu_mem_read os event_addr RPU_EVENT_COMMON_SIZE_MAX s;
       if st \<noteq> SUCCESS then Some (st, s)
       else let len = le32_get typ;
                (ok, s) = osal_alloc os OBJ_EVENT_DATA s
        in if \<not> ok then Some (st, s\<lparr>event_data := None\<rparr>)
           else event_first os event_addr typ len
             (s\<lparr>event_data := Some (replicate (unat len) 0), event_data_curr := 0,
                event_data_len := len, event_data_pending := len,
                event_resubmit := le32_get (drop 4 typ)\<rparr>)
     } else event_next os event_addr s)"

text \<open>Reading out the busy queue. The number of events is a 32-bit counter.\<close>

partial_function (option) event_get_all_loop :: "os \<Rightarrow> u32 \<Rightarrow> hal \<Rightarrow> (u32 \<times> hal) option" where
  "event_get_all_loop os num_events s = do {
     (st, v, s) \<leftarrow> hal_rpu_hpq_dequeue os (event_busy_queue (hpqm_info s)) s;
     let event_addr = the_default 0 v;
     if st \<noteq> SUCCESS then Some (num_events, s)
     else if event_addr = 0 \<or> event_addr = 0xAAAAAAAA then Some (num_events, s)
     else do {
       (st, s) \<leftarrow> hal_rpu_event_get os event_addr s;
       if st \<noteq> SUCCESS then Some (num_events, s) else event_get_all_loop os (num_events + 1) s
     }
   }"

definition hal_rpu_event_get_all :: "os \<Rightarrow> hal \<Rightarrow> (u32 \<times> hal) option" where
  "hal_rpu_event_get_all os s = event_get_all_loop os 0 s"

section \<open>The interrupt handler\<close>

text \<open>The second result is \<open>do_rpu_recovery\<close>, false when the watchdog was not processed.\<close>

definition hal_rpu_irq_process :: "os \<Rightarrow> hal \<Rightarrow> (nrf_status \<times> bool \<times> hal) option" where
  "hal_rpu_irq_process os s = do {
     (num_events, s) \<leftarrow> hal_rpu_event_get_all os s;
     (wdog, s) \<leftarrow> hal_rpu_irq_wdog_chk os s;
     (st, recovery, s) \<leftarrow> (if wdog then do {
         (st, recovery, s) \<leftarrow> hal_rpu_process_wdog os
            (s\<lparr>wdt_irq_received := wdt_irq_received s + 1\<rparr>);
         if st = FAIL then Some (st, recovery, s)
         else do {
           (st, s) \<leftarrow> hal_rpu_irq_wdog_ack os s;
           Some (st, recovery, s)
         }
       } else Some (SUCCESS, False, s));
     if st = FAIL then Some (st, recovery, s)
     else if num_events = 0 then Some (SUCCESS, recovery, s)
     else do {
       (st, s) \<leftarrow> hal_rpu_irq_ack os s;
       Some (st, recovery, s)
     }
   }"

definition nrf_wifi_hal_irq_handler :: "os \<Rightarrow> hal \<Rightarrow> (nrf_status \<times> hal) option" where
  "nrf_wifi_hal_irq_handler os s = do {
     let s = emit (IoLock LOCK_RX) s;
     (st, s) \<leftarrow> (if hal_status s \<noteq> NRF_WIFI_HAL_STATUS_ENABLED then Some (SUCCESS, s)
       else do {
         (st, recovery, s) \<leftarrow> hal_rpu_irq_process os s;
         Some (if st \<noteq> SUCCESS then (st, s)
           else if recovery then (st, emit (IoTaskletSchedule TASKLET_RECOVERY) s)
           else (st, emit (IoTaskletSchedule TASKLET_EVENT) s))
       });
     Some (st, emit (IoUnlock LOCK_RX) s)
   }"

text \<open>The ISR that the bus layer registers only calls the handler, and so do the interrupt handlers
  of the buses.\<close>

definition nrf_wifi_bal_isr :: "os \<Rightarrow> hal \<Rightarrow> (nrf_status \<times> hal) option" where
  "nrf_wifi_bal_isr os s = nrf_wifi_hal_irq_handler os s"

definition nrf_wifi_bus_qspi_irq_handler :: "os \<Rightarrow> hal \<Rightarrow> (nrf_status \<times> hal) option" where
  "nrf_wifi_bus_qspi_irq_handler os s = nrf_wifi_bal_isr os s"

definition nrf_wifi_bus_spi_irq_handler :: "os \<Rightarrow> hal \<Rightarrow> (nrf_status \<times> hal) option" where
  "nrf_wifi_bus_spi_irq_handler os s = nrf_wifi_bal_isr os s"

definition nrf_wifi_hal_enable :: "hal \<Rightarrow> hal" where
  "nrf_wifi_hal_enable s =
    emit (IoUnlock LOCK_RX) ((emit (IoLock LOCK_RX) s)\<lparr>hal_status := NRF_WIFI_HAL_STATUS_ENABLED\<rparr>)"

definition nrf_wifi_hal_disable :: "hal \<Rightarrow> hal" where
  "nrf_wifi_hal_disable s =
    emit (IoUnlock LOCK_RX) ((emit (IoLock LOCK_RX) s)\<lparr>hal_status := NRF_WIFI_HAL_STATUS_DISABLED\<rparr>)"

definition nrf_wifi_hal_status_unlocked :: "hal \<Rightarrow> hal_status" where
  "nrf_wifi_hal_status_unlocked s = hal_status s"

text \<open>The two tasklets of the system mode (\<open>hw_if/hal/src/system/hal_api.c\<close>). The callbacks are
  the FMAC's; a recovery callback that is not registered is \<open>None\<close>.\<close>

definition hal_rpu_recovery :: "(hal \<Rightarrow> (nrf_status \<times> hal) option) option \<Rightarrow> hal \<Rightarrow>
    (nrf_status \<times> hal) option" where
  "hal_rpu_recovery rpu_recovery_callbk_fn s = (case rpu_recovery_callbk_fn of
     None \<Rightarrow> Some (FAIL, s)
   | Some cb \<Rightarrow> cb s)"

definition recovery_tasklet_fn :: "(hal \<Rightarrow> (nrf_status \<times> hal) option) option \<Rightarrow> hal \<Rightarrow> hal option" where
  "recovery_tasklet_fn rpu_recovery_callbk_fn s = do {
     let s = emit (IoLock LOCK_RECOVERY) s;
     (_, s) \<leftarrow> hal_rpu_recovery rpu_recovery_callbk_fn s;
     Some (emit (IoUnlock LOCK_RECOVERY) s)
   }"

definition event_tasklet_fn :: "event_cb \<Rightarrow> hal \<Rightarrow> hal option" where
  "event_tasklet_fn intr_callbk_fn s = do {
     let s = emit (IoLock LOCK_RX) s;
     (_, s) \<leftarrow> (if hal_status s \<noteq> NRF_WIFI_HAL_STATUS_ENABLED then Some (SUCCESS, s)
        else hal_rpu_eventq_process intr_callbk_fn s);
     Some (emit (IoUnlock LOCK_RX) s)
   }"

section \<open>Contracts\<close>

lemma ps_ok_trans: "ps_op s t \<Longrightarrow> ps_ok t m \<Longrightarrow> ps_ok s m"
  unfolding ps_ok_def by (auto intro: sat_mono ps_op_trans)

text \<open>Reads in front of other steps.\<close>

lemma reg_read_bind:
  assumes "\<And>st v t. ps_op s t \<Longrightarrow> ps_ok t (f (st, v, t))"
  shows "ps_ok s (Option.bind (hal_rpu_reg_read os a s) f)"
  unfolding ps_ok_def
  by (rule sat_bindI [OF reg_read_sat])
    (use assms ps_ok_trans in \<open>force simp: ps_ok_def split: prod.splits\<close>)

lemma mem_read_bind:
  assumes "LOCK_PS \<in> L" "\<And>st bs t. hal_step L s t \<Longrightarrow> hal_ok L t (f (st, bs, t))"
  shows "hal_ok L s (Option.bind (hal_rpu_mem_read os a n s) f)"
proof (cases "hal_rpu_mem_read os a n s")
  case (Some r)
  obtain st bs t where r: "r = (st, bs, t)" by (cases r)
  with Some mem_read_sat [of os a n s] have "ps_op s t" by simp
  then have "hal_step L s t" using assms(1) by (rule ps_op_step)
  with assms(2) Some r show ?thesis by (simp add: hal_ok_trans)
qed simp

lemma irq_enable_ok: "ps_ok s (hal_rpu_irq_enable os s)"
  unfolding hal_rpu_irq_enable_def
  by (rule reg_read_bind) (simp add: ps_ok_bind reg_write_ok)

lemma irq_disable_ok: "ps_ok s (hal_rpu_irq_disable os s)"
  unfolding hal_rpu_irq_disable_def
  by (rule reg_read_bind) (simp add: ps_ok_bind reg_write_ok)

lemma wdog_chk_loop_sat: "sat (wdog_chk_loop os n s) (\<lambda>(b, t). ps_op s t)"
proof (induction n arbitrary: s)
  case (Suc n)
  have rec: "sat (wdog_chk_loop os n t) (\<lambda>(b, u). ps_op s u)" if "ps_op s t" for t
    by (rule sat_mono [OF Suc]) (use that ps_op_trans in auto)
  have rd: "sat (hal_rpu_reg_read os RPU_REG_MIPS_MCU_UCCP_INT_STATUS s) (\<lambda>(st, v, t). ps_op s t)"
    by (rule sat_mono [OF reg_read_sat]) auto
  show ?case
    unfolding wdog_chk_loop.simps
    by (rule sat_bindI [OF rd]) (use rec in auto)
qed simp

lemma event_data_drop_step: "hal_step L s (event_data_drop s)"
  by (rule hal_step_quiet [of "IoFree OBJ_EVENT_DATA" L s s])
    (auto simp: event_data_drop_def same_setup_def)

lemma event_store_step: "hal_step L s (event_store bs s)"
  by (rule hal_step_same [of L s s]) (auto simp: event_store_def same_setup_def)

lemma event_advance_step: "hal_step L s (event_advance n s)"
  by (rule hal_step_same [of L s s]) (auto simp: event_advance_def same_setup_def)

lemma event_complete_ok: "hal_ok L s (event_complete os st s)"
proof -
  obtain ok s1 where a: "osal_alloc os OBJ_EVENT s = (ok, s1)" by fastforce
  let ?m = "take (unat (event_data_len s1)) (the_default [] (event_data s1))"
  obtain st2 s2 where e: "event_q_enqueue os ?m s1 = (st2, s2)" by fastforce
  have 1: "hal_step L s s1" by (rule hal_step_alloc [OF a])
  have 2: "hal_step L s s2" by (rule hal_step_trans [OF 1 event_q_enqueue_step [OF e]])
  have 3: "hal_step L s (event_data_drop s1)" by (rule hal_step_trans [OF 1 event_data_drop_step])
  have 4: "hal_step L s (event_data_drop (emit (IoFree OBJ_EVENT) s2))"
    by (rule hal_step_trans [OF hal_step_trans [OF 2 hal_step_emit] event_data_drop_step]) simp
  have 5: "hal_step L s ((event_data_drop s2)\<lparr>event_data_curr := 0, event_data_len := 0,
      event_resubmit := 0\<rparr>)"
    by (rule hal_step_same [OF hal_step_trans [OF 2 event_data_drop_step]]) (simp_all add: same_setup_def)
  show ?thesis
    using a e 3 4 5 by (simp add: event_complete_def Let_def)
qed

lemma event_resubmit_ok: "LOCK_PS \<in> L \<Longrightarrow> hal_ok L s (event_resubmit_step os a st s)"
  unfolding event_resubmit_step_def hal_rpu_event_free_def
  by (auto intro!: hal_ok_bind [OF hal_ok_ps [OF hpq_enqueue_ok]] intro: event_data_drop_step)

lemma event_finish_ok:
  assumes "LOCK_PS \<in> L"
  shows "hal_ok L s (do {
    (st, s) \<leftarrow> event_resubmit_step os a st s;
    if P st s then Some (st, s) else event_complete os st (event_advance n s) })"
  by (rule hal_ok_bind [OF event_resubmit_ok [OF assms]])
    (auto intro: hal_ok_trans [OF event_advance_step event_complete_ok])

lemma event_first_ok: "LOCK_PS \<in> L \<Longrightarrow> hal_ok L s (event_first os a typ len s)"
  unfolding event_first_def Let_def
  by (auto intro!: mem_read_bind event_finish_ok intro: event_data_drop_step
      hal_ok_trans [OF event_store_step event_finish_ok])

lemma event_next_ok:
  assumes L: "LOCK_PS \<in> L"
  shows "hal_ok L s (event_next os a s)"
proof -
  let ?n = "if max_event_size (cfg_params s) < event_data_pending s
    then max_event_size (cfg_params s) else event_data_pending s"
  have 1: "hal_ok L s (if event_data s \<noteq> None then do {
      (st, bs, s) \<leftarrow> hal_rpu_mem_read os a (unat ?n) s;
      Some (st, if st \<noteq> SUCCESS then event_data_drop s else event_store bs s)
    } else Some (SUCCESS, s))"
    using L by (auto intro!: mem_read_bind event_data_drop_step event_store_step)
  show ?thesis
    unfolding event_next_def Let_def
    by (rule hal_ok_bind [OF 1])
      (auto intro!: hal_ok_bind [OF event_resubmit_ok [OF L]]
        intro: hal_ok_trans [OF event_advance_step event_complete_ok])
qed

lemma event_get_ok:
  assumes L: "LOCK_PS \<in> L"
  shows "hal_ok L s (hal_rpu_event_get os a s)"
proof (cases "event_data_pending s = 0")
  case True
  have "hal_ok L t (let len = le32_get bs; (ok, s) = osal_alloc os OBJ_EVENT_DATA t
        in if \<not> ok then Some (st, s\<lparr>event_data := None\<rparr>)
           else event_first os a bs len
             (s\<lparr>event_data := Some (replicate (unat len) 0), event_data_curr := 0,
                event_data_len := len, event_data_pending := len,
                event_resubmit := le32_get (drop 4 bs)\<rparr>))" for st bs t
  proof -
    obtain ok u where al: "osal_alloc os OBJ_EVENT_DATA t = (ok, u)" by fastforce
    note tu = hal_step_alloc [OF al, of L]
    have "hal_step L t (u\<lparr>event_data := None\<rparr>)"
      by (rule hal_step_same [OF tu]) (simp_all add: same_setup_def)
    moreover have "hal_step L t (u\<lparr>event_data := d, event_data_curr := 0,
                event_data_len := l, event_data_pending := l, event_resubmit := r\<rparr>)" for d l r
      by (rule hal_step_same [OF tu]) (simp_all add: same_setup_def)
    ultimately show ?thesis
      using al by (auto simp: Let_def intro: hal_ok_trans [OF _ event_first_ok [OF L]])
  qed
  with True L show ?thesis
    by (auto simp: hal_rpu_event_get_def intro!: mem_read_bind)
next
  case False
  with event_next_ok [OF L] show ?thesis by (simp add: hal_rpu_event_get_def)
qed

lemma event_get_all_loop_sat:
  assumes L: "LOCK_PS \<in> L"
  shows "sat (event_get_all_loop os n s) (\<lambda>(k, t). hal_step L s t)"
proof (rule satI)
  fix r assume eq: "event_get_all_loop os n s = Some r"
  show "case r of (k, t) \<Rightarrow> hal_step L s t"
  proof (induction os n s r rule: event_get_all_loop.raw_induct)
    case (1 f os n s r)
    obtain st v t where d: "hal_rpu_hpq_dequeue os (event_busy_queue (hpqm_info s)) s = Some (st, v, t)"
      and r: "(let event_addr = the_default 0 v in
         if st \<noteq> SUCCESS then Some (n, t)
         else if event_addr = 0 \<or> event_addr = 0xAAAAAAAA then Some (n, t)
         else do {
           (st, s) \<leftarrow> hal_rpu_event_get os event_addr t;
           if st \<noteq> SUCCESS then Some (n, s) else f os (n + 1) s
         }) = Some r"
      using 1(2) by (auto split: bind_splits)
    have st: "hal_step L s t"
      using hpq_dequeue_sat [of os "event_busy_queue (hpqm_info s)" s] d L by (auto intro: ps_op_step)
    show ?case
    proof (cases "st \<noteq> SUCCESS \<or> the_default 0 v = 0 \<or> the_default 0 v = 0xAAAAAAAA")
      case True
      with r st show ?thesis by (auto simp: Let_def split: if_splits)
    next
      case False
      with r obtain st2 u where g: "hal_rpu_event_get os (the_default 0 v) t = Some (st2, u)"
          and r2: "(if st2 \<noteq> SUCCESS then Some (n, u) else f os (n + 1) u) = Some r"
        by (auto simp: Let_def split: bind_splits)
      have su: "hal_step L s u"
        using event_get_ok [OF L, of t os "the_default 0 v"] g st by (auto intro: hal_step_trans)
      show ?thesis
      proof (cases st2)
        case NRF_WIFI_STATUS_SUCCESS
        with r2 have "f os (n + 1) u = Some r" by simp
        from 1(1) [OF this] su show ?thesis by (auto intro: hal_step_trans split: prod.splits)
      qed (use r2 su in auto)
    qed
  qed (rule eq)
qed

text \<open>Critical sections as a whole.\<close>

lemma locked_ok:
  assumes "sat m (\<lambda>(r, t). hal_step (L - {l}) (emit (IoLock l) s) t)" "l \<in> L"
  shows "sat (Option.bind m (\<lambda>(r, t). Some (r, emit (IoUnlock l) t))) (\<lambda>(r, t). hal_step L s t)"
  by (rule sat_bindI [OF assms(1)]) (auto intro: hal_step_locked [OF _ assms(2)])

lemma process_wdog_sat:
  assumes "LOCK_PS \<in> L"
  shows "sat (hal_rpu_process_wdog os s) (\<lambda>(st, b, t). st = SUCCESS \<and> hal_step L s t)"
proof -
  obtain b s1 where n: "is_rpu_recovery_needed os s = (b, s1)" by fastforce
  have 1: "hal_step L s s1"
    using n by (auto simp: is_rpu_recovery_needed_def osal_defs Let_def split: if_splits
        intro: hal_step_emit)
  have 2: "hal_step L s (if b then s1 else s1\<lparr>wdt_irq_ignored := wdt_irq_ignored s1 + 1\<rparr>)"
    using 1 by (auto intro: hal_step_same simp: same_setup_def)
  have 3: "sat (hal_rpu_irq_wdog_rearm os u) (\<lambda>(st, t). hal_step L u t)" for u
    unfolding hal_rpu_irq_wdog_rearm_def
    using hal_ok_ps [OF reg_write_ok assms] by (simp add: hal_ok_def)
  show ?thesis
    unfolding hal_rpu_process_wdog_def n Let_def prod.case
    by (rule sat_bindI [OF 3]) (auto intro: hal_step_trans [OF 2])
qed

lemma irq_process_sat:
  assumes L: "LOCK_PS \<in> L"
  shows "sat (hal_rpu_irq_process os s) (\<lambda>(st, b, t). hal_step L s t)"
  unfolding hal_rpu_irq_process_def hal_rpu_event_get_all_def hal_rpu_irq_wdog_chk_def
proof (rule sat_bindI [OF event_get_all_loop_sat [OF L]], clarify)
  fix k s1 assume 1: "hal_step L s s1"
  have reg: "sat (hal_rpu_reg_write os a v u) (\<lambda>(st, t). hal_step L u t)" for a v u
    using hal_ok_ps [OF reg_write_ok L] by (simp add: hal_ok_def)
  have chk: "sat (wdog_chk_loop os 10 s1) (\<lambda>(b, t). hal_step L s t)"
    by (rule sat_mono [OF wdog_chk_loop_sat]) (use L ps_op_step hal_step_trans [OF 1] in blast)
  have wd: "sat (do { (st, b, s) \<leftarrow> hal_rpu_process_wdog os u;
       if st = FAIL then Some (st, b, s)
       else do { (st, s) \<leftarrow> hal_rpu_irq_wdog_ack os s; Some (st, b, s) } })
     (\<lambda>(st, b, t). hal_step L u t)" for u
    unfolding hal_rpu_irq_wdog_ack_def
  proof (rule sat_bindI [OF process_wdog_sat [OF L]], clarify)
    fix b v assume uv: "hal_step L u v"
    show "sat (if SUCCESS = FAIL then Some (SUCCESS, b, v)
       else do { (st, s) \<leftarrow> hal_rpu_reg_write os RPU_REG_MIPS_MCU_UCCP_INT_CLEAR 2 v; Some (st, b, s) })
     (\<lambda>(st, b, t). hal_step L u t)"
      by simp (rule sat_bindI [OF reg], auto intro: hal_step_trans [OF uv])
  qed
  have ack: "sat (do { (st, s) \<leftarrow> hal_rpu_irq_ack os u; Some (st, b, s) }) (\<lambda>(st, b, t). hal_step L u t)"
    for u and b :: bool
    unfolding hal_rpu_irq_ack_def by (rule sat_bindI [OF reg]) auto
  have rec: "hal_step L u (u\<lparr>wdt_irq_received := n\<rparr>)" for u n
    by (rule hal_step_same [OF hal_step_refl]) (simp_all add: same_setup_def)
  show "sat (do { (wdog, s) \<leftarrow> wdog_chk_loop os 10 s1;
      (st, b, s) \<leftarrow> (if wdog then do {
         (st, b, s) \<leftarrow> hal_rpu_process_wdog os (s\<lparr>wdt_irq_received := wdt_irq_received s + 1\<rparr>);
         if st = FAIL then Some (st, b, s)
         else do { (st, s) \<leftarrow> hal_rpu_irq_wdog_ack os s; Some (st, b, s) }
       } else Some (SUCCESS, False, s));
      if st = FAIL then Some (st, b, s)
      else if k = 0 then Some (SUCCESS, b, s)
      else do { (st, s) \<leftarrow> hal_rpu_irq_ack os s; Some (st, b, s) } })
     (\<lambda>(st, b, t). hal_step L s t)"
  proof (rule sat_bindI [OF chk], clarify)
    fix w s2 assume 2: "hal_step L s s2"
    have 3: "sat (if w then do {
         (st, b, s) \<leftarrow> hal_rpu_process_wdog os (s2\<lparr>wdt_irq_received := wdt_irq_received s2 + 1\<rparr>);
         if st = FAIL then Some (st, b, s)
         else do { (st, s) \<leftarrow> hal_rpu_irq_wdog_ack os s; Some (st, b, s) }
       } else Some (SUCCESS, False, s2)) (\<lambda>(st, b, t). hal_step L s t)"
      using sat_mono [OF wd] hal_step_trans [OF hal_step_trans [OF 2 rec]] 2 by auto
    show "sat (do { (st, b, s) \<leftarrow> (if w then do {
         (st, b, s) \<leftarrow> hal_rpu_process_wdog os (s2\<lparr>wdt_irq_received := wdt_irq_received s2 + 1\<rparr>);
         if st = FAIL then Some (st, b, s)
         else do { (st, s) \<leftarrow> hal_rpu_irq_wdog_ack os s; Some (st, b, s) }
       } else Some (SUCCESS, False, s2));
      if st = FAIL then Some (st, b, s)
      else if k = 0 then Some (SUCCESS, b, s)
      else do { (st, s) \<leftarrow> hal_rpu_irq_ack os s; Some (st, b, s) } })
     (\<lambda>(st, b, t). hal_step L s t)"
      by (rule sat_bindI [OF 3]) (use sat_mono [OF ack] hal_step_trans in auto)
  qed
qed

lemma irq_handler_ok: "hal_ok {LOCK_PS, LOCK_RX} s (nrf_wifi_hal_irq_handler os s)"
proof -
  let ?s = "emit (IoLock LOCK_RX) s"
  have sched: "hal_step L u (emit (IoTaskletSchedule x) u)" for L u x
    by (rule hal_step_emit) simp
  have "sat (if hal_status ?s \<noteq> NRF_WIFI_HAL_STATUS_ENABLED then Some (SUCCESS, ?s)
       else do {
         (st, recovery, s) \<leftarrow> hal_rpu_irq_process os ?s;
         Some (if st \<noteq> SUCCESS then (st, s)
           else if recovery then (st, emit (IoTaskletSchedule TASKLET_RECOVERY) s)
           else (st, emit (IoTaskletSchedule TASKLET_EVENT) s))
       }) (\<lambda>(r, t). hal_step ({LOCK_PS, LOCK_RX} - {LOCK_RX}) ?s t)"
    by (auto intro!: sat_bindI [OF irq_process_sat [of "{LOCK_PS, LOCK_RX} - {LOCK_RX}"]]
        intro: hal_step_trans [OF _ sched] split: prod.splits)
  from locked_ok [OF this] show ?thesis
    by (simp add: nrf_wifi_hal_irq_handler_def hal_ok_def Let_def)
qed

section \<open>Event assembly\<close>

text \<open>The assembly state is well formed when an event in progress has its buffer and the position
  and the pending count add up to its length. Its abstraction is the bytes assembled so far.\<close>

definition event_wf :: "hal \<Rightarrow> bool" where
  "event_wf s = (event_data_pending s \<noteq> 0 \<longrightarrow> (\<exists>buf. event_data s = Some buf \<and>
     length buf = unat (event_data_len s) \<and>
     event_data_curr s + unat (event_data_pending s) = unat (event_data_len s)))"

definition event_so_far :: "hal \<Rightarrow> u8 list" where
  "event_so_far s = (if event_data_pending s = 0 then []
     else take (event_data_curr s) (the_default [] (event_data s)))"

definition never_oom :: "os \<Rightarrow> bool" where
  "never_oom os = (\<forall>tr x. os_alloc os tr x)"

text \<open>What a buffer of length \<open>n\<close> at address \<open>a\<close> can read as.\<close>

definition rpu_reads :: "os \<Rightarrow> u32 \<Rightarrow> hal \<Rightarrow> u8 list \<Rightarrow> bool" where
  "rpu_reads os a s bs = (\<exists>off tr. pal_rpu_addr_offset_get a (curr_proc s) = Some off \<and>
     (\<forall>i < length bs. bs ! i = os_readb os tr (bus_host_addr_base s + off) i))"

lemma rpu_reads_take: "rpu_reads os a s bs \<Longrightarrow> rpu_reads os a s (take n bs)"
  by (fastforce simp: rpu_reads_def)

lemma mem_read_content:
  assumes "hal_rpu_mem_read os a n s = Some (SUCCESS, bs, t)"
  shows "ps_op s t \<and> length bs = n \<and> rpu_reads os a s bs"
proof -
  have r: "rpu_mem_read_ram os a n s = Some (SUCCESS, bs, t)"
    using assms by (auto simp: hal_rpu_mem_read_def split: if_splits)
  then obtain off where off: "pal_rpu_addr_offset_get a (curr_proc s) = Some off"
    by (cases "pal_rpu_addr_offset_get a (curr_proc s)") (auto simp: rpu_mem_read_ram_def)
  let ?acc = "\<lambda>s. let (bs, s) = nrf_wifi_bal_read_block os off n s in (SUCCESS, bs, s)"
  have "sat (hal_ps_access os ?acc [] s) (\<lambda>(st, bs, t). st = SUCCESS \<longrightarrow>
      ps_op s t \<and> length bs = n \<and> rpu_reads os a s bs)"
  proof (rule sat_mono [OF ps_access_sat])
    fix u show "\<exists>st r e. ?acc u = (st, r, emit e u) \<and> bus_access e"
      by (simp add: bal_read_block Let_def) (metis bus_access.simps(3))
  next
    fix r assume r: "case r of (st, r, t) \<Rightarrow> ps_op s t \<and>
      (st \<noteq> SUCCESS \<longrightarrow> r = [] \<or> (\<exists>u. ps_frame s u \<and> fst (?acc u) \<noteq> SUCCESS \<and> r = fst (snd (?acc u)))) \<and>
      (st = SUCCESS \<longrightarrow> (\<exists>u. ps_frame s u \<and> accs (w_trace u) = accs (w_trace s) \<and>
         (rpu_fw_booted s \<and> ps_coherent s \<and> LOCK_PS \<notin> set (held (w_trace s)) \<longrightarrow> awake (w_trace u)) \<and>
         fst (?acc u) = SUCCESS \<and> r = fst (snd (?acc u)) \<and>
         w_trace t = IoTimerSchedule 10 # IoUnlock LOCK_PS # w_trace (snd (snd (?acc u)))))"
    obtain st bs t where e: "r = (st, bs, t)" by (cases r)
    have "length bs = n \<and> rpu_reads os a s bs" if "st = SUCCESS"
    proof -
      from r e that obtain u where u: "ps_frame s u" "bs = fst (snd (?acc u))" by auto
      then show ?thesis
        unfolding rpu_reads_def using off ps_frame_fields(2) [OF u(1)]
        by (auto simp: bal_read_block Let_def)
    qed
    with r e show "case r of (st, bs, t) \<Rightarrow> st = SUCCESS \<longrightarrow>
        ps_op s t \<and> length bs = n \<and> rpu_reads os a s bs" by auto
  qed
  then show ?thesis
    using r off by (simp add: rpu_mem_read_ram_def)
qed

lemma event_complete_run:
  assumes "event_complete os SUCCESS s = Some (SUCCESS, t)"
  shows "(event_data_pending s \<noteq> 0 \<and> t = s) \<or>
    (event_data_pending s = 0 \<and> event_data_pending t = 0 \<and>
     (event_q t = event_q s @ [take (unat (event_data_len s)) (the_default [] (event_data s))] \<or>
      event_q t = event_q s \<and> event_data t = None \<and> \<not> never_oom os))"
  using assms
  by (auto simp: event_complete_def osal_alloc_def event_q_enqueue_def event_data_drop_def
      never_oom_def Let_def split: if_splits)

lemma event_resubmit_run:
  assumes "event_resubmit_step os a SUCCESS s = Some (SUCCESS, t)"
  shows "ps_frame s t"
proof (cases "event_resubmit s = 0")
  case False
  with assms obtain st u where "hal_rpu_hpq_enqueue os (event_avl_queue (hpqm_info s)) a s = Some (st, u)"
      "u = t"
    by (auto simp: event_resubmit_step_def hal_rpu_event_free_def split: bind_splits if_splits)
  with hpq_enqueue_ok [of s os "event_avl_queue (hpqm_info s)" a] show ?thesis
    by (simp add: ps_op_frame)
qed (use assms in \<open>simp add: event_resubmit_step_def\<close>)

text \<open>Storing a chunk, handing the buffer back and advancing: the shared end of both cases.\<close>

lemma event_chunk_run:
  assumes run: "do { (st, s) \<leftarrow> event_resubmit_step os a SUCCESS (event_store bs s);
      if P st s then Some (st, s) else event_complete os st (event_advance n s) } = Some (SUCCESS, t)"
    and P: "\<And>st w. event_resubmit_step os a SUCCESS (event_store bs s) = Some (st, w) \<Longrightarrow>
      P st w \<longleftrightarrow> st \<noteq> SUCCESS"
    and buf: "event_data s = Some buf" "length buf = unat (event_data_len s)"
    and pos: "event_data_curr s + unat (event_data_pending s) = unat (event_data_len s)"
    and n: "length bs = unat n" "n \<le> event_data_pending s"
  shows "event_wf t \<and> event_data_pending t = event_data_pending s - n \<and>
    (if event_data_pending s = n then event_q t = event_q s @ [take (event_data_curr s) buf @ bs] \<or>
        event_q t = event_q s \<and> event_data t = None \<and> \<not> never_oom os
     else event_q t = event_q s \<and> event_so_far t = take (event_data_curr s) buf @ bs)"
proof -
  let ?u = "event_store bs s"
  from run obtain st v where r: "event_resubmit_step os a SUCCESS ?u = Some (st, v)"
      and c0: "(\<lambda>(st, s). if P st s then Some (st, s) else event_complete os st (event_advance n s)) (st, v)
        = Some (SUCCESS, t)"
    by (rule bind2E)
  from c0 P [OF r] have c: "(if st \<noteq> SUCCESS then Some (st, v)
      else event_complete os st (event_advance n v)) = Some (SUCCESS, t)" by simp
  from c have st: "st = SUCCESS" by (cases st) auto
  note f = ps_frame_fields [OF event_resubmit_run [OF r [unfolded st]]]
  let ?w = "event_advance n v"
  have nl: "unat n \<le> unat (event_data_pending s)" using n(2) by (simp add: word_le_nat_alt)
  then have sub: "unat (event_data_pending s - n) = unat (event_data_pending s) - unat n"
    using n(2) by (simp add: unat_sub)
  define buf' where "buf' = take (event_data_curr s) buf @ bs @ drop (event_data_curr s + length bs) buf"
  have w: "event_data ?w = Some buf'" "event_data_len ?w = event_data_len s"
      "event_data_pending ?w = event_data_pending s - n"
      "event_data_curr ?w = event_data_curr s + unat n" "event_q ?w = event_q s"
    using f buf by (simp_all add: event_advance_def event_store_def buf'_def)
  have len: "length buf' = unat (event_data_len s)"
    using buf(2) pos nl n(1) by (simp add: buf'_def)
  have cl: "event_data_curr s \<le> length buf" using pos buf(2) by simp
  have pre: "take (event_data_curr s + unat n) buf' = take (event_data_curr s) buf @ bs"
    using cl n(1) by (simp add: buf'_def)
  from event_complete_run [of os ?w t] c st
  have e: "(event_data_pending ?w \<noteq> 0 \<and> t = ?w) \<or>
    (event_data_pending ?w = 0 \<and> event_data_pending t = 0 \<and>
     (event_q t = event_q ?w @ [take (unat (event_data_len ?w)) (the_default [] (event_data ?w))] \<or>
      event_q t = event_q ?w \<and> event_data t = None \<and> \<not> never_oom os))"
    by simp
  show ?thesis
  proof (cases "event_data_pending s = n")
    case True
    with pos len have "take (unat (event_data_len s)) buf' = take (event_data_curr s) buf @ bs"
      using pre by simp
    with e w True show ?thesis by (auto simp: event_wf_def)
  next
    case False
    then have "event_data_pending ?w \<noteq> 0" using w(3) by simp
    with e have t: "t = ?w" by auto
    show ?thesis
      unfolding t event_wf_def event_so_far_def using w len pos nl sub pre False by simp
  qed
qed

text \<open>One accepted buffer: the outcome of a successful call, from \<open>len\<close> bytes to go.\<close>

definition event_outcome :: "os \<Rightarrow> u32 \<Rightarrow> u8 list \<Rightarrow> u8 list list \<Rightarrow> u32 \<Rightarrow> hal \<Rightarrow> hal \<Rightarrow> bool" where
  "event_outcome os a pre q len s t = (event_wf t \<and>
     ((event_q t = q \<and> event_data t = None \<and> event_data_pending t = 0 \<and> \<not> never_oom os) \<or>
      (\<exists>chunk. rpu_reads os a s chunk \<and>
         length chunk = min (unat len) (unat (max_event_size (cfg_params s))) \<and>
         event_data_pending t = len - of_nat (length chunk) \<and>
         (if event_data_pending t = 0 then event_q t = q @ [pre @ chunk]
          else event_q t = q \<and> event_so_far t = pre @ chunk))))"

lemma rpu_reads_frame: "ps_frame s t \<Longrightarrow> rpu_reads os a t = rpu_reads os a s"
  by (auto simp: rpu_reads_def ps_frame_fields fun_eq_iff)

lemma event_outcome_chunk:
  assumes run: "do { (st, s) \<leftarrow> event_resubmit_step os a SUCCESS (event_store bs u);
      if P st s then Some (st, s) else event_complete os st (event_advance n s) } = Some (SUCCESS, t)"
    and P: "\<And>st w. event_resubmit_step os a SUCCESS (event_store bs u) = Some (st, w) \<Longrightarrow>
      P st w \<longleftrightarrow> st \<noteq> SUCCESS"
    and buf: "event_data u = Some buf" "length buf = unat (event_data_len u)"
    and pos: "event_data_curr u + unat (event_data_pending u) = unat (event_data_len u)"
    and bs: "length bs = unat n" "rpu_reads os a s bs"
    and n: "n = (if max_event_size (cfg_params s) < event_data_pending u
      then max_event_size (cfg_params s) else event_data_pending u)"
  shows "event_outcome os a (take (event_data_curr u) buf) (event_q u) (event_data_pending u) s t"
proof -
  have nl: "n \<le> event_data_pending u" using n by auto
  have mn: "unat n = min (unat (event_data_pending u)) (unat (max_event_size (cfg_params s)))"
    using n by (auto simp: word_less_nat_alt)
  have len: "of_nat (length bs) = n" "length bs = min (unat (event_data_pending u)) (unat (max_event_size (cfg_params s)))"
    by (simp add: bs(1)) (simp add: bs(1) mn)
  note c = event_chunk_run [OF run P buf pos bs(1) nl]
  show ?thesis
  proof (cases "event_data_pending u = n \<and> event_data t = None \<and> event_q t = event_q u \<and> \<not> never_oom os")
    case True
    with c show ?thesis by (simp add: event_outcome_def)
  next
    case False
    with c have "if event_data_pending t = 0 then event_q t = event_q u @ [take (event_data_curr u) buf @ bs]
        else event_q t = event_q u \<and> event_so_far t = take (event_data_curr u) buf @ bs"
      by (auto split: if_splits)
    moreover have "event_wf t" "event_data_pending t = event_data_pending u - of_nat (length bs)"
      using c len(1) by simp_all
    ultimately show ?thesis
      unfolding event_outcome_def using bs(2) len(2) by blast
  qed
qed

lemma event_first_run:
  assumes run: "event_first os a hdr len u = Some (SUCCESS, t)"
    and hdr: "length hdr = RPU_EVENT_COMMON_SIZE_MAX" "rpu_reads os a u hdr"
    and u: "event_data u = Some (replicate (unat len) 0)" "event_data_curr u = 0"
      "event_data_len u = len" "event_data_pending u = len"
  shows "event_outcome os a [] (event_q u) len u t"
proof -
  let ?max = "max_event_size (cfg_params u)"
  let ?fin = "\<lambda>st bs n s. do { (st, s) \<leftarrow> event_resubmit_step os a st (event_store bs s);
      if st \<noteq> SUCCESS then Some (st, s) else event_complete os st (event_advance n s) }"
  have fin: "event_outcome os a [] (event_q u) len u t"
    if f: "ps_frame u v" and r: "?fin SUCCESS bs n v = Some (SUCCESS, t)"
      and b: "length bs = unat n" "rpu_reads os a u bs" and n: "n = (if ?max < len then ?max else len)"
    for v bs n
    using event_outcome_chunk [where P = "\<lambda>st u. st \<noteq> SUCCESS", OF r _ _ _ _ b, of "replicate (unat len) 0"]
      u n ps_frame_fields [OF f] by simp
  have rd: "\<exists>bs v. ps_frame u v \<and> ?fin SUCCESS bs n v = Some (SUCCESS, t) \<and> length bs = unat n \<and> rpu_reads os a u bs"
    if ok: "do { (st, bs, s) \<leftarrow> hal_rpu_mem_read os a (unat n) u;
       if st \<noteq> SUCCESS then Some (st, event_data_drop s) else ?fin st bs n s } = Some (SUCCESS, t)" for n
  proof -
    obtain st bs v where m: "hal_rpu_mem_read os a (unat n) u = Some (st, bs, v)"
        and r: "(if st \<noteq> SUCCESS then Some (st, event_data_drop v) else ?fin st bs n v) = Some (SUCCESS, t)"
    proof -
      from ok obtain x where x: "hal_rpu_mem_read os a (unat n) u = Some x"
          "(case x of (st, bs, s) \<Rightarrow> if st \<noteq> SUCCESS then Some (st, event_data_drop s)
            else ?fin st bs n s) = Some (SUCCESS, t)"
        unfolding bind_eq_Some_conv by blast
      obtain st bs v where "x = (st, bs, v)" by (cases x)
      with x show ?thesis by (intro that [of st bs v]) simp_all
    qed
    from r have st: "st = SUCCESS" by (cases st) auto
    from mem_read_content [OF m [unfolded st]] r st show ?thesis
      by (auto dest: ps_op_frame)
  qed
  show ?thesis
  proof (cases "?max < len")
    case True
    with run have "do { (st, bs, s) \<leftarrow> hal_rpu_mem_read os a (unat ?max) u;
       if st \<noteq> SUCCESS then Some (st, event_data_drop s) else ?fin st bs ?max s } = Some (SUCCESS, t)"
      by (simp add: event_first_def Let_def)
    from rd [OF this] True show ?thesis using fin [of _ _ ?max] by auto
  next
    case False
    show ?thesis
    proof (cases "of_nat RPU_EVENT_COMMON_SIZE_MAX < len")
      case big: True
      with run False have "do { (st, bs, s) \<leftarrow> hal_rpu_mem_read os a (unat len) u;
         if st \<noteq> SUCCESS then Some (st, event_data_drop s) else ?fin st bs len s } = Some (SUCCESS, t)"
        by (simp add: event_first_def Let_def)
      from rd [OF this] False show ?thesis using fin [of _ _ len] by auto
    next
      case small: False
      have "unat len \<le> 128" using small by (simp add: word_less_nat_alt)
      then have "length (take (unat len) hdr) = unat len" using hdr(1) by simp
      moreover have "?fin SUCCESS (take (unat len) hdr) len u = Some (SUCCESS, t)"
        using run False small by (simp add: event_first_def Let_def)
      ultimately show ?thesis
        using fin [of u "take (unat len) hdr" len] False rpu_reads_take [OF hdr(2)] by simp
    qed
  qed
qed

lemma event_outcome_cong:
  "rpu_reads os a u = rpu_reads os a s \<Longrightarrow> cfg_params u = cfg_params s \<Longrightarrow>
   event_outcome os a p q l u t = event_outcome os a p q l s t"
  by (simp only: event_outcome_def)

lemma event_resubmit_fail:
  "event_resubmit_step os a SUCCESS s = Some (FAIL, w) \<Longrightarrow> event_resubmit w \<noteq> 0"
proof (cases "event_resubmit s = 0")
  case False
  assume "event_resubmit_step os a SUCCESS s = Some (FAIL, w)"
  then obtain st u where "hal_rpu_hpq_enqueue os (event_avl_queue (hpqm_info s)) a s = Some (st, u)"
      "event_resubmit w = event_resubmit u"
    using False by (auto simp: event_resubmit_step_def hal_rpu_event_free_def event_data_drop_def
        split: bind_splits if_splits)
  with hpq_enqueue_ok [of s os "event_avl_queue (hpqm_info s)" a] False show ?thesis
    using ps_frame_fields(24) [OF ps_op_frame, of s u] by simp
qed (simp add: event_resubmit_step_def)

lemma event_get_run:
  assumes wf: "event_wf s" and run: "hal_rpu_event_get os a s = Some (SUCCESS, t)"
  shows "\<exists>len. (if event_data_pending s = 0
      then \<exists>hdr. length hdr = RPU_EVENT_COMMON_SIZE_MAX \<and> rpu_reads os a s hdr \<and> len = le32_get hdr
      else len = event_data_pending s) \<and>
    event_outcome os a (event_so_far s) (event_q s) len s t"
proof (cases "event_data_pending s = 0")
  case True
  with run have "do { (st, hdr, s) \<leftarrow> hal_rpu_mem_read os a RPU_EVENT_COMMON_SIZE_MAX s;
       if st \<noteq> SUCCESS then Some (st, s)
        else let len = le32_get hdr; (ok, s) = osal_alloc os OBJ_EVENT_DATA s
        in if \<not> ok then Some (st, s\<lparr>event_data := None\<rparr>)
           else event_first os a hdr len
             (s\<lparr>event_data := Some (replicate (unat len) 0), event_data_curr := 0,
                event_data_len := len, event_data_pending := len,
                event_resubmit := le32_get (drop 4 hdr)\<rparr>) } = Some (SUCCESS, t)"
    by (simp add: hal_rpu_event_get_def)
  from this obtain st hdr v where x: "hal_rpu_mem_read os a RPU_EVENT_COMMON_SIZE_MAX s = Some (st, hdr, v)"
      "(\<lambda>(st, hdr, s). if st \<noteq> SUCCESS then Some (st, s)
        else let len = le32_get hdr; (ok, s) = osal_alloc os OBJ_EVENT_DATA s
        in if \<not> ok then Some (st, s\<lparr>event_data := None\<rparr>)
           else event_first os a hdr len
             (s\<lparr>event_data := Some (replicate (unat len) 0), event_data_curr := 0,
                event_data_len := len, event_data_pending := len,
                event_resubmit := le32_get (drop 4 hdr)\<rparr>)) (st, hdr, v) = Some (SUCCESS, t)"
    by (rule bind3E)
  from x(2) have st: "st = SUCCESS" by (cases st) auto
  from mem_read_content [OF x(1) [unfolded st]]
  have hdr: "ps_frame s v" "length hdr = 128" "rpu_reads os a s hdr" by (auto dest: ps_op_frame)
  let ?len = "le32_get hdr"
  let ?al = "IoAlloc OBJ_EVENT_DATA (os_alloc os (w_trace v) OBJ_EVENT_DATA)"
  let ?u = "v\<lparr>w_trace := ?al # w_trace v, event_data := Some (replicate (unat ?len) 0),
     event_data_curr := 0, event_data_len := ?len, event_data_pending := ?len,
     event_resubmit := le32_get (drop 4 hdr)\<rparr>"
  note f = ps_frame_fields [OF hdr(1)]
  have out: "event_outcome os a (event_so_far s) (event_q s) ?len s t"
  proof (cases "os_alloc os (w_trace v) OBJ_EVENT_DATA")
    case False
    with x(2) st have t: "t = v\<lparr>w_trace := ?al # w_trace v, event_data := None\<rparr>"
      by (simp add: osal_alloc_def Let_def)
    show ?thesis
      unfolding event_outcome_def t using f True False
      by (auto simp: event_wf_def never_oom_def)
  next
    case ok: True
    with x(2) st have r: "event_first os a hdr ?len ?u = Some (SUCCESS, t)"
      by (simp add: osal_alloc_def Let_def)
    have rs: "rpu_reads os a ?u = rpu_reads os a s"
      by (simp add: rpu_reads_def fun_eq_iff f)
    have "event_outcome os a [] (event_q ?u) ?len ?u t"
      by (rule event_first_run [OF r]) (simp_all add: hdr rs)
    moreover have "cfg_params ?u = cfg_params s" using f(4) by simp
    ultimately have "event_outcome os a [] (event_q ?u) ?len s t"
      by (metis event_outcome_cong [OF rs])
    moreover have "event_so_far s = []" "event_q ?u = event_q s"
      using True f(11) by (simp_all add: event_so_far_def)
    ultimately show ?thesis by (simp only:)
  qed
  show ?thesis
    by (rule exI [of _ ?len]) (use True hdr out in auto)
next
  case False
  with wf obtain buf where buf: "event_data s = Some buf" "length buf = unat (event_data_len s)"
      "event_data_curr s + unat (event_data_pending s) = unat (event_data_len s)"
    by (auto simp: event_wf_def)
  define n where "n = (if max_event_size (cfg_params s) < event_data_pending s
    then max_event_size (cfg_params s) else event_data_pending s)"
  have "event_next os a s = Some (SUCCESS, t)"
    using run False by (simp add: hal_rpu_event_get_def)
  then have "Option.bind (do { (st, bs, s) \<leftarrow> hal_rpu_mem_read os a (unat n) s;
      Some (st, if st \<noteq> SUCCESS then event_data_drop s else event_store bs s) }) (\<lambda>(st, s).
      if st \<noteq> SUCCESS then Some (st, s) else do {
        (st, s) \<leftarrow> event_resubmit_step os a (if event_data s = None then FAIL else st) s;
        if event_resubmit s \<noteq> 0 \<and> st \<noteq> SUCCESS then Some (st, s)
        else event_complete os st (event_advance n s)
      }) = Some (SUCCESS, t)"
    unfolding event_next_def Let_def n_def [symmetric] using buf(1) by simp
  then obtain st1 v1 where x: "do { (st, bs, s) \<leftarrow> hal_rpu_mem_read os a (unat n) s;
      Some (st, if st \<noteq> SUCCESS then event_data_drop s else event_store bs s) } = Some (st1, v1)"
    and y: "(\<lambda>(st, s). if st \<noteq> SUCCESS then Some (st, s) else do {
        (st, s) \<leftarrow> event_resubmit_step os a (if event_data s = None then FAIL else st) s;
        if event_resubmit s \<noteq> 0 \<and> st \<noteq> SUCCESS then Some (st, s)
        else event_complete os st (event_advance n s)
      }) (st1, v1) = Some (SUCCESS, t)"
    by (rule bind2E)
  from x obtain st bs v where m: "hal_rpu_mem_read os a (unat n) s = Some (st, bs, v)"
    and x2: "(\<lambda>(st, bs, s). Some (st, if st \<noteq> SUCCESS then event_data_drop s else event_store bs s)) (st, bs, v)
      = Some (st1, v1)"
    by (rule bind3E)
  from x2 y have st: "st = SUCCESS" "st1 = SUCCESS" "v1 = event_store bs v" by (cases st; simp)+
  from mem_read_content [OF m [unfolded st]]
  have rd: "ps_frame s v" "length bs = unat n" "rpu_reads os a s bs" by (auto dest: ps_op_frame)
  note f = ps_frame_fields [OF rd(1)]
  from y st f buf(1) have "do {
        (st, s) \<leftarrow> event_resubmit_step os a SUCCESS (event_store bs v);
        if event_resubmit s \<noteq> 0 \<and> st \<noteq> SUCCESS then Some (st, s)
        else event_complete os st (event_advance n s) } = Some (SUCCESS, t)"
    by (simp add: event_store_def)
  then have "event_outcome os a (take (event_data_curr v) buf) (event_q v) (event_data_pending v) s t"
  proof (rule event_outcome_chunk)
    fix st w
    assume "event_resubmit_step os a SUCCESS (event_store bs v) = Some (st, w)"
    then show "(event_resubmit w \<noteq> 0 \<and> st \<noteq> SUCCESS) \<longleftrightarrow> st \<noteq> SUCCESS"
      using event_resubmit_fail [of os a "event_store bs v" w] by (cases st) auto
  qed (use buf f rd n_def in simp_all)
  with f buf(1) False show ?thesis
    by (intro exI [of _ "event_data_pending s"]) (simp add: event_so_far_def)
qed

section \<open>Properties\<close>

text \<open>C5 Every buffer of an event that is accepted brings the assembly one step forward: the chunk
  taken from it is what the RPU's memory reads as at its address, it has the largest size that is
  left to take, and it is appended to what was assembled; with the last chunk the complete event, of
  the length that the header announced, is put in the event queue. Only an allocation that fails
  loses the event. The assembly state stays well formed.\<close>

theorem event_assembly:
  assumes "event_wf s" "hal_rpu_event_get os a s = Some (SUCCESS, t)"
  shows "event_wf t \<and> (\<exists>len.
    (if event_data_pending s = 0
     then \<exists>hdr. length hdr = RPU_EVENT_COMMON_SIZE_MAX \<and> rpu_reads os a s hdr \<and> len = le32_get hdr
     else len = event_data_pending s) \<and>
    ((event_q t = event_q s \<and> event_data t = None \<and> event_data_pending t = 0 \<and> \<not> never_oom os) \<or>
     (\<exists>chunk. rpu_reads os a s chunk \<and>
        length chunk = min (unat len) (unat (max_event_size (cfg_params s))) \<and>
        event_data_pending t = len - of_nat (length chunk) \<and>
        (if event_data_pending t = 0 then event_q t = event_q s @ [event_so_far s @ chunk]
         else event_q t = event_q s \<and> event_so_far t = event_so_far s @ chunk))))"
  using event_get_run [OF assms] unfolding event_outcome_def by blast

definition event_os :: os where
  "event_os = demo_os\<lparr>os_readb := (\<lambda>_ _ i. if i = 0 then 9 else 0)\<rparr>"

lemma event_hdr:
  "le32_get (map (\<lambda>i. if i = 0 then 9 else 0) [0..<128]) = 9"
  "le32_get (drop 4 (map (\<lambda>i. if i = 0 then 9 else 0) [0..<128])) = 0"
  "take 9 (map (\<lambda>i. if i = 0 then 9 else 0 :: u8) [0..<128]) = [9, 0, 0, 0, 0, 0, 0, 0, 0]"
  by (simp_all add: le32_get_def take_map upt_rec)

lemma event_run:
  "\<exists>t. hal_rpu_event_get event_os 0xB7002000 hal_awake = Some (SUCCESS, t) \<and>
    event_q t = [[9, 0, 0, 0, 0, 0, 0, 0, 0]]"
  by (simp add: hal_rpu_event_get_def hal_rpu_mem_read_def mem_read_ram_awake hal_awake_def
      hal_demo_def hal_rpu_is_mem_readable_def hal_rpu_is_mem_ram_def pal_gram_demo event_os_def
      event_hdr osal_alloc_def tick_os_def event_first_def Let_def event_resubmit_step_def
      event_store_def event_advance_def event_complete_def event_q_enqueue_def event_data_drop_def)

theorem event_assembly_witness:
  "\<exists>t. hal_rpu_event_get event_os 0xB7002000 hal_awake = Some (SUCCESS, t) \<and>
    event_q t = [[9, 0, 0, 0, 0, 0, 0, 0, 0]] \<and> event_wf t"
proof -
  obtain t where t: "hal_rpu_event_get event_os 0xB7002000 hal_awake = Some (SUCCESS, t)"
      "event_q t = [[9, 0, 0, 0, 0, 0, 0, 0, 0]]" using event_run by blast
  have "event_wf hal_awake" by (simp add: event_wf_def hal_awake_def hal_demo_def)
  from event_assembly [OF this t(1)] t show ?thesis by blast
qed


text \<open>A first fragment whose data cannot be read, because the device does not wake up for the second
  access, leaves that state.\<close>

lemma event_first_fragment_fails:
  assumes "event_data_pending s = 0" "\<And>tr x. os_alloc os tr x"
    and "hal_rpu_mem_read os a RPU_EVENT_COMMON_SIZE_MAX s = Some (SUCCESS, hdr, v)"
    and "max_event_size (cfg_params s) < le32_get hdr"
    and "\<And>u. hal_rpu_mem_read os a (unat (max_event_size (cfg_params s))) u = Some (FAIL, [], w u)"
    and "\<And>u. ps_frame u (w u)"
  shows "\<exists>t. hal_rpu_event_get os a s = Some (FAIL, t) \<and> event_data t = None \<and>
    event_data_pending t = le32_get hdr \<and> event_data_len t = le32_get hdr"
  using assms(1-5) ps_frame_fields(22,23) [OF assms(6)]
    ps_frame_fields(4) [OF ps_op_frame [OF conjunct1 [OF mem_read_content [OF assms(3)]]]]
  by (simp add: hal_rpu_event_get_def osal_alloc_def event_first_def event_data_drop_def Let_def)

definition hal_poisoned :: hal where
  "hal_poisoned = hal_awake\<lparr>event_data_len := 2500, event_data_pending := 2500\<rparr>"


text \<open>The watchdog asks for recovery exactly when the last opportunity to sleep is less than the timeout
  ago; otherwise the interrupt counts as ignored. The timer is armed again in both cases.\<close>

lemma wdog_decision:
  assumes "hal_rpu_process_wdog os s = Some (st, b, t)"
  shows "st = SUCCESS \<and> b = (os_elapsed_ms os (w_trace s) (last_rpu_sleep_opp_time_ms s) < 50000) \<and>
    wdt_irq_ignored t = wdt_irq_ignored s + (if b then 0 else 1)"
proof -
  obtain need u where n: "is_rpu_recovery_needed os s = (need, u)" by fastforce
  then have u: "need = (os_elapsed_ms os (w_trace s) (last_rpu_sleep_opp_time_ms s) < 50000)"
      "wdt_irq_ignored u = wdt_irq_ignored s"
    by (auto simp: is_rpu_recovery_needed_def osal_defs Let_def split: if_splits)
  let ?v = "if need then u else u\<lparr>wdt_irq_ignored := wdt_irq_ignored u + 1\<rparr>"
  from assms n obtain st2 where "hal_rpu_reg_write os RPU_REG_MIPS_MCU_TIMER RPU_REG_MIPS_MCU_TIMER_RESET_VAL ?v
      = Some (st2, t)" "st = SUCCESS" "b = need"
    by (auto simp: hal_rpu_process_wdog_def hal_rpu_irq_wdog_rearm_def Let_def
        split: bind_splits if_splits)
  with reg_write_ok [of ?v os RPU_REG_MIPS_MCU_TIMER RPU_REG_MIPS_MCU_TIMER_RESET_VAL] u
  show ?thesis
    using ps_frame_fields(27) [OF ps_op_frame, of ?v t] by (cases need) auto
qed


lemma irq_process_run: "\<exists>u. hal_rpu_irq_process demo_os (emit (IoLock LOCK_RX) hal_awake) = Some (SUCCESS, False, u)"
proof -
  let ?s = "emit (IoLock LOCK_RX) hal_awake"
  have d: "\<exists>t. hal_rpu_hpq_dequeue demo_os (event_busy_queue (hpqm_info hal_awake)) ?s = Some (SUCCESS, Some 0, t) \<and>
      rpu_fw_booted t \<and> rpu_ps_state t = RPU_PS_STATE_AWAKE \<and> curr_proc t = RPU_PROC_TYPE_MCU_LMAC"
    by (simp add: hal_rpu_hpq_dequeue_def reg_read_awake hal_awake_def hal_demo_def hal_rpu_is_reg_def
        pal_sbus tick_os_def)
  then obtain t where t: "hal_rpu_hpq_dequeue demo_os (event_busy_queue (hpqm_info hal_awake)) ?s = Some (SUCCESS, Some 0, t)"
      "rpu_fw_booted t" "rpu_ps_state t = RPU_PS_STATE_AWAKE" "curr_proc t = RPU_PROC_TYPE_MCU_LMAC" by blast
  have g: "hal_rpu_event_get_all demo_os ?s = Some (0, t)"
    unfolding hal_rpu_event_get_all_def by (subst event_get_all_loop.simps) (simp add: t(1))
  have "\<exists>u. wdog_chk_loop demo_os (Suc 9) t = Some (False, u)"
    by (subst wdog_chk_loop.simps(2))
      (simp add: t reg_read_awake hal_rpu_is_reg_def pal_sbus tick_os_def)
  then have "\<exists>u. hal_rpu_irq_wdog_chk demo_os t = Some (False, u)"
    by (simp add: hal_rpu_irq_wdog_chk_def)
  with g show ?thesis by (auto simp: hal_rpu_irq_process_def)
qed


end
