(* ===== verification/Hal_Buf.thy ===== *)
theory Hal_Buf
  imports Hal_Irq
begin

text \<open>The data path of the HAL in the system mode: the bounce buffers in the packet memory of the
  RPU, through which every received and transmitted frame goes, and the data commands
  (\<open>hw_if/hal/src/system/hal_api.c\<close>). The memory of the host is the parameter \<open>mem\<close>; what a read
  stores there is handed back as address and bytes. Indexing a table outside its bounds, and the
  NULL table that an allocation left, are undefined behaviour: such a run is \<open>None\<close>.\<close>

abbreviation RPU_PKTRAM_SIZE :: u32 where "RPU_PKTRAM_SIZE \<equiv> 0x2C000"
abbreviation RPU_DATA_CMD_SIZE_MAX_RX :: u32 where "RPU_DATA_CMD_SIZE_MAX_RX \<equiv> 8"
abbreviation RPU_DATA_CMD_SIZE_MAX_TX :: u32 where "RPU_DATA_CMD_SIZE_MAX_TX \<equiv> 148"

text \<open>\<open>n\<close> bytes of host memory at \<open>a\<close>.\<close>

definition host_bytes :: "(u32 \<Rightarrow> u8) \<Rightarrow> u32 \<Rightarrow> u32 \<Rightarrow> u8 list" where
  "host_bytes mem a n = map (\<lambda>i. mem (a + of_nat i)) [0..<unat n]"

section \<open>The layout of the packet memory\<close>

text \<open>The number of receive buffers and the size of a frame are build settings.\<close>

definition pool_size :: "rx_buf_pool_params \<Rightarrow> u32" where
  "pool_size p = ucast (num_bufs p) * ucast (buf_sz p)"

definition rx_pool_bases :: "u32 \<Rightarrow> rx_buf_pool_params list \<Rightarrow> u32 list" where
  "rx_pool_bases base pools =
    [base, base + pool_size (pools ! 0), base + pool_size (pools ! 0) + pool_size (pools ! 1)]"

definition nrf_wifi_sys_hal_rpu_pktram_buf_map_init :: "u32 \<Rightarrow> u32 \<Rightarrow> hal \<Rightarrow> nrf_status \<times> hal" where
  "nrf_wifi_sys_hal_rpu_pktram_buf_map_init rx_num_bufs rx_max_data_size s =
    (case pal_rpu_addr_offset_get RPU_MEM_PKT_BASE (curr_proc s) of
       None \<Rightarrow> (FAIL, s)
     | Some base \<Rightarrow> (SUCCESS, s\<lparr>addr_rpu_pktram_base := base, addr_rpu_pktram_base_tx := base,
         addr_rpu_pktram_base_rx_pool :=
           rx_pool_bases ((base + RPU_PKTRAM_SIZE) - (rx_num_bufs * rx_max_data_size))
             (rx_buf_pool (cfg_params s))\<rparr>))"

section \<open>Receive buffers\<close>

abbreviation no_buf :: buf_map_info where
  "no_buf \<equiv> \<lparr>mapped = False, virt_addr = 0, phy_addr = 0, buf_len = 0\<rparr>"

definition rx_entry :: "u32 \<Rightarrow> u32 \<Rightarrow> hal \<Rightarrow> buf_map_info option" where
  "rx_entry pool_id buf_id s =
    (if of_nat MAX_NUM_OF_RX_QUEUES \<le> pool_id then None
     else case rx_buf_info s ! unat pool_id of
       None \<Rightarrow> None
     | Some tbl \<Rightarrow> if unat buf_id < length tbl then Some (tbl ! unat buf_id) else None)"

definition rx_entry_put :: "u32 \<Rightarrow> u32 \<Rightarrow> buf_map_info \<Rightarrow> hal \<Rightarrow> hal" where
  "rx_entry_put pool_id buf_id e s = s\<lparr>rx_buf_info := (rx_buf_info s)[unat pool_id :=
     map_option (\<lambda>tbl. tbl[unat buf_id := e]) (rx_buf_info s ! unat pool_id)]\<rparr>"

text \<open>The common exit of the two map routines.\<close>

definition mark_mapped :: "buf_map_info \<Rightarrow> buf_map_info" where
  "mark_mapped e = (if phy_addr e \<noteq> 0 then e\<lparr>mapped := True\<rparr> else e)"

definition rx_bounce_addr :: "u32 \<Rightarrow> u32 \<Rightarrow> u32 \<Rightarrow> hal \<Rightarrow> u32" where
  "rx_bounce_addr pool_id buf_id len s =
    addr_rpu_pktram_base_rx_pool s ! unat pool_id + buf_id * len"

definition pkt_rpu_addr :: "u32 \<Rightarrow> hal \<Rightarrow> u32" where
  "pkt_rpu_addr a s = RPU_MEM_PKT_BASE + (a - addr_rpu_pktram_base s)"

definition nrf_wifi_sys_hal_buf_map_rx ::
    "os \<Rightarrow> (u32 \<Rightarrow> u8) \<Rightarrow> u32 \<Rightarrow> u32 \<Rightarrow> u32 \<Rightarrow> u32 \<Rightarrow> hal \<Rightarrow> (u32 \<times> hal) option" where
  "nrf_wifi_sys_hal_buf_map_rx os mem buf len pool_id buf_id s = do {
     e \<leftarrow> rx_entry pool_id buf_id s;
     if mapped e
     then Some (phy_addr e, rx_entry_put pool_id buf_id (mark_mapped e) s)
     else let e = e\<lparr>virt_addr := buf, buf_len := len\<rparr> in
       if len \<noteq> ucast (buf_sz (rx_buf_pool (cfg_params s) ! unat pool_id))
       then Some (phy_addr e, rx_entry_put pool_id buf_id (mark_mapped e) s)
       else let headroom = rx_buf_headroom_sz (cfg_params s);
                bounce_buf_addr = rx_bounce_addr pool_id buf_id len s
        in do {
          (_, s) \<leftarrow> hal_rpu_mem_write os (pkt_rpu_addr bounce_buf_addr s)
            (host_bytes mem buf (ucast headroom)) s;
          let e = e\<lparr>phy_addr := nrf_wifi_bal_dma_map (bounce_buf_addr + ucast headroom) s\<rparr>;
          Some (phy_addr e, rx_entry_put pool_id buf_id (mark_mapped e) s)
        }
   }"

text \<open>The second result is what was stored in host memory, and where.\<close>

definition nrf_wifi_sys_hal_buf_unmap_rx ::
    "os \<Rightarrow> u32 \<Rightarrow> u32 \<Rightarrow> u32 \<Rightarrow> hal \<Rightarrow> (u32 \<times> (u32 \<times> u8 list) option \<times> hal) option" where
  "nrf_wifi_sys_hal_buf_unmap_rx os data_len pool_id buf_id s = do {
     e \<leftarrow> rx_entry pool_id buf_id s;
     if \<not> mapped e then Some (0, None, s)
     else let unmapped_addr = nrf_wifi_bal_dma_unmap (phy_addr e) s in
       if data_len \<noteq> 0 \<and> unmapped_addr = 0 then Some (0, None, s)
       else do {
         (data, s) \<leftarrow> (if data_len \<noteq> 0 then do {
             (_, bs, s) \<leftarrow> hal_rpu_mem_read os (pkt_rpu_addr unmapped_addr s) (unat data_len) s;
             Some (Some (virt_addr e + ucast (rx_buf_headroom_sz (cfg_params s)), bs), s)
           } else Some (None, s));
         Some (virt_addr e, data, rx_entry_put pool_id buf_id no_buf s)
       }
   }"

section \<open>Transmit buffers\<close>

definition tx_entry :: "u32 \<Rightarrow> hal \<Rightarrow> buf_map_info option" where
  "tx_entry desc_id s = (case tx_buf_info s of
     None \<Rightarrow> None
   | Some tbl \<Rightarrow> if unat desc_id < length tbl then Some (tbl ! unat desc_id) else None)"

definition tx_entry_put :: "u32 \<Rightarrow> buf_map_info \<Rightarrow> hal \<Rightarrow> hal" where
  "tx_entry_put desc_id e s =
    s\<lparr>tx_buf_info := map_option (\<lambda>tbl. tbl[unat desc_id := e]) (tx_buf_info s)\<rparr>"

definition align4 :: "u32 \<Rightarrow> u32" where
  "align4 x = (x + 3) AND NOT 3"

definition nrf_wifi_sys_hal_buf_map_tx ::
    "os \<Rightarrow> (u32 \<Rightarrow> u8) \<Rightarrow> u32 \<Rightarrow> u32 \<Rightarrow> u32 \<Rightarrow> u32 \<Rightarrow> u32 \<Rightarrow> hal \<Rightarrow> (u32 \<times> hal) option" where
  "nrf_wifi_sys_hal_buf_map_tx os mem buf len desc_id token buf_indx s = do {
     let tx_token_base_addr = addr_rpu_pktram_base_tx s + token * max_ampdu_len_per_token (cfg_params s);
     e \<leftarrow> tx_entry desc_id s;
     if mapped e then Some (phy_addr e, tx_entry_put desc_id (mark_mapped e) s)
     else let e = e\<lparr>virt_addr := buf\<rparr>;
              headroom = ucast (tx_buf_headroom_sz (cfg_params s)) in
       if max_tx_frm_sz (cfg_params s) - headroom < len
       then Some (phy_addr e, tx_entry_put desc_id (mark_mapped e) s)
       else let s = (if buf_indx = 0 then s\<lparr>tx_frame_offset := tx_token_base_addr\<rparr> else s);
                bounce_buf_addr = align4 (tx_frame_offset s);
                len = align4 len;
                s = s\<lparr>tx_frame_offset := tx_frame_offset s +
                      ((bounce_buf_addr - tx_frame_offset s) + len + headroom)\<rparr>
        in do {
          (_, s) \<leftarrow> hal_rpu_mem_write os (pkt_rpu_addr bounce_buf_addr s) (host_bytes mem buf len) s;
          let e = e\<lparr>phy_addr := nrf_wifi_bal_dma_map bounce_buf_addr s\<rparr>;
          let e = (if phy_addr e = 0 then e else e\<lparr>buf_len := len\<rparr>);
          Some (phy_addr e, tx_entry_put desc_id (mark_mapped e) s)
        }
   }"

definition nrf_wifi_sys_hal_buf_unmap_tx :: "u32 \<Rightarrow> hal \<Rightarrow> (u32 \<times> hal) option" where
  "nrf_wifi_sys_hal_buf_unmap_tx desc_id s = do {
     e \<leftarrow> tx_entry desc_id s;
     if \<not> mapped e then Some (0, s)
     else if nrf_wifi_bal_dma_unmap (phy_addr e) s = 0 then Some (0, s)
     else Some (virt_addr e, tx_entry_put desc_id no_buf s)
   }"

section \<open>Data commands\<close>

definition data_cmd_addr :: "hal_msg_type \<Rightarrow> u32 \<Rightarrow> hal \<Rightarrow> u32" where
  "data_cmd_addr cmd_type desc_id s =
    (let (addr_base, max_cmd_size) =
       (if cmd_type = NRF_WIFI_HAL_MSG_TYPE_CMD_DATA_RX then (rx_cmd_base s, RPU_DATA_CMD_SIZE_MAX_RX)
        else if cmd_type = NRF_WIFI_HAL_MSG_TYPE_CMD_DATA_TX
        then (tx_cmd_base s, RPU_DATA_CMD_SIZE_MAX_TX) else (0, 0))
     in addr_base + max_cmd_size * desc_id)"

definition nrf_wifi_sys_hal_data_cmd_send ::
    "os \<Rightarrow> hal_msg_type \<Rightarrow> u8 list \<Rightarrow> u32 \<Rightarrow> u32 \<Rightarrow> hal \<Rightarrow> (nrf_status \<times> hal) option" where
  "nrf_wifi_sys_hal_data_cmd_send os cmd_type cmd desc_id pool_id s = do {
     let s = emit (IoLock LOCK_HAL) s;
     let addr = data_cmd_addr cmd_type desc_id s;
     let host_addr = (if cmd_type = NRF_WIFI_HAL_MSG_TYPE_CMD_DATA_RX
       then (addr AND RPU_ADDR_MASK_OFFSET) OR RPU_MCU_CORE_INDIRECT_BASE else addr);
     (st, s) \<leftarrow> do {
       (st, s) \<leftarrow> hal_rpu_mem_write os host_addr cmd s;
       if st \<noteq> SUCCESS then Some (st, s) else hal_rpu_msg_post os cmd_type pool_id addr s
     };
     Some (st, emit (IoUnlock LOCK_HAL) s)
   }"

definition nrf_wifi_sys_hal_lock_rx :: "hal \<Rightarrow> hal" where
  "nrf_wifi_sys_hal_lock_rx s = emit (IoLock LOCK_RX) s"

definition nrf_wifi_sys_hal_unlock_rx :: "hal \<Rightarrow> hal" where
  "nrf_wifi_sys_hal_unlock_rx s = emit (IoUnlock LOCK_RX) s"

text \<open>The error value is \<open>-1\<close> as an unsigned number.\<close>

definition nrf_wifi_hal_get_buf_map_rx :: "u32 \<Rightarrow> u32 \<Rightarrow> hal \<Rightarrow> u32 option" where
  "nrf_wifi_hal_get_buf_map_rx pool_id buf_id s = do {
     e \<leftarrow> rx_entry pool_id buf_id s;
     Some (if mapped e then phy_addr e else -1)
   }"

section \<open>Contracts\<close>

lemma rx_entry_put_step: "hal_step L s (rx_entry_put p b e s)"
  by (rule hal_step_same [of L s s]) (auto simp: rx_entry_put_def same_setup_def)

lemma tx_entry_put_step: "hal_step L s (tx_entry_put d e s)"
  by (rule hal_step_same [of L s s]) (auto simp: tx_entry_put_def same_setup_def)

lemma mem_write_step_sat:
  "LOCK_PS \<in> L \<Longrightarrow> sat (hal_rpu_mem_write os a bs s) (\<lambda>(st, t). hal_step L s t)"
  using hal_ok_ps [OF mem_write_ok] by (simp add: hal_ok_def)

lemma buf_map_rx_step:
  assumes "LOCK_PS \<in> L"
  shows "sat (nrf_wifi_sys_hal_buf_map_rx os mem buf len p b s) (\<lambda>(a, t). hal_step L s t)"
proof (cases "rx_entry p b s")
  case (Some e)
  have w: "sat (hal_rpu_mem_write os a bs s) (\<lambda>(st, t). hal_step L s t)" for a bs
    by (rule mem_write_step_sat [OF assms])
  show ?thesis
    using Some by (auto simp: nrf_wifi_sys_hal_buf_map_rx_def Let_def
        intro!: rx_entry_put_step sat_bindI [OF w] intro: hal_step_trans [OF _ rx_entry_put_step])
qed (simp add: nrf_wifi_sys_hal_buf_map_rx_def)

lemma buf_unmap_rx_step:
  assumes "LOCK_PS \<in> L"
  shows "sat (nrf_wifi_sys_hal_buf_unmap_rx os n p b s) (\<lambda>(a, d, t). hal_step L s t)"
proof (cases "rx_entry p b s")
  case (Some e)
  have r: "sat (hal_rpu_mem_read os a k s) (\<lambda>(st, bs, t). hal_step L s t)" for a k
    by (rule sat_mono [OF mem_read_sat]) (use assms ps_op_step in auto)
  show ?thesis
    using Some by (auto simp: nrf_wifi_sys_hal_buf_unmap_rx_def Let_def
        intro!: sat_bindI [OF r] rx_entry_put_step intro: hal_step_trans [OF _ rx_entry_put_step])
qed (simp add: nrf_wifi_sys_hal_buf_unmap_rx_def)

lemma buf_map_tx_step:
  assumes "LOCK_PS \<in> L"
  shows "sat (nrf_wifi_sys_hal_buf_map_tx os mem buf len d tok i s) (\<lambda>(a, t). hal_step L s t)"
proof (cases "tx_entry d s")
  case (Some e)
  have off: "hal_step L u (u\<lparr>tx_frame_offset := x\<rparr>)" for u x
    by (rule hal_step_same [of L u u]) (auto simp: same_setup_def)
  have w: "sat (hal_rpu_mem_write os a bs u) (\<lambda>(st, t). hal_step L s t)" if "hal_step L s u" for a bs u
    using mem_write_step_sat [OF assms, of os a bs u] that
    by (auto intro: sat_mono hal_step_trans)
  show ?thesis
    using Some off [of s] by (auto simp: nrf_wifi_sys_hal_buf_map_tx_def Let_def
        intro!: tx_entry_put_step sat_bindI [OF w] intro: hal_step_trans [OF _ tx_entry_put_step])
qed (simp add: nrf_wifi_sys_hal_buf_map_tx_def Let_def)

lemma buf_unmap_tx_step:
  "sat (nrf_wifi_sys_hal_buf_unmap_tx d s) (\<lambda>(a, t). hal_step L s t)"
  by (cases "tx_entry d s")
    (auto simp: nrf_wifi_sys_hal_buf_unmap_tx_def intro: tx_entry_put_step)

lemma data_cmd_send_ok: "hal_ok {LOCK_PS, LOCK_HAL} s (nrf_wifi_sys_hal_data_cmd_send os ty cmd d p s)"
proof -
  let ?s = "emit (IoLock LOCK_HAL) s"
  let ?addr = "data_cmd_addr ty d ?s"
  let ?h = "if ty = NRF_WIFI_HAL_MSG_TYPE_CMD_DATA_RX
    then (?addr AND RPU_ADDR_MASK_OFFSET) OR RPU_MCU_CORE_INDIRECT_BASE else ?addr"
  have "hal_ok {LOCK_PS} ?s (do { (st, s) \<leftarrow> hal_rpu_mem_write os ?h cmd ?s;
      if st \<noteq> SUCCESS then Some (st, s) else hal_rpu_msg_post os ty p ?addr s })"
    by (rule hal_ok_bind [OF hal_ok_ps [OF mem_write_ok]]) (auto intro: msg_post_ok)
  then have "sat (do { (st, s) \<leftarrow> hal_rpu_mem_write os ?h cmd ?s;
      if st \<noteq> SUCCESS then Some (st, s) else hal_rpu_msg_post os ty p ?addr s })
      (\<lambda>(r, t). hal_step ({LOCK_PS, LOCK_HAL} - {LOCK_HAL}) (emit (IoLock LOCK_HAL) s) t)"
    by (simp add: hal_ok_def insert_Diff_if)
  from locked_ok [OF this] show ?thesis
    by (simp add: nrf_wifi_sys_hal_data_cmd_send_def hal_ok_def Let_def)
qed

section \<open>Where the receive buffers are\<close>

text \<open>The same layout in natural numbers: the bytes before pool \<open>p\<close>, and the slots.\<close>

definition pool_bytes :: "rx_buf_pool_params \<Rightarrow> nat" where
  "pool_bytes p = unat (num_bufs p) * unat (buf_sz p)"

fun pools_before :: "nat \<Rightarrow> rx_buf_pool_params list \<Rightarrow> nat" where
  "pools_before 0 ps = 0"
| "pools_before (Suc n) [] = 0"
| "pools_before (Suc n) (p # ps) = pool_bytes p + pools_before n ps"

definition rx_slot :: "nat \<Rightarrow> rx_buf_pool_params list \<Rightarrow> nat \<Rightarrow> nat \<Rightarrow> nat" where
  "rx_slot base ps p b = base + pools_before p ps + b * unat (buf_sz (ps ! p))"

lemma pools_before_step:
  "p < length ps \<Longrightarrow> pools_before (Suc p) ps = pools_before p ps + pool_bytes (ps ! p)"
proof (induction ps arbitrary: p)
  case (Cons q qs)
  then show ?case by (cases p) auto
qed simp

lemma pools_before_mono: "p \<le> q \<Longrightarrow> pools_before p ps \<le> pools_before q ps"
proof (induction p ps arbitrary: q rule: pools_before.induct)
  case (3 n p ps)
  then show ?case by (cases q) auto
qed auto

lemma rx_slot_end:
  assumes "p < length ps" "b < unat (num_bufs (ps ! p))"
  shows "rx_slot base ps p b + unat (buf_sz (ps ! p)) \<le> base + pools_before (Suc p) ps"
proof -
  have "Suc b * unat (buf_sz (ps ! p)) \<le> pool_bytes (ps ! p)"
    unfolding pool_bytes_def using assms(2) by (intro mult_le_mono1) simp
  then show ?thesis
    using pools_before_step [OF assms(1)] by (simp add: rx_slot_def)
qed

text \<open>Distinct slots do not overlap.\<close>

lemma rx_slots_apart:
  assumes "p < length ps" "b < unat (num_bufs (ps ! p))" "q < length ps" "c < unat (num_bufs (ps ! q))"
    and "p < q \<or> p = q \<and> b < c"
  shows "rx_slot base ps p b + unat (buf_sz (ps ! p)) \<le> rx_slot base ps q c"
  using assms(5)
proof
  assume "p < q"
  then have "pools_before (Suc p) ps \<le> pools_before q ps" by (intro pools_before_mono) simp
  then show ?thesis using rx_slot_end [OF assms(1,2), of base] by (simp add: rx_slot_def)
next
  assume pq: "p = q \<and> b < c"
  then have "Suc b * unat (buf_sz (ps ! q)) \<le> c * unat (buf_sz (ps ! q))"
    by (intro mult_le_mono1) simp
  then show ?thesis using pq by (simp add: rx_slot_def)
qed

lemma u16_le: "unat (x :: u16) \<le> 65535"
  using unsigned_less [of x, where ?'a = nat] by simp

lemma unat_ucast_u16: "unat (ucast (x :: u16) :: u32) = unat x"
  using u16_le [of x] by (simp add: unsigned_ucast_eq take_bit_nat_eq_self)

lemma pool_size_nat: "unat (pool_size p) = pool_bytes p"
proof -
  have "unat (num_bufs p) * unat (buf_sz p) \<le> 65535 * 65535" by (rule mult_le_mono [OF u16_le u16_le])
  then show ?thesis
    by (simp add: pool_size_def pool_bytes_def unat_word_ariths unat_ucast_u16)
qed

lemma three_pools: "length ps = 3 \<Longrightarrow> \<exists>a b c. ps = [a, b, c]"
  by (auto simp: eval_nat_numeral length_Suc_conv)

lemma pools_before_3:
  "pools_before 3 [a, b, c] = pool_bytes a + (pool_bytes b + pool_bytes c)"
  "pools_before 2 [a, b, c] = pool_bytes a + pool_bytes b"
  "pools_before 1 [a, b, c] = pool_bytes a"
  by (simp_all add: eval_nat_numeral)

lemma rx_pool_bases_nat:
  assumes "length ps = 3" "unat base + pools_before 3 ps < 2 ^ 32" "p < 3"
  shows "unat (rx_pool_bases base ps ! p) = unat base + pools_before p ps"
proof -
  obtain a b c where ps: "ps = [a, b, c]"
    using assms(1) three_pools by blast
  have bnd: "unat base + pool_bytes a + pool_bytes b + pool_bytes c < 2 ^ 32"
    using assms(2) by (simp add: ps pools_before_3)
  have 1: "unat (base + pool_size a) = unat base + pool_bytes a"
    using bnd by (subst unat_add_small) (simp_all add: pool_size_nat)
  have 2: "unat (base + pool_size a + pool_size b) = unat base + pool_bytes a + pool_bytes b"
    using bnd by (subst unat_add_small) (simp_all add: 1 pool_size_nat)
  consider "p = 0" | "p = 1" | "p = 2" using assms(3) by linarith
  then show ?thesis
    by cases (simp_all add: rx_pool_bases_def ps 1 2 pools_before_3 flip: One_nat_def)
qed

lemma rx_bounce_nat:
  assumes "length ps = 3" "unat base + pools_before 3 ps < 2 ^ 32" "unat p < 3"
    and "unat b < unat (num_bufs (ps ! unat p))"
    and "addr_rpu_pktram_base_rx_pool s = rx_pool_bases base ps"
  shows "unat (rx_bounce_addr p b (ucast (buf_sz (ps ! unat p))) s) = rx_slot (unat base) ps (unat p) (unat b)"
proof -
  let ?sz = "buf_sz (ps ! unat p)"
  have en: "rx_slot (unat base) ps (unat p) (unat b) + unat ?sz \<le> unat base + pools_before 3 ps"
    using rx_slot_end [of "unat p" ps "unat b" "unat base"] assms pools_before_mono [of "Suc (unat p)" 3 ps]
    by simp
  have m: "unat (b * ucast ?sz) = unat b * unat ?sz"
    using en assms(2) by (simp add: unat_word_ariths unat_ucast_u16 rx_slot_def)
  show ?thesis
    unfolding rx_bounce_addr_def assms(5)
    using en assms(2) rx_pool_bases_nat [OF assms(1-3)]
    by (subst unat_add_small) (simp_all add: m rx_slot_def)
qed

text \<open>The position of a receive buffer in the packet memory.\<close>

definition rx_position :: "hal \<Rightarrow> u32 \<Rightarrow> u32 \<Rightarrow> nat" where
  "rx_position s p b = unat (rx_bounce_addr p b (ucast (buf_sz (rx_buf_pool (cfg_params s) ! unat p))) s)
     - unat (addr_rpu_pktram_base s)"

lemma map_init_state:
  assumes "nrf_wifi_sys_hal_rpu_pktram_buf_map_init nb ds s = (SUCCESS, t)"
  shows "cfg_params t = cfg_params s \<and> addr_rpu_pktram_base t = 0xC5000 \<and>
    addr_rpu_pktram_base_rx_pool t = rx_pool_bases (0xF1000 - nb * ds) (rx_buf_pool (cfg_params s))"
  using assms
  by (auto simp: nrf_wifi_sys_hal_rpu_pktram_buf_map_init_def pal_rpu_addr_offset_get_def)

lemma rx_position_slot:
  assumes init: "nrf_wifi_sys_hal_rpu_pktram_buf_map_init nb ds s = (SUCCESS, t)"
    and ps: "rx_buf_pool (cfg_params s) = ps" "length ps = 3"
    and fit: "unat nb * unat ds \<le> 0x2C000" "pools_before 3 ps < 2 ^ 31"
    and pb: "p < 3" "unat b < unat (num_bufs (ps ! unat p))"
  shows "rx_position t p b = rx_slot (0x2C000 - unat nb * unat ds) ps (unat p) (unat b)"
proof -
  note st = map_init_state [OF init]
  have "unat (nb * ds) = unat nb * unat ds" using fit(1) by (simp add: unat_word_ariths)
  then have base: "unat (0xF1000 - nb * ds) = 0xF1000 - unat nb * unat ds"
    using fit(1) by (subst unat_sub) (simp_all add: word_le_nat_alt)
  have "unat (0xF1000 - nb * ds) + pools_before 3 ps < 2 ^ 32" using fit(2) base by simp
  moreover have "unat p < 3" using pb(1) by (simp add: word_less_nat_alt)
  ultimately have "unat (rx_bounce_addr p b (ucast (buf_sz (ps ! unat p))) t)
      = rx_slot (0xF1000 - unat nb * unat ds) ps (unat p) (unat b)"
    using rx_bounce_nat [OF ps(2), of "0xF1000 - nb * ds" p b t] st ps(1) pb(2) base by simp
  then show ?thesis
    using st ps(1) fit(1) by (simp add: rx_position_def rx_slot_def)
qed

section \<open>Properties of the buffers\<close>

text \<open>C21 When the configured pools fit into the memory reserved for reception, every receive
  buffer lies inside the packet memory and no two of them overlap.\<close>

theorem rx_buffers_disjoint:
  assumes "nrf_wifi_sys_hal_rpu_pktram_buf_map_init nb ds s = (SUCCESS, t)"
    and "rx_buf_pool (cfg_params s) = ps" "length ps = 3"
    and "pools_before 3 ps \<le> unat nb * unat ds" "unat nb * unat ds \<le> unat RPU_PKTRAM_SIZE"
    and "p < 3" "unat b < unat (num_bufs (ps ! unat p))"
    and "q < 3" "unat c < unat (num_bufs (ps ! unat q))" "(p, b) \<noteq> (q, c)"
  shows "rx_position t p b + unat (buf_sz (ps ! unat p)) \<le> unat RPU_PKTRAM_SIZE \<and>
    (rx_position t p b + unat (buf_sz (ps ! unat p)) \<le> rx_position t q c \<or>
     rx_position t q c + unat (buf_sz (ps ! unat q)) \<le> rx_position t p b)"
proof -
  have fit: "unat nb * unat ds \<le> 0x2C000" "pools_before 3 ps < 2 ^ 31" using assms(4,5) by simp_all
  have lt: "unat p < length ps" "unat q < length ps"
    using assms(3,6,8) by (simp_all add: word_less_nat_alt)
  note pb = rx_position_slot [OF assms(1-3) fit assms(6,7)]
    and qc = rx_position_slot [OF assms(1-3) fit assms(8,9)]
  let ?base = "0x2C000 - unat nb * unat ds"
  have "rx_slot ?base ps (unat p) (unat b) + unat (buf_sz (ps ! unat p)) \<le> ?base + pools_before 3 ps"
    using rx_slot_end [OF lt(1) assms(7), of ?base] pools_before_mono [of "Suc (unat p)" 3 ps]
      lt(1) assms(3) by simp
  then have inside: "rx_position t p b + unat (buf_sz (ps ! unat p)) \<le> unat RPU_PKTRAM_SIZE"
    unfolding pb using assms(4) fit(1) by simp
  consider "p < q \<or> p = q \<and> b < c" | "q < p \<or> q = p \<and> c < b" using assms(10) by fastforce
  then have "rx_position t p b + unat (buf_sz (ps ! unat p)) \<le> rx_position t q c \<or>
     rx_position t q c + unat (buf_sz (ps ! unat q)) \<le> rx_position t p b"
  proof cases
    case 1
    then have "unat p < unat q \<or> unat p = unat q \<and> unat b < unat c" by (auto simp: word_less_nat_alt)
    from rx_slots_apart [OF lt(1) assms(7) lt(2) assms(9) this] show ?thesis unfolding pb qc by blast
  next
    case 2
    then have "unat q < unat p \<or> unat q = unat p \<and> unat c < unat b" by (auto simp: word_less_nat_alt)
    from rx_slots_apart [OF lt(2) assms(9) lt(1) assms(7) this] show ?thesis unfolding pb qc by blast
  qed
  with inside show ?thesis by blast
qed

lemma demo_map_init:
  "nrf_wifi_sys_hal_rpu_pktram_buf_map_init 48 1600 hal_demo
    = (SUCCESS, snd (nrf_wifi_sys_hal_rpu_pktram_buf_map_init 48 1600 hal_demo))"
  by (simp add: nrf_wifi_sys_hal_rpu_pktram_buf_map_init_def pal_rpu_addr_offset_get_def hal_demo_def)

lemma demo_pools:
  "pools_before 3 (replicate 3 \<lparr>buf_sz = n, num_bufs = k\<rparr>) = 3 * (unat k * unat n)"
  by (simp add: eval_nat_numeral pool_bytes_def)

theorem rx_buffers_disjoint_witness:
  "let t = snd (nrf_wifi_sys_hal_rpu_pktram_buf_map_init 48 1600 hal_demo) in
   rx_position t 1 15 + 1600 \<le> rx_position t 2 0 \<or> rx_position t 2 0 + 1600 \<le> rx_position t 1 15"
  using rx_buffers_disjoint [OF demo_map_init, of "replicate 3 \<lparr>buf_sz = 1600, num_bufs = 16\<rparr>" 1 15 2 0]
  by (simp add: Let_def hal_demo_def demo_pools)

text \<open>C22 The memory reserved for reception is \<open>rx_num_bufs * rx_max_data_size\<close> bytes, but the pools that
  the FMAC configures have the headroom added to each buffer: when they hold that many buffers of
  that data size, the last buffer ends beyond the packet memory, by the headroom of all
  of them.\<close>

theorem rx_buffers_overrun:
  assumes "nrf_wifi_sys_hal_rpu_pktram_buf_map_init nb ds s = (SUCCESS, t)"
    and "rx_buf_pool (cfg_params s) = ps" "length ps = 3"
    and "\<forall>p \<in> set ps. unat (buf_sz p) = unat ds + 4"
    and "unat nb = (\<Sum>p\<leftarrow>ps. unat (num_bufs p))" "unat nb * unat ds \<le> unat RPU_PKTRAM_SIZE"
    and "num_bufs (ps ! 2) \<noteq> 0"
  shows "rx_position t 2 (ucast (num_bufs (ps ! 2)) - 1) + unat (buf_sz (ps ! 2))
    = unat RPU_PKTRAM_SIZE + 4 * unat nb"
proof -
  obtain x y z where xyz: "ps = [x, y, z]" using assms(3) three_pools by blast
  have sum: "pools_before 3 ps = unat nb * unat ds + 4 * unat nb"
    using assms(4,5) by (simp add: xyz pools_before_3 pool_bytes_def algebra_simps)
  have "unat nb \<le> 3 * 65535"
    using assms(5) u16_le [of "num_bufs x"] u16_le [of "num_bufs y"] u16_le [of "num_bufs z"]
    by (simp add: xyz)
  then have fit: "unat nb * unat ds \<le> 0x2C000" "pools_before 3 ps < 2 ^ 31"
    using assms(6) sum by simp_all
  let ?n = "unat (num_bufs (ps ! 2))"
  have n: "0 < ?n" using assms(7) by (simp add: unat_gt_0)
  have b: "unat (ucast (num_bufs (ps ! 2)) - 1 :: u32) = ?n - 1"
  proof -
    have "1 \<le> (ucast (num_bufs (ps ! 2)) :: u32)"
      using n by (simp add: word_le_nat_alt unat_ucast_u16)
    then show ?thesis by (simp add: unat_sub unat_ucast_u16)
  qed
  have pos: "rx_position t 2 (ucast (num_bufs (ps ! 2)) - 1)
      = rx_slot (0x2C000 - unat nb * unat ds) ps 2 (?n - 1)"
    using rx_position_slot [OF assms(1-3) fit, of 2 "ucast (num_bufs (ps ! 2)) - 1"] b n by simp
  have "rx_slot (0x2C000 - unat nb * unat ds) ps 2 (?n - 1) + unat (buf_sz (ps ! 2))
      = 0x2C000 - unat nb * unat ds + pools_before 2 ps + (?n - 1 + 1) * unat (buf_sz (ps ! 2))"
    unfolding rx_slot_def add_mult_distrib by simp
  also have "\<dots> = 0x2C000 - unat nb * unat ds + pools_before 3 ps"
    using n by (simp add: xyz pools_before_3 pool_bytes_def)
  also have "\<dots> = 0x2C000 + 4 * unat nb" using sum fit(1) by simp
  finally show ?thesis using pos by simp
qed

definition hal_fmac_cfg :: hal where
  "hal_fmac_cfg = hal_demo\<lparr>cfg_params := (cfg_params hal_demo)\<lparr>rx_buf_pool :=
     replicate 3 \<lparr>buf_sz = 1604, num_bufs = 16\<rparr>\<rparr>\<rparr>"

theorem rx_buffers_overrun_witness:
  "rx_position (snd (nrf_wifi_sys_hal_rpu_pktram_buf_map_init 48 1600 hal_fmac_cfg)) 2 15 + 1604
    = unat RPU_PKTRAM_SIZE + 192"
proof -
  have i: "nrf_wifi_sys_hal_rpu_pktram_buf_map_init 48 1600 hal_fmac_cfg
      = (SUCCESS, snd (nrf_wifi_sys_hal_rpu_pktram_buf_map_init 48 1600 hal_fmac_cfg))"
    by (simp add: nrf_wifi_sys_hal_rpu_pktram_buf_map_init_def pal_rpu_addr_offset_get_def
        hal_fmac_cfg_def hal_demo_def)
  have p: "replicate 3 \<lparr>buf_sz = 1604, num_bufs = 16\<rparr> =
      [\<lparr>buf_sz = 1604, num_bufs = 16\<rparr>, \<lparr>buf_sz = 1604, num_bufs = 16\<rparr>, \<lparr>buf_sz = 1604, num_bufs = 16\<rparr>]"
    by (simp add: eval_nat_numeral)
  show ?thesis
    using rx_buffers_overrun [OF i, of "replicate 3 \<lparr>buf_sz = 1604, num_bufs = 16\<rparr>"]
    by (simp add: hal_fmac_cfg_def p)
qed

text \<open>Table entries.\<close>

lemma rx_entry_put_same:
  "rx_entry p b s \<noteq> None \<Longrightarrow> length (rx_buf_info s) = 3 \<Longrightarrow> rx_entry p b (rx_entry_put p b e s) = Some e"
  by (auto simp: rx_entry_def rx_entry_put_def word_le_nat_alt split: if_splits option.splits)

lemma rx_entry_frame: "rx_buf_info t = rx_buf_info s \<Longrightarrow> rx_entry p b t = rx_entry p b s"
  by (simp add: rx_entry_def)

lemma tx_entry_put_get:
  "tx_entry d s \<noteq> None \<Longrightarrow> tx_entry d' (tx_entry_put d e s) = (if d' = d then Some e else tx_entry d' s)"
  by (auto simp: tx_entry_def tx_entry_put_def nth_list_update word_unat_eq_iff split: if_splits option.splits)

lemma mem_write_frame: "hal_rpu_mem_write os a bs s = Some (st, t) \<Longrightarrow> ps_frame s t"
  using mem_write_ok [of s os a bs] by (simp add: ps_op_frame)

lemma buf_map_rx_run:
  assumes "rx_entry p b s = Some e" "\<not> mapped e" "len = ucast (buf_sz (rx_buf_pool (cfg_params s) ! unat p))"
    and "nrf_wifi_sys_hal_buf_map_rx os mem buf len p b s = Some (phy, t)" "phy \<noteq> 0"
    and "length (rx_buf_info s) = 3"
  shows "phy = nrf_wifi_bal_dma_map (rx_bounce_addr p b len s + ucast (rx_buf_headroom_sz (cfg_params s))) s \<and>
    rx_entry p b t = Some \<lparr>mapped = True, virt_addr = buf, phy_addr = phy, buf_len = len\<rparr> \<and> same_setup s t"
proof -
  let ?hr = "rx_buf_headroom_sz (cfg_params s)"
  let ?b = "rx_bounce_addr p b len s"
  have "do { (st, u) \<leftarrow> hal_rpu_mem_write os (pkt_rpu_addr ?b s) (host_bytes mem buf (ucast ?hr)) s;
      Some (nrf_wifi_bal_dma_map (?b + ucast ?hr) u, rx_entry_put p b (mark_mapped
        (e\<lparr>virt_addr := buf, buf_len := len, phy_addr := nrf_wifi_bal_dma_map (?b + ucast ?hr) u\<rparr>)) u) }
      = Some (phy, t)"
    using assms(1-4) by (simp add: nrf_wifi_sys_hal_buf_map_rx_def Let_def)
  then obtain st u where w: "hal_rpu_mem_write os (pkt_rpu_addr ?b s) (host_bytes mem buf (ucast ?hr)) s = Some (st, u)"
    and t: "phy = nrf_wifi_bal_dma_map (?b + ucast ?hr) u"
      "t = rx_entry_put p b (mark_mapped (e\<lparr>virt_addr := buf, buf_len := len, phy_addr := phy\<rparr>)) u"
    by (auto elim!: bind2E)
  note f = mem_write_frame [OF w]
  note ff = ps_frame_fields [OF f]
  have "rx_entry p b u = Some e" using assms(1) rx_entry_frame [of u s] ff(13) by simp
  then have "rx_entry p b t = Some (mark_mapped (e\<lparr>virt_addr := buf, buf_len := len, phy_addr := phy\<rparr>))"
    unfolding t(2) by (intro rx_entry_put_same) (simp_all add: ff(13) assms(6))
  moreover have "same_setup s t"
    using ps_frame_setup [OF f] by (simp add: t(2) rx_entry_put_def same_setup_def)
  moreover have "phy = nrf_wifi_bal_dma_map (?b + ucast ?hr) s"
    using t(1) ff(2,3) by (simp add: bal_dma_map)
  ultimately show ?thesis using assms(5) by (cases e) (simp add: mark_mapped_def)
qed

lemma buf_unmap_rx_run:
  assumes "rx_entry p b s = Some e" "mapped e" "nrf_wifi_bal_dma_unmap (phy_addr e) s = v" "v \<noteq> 0"
    and "nrf_wifi_sys_hal_buf_unmap_rx os n p b s = Some (r, data, t)" "length (rx_buf_info s) = 3"
  shows "r = virt_addr e \<and> rx_entry p b t = Some no_buf \<and>
    (if n = 0 then data = None else \<exists>bs. data = Some (virt_addr e + ucast (rx_buf_headroom_sz (cfg_params s)), bs) \<and>
       (bs = [] \<or> length bs = unat n \<and> rpu_reads os (pkt_rpu_addr v s) s bs))"
proof (cases "n = 0")
  case True
  with assms rx_entry_put_same [of p b s no_buf] show ?thesis
    by (auto simp: nrf_wifi_sys_hal_buf_unmap_rx_def)
next
  case False
  with assms(1-5) obtain st bs u where m: "hal_rpu_mem_read os (pkt_rpu_addr v s) (unat n) s = Some (st, bs, u)"
    by (cases "hal_rpu_mem_read os (pkt_rpu_addr v s) (unat n) s")
      (auto simp: nrf_wifi_sys_hal_buf_unmap_rx_def)
  with assms(1-5) False have r: "r = virt_addr e"
      "data = Some (virt_addr e + ucast (rx_buf_headroom_sz (cfg_params u)), bs)"
      "t = rx_entry_put p b no_buf u"
    by (auto simp: nrf_wifi_sys_hal_buf_unmap_rx_def)
  have op: "ps_op s u" "st \<noteq> SUCCESS \<Longrightarrow> bs = []"
    using mem_read_sat [of os "pkt_rpu_addr v s" "unat n" s] m by auto
  note f = ps_frame_fields [OF ps_op_frame [OF op(1)]]
  have "rx_entry p b t = Some no_buf"
    unfolding r(3) using assms(1,6) f(13) rx_entry_frame [of u s]
    by (intro rx_entry_put_same) simp_all
  moreover have "bs = [] \<or> length bs = unat n \<and> rpu_reads os (pkt_rpu_addr v s) s bs"
    using op(2) mem_read_content [of os "pkt_rpu_addr v s" "unat n" s bs u] m by (cases st) auto
  ultimately show ?thesis using r(1,2) f(4) False by auto
qed


definition hal_rx_demo :: hal where
  "hal_rx_demo = hal_awake\<lparr>rx_buf_info := [Some [no_buf], Some [no_buf], Some [no_buf]]\<rparr>"

lemmas rx_demo_simps = hal_rx_demo_def rx_entry_def hal_awake_def hal_demo_def
  rx_bounce_addr_def pkt_rpu_addr_def hal_rpu_mem_write_def hal_rpu_is_mem_writable_def
  hal_rpu_is_mem_ram_def hal_rpu_is_mem_core_indirect_def hal_rpu_is_mem_core_direct_def
  pal_check_rpu_mcu_regions_def mem_write_ram_awake pal_rpu_addr_offset_get_def
  bal_dma_map rx_entry_put_def mark_mapped_def hal_rpu_mem_read_def hal_rpu_is_mem_readable_def
  mem_read_ram_awake bal_dma_unmap

lemma rx_demo_run:
  "\<exists>t. nrf_wifi_sys_hal_buf_map_rx demo_os (\<lambda>_. 7) 0x20000000 1600 2 0 hal_rx_demo = Some (0xAFF60004, t) \<and>
    length (rx_buf_info t) = 3 \<and>
    (\<exists>d u. nrf_wifi_sys_hal_buf_unmap_rx demo_os 100 2 0 t = Some (0x20000000, d, u))"
  by (simp add: nrf_wifi_sys_hal_buf_map_rx_def nrf_wifi_sys_hal_buf_unmap_rx_def rx_demo_simps)


section \<open>The frames of a transmit token\<close>

lemma align4_nat: "unat x + 3 < 2 ^ 32 \<Longrightarrow> unat (align4 x) = (unat x + 3) div 4 * 4"
proof -
  assume b: "unat x + 3 < 2 ^ 32"
  let ?y = "x + 3"
  have y: "unat ?y = unat x + 3" using b by (subst unat_add_small) simp_all
  have "y AND NOT (mask k) = push_bit k (drop_bit k y)" for y :: u32 and k
    by (rule bit_word_eqI) (auto simp: bit_simps)
  then have p: "?y AND NOT (mask 2) = push_bit 2 (drop_bit 2 ?y)" .
  have "?y = push_bit 2 (drop_bit 2 ?y) + take_bit 2 ?y" by (simp only: bits_ident)
  then have a: "align4 x = ?y - take_bit 2 ?y"
    unfolding align4_def using p by (simp add: mask_numeral) (metis add_diff_cancel_right')
  have t: "unat (take_bit 2 ?y) = unat ?y mod 4"
    by (simp add: take_bit_eq_mod unat_mod_distrib)
  then have "take_bit 2 ?y \<le> ?y" by (simp add: word_le_nat_alt)
  then have "unat (align4 x) = unat ?y - unat ?y mod 4" unfolding a using t by (simp add: unat_sub)
  then show ?thesis by (simp add: y minus_mod_eq_div_mult)
qed

lemma align4_bounds: "unat x + 3 < 2 ^ 32 \<Longrightarrow> unat x \<le> unat (align4 x) \<and> unat (align4 x) \<le> unat x + 3"
  by (simp add: align4_nat)

text \<open>Mapping one frame: where it goes and what the running offset becomes.\<close>

lemma buf_map_tx_run:
  assumes "tx_entry d s = Some e" "\<not> mapped e"
    and "len \<le> max_tx_frm_sz (cfg_params s) - ucast (tx_buf_headroom_sz (cfg_params s))"
    and "nrf_wifi_sys_hal_buf_map_tx os mem buf len d token i s = Some (phy, t)"
    and "b = align4 (if i = 0 then addr_rpu_pktram_base_tx s + token * max_ampdu_len_per_token (cfg_params s)
       else tx_frame_offset s)"
  shows "phy = nrf_wifi_bal_dma_map b s \<and> same_setup s t \<and>
    tx_frame_offset t = b + align4 len + ucast (tx_buf_headroom_sz (cfg_params s)) \<and>
    (\<forall>d'. d' \<noteq> d \<longrightarrow> tx_entry d' t = tx_entry d' s) \<and>
    (phy \<noteq> 0 \<longrightarrow> tx_entry d t =
       Some \<lparr>mapped = True, virt_addr = buf, phy_addr = phy, buf_len = align4 len\<rparr>)"
proof -
  let ?hr = "ucast (tx_buf_headroom_sz (cfg_params s)) :: u32"
  let ?s1 = "s\<lparr>tx_frame_offset := b + align4 len + ?hr\<rparr>"
  have nl: "\<not> max_tx_frm_sz (cfg_params s) - ?hr < len" using assms(3) by simp
  have run: "nrf_wifi_sys_hal_buf_map_tx os mem buf len d token i s = do {
      (_, u) \<leftarrow> hal_rpu_mem_write os (pkt_rpu_addr b ?s1) (host_bytes mem buf (align4 len)) ?s1;
      let e = e\<lparr>virt_addr := buf, phy_addr := nrf_wifi_bal_dma_map b u\<rparr>;
      let e = (if phy_addr e = 0 then e else e\<lparr>buf_len := align4 len\<rparr>);
      Some (phy_addr e, tx_entry_put d (mark_mapped e) u) }"
    using assms(1,2,5) nl
    by (cases "i = 0") (simp_all add: nrf_wifi_sys_hal_buf_map_tx_def Let_def add.assoc cong: if_cong)
  with assms(4) obtain st u where w: "hal_rpu_mem_write os (pkt_rpu_addr b ?s1)
      (host_bytes mem buf (align4 len)) ?s1 = Some (st, u)"
    and t: "phy = nrf_wifi_bal_dma_map b u" "t = tx_entry_put d (mark_mapped (if phy = 0
        then e\<lparr>virt_addr := buf, phy_addr := phy\<rparr>
        else e\<lparr>virt_addr := buf, phy_addr := phy, buf_len := align4 len\<rparr>)) u"
    by (auto simp: Let_def elim!: bind2E split: if_splits)
  note f = ps_frame_fields [OF mem_write_frame [OF w]]
  have tx: "tx_entry d' u = tx_entry d' s" for d' using f(14) by (simp add: tx_entry_def)
  have "same_setup s t"
    using ps_frame_setup [OF mem_write_frame [OF w]] by (simp add: t(2) tx_entry_put_def same_setup_def)
  moreover have "phy = nrf_wifi_bal_dma_map b s" using t(1) f(2,3) by (simp add: bal_dma_map)
  moreover have "tx_frame_offset t = b + align4 len + ?hr" using f(18) by (simp add: t(2) tx_entry_put_def)
  moreover have "tx_entry d' t = tx_entry d' s" if "d' \<noteq> d" for d'
    unfolding t(2) using that tx assms(1) by (subst tx_entry_put_get) auto
  moreover have "tx_entry d t = Some \<lparr>mapped = True, virt_addr = buf, phy_addr = phy, buf_len = align4 len\<rparr>"
    if "phy \<noteq> 0"
    unfolding t(2) using that tx assms(1) by (subst tx_entry_put_get) (cases e, auto simp: mark_mapped_def)
  ultimately show ?thesis by blast
qed

text \<open>Mapping the frames of a token one after the other, as the transmit path does, and the
  abstract layout: the positions of frames of the given lengths from a start on.\<close>

type_synonym tx_frame = "u32 \<times> u32 \<times> u32"

fun tx_map_frames ::
    "os \<Rightarrow> (u32 \<Rightarrow> u8) \<Rightarrow> u32 \<Rightarrow> u32 \<Rightarrow> tx_frame list \<Rightarrow> hal \<Rightarrow> (u32 list \<times> hal) option" where
  "tx_map_frames os mem token i [] s = Some ([], s)"
| "tx_map_frames os mem token i ((buf, len, d) # fs) s = do {
     (phy, s) \<leftarrow> nrf_wifi_sys_hal_buf_map_tx os mem buf len d token i s;
     (phys, s) \<leftarrow> tx_map_frames os mem token (i + 1) fs s;
     Some (phy # phys, s)
   }"

definition up4 :: "nat \<Rightarrow> nat" where
  "up4 n = (n + 3) div 4 * 4"

lemma up4_bounds: "n \<le> up4 n \<and> up4 n \<le> n + 3"
  unfolding up4_def by presburger

fun tx_layout :: "nat \<Rightarrow> nat \<Rightarrow> nat list \<Rightarrow> nat list" where
  "tx_layout hr off [] = []"
| "tx_layout hr off (l # ls) = up4 off # tx_layout hr (up4 off + up4 l + hr) ls"

definition tx_room :: "nat \<Rightarrow> nat list \<Rightarrow> nat" where
  "tx_room hr ls = (\<Sum>l\<leftarrow>ls. l + 6 + hr)"

lemma tx_layout_length [simp]: "length (tx_layout hr off ls) = length ls"
  by (induction hr off ls rule: tx_layout.induct) auto

lemma tx_layout_range:
  "i < length ls \<Longrightarrow> off \<le> tx_layout hr off ls ! i \<and>
   tx_layout hr off ls ! i + up4 (ls ! i) + hr \<le> off + tx_room hr ls"
proof (induction hr off ls arbitrary: i rule: tx_layout.induct)
  case (2 hr off l ls)
  have b: "off \<le> up4 off" "up4 off \<le> off + 3" "up4 l \<le> l + 3"
    using up4_bounds [of off] up4_bounds [of l] by simp_all
  show ?case
  proof (cases i)
    case 0
    with b show ?thesis by (simp add: tx_room_def)
  next
    case (Suc j)
    with 2 b show ?thesis by (fastforce simp: tx_room_def)
  qed
qed simp

lemma tx_layout_apart:
  "i < j \<Longrightarrow> j < length ls \<Longrightarrow>
   tx_layout hr off ls ! i + up4 (ls ! i) + hr \<le> tx_layout hr off ls ! j"
proof (induction hr off ls arbitrary: i j rule: tx_layout.induct)
  case (2 hr off l ls)
  then obtain k where k: "j = Suc k" "k < length ls" by (cases j) auto
  show ?case
  proof (cases i)
    case 0
    then show ?thesis
      using k tx_layout_range [of k ls "up4 off + up4 l + hr" hr] by simp
  next
    case (Suc h)
    with 2 k show ?thesis by simp
  qed
qed simp

abbreviation frame_ok :: "hal \<Rightarrow> tx_frame \<Rightarrow> bool" where
  "frame_ok s f \<equiv> (case f of (buf, len, d) \<Rightarrow> (\<exists>e. tx_entry d s = Some e \<and> \<not> mapped e) \<and>
     len \<le> max_tx_frm_sz (cfg_params s) - ucast (tx_buf_headroom_sz (cfg_params s)))"

lemma unat_ucast_u8: "unat (ucast (x :: u8) :: u32) = unat x"
  using unsigned_less [of x, where ?'a = nat]
  by (simp add: unsigned_ucast_eq take_bit_nat_eq_self)

lemma tx_map_frames_layout:
  assumes "tx_map_frames os mem token i fs s = Some (phys, t)"
    and "off = (if i = 0 then addr_rpu_pktram_base_tx s + token * max_ampdu_len_per_token (cfg_params s)
      else tx_frame_offset s)"
    and "hr = unat (tx_buf_headroom_sz (cfg_params s))"
    and "\<forall>f \<in> set fs. frame_ok s f" "distinct (map (snd \<circ> snd) fs)"
    and "unat i + length fs < 2 ^ 32" "unat off + tx_room hr (map (\<lambda>f. unat (fst (snd f))) fs) < 2 ^ 32"
  shows "map (\<lambda>p. unat (nrf_wifi_bal_dma_unmap p s)) phys
    = tx_layout hr (unat off) (map (\<lambda>f. unat (fst (snd f))) fs)"
  using assms
proof (induction fs arbitrary: i s phys off)
  case (Cons f fs)
  obtain buf len d where f: "f = (buf, len, d)" by (cases f)
  obtain phy u where m: "nrf_wifi_sys_hal_buf_map_tx os mem buf len d token i s = Some (phy, u)"
    and u: "(\<lambda>(phy, s). do { (phys, s) \<leftarrow> tx_map_frames os mem token (i + 1) fs s;
       Some (phy # phys, s) }) (phy, u) = Some (phys, t)"
    using Cons.prems(1) unfolding f tx_map_frames.simps by (rule bind2E)
  from u obtain ps where ps: "tx_map_frames os mem token (i + 1) fs u = Some (ps, t)" "phys = phy # ps"
    by (auto elim!: bind2E)
  obtain e where e: "tx_entry d s = Some e" "\<not> mapped e"
      "len \<le> max_tx_frm_sz (cfg_params s) - ucast (tx_buf_headroom_sz (cfg_params s))"
    using Cons.prems(4) f by auto
  let ?hr = "ucast (tx_buf_headroom_sz (cfg_params s)) :: u32"
  let ?b = "align4 off"
  have r: "phy = nrf_wifi_bal_dma_map ?b s" "same_setup s u"
      "tx_frame_offset u = ?b + align4 len + ?hr" "\<forall>d'. d' \<noteq> d \<longrightarrow> tx_entry d' u = tx_entry d' s"
    using buf_map_tx_run [OF e m, of ?b] Cons.prems(2) by simp_all
  have cfg: "cfg_params u = cfg_params s" using r(2) by (simp add: same_setup_def)
  have hrn: "unat ?hr = hr" using Cons.prems(3) by (simp add: unat_ucast_u8)
  have room: "unat off + (unat len + 6 + hr) + tx_room hr (map (\<lambda>f. unat (fst (snd f))) fs) < 2 ^ 32"
    using Cons.prems(7) by (simp add: f tx_room_def)
  have al: "unat ?b = up4 (unat off)" "unat (align4 len) = up4 (unat len)"
    using room by (simp_all add: align4_nat up4_def)
  note ub = up4_bounds [of "unat off"] up4_bounds [of "unat len"]
  have next_off: "unat (?b + align4 len + ?hr) = up4 (unat off) + up4 (unat len) + hr"
  proof -
    have "unat (?b + align4 len) = up4 (unat off) + up4 (unat len)"
      using ub room by (subst unat_add_small) (simp_all add: al)
    then show ?thesis using ub room by (subst unat_add_small) (simp_all add: hrn)
  qed
  have i1: "unat (i + 1) = unat i + 1" using Cons.prems(6) by (subst unat_add_small) simp_all
  then have nz: "i + 1 \<noteq> 0" by (metis add_is_0 one_neq_zero unat_0)
  have ok: "\<forall>f \<in> set fs. frame_ok u f"
  proof
    fix g assume g: "g \<in> set fs"
    obtain buf' len' d' where g': "g = (buf', len', d')" by (cases g)
    have "d' \<in> (snd \<circ> snd) ` set fs" using g g' by force
    then have "d' \<noteq> d" using Cons.prems(5) f by auto
    then show "frame_ok u g" using Cons.prems(4) g g' r(4) cfg by auto
  qed
  have "map (\<lambda>p. unat (nrf_wifi_bal_dma_unmap p u)) ps
      = tx_layout hr (unat (tx_frame_offset u)) (map (\<lambda>f. unat (fst (snd f))) fs)"
  proof (rule Cons.IH [OF ps(1)])
    show "tx_frame_offset u = (if i + 1 = 0 then addr_rpu_pktram_base_tx u + token *
        max_ampdu_len_per_token (cfg_params u) else tx_frame_offset u)" using nz by simp
    show "unat (i + 1) + length fs < 2 ^ 32" using i1 Cons.prems(6) by simp
    show "unat (tx_frame_offset u) + tx_room hr (map (\<lambda>f. unat (fst (snd f))) fs) < 2 ^ 32"
      unfolding r(3) next_off using ub room by simp
  qed (use ok Cons.prems(3,5) cfg f in simp_all)
  moreover have "nrf_wifi_bal_dma_unmap p u = nrf_wifi_bal_dma_unmap p s" for p
    using r(2) by (simp add: bal_dma_unmap same_setup_def)
  ultimately show ?case
    using r(1) ps(2) al f by (simp add: r(3) next_off)
qed simp

text \<open>C7 The frames of a token are laid out one behind the other from the token's part of the packet
  memory on: every frame starts at a 4-byte boundary, the place a frame needs (its length rounded up,
  and the headroom) ends before the next frame starts, and all of them fit into the
  room \<open>tx_room\<close>.\<close>

theorem tx_frames_disjoint:
  assumes "tx_map_frames os mem token 0 fs s = Some (phys, t)"
    and "off = addr_rpu_pktram_base_tx s + token * max_ampdu_len_per_token (cfg_params s)"
    and "hr = unat (tx_buf_headroom_sz (cfg_params s))" "ls = map (\<lambda>f. unat (fst (snd f))) fs"
    and "\<forall>f \<in> set fs. frame_ok s f" "distinct (map (snd \<circ> snd) fs)"
    and "length fs < 2 ^ 32" "unat off + tx_room hr ls < 2 ^ 32"
    and "pos = map (\<lambda>p. unat (nrf_wifi_bal_dma_unmap p s)) phys"
  shows "length pos = length fs \<and>
    (\<forall>i < length fs. pos ! i mod 4 = 0 \<and> unat off \<le> pos ! i \<and>
       pos ! i + up4 (ls ! i) + hr \<le> unat off + tx_room hr ls) \<and>
    (\<forall>i j. i < j \<and> j < length fs \<longrightarrow> pos ! i + up4 (ls ! i) + hr \<le> pos ! j)"
proof -
  have pos: "pos = tx_layout hr (unat off) ls"
    unfolding assms(9,4)
    using tx_map_frames_layout [OF assms(1) _ assms(3,5,6)] assms(2,4,7,8) by simp
  have "\<forall>i < length ls. tx_layout hr n ls ! i mod 4 = 0" for n
    by (induction hr n ls rule: tx_layout.induct) (auto simp: up4_def nth_Cons split: nat.splits)
  then show ?thesis
    unfolding pos using tx_layout_range [of _ ls "unat off" hr] tx_layout_apart [of _ _ ls hr "unat off"]
    by (simp add: assms(4))
qed

definition hal_tx_demo :: hal where
  "hal_tx_demo = hal_awake\<lparr>tx_buf_info := Some [no_buf, no_buf]\<rparr>"

definition tx_demo_frames :: "tx_frame list" where
  "tx_demo_frames = [(0x20000000, 101, 0), (0x20001000, 60, 1)]"

lemma tx_demo_run: "\<exists>t. tx_map_frames demo_os (\<lambda>_. 7) 0 0 tx_demo_frames hal_tx_demo = Some ([0xAFF45000, 0xAFF4509C], t)"
  by (simp add: tx_demo_frames_def nrf_wifi_sys_hal_buf_map_tx_def tx_entry_def tx_entry_put_def
      hal_tx_demo_def align4_def rx_demo_simps Let_def)

theorem tx_frames_disjoint_witness:
  "\<exists>t. tx_map_frames demo_os (\<lambda>_. 7) 0 0 tx_demo_frames hal_tx_demo = Some ([0xAFF45000, 0xAFF4509C], t) \<and>
    unat (nrf_wifi_bal_dma_unmap 0xAFF45000 hal_tx_demo) + up4 101 + 52
      \<le> unat (nrf_wifi_bal_dma_unmap 0xAFF4509C hal_tx_demo)"
proof -
  obtain t where t: "tx_map_frames demo_os (\<lambda>_. 7) 0 0 tx_demo_frames hal_tx_demo = Some ([0xAFF45000, 0xAFF4509C], t)"
    using tx_demo_run by blast
  have c: "addr_rpu_pktram_base_tx hal_tx_demo + 0 * max_ampdu_len_per_token (cfg_params hal_tx_demo) = 0xB0005000"
      "unat (tx_buf_headroom_sz (cfg_params hal_tx_demo)) = 52"
    by (simp_all add: hal_tx_demo_def hal_awake_def hal_demo_def)
  have ok: "\<forall>f \<in> set tx_demo_frames. frame_ok hal_tx_demo f" "distinct (map (snd \<circ> snd) tx_demo_frames)"
    by (simp_all add: tx_demo_frames_def hal_tx_demo_def hal_awake_def hal_demo_def tx_entry_def)
  have n: "length tx_demo_frames < 2 ^ 32" by (simp add: tx_demo_frames_def)
  have b: "unat (addr_rpu_pktram_base_tx hal_tx_demo + 0 * max_ampdu_len_per_token (cfg_params hal_tx_demo)) +
      tx_room (unat (tx_buf_headroom_sz (cfg_params hal_tx_demo))) (map (\<lambda>f. unat (fst (snd f))) tx_demo_frames) < 2 ^ 32"
    unfolding c by (simp add: tx_demo_frames_def tx_room_def)
  have l: "0 < (1::nat) \<and> 1 < length tx_demo_frames" by (simp add: tx_demo_frames_def)
  note gap = conjunct2 [OF conjunct2 [OF tx_frames_disjoint [OF t refl refl refl ok n b refl]],
      rule_format, OF l, unfolded c(2)]
  from gap have "unat (nrf_wifi_bal_dma_unmap 0xAFF45000 hal_tx_demo) + up4 101 + 52
      \<le> unat (nrf_wifi_bal_dma_unmap 0xAFF4509C hal_tx_demo)"
    by (simp add: tx_demo_frames_def)
  with t show ?thesis by blast
qed

section \<open>Data commands on the bus\<close>

lemma indirect_addr: "((a AND RPU_ADDR_MASK_OFFSET) OR RPU_MCU_CORE_INDIRECT_BASE) AND RPU_ADDR_MASK_OFFSET
    = a AND (RPU_ADDR_MASK_OFFSET :: u32)"
  "((a AND RPU_ADDR_MASK_OFFSET) OR RPU_MCU_CORE_INDIRECT_BASE) AND 0xFF000000 = (RPU_MCU_CORE_INDIRECT_BASE :: u32)"
  by (simp_all add: word_bw_lcs word_ao_dist word_bw_assocs)

lemma msg_post_accs:
  assumes "hal_rpu_msg_post os NRF_WIFI_HAL_MSG_TYPE_CMD_DATA_RX pool_id addr s = Some (SUCCESS, t)"
  shows "\<exists>bq. pal_rpu_addr_offset_get (enqueue_addr (rx_buf_busy_queue (hpqm_info s) ! unat pool_id)) (curr_proc s)
      = Some bq \<and> accs (w_trace t) = IoWrite32 (bus_host_addr_base s + bq) addr # accs (w_trace s)"
proof -
  let ?q = "enqueue_addr (rx_buf_busy_queue (hpqm_info s) ! unat pool_id)"
  from assms obtain st u where w: "hal_rpu_reg_write os ?q addr s = Some (st, u)"
      "(if st \<noteq> SUCCESS then Some (st, u) else Some (st, u)) = Some (SUCCESS, t)"
    by (auto simp: hal_rpu_msg_post_def hal_rpu_hpq_enqueue_def Let_def elim!: bind2E split: if_splits)
  then have "st = SUCCESS" "u = t" by (cases st; simp)+
  with reg_write_sat [of os ?q addr s] w(1) show ?thesis by auto
qed

text \<open>Handing a receive buffer to the RPU, when it succeeds, is this conversation: the command is
  written to the descriptor's place in the memory of the core through the indirect registers, word by
  word, and last of all the place is put on the busy queue of the pool; no interrupt is raised.\<close>

theorem data_cmd_rx_conversation:
  assumes "nrf_wifi_sys_hal_data_cmd_send os NRF_WIFI_HAL_MSG_TYPE_CMD_DATA_RX cmd desc_id pool_id s
      = Some (SUCCESS, t)"
    and "curr_proc s = RPU_PROC_TYPE_MCU_LMAC" "addr = rx_cmd_base s + 8 * desc_id"
  shows "\<exists>bq. pal_rpu_addr_offset_get (enqueue_addr (rx_buf_busy_queue (hpqm_info s) ! unat pool_id)) (curr_proc s)
      = Some bq \<and>
    rev (accs (w_trace t)) = rev (accs (w_trace s)) @
      IoWrite32 (bus_host_addr_base s + 0x30) ((addr AND RPU_ADDR_MASK_OFFSET) div 4) #
      map (IoWrite32 (bus_host_addr_base s + 0x34)) (words_of cmd) @
      [IoWrite32 (bus_host_addr_base s + bq) addr]"
proof -
  let ?s = "emit (IoLock LOCK_HAL) s"
  let ?h = "(addr AND RPU_ADDR_MASK_OFFSET) OR RPU_MCU_CORE_INDIRECT_BASE"
  from assms obtain st u st2 v where w: "hal_rpu_mem_write os ?h cmd ?s = Some (st, u)"
    and p: "(if st \<noteq> SUCCESS then Some (st, u) else
        hal_rpu_msg_post os NRF_WIFI_HAL_MSG_TYPE_CMD_DATA_RX pool_id addr u) = Some (st2, v)"
    and t: "st2 = SUCCESS" "t = emit (IoUnlock LOCK_HAL) v"
    by (auto simp: nrf_wifi_sys_hal_data_cmd_send_def data_cmd_addr_def Let_def elim!: bind2E
        cong: if_cong)
  from p t have st: "st = SUCCESS" by (cases st) auto
  have core: "rpu_mem_write_core os ?h cmd ?s = Some (SUCCESS, u)"
    using w st indirect_addr(2) [of addr]
    by (simp add: hal_rpu_mem_write_def hal_rpu_is_mem_core_indirect_def split: if_splits)
  have a: "rev (accs (w_trace u)) = rev (accs (w_trace s)) @
      IoWrite32 (bus_host_addr_base s + 0x30) ((addr AND RPU_ADDR_MASK_OFFSET) div 4) #
      map (IoWrite32 (bus_host_addr_base s + 0x34)) (words_of cmd)"
    using mem_write_core_accs [OF core] assms(2) indirect_addr(1) [of addr] by simp
  have "ps_op ?s u" using mem_write_core_ok [of ?s os ?h cmd] core by simp
  note f = ps_frame_fields [OF ps_op_frame [OF this]]
  from p st t(1) have "hal_rpu_msg_post os NRF_WIFI_HAL_MSG_TYPE_CMD_DATA_RX pool_id addr u = Some (SUCCESS, v)"
    by simp
  from msg_post_accs [OF this] show ?thesis
    using a f t(2) by auto
qed

lemma data_cmd_run:
  "\<exists>t. nrf_wifi_sys_hal_data_cmd_send demo_os NRF_WIFI_HAL_MSG_TYPE_CMD_DATA_RX (le32_bytes 5 @ le32_bytes 6) 2 0
    hal_rx_demo = Some (SUCCESS, t)"
  by (simp add: nrf_wifi_sys_hal_data_cmd_send_def data_cmd_addr_def hal_rpu_mem_write_def
      hal_rpu_is_mem_writable_def hal_rpu_is_mem_core_indirect_def rpu_mem_write_core_def hal_rx_demo_def
      hal_awake_def hal_demo_def reg_write_awake hal_rpu_is_reg_def pal_sbus hal_rpu_msg_post_def
      hal_rpu_hpq_enqueue_def)

theorem data_cmd_rx_conversation_witness:
  "\<exists>t. nrf_wifi_sys_hal_data_cmd_send demo_os NRF_WIFI_HAL_MSG_TYPE_CMD_DATA_RX (le32_bytes 5 @ le32_bytes 6) 2 0
    hal_rx_demo = Some (SUCCESS, t) \<and>
    last (rev (accs (w_trace t))) = IoWrite32 0x40001020 0xB7001010"
proof -
  obtain t where t: "nrf_wifi_sys_hal_data_cmd_send demo_os NRF_WIFI_HAL_MSG_TYPE_CMD_DATA_RX
      (le32_bytes 5 @ le32_bytes 6) 2 0 hal_rx_demo = Some (SUCCESS, t)" using data_cmd_run by blast
  have c: "curr_proc hal_rx_demo = RPU_PROC_TYPE_MCU_LMAC"
    "0xB7001010 = rx_cmd_base hal_rx_demo + 8 * 2"
    by (simp_all add: hal_rx_demo_def hal_awake_def hal_demo_def)
  from data_cmd_rx_conversation [OF t c] obtain bq where
    bq: "pal_rpu_addr_offset_get (enqueue_addr (rx_buf_busy_queue (hpqm_info hal_rx_demo) ! unat (0::u32)))
        (curr_proc hal_rx_demo) = Some bq"
      "last (rev (accs (w_trace t))) = IoWrite32 (bus_host_addr_base hal_rx_demo + bq) 0xB7001010"
    by auto
  from bq(1) have "bq = 0x1020" by (simp add: hal_rx_demo_def hal_awake_def hal_demo_def pal_sbus)
  with bq(2) t show ?thesis by (simp add: hal_rx_demo_def hal_awake_def hal_demo_def)
qed

end
