(* ===== verification/Hal_Init.thy ===== *)
theory Hal_Init
  imports Hal_Buf
begin

text \<open>Bringing the HAL up and down: the rest of \<open>hw_if/hal/src/common/hal_api_common.c\<close> (reset and
  boot of the processors, device initialisation and removal, OTP information) and
  \<open>nrf_wifi_sys_hal_dev_add\<close> of \<open>hw_if/hal/src/system/hal_api.c\<close>. A routine that returns a context
  or NULL returns whether it succeeded.\<close>

abbreviation RPU_REG_MIPS_MCU_CONTROL :: u32 where "RPU_REG_MIPS_MCU_CONTROL \<equiv> 0xA4000000"
abbreviation RPU_REG_MIPS_MCU2_CONTROL :: u32 where "RPU_REG_MIPS_MCU2_CONTROL \<equiv> 0xA4000100"
abbreviation RPU_MEM_HPQ_INFO :: u32 where "RPU_MEM_HPQ_INFO \<equiv> 0xB0000024"
abbreviation RPU_MEM_RX_CMD_BASE :: u32 where "RPU_MEM_RX_CMD_BASE \<equiv> 0xB7000D58"
abbreviation RPU_MEM_TX_CMD_BASE :: u32 where "RPU_MEM_TX_CMD_BASE \<equiv> 0xB00000B8"
abbreviation RPU_MEM_LMAC_BOOT_SIG :: u32 where "RPU_MEM_LMAC_BOOT_SIG \<equiv> 0xB7000D50"
abbreviation RPU_MEM_UMAC_BOOT_SIG :: u32 where "RPU_MEM_UMAC_BOOT_SIG \<equiv> 0xB0000000"
abbreviation NRF_WIFI_BOOT_SIG :: u32 where "NRF_WIFI_BOOT_SIG \<equiv> 0x5A5A5A5A"
abbreviation RPU_MEM_OTP_INFO_FLAGS :: u32 where "RPU_MEM_OTP_INFO_FLAGS \<equiv> 0xB0004FDC"
abbreviation RPU_MEM_OTP_FT_PROG_VERSION :: u32 where "RPU_MEM_OTP_FT_PROG_VERSION \<equiv> 0xB0004FD8"
abbreviation RPU_MEM_OTP_PACKAGE_TYPE :: u32 where "RPU_MEM_OTP_PACKAGE_TYPE \<equiv> 0xB0004FD4"
abbreviation RPU_CMD_START_MAGIC :: u32 where "RPU_CMD_START_MAGIC \<equiv> 0xDEAD"

section \<open>Reset and boot of a processor\<close>

text \<open>\<open>count\<close> is the unsigned counter of the source, tested and then decremented after every
  unsuccessful read: after the read with count 0 it wraps around and is not 0 any more. The
  result tells whether it is 0 at the end.\<close>

fun poll_loop :: "os \<Rightarrow> u32 \<Rightarrow> u32 \<Rightarrow> u32 \<Rightarrow> u32 \<Rightarrow> nat \<Rightarrow> u32 \<Rightarrow> hal \<Rightarrow>
    (nrf_status \<times> bool \<times> hal) option" where
  "poll_loop os reg_addr bits req_value poll_delay count val s = do {
     (st, v, s) \<leftarrow> hal_rpu_reg_read os reg_addr s;
     let val = the_default val v;
     if val AND bits = req_value then Some (SUCCESS, count = 0, s)
     else let s = emit (IoSleepMs poll_delay) s in
       case count of
         0 \<Rightarrow> Some (st, False, s)
       | Suc n \<Rightarrow> poll_loop os reg_addr bits req_value poll_delay n val s
   }"

declare poll_loop.simps [simp del]

definition nrf_wifi_hal_poll_reg ::
    "os \<Rightarrow> u32 \<Rightarrow> u32 \<Rightarrow> u32 \<Rightarrow> u32 \<Rightarrow> hal \<Rightarrow> (nrf_status \<times> hal) option" where
  "nrf_wifi_hal_poll_reg os reg_addr bits req_value poll_delay s = do {
     (st, zero, s) \<leftarrow> poll_loop os reg_addr bits req_value poll_delay 50 0 s;
     Some (if zero then FAIL else st, s)
   }"

definition nrf_wifi_hal_proc_reset :: "os \<Rightarrow> rpu_proc \<Rightarrow> hal \<Rightarrow> (nrf_status \<times> hal) option" where
  "nrf_wifi_hal_proc_reset os rpu_proc s = do {
     (st, s) \<leftarrow>
       (if rpu_proc \<noteq> RPU_PROC_TYPE_MCU_LMAC \<and> rpu_proc \<noteq> RPU_PROC_TYPE_MCU_UMAC then Some (FAIL, s)
        else let s = s\<lparr>curr_proc := rpu_proc\<rparr>;
                 control = (if rpu_proc = RPU_PROC_TYPE_MCU_LMAC then RPU_REG_MIPS_MCU_CONTROL
                            else RPU_REG_MIPS_MCU2_CONTROL);
                 wait_reg = (if rpu_proc = RPU_PROC_TYPE_MCU_LMAC then 0xA4000018 else 0xA4000118)
         in do {
           (st, s) \<leftarrow> hal_rpu_reg_write os control 1 s;
           if st \<noteq> SUCCESS then Some (st, s)
           else do {
             (st, s) \<leftarrow> nrf_wifi_hal_poll_reg os control 1 0 10 s;
             if st \<noteq> SUCCESS then Some (st, s)
             else nrf_wifi_hal_poll_reg os wait_reg 1 1 10 s
           }
         });
     Some (st, s\<lparr>curr_proc := RPU_PROC_TYPE_MCU_LMAC\<rparr>)
   }"

text \<open>\<open>n\<close> is the counter of the source before its decrement; the result tells whether the value was
  seen while the decremented counter was still positive.\<close>

fun boot_loop :: "os \<Rightarrow> u32 \<Rightarrow> u32 \<Rightarrow> nat \<Rightarrow> u32 \<Rightarrow> hal \<Rightarrow> (bool \<times> hal) option" where
  "boot_loop os addr exp_val 0 val s = Some (False, s)"
| "boot_loop os addr exp_val (Suc n) val s = do {
     (st, bs, s) \<leftarrow> hal_rpu_mem_read os addr 4 s;
     let val = (if bs = [] then val else le32_get bs);
     if val = exp_val then Some (0 < n, s)
     else boot_loop os addr exp_val n val (emit (IoSleepMs 10) s)
   }"

definition nrf_wifi_hal_fw_chk_boot :: "os \<Rightarrow> rpu_proc \<Rightarrow> hal \<Rightarrow> (nrf_status \<times> hal) option" where
  "nrf_wifi_hal_fw_chk_boot os rpu_proc s =
    (let (addr, exp_val) = (case rpu_proc of
         RPU_PROC_TYPE_MCU_LMAC \<Rightarrow> (RPU_MEM_LMAC_BOOT_SIG, NRF_WIFI_BOOT_SIG)
       | RPU_PROC_TYPE_MCU_UMAC \<Rightarrow> (RPU_MEM_UMAC_BOOT_SIG, NRF_WIFI_BOOT_SIG)
       | RPU_PROC_TYPE_MAX \<Rightarrow> (0, 0))
     in do {
       (ok, s) \<leftarrow> boot_loop os addr exp_val 100 0 (s\<lparr>curr_proc := rpu_proc\<rparr>);
       Some (if ok then SUCCESS else FAIL, s\<lparr>curr_proc := RPU_PROC_TYPE_MCU_LMAC\<rparr>)
     })"

section \<open>Device initialisation\<close>

definition hpq_at :: "u8 list \<Rightarrow> nat \<Rightarrow> host_rpu_hpq" where
  "hpq_at bs k = \<lparr>enqueue_addr = le32_get (drop (8 * k) bs), dequeue_addr = le32_get (drop (8 * k + 4) bs)\<rparr>"

definition hpqm_of :: "u8 list \<Rightarrow> host_rpu_hpqm_info" where
  "hpqm_of bs = \<lparr>event_busy_queue = hpq_at bs 0, event_avl_queue = hpq_at bs 1,
     cmd_busy_queue = hpq_at bs 2, cmd_avl_queue = hpq_at bs 3,
     rx_buf_busy_queue = map (hpq_at bs) [4, 5, 6]\<rparr>"

definition nrf_wifi_hal_dev_init :: "os \<Rightarrow> hal \<Rightarrow> (nrf_status \<times> hal) option" where
  "nrf_wifi_hal_dev_init os s =
    (let s = s\<lparr>rpu_fw_booted := True\<rparr>;
         (st, s) = nrf_wifi_bal_dev_init os s
     in if st \<noteq> SUCCESS then Some (st, s)
        else do {
          (st, bs, s) \<leftarrow> hal_rpu_mem_read os RPU_MEM_HPQ_INFO 56 s;
          if st \<noteq> SUCCESS then Some (st, s)
          else let s = s\<lparr>hpqm_info := hpqm_of bs\<rparr> in do {
            (st, bs, s) \<leftarrow> hal_rpu_mem_read os RPU_MEM_RX_CMD_BASE 4 s;
            if st \<noteq> SUCCESS then Some (st, s)
            else Some (st, nrf_wifi_hal_enable
              (s\<lparr>rx_cmd_base := le32_get bs, tx_cmd_base := RPU_MEM_TX_CMD_BASE\<rparr>))
          }
        })"

definition nrf_wifi_hal_dev_deinit :: "hal \<Rightarrow> hal option" where
  "nrf_wifi_hal_dev_deinit s = hal_rpu_eventq_drain (nrf_wifi_bal_dev_deinit (nrf_wifi_hal_disable s))"

text \<open>The arguments are pointers to the results, given back here: the bytes of
  \<open>struct host_rpu_umac_info\<close> and the flags, as far as they were read.\<close>

definition nrf_wifi_hal_otp_info_get ::
    "os \<Rightarrow> hal \<Rightarrow> (nrf_status \<times> u8 list \<times> u32 option \<times> hal) option" where
  "nrf_wifi_hal_otp_info_get os s = do {
     (st, info, s) \<leftarrow> hal_rpu_mem_read os RPU_MEM_UMAC_BOOT_SIG 184 s;
     if st \<noteq> SUCCESS then Some (st, info, None, s)
     else do {
       (st, bs, s) \<leftarrow> hal_rpu_mem_read os RPU_MEM_OTP_INFO_FLAGS 4 s;
       Some (st, info, if bs = [] then None else Some (le32_get bs), s)
     }
   }"

definition nrf_wifi_hal_otp_ft_prog_ver_get ::
    "os \<Rightarrow> hal \<Rightarrow> (nrf_status \<times> u32 option \<times> hal) option" where
  "nrf_wifi_hal_otp_ft_prog_ver_get os s = do {
     (st, bs, s) \<leftarrow> hal_rpu_mem_read os RPU_MEM_OTP_FT_PROG_VERSION 4 s;
     Some (st, if bs = [] then None else Some (le32_get bs), s)
   }"

definition nrf_wifi_hal_otp_pack_info_get ::
    "os \<Rightarrow> hal \<Rightarrow> (nrf_status \<times> u32 option \<times> hal) option" where
  "nrf_wifi_hal_otp_pack_info_get os s = do {
     (st, bs, s) \<leftarrow> hal_rpu_mem_read os RPU_MEM_OTP_PACKAGE_TYPE 4 s;
     Some (st, if bs = [] then None else Some (le32_get bs), s)
   }"

section \<open>The HAL and its device\<close>

definition nrf_wifi_hal_init :: "os \<Rightarrow> hal_cfg_params \<Rightarrow> hal \<Rightarrow> bool \<times> hal" where
  "nrf_wifi_hal_init os cfg s =
    (let (ok, s) = osal_alloc os OBJ_HAL_PRIV s in
     if \<not> ok then (False, s)
     else let s = s\<lparr>cfg_params := cfg, num_devs := 0\<rparr> in
       case pal_rpu_addr_offset_get RPU_ADDR_PKTRAM_START RPU_PROC_TYPE_MAX of
         None \<Rightarrow> (True, s)
       | Some base \<Rightarrow>
           let (ok, s) = nrf_wifi_bal_init os base (s\<lparr>addr_pktram_base := base\<rparr>) in
           if \<not> ok then (False, emit (IoFree OBJ_HAL_PRIV) s) else (True, s))"

definition nrf_wifi_hal_deinit :: "hal \<Rightarrow> hal" where
  "nrf_wifi_hal_deinit s = emit (IoFree OBJ_HAL_PRIV) (nrf_wifi_bal_deinit s)"

text \<open>The device context starts as zeroes. The number of receive buffers and the
  size of the largest frame are build settings. When the lock of the HAL cannot be allocated the source
  clears its pointer and then follows it: undefined behaviour.\<close>

definition hal_dev_zero :: "hal \<Rightarrow> hal" where
  "hal_dev_zero s = s\<lparr>idx := 0, rx_cmd_base := 0, tx_cmd_base := 0, num_cmds := 0, cmd_q := [], event_q := [],
     hpqm_info := \<lparr>event_busy_queue = \<lparr>enqueue_addr = 0, dequeue_addr = 0\<rparr>,
       event_avl_queue = \<lparr>enqueue_addr = 0, dequeue_addr = 0\<rparr>,
       cmd_busy_queue = \<lparr>enqueue_addr = 0, dequeue_addr = 0\<rparr>,
       cmd_avl_queue = \<lparr>enqueue_addr = 0, dequeue_addr = 0\<rparr>,
       rx_buf_busy_queue = replicate 3 \<lparr>enqueue_addr = 0, dequeue_addr = 0\<rparr>\<rparr>,
     curr_proc := RPU_PROC_TYPE_MCU_LMAC, rx_buf_info := replicate 3 None, tx_buf_info := None,
     addr_rpu_pktram_base := 0, addr_rpu_pktram_base_tx := 0,
     addr_rpu_pktram_base_rx_pool := replicate 3 0, tx_frame_offset := 0,
     is_wakeup_now_asserted := False, last_wakeup_now_asserted_time_ms := 0,
     last_wakeup_now_deasserted_time_ms := 0, last_rpu_sleep_opp_time_ms := 0,
     wdt_irq_received := 0, wdt_irq_ignored := 0, rpu_ps_state := RPU_PS_STATE_ASLEEP,
     dbg_enable := False, rpu_fw_booted := False, event_data := None, event_data_curr := 0,
     event_data_len := 0, event_data_pending := 0, event_resubmit := 0,
     hal_status := NRF_WIFI_HAL_STATUS_ENABLED\<rparr>"

text \<open>Freeing what the error labels free, in their order, from each label on.\<close>

definition dev_free :: "hal \<Rightarrow> hal" where
  "dev_free s = emit (IoFree OBJ_HAL_DEV) s"

definition cmd_q_free :: "hal \<Rightarrow> hal" where
  "cmd_q_free s = dev_free (emit (IoFree OBJ_CMD_Q) s)"

definition event_q_free :: "hal \<Rightarrow> hal" where
  "event_q_free s = cmd_q_free (emit (IoFree OBJ_EVENT_Q) s)"

definition lock_hal_free :: "hal \<Rightarrow> hal" where
  "lock_hal_free s = event_q_free (emit (IoFree (OBJ_LOCK LOCK_HAL)) s)"

definition lock_rx_free :: "hal \<Rightarrow> hal" where
  "lock_rx_free s = lock_hal_free (emit (IoFree (OBJ_LOCK LOCK_RX)) s)"

definition event_tasklet_free :: "hal \<Rightarrow> hal" where
  "event_tasklet_free s = lock_rx_free (emit (IoFree (OBJ_TASKLET TASKLET_EVENT)) s)"

definition recovery_tasklet_free :: "hal \<Rightarrow> hal" where
  "recovery_tasklet_free s = event_tasklet_free (emit (IoFree (OBJ_TASKLET TASKLET_RECOVERY)) s)"

definition lock_recovery_free :: "hal \<Rightarrow> hal" where
  "lock_recovery_free s = recovery_tasklet_free (emit (IoFree (OBJ_LOCK LOCK_RECOVERY)) s)"

definition bal_dev_free :: "hal \<Rightarrow> hal" where
  "bal_dev_free s = lock_recovery_free (nrf_wifi_bal_dev_rem s)"

definition rx_buf_free :: "hal \<Rightarrow> hal" where
  "rx_buf_free s = bal_dev_free (fold (\<lambda>i s. emit (IoFree (OBJ_RX_BUF_INFO i)) s) [0, 1, 2]
     (s\<lparr>rx_buf_info := replicate 3 None\<rparr>))"

definition tx_buf_free :: "hal \<Rightarrow> hal" where
  "tx_buf_free s = rx_buf_free (emit (IoFree OBJ_TX_BUF_INFO) (s\<lparr>tx_buf_info := None\<rparr>))"

text \<open>The tables of the receive buffers, \<open>i\<close> on: false when one cannot be allocated.\<close>

fun rx_tables_alloc :: "os \<Rightarrow> nat list \<Rightarrow> hal \<Rightarrow> bool \<times> hal" where
  "rx_tables_alloc os [] s = (True, s)"
| "rx_tables_alloc os (i # is) s =
    (let (ok, s) = osal_alloc os (OBJ_RX_BUF_INFO i) s in
     if \<not> ok then (False, s)
     else rx_tables_alloc os is (s\<lparr>rx_buf_info := (rx_buf_info s)[i :=
       Some (replicate (unat (num_bufs (rx_buf_pool (cfg_params s) ! i))) no_buf)]\<rparr>))"

text \<open>From the register access on: interrupts, tables, layout.\<close>

definition dev_add_buffers :: "os \<Rightarrow> u32 \<Rightarrow> u32 \<Rightarrow> hal \<Rightarrow> (bool \<times> hal) option" where
  "dev_add_buffers os rx_num_bufs rx_max_data_size s = do {
     (st, s) \<leftarrow> hal_rpu_irq_enable os s;
     if st \<noteq> SUCCESS then Some (False, bal_dev_free s)
     else let (ok, s) = rx_tables_alloc os [0, 1, 2] s in
       if \<not> ok then Some (False, bal_dev_free s)
       else let (ok, s) = osal_alloc os OBJ_TX_BUF_INFO s in
         if \<not> ok then Some (False, rx_buf_free s)
         else let s = s\<lparr>tx_buf_info := Some (replicate (unat (max_tx_frms (cfg_params s))) no_buf)\<rparr>;
                  (st, s) = nrf_wifi_sys_hal_rpu_pktram_buf_map_init rx_num_bufs rx_max_data_size s in
           if st \<noteq> SUCCESS then Some (False, tx_buf_free s) else Some (True, s)
   }"

definition nrf_wifi_sys_hal_dev_add :: "os \<Rightarrow> u32 \<Rightarrow> u32 \<Rightarrow> hal \<Rightarrow> (bool \<times> hal) option" where
  "nrf_wifi_sys_hal_dev_add os rx_num_bufs rx_max_data_size s =
    (let (ok, s) = osal_alloc os OBJ_HAL_DEV s in
     if \<not> ok then Some (False, s)
     else let s = (hal_dev_zero s)\<lparr>idx := num_devs s, num_devs := num_devs s + 1,
                 num_cmds := RPU_CMD_START_MAGIC\<rparr>;
              (ok, s) = osal_alloc os OBJ_CMD_Q s in
     if \<not> ok then Some (False, dev_free s)
     else let (ok, s) = osal_alloc os OBJ_EVENT_Q s in
     if \<not> ok then Some (False, cmd_q_free s)
     else let (ok, s) = osal_alloc os (OBJ_LOCK LOCK_HAL) s in
     if \<not> ok then None
     else let (ok, s) = osal_alloc os (OBJ_LOCK LOCK_RX) s in
     if \<not> ok then Some (False, lock_hal_free s)
     else let (ok, s) = osal_alloc os (OBJ_TASKLET TASKLET_EVENT) s in
     if \<not> ok then Some (False, lock_rx_free s)
     else let (ok, s) = osal_alloc os (OBJ_TASKLET TASKLET_RECOVERY) s in
     if \<not> ok then Some (False, event_tasklet_free s)
     else let (ok, s) = osal_alloc os (OBJ_LOCK LOCK_RECOVERY) s in
     if \<not> ok then Some (False, recovery_tasklet_free s)
     else let (st, s) = hal_rpu_ps_init os s in
     if st \<noteq> SUCCESS then Some (False, lock_recovery_free s)
     else let (ok, s) = nrf_wifi_bal_dev_add os s in
     if \<not> ok then Some (False, lock_recovery_free s)
     else dev_add_buffers os rx_num_bufs rx_max_data_size s)"

definition nrf_wifi_hal_dev_rem :: "hal \<Rightarrow> hal option" where
  "nrf_wifi_hal_dev_rem s = do {
     let s = emit (IoTaskletKill TASKLET_RECOVERY) s;
     let s = emit (IoFree (OBJ_TASKLET TASKLET_RECOVERY)) s;
     let s = emit (IoFree (OBJ_LOCK LOCK_RECOVERY)) s;
     let s = emit (IoTaskletKill TASKLET_EVENT) s;
     let s = emit (IoFree (OBJ_TASKLET TASKLET_EVENT)) s;
     s \<leftarrow> hal_rpu_eventq_drain s;
     let s = emit (IoFree (OBJ_LOCK LOCK_HAL)) s;
     let s = emit (IoFree (OBJ_LOCK LOCK_RX)) s;
     let s = emit (IoFree OBJ_EVENT_Q) s;
     let s = emit (IoFree OBJ_CMD_Q) s;
     let s = hal_rpu_ps_deinit s;
     let s = nrf_wifi_bal_dev_rem s;
     let s = emit (IoFree OBJ_TX_BUF_INFO) (s\<lparr>tx_buf_info := None\<rparr>);
     let s = fold (\<lambda>i s. emit (IoFree (OBJ_RX_BUF_INFO i)) s) [0, 1, 2] (s\<lparr>rx_buf_info := replicate 3 None\<rparr>);
     Some (emit (IoFree OBJ_HAL_DEV) (s\<lparr>num_devs := num_devs s - 1\<rparr>))
   }"

section \<open>Accesses before the firmware runs\<close>

lemma wake_unbooted: "\<not> rpu_fw_booted s \<Longrightarrow> hal_rpu_ps_wake os s = Some (SUCCESS, s)"
  by (simp add: hal_rpu_ps_wake_def)

lemma reg_read_unbooted:
  "hal_rpu_is_reg a \<Longrightarrow> pal_rpu_addr_offset_get a (curr_proc s) = Some off \<Longrightarrow> \<not> rpu_fw_booted s \<Longrightarrow>
   v = os_read32 os (IoLock LOCK_PS # w_trace s) (bus_host_addr_base s + off) \<Longrightarrow>
   hal_rpu_reg_read os a s = Some (if v = 0xFFFFFFFF then FAIL else SUCCESS, Some v,
    s\<lparr>w_trace := (if v = 0xFFFFFFFF then [] else [IoTimerSchedule 10]) @
      [IoUnlock LOCK_PS, IoRead32 (bus_host_addr_base s + off) v, IoLock LOCK_PS] @ w_trace s\<rparr>)"
  by (simp add: hal_rpu_reg_read_def hal_ps_access_def wake_unbooted bal_read_word)

lemma reg_write_unbooted:
  "hal_rpu_is_reg a \<Longrightarrow> pal_rpu_addr_offset_get a (curr_proc s) = Some off \<Longrightarrow> \<not> rpu_fw_booted s \<Longrightarrow>
   hal_rpu_reg_write os a v s = Some (SUCCESS,
     s\<lparr>w_trace := [IoTimerSchedule 10, IoUnlock LOCK_PS, IoWrite32 (bus_host_addr_base s + off) v,
       IoLock LOCK_PS] @ w_trace s\<rparr>)"
  by (simp add: hal_rpu_reg_write_def hal_ps_access_def wake_unbooted bal_write_word)

lemma mem_read_ram_unbooted:
  "pal_rpu_addr_offset_get a (curr_proc s) = Some off \<Longrightarrow> \<not> rpu_fw_booted s \<Longrightarrow>
   rpu_mem_read_ram os a n s = Some (SUCCESS,
     map (os_readb os (IoLock LOCK_PS # w_trace s) (bus_host_addr_base s + off)) [0..<n],
     s\<lparr>w_trace := [IoTimerSchedule 10, IoUnlock LOCK_PS, IoReadBlock (bus_host_addr_base s + off) n,
       IoLock LOCK_PS] @ w_trace s\<rparr>)"
  by (simp add: rpu_mem_read_ram_def hal_ps_access_def wake_unbooted bal_read_block)

text \<open>How often a trace reads an address, as a word or as a block.\<close>

fun is_read_of :: "u32 \<Rightarrow> io \<Rightarrow> bool" where
  "is_read_of a (IoRead32 b _) = (a = b)"
| "is_read_of a (IoReadBlock b _) = (a = b)"
| "is_read_of a _ = False"

definition reads_of :: "u32 \<Rightarrow> io list \<Rightarrow> nat" where
  "reads_of a tr = length (filter (is_read_of a) tr)"

lemma reads_of_Cons [simp]: "reads_of a (e # tr) = (if is_read_of a e then Suc (reads_of a tr) else reads_of a tr)"
  by (simp add: reads_of_def)

text \<open>Changing nothing but the trace.\<close>

definition only_trace :: "hal \<Rightarrow> hal \<Rightarrow> bool" where
  "only_trace s t = (t\<lparr>w_trace := []\<rparr> = s\<lparr>w_trace := []\<rparr>)"

lemma only_trace_upd [simp]: "only_trace s (s\<lparr>w_trace := tr\<rparr>)"
  by (simp add: only_trace_def)

lemma only_trace_trans: "only_trace s t \<Longrightarrow> only_trace t u \<Longrightarrow> only_trace s u"
  by (simp add: only_trace_def)

text \<open>The verdict of the polling loop on the sequence \<open>f\<close> of values the register shows.\<close>

lemma poll_loop_verdict:
  assumes dev: "hal_rpu_is_reg a" "pal_rpu_addr_offset_get a (curr_proc s) = Some off" "\<not> rpu_fw_booted s"
      "A = bus_host_addr_base s + off"
    and seq: "\<And>tr. os_read32 os tr A = f (reads_of A tr)"
    and k: "\<And>i. i < n \<Longrightarrow> f (m + i) AND bits \<noteq> req"
    and m: "m = reads_of A (w_trace s)" and "n \<le> Suc c"
    and hit: "n \<le> c \<Longrightarrow> f (m + n) AND bits = req"
  shows "\<exists>t. poll_loop os a bits req d c v0 s =
      Some (if n = Suc c \<and> f (m + c) = 0xFFFFFFFF then FAIL else SUCCESS, n = c, t) \<and>
    only_trace s t \<and> reads_of A (w_trace t) = m + (if n \<le> c then Suc n else n)"
  using assms
proof (induction c arbitrary: s n m v0)
  case (0 s n m)
  note r = reg_read_unbooted [OF "0.prems"(1-3) refl, of os, folded "0.prems"(4)]
  show ?case
  proof (cases n)
    case 0
    with "0.prems" show ?thesis
      by (subst poll_loop.simps) (simp add: r)
  next
    case (Suc j)
    with "0.prems" have "n = 1" by simp
    with "0.prems"(6) [of 0] "0.prems" show ?thesis
      by (subst poll_loop.simps) (simp add: r)
  qed
next
  case (Suc c s n m)
  note r = reg_read_unbooted [OF "Suc.prems"(1-3) refl, of os, folded "Suc.prems"(4)]
  show ?case
  proof (cases n)
    case 0
    with Suc.prems show ?thesis
      by (subst poll_loop.simps) (simp add: r)
  next
    case (Suc j)
    define t where "t = emit (IoSleepMs d) (s\<lparr>w_trace := (if f m = 0xFFFFFFFF then [] else [IoTimerSchedule 10]) @
      [IoUnlock LOCK_PS, IoRead32 A (f m), IoLock LOCK_PS] @ w_trace s\<rparr>)"
    have t: "reads_of A (w_trace t) = Suc m" "curr_proc t = curr_proc s" "rpu_fw_booted t = rpu_fw_booted s"
       "bus_host_addr_base t = bus_host_addr_base s"
      using Suc.prems by (simp_all add: t_def)
    have miss: "f m AND bits \<noteq> req" using Suc.prems(6) [of 0] Suc by simp
    have step: "poll_loop os a bits req d (Suc c) v0 s = poll_loop os a bits req d c (f m) t"
      using miss Suc.prems by (subst poll_loop.simps) (simp add: r t_def)
    have "\<exists>u. poll_loop os a bits req d c (f m) t =
        Some (if j = Suc c \<and> f (Suc m + c) = 0xFFFFFFFF then FAIL else SUCCESS, j = c, u) \<and>
      only_trace t u \<and> reads_of A (w_trace u) = Suc m + (if j \<le> c then Suc j else j)"
      using Suc.prems(1-5,8,9) Suc.prems(6) [of "Suc i" for i] t Suc
      by (intro Suc.IH) auto
    moreover have "only_trace s t" by (simp add: t_def)
    ultimately show ?thesis unfolding step using Suc only_trace_trans by fastforce
  qed
qed

text \<open>The first of \<open>n\<close> tries that succeeds, or \<open>n\<close>.\<close>

definition first_hit :: "(nat \<Rightarrow> bool) \<Rightarrow> nat \<Rightarrow> nat" where
  "first_hit P n = length (takeWhile (\<lambda>i. \<not> P i) [0..<n])"

lemma first_hit_le: "first_hit P n \<le> n"
  using length_takeWhile_le [of "\<lambda>i. \<not> P i" "[0..<n]"] by (simp add: first_hit_def)

lemma first_hit_miss: "i < first_hit P n \<Longrightarrow> \<not> P i"
  using first_hit_le [of P n] takeWhile_nth [of i "\<lambda>i. \<not> P i" "[0..<n]"]
    set_takeWhileD [OF nth_mem [of i "takeWhile (\<lambda>i. \<not> P i) [0..<n]"]]
  by (simp add: first_hit_def)

lemma first_hit_hit: "first_hit P n < n \<Longrightarrow> P (first_hit P n)"
  using nth_length_takeWhile [of "\<lambda>i. \<not> P i" "[0..<n]"] by (simp add: first_hit_def)

lemma first_hit_none: "(\<And>i. \<not> P i) \<Longrightarrow> first_hit P n = n"
  using first_hit_le [of P n] first_hit_hit [of P n] by (auto simp: le_less)

lemma first_hit_eq:
  assumes "k < n" "\<And>i. i < k \<Longrightarrow> \<not> P i" "P k"
  shows "first_hit P n = k"
  using first_hit_miss [of k P n] first_hit_hit [of P n] assms by (metis linorder_neqE_nat order_less_trans)

text \<open>C25 The verdict of \<open>nrf_wifi_hal_poll_reg\<close> while the firmware does not run, for a register
  that shows the values \<open>f\<close>, one per read. It ends after at most 51 reads, and a value found by one of the
  first 50 is a success. A value found by the last read is reported as a failure, and a value that is
  never found is reported as a success unless the last read itself failed: the counter has wrapped around
  when the test for the timeout is made.\<close>

theorem poll_reg_verdict:
  assumes "hal_rpu_is_reg a" "pal_rpu_addr_offset_get a (curr_proc s) = Some off" "\<not> rpu_fw_booted s"
    and "A = bus_host_addr_base s + off" "\<And>tr. os_read32 os tr A = f (reads_of A tr)"
    and "m = reads_of A (w_trace s)" "n = first_hit (\<lambda>i. f (m + i) AND bits = req) 51"
  shows "\<exists>t. nrf_wifi_hal_poll_reg os a bits req d s =
      Some (if n < 50 then SUCCESS else if n = 50 \<or> f (m + 50) = 0xFFFFFFFF then FAIL else SUCCESS, t) \<and>
    only_trace s t \<and> reads_of A (w_trace t) = m + min (n + 1) 51"
proof -
  note hit = first_hit_le [of "\<lambda>i. f (m + i) AND bits = req" 51, folded assms(7)]
    first_hit_miss [of _ "\<lambda>i. f (m + i) AND bits = req" 51, folded assms(7)]
    first_hit_hit [of "\<lambda>i. f (m + i) AND bits = req" 51, folded assms(7)]
  have "\<exists>t. poll_loop os a bits req d 50 0 s = Some
      (if n = Suc 50 \<and> f (m + 50) = 0xFFFFFFFF then FAIL else SUCCESS, n = 50, t) \<and>
    only_trace s t \<and> reads_of A (w_trace t) = m + (if n \<le> 50 then Suc n else n)"
    using hit assms(1-6) by (intro poll_loop_verdict) auto
  with hit(1) show ?thesis by (auto simp: nrf_wifi_hal_poll_reg_def min_def)
qed

definition hal_cold :: hal where
  "hal_cold = hal_demo\<lparr>rpu_fw_booted := False\<rparr>"

definition seq_os :: "(u32 \<Rightarrow> nat \<Rightarrow> u32) \<Rightarrow> os" where
  "seq_os f = tick_os (\<lambda>_ _. True) (\<lambda>tr a. f a (reads_of a tr)) (\<lambda>_. 6)"

text \<open>A bit that never clears: success.\<close>

theorem poll_reg_verdict_witness:
  "\<exists>t. nrf_wifi_hal_poll_reg (seq_os (\<lambda>a i. 1)) RPU_REG_MIPS_MCU_CONTROL 1 0 10 hal_cold = Some (SUCCESS, t) \<and>
    only_trace hal_cold t \<and> reads_of 0x40000000 (w_trace t) = 51"
proof -
  have "\<exists>t. nrf_wifi_hal_poll_reg (seq_os (\<lambda>a i. 1)) RPU_REG_MIPS_MCU_CONTROL 1 0 10 hal_cold =
      Some (if (51::nat) < 50 then SUCCESS else if (51::nat) = 50 \<or> (1::u32) = 0xFFFFFFFF then FAIL else SUCCESS, t) \<and>
    only_trace hal_cold t \<and> reads_of 0x40000000 (w_trace t) = 0 + min (51 + 1) 51"
    by (rule poll_reg_verdict [where f = "\<lambda>_. 1" and off = 0])
      (simp_all add: first_hit_none hal_rpu_is_reg_def pal_sbus hal_cold_def hal_demo_def reads_of_def seq_os_def tick_os_def)
  then show ?thesis by simp
qed

lemma boot_loop_verdict:
  assumes addr: "hal_rpu_is_mem_readable (curr_proc s) a" "pal_rpu_addr_offset_get a (curr_proc s) = Some off"
      "\<not> rpu_fw_booted s" "A = bus_host_addr_base s + off"
    and seq: "\<And>tr. map (os_readb os tr A) [0..<4] = le32_bytes (f (reads_of A tr))"
    and k: "\<And>i. i < n \<Longrightarrow> f (m + i) \<noteq> req"
    and m: "m = reads_of A (w_trace s)" and "n \<le> c"
    and hit: "n < c \<Longrightarrow> f (m + n) = req"
  shows "\<exists>t. boot_loop os a req c v0 s = Some (Suc n < c, t) \<and>
    only_trace s t \<and> reads_of A (w_trace t) = m + (if n < c then Suc n else n)"
  using assms
proof (induction c arbitrary: s n m v0)
  case (0 s n m)
  then show ?case by (simp add: only_trace_def)
next
  case (Suc c s n m)
  have le: "le32_bytes w \<noteq> []" for w by (simp add: le32_bytes_def)
  note seq = Suc.prems(5) [unfolded Suc.prems(4)]
  have r: "hal_rpu_mem_read os a 4 s = Some (SUCCESS, le32_bytes (f m), s\<lparr>w_trace :=
      [IoTimerSchedule 10, IoUnlock LOCK_PS, IoReadBlock A 4, IoLock LOCK_PS] @ w_trace s\<rparr>)"
    using Suc.prems(1,3,4,7) mem_read_ram_unbooted [OF Suc.prems(2,3), of os 4] Suc.prems(5) [of "IoLock LOCK_PS # w_trace s"]
    by (simp add: hal_rpu_mem_read_def del: upt_rec_numeral)
  show ?case
  proof (cases n)
    case 0
    with Suc.prems show ?thesis by (simp add: r le)
  next
    case (Suc j)
    define t where "t = emit (IoSleepMs 10) (s\<lparr>w_trace :=
      [IoTimerSchedule 10, IoUnlock LOCK_PS, IoReadBlock A 4, IoLock LOCK_PS] @ w_trace s\<rparr>)"
    have t: "reads_of A (w_trace t) = Suc m" "curr_proc t = curr_proc s" "rpu_fw_booted t = rpu_fw_booted s"
       "bus_host_addr_base t = bus_host_addr_base s"
      using Suc.prems(4,7) by (simp_all add: t_def)
    have miss: "f m \<noteq> req" using Suc.prems(6) [of 0] Suc by simp
    have step: "boot_loop os a req (Suc c) v0 s = boot_loop os a req c (f m) t"
      using miss by (simp add: r le t_def)
    have "\<exists>u. boot_loop os a req c (f m) t = Some (Suc j < c, u) \<and>
      only_trace t u \<and> reads_of A (w_trace u) = Suc m + (if j < c then Suc j else j)"
      using Suc.prems(1-5,8,9) Suc.prems(6) [of "Suc i" for i] t Suc
      by (intro Suc.IH) (auto simp del: upt_rec_numeral)
    moreover have "only_trace s t" by (simp add: t_def)
    ultimately show ?thesis unfolding step using Suc only_trace_trans by fastforce
  qed
qed

lemma only_trace_proc: "only_trace (s\<lparr>curr_proc := p\<rparr>) t \<Longrightarrow>
   only_trace (s\<lparr>curr_proc := q\<rparr>) (t\<lparr>curr_proc := q\<rparr>)"
  unfolding only_trace_def by (cases s; cases t) simp

lemma boot_loop_none: "0 < n \<Longrightarrow> curr_proc s = RPU_PROC_TYPE_MAX \<Longrightarrow> boot_loop os 0 0 (Suc n) 0 s = Some (True, s)"
  by (simp add: hal_rpu_mem_read_def hal_rpu_is_mem_readable_def hal_rpu_is_mem_ram_def
      hal_rpu_is_mem_core_direct_def pal_check_rpu_mcu_regions_def)

definition boot_sig_addr :: "rpu_proc \<Rightarrow> u32" where
  "boot_sig_addr p = (if p = RPU_PROC_TYPE_MCU_LMAC then RPU_MEM_LMAC_BOOT_SIG else RPU_MEM_UMAC_BOOT_SIG)"

text \<open>The verdict of the boot check of a processor whose boot signature word reads as
  \<open>f\<close>, one value per read: the signature must appear in one of the first 99 reads. Seen by the
  hundredth, it is reported as missing. Asked for no processor at all, the check succeeds without touching
  the bus, because it compares the value it never read with the signature it never set.\<close>

theorem chk_boot_verdict:
  assumes "p \<noteq> RPU_PROC_TYPE_MAX" "\<not> rpu_fw_booted s"
    and "pal_rpu_addr_offset_get (boot_sig_addr p) p = Some off" "A = bus_host_addr_base s + off"
    and "\<And>tr. map (os_readb os tr A) [0..<4] = le32_bytes (f (reads_of A tr))"
    and "m = reads_of A (w_trace s)"
    and "n = first_hit (\<lambda>i. f (m + i) = NRF_WIFI_BOOT_SIG) 100"
  shows "(\<exists>t. nrf_wifi_hal_fw_chk_boot os p s = Some (if n < 99 then SUCCESS else FAIL, t) \<and>
      only_trace (s\<lparr>curr_proc := RPU_PROC_TYPE_MCU_LMAC\<rparr>) t \<and>
      reads_of A (w_trace t) = m + min (n + 1) 100) \<and>
    nrf_wifi_hal_fw_chk_boot os RPU_PROC_TYPE_MAX s = Some (SUCCESS, s\<lparr>curr_proc := RPU_PROC_TYPE_MCU_LMAC\<rparr>)"
proof -
  have ad: "hal_rpu_is_mem_readable p (boot_sig_addr p)"
    by (simp add: hal_rpu_is_mem_readable_def hal_rpu_is_mem_ram_def boot_sig_addr_def)
  note hit = first_hit_le [of "\<lambda>i. f (m + i) = NRF_WIFI_BOOT_SIG" 100, folded assms(7)]
    first_hit_miss [of _ "\<lambda>i. f (m + i) = NRF_WIFI_BOOT_SIG" 100, folded assms(7)]
    first_hit_hit [of "\<lambda>i. f (m + i) = NRF_WIFI_BOOT_SIG" 100, folded assms(7)]
  have "\<exists>t. boot_loop os (boot_sig_addr p) NRF_WIFI_BOOT_SIG 100 0 (s\<lparr>curr_proc := p\<rparr>) = Some (Suc n < 100, t) \<and>
      only_trace (s\<lparr>curr_proc := p\<rparr>) t \<and> reads_of A (w_trace t) = m + (if n < 100 then Suc n else n)"
    by (rule boot_loop_verdict [OF _ _ _ _ assms(5)]) (use assms(1-4,6) ad hit in simp_all)
  then obtain t where t: "boot_loop os (boot_sig_addr p) NRF_WIFI_BOOT_SIG 100 0 (s\<lparr>curr_proc := p\<rparr>) = Some (Suc n < 100, t)"
    "only_trace (s\<lparr>curr_proc := p\<rparr>) t" "reads_of A (w_trace t) = m + (if n < 100 then Suc n else n)"
    by blast
  have "nrf_wifi_hal_fw_chk_boot os p s =
      Some (if n < 99 then SUCCESS else FAIL, t\<lparr>curr_proc := RPU_PROC_TYPE_MCU_LMAC\<rparr>)"
    using t(1) assms(1) by (cases p) (simp_all add: nrf_wifi_hal_fw_chk_boot_def boot_sig_addr_def)
  then have verdict: "\<exists>t. nrf_wifi_hal_fw_chk_boot os p s = Some (if n < 99 then SUCCESS else FAIL, t) \<and>
      only_trace (s\<lparr>curr_proc := RPU_PROC_TYPE_MCU_LMAC\<rparr>) t \<and>
      reads_of A (w_trace t) = m + min (n + 1) 100"
    using t(3) hit(1) only_trace_proc [OF t(2)]
    by (intro exI [of _ "t\<lparr>curr_proc := RPU_PROC_TYPE_MCU_LMAC\<rparr>"]) (simp add: min_def)
  have "boot_loop os 0 0 100 0 (s\<lparr>curr_proc := RPU_PROC_TYPE_MAX\<rparr>) = Some (True, s\<lparr>curr_proc := RPU_PROC_TYPE_MAX\<rparr>)"
    using boot_loop_none [of "99"] by simp
  then show ?thesis using verdict by (simp add: nrf_wifi_hal_fw_chk_boot_def)
qed

definition boot_os :: "(nat \<Rightarrow> u32) \<Rightarrow> os" where
  "boot_os f = demo_os\<lparr>os_readb := \<lambda>tr a i. le32_bytes (f (reads_of a tr)) ! i\<rparr>"

text \<open>The signature appears in the last read.\<close>

theorem chk_boot_verdict_witness:
  "\<exists>t. nrf_wifi_hal_fw_chk_boot (boot_os (\<lambda>i. if i < 99 then 0 else NRF_WIFI_BOOT_SIG)) RPU_PROC_TYPE_MCU_UMAC hal_cold
      = Some (FAIL, t) \<and> reads_of 0x400C0000 (w_trace t) = 100"
proof -
  let ?f = "\<lambda>i::nat. if i < 99 then (0::u32) else NRF_WIFI_BOOT_SIG"
  have n: "99 = first_hit (\<lambda>i. ?f (0 + i) = NRF_WIFI_BOOT_SIG) 100"
    by (rule first_hit_eq [symmetric]) simp_all
  have bytes: "map (os_readb (boot_os ?f) tr 0x400C0000) [0..<4] = le32_bytes (?f (reads_of 0x400C0000 tr))" for tr
    using map_nth [of "le32_bytes (?f (reads_of 0x400C0000 tr))"] by (simp add: boot_os_def del: upt_rec_numeral)
  have off: "pal_rpu_addr_offset_get (boot_sig_addr RPU_PROC_TYPE_MCU_UMAC) RPU_PROC_TYPE_MCU_UMAC = Some 0xC0000"
    by (simp add: boot_sig_addr_def pal_rpu_addr_offset_get_def)
  have st: "\<not> rpu_fw_booted hal_cold" "0x400C0000 = bus_host_addr_base hal_cold + 0xC0000" "0 = reads_of 0x400C0000 (w_trace hal_cold)"
    by (simp_all add: hal_cold_def hal_demo_def reads_of_def)
  show ?thesis
    using chk_boot_verdict [OF _ st(1) off st(2) bytes st(3) n] by auto
qed

section \<open>What the device holds\<close>

text \<open>How many objects of a kind are allocated and not freed; \<open>tally xs x\<close> is how often \<open>x\<close> is
  in \<open>xs\<close>.\<close>

definition ind :: "os_obj \<Rightarrow> os_obj \<Rightarrow> int" where
  "ind y x = (if x = y then 1 else 0)"

fun live :: "os_obj \<Rightarrow> io list \<Rightarrow> int" where
  "live x [] = 0"
| "live x (IoAlloc y ok # tr) = (if ok then live x tr + ind y x else live x tr)"
| "live x (IoFree y # tr) = live x tr - ind y x"
| "live x (_ # tr) = live x tr"

fun tally :: "os_obj list \<Rightarrow> os_obj \<Rightarrow> int" where
  "tally [] x = 0"
| "tally (y # ys) x = ind y x + tally ys x"

lemma ind_nonneg [simp]: "0 \<le> ind y x"
  by (simp add: ind_def)

lemma tally_nonneg [simp]: "0 \<le> tally ys x"
  by (induction ys) auto

lemma tally_append [simp]: "tally (xs @ ys) x = tally xs x + tally ys x"
  by (induction xs) auto

definition core_objs :: "os_obj list" where
  "core_objs = [OBJ_HAL_DEV, OBJ_CMD_Q, OBJ_EVENT_Q, OBJ_LOCK LOCK_HAL, OBJ_LOCK LOCK_RX,
     OBJ_TASKLET TASKLET_EVENT, OBJ_TASKLET TASKLET_RECOVERY, OBJ_LOCK LOCK_RECOVERY]"

definition ps_objs :: "os_obj list" where
  "ps_objs = [OBJ_LOCK LOCK_PS, OBJ_PS_TIMER]"

definition bus_objs :: "os_obj list" where
  "bus_objs = [OBJ_BAL_DEV, OBJ_BUS_DEV, OBJ_OS_BUS_DEV]"

definition rx_objs :: "os_obj list" where
  "rx_objs = [OBJ_RX_BUF_INFO 0, OBJ_RX_BUF_INFO 1, OBJ_RX_BUF_INFO 2]"

definition os_dev :: "bus_kind \<Rightarrow> os_obj list" where
  "os_dev k = (if k = BUS_SPI then [OBJ_OS_BUS_DEV] else [])"

text \<open>\<open>gains D s t\<close>: the objects \<open>D\<close> are allocated on top of what was; \<open>gains_within\<close>: nothing
  is lost, and at most \<open>D\<close> gained.\<close>

definition gains :: "os_obj list \<Rightarrow> hal \<Rightarrow> hal \<Rightarrow> bool" where
  "gains D s t = (\<forall>x. live x (w_trace t) = live x (w_trace s) + tally D x)"

definition gains_within :: "os_obj list \<Rightarrow> hal \<Rightarrow> hal \<Rightarrow> bool" where
  "gains_within D s t = (\<forall>x. live x (w_trace s) \<le> live x (w_trace t) \<and>
     live x (w_trace t) \<le> live x (w_trace s) + tally D x)"

definition same_dev :: "hal \<Rightarrow> hal \<Rightarrow> bool" where
  "same_dev s t = (rpu_fw_booted t = rpu_fw_booted s \<and> event_q t = event_q s \<and> bal_bus t = bal_bus s \<and>
     num_devs t = num_devs s \<and> cfg_params t = cfg_params s \<and> curr_proc t = curr_proc s)"

lemma irq_enable_unbooted:
  assumes "\<not> rpu_fw_booted s"
  shows "\<exists>st t. hal_rpu_irq_enable os s = Some (st, t) \<and> same_dev s t \<and> gains [] s t"
proof -
  have reg: "hal_rpu_is_reg RPU_REG_INT_FROM_RPU_CTRL" "hal_rpu_is_reg RPU_REG_INT_FROM_MCU_CTRL"
    by (simp_all add: hal_rpu_is_reg_def)
  show ?thesis
    using assms
    by (auto simp: hal_rpu_irq_enable_def reg_read_unbooted [OF reg(1) pal_sbus] reg_write_unbooted [OF reg(1) pal_sbus]
        reg_write_unbooted [OF reg(2) pal_sbus] gains_def same_dev_def)
qed

lemma bal_dev_add_live:
  assumes "nrf_wifi_bal_dev_add os s = (ok, t)"
  shows "gains (if ok then bus_objs else []) s t" "same_dev s t"
  using assms
  by (cases "bal_bus s"; auto simp: nrf_wifi_bal_dev_add_def nrf_wifi_bus_qspi_ops_def nrf_wifi_bus_spi_ops_def
      nrf_wifi_bus_qspi_dev_add_def nrf_wifi_bus_spi_dev_add_def osal_alloc_def gains_def bus_objs_def
      same_dev_def Let_def split: if_splits)+

lemma bal_dev_rem_live [simp]:
  "live x (w_trace (nrf_wifi_bal_dev_rem s)) = live x (w_trace s) - tally bus_objs x + tally (os_dev (bal_bus s)) x"
  by (cases "bal_bus s") (simp_all add: nrf_wifi_bal_dev_rem_def nrf_wifi_bus_qspi_ops_def nrf_wifi_bus_spi_ops_def
      nrf_wifi_bus_qspi_dev_rem_def nrf_wifi_bus_spi_dev_rem_def bus_objs_def os_dev_def)

lemma bal_dev_rem_fields [simp]:
  "event_q (nrf_wifi_bal_dev_rem s) = event_q s" "bal_bus (nrf_wifi_bal_dev_rem s) = bal_bus s"
  "num_devs (nrf_wifi_bal_dev_rem s) = num_devs s"
  by (cases "bal_bus s"; simp add: nrf_wifi_bal_dev_rem_def nrf_wifi_bus_qspi_ops_def nrf_wifi_bus_spi_ops_def
      nrf_wifi_bus_qspi_dev_rem_def nrf_wifi_bus_spi_dev_rem_def)+

lemma lock_recovery_free_live [simp]:
  "live x (w_trace (lock_recovery_free s)) = live x (w_trace s) - tally core_objs x"
  by (simp add: lock_recovery_free_def recovery_tasklet_free_def event_tasklet_free_def lock_rx_free_def
      lock_hal_free_def event_q_free_def cmd_q_free_def dev_free_def core_objs_def)

lemma bal_dev_free_live [simp]:
  "live x (w_trace (bal_dev_free s)) = live x (w_trace s) - tally core_objs x - tally bus_objs x +
     tally (os_dev (bal_bus s)) x"
  by (simp add: bal_dev_free_def)

lemma rx_buf_free_live [simp]:
  "live x (w_trace (rx_buf_free s)) = live x (w_trace s) - tally core_objs x - tally bus_objs x -
     tally rx_objs x + tally (os_dev (bal_bus s)) x"
  by (simp add: rx_buf_free_def rx_objs_def)

lemma tx_buf_free_live [simp]:
  "live x (w_trace (tx_buf_free s)) = live x (w_trace s) - tally core_objs x - tally bus_objs x -
     tally rx_objs x - ind OBJ_TX_BUF_INFO x + tally (os_dev (bal_bus s)) x"
  by (simp add: tx_buf_free_def)

lemma rx_tables_alloc_live:
  assumes "rx_tables_alloc os [0, 1, 2] s = (ok, t)"
  shows "if ok then gains rx_objs s t else gains_within rx_objs s t" "same_dev s t"
  using assms
  by (auto simp: osal_alloc_def gains_def gains_within_def rx_objs_def same_dev_def Let_def split: if_splits)

lemma map_init_live:
  assumes "nrf_wifi_sys_hal_rpu_pktram_buf_map_init nb ds s = (st, t)"
  shows "gains [] s t" "same_dev s t"
  using assms
  by (auto simp: nrf_wifi_sys_hal_rpu_pktram_buf_map_init_def gains_def same_dev_def split: option.splits)


definition undone :: "os_obj list \<Rightarrow> hal \<Rightarrow> hal \<Rightarrow> bool" where
  "undone D s t = (\<forall>x. live x (w_trace s) - tally core_objs x - tally bus_objs x \<le> live x (w_trace t) \<and>
     live x (w_trace t) \<le> live x (w_trace s) - tally core_objs x - tally bus_objs x + tally D x)"

lemma same_dev_trans: "same_dev s t \<Longrightarrow> same_dev t u \<Longrightarrow> same_dev s u"
  by (simp add: same_dev_def)

lemma gains_trans: "gains D s t \<Longrightarrow> gains E t u \<Longrightarrow> gains (D @ E) s u"
  by (simp add: gains_def)

lemma dev_add_buffers_live:
  assumes "\<not> rpu_fw_booted s"
  shows "\<exists>ok t. dev_add_buffers os nb ds s = Some (ok, t) \<and>
    (if ok then gains (rx_objs @ [OBJ_TX_BUF_INFO]) s t \<and> same_dev s t
     else undone (rx_objs @ os_dev (bal_bus s)) s t)"
proof -
  obtain st s1 where irq: "hal_rpu_irq_enable os s = Some (st, s1)" "same_dev s s1" "gains [] s s1"
    using irq_enable_unbooted [OF assms] by blast
  obtain ok2 s2 where rx: "rx_tables_alloc os [0, 1, 2] s1 = (ok2, s2)" by fastforce
  note rxl = rx_tables_alloc_live [OF rx]
  define s3 where "s3 = (emit (IoAlloc OBJ_TX_BUF_INFO True) s2)\<lparr>tx_buf_info :=
    Some (replicate (unat (max_tx_frms (cfg_params s2))) no_buf)\<rparr>"
  obtain st4 s4 where mi: "nrf_wifi_sys_hal_rpu_pktram_buf_map_init nb ds s3 = (st4, s4)" by fastforce
  note mil = map_init_live [OF mi]
  have s3': "gains [OBJ_TX_BUF_INFO] s2 s3" "same_dev s2 s3" by (simp_all add: s3_def gains_def same_dev_def)
  consider "st = FAIL" | "st = SUCCESS" "\<not> ok2" | "st = SUCCESS" "ok2" "\<not> os_alloc os (w_trace s2) OBJ_TX_BUF_INFO"
    | "st = SUCCESS" "ok2" "os_alloc os (w_trace s2) OBJ_TX_BUF_INFO" "st4 = FAIL"
    | "st = SUCCESS" "ok2" "os_alloc os (w_trace s2) OBJ_TX_BUF_INFO" "st4 = SUCCESS"
    by (cases st; cases st4) auto
  then show ?thesis
  proof cases
    case 1
    then have "dev_add_buffers os nb ds s = Some (False, bal_dev_free s1)"
      by (simp add: dev_add_buffers_def irq)
    then show ?thesis using irq by (intro exI [of _ False] exI [of _ "bal_dev_free s1"]) (simp add: undone_def gains_def same_dev_def)
  next
    case 2
    then have "dev_add_buffers os nb ds s = Some (False, bal_dev_free s2)"
      using rx by (simp add: dev_add_buffers_def irq)
    then show ?thesis using irq rxl 2 
      by (auto simp: undone_def gains_def gains_within_def same_dev_def intro: add_increasing2
        intro!: exI [of _ False])
  next
    case 3
    then have "dev_add_buffers os nb ds s = Some (False, rx_buf_free (emit (IoAlloc OBJ_TX_BUF_INFO False) s2))"
      using rx by (simp add: dev_add_buffers_def irq osal_alloc_def Let_def)
    then show ?thesis using irq rxl 3 by (intro exI [of _ False] exI [of _ "rx_buf_free (emit (IoAlloc OBJ_TX_BUF_INFO False) s2)"]) (simp add: undone_def gains_def same_dev_def)
  next
    case 4
    then have "dev_add_buffers os nb ds s = Some (False, tx_buf_free s4)"
      using rx mi by (simp add: dev_add_buffers_def irq osal_alloc_def Let_def s3_def del: rx_tables_alloc.simps cong: if_cong)
    then show ?thesis using irq rxl s3' mil 4 by (intro exI [of _ False] exI [of _ "tx_buf_free s4"]) (simp add: undone_def gains_def same_dev_def)
  next
    case 5
    then have "dev_add_buffers os nb ds s = Some (True, s4)"
      using rx mi by (simp add: dev_add_buffers_def irq osal_alloc_def Let_def s3_def del: rx_tables_alloc.simps cong: if_cong)
    then show ?thesis using irq rxl s3' mil 5 by (auto simp: gains_def same_dev_def intro!: exI [of _ True])
  qed
qed

text \<open>The success and the failure of \<open>nrf_wifi_sys_hal_dev_add\<close>.\<close>

definition dev_objs :: "os_obj list" where
  "dev_objs = core_objs @ ps_objs @ bus_objs @ rx_objs @ [OBJ_TX_BUF_INFO]"

lemma ps_init_live:
  assumes "hal_rpu_ps_init os s = (st, t)"
  shows "gains (if st = SUCCESS then ps_objs else []) s t" "same_dev s t"
  using assms by (auto simp: hal_rpu_ps_init_def osal_alloc_def gains_def ps_objs_def same_dev_def Let_def split: if_splits)

lemma dev_add_outcome:
  assumes "nrf_wifi_sys_hal_dev_add os nb ds s = Some (ok, t)"
  shows "if ok then gains dev_objs s t \<and> event_q t = [] \<and> bal_bus t = bal_bus s \<and> num_devs t = num_devs s + 1
    else gains_within (ps_objs @ rx_objs @ os_dev (bal_bus s)) s t"
proof -
  define s1 where "s1 = (hal_dev_zero (emit (IoAlloc OBJ_HAL_DEV True) s))\<lparr>idx := num_devs s,
    num_devs := num_devs s + 1, num_cmds := RPU_CMD_START_MAGIC\<rparr>"
  define s2 where "s2 = fold (\<lambda>x s. emit (IoAlloc x True) s) (tl core_objs) s1"
  obtain st3 s3 where ps: "hal_rpu_ps_init os s2 = (st3, s3)" by fastforce
  note psl = ps_init_live [OF ps]
  obtain ok4 s4 where bal: "nrf_wifi_bal_dev_add os s3 = (ok4, s4)" by fastforce
  note ball = bal_dev_add_live [OF bal]
  have s1: "live x (w_trace s1) = live x (w_trace s) + ind OBJ_HAL_DEV x" "bal_bus s1 = bal_bus s"
    "num_devs s1 = num_devs s + 1" "event_q s1 = []" "\<not> rpu_fw_booted s1" "w_trace s1 = IoAlloc OBJ_HAL_DEV True # w_trace s" for x
    by (simp_all add: s1_def hal_dev_zero_def)
  have s2: "gains core_objs s s2" "bal_bus s2 = bal_bus s"
    "num_devs s2 = num_devs s + 1" "event_q s2 = []" "\<not> rpu_fw_booted s2"
    by (simp_all add: s2_def s1 gains_def core_objs_def)
  consider (early) "\<not> ok" "gains [] s t" | (psf) "ok = False" "t = lock_recovery_free s3" "st3 = FAIL"
    | (balf) "ok = False" "t = lock_recovery_free s4" "st3 = SUCCESS" "\<not> ok4"
    | (bufs) "st3 = SUCCESS" ok4 "dev_add_buffers os nb ds s4 = Some (ok, t)"
    using assms ps bal
    by (simp add: nrf_wifi_sys_hal_dev_add_def osal_alloc_def Let_def s2_def core_objs_def s1_def [symmetric] split: if_split_asm)
      (auto simp: s1 gains_def dev_free_def cmd_q_free_def event_q_free_def lock_hal_free_def lock_rx_free_def
         event_tasklet_free_def recovery_tasklet_free_def split: if_split_asm)
  then show ?thesis
  proof cases
    case early
    then show ?thesis by (simp add: gains_def gains_within_def)
  next
    case psf
    then show ?thesis using s2 psl by (simp add: gains_def gains_within_def)
  next
    case balf
    then show ?thesis using s2 psl ball by (simp add: gains_def gains_within_def)
  next
    case bufs
    have "\<not> rpu_fw_booted s4" using s2 psl ball by (simp add: same_dev_def)
    from dev_add_buffers_live [OF this, of os nb ds] bufs
    have b: "if ok then gains (rx_objs @ [OBJ_TX_BUF_INFO]) s4 t \<and> same_dev s4 t
      else undone (rx_objs @ os_dev (bal_bus s4)) s4 t" by auto
    show ?thesis
    proof (cases ok)
      case True
      with b bufs s2 psl ball show ?thesis by (simp add: gains_def same_dev_def dev_objs_def)
    next
      case False
      have "live x (w_trace s) \<le> live x (w_trace t) \<and> live x (w_trace t) \<le>
          live x (w_trace s) + tally (ps_objs @ rx_objs @ os_dev (bal_bus s)) x" for x
      proof -
        have "live x (w_trace s) + tally ps_objs x \<le> live x (w_trace t) \<and> live x (w_trace t) \<le>
          live x (w_trace s) + tally ps_objs x + (tally rx_objs x + tally (os_dev (bal_bus s)) x)"
          using b False bufs s2 psl ball by (simp add: gains_def undone_def same_dev_def)
        then show ?thesis unfolding tally_append using tally_nonneg [of ps_objs x] by linarith
      qed
      then show ?thesis using False by (simp add: gains_within_def)
    qed
  qed
qed


lemma drain_empty: "event_q s = [] \<Longrightarrow> \<exists>u. hal_rpu_eventq_drain s = Some u \<and> (\<forall>x. live x (w_trace u) = live x (w_trace s)) \<and>
    num_devs u = num_devs s \<and> bal_bus u = bal_bus s"
  by (simp add: hal_rpu_eventq_drain_def) (subst eventq_drain_loop.simps, simp add: event_q_dequeue_def)

text \<open>C23 Adding and removing a device leaves nothing behind on QSPI: after a successful
  \<open>nrf_wifi_sys_hal_dev_add\<close> exactly the objects of the device are allocated on top of what was, and
  \<open>nrf_wifi_hal_dev_rem\<close> gives every one of them back and restores the device count. On SPI the OS
  device handle stays behind.\<close>

theorem dev_add_rem_balance:
  assumes "nrf_wifi_sys_hal_dev_add os nb ds s = Some (True, t)"
  shows "gains dev_objs s t \<and> (\<exists>u. nrf_wifi_hal_dev_rem t = Some u \<and>
    gains (if bal_bus s = BUS_SPI then [OBJ_OS_BUS_DEV] else []) s u \<and> num_devs u = num_devs s)"
proof -
  have t: "gains dev_objs s t" "event_q t = []" "bal_bus t = bal_bus s" "num_devs t = num_devs s + 1"
    using dev_add_outcome [OF assms] by simp_all
  define t0 where "t0 = t\<lparr>w_trace := [IoFree (OBJ_TASKLET TASKLET_EVENT), IoTaskletKill TASKLET_EVENT,
    IoFree (OBJ_LOCK LOCK_RECOVERY), IoFree (OBJ_TASKLET TASKLET_RECOVERY), IoTaskletKill TASKLET_RECOVERY] @ w_trace t\<rparr>"
  obtain d where d: "hal_rpu_eventq_drain t0 = Some d" "\<And>x. live x (w_trace d) = live x (w_trace t0)"
    "num_devs d = num_devs t0" "bal_bus d = bal_bus t0"
    using drain_empty [of t0] t(2) by (auto simp: t0_def)
  have "\<exists>u. nrf_wifi_hal_dev_rem t = Some u \<and> num_devs u = num_devs t - 1 \<and>
    (\<forall>x. live x (w_trace u) = live x (w_trace t) - tally dev_objs x + tally (os_dev (bal_bus t)) x)"
    using d by (simp add: nrf_wifi_hal_dev_rem_def hal_rpu_ps_deinit_def Let_def dev_objs_def core_objs_def
        ps_objs_def rx_objs_def t0_def)
  with t show ?thesis by (auto simp: gains_def os_dev_def)
qed

lemma irq_enable_succeeds:
  assumes "\<And>tr a. os_read32 os tr a \<noteq> 0xFFFFFFFF" "\<not> rpu_fw_booted s"
  shows "\<exists>t. hal_rpu_irq_enable os s = Some (SUCCESS, t) \<and> curr_proc t = curr_proc s"
proof -
  have reg: "hal_rpu_is_reg RPU_REG_INT_FROM_RPU_CTRL" "hal_rpu_is_reg RPU_REG_INT_FROM_MCU_CTRL"
    by (simp_all add: hal_rpu_is_reg_def)
  show ?thesis
    using assms
    by (simp add: hal_rpu_irq_enable_def reg_read_unbooted [OF reg(1) pal_sbus] reg_write_unbooted [OF reg(1) pal_sbus]
        reg_write_unbooted [OF reg(2) pal_sbus])
qed

lemma dev_add_buffers_succeeds:
  assumes al: "\<And>tr x. os_alloc os tr x" and rd: "\<And>tr a. os_read32 os tr a \<noteq> 0xFFFFFFFF"
    and "\<not> rpu_fw_booted s"
  shows "\<exists>t. dev_add_buffers os nb ds s = Some (True, t)"
proof -
  obtain t where "hal_rpu_irq_enable os s = Some (SUCCESS, t)" using irq_enable_succeeds [OF rd assms(3)] by blast
  moreover have "pal_rpu_addr_offset_get RPU_MEM_PKT_BASE p = Some 0xC5000" for p
    by (simp add: pal_rpu_addr_offset_get_def)
  ultimately show ?thesis
    by (simp add: dev_add_buffers_def osal_alloc_def al Let_def nrf_wifi_sys_hal_rpu_pktram_buf_map_init_def)
qed

text \<open>When nothing is refused, adding a device succeeds.\<close>

lemma dev_add_succeeds:
  assumes al: "\<And>tr x. os_alloc os tr x" and rd: "\<And>tr a. os_read32 os tr a \<noteq> 0xFFFFFFFF"
  shows "\<exists>t. nrf_wifi_sys_hal_dev_add os nb ds s = Some (True, t)"
proof -
  obtain s' where s': "nrf_wifi_sys_hal_dev_add os nb ds s = (let (ok, s) = nrf_wifi_bal_dev_add os s' in
      if \<not> ok then Some (False, lock_recovery_free s) else dev_add_buffers os nb ds s)" "\<not> rpu_fw_booted s'"
    by (simp add: nrf_wifi_sys_hal_dev_add_def osal_alloc_def al hal_rpu_ps_init_def hal_dev_zero_def Let_def)
  obtain t where "nrf_wifi_bal_dev_add os s' = (True, t)" "\<not> rpu_fw_booted t"
    using s'(2) by (cases "bal_bus s'") (simp_all add: nrf_wifi_bal_dev_add_def nrf_wifi_bus_qspi_ops_def
      nrf_wifi_bus_spi_ops_def nrf_wifi_bus_qspi_dev_add_def nrf_wifi_bus_spi_dev_add_def osal_alloc_def al Let_def)
  with s'(1) dev_add_buffers_succeeds [OF al rd] show ?thesis by simp
qed

theorem dev_add_rem_balance_witness:
  "\<exists>t u. nrf_wifi_sys_hal_dev_add demo_os 48 1600 hal_cold = Some (True, t) \<and> nrf_wifi_hal_dev_rem t = Some u \<and>
    gains [] hal_cold u"
  using dev_add_succeeds [of demo_os 48 1600 hal_cold] dev_add_rem_balance [of demo_os 48 1600 hal_cold] by (auto simp: hal_cold_def hal_demo_def tick_os_def)

text \<open>C24 A failing \<open>nrf_wifi_sys_hal_dev_add\<close> frees nothing that it did not allocate. What it can leave
  behind are the lock and the timer of the power save, whose release is on no error path, receive buffer
  tables and, on SPI, the OS device handle.\<close>

theorem dev_add_failure_leaks:
  assumes "nrf_wifi_sys_hal_dev_add os nb ds s = Some (False, t)"
  shows "gains_within (ps_objs @ rx_objs @ (if bal_bus s = BUS_SPI then [OBJ_OS_BUS_DEV] else [])) s t"
  using dev_add_outcome [OF assms] by (simp add: os_dev_def)

lemma dev_add_bal_refused:
  assumes al: "\<And>tr x. os_alloc os tr x = (x \<noteq> OBJ_BAL_DEV)"
  shows "\<exists>t. nrf_wifi_sys_hal_dev_add os nb ds s = Some (False, t) \<and>
    live (OBJ_LOCK LOCK_PS) (w_trace t) = live (OBJ_LOCK LOCK_PS) (w_trace s) + 1"
  by (simp add: nrf_wifi_sys_hal_dev_add_def osal_alloc_def al hal_rpu_ps_init_def hal_dev_zero_def
      nrf_wifi_bal_dev_add_def Let_def core_objs_def ind_def)

text \<open>The bus device cannot be allocated: the power-save lock stays behind.\<close>

theorem dev_add_failure_leaks_witness:
  "\<exists>t. nrf_wifi_sys_hal_dev_add (demo_os\<lparr>os_alloc := \<lambda>tr x. x \<noteq> OBJ_BAL_DEV\<rparr>) 48 1600 hal_cold = Some (False, t) \<and>
    gains_within (ps_objs @ rx_objs) hal_cold t \<and> live (OBJ_LOCK LOCK_PS) (w_trace t) = 1"
  using dev_add_bal_refused [of "demo_os\<lparr>os_alloc := \<lambda>tr x. x \<noteq> OBJ_BAL_DEV\<rparr>" 48 1600 hal_cold]
    dev_add_failure_leaks [of "demo_os\<lparr>os_alloc := \<lambda>tr x. x \<noteq> OBJ_BAL_DEV\<rparr>" 48 1600 hal_cold]
  by (auto simp: hal_cold_def hal_demo_def)

end
