(* ===== verification/Fw_Patch.thy ===== *)
theory Fw_Patch
  imports Hal_Init
begin

text \<open>Loading and starting the firmware patches:
  \<open>hw_if/hal/src/common/hal_fw_patch_loader.c\<close>. A patch is its bytes; a missing patch (a NULL
  pointer) is \<open>None\<close>.\<close>

abbreviation MAX_PATCH_CHUNK_SIZE :: nat where "MAX_PATCH_CHUNK_SIZE \<equiv> 8192"
abbreviation RPU_MEM_LMAC_PATCH_BIMG :: u32 where "RPU_MEM_LMAC_PATCH_BIMG \<equiv> 0x8004BBC0"
abbreviation RPU_MEM_LMAC_PATCH_BIN :: u32 where "RPU_MEM_LMAC_PATCH_BIN \<equiv> 0x80043A80"
abbreviation RPU_MEM_UMAC_PATCH_BIMG :: u32 where "RPU_MEM_UMAC_PATCH_BIMG \<equiv> 0x8009B800"
abbreviation RPU_MEM_UMAC_PATCH_BIN :: u32 where "RPU_MEM_UMAC_PATCH_BIN \<equiv> 0x8008C000"
abbreviation RPU_REG_UCC_SLEEP_CTRL_DATA_0 :: u32 where "RPU_REG_UCC_SLEEP_CTRL_DATA_0 \<equiv> 0xA4002C2C"
abbreviation RPU_REG_UCC_SLEEP_CTRL_DATA_1 :: u32 where "RPU_REG_UCC_SLEEP_CTRL_DATA_1 \<equiv> 0xA4002C30"
abbreviation NRF_WIFI_LMAC_ROM_PATCH_OFFSET :: u32 where
  "NRF_WIFI_LMAC_ROM_PATCH_OFFSET \<equiv> RPU_MEM_LMAC_PATCH_BIMG - 0x80040000"
abbreviation NRF_WIFI_UMAC_ROM_PATCH_OFFSET :: u32 where
  "NRF_WIFI_UMAC_ROM_PATCH_OFFSET \<equiv> RPU_MEM_UMAC_PATCH_BIMG - 0x80080000"

section \<open>The loader\<close>

fun RPU_MCU_BOOT_VECTORS :: "rpu_proc \<Rightarrow> (u32 \<times> u32) list" where
  "RPU_MCU_BOOT_VECTORS RPU_PROC_TYPE_MCU_LMAC =
     [(0xA4000050, 0x3c1a8000), (0xA4000054, 0x275a0000), (0xA4000058, 0x03400008), (0xA400005C, 0)]"
| "RPU_MCU_BOOT_VECTORS RPU_PROC_TYPE_MCU_UMAC =
     [(0xA4000150, 0x3c1a8000), (0xA4000154, 0x275a0000), (0xA4000158, 0x03400008), (0xA400015C, 0)]"
| "RPU_MCU_BOOT_VECTORS RPU_PROC_TYPE_MAX = []"

definition hal_fw_patch_chunk_load ::
    "os \<Rightarrow> rpu_proc \<Rightarrow> u32 \<Rightarrow> u8 list \<Rightarrow> hal \<Rightarrow> (nrf_status \<times> hal) option" where
  "hal_fw_patch_chunk_load os rpu_proc dest_addr fw_chunk_data s = do {
     (st, s) \<leftarrow> hal_rpu_mem_write os dest_addr fw_chunk_data (s\<lparr>curr_proc := rpu_proc\<rparr>);
     Some (st, s\<lparr>curr_proc := RPU_PROC_TYPE_MCU_LMAC\<rparr>)
   }"

definition last_chunk_size :: "u8 list \<Rightarrow> nat" where
  "last_chunk_size fw = length fw mod MAX_PATCH_CHUNK_SIZE"

definition num_chunks :: "u8 list \<Rightarrow> nat" where
  "num_chunks fw = length fw div MAX_PATCH_CHUNK_SIZE + (if last_chunk_size fw \<noteq> 0 then 1 else 0)"

text \<open>The bytes of a chunk, as the loop computes its size.\<close>

definition patch_chunk :: "u8 list \<Rightarrow> nat \<Rightarrow> u8 list" where
  "patch_chunk fw chunk =
    take (if chunk + 1 = num_chunks fw then last_chunk_size fw else MAX_PATCH_CHUNK_SIZE)
      (drop (chunk * MAX_PATCH_CHUNK_SIZE) fw)"

text \<open>One run of the loop's body for every chunk in the list, until one fails.\<close>

fun patch_load_loop :: "os \<Rightarrow> rpu_proc \<Rightarrow> u32 \<Rightarrow> u8 list \<Rightarrow> nat list \<Rightarrow> nrf_status \<Rightarrow> hal \<Rightarrow>
    (nrf_status \<times> hal) option" where
  "patch_load_loop os rpu_proc dest_addr fw [] st s = Some (st, s)"
| "patch_load_loop os rpu_proc dest_addr fw (chunk # cs) st s =
    (let (ok, s) = osal_alloc os OBJ_FW_CHUNK s in
     if \<not> ok then Some (FAIL, s)
     else do {
       (st, s) \<leftarrow> hal_fw_patch_chunk_load os rpu_proc (dest_addr + of_nat (chunk * MAX_PATCH_CHUNK_SIZE))
         (patch_chunk fw chunk) s;
       let s = emit (IoFree OBJ_FW_CHUNK) s;
       if st \<noteq> SUCCESS then Some (st, s) else patch_load_loop os rpu_proc dest_addr fw cs st s
     })"

definition hal_fw_patch_load ::
    "os \<Rightarrow> rpu_proc \<Rightarrow> u32 \<Rightarrow> u8 list \<Rightarrow> hal \<Rightarrow> (nrf_status \<times> hal) option" where
  "hal_fw_patch_load os rpu_proc dest_addr fw s =
    patch_load_loop os rpu_proc dest_addr fw [0..<num_chunks fw] FAIL s"

definition nrf_wifi_hal_fw_patch_load ::
    "os \<Rightarrow> rpu_proc \<Rightarrow> u8 list option \<Rightarrow> u8 list option \<Rightarrow> hal \<Rightarrow> (nrf_status \<times> hal) option" where
  "nrf_wifi_hal_fw_patch_load os rpu_proc pri sec s = do {
     (st, s) \<leftarrow> (case (pri, sec) of
       (Some p, Some q) \<Rightarrow>
         let s = s\<lparr>curr_proc := rpu_proc\<rparr> in
         (case rpu_proc of
            RPU_PROC_TYPE_MAX \<Rightarrow> Some (FAIL, s)
          | _ \<Rightarrow> let (pri_dest, sec_dest) = (if rpu_proc = RPU_PROC_TYPE_MCU_LMAC
                      then (RPU_MEM_LMAC_PATCH_BIMG, RPU_MEM_LMAC_PATCH_BIN)
                      else (RPU_MEM_UMAC_PATCH_BIMG, RPU_MEM_UMAC_PATCH_BIN))
            in do {
              (st, s) \<leftarrow> hal_fw_patch_load os rpu_proc pri_dest p s;
              if st \<noteq> SUCCESS then Some (st, s) else hal_fw_patch_load os rpu_proc sec_dest q s
            })
     | _ \<Rightarrow> Some (FAIL, s));
     Some (st, s\<lparr>curr_proc := RPU_PROC_TYPE_MCU_LMAC\<rparr>)
   }"

fun boot_vector_loop :: "os \<Rightarrow> (u32 \<times> u32) list \<Rightarrow> nrf_status \<Rightarrow> hal \<Rightarrow> (nrf_status \<times> hal) option" where
  "boot_vector_loop os [] st s = Some (st, s)"
| "boot_vector_loop os ((a, v) # vs) st s = do {
     (st, s) \<leftarrow> hal_rpu_reg_write os a v s;
     if st \<noteq> SUCCESS then Some (st, s) else boot_vector_loop os vs st s
   }"

definition nrf_wifi_hal_fw_patch_boot :: "os \<Rightarrow> rpu_proc \<Rightarrow> bool \<Rightarrow> hal \<Rightarrow> (nrf_status \<times> hal) option" where
  "nrf_wifi_hal_fw_patch_boot os rpu_proc is_patch_present s = do {
     (st, s) \<leftarrow>
       (if rpu_proc = RPU_PROC_TYPE_MAX then Some (FAIL, s)
        else let (boot_sig_addr, run_addr, sleepctrl_addr, sleepctrl_val) =
               (if rpu_proc = RPU_PROC_TYPE_MCU_LMAC
                then (RPU_MEM_LMAC_BOOT_SIG, RPU_REG_MIPS_MCU_CONTROL, RPU_REG_UCC_SLEEP_CTRL_DATA_0,
                      NRF_WIFI_LMAC_ROM_PATCH_OFFSET)
                else (RPU_MEM_UMAC_BOOT_SIG, RPU_REG_MIPS_MCU2_CONTROL, RPU_REG_UCC_SLEEP_CTRL_DATA_1,
                      NRF_WIFI_UMAC_ROM_PATCH_OFFSET))
        in do {
          (st, s) \<leftarrow> hal_rpu_mem_write os boot_sig_addr (le32_bytes 0) (s\<lparr>curr_proc := rpu_proc\<rparr>);
          if st \<noteq> SUCCESS then Some (st, s)
          else do {
            (st, s) \<leftarrow> (if is_patch_present then hal_rpu_reg_write os sleepctrl_addr sleepctrl_val s
                        else Some (st, s));
            if st \<noteq> SUCCESS then Some (st, s)
            else do {
              (st, s) \<leftarrow> boot_vector_loop os (RPU_MCU_BOOT_VECTORS rpu_proc) st s;
              if st \<noteq> SUCCESS then Some (st, s) else hal_rpu_reg_write os run_addr 1 s
            }
          }
        });
     Some (st, s\<lparr>curr_proc := RPU_PROC_TYPE_MCU_LMAC\<rparr>)
   }"

section \<open>What reaches the bus\<close>

text \<open>An address in the core memories and where the host sees it.\<close>

definition core_addr :: "u32 \<Rightarrow> bool" where
  "core_addr a = (a AND RPU_ADDR_MASK_BASE = 0x80000000)"

definition host_addr :: "hal \<Rightarrow> rpu_proc \<Rightarrow> u32 \<Rightarrow> u32" where
  "host_addr s p a = bus_host_addr_base s + (SOC_MMAP_ADDR_OFFSETS_MCU p + (a AND RPU_ADDR_MASK_OFFSET))"

lemma core_addr_range: "core_addr a = (0x80000000 \<le> unat a \<and> unat a < 0x81000000)"
proof -
  have "core_addr a = (unat a div 16777216 * 16777216 = 0x80000000)"
    by (simp add: core_addr_def pal_base_is)
  also have "\<dots> = (unat a div 16777216 = 128)" by simp
  also have "\<dots> = (0x80000000 \<le> unat a \<and> unat a < 0x81000000)"
    using div_mod_range [of 128 "unat a"] div_mult_mod_eq [of "unat a" 16777216]
      mod_less_divisor [of 16777216 "unat a"] by (intro iffI) linarith+
  finally show ?thesis .
qed

lemma mem_write_core_direct:
  assumes "hal_rpu_mem_write os a bs s = Some (SUCCESS, t)" "core_addr a"
  shows "ps_op s t \<and> accs (w_trace t) = IoWriteBlock (host_addr s (curr_proc s) a) bs # accs (w_trace s)"
proof -
  have r: "0x80000000 \<le> unat a" "unat a < 0x81000000" using assms(2) by (simp_all add: core_addr_range)
  have ram: "\<not> hal_rpu_is_mem_ram p a" for p
    using r by (simp add: hal_rpu_is_mem_ram_def u32_le_iff)
  have bev: "\<not> hal_rpu_is_mem_bev a" using r by (simp add: hal_rpu_is_mem_bev_def u32_le_iff)
  have base: "a AND 0xFF000000 = 0x80000000" using assms(2) by (simp add: core_addr_def)
  have ind: "\<not> hal_rpu_is_mem_core_indirect p a" for p
    by (simp add: hal_rpu_is_mem_core_indirect_def base)
  have w: "rpu_mem_write_ram os a bs s = Some (SUCCESS, t)" and m: "pal_check_rpu_mcu_regions (curr_proc s) a"
    using assms(1) ram bev ind
    by (auto simp: hal_rpu_mem_write_def hal_rpu_is_mem_writable_def hal_rpu_is_mem_core_direct_def split: if_splits)
  have "pal_rpu_addr_offset_get a (curr_proc s) = Some (SOC_MMAP_ADDR_OFFSETS_MCU (curr_proc s) + (a AND RPU_ADDR_MASK_OFFSET))"
    using m r by (simp add: pal_rpu_addr_offset_get_def base Let_def u32_le_iff)
  with sat_SomeD [OF mem_write_ram_sat w] show ?thesis by (auto simp: host_addr_def)
qed


lemma chunk_load_accs:
  assumes "hal_fw_patch_chunk_load os p a bs s = Some (SUCCESS, t)" "core_addr a"
  shows "bus_host_addr_base t = bus_host_addr_base s \<and>
    accs (w_trace t) = IoWriteBlock (host_addr s p a) bs # accs (w_trace s)"
proof -
  obtain u where u: "hal_rpu_mem_write os a bs (s\<lparr>curr_proc := p\<rparr>) = Some (SUCCESS, u)"
    "t = u\<lparr>curr_proc := RPU_PROC_TYPE_MCU_LMAC\<rparr>"
    using assms(1) unfolding hal_fw_patch_chunk_load_def by (rule bind2E) auto
  from mem_write_core_direct [OF u(1) assms(2)] u(2) show ?thesis
    by (auto simp: host_addr_def dest!: ps_op_frame ps_frame_fields(2))
qed

definition patch_writes :: "hal \<Rightarrow> rpu_proc \<Rightarrow> u32 \<Rightarrow> u8 list \<Rightarrow> io list" where
  "patch_writes s p dest fw = map (\<lambda>k. IoWriteBlock
     (host_addr s p (dest + of_nat (k * MAX_PATCH_CHUNK_SIZE))) (patch_chunk fw k)) [0..<num_chunks fw]"

lemma patch_load_loop_accs:
  assumes "patch_load_loop os p dest fw ks st s = Some (SUCCESS, t)"
    and "\<And>k. k \<in> set ks \<Longrightarrow> core_addr (dest + of_nat (k * MAX_PATCH_CHUNK_SIZE))"
  shows "bus_host_addr_base t = bus_host_addr_base s \<and> rev (accs (w_trace t)) = rev (accs (w_trace s)) @
    map (\<lambda>k. IoWriteBlock (host_addr s p (dest + of_nat (k * MAX_PATCH_CHUNK_SIZE))) (patch_chunk fw k)) ks"
  using assms
proof (induction ks arbitrary: st s)
  case Nil
  then show ?case by simp
next
  case (Cons k ks)
  have "os_alloc os (w_trace s) OBJ_FW_CHUNK" using Cons.prems(1) by (auto simp: osal_alloc_def Let_def split: if_splits)
  with Cons.prems(1) have "Option.bind (hal_fw_patch_chunk_load os p (dest + of_nat (k * MAX_PATCH_CHUNK_SIZE)) (patch_chunk fw k)
      (emit (IoAlloc OBJ_FW_CHUNK True) s)) (\<lambda>(st, s). let s = emit (IoFree OBJ_FW_CHUNK) s in
       if st \<noteq> SUCCESS then Some (st, s) else patch_load_loop os p dest fw ks st s) = Some (SUCCESS, t)"
    by (simp add: osal_alloc_def Let_def)
  then obtain u where u: "hal_fw_patch_chunk_load os p (dest + of_nat (k * MAX_PATCH_CHUNK_SIZE)) (patch_chunk fw k)
      (emit (IoAlloc OBJ_FW_CHUNK True) s) = Some (SUCCESS, u)"
    "patch_load_loop os p dest fw ks SUCCESS (emit (IoFree OBJ_FW_CHUNK) u) = Some (SUCCESS, t)"
    by (rule bind2E) (auto simp: Let_def split: if_splits)
  from chunk_load_accs [OF u(1)] Cons.prems(2)
  have c: "bus_host_addr_base u = bus_host_addr_base s" "accs (w_trace u) =
      IoWriteBlock (host_addr s p (dest + of_nat (k * MAX_PATCH_CHUNK_SIZE))) (patch_chunk fw k) # accs (w_trace s)"
    by (simp_all add: host_addr_def)
  from Cons.IH [OF u(2)] Cons.prems(2) c show ?case by (simp add: host_addr_def)
qed

text \<open>The chunks of a patch, put together.\<close>

lemma concat_chunks:
  "concat (map (\<lambda>k. take n (drop (k * n) xs)) [0..<m]) = take (m * n) xs"
proof (induction m)
  case (Suc m)
  then show ?case by (simp add: take_add [symmetric] add.commute)
qed simp

lemma concat_patch_chunks:
  "concat (map (patch_chunk fw) [0..<num_chunks fw]) =
   (if length fw mod MAX_PATCH_CHUNK_SIZE = 0 then take (length fw - MAX_PATCH_CHUNK_SIZE) fw else fw)"
proof -
  define m where "m = num_chunks fw - 1"
  show ?thesis
  proof (cases "num_chunks fw")
    case 0
    then have "length fw < 8192" by (auto simp: num_chunks_def div_eq_0_iff split: if_splits)
    with 0 show ?thesis by (auto simp: num_chunks_def last_chunk_size_def split: if_splits)
  next
    case (Suc m)
    have head: "map (patch_chunk fw) [0..<m] = map (\<lambda>k. take 8192 (drop (k * 8192) fw)) [0..<m]"
      using Suc by (simp add: patch_chunk_def)
    have "concat (map (patch_chunk fw) [0..<num_chunks fw]) =
        take (m * 8192) fw @ take (last_chunk_size fw) (drop (m * 8192) fw)"
      using Suc by (simp add: head concat_chunks) (simp add: patch_chunk_def)
    also have "\<dots> = take (m * 8192 + last_chunk_size fw) fw"
      by (simp add: take_add)
    also have "\<dots> = (if length fw mod 8192 = 0 then take (length fw - 8192) fw else fw)"
    proof (cases "length fw mod 8192 = 0")
      case True
      then have "length fw = Suc m * 8192"
        using Suc div_mult_mod_eq [of "length fw" 8192] by (simp add: num_chunks_def last_chunk_size_def)
      then show ?thesis using True by (simp add: last_chunk_size_def)
    next
      case False
      then have "length fw = m * 8192 + last_chunk_size fw"
        using Suc div_mult_mod_eq [of "length fw" 8192] by (simp add: num_chunks_def last_chunk_size_def)
      then show ?thesis using False by simp
    qed
    finally show ?thesis .
  qed
qed


lemma core_addr_chunk:
  assumes "0x80000000 \<le> unat dest" "unat dest + length fw < 0x81000000" "k < num_chunks fw"
  shows "core_addr (dest + of_nat (k * MAX_PATCH_CHUNK_SIZE))"
proof -
  have "k * 8192 \<le> length fw"
    using assms(3) div_mult_mod_eq [of "length fw" 8192]
    by (simp add: num_chunks_def last_chunk_size_def split: if_splits)
  then have k: "unat dest + k * 8192 < 0x81000000" using assms(2) by linarith
  then have "unat (of_nat (k * 8192) :: u32) = k * 8192" by (intro unat_of_nat_small) simp
  then have "unat (dest + of_nat (k * 8192)) = unat dest + k * 8192"
    using k by (subst unat_add_small) simp_all
  then show ?thesis unfolding core_addr_range using assms(1) k by linarith
qed

lemma fw_patch_load_accs:
  assumes "hal_fw_patch_load os p dest fw s = Some (SUCCESS, t)"
    and "0x80000000 \<le> unat dest" "unat dest + length fw < 0x81000000"
  shows "bus_host_addr_base t = bus_host_addr_base s \<and>
    rev (accs (w_trace t)) = rev (accs (w_trace s)) @ patch_writes s p dest fw"
  using patch_load_loop_accs [OF assms(1) [unfolded hal_fw_patch_load_def]] core_addr_chunk [OF assms(2,3)]
  by (simp add: patch_writes_def)

section \<open>Properties\<close>

text \<open>C26 Loading the two patches of a processor, when it succeeds, is one block write per chunk, the
  primary patch first, each at its place behind the patch's address in the memory of the processor, and no
  other access. Put together the blocks of a patch are its bytes, unless its size is a multiple of the
  chunk size: then the last chunk is computed to be empty and the last 8192 bytes are never written.\<close>

theorem patch_load_writes:
  assumes "nrf_wifi_hal_fw_patch_load os p (Some pri) (Some sec) s = Some (SUCCESS, t)"
    and "length pri < 0x100000" "length sec < 0x100000"
  shows "rev (accs (w_trace t)) = rev (accs (w_trace s)) @
      (if p = RPU_PROC_TYPE_MCU_LMAC
       then patch_writes s p RPU_MEM_LMAC_PATCH_BIMG pri @ patch_writes s p RPU_MEM_LMAC_PATCH_BIN sec
       else patch_writes s p RPU_MEM_UMAC_PATCH_BIMG pri @ patch_writes s p RPU_MEM_UMAC_PATCH_BIN sec) \<and>
    concat (map (patch_chunk pri) [0..<num_chunks pri]) =
      (if length pri mod MAX_PATCH_CHUNK_SIZE = 0 then take (length pri - MAX_PATCH_CHUNK_SIZE) pri else pri)"
proof -
  have sizes: "unat d + length fw < 0x81000000" if "unat d \<le> 0x8009B800" "length fw < 0x100000" for d :: u32 and fw :: "u8 list"
    using that by linarith
  define d1 where "d1 = (if p = RPU_PROC_TYPE_MCU_LMAC then RPU_MEM_LMAC_PATCH_BIMG else RPU_MEM_UMAC_PATCH_BIMG)"
  define d2 where "d2 = (if p = RPU_PROC_TYPE_MCU_LMAC then RPU_MEM_LMAC_PATCH_BIN else RPU_MEM_UMAC_PATCH_BIN)"
  have d: "unat d1 \<le> 0x8009B800" "0x80000000 \<le> unat d1" "unat d2 \<le> 0x8009B800" "0x80000000 \<le> unat d2"
    by (simp_all add: d1_def d2_def)
  have "\<exists>u w. hal_fw_patch_load os p d1 pri (s\<lparr>curr_proc := p\<rparr>) = Some (SUCCESS, u) \<and>
      hal_fw_patch_load os p d2 sec u = Some (SUCCESS, w) \<and> t = w\<lparr>curr_proc := RPU_PROC_TYPE_MCU_LMAC\<rparr>"
    using assms(1) unfolding nrf_wifi_hal_fw_patch_load_def
    by (cases p) (auto simp: d1_def d2_def Let_def elim!: bind2E split: if_splits)
  then obtain u w where u: "hal_fw_patch_load os p d1 pri (s\<lparr>curr_proc := p\<rparr>) = Some (SUCCESS, u)"
    "hal_fw_patch_load os p d2 sec u = Some (SUCCESS, w)" "t = w\<lparr>curr_proc := RPU_PROC_TYPE_MCU_LMAC\<rparr>" by blast
  have "rev (accs (w_trace t)) = rev (accs (w_trace s)) @ patch_writes s p d1 pri @ patch_writes s p d2 sec"
    using fw_patch_load_accs [OF u(1) d(2) sizes [OF d(1) assms(2)]]
      fw_patch_load_accs [OF u(2) d(4) sizes [OF d(3) assms(3)]] u(3)
    by (simp add: patch_writes_def host_addr_def)
  then show ?thesis by (simp add: d1_def d2_def concat_patch_chunks)
qed


lemma chunk_load_unbooted:
  assumes "\<not> rpu_fw_booted s" "core_addr a" "pal_check_rpu_mcu_regions p a"
  shows "\<exists>t. hal_fw_patch_chunk_load os p a bs s = Some (SUCCESS, t) \<and> \<not> rpu_fw_booted t \<and> only_trace (s\<lparr>curr_proc := RPU_PROC_TYPE_MCU_LMAC\<rparr>) t"
proof -
  have r: "0x80000000 \<le> unat a" "unat a < 0x81000000" using assms(2) by (simp_all add: core_addr_range)
  have base: "a AND 0xFF000000 = 0x80000000" using assms(2) by (simp add: core_addr_def)
  have "pal_rpu_addr_offset_get a p = Some (SOC_MMAP_ADDR_OFFSETS_MCU p + (a AND RPU_ADDR_MASK_OFFSET))"
    using assms(3) r by (simp add: pal_rpu_addr_offset_get_def base Let_def u32_le_iff)
  then show ?thesis
    using assms(1,3) by (simp add: hal_fw_patch_chunk_load_def hal_rpu_mem_write_def hal_rpu_is_mem_writable_def
        hal_rpu_is_mem_core_direct_def hal_rpu_is_mem_core_indirect_def base rpu_mem_write_ram_def
        hal_ps_access_def wake_unbooted bal_write_block only_trace_def)
qed

text \<open>A primary patch of exactly one chunk: nothing of it is written.\<close>

theorem patch_load_writes_witness:
  "\<exists>t. nrf_wifi_hal_fw_patch_load demo_os RPU_PROC_TYPE_MCU_UMAC (Some (replicate 8192 7)) (Some [1, 2, 3, 4]) hal_cold
      = Some (SUCCESS, t) \<and>
    rev (accs (w_trace t)) = [IoWriteBlock 0x4029B800 [], IoWriteBlock 0x4028C000 [1, 2, 3, 4]]"
proof -
  have al: "os_alloc demo_os tr x" for tr x by (simp add: tick_os_def)
  have cold: "\<not> rpu_fw_booted hal_cold" by (simp add: hal_cold_def)
  have n: "num_chunks (replicate 8192 (7::u8)) = 1" "num_chunks [1, 2, 3, 4 :: u8] = 1"
    "patch_chunk (replicate 8192 7) 0 = []" "patch_chunk [1, 2, 3, 4 :: u8] 0 = [1, 2, 3, 4]"
    by (simp_all add: num_chunks_def last_chunk_size_def patch_chunk_def)
  have a: "core_addr 0x8009B800" "core_addr 0x8008C000"
    "pal_check_rpu_mcu_regions RPU_PROC_TYPE_MCU_UMAC 0x8009B800"
    "pal_check_rpu_mcu_regions RPU_PROC_TYPE_MCU_UMAC 0x8008C000"
    by (simp_all add: core_addr_def pal_check_rpu_mcu_regions_def)
  let ?s = "emit (IoAlloc OBJ_FW_CHUNK True) (hal_cold\<lparr>curr_proc := RPU_PROC_TYPE_MCU_UMAC\<rparr>)"
  obtain t1 where t1: "hal_fw_patch_chunk_load demo_os RPU_PROC_TYPE_MCU_UMAC 0x8009B800 [] ?s = Some (SUCCESS, t1)"
    "\<not> rpu_fw_booted t1"
    using chunk_load_unbooted [of ?s, OF _ a(1,3)] cold by auto
  let ?t = "emit (IoAlloc OBJ_FW_CHUNK True) (emit (IoFree OBJ_FW_CHUNK) t1)"
  obtain t2 where t2: "hal_fw_patch_chunk_load demo_os RPU_PROC_TYPE_MCU_UMAC 0x8008C000 [1, 2, 3, 4] ?t = Some (SUCCESS, t2)"
    using chunk_load_unbooted [of ?t, OF _ a(2,4)] t1(2) by auto
  have "\<exists>t. nrf_wifi_hal_fw_patch_load demo_os RPU_PROC_TYPE_MCU_UMAC (Some (replicate 8192 7)) (Some [1, 2, 3, 4]) hal_cold
      = Some (SUCCESS, t)"
    using t1 t2 by (simp add: nrf_wifi_hal_fw_patch_load_def hal_fw_patch_load_def n osal_alloc_def al Let_def)
  then obtain t where t: "nrf_wifi_hal_fw_patch_load demo_os RPU_PROC_TYPE_MCU_UMAC (Some (replicate 8192 7)) (Some [1, 2, 3, 4]) hal_cold
      = Some (SUCCESS, t)" by blast
  from patch_load_writes [OF t] have
    "rev (accs (w_trace t)) = [IoWriteBlock 0x4029B800 [], IoWriteBlock 0x4028C000 [1, 2, 3, 4]]"
    by (simp add: patch_writes_def n host_addr_def hal_cold_def hal_demo_def)
  with t show ?thesis by blast
qed

text \<open>Starting a processor.\<close>

definition boot_writes :: "hal \<Rightarrow> rpu_proc \<Rightarrow> bool \<Rightarrow> io list" where
  "boot_writes s p patched =
    (let b = bus_host_addr_base s; lmac = (p = RPU_PROC_TYPE_MCU_LMAC) in
     IoWriteBlock (b + (if lmac then 0x80D50 else 0xC0000)) [0, 0, 0, 0] #
     (if patched then [IoWrite32 (b + (if lmac then 0x2C2C else 0x2C30)) (if lmac then 0xBBC0 else 0x1B800)] else []) @
     map (\<lambda>(r, v). IoWrite32 (b + ((if lmac then 0x50 else 0x150) + r)) v)
       [(0, 0x3c1a8000), (4, 0x275a0000), (8, 0x03400008), (12, 0)] @
     [IoWrite32 (b + (if lmac then 0 else 0x100)) 1])"

lemma reg_write_accs:
  assumes "hal_rpu_reg_write os a v s = Some (SUCCESS, t)" "a AND RPU_ADDR_MASK_BASE = RPU_ADDR_SBUS_START"
  shows "bus_host_addr_base t = bus_host_addr_base s \<and>
    accs (w_trace t) = IoWrite32 (bus_host_addr_base s + (a AND RPU_ADDR_MASK_OFFSET)) v # accs (w_trace s)"
  using sat_SomeD [OF reg_write_sat assms(1)] pal_sbus [OF assms(2), of "curr_proc s"]
  by (auto dest!: ps_op_frame ps_frame_fields(2))

lemma boot_vector_loop_accs:
  assumes "boot_vector_loop os vs st s = Some (SUCCESS, t)"
    "\<forall>(a, v) \<in> set vs. a AND RPU_ADDR_MASK_BASE = RPU_ADDR_SBUS_START"
  shows "bus_host_addr_base t = bus_host_addr_base s \<and> rev (accs (w_trace t)) = rev (accs (w_trace s)) @
    map (\<lambda>(a, v). IoWrite32 (bus_host_addr_base s + (a AND RPU_ADDR_MASK_OFFSET)) v) vs"
  using assms
proof (induction vs arbitrary: st s)
  case (Cons av vs)
  obtain a v where av: "av = (a, v)" by fastforce
  with Cons.prems(1) obtain u where u: "hal_rpu_reg_write os a v s = Some (SUCCESS, u)"
    "boot_vector_loop os vs SUCCESS u = Some (SUCCESS, t)"
    by (auto elim!: bind2E split: if_splits)
  from reg_write_accs [OF u(1)] Cons.IH [OF u(2)] Cons.prems(2) av show ?case by simp
qed simp

lemma boot_sig_accs:
  assumes "hal_rpu_mem_write os a bs s = Some (SUCCESS, t)" "a = RPU_MEM_LMAC_BOOT_SIG \<or> a = RPU_MEM_UMAC_BOOT_SIG"
  shows "bus_host_addr_base t = bus_host_addr_base s \<and> accs (w_trace t) = IoWriteBlock (bus_host_addr_base s +
    (if a = RPU_MEM_LMAC_BOOT_SIG then 0x80D50 else 0xC0000)) bs # accs (w_trace s)"
proof -
  have "rpu_mem_write_ram os a bs s = Some (SUCCESS, t)"
    using assms by (auto simp: hal_rpu_mem_write_def hal_rpu_is_mem_writable_def hal_rpu_is_mem_ram_def
        hal_rpu_is_mem_core_indirect_def)
  moreover have "pal_rpu_addr_offset_get RPU_MEM_LMAC_BOOT_SIG p = Some 0x80D50"
    "pal_rpu_addr_offset_get RPU_MEM_UMAC_BOOT_SIG p = Some 0xC0000" for p
    by (simp_all add: pal_rpu_addr_offset_get_def)
  ultimately show ?thesis
    using assms(2) by (auto dest!: sat_SomeD [OF mem_write_ram_sat] ps_op_frame ps_frame_fields(2))
qed

text \<open>Starting a processor, when it succeeds, is exactly this sequence of writes: the boot signature is
  cleared first, then, if a patch is present, the address of the patch goes to the sleep control register,
  then the four boot vectors, and the write that lets the processor run comes last.\<close>

theorem patch_boot_conversation:
  assumes "nrf_wifi_hal_fw_patch_boot os p patched s = Some (SUCCESS, t)"
  shows "p \<noteq> RPU_PROC_TYPE_MAX \<and>
    rev (accs (w_trace t)) = rev (accs (w_trace s)) @ boot_writes s p patched"
proof -
  have p: "p \<noteq> RPU_PROC_TYPE_MAX" using assms by (auto simp: nrf_wifi_hal_fw_patch_boot_def)
  define lmac where "lmac = (p = RPU_PROC_TYPE_MCU_LMAC)"
  define sig where "sig = (if lmac then RPU_MEM_LMAC_BOOT_SIG else RPU_MEM_UMAC_BOOT_SIG)"
  define run where "run = (if lmac then RPU_REG_MIPS_MCU_CONTROL else RPU_REG_MIPS_MCU2_CONTROL)"
  define sl where "sl = (if lmac then RPU_REG_UCC_SLEEP_CTRL_DATA_0 else RPU_REG_UCC_SLEEP_CTRL_DATA_1)"
  define sv where "sv = (if lmac then NRF_WIFI_LMAC_ROM_PATCH_OFFSET else NRF_WIFI_UMAC_ROM_PATCH_OFFSET)"
  obtain s1 s2 s3 s4 where w:
    "hal_rpu_mem_write os sig (le32_bytes 0) (s\<lparr>curr_proc := p\<rparr>) = Some (SUCCESS, s1)"
    "if patched then hal_rpu_reg_write os sl sv s1 = Some (SUCCESS, s2) else s2 = s1"
    "boot_vector_loop os (RPU_MCU_BOOT_VECTORS p) SUCCESS s2 = Some (SUCCESS, s3)"
    "hal_rpu_reg_write os run 1 s3 = Some (SUCCESS, s4)" "t = s4\<lparr>curr_proc := RPU_PROC_TYPE_MCU_LMAC\<rparr>"
    using assms p unfolding nrf_wifi_hal_fw_patch_boot_def sig_def run_def sl_def sv_def
    by (cases p) (auto simp: lmac_def elim!: bind2E split: if_splits)
  have v: "\<forall>(a, v) \<in> set (RPU_MCU_BOOT_VECTORS p). a AND RPU_ADDR_MASK_BASE = RPU_ADDR_SBUS_START"
    by (cases p) simp_all
  have r: "run AND RPU_ADDR_MASK_BASE = RPU_ADDR_SBUS_START" "sl AND RPU_ADDR_MASK_BASE = RPU_ADDR_SBUS_START"
    by (simp_all add: run_def sl_def)
  note a1 = boot_sig_accs [OF w(1)] and a3 = boot_vector_loop_accs [OF w(3) v] and a4 = reg_write_accs [OF w(4) r(1)]
  have a2: "bus_host_addr_base s2 = bus_host_addr_base s1 \<and> rev (accs (w_trace s2)) = rev (accs (w_trace s1)) @
      (if patched then [IoWrite32 (bus_host_addr_base s1 + (sl AND RPU_ADDR_MASK_OFFSET)) sv] else [])"
    using w(2) reg_write_accs [OF _ r(2), of os sv s1 s2] by (cases patched) auto
  show ?thesis
    using a1 a2 a3 a4 w(5) p
    by (cases p) (simp_all add: boot_writes_def Let_def lmac_def sig_def run_def sl_def sv_def le32_bytes_def add.assoc)
qed


lemma reg_write_unbooted_sbus:
  assumes "\<not> rpu_fw_booted s" "a AND RPU_ADDR_MASK_BASE = RPU_ADDR_SBUS_START"
  shows "\<exists>t. hal_rpu_reg_write os a v s = Some (SUCCESS, t) \<and> \<not> rpu_fw_booted t"
  using assms pal_sbus [OF assms(2), of "curr_proc s"]
  by (simp add: reg_write_unbooted hal_rpu_is_reg_def)

lemma boot_vector_loop_unbooted:
  assumes "\<not> rpu_fw_booted s" "\<forall>(a, v) \<in> set vs. a AND RPU_ADDR_MASK_BASE = RPU_ADDR_SBUS_START"
  shows "\<exists>t. boot_vector_loop os vs SUCCESS s = Some (SUCCESS, t) \<and> \<not> rpu_fw_booted t"
  using assms
proof (induction vs arbitrary: s)
  case (Cons av vs)
  obtain a v where av: "av = (a, v)" by fastforce
  obtain u where u: "hal_rpu_reg_write os a v s = Some (SUCCESS, u)" "\<not> rpu_fw_booted u"
    using reg_write_unbooted_sbus [OF Cons.prems(1), of a os v] Cons.prems(2) av by auto
  with Cons.IH [OF u(2)] Cons.prems(2) av show ?case by simp
qed simp

lemma patch_boot_unbooted:
  assumes "\<not> rpu_fw_booted s"
  shows "\<exists>t. nrf_wifi_hal_fw_patch_boot os RPU_PROC_TYPE_MCU_LMAC False s = Some (SUCCESS, t)"
proof -
  have "\<exists>t. hal_rpu_mem_write os RPU_MEM_LMAC_BOOT_SIG (le32_bytes 0) (s\<lparr>curr_proc := RPU_PROC_TYPE_MCU_LMAC\<rparr>) = Some (SUCCESS, t) \<and> \<not> rpu_fw_booted t"
    using assms by (simp add: hal_rpu_mem_write_def hal_rpu_is_mem_writable_def hal_rpu_is_mem_ram_def
        hal_rpu_is_mem_core_indirect_def rpu_mem_write_ram_def pal_rpu_addr_offset_get_def
        hal_ps_access_def wake_unbooted bal_write_block)
  then obtain t where t: "hal_rpu_mem_write os RPU_MEM_LMAC_BOOT_SIG (le32_bytes 0) (s\<lparr>curr_proc := RPU_PROC_TYPE_MCU_LMAC\<rparr>) = Some (SUCCESS, t)"
    "\<not> rpu_fw_booted t" by blast
  obtain u where u: "boot_vector_loop os (RPU_MCU_BOOT_VECTORS RPU_PROC_TYPE_MCU_LMAC) SUCCESS t = Some (SUCCESS, u)" "\<not> rpu_fw_booted u"
    using boot_vector_loop_unbooted [OF t(2), of "RPU_MCU_BOOT_VECTORS RPU_PROC_TYPE_MCU_LMAC" os] by auto
  obtain w where w: "hal_rpu_reg_write os RPU_REG_MIPS_MCU_CONTROL 1 u = Some (SUCCESS, w)"
    using reg_write_unbooted_sbus [OF u(2), of RPU_REG_MIPS_MCU_CONTROL] by auto
  from t(1) u(1) w show ?thesis
    by (simp add: nrf_wifi_hal_fw_patch_boot_def del: RPU_MCU_BOOT_VECTORS.simps boot_vector_loop.simps)
qed

theorem patch_boot_conversation_witness:
  "\<exists>t. nrf_wifi_hal_fw_patch_boot demo_os RPU_PROC_TYPE_MCU_LMAC False hal_cold = Some (SUCCESS, t) \<and>
    rev (accs (w_trace t)) = [IoWriteBlock 0x40080D50 [0, 0, 0, 0], IoWrite32 0x40000050 0x3c1a8000,
      IoWrite32 0x40000054 0x275a0000, IoWrite32 0x40000058 0x03400008, IoWrite32 0x4000005C 0, IoWrite32 0x40000000 1]"
proof -
  have "\<not> rpu_fw_booted hal_cold" by (simp add: hal_cold_def)
  then obtain t where t: "nrf_wifi_hal_fw_patch_boot demo_os RPU_PROC_TYPE_MCU_LMAC False hal_cold = Some (SUCCESS, t)"
    using patch_boot_unbooted [of hal_cold demo_os] by blast
  from patch_boot_conversation [OF t] have
    "rev (accs (w_trace t)) = [IoWriteBlock 0x40080D50 [0, 0, 0, 0], IoWrite32 0x40000050 0x3c1a8000,
      IoWrite32 0x40000054 0x275a0000, IoWrite32 0x40000058 0x03400008, IoWrite32 0x4000005C 0, IoWrite32 0x40000000 1]"
    by (simp add: boot_writes_def Let_def hal_cold_def hal_demo_def)
  with t show ?thesis by blast
qed

end
