(* ===== verification/Fmac_State.thy ===== *)
theory Fmac_State
  imports Fw_Patch
begin

text \<open>The device context of the FMAC (\<open>fw_if/umac_if/inc/system/fmac_structs.h\<close> and
  \<open>fmac_structs_common.h\<close>) for the system mode with \<open>NRF70_STA_MODE\<close> and \<open>NRF70_DATA_TX\<close>, without
  raw transmission, raw reception, promiscuous mode and work queues. One record holds the fields
  of \<open>nrf_wifi_sys_fmac_dev_ctx\<close>, of its \<open>tx_config\<close> and of \<open>nrf_wifi_sys_fmac_priv\<close>, and, each in
  one field, the private parts of the modes for radio tests and offloaded raw transmission; the HAL
  context it points to is its first field. A queue of frames is the list of the frames, the
  queue of woken peers the list of their indices; a queue node is an object of the OS, so adding
  can fail.\<close>

abbreviation (input) MAX_PEERS :: nat where "MAX_PEERS \<equiv> 5"
abbreviation (input) MAX_SW_PEERS :: nat where "MAX_SW_PEERS \<equiv> 6"
abbreviation (input) MAX_NUM_VIFS :: nat where "MAX_NUM_VIFS \<equiv> 2"
abbreviation (input) MAX_NUM_STAS :: u8 where "MAX_NUM_STAS \<equiv> 2"
abbreviation (input) MAX_NUM_APS :: u8 where "MAX_NUM_APS \<equiv> 1"
abbreviation (input) NRF_WIFI_FMAC_AC_BK :: nat where "NRF_WIFI_FMAC_AC_BK \<equiv> 0"
abbreviation (input) NRF_WIFI_FMAC_AC_BE :: nat where "NRF_WIFI_FMAC_AC_BE \<equiv> 1"
abbreviation (input) NRF_WIFI_FMAC_AC_VI :: nat where "NRF_WIFI_FMAC_AC_VI \<equiv> 2"
abbreviation (input) NRF_WIFI_FMAC_AC_VO :: nat where "NRF_WIFI_FMAC_AC_VO \<equiv> 3"
abbreviation (input) NRF_WIFI_FMAC_AC_MC :: nat where "NRF_WIFI_FMAC_AC_MC \<equiv> 4"
abbreviation (input) NRF_WIFI_FMAC_AC_MAX :: nat where "NRF_WIFI_FMAC_AC_MAX \<equiv> 5"
abbreviation (input) TX_BUF_HEADROOM :: u32 where "TX_BUF_HEADROOM \<equiv> 52"
abbreviation (input) RX_BUF_HEADROOM :: u32 where "RX_BUF_HEADROOM \<equiv> 4"
abbreviation (input) RPU_MEM_UMAC_PEND_Q_BMP :: u32 where "RPU_MEM_UMAC_PEND_Q_BMP \<equiv> 0xB0004FBC"

datatype nrf_wifi_iftype =
    NRF_WIFI_IFTYPE_UNSPECIFIED | NRF_WIFI_IFTYPE_ADHOC | NRF_WIFI_IFTYPE_STATION
  | NRF_WIFI_IFTYPE_AP | NRF_WIFI_IFTYPE_AP_VLAN | NRF_WIFI_IFTYPE_WDS | NRF_WIFI_IFTYPE_MONITOR
  | NRF_WIFI_IFTYPE_MESH_POINT | NRF_WIFI_IFTYPE_P2P_CLIENT | NRF_WIFI_IFTYPE_P2P_GO
  | NRF_WIFI_IFTYPE_P2P_DEVICE | NRF_WIFI_IFTYPE_OCB | NRF_WIFI_TX_INJECTOR
  | NRF_WIFI_STA_TX_INJECTOR | NRF_WIFI_MONITOR_TX_INJECTOR | NRF_WIFI_STA_PROMISC
  | NRF_WIFI_STA_PROMISC_TX_INJECTOR

datatype nrf_wifi_fmac_twt_state = NRF_WIFI_FMAC_TWT_STATE_SLEEP | NRF_WIFI_FMAC_TWT_STATE_AWAKE

datatype nrf_wifi_fmac_tx_status = NRF_WIFI_FMAC_TX_STATUS_SUCCESS
  | NRF_WIFI_FMAC_TX_STATUS_QUEUED | NRF_WIFI_FMAC_TX_STATUS_FAIL

text \<open>\<open>NRF_WIFI_CLIENT_ACTIVE\<close> is 0.\<close>

abbreviation (input) NRF_WIFI_CLIENT_ACTIVE :: u8 where "NRF_WIFI_CLIENT_ACTIVE \<equiv> 0"
abbreviation (input) NRF_WIFI_CLIENT_PS_MODE :: u8 where "NRF_WIFI_CLIENT_PS_MODE \<equiv> 1"

record peers_info =
  peer_id :: int
  peer_if_idx :: u8
  ps_state :: u8
  is_legacy :: u8
  qos_supported :: u8
  pend_q_bmp :: u8
  ra_addr :: "u8 list"
  pairwise_cipher :: u32
  ps_token_count :: int
  authorized :: bool

record tx_pkt_info =
  pkt :: "nbuf list"
  pkt_peer_id :: int

record fmac_buf_map_info =
  buf_mapped :: bool
  buf_nwb :: "nbuf option"

record rpu_host_stats =
  total_tx_pkts :: "64 word"
  total_tx_done_pkts :: "64 word"
  total_tx_drop_pkts :: "64 word"
  total_rx_pkts :: "64 word"
  total_rx_drop_pkts :: "64 word"

record vif =
  vif_mac_addr :: "u8 list"
  groupwise_cipher :: int
  ifflags :: bool
  if_type :: nrf_wifi_iftype
  bssid :: "u8 list"

text \<open>A pointer to an interface context: NULL, valid, or to a context that was freed.\<close>

datatype vif_ptr = VIF_NULL | VIF_PTR vif | VIF_FREED

datatype nrf_wifi_op_mode = NRF_WIFI_OP_MODE_SYS | NRF_WIFI_OP_MODE_RT
  | NRF_WIFI_OP_MODE_OFF_RAW_TX | NRF_WIFI_OP_MODE_UNKNOWN

text \<open>The private part of the device context in the two other modes (\<open>radio_test/fmac_structs.h\<close> and
  \<open>offload_raw_tx/fmac_structs.h\<close>); the data of a capture is the memory of the caller, or \<open>None\<close> when
  the pointer is NULL.\<close>

record nrf_wifi_rt_fmac_dev_ctx =
  rf_test_type :: u32
  rf_test_cap_data :: "u8 list option"
  rf_test_cap_sz :: u32
  radio_cmd_done :: bool
  radio_cmd_status :: u32
  capture_status :: u8

record nrf_wifi_off_raw_tx_fmac_dev_ctx =
  off_raw_tx_cmd_status :: u32
  off_raw_tx_cmd_done :: bool

definition rt_priv_zero :: nrf_wifi_rt_fmac_dev_ctx where
  "rt_priv_zero = \<lparr>rf_test_type = 0, rf_test_cap_data = None, rf_test_cap_sz = 0, radio_cmd_done = False,
     radio_cmd_status = 0, capture_status = 0\<rparr>"

definition off_priv_zero :: nrf_wifi_off_raw_tx_fmac_dev_ctx where
  "off_priv_zero = \<lparr>off_raw_tx_cmd_status = 0, off_raw_tx_cmd_done = False\<rparr>"

record fmac =
  hal_dev_ctx :: hal
  op_mode :: nrf_wifi_op_mode
  patch_present :: "bool list"
  alpha2_valid :: bool
  alpha2 :: "u8 list"
  reg_chan_count :: u32
  reg_chan_info :: "u8 list option"
  waiting_for_reg_event :: bool
  reg_set_status :: int
  reg_change :: "u8 list option"
  fw_stats :: "u8 list option"
  max_tx_aggregation :: u8
  rx_buf_pools :: "rx_buf_pool_params list"
  rx_desc :: "u32 list"
  num_rx_bufs :: u32
  num_tx_tokens :: u8
  num_tx_tokens_per_ac :: u8
  num_tx_tokens_spare :: u8
  avail_ampdu_len_per_token :: u32
  max_tx_pending_qlen :: nat
  fw_boot_done :: bool
  fw_init_done :: bool
  fw_deinit_done :: bool
  stats_req :: bool
  vif_ctx :: "vif_ptr list"
  host_stats :: rpu_host_stats
  num_sta :: u8
  num_ap :: u8
  fmac_rx_info :: "fmac_buf_map_info list option"
  fmac_tx_info :: "fmac_buf_map_info list option"
  twt_sleep_status :: nrf_wifi_fmac_twt_state
  tx_lock :: bool
  peers :: "peers_info list"
  send_pkt_coalesce_count :: "u32 list"
  data_pending_txq :: "nbuf list list list"
  wakeup_client_q :: "nat list"
  buf_pool_bmp :: "u32 list"
  outstanding_descs :: "u32 list"
  curr_peer_opp :: "nat list"
  pkt_info :: "tx_pkt_info list"
  spare_desc_queue_map :: u32
  rt_priv :: nrf_wifi_rt_fmac_dev_ctx
  off_priv :: nrf_wifi_off_raw_tx_fmac_dev_ctx

text \<open>A peer slot after \<open>memset\<close>, before its \<open>peer_id\<close> is set to -1.\<close>

definition peer_zero :: peers_info where
  "peer_zero = \<lparr>peer_id = 0, peer_if_idx = 0, ps_state = 0, is_legacy = 0, qos_supported = 0,
     pend_q_bmp = 0, ra_addr = replicate 6 0, pairwise_cipher = 0, ps_token_count = 0,
     authorized = False\<rparr>"

abbreviation fmac_unmapped :: fmac_buf_map_info where
  "fmac_unmapped \<equiv> \<lparr>buf_mapped = False, buf_nwb = None\<rparr>"

section \<open>Access to the parts\<close>

text \<open>A HAL operation on the HAL context, an event of the trace, and the arrays: an index out of
  range, a NULL interface or one that was freed is undefined behaviour.\<close>

definition on_hal :: "(hal \<Rightarrow> ('a \<times> hal) option) \<Rightarrow> fmac \<Rightarrow> ('a \<times> fmac) option" where
  "on_hal f s = do { (r, h) \<leftarrow> f (hal_dev_ctx s); Some (r, s\<lparr>hal_dev_ctx := h\<rparr>) }"

definition femit :: "io \<Rightarrow> fmac \<Rightarrow> fmac" where
  "femit e s = s\<lparr>hal_dev_ctx := emit e (hal_dev_ctx s)\<rparr>"

definition falloc :: "os \<Rightarrow> os_obj \<Rightarrow> fmac \<Rightarrow> bool \<times> fmac" where
  "falloc os x s = (let (ok, h) = osal_alloc os x (hal_dev_ctx s) in (ok, s\<lparr>hal_dev_ctx := h\<rparr>))"

definition nth_opt :: "'a list \<Rightarrow> nat \<Rightarrow> 'a option" where
  "nth_opt xs i = (if i < length xs then Some (xs ! i) else None)"

definition vif_at :: "fmac \<Rightarrow> nat \<Rightarrow> vif option" where
  "vif_at s i = (if i < length (vif_ctx s)
     then (case vif_ctx s ! i of VIF_PTR v \<Rightarrow> Some v | _ \<Rightarrow> None) else None)"

definition peer_put :: "nat \<Rightarrow> peers_info \<Rightarrow> fmac \<Rightarrow> fmac" where
  "peer_put i p s = s\<lparr>peers := (peers s)[i := p]\<rparr>"

definition pend :: "fmac \<Rightarrow> nat \<Rightarrow> nat \<Rightarrow> nbuf list" where
  "pend s peer ac = data_pending_txq s ! peer ! ac"

definition pend_put :: "nat \<Rightarrow> nat \<Rightarrow> nbuf list \<Rightarrow> fmac \<Rightarrow> fmac" where
  "pend_put peer ac q s =
    s\<lparr>data_pending_txq := (data_pending_txq s)[peer := (data_pending_txq s ! peer)[ac := q]]\<rparr>"

definition nbuf_mem :: "os \<Rightarrow> nbuf \<Rightarrow> u32 \<Rightarrow> u8" where
  "nbuf_mem os b a = (let i = unat (a - nb_data_ptr b) in
     if i < length (nb_data b) then nb_data b ! i else os_host_byte os a)"

definition nbuf_byte :: "os \<Rightarrow> nbuf \<Rightarrow> nat \<Rightarrow> u8" where
  "nbuf_byte os b i = nbuf_mem os b (nb_data_ptr b + of_nat i)"

text \<open>The bytes a sub-structure pointer reads at an offset of the data area.\<close>

definition nbuf_bytes :: "os \<Rightarrow> nbuf \<Rightarrow> nat \<Rightarrow> nat \<Rightarrow> u8 list" where
  "nbuf_bytes os b i n = map (nbuf_byte os b) [i..<i + n]"

abbreviation nbuf_size :: "nbuf \<Rightarrow> u32" where
  "nbuf_size b \<equiv> of_nat (length (nb_data b))"

lemmas fmac_access_defs = on_hal_def femit_def falloc_def nth_opt_def vif_at_def peer_put_def
  pend_def pend_put_def

lemma nbuf_byte_in:
  assumes "i < length (nb_data b)" "i < 2 ^ 32"
  shows "nbuf_byte os b i = nb_data b ! i"
  using assms by (simp add: nbuf_byte_def nbuf_mem_def unat_of_nat_small)

lemma nbuf_bytes_length [simp]: "length (nbuf_bytes os b i n) = n"
  by (simp add: nbuf_bytes_def)

lemma nbuf_bytes_in:
  assumes "i + n \<le> length (nb_data b)" "i + n \<le> 2 ^ 32"
  shows "nbuf_bytes os b i n = take n (drop i (nb_data b))"
  using assms by (intro nth_equalityI) (auto simp: nbuf_bytes_def nbuf_byte_in)

abbreviation ftrace :: "fmac \<Rightarrow> io list" where
  "ftrace s \<equiv> w_trace (hal_dev_ctx s)"

lemma femit_simps [simp]:
  "ftrace (femit e s) = e # ftrace s" "hal_dev_ctx (femit e s) = emit e (hal_dev_ctx s)"
  "data_pending_txq (femit e s) = data_pending_txq s" "peers (femit e s) = peers s"
  "pkt_info (femit e s) = pkt_info s" "buf_pool_bmp (femit e s) = buf_pool_bmp s"
  by (simp_all add: femit_def)

lemma upt_peers: "[0..<5::nat] = [0, 1, 2, 3, 4]"
  by (simp add: upt_conv_Cons)

section \<open>An example context\<close>

text \<open>A station on interface 0 with 12 tokens, two per access category, aggregation of up to four
  frames, and an empty peer table.\<close>

definition sta_vif :: vif where
  "sta_vif = \<lparr>vif_mac_addr = [2, 0, 0, 0, 0, 1], groupwise_cipher = 0, ifflags = False,
     if_type = NRF_WIFI_IFTYPE_STATION, bssid = [0x10, 1, 1, 1, 1, 1]\<rparr>"

definition fmac_demo :: fmac where
  "fmac_demo = \<lparr>hal_dev_ctx = hal_awake, op_mode = NRF_WIFI_OP_MODE_SYS, patch_present = [True, True],
     alpha2_valid = False, alpha2 = [0, 0, 0], reg_chan_count = 0, reg_chan_info = None,
     waiting_for_reg_event = False, reg_set_status = 0, reg_change = None, fw_stats = None,
     max_tx_aggregation = 4,
     rx_buf_pools = [\<lparr>buf_sz = 1600, num_bufs = 1\<rparr>, \<lparr>buf_sz = 1600, num_bufs = 1\<rparr>, \<lparr>buf_sz = 1600, num_bufs = 1\<rparr>],
     rx_desc = [0, 1, 2], num_rx_bufs = 3, num_tx_tokens = 12, num_tx_tokens_per_ac = 2,
     num_tx_tokens_spare = 2, avail_ampdu_len_per_token = 8000, max_tx_pending_qlen = 18,
     fw_boot_done = True, fw_init_done = True, fw_deinit_done = False, stats_req = False,
     vif_ctx = [VIF_PTR sta_vif, VIF_NULL],
     host_stats = \<lparr>total_tx_pkts = 0, total_tx_done_pkts = 0, total_tx_drop_pkts = 0,
       total_rx_pkts = 0, total_rx_drop_pkts = 0\<rparr>,
     num_sta = 1, num_ap = 0, fmac_rx_info = Some (replicate 3 fmac_unmapped),
     fmac_tx_info = Some (replicate 48 fmac_unmapped), twt_sleep_status = NRF_WIFI_FMAC_TWT_STATE_AWAKE,
     tx_lock = True, peers = replicate 5 (peer_zero\<lparr>peer_id := -1\<rparr>) @ [peer_zero],
     send_pkt_coalesce_count = replicate 12 0, data_pending_txq = replicate 6 (replicate 5 []),
     wakeup_client_q = [], buf_pool_bmp = [0], outstanding_descs = [0, 0, 0, 0, 0],
     curr_peer_opp = [0, 0, 0, 0, 0], pkt_info = replicate 12 \<lparr>pkt = [], pkt_peer_id = 0\<rparr>,
     spare_desc_queue_map = 0, rt_priv = rt_priv_zero, off_priv = off_priv_zero\<rparr>"

lemma fmac_demo_simps:
  "hal_dev_ctx fmac_demo = hal_awake" "op_mode fmac_demo = NRF_WIFI_OP_MODE_SYS"
  "max_tx_aggregation fmac_demo = 4" "num_rx_bufs fmac_demo = 3" "num_tx_tokens fmac_demo = 12"
  "num_tx_tokens_per_ac fmac_demo = 2" "avail_ampdu_len_per_token fmac_demo = 8000"
  "max_tx_pending_qlen fmac_demo = 18" "fw_init_done fmac_demo"
  "vif_ctx fmac_demo = [VIF_PTR sta_vif, VIF_NULL]" "num_sta fmac_demo = 1" "num_ap fmac_demo = 0"
  "twt_sleep_status fmac_demo = NRF_WIFI_FMAC_TWT_STATE_AWAKE" "tx_lock fmac_demo"
  "peers fmac_demo = [peer_zero\<lparr>peer_id := -1\<rparr>, peer_zero\<lparr>peer_id := -1\<rparr>, peer_zero\<lparr>peer_id := -1\<rparr>,
     peer_zero\<lparr>peer_id := -1\<rparr>, peer_zero\<lparr>peer_id := -1\<rparr>, peer_zero]"
  "data_pending_txq fmac_demo = replicate 6 (replicate 5 [])" "wakeup_client_q fmac_demo = []"
  "buf_pool_bmp fmac_demo = [0]" "outstanding_descs fmac_demo = [0, 0, 0, 0, 0]"
  "curr_peer_opp fmac_demo = [0, 0, 0, 0, 0]"
  "pkt_info fmac_demo = replicate 12 \<lparr>pkt = [], pkt_peer_id = 0\<rparr>"
  "send_pkt_coalesce_count fmac_demo = replicate 12 0" "spare_desc_queue_map fmac_demo = 0"
  "fmac_rx_info fmac_demo = Some (replicate 3 fmac_unmapped)"
  "fmac_tx_info fmac_demo = Some (replicate 48 fmac_unmapped)"
  by (simp_all add: fmac_demo_def numeral_eq_Suc)

end
