(* ===== verification/Fmac_Util.thy ===== *)
theory Fmac_Util
  imports Fmac_State
begin

text \<open>Helpers of the FMAC: addresses, Ethernet types, the traffic identifier of a frame and the
  access category it is sent with (\<open>fmac_util.c\<close>, the classification in \<open>tx.c\<close>).\<close>

section \<open>Addresses and modes\<close>

definition nrf_wifi_util_is_multicast_addr :: "u8 list \<Rightarrow> bool" where
  "nrf_wifi_util_is_multicast_addr addr = (1 AND addr ! 0 \<noteq> 0)"

definition nrf_wifi_util_is_unicast_addr :: "u8 list \<Rightarrow> bool" where
  "nrf_wifi_util_is_unicast_addr addr = (\<not> nrf_wifi_util_is_multicast_addr addr)"

text \<open>The addresses are compared as three halfwords.\<close>

definition halfword :: "u8 list \<Rightarrow> nat \<Rightarrow> u16" where
  "halfword bs i = ucast (bs ! (2 * i)) OR push_bit 8 (ucast (bs ! (2 * i + 1)))"

definition nrf_wifi_util_ether_addr_equal :: "u8 list \<Rightarrow> u8 list \<Rightarrow> bool" where
  "nrf_wifi_util_ether_addr_equal a b =
    ((halfword a 0 XOR halfword b 0) OR (halfword a 1 XOR halfword b 1)
      OR (halfword a 2 XOR halfword b 2) = 0)"

definition be16 :: "u8 \<Rightarrow> u8 \<Rightarrow> u16" where
  "be16 hi lo = push_bit 8 (ucast hi) OR ucast lo"

definition nrf_wifi_util_rx_get_eth_type :: "u8 list \<Rightarrow> u16" where
  "nrf_wifi_util_rx_get_eth_type payload = be16 (payload ! 6) (payload ! 7)"

definition nrf_wifi_util_tx_get_eth_type :: "os \<Rightarrow> nbuf \<Rightarrow> u16" where
  "nrf_wifi_util_tx_get_eth_type os b = be16 (nbuf_byte os b 12) (nbuf_byte os b 13)"

abbreviation (input) NRF_WIFI_STA_MODE :: u8 where "NRF_WIFI_STA_MODE \<equiv> 0x01"

definition nrf_wifi_check_mode_validity :: "u8 \<Rightarrow> nrf_status" where
  "nrf_wifi_check_mode_validity mode = (if mode XOR NRF_WIFI_STA_MODE = 0 then SUCCESS else FAIL)"

fun nrf_wifi_util_is_arr_zero :: "u8 list \<Rightarrow> bool" where
  "nrf_wifi_util_is_arr_zero [] = True"
| "nrf_wifi_util_is_arr_zero (b # bs) = (if b \<noteq> 0 then False else nrf_wifi_util_is_arr_zero bs)"

definition nrf_wifi_get_dest :: "os \<Rightarrow> nbuf \<Rightarrow> u8 list" where
  "nrf_wifi_get_dest os b = nbuf_bytes os b 0 6"

definition nrf_wifi_get_src :: "os \<Rightarrow> nbuf \<Rightarrow> u8 list" where
  "nrf_wifi_get_src os b = nbuf_bytes os b 6 6"

text \<open>A station sends to its access point, whatever the destination of the frame is.\<close>

definition nrf_wifi_util_get_ra :: "os \<Rightarrow> vif \<Rightarrow> nbuf \<Rightarrow> u8 list" where
  "nrf_wifi_util_get_ra os v b =
    (if if_type v = NRF_WIFI_IFTYPE_STATION then bssid v else nrf_wifi_get_dest os b)"

section \<open>The traffic identifier and the access category\<close>

text \<open>\<open>nrf_wifi_get_tid\<close>, with the precedence of C: \<open>&\<close> binds weaker than \<open>>>\<close>.\<close>

definition nrf_wifi_get_tid :: "os \<Rightarrow> nbuf \<Rightarrow> nat" where
  "nrf_wifi_get_tid os b =
    (let ether_type = nrf_wifi_util_tx_get_eth_type os b;
         d = (\<lambda>i. nbuf_byte os b (14 + i)) in
     if ether_type = 0x8100 \<or> ether_type = 0x88A8 then
       (let vlan_tci = be16 (d 4) (d 5) in unat (drop_bit 0x0D (vlan_tci AND 0xE000)))
     else if ether_type = 0x8847 \<or> ether_type = 0x8848 then
       (let mpls_hdr = push_bit 24 (ucast (d 0)) OR push_bit 16 (ucast (d 1))
              OR push_bit 8 (ucast (d 2)) OR ucast (d 3) :: u32;
            mpls_tc_qos = ucast (mpls_hdr AND drop_bit 0x09 0x00000E00) :: u8 in unat mpls_tc_qos)
     else if ether_type = 0x0800 then
       (let tos = d 1; dscp = tos AND 0xfc in unat (drop_bit 5 dscp))
     else if ether_type = 0x86DD then
       (let ipv6_hdr = be16 (d 0) (d 1);
            dscp = ucast (drop_bit 0x04 (ipv6_hdr AND 0x0FF0) AND 0xfc) :: u8 in unat (drop_bit 5 dscp))
     else if ether_type = 0x8917 then 7
     else 0)"

definition map_ac_from_tid :: "nat \<Rightarrow> nat" where
  "map_ac_from_tid tid = [NRF_WIFI_FMAC_AC_BE, NRF_WIFI_FMAC_AC_BK, NRF_WIFI_FMAC_AC_BK,
     NRF_WIFI_FMAC_AC_BE, NRF_WIFI_FMAC_AC_VI, NRF_WIFI_FMAC_AC_VI, NRF_WIFI_FMAC_AC_VO,
     NRF_WIFI_FMAC_AC_VO] ! (tid mod 8)"

definition get_ac :: "nat \<Rightarrow> u8 list \<Rightarrow> nat" where
  "get_ac tid ra = (if nrf_wifi_util_is_multicast_addr ra then NRF_WIFI_FMAC_AC_MC
     else map_ac_from_tid tid)"

definition is_twt_emergency_pkt :: "nbuf \<Rightarrow> bool" where
  "is_twt_emergency_pkt b = (nb_priority b = 0xFF)"

definition can_xmit :: "fmac \<Rightarrow> nbuf \<Rightarrow> bool" where
  "can_xmit s b =
    (is_twt_emergency_pkt b \<or> twt_sleep_status s = NRF_WIFI_FMAC_TWT_STATE_AWAKE)"

section \<open>Properties\<close>

lemma halfword_eq:
  "halfword a i = halfword b i \<longleftrightarrow> a ! (2 * i) = b ! (2 * i) \<and> a ! (2 * i + 1) = b ! (2 * i + 1)"
proof
  assume h: "halfword a i = halfword b i"
  have "bit (a ! (2 * i)) n = bit (b ! (2 * i)) n \<and> bit (a ! (2 * i + 1)) n = bit (b ! (2 * i + 1)) n"
    if "n < 8" for n
  proof -
    have "bit (halfword a i) n = bit (halfword b i) n" "bit (halfword a i) (n + 8) = bit (halfword b i) (n + 8)"
      using h by simp_all
    then show ?thesis using that
      by (auto simp: halfword_def bit_simps bit_imp_le_length dest: bit_imp_le_length)
  qed
  then show "a ! (2 * i) = b ! (2 * i) \<and> a ! (2 * i + 1) = b ! (2 * i + 1)"
    by (auto intro!: bit_word_eqI)
qed (simp add: halfword_def)

lemma or_eq_0: "(x::u16) OR y = 0 \<longleftrightarrow> x = 0 \<and> y = 0"
  by (simp add: bit_eq_iff bit_simps) blast

lemma xor_eq_0: "(x::u16) XOR y = 0 \<longleftrightarrow> x = y"
  by (simp add: bit_eq_iff bit_simps)

lemma length6: "length xs = 6 \<Longrightarrow> xs = [xs ! 0, xs ! 1, xs ! 2, xs ! 3, xs ! 4, xs ! 5]"
  by (intro nth_equalityI) (auto simp: less_Suc_eq nth_Cons' numeral_eq_Suc)

lemma ether_addr_equal_bytes:
  assumes "length a = 6" "length b = 6"
  shows "nrf_wifi_util_ether_addr_equal a b = (a = b)"
proof -
  have "nrf_wifi_util_ether_addr_equal a b \<longleftrightarrow> a ! 0 = b ! 0 \<and> a ! 1 = b ! 1 \<and> a ! 2 = b ! 2 \<and>
      a ! 3 = b ! 3 \<and> a ! 4 = b ! 4 \<and> a ! 5 = b ! 5"
    using halfword_eq [of a 0 b] halfword_eq [of a 1 b] halfword_eq [of a 2 b]
    by (simp add: nrf_wifi_util_ether_addr_equal_def or_eq_0 xor_eq_0)
  also have "\<dots> \<longleftrightarrow> a = b"
    using length6 [OF assms(1)] length6 [OF assms(2)] by metis
  finally show ?thesis .
qed

text \<open>The comparison of two addresses by halfwords decides whether their six bytes are
  equal.\<close>

theorem ether_addr_equal_iff:
  assumes "length a = 6" "length b = 6"
  shows "nrf_wifi_util_ether_addr_equal a b = (a = b)"
  using assms by (rule ether_addr_equal_bytes)

theorem ether_addr_equal_iff_witness:
  "nrf_wifi_util_ether_addr_equal [1, 2, 3, 4, 5, 6] [1, 2, 3, 4, 5, 6] \<and>
   \<not> nrf_wifi_util_ether_addr_equal [1, 2, 3, 4, 5, 6] [1, 2, 3, 4, 6, 5]"
  using ether_addr_equal_iff [of "[1, 2, 3, 4, 5, 6]" "[1, 2, 3, 4, 5, 6]"]
    ether_addr_equal_iff [of "[1, 2, 3, 4, 5, 6]" "[1, 2, 3, 4, 6, 5]"] by simp

lemma map_ac_less: "map_ac_from_tid tid < 4"
proof -
  have "tid mod 8 \<in> {0, 1, 2, 3, 4, 5, 6, 7}" by (auto simp: atLeastLessThan_iff)
  then show ?thesis by (auto simp: map_ac_from_tid_def)
qed

lemma get_ac_less: "get_ac tid ra < 5"
  using map_ac_less [of tid] by (simp add: get_ac_def)

subsection \<open>The traffic identifier as a number\<close>

lemma unat_bound: "unat (x :: 'a::len word) < 2 ^ LENGTH('a)"
  by (rule unsigned_less)

lemma and_masks:
  "drop_bit 5 (x AND 0xFC :: u8) = drop_bit 5 x"
  "drop_bit 13 (y AND 0xE000 :: u16) = drop_bit 13 y"
proof -
  have m: "(7::'a::len word) = mask 3" by (simp add: mask_eq_exp_minus_1)
  show "drop_bit 5 (x AND 0xFC) = drop_bit 5 x"
    by (simp add: drop_bit_and m flip: take_bit_eq_mask) (simp add: take_bit_drop_bit take_bit_word_eq_self)
  show "drop_bit 13 (y AND 0xE000) = drop_bit 13 y"
    by (simp add: drop_bit_and m flip: take_bit_eq_mask) (simp add: take_bit_drop_bit take_bit_word_eq_self)
qed

lemma be16_unat: "unat (be16 hi lo) = 256 * unat hi + unat lo"
proof -
  have b: "unat hi < 256" "unat lo < 256"
    using unat_bound [of hi] unat_bound [of lo] by simp_all
  have hi: "unat (push_bit 8 (ucast hi) :: u16) = 256 * unat hi"
    using b by (simp only: unsigned_push_bit_eq unsigned_ucast_eq) (simp add: push_bit_eq_mult take_bit_eq_mod)
  have lo: "unat (ucast lo :: u16) = unat lo"
    using b by (simp add: unsigned_ucast_eq take_bit_eq_mod)
  have "be16 hi lo = push_bit 8 (ucast hi) + ucast lo"
    unfolding be16_def
    by (rule disjunctive_add [symmetric]) (auto simp: bit_simps dest: bit_imp_le_length)
  then show ?thesis
    using unat_add_small [of "push_bit 8 (ucast hi) :: u16" "ucast lo"] b by (simp add: hi lo)
qed

lemma ip6_prio: "unat (drop_bit 5 (ucast (drop_bit 0x04 (be16 hi lo AND 0x0FF0) AND 0xFC) :: u8))
   = unat hi mod 16 div 2"
proof -
  let ?v = "be16 hi lo"
  have e: "(ucast (drop_bit 0x04 (?v AND 0x0FF0) AND 0xFC) :: u8) = ucast (drop_bit 4 ?v) AND 0xFC"
    by (simp add: drop_bit_and and.assoc unsigned_and_eq)
  have "unat (drop_bit 5 (ucast (drop_bit 0x04 (?v AND 0x0FF0) AND 0xFC) :: u8))
      = unat (ucast (drop_bit 4 ?v) :: u8) div 32"
    using unat_bound [of "ucast (drop_bit 4 ?v) :: u8"]
    by (simp only: e and_masks unsigned_drop_bit_eq) (simp add: drop_bit_eq_div take_bit_eq_mod)
  also have "unat (ucast (drop_bit 4 ?v) :: u8) = (256 * unat hi + unat lo) div 16 mod 256"
    using unat_bound [of hi] unat_bound [of lo]
    by (simp only: unsigned_ucast_eq unsigned_drop_bit_eq) (simp add: take_bit_eq_mod drop_bit_eq_div be16_unat)
  also have "\<dots> div 32 = unat hi mod 16 div 2"
  proof -
    have m: "x mod (a * b) div a = x div a mod b" for x a b :: nat
      by (cases "a = 0") (simp_all add: mod_mult2_eq)
    have "(256 * unat hi + unat lo) div 16 = 16 * unat hi + unat lo div 16" by simp
    then have "(256 * unat hi + unat lo) div 16 mod 256 div 32 = (16 * unat hi + unat lo div 16) div 32 mod 8"
      using m [of _ 32 8] by simp
    also have "(16 * unat hi + unat lo div 16) div 32 = (16 * unat hi + unat lo div 16) div 16 div 2"
      by (simp flip: div_mult2_eq)
    also have "\<dots> = unat hi div 2"
      using unat_bound [of lo] by simp
    finally show ?thesis using m [of "unat hi" 2 8] by simp
  qed
  finally show ?thesis .
qed

lemma mpls_prio:
  "unat (ucast ((push_bit 24 (ucast (a::u8)) OR push_bit 16 (ucast (b::u8)) OR push_bit 8 (ucast (c::u8)) OR ucast (d::u8) :: u32)
     AND drop_bit 0x09 0x00000E00) :: u8) = unat d mod 8"
proof -
  have m: "(7::'a::len word) = mask 3" by (simp add: mask_eq_exp_minus_1)
  have "(ucast ((push_bit 24 (ucast a) OR push_bit 16 (ucast b) OR push_bit 8 (ucast c) OR ucast d :: u32)
     AND drop_bit 0x09 0x00000E00) :: u8) = take_bit 3 d"
    apply (simp add: m flip: take_bit_eq_mask)
    apply (rule bit_word_eqI)
    apply (auto simp: bit_simps)
    done
  then show ?thesis by (simp only: unsigned_take_bit_eq) (simp add: take_bit_eq_mod)
qed

lemma vlan_prio: "unat (drop_bit 0x0D (be16 hi lo AND 0xE000)) = unat hi div 32"
proof -
  have "(256 * unat hi + unat lo) div 8192 = (256 * unat hi + unat lo) div 256 div 32"
    by (simp flip: div_mult2_eq)
  also have "\<dots> = unat hi div 32" using unat_bound [of lo] by simp
  finally have "(256 * unat hi + unat lo) div 8192 = unat hi div 32" .
  then show ?thesis
    using unat_bound [of "be16 hi lo"]
    by (simp only: and_masks unsigned_drop_bit_eq) (simp add: drop_bit_eq_div take_bit_eq_mod be16_unat)
qed

lemma ip4_prio: "unat (drop_bit 5 (tos AND 0xFC :: u8)) = unat tos div 32"
  using unat_bound [of tos]
  by (simp only: and_masks unsigned_drop_bit_eq) (simp add: drop_bit_eq_div take_bit_eq_mod)

lemma ethertype_byte:
  "nrf_wifi_util_tx_get_eth_type os b = be16 (nbuf_byte os b 12) (nbuf_byte os b 13)"
  by (simp add: nrf_wifi_util_tx_get_eth_type_def)

text \<open>The traffic identifier of a frame. For IPv4 and IPv6 it is the precedence of the
  traffic class. For a VLAN frame it is taken from the third halfword after the Ethernet
  header, which is behind the tag; for an MPLS frame it is the low three bits of the time to
  live instead of the traffic class of the label.\<close>

theorem tid_of_frame:
  assumes "20 \<le> length (nb_data b)" "length (nb_data b) < 2 ^ 32"
    and "nrf_wifi_util_tx_get_eth_type os b = ty"
  shows "(ty = 0x0800 \<longrightarrow> nrf_wifi_get_tid os b = unat (nb_data b ! 15) div 32) \<and>
    (ty = 0x86DD \<longrightarrow> nrf_wifi_get_tid os b = unat (nb_data b ! 14) mod 16 div 2) \<and>
    (ty \<in> {0x8100, 0x88A8} \<longrightarrow> nrf_wifi_get_tid os b = unat (nb_data b ! 18) div 32) \<and>
    (ty \<in> {0x8847, 0x8848} \<longrightarrow> nrf_wifi_get_tid os b = unat (nb_data b ! 17) mod 8)"
proof -
  have byte: "nbuf_byte os b i = nb_data b ! i" if "i < 20" for i
    using assms(1,2) that by (intro nbuf_byte_in) auto
  have "nrf_wifi_get_tid os b = unat (nb_data b ! 15) div 32" if "ty = 0x0800"
    using assms(3) that ip4_prio [of "nb_data b ! 15"]
    by (simp add: nrf_wifi_get_tid_def Let_def byte)
  moreover have "nrf_wifi_get_tid os b = unat (nb_data b ! 14) mod 16 div 2" if "ty = 0x86DD"
    using assms(3) that ip6_prio [of "nb_data b ! 14" "nb_data b ! 15"]
    by (simp add: nrf_wifi_get_tid_def Let_def byte)
  moreover have "nrf_wifi_get_tid os b = unat (nb_data b ! 18) div 32" if "ty \<in> {0x8100, 0x88A8}"
    using assms(3) that vlan_prio [of "nb_data b ! 18" "nb_data b ! 19"]
    by (auto simp: nrf_wifi_get_tid_def Let_def byte)
  moreover have "nrf_wifi_get_tid os b = unat (nb_data b ! 17) mod 8" if "ty \<in> {0x8847, 0x8848}"
    using assms(3) that mpls_prio [of "nb_data b ! 14" "nb_data b ! 15" "nb_data b ! 16" "nb_data b ! 17"]
    by (auto simp: nrf_wifi_get_tid_def Let_def byte)
  ultimately show ?thesis by blast
qed

definition vlan_frame :: nbuf where
  "vlan_frame = \<lparr>nb_ptr = 1, nb_data_ptr = 0x1000, nb_data =
     [2, 2, 2, 2, 2, 2, 4, 4, 4, 4, 4, 4, 0x81, 0x00, 0xE0, 0x05, 0x08, 0x00, 0x45, 0x00, 0, 20], nb_priority = 0, nb_chksum_done = False\<rparr>"

theorem tid_of_frame_witness:
  "nrf_wifi_get_tid demo_os vlan_frame = 2"
proof -
  have "nrf_wifi_util_tx_get_eth_type demo_os vlan_frame = 0x8100"
    by (simp add: ethertype_byte nbuf_byte_in vlan_frame_def be16_def)
  from tid_of_frame [OF _ _ this] show ?thesis by (simp add: vlan_frame_def)
qed

end
