(* ===== verification/Fmac_Cmd.thy ===== *)
theory Fmac_Cmd
  imports Fmac_Util
begin

text \<open>Command messages to the firmware (\<open>fmac_cmd_common.c\<close>, \<open>fmac_cmd.c\<close>): the header
  \<open>host_rpu_msg\<close> and the packed, little-endian bodies. The memory of a message that is handed to
  \<open>nrf_wifi_hal_ctrl_cmd_send\<close> belongs to the HAL from then on.\<close>

section \<open>Messages\<close>

definition le16_bytes :: "u16 \<Rightarrow> u8 list" where
  "le16_bytes w = [ucast w, ucast (drop_bit 8 w)]"

definition le64_bytes :: "64 word \<Rightarrow> u8 list" where
  "le64_bytes w = le32_bytes (ucast w) @ le32_bytes (ucast (drop_bit 32 w))"

abbreviation (input) HOST_RPU_MSG_SIZE :: nat where "HOST_RPU_MSG_SIZE \<equiv> 12"

datatype host_rpu_msg_type = NRF_WIFI_HOST_RPU_MSG_TYPE_SYSTEM
  | NRF_WIFI_HOST_RPU_MSG_TYPE_SUPPLICANT | NRF_WIFI_HOST_RPU_MSG_TYPE_DATA
  | NRF_WIFI_HOST_RPU_MSG_TYPE_UMAC

fun msg_type_num :: "host_rpu_msg_type \<Rightarrow> u32" where
  "msg_type_num NRF_WIFI_HOST_RPU_MSG_TYPE_SYSTEM = 0"
| "msg_type_num NRF_WIFI_HOST_RPU_MSG_TYPE_SUPPLICANT = 1"
| "msg_type_num NRF_WIFI_HOST_RPU_MSG_TYPE_DATA = 2"
| "msg_type_num NRF_WIFI_HOST_RPU_MSG_TYPE_UMAC = 3"

text \<open>The message of a type: length, the resubmit flag, which stays 0, the type and the body.\<close>

definition host_rpu_msg :: "host_rpu_msg_type \<Rightarrow> u8 list \<Rightarrow> u8 list" where
  "host_rpu_msg ty body =
    le32_bytes (of_nat (HOST_RPU_MSG_SIZE + length body)) @ le32_bytes 0 @ le32_bytes (msg_type_num ty) @ body"

definition umac_cmd_alloc :: "os \<Rightarrow> fmac \<Rightarrow> bool \<times> fmac" where
  "umac_cmd_alloc os s = falloc os OBJ_CMD s"

definition sys_head :: "u32 \<Rightarrow> nat \<Rightarrow> u8 list" where
  "sys_head cmd len = le32_bytes cmd @ le32_bytes (of_nat len)"

definition umac_hdr :: "u32 \<Rightarrow> u32 \<Rightarrow> 64 word \<Rightarrow> u8 list" where
  "umac_hdr cmd_evnt valid_fields wdev_id = le32_bytes 0 @ le32_bytes 0 @ le32_bytes cmd_evnt
     @ le32_bytes 0 @ le32_bytes valid_fields @ le32_bytes 0 @ le32_bytes 0 @ le64_bytes wdev_id"

definition cmd_send :: "os \<Rightarrow> host_rpu_msg_type \<Rightarrow> u8 list \<Rightarrow> fmac \<Rightarrow> (nrf_status \<times> fmac) option" where
  "cmd_send os ty body s =
    (let (ok, s) = umac_cmd_alloc os s in
     if \<not> ok then Some (FAIL, s)
     else on_hal (nrf_wifi_hal_ctrl_cmd_send os (host_rpu_msg ty body)) s)"

section \<open>Commands\<close>

definition umac_cmd_cfg :: "os \<Rightarrow> u8 list \<Rightarrow> fmac \<Rightarrow> (nrf_status \<times> fmac) option" where
  "umac_cmd_cfg os params s =
    (if \<not> fw_init_done s then Some (FAIL, s)
     else cmd_send os NRF_WIFI_HOST_RPU_MSG_TYPE_UMAC params s)"

abbreviation (input) NRF_WIFI_CMD_GET_STATS :: u32 where "NRF_WIFI_CMD_GET_STATS \<equiv> 4"
abbreviation (input) NRF_WIFI_CMD_DEINIT :: u32 where "NRF_WIFI_CMD_DEINIT \<equiv> 8"
abbreviation (input) NRF_WIFI_CMD_SRCOEX :: u32 where "NRF_WIFI_CMD_SRCOEX \<equiv> 9"
abbreviation (input) NRF_WIFI_CMD_HE_GI_LTF_CONFIG :: u32 where "NRF_WIFI_CMD_HE_GI_LTF_CONFIG \<equiv> 11"
abbreviation (input) NRF_WIFI_CMD_RESET_STATISTICS :: u32 where "NRF_WIFI_CMD_RESET_STATISTICS \<equiv> 20"

definition umac_cmd_deinit :: "os \<Rightarrow> fmac \<Rightarrow> (nrf_status \<times> fmac) option" where
  "umac_cmd_deinit os s =
    cmd_send os NRF_WIFI_HOST_RPU_MSG_TYPE_SYSTEM (sys_head NRF_WIFI_CMD_DEINIT 8) s"

definition umac_cmd_srcoex :: "os \<Rightarrow> u8 list \<Rightarrow> fmac \<Rightarrow> (nrf_status \<times> fmac) option" where
  "umac_cmd_srcoex os cmd s = cmd_send os NRF_WIFI_HOST_RPU_MSG_TYPE_SYSTEM
     (sys_head NRF_WIFI_CMD_SRCOEX (12 + length cmd) @ le32_bytes (of_nat (length cmd)) @ cmd) s"

definition umac_cmd_prog_stats_reset :: "os \<Rightarrow> fmac \<Rightarrow> (nrf_status \<times> fmac) option" where
  "umac_cmd_prog_stats_reset os s =
    cmd_send os NRF_WIFI_HOST_RPU_MSG_TYPE_SYSTEM (sys_head NRF_WIFI_CMD_RESET_STATISTICS 8) s"

definition umac_cmd_sys_prog_stats_get :: "os \<Rightarrow> u32 \<Rightarrow> fmac \<Rightarrow> (nrf_status \<times> fmac) option" where
  "umac_cmd_sys_prog_stats_get os stats_type s = cmd_send os NRF_WIFI_HOST_RPU_MSG_TYPE_SYSTEM
     (sys_head NRF_WIFI_CMD_GET_STATS 16 @ le32_bytes stats_type @ le32_bytes 0) s"

definition umac_cmd_sys_he_ltf_gi :: "os \<Rightarrow> u8 \<Rightarrow> u8 \<Rightarrow> u8 \<Rightarrow> fmac \<Rightarrow> (nrf_status \<times> fmac) option" where
  "umac_cmd_sys_he_ltf_gi os he_ltf he_gi enabled s = cmd_send os NRF_WIFI_HOST_RPU_MSG_TYPE_SYSTEM
     (sys_head NRF_WIFI_CMD_HE_GI_LTF_CONFIG 12 @
      (if enabled \<noteq> 0 then [0, he_gi, he_ltf] else [0, 0, 0]) @ [enabled]) s"

section \<open>Properties\<close>

lemma le16_bytes_length [simp]: "length (le16_bytes w) = 2"
  by (simp add: le16_bytes_def)

lemma le64_bytes_length [simp]: "length (le64_bytes w) = 8"
  by (simp add: le64_bytes_def)

lemma umac_hdr_length [simp]: "length (umac_hdr c v w) = 36"
  by (simp add: umac_hdr_def)

lemma host_rpu_msg_length [simp]: "length (host_rpu_msg ty body) = 12 + length body"
  by (simp add: host_rpu_msg_def)

end
