(* ===== verification/Fmac_Vif.thy ===== *)
theory Fmac_Vif
  imports Fmac_Cmd
begin

text \<open>Virtual interfaces and peers: \<open>fmac_vif.c\<close>, the interface operations of
  \<open>system/fmac_api.c\<close> and the peer table of \<open>fmac_peer.c\<close>. The interface type of a request is
  one of \<open>enum nrf_wifi_iftype\<close>.\<close>

section \<open>Counting interfaces\<close>

text \<open>True is the return value 0.\<close>

definition nrf_wifi_fmac_vif_check_if_limit :: "nrf_wifi_iftype \<Rightarrow> fmac \<Rightarrow> bool" where
  "nrf_wifi_fmac_vif_check_if_limit ty s =
    (if ty = NRF_WIFI_IFTYPE_STATION \<or> ty = NRF_WIFI_IFTYPE_P2P_CLIENT then \<not> MAX_NUM_STAS < num_sta s
     else if ty = NRF_WIFI_IFTYPE_AP \<or> ty = NRF_WIFI_IFTYPE_P2P_GO then \<not> MAX_NUM_APS < num_ap s
     else False)"

definition nrf_wifi_fmac_vif_incr_if_type :: "nrf_wifi_iftype \<Rightarrow> fmac \<Rightarrow> fmac" where
  "nrf_wifi_fmac_vif_incr_if_type ty s =
    (if ty = NRF_WIFI_IFTYPE_STATION \<or> ty = NRF_WIFI_IFTYPE_P2P_CLIENT then s\<lparr>num_sta := num_sta s + 1\<rparr>
     else if ty = NRF_WIFI_IFTYPE_AP \<or> ty = NRF_WIFI_IFTYPE_P2P_GO then s\<lparr>num_ap := num_ap s + 1\<rparr>
     else s)"

definition nrf_wifi_fmac_vif_decr_if_type :: "nrf_wifi_iftype \<Rightarrow> fmac \<Rightarrow> fmac" where
  "nrf_wifi_fmac_vif_decr_if_type ty s =
    (if ty = NRF_WIFI_IFTYPE_STATION \<or> ty = NRF_WIFI_IFTYPE_P2P_CLIENT then s\<lparr>num_sta := num_sta s - 1\<rparr>
     else if ty = NRF_WIFI_IFTYPE_AP \<or> ty = NRF_WIFI_IFTYPE_P2P_GO then s\<lparr>num_ap := num_ap s - 1\<rparr>
     else s)"

definition nrf_wifi_fmac_get_num_vifs :: "fmac \<Rightarrow> u32" where
  "nrf_wifi_fmac_get_num_vifs s = ucast (num_sta s) + ucast (num_ap s)"

text \<open>\<open>mem_free\<close> of a pointer that was freed already is undefined behaviour.\<close>

definition nrf_wifi_fmac_vif_clear_ctx :: "nat \<Rightarrow> fmac \<Rightarrow> fmac option" where
  "nrf_wifi_fmac_vif_clear_ctx if_idx s = do {
     p \<leftarrow> nth_opt (vif_ctx s) if_idx;
     let s = (if p = VIF_NULL then s else femit (IoFree OBJ_VIF_CTX) s);
     if p = VIF_FREED then None else Some (s\<lparr>vif_ctx := (vif_ctx s)[if_idx := VIF_NULL]\<rparr>)
   }"

definition nrf_wifi_fmac_vif_update_if_type :: "nat \<Rightarrow> nrf_wifi_iftype \<Rightarrow> fmac \<Rightarrow> fmac option" where
  "nrf_wifi_fmac_vif_update_if_type if_idx ty s = do {
     v \<leftarrow> vif_at s if_idx;
     let s = nrf_wifi_fmac_vif_incr_if_type ty (nrf_wifi_fmac_vif_decr_if_type (if_type v) s);
     Some (s\<lparr>vif_ctx := (vif_ctx s)[if_idx := VIF_PTR (v\<lparr>if_type := ty\<rparr>)]\<rparr>)
   }"

section \<open>Adding, deleting and changing an interface\<close>

definition nrf_wifi_fmac_vif_idx_get :: "fmac \<Rightarrow> nat" where
  "nrf_wifi_fmac_vif_idx_get s = length (takeWhile (\<lambda>p. p \<noteq> VIF_NULL) (vif_ctx s))"

definition iftype_supported :: "nrf_wifi_iftype \<Rightarrow> bool" where
  "iftype_supported ty = (ty = NRF_WIFI_IFTYPE_STATION \<or> ty = NRF_WIFI_IFTYPE_P2P_CLIENT
     \<or> ty = NRF_WIFI_IFTYPE_AP \<or> ty = NRF_WIFI_IFTYPE_P2P_GO)"

fun iftype_num :: "nrf_wifi_iftype \<Rightarrow> u32" where
  "iftype_num NRF_WIFI_IFTYPE_UNSPECIFIED = 0"
| "iftype_num NRF_WIFI_IFTYPE_ADHOC = 1"
| "iftype_num NRF_WIFI_IFTYPE_STATION = 2"
| "iftype_num NRF_WIFI_IFTYPE_AP = 3"
| "iftype_num NRF_WIFI_IFTYPE_AP_VLAN = 4"
| "iftype_num NRF_WIFI_IFTYPE_WDS = 5"
| "iftype_num NRF_WIFI_IFTYPE_MONITOR = 6"
| "iftype_num NRF_WIFI_IFTYPE_MESH_POINT = 7"
| "iftype_num NRF_WIFI_IFTYPE_P2P_CLIENT = 8"
| "iftype_num NRF_WIFI_IFTYPE_P2P_GO = 9"
| "iftype_num NRF_WIFI_IFTYPE_P2P_DEVICE = 10"
| "iftype_num NRF_WIFI_IFTYPE_OCB = 11"
| "iftype_num NRF_WIFI_TX_INJECTOR = 12"
| "iftype_num NRF_WIFI_STA_TX_INJECTOR = 13"
| "iftype_num NRF_WIFI_MONITOR_TX_INJECTOR = 14"
| "iftype_num NRF_WIFI_STA_PROMISC = 15"
| "iftype_num NRF_WIFI_STA_PROMISC_TX_INJECTOR = 16"

record umac_add_vif_info =
  add_iftype :: nrf_wifi_iftype
  add_use_4addr :: u32
  add_mon_flags :: u32
  add_mac_addr :: "u8 list"
  add_ifacename :: "u8 list"

definition umac_cmd_add_vif :: "nat \<Rightarrow> umac_add_vif_info \<Rightarrow> u8 list" where
  "umac_cmd_add_vif vif_idx i = umac_hdr 15 1 (of_nat vif_idx) @ le32_bytes (0x4 OR 0x8 OR 0x2)
     @ le32_bytes (iftype_num (add_iftype i)) @ le32_bytes (add_use_4addr i)
     @ le32_bytes (add_mon_flags i) @ add_mac_addr i @ add_ifacename i"

text \<open>The error path: the new context is freed, and the result is \<open>MAX_NUM_VIFS\<close>.\<close>

definition add_vif_err :: "fmac \<Rightarrow> nat \<times> fmac" where
  "add_vif_err s = (MAX_NUM_VIFS, femit (IoFree OBJ_VIF_CTX) s)"

definition vif_of :: "umac_add_vif_info \<Rightarrow> vif" where
  "vif_of i = \<lparr>vif_mac_addr = add_mac_addr i, groupwise_cipher = 0, ifflags = False,
     if_type = add_iftype i, bssid = replicate 6 0\<rparr>"

definition vif_commit :: "nat \<Rightarrow> umac_add_vif_info \<Rightarrow> fmac \<Rightarrow> nat \<times> fmac" where
  "vif_commit vif_idx i s = (vif_idx, nrf_wifi_fmac_vif_incr_if_type (add_iftype i)
     (s\<lparr>vif_ctx := (vif_ctx s)[vif_idx := VIF_PTR (vif_of i)]\<rparr>))"

definition nrf_wifi_sys_fmac_add_vif :: "os \<Rightarrow> umac_add_vif_info \<Rightarrow> fmac \<Rightarrow> (nat \<times> fmac) option" where
  "nrf_wifi_sys_fmac_add_vif os i s =
    (if op_mode s \<noteq> NRF_WIFI_OP_MODE_SYS then Some (0, s)
     else if \<not> iftype_supported (add_iftype i) \<or> \<not> nrf_wifi_fmac_vif_check_if_limit (add_iftype i) s
     then Some (MAX_NUM_VIFS, s)
     else let (ok, s) = falloc os OBJ_VIF_CTX s in
       if \<not> ok then Some (MAX_NUM_VIFS, s)
       else let vif_idx = nrf_wifi_fmac_vif_idx_get s in
         if vif_idx = MAX_NUM_VIFS then Some (add_vif_err s)
         else if vif_idx = 0 then Some (vif_commit vif_idx i s)
         else let (ok, s) = falloc os OBJ_UMAC_CMD s in
           if \<not> ok then Some (add_vif_err s)
           else do {
             (st, s) \<leftarrow> umac_cmd_cfg os (umac_cmd_add_vif vif_idx i) s;
             let (r, s) = (if st = FAIL then add_vif_err s else vif_commit vif_idx i s);
             Some (r, femit (IoFree OBJ_UMAC_CMD) s)
           })"

text \<open>The interface context is freed on every path from the type check on, and its pointer is
  left in the table.\<close>

definition del_vif_free :: "nat \<Rightarrow> fmac \<Rightarrow> fmac" where
  "del_vif_free if_idx s =
    (femit (IoFree OBJ_VIF_CTX) s)\<lparr>vif_ctx := (vif_ctx s)[if_idx := VIF_FREED]\<rparr>"

definition nrf_wifi_sys_fmac_del_vif :: "os \<Rightarrow> nat \<Rightarrow> fmac \<Rightarrow> (nrf_status \<times> fmac) option" where
  "nrf_wifi_sys_fmac_del_vif os if_idx s =
    (if op_mode s \<noteq> NRF_WIFI_OP_MODE_SYS then Some (FAIL, s)
     else do {
       v \<leftarrow> vif_at s if_idx;
       if \<not> iftype_supported (if_type v) then Some (FAIL, s)
       else if if_idx = 0
       then Some (SUCCESS, del_vif_free if_idx (nrf_wifi_fmac_vif_decr_if_type (if_type v) s))
       else let (ok, s) = falloc os OBJ_UMAC_CMD s in
         if \<not> ok then Some (FAIL, del_vif_free if_idx s)
         else do {
           (st, s) \<leftarrow> umac_cmd_cfg os (umac_hdr 17 1 (of_nat if_idx)) s;
           let s = (if st \<noteq> SUCCESS then s else nrf_wifi_fmac_vif_decr_if_type (if_type v) s);
           Some (st, del_vif_free if_idx (femit (IoFree OBJ_UMAC_CMD) s))
         }
     })"

definition nrf_wifi_sys_fmac_chg_vif ::
    "os \<Rightarrow> nat \<Rightarrow> nrf_wifi_iftype \<Rightarrow> u32 \<Rightarrow> fmac \<Rightarrow> (nrf_status \<times> fmac) option" where
  "nrf_wifi_sys_fmac_chg_vif os if_idx ty use_4addr s =
    (if op_mode s \<noteq> NRF_WIFI_OP_MODE_SYS \<or> \<not> iftype_supported ty
        \<or> \<not> nrf_wifi_fmac_vif_check_if_limit ty s then Some (FAIL, s)
     else let (ok, s) = falloc os OBJ_UMAC_CMD s in
       if \<not> ok then Some (FAIL, s)
       else do {
         (st, s) \<leftarrow> umac_cmd_cfg os (umac_hdr 16 1 (of_nat if_idx) @ le32_bytes (1 OR 2)
           @ le32_bytes (iftype_num ty) @ le32_bytes use_4addr) s;
         let s = femit (IoFree OBJ_UMAC_CMD) s;
         if st \<noteq> SUCCESS then Some (st, s)
         else do { s \<leftarrow> nrf_wifi_fmac_vif_update_if_type if_idx ty s; Some (st, s) }
       })"

section \<open>Peers\<close>

definition nrf_wifi_fmac_peer_get_id :: "u8 list \<Rightarrow> fmac \<Rightarrow> int" where
  "nrf_wifi_fmac_peer_get_id mac_addr s =
    (if nrf_wifi_util_is_multicast_addr mac_addr then int MAX_PEERS
     else case find (\<lambda>p. peer_id p \<noteq> -1 \<and> nrf_wifi_util_ether_addr_equal mac_addr (ra_addr p))
            (take MAX_PEERS (peers s)) of
       None \<Rightarrow> -1 | Some p \<Rightarrow> peer_id p)"

definition pend_bmp_addr :: "nat \<Rightarrow> u32" where
  "pend_bmp_addr i = RPU_MEM_UMAC_PEND_Q_BMP + 12 * of_nat i"

text \<open>An access point writes the address of the slot into the memory of the firmware; the status
  is ignored.\<close>

definition peer_mac_write :: "os \<Rightarrow> u8 \<Rightarrow> nat \<Rightarrow> fmac \<Rightarrow> fmac option" where
  "peer_mac_write os ifi i s = do {
     v \<leftarrow> vif_at s (unat ifi);
     if if_type v = NRF_WIFI_IFTYPE_AP
     then do {
       (_, s) \<leftarrow> on_hal (hal_rpu_mem_write os (pend_bmp_addr i) (ra_addr (peers s ! i))) s;
       Some s
     }
     else Some s
   }"

definition peer_slot_add ::
    "os \<Rightarrow> u8 \<Rightarrow> u8 list \<Rightarrow> u8 \<Rightarrow> u8 \<Rightarrow> fmac \<Rightarrow> (int \<times> fmac) option" where
  "peer_slot_add os ifi mac_addr legacy qos s =
    (case find (\<lambda>i. peer_id (peers s ! i) = -1) [0..<MAX_PEERS] of
       None \<Rightarrow> Some (-1, s)
     | Some i \<Rightarrow> let s = peer_put i ((peers s ! i)\<lparr>ra_addr := mac_addr, peer_if_idx := ifi,
            peer_id := int i, is_legacy := legacy, qos_supported := qos\<rparr>) s in do {
         s \<leftarrow> peer_mac_write os ifi i s;
         Some (int i, s)
       })"

definition nrf_wifi_fmac_peer_add ::
    "os \<Rightarrow> u8 \<Rightarrow> u8 list \<Rightarrow> u8 \<Rightarrow> u8 \<Rightarrow> fmac \<Rightarrow> (int \<times> fmac) option" where
  "nrf_wifi_fmac_peer_add os ifi mac_addr legacy qos s =
    (if nrf_wifi_util_is_multicast_addr mac_addr then do {
       v \<leftarrow> vif_at s (unat ifi);
       if if_type v = NRF_WIFI_IFTYPE_AP
       then Some (int MAX_PEERS, peer_put MAX_PEERS ((peers s ! MAX_PEERS)\<lparr>peer_if_idx := ifi,
              peer_id := int MAX_PEERS, is_legacy := 1\<rparr>) s)
       else peer_slot_add os ifi mac_addr legacy qos s
     }
     else peer_slot_add os ifi mac_addr legacy qos s)"

definition nrf_wifi_fmac_peer_remove :: "os \<Rightarrow> u8 \<Rightarrow> int \<Rightarrow> fmac \<Rightarrow> fmac option" where
  "nrf_wifi_fmac_peer_remove os ifi pid s =
    (if pid = -1 \<or> int MAX_PEERS \<le> pid then Some s
     else if pid < 0 then None
     else let i = nat pid; p = peers s ! i in
       if peer_id p = -1 \<or> int MAX_PEERS \<le> peer_id p \<or> peer_if_idx p \<noteq> ifi then Some s
       else do {
         s \<leftarrow> peer_mac_write os ifi i s;
         Some (peer_put i (peer_zero\<lparr>peer_id := -1\<rparr>) s)
       })"

fun peers_flush_loop :: "os \<Rightarrow> u8 \<Rightarrow> nat list \<Rightarrow> fmac \<Rightarrow> fmac option" where
  "peers_flush_loop os ifi [] s = Some s"
| "peers_flush_loop os ifi (i # is) s =
    (if peer_id (peers s ! i) = -1 \<or> peer_if_idx (peers s ! i) \<noteq> ifi then peers_flush_loop os ifi is s
     else let s = peer_put i (peer_zero\<lparr>peer_id := -1\<rparr>) s in do {
       s \<leftarrow> peer_mac_write os ifi i s;
       peers_flush_loop os ifi is s
     })"

definition nrf_wifi_fmac_peers_flush :: "os \<Rightarrow> u8 \<Rightarrow> fmac \<Rightarrow> fmac option" where
  "nrf_wifi_fmac_peers_flush os ifi s =
    peers_flush_loop os ifi [0..<MAX_PEERS]
      (peer_put MAX_PEERS ((peers s ! MAX_PEERS)\<lparr>peer_id := -1\<rparr>) s)"

section \<open>Interface properties\<close>

text \<open>An operation that touches nothing but the HAL.\<close>

definition only_hal :: "fmac \<Rightarrow> fmac \<Rightarrow> bool" where
  "only_hal s t = (t = s\<lparr>hal_dev_ctx := hal_dev_ctx t\<rparr>)"

lemma only_hal_refl [simp]: "only_hal s s"
  by (simp add: only_hal_def)

lemma only_hal_trans: "only_hal s t \<Longrightarrow> only_hal t u \<Longrightarrow> only_hal s u"
  unfolding only_hal_def by (metis fmac.surjective fmac.update_convs(1))

lemma only_hal_femit [simp]: "only_hal s (femit e t) = only_hal s t"
  by (cases s; cases t) (auto simp: only_hal_def femit_def)

lemma only_hal_falloc: "falloc os x s = (ok, t) \<Longrightarrow> only_hal s t"
  by (auto simp: falloc_def only_hal_def split: prod.splits)

lemma only_hal_on_hal: "on_hal f s = Some (r, t) \<Longrightarrow> only_hal s t"
  by (auto simp: on_hal_def only_hal_def split: Option.bind_splits)

lemma only_hal_cmd_cfg: "umac_cmd_cfg os p s = Some (st, t) \<Longrightarrow> only_hal s t"
  by (auto simp: umac_cmd_cfg_def cmd_send_def umac_cmd_alloc_def split: if_splits prod.splits
      dest!: only_hal_falloc only_hal_on_hal intro: only_hal_trans)

lemma only_halE:
  assumes "only_hal s t"
  obtains h where "t = s\<lparr>hal_dev_ctx := h\<rparr>"
  using assms by (auto simp: only_hal_def)

lemma only_hal_fields:
  assumes "only_hal s t"
  shows "vif_ctx t = vif_ctx s" "num_sta t = num_sta s" "num_ap t = num_ap s" "peers t = peers s"
    "op_mode t = op_mode s"
  using assms by (auto elim!: only_halE)

text \<open>The counters of the context are the numbers of live interfaces of the two kinds.\<close>

definition is_sta :: "vif_ptr \<Rightarrow> bool" where
  "is_sta p = (case p of VIF_PTR v \<Rightarrow>
     if_type v = NRF_WIFI_IFTYPE_STATION \<or> if_type v = NRF_WIFI_IFTYPE_P2P_CLIENT | _ \<Rightarrow> False)"

definition is_ap :: "vif_ptr \<Rightarrow> bool" where
  "is_ap p = (case p of VIF_PTR v \<Rightarrow>
     if_type v = NRF_WIFI_IFTYPE_AP \<or> if_type v = NRF_WIFI_IFTYPE_P2P_GO | _ \<Rightarrow> False)"

definition count_of :: "(vif_ptr \<Rightarrow> bool) \<Rightarrow> vif_ptr list \<Rightarrow> u8" where
  "count_of P ps = (\<Sum>p\<leftarrow>ps. if P p then 1 else 0)"

definition vif_counts :: "fmac \<Rightarrow> bool" where
  "vif_counts s = (length (vif_ctx s) = MAX_NUM_VIFS \<and> num_sta s = count_of is_sta (vif_ctx s)
     \<and> num_ap s = count_of is_ap (vif_ctx s))"

lemma count_update:
  "i < length ps \<Longrightarrow> count_of P (ps[i := p]) =
     count_of P ps - (if P (ps ! i) then 1 else 0) + (if P p then 1 else 0)"
proof (induction ps arbitrary: i)
  case (Cons q ps)
  then show ?case by (cases i) (auto simp: count_of_def algebra_simps)
qed simp

lemma idx_get_null:
  assumes "nrf_wifi_fmac_vif_idx_get s \<noteq> length (vif_ctx s)"
  shows "nrf_wifi_fmac_vif_idx_get s < length (vif_ctx s) \<and> vif_ctx s ! nrf_wifi_fmac_vif_idx_get s = VIF_NULL"
proof -
  have "nrf_wifi_fmac_vif_idx_get s < length (vif_ctx s)"
    using assms length_takeWhile_le [of "\<lambda>p. p \<noteq> VIF_NULL" "vif_ctx s"]
    by (simp add: nrf_wifi_fmac_vif_idx_get_def)
  then show ?thesis
    using nth_length_takeWhile [of "\<lambda>p. p \<noteq> VIF_NULL" "vif_ctx s"] by (simp add: nrf_wifi_fmac_vif_idx_get_def)
qed

text \<open>Putting an interface into an empty slot, and changing the type of a live one.\<close>

lemma counts_commit:
  assumes "vif_counts s" "i < length (vif_ctx s)" "vif_ctx s ! i = VIF_NULL"
  shows "vif_counts (nrf_wifi_fmac_vif_incr_if_type (if_type v)
    (s\<lparr>vif_ctx := (vif_ctx s)[i := VIF_PTR v]\<rparr>))"
  using assms
  by (auto simp: vif_counts_def nrf_wifi_fmac_vif_incr_if_type_def count_update is_sta_def is_ap_def)

lemma counts_update:
  assumes "vif_counts s" "nrf_wifi_fmac_vif_update_if_type i ty s = Some t"
  shows "vif_counts t"
  using assms
  by (auto simp: vif_counts_def nrf_wifi_fmac_vif_update_if_type_def vif_at_def count_update is_sta_def
      is_ap_def nrf_wifi_fmac_vif_incr_if_type_def nrf_wifi_fmac_vif_decr_if_type_def Let_def
      split: if_splits vif_ptr.splits Option.bind_splits)

lemma counts_only_hal: "only_hal s t \<Longrightarrow> vif_counts t = vif_counts s"
  by (simp add: vif_counts_def only_hal_fields)

lemma counts_delete:
  assumes "vif_counts s" "vif_at s i = Some v"
  shows "vif_counts (del_vif_free i (nrf_wifi_fmac_vif_decr_if_type (if_type v) s))"
  using assms
  by (auto simp: vif_counts_def del_vif_free_def vif_at_def count_update is_sta_def is_ap_def femit_def
      nrf_wifi_fmac_vif_decr_if_type_def split: if_splits vif_ptr.splits)

lemma only_hal_idx: "only_hal s t \<Longrightarrow> nrf_wifi_fmac_vif_idx_get t = nrf_wifi_fmac_vif_idx_get s"
  by (simp add: nrf_wifi_fmac_vif_idx_get_def only_hal_fields)

lemma add_vif_cases:
  assumes "nrf_wifi_sys_fmac_add_vif os i s = Some (r, t)"
  shows "only_hal s t \<or> (iftype_supported (add_iftype i) \<and> nrf_wifi_fmac_vif_check_if_limit (add_iftype i) s \<and>
    (\<exists>u. only_hal s u \<and> r = nrf_wifi_fmac_vif_idx_get s \<and> r \<noteq> MAX_NUM_VIFS \<and> only_hal (snd (vif_commit r i u)) t))"
proof (cases "op_mode s \<noteq> NRF_WIFI_OP_MODE_SYS \<or> \<not> iftype_supported (add_iftype i)
    \<or> \<not> nrf_wifi_fmac_vif_check_if_limit (add_iftype i) s")
  case True
  then show ?thesis using assms by (auto simp: nrf_wifi_sys_fmac_add_vif_def split: if_splits)
next
  case False
  obtain ok s1 where a: "falloc os OBJ_VIF_CTX s = (ok, s1)" by fastforce
  have h1: "only_hal s s1" using a by (rule only_hal_falloc)
  let ?k = "nrf_wifi_fmac_vif_idx_get s1"
  consider (fail) "\<not> ok \<or> ?k = MAX_NUM_VIFS" | (first) ok "?k = 0" | (cmd) ok "?k \<noteq> MAX_NUM_VIFS" "?k \<noteq> 0" by blast
  then show ?thesis
  proof cases
    case fail
    then show ?thesis using assms False a h1
      by (auto simp: nrf_wifi_sys_fmac_add_vif_def add_vif_err_def split: if_splits)
  next
    case first
    then show ?thesis using assms False a h1
      by (auto simp: nrf_wifi_sys_fmac_add_vif_def vif_commit_def split: if_splits intro!: disjI2 exI [of _ s1] simp: only_hal_idx)
  next
    case cmd
    obtain ok2 s2 where b: "falloc os OBJ_UMAC_CMD s1 = (ok2, s2)" by fastforce
    have h2: "only_hal s s2" using h1 only_hal_falloc [OF b] by (rule only_hal_trans)
    show ?thesis
    proof (cases ok2)
      case False
      then show ?thesis using assms \<open>\<not> (_ \<or> _)\<close> a b cmd h2
        by (auto simp: nrf_wifi_sys_fmac_add_vif_def add_vif_err_def split: if_splits)
    next
      case True
      obtain st s3 where c: "umac_cmd_cfg os (umac_cmd_add_vif ?k i) s2 = Some (st, s3)"
        using assms \<open>\<not> (_ \<or> _)\<close> a b cmd True
        by (auto simp: nrf_wifi_sys_fmac_add_vif_def Let_def split: if_splits Option.bind_splits)
      have h3: "only_hal s s3" using h2 only_hal_cmd_cfg [OF c] by (rule only_hal_trans)
      show ?thesis using assms \<open>\<not> (_ \<or> _)\<close> a b c cmd True h1 h3
        by (cases st) (auto simp: nrf_wifi_sys_fmac_add_vif_def add_vif_err_def vif_commit_def Let_def
            split: if_splits intro!: exI [of _ s3] simp: only_hal_idx)
    qed
  qed
qed

lemma add_vif_counts:
  assumes "vif_counts s" "nrf_wifi_sys_fmac_add_vif os i s = Some (r, t)"
  shows "vif_counts t"
  using add_vif_cases [OF assms(2)]
proof (elim disjE conjE exE)
  fix u
  assume w: "only_hal s u" "r = nrf_wifi_fmac_vif_idx_get s" "r \<noteq> MAX_NUM_VIFS"
    "only_hal (snd (vif_commit r i u)) t"
  have "r < length (vif_ctx u) \<and> vif_ctx u ! r = VIF_NULL"
    using idx_get_null [of s] w(1-3) assms(1) by (simp add: vif_counts_def only_hal_fields)
  then have "vif_counts (snd (vif_commit r i u))"
    using counts_commit [of u r "vif_of i"] w(1) assms(1)
    by (simp add: vif_commit_def counts_only_hal vif_of_def)
  with w(4) show ?thesis by (simp add: counts_only_hal)
qed (use assms(1) in \<open>simp add: counts_only_hal\<close>)

lemma chg_vif_counts:
  assumes "vif_counts s" "nrf_wifi_sys_fmac_chg_vif os k ty u4 s = Some (st, t)"
  shows "vif_counts t"
proof -
  obtain ok s1 where a: "falloc os OBJ_UMAC_CMD s = (ok, s1)" by fastforce
  have c1: "vif_counts s1" using only_hal_falloc [OF a] assms(1) by (simp add: counts_only_hal)
  consider "t = s" | "t = s1" | p st' s2 where "umac_cmd_cfg os p s1 = Some (st', s2)"
      "t = femit (IoFree OBJ_UMAC_CMD) s2 \<or>
       nrf_wifi_fmac_vif_update_if_type k ty (femit (IoFree OBJ_UMAC_CMD) s2) = Some t"
    using assms(2) a
    by (auto simp: nrf_wifi_sys_fmac_chg_vif_def Let_def split: if_splits Option.bind_splits)
  then show ?thesis
  proof cases
    case 3
    have "only_hal s1 (femit (IoFree OBJ_UMAC_CMD) s2)"
      using only_hal_cmd_cfg [OF 3(1)] by simp
    with c1 have "vif_counts (femit (IoFree OBJ_UMAC_CMD) s2)" by (simp add: counts_only_hal)
    then show ?thesis using 3(2) by (auto intro: counts_update)
  qed (use assms(1) c1 in simp_all)
qed

inductive vif_op :: "os \<Rightarrow> fmac \<Rightarrow> fmac \<Rightarrow> bool" for os where
  vif_add: "nrf_wifi_sys_fmac_add_vif os i s = Some (r, t) \<Longrightarrow> vif_op os s t"
| vif_chg: "nrf_wifi_sys_fmac_chg_vif os k ty u4 s = Some (st, t) \<Longrightarrow> vif_op os s t"
| vif_del: "nrf_wifi_sys_fmac_del_vif os k s = Some (SUCCESS, t) \<Longrightarrow> vif_op os s t"

lemma del_vif_cases:
  assumes "nrf_wifi_sys_fmac_del_vif os k s = Some (st, t)" "op_mode s = NRF_WIFI_OP_MODE_SYS"
    and "vif_at s k = Some v" "iftype_supported (if_type v)"
  shows "\<exists>u. only_hal s u \<and> only_hal (del_vif_free k
    (if st = SUCCESS then nrf_wifi_fmac_vif_decr_if_type (if_type v) u else u)) t"
proof (cases "k = 0")
  case True
  then show ?thesis using assms
    by (auto simp: nrf_wifi_sys_fmac_del_vif_def intro!: exI [of _ s])
next
  case False
  obtain ok s1 where a: "falloc os OBJ_UMAC_CMD s = (ok, s1)" by fastforce
  have h1: "only_hal s s1" using a by (rule only_hal_falloc)
  show ?thesis
  proof (cases ok)
    case False
    then show ?thesis using assms a h1 \<open>k \<noteq> 0\<close>
      by (auto simp: nrf_wifi_sys_fmac_del_vif_def intro!: exI [of _ s1])
  next
    case True
    obtain st' s2 where c: "umac_cmd_cfg os (umac_hdr 17 1 (of_nat k)) s1 = Some (st', s2)"
      using assms a True \<open>k \<noteq> 0\<close>
      by (auto simp: nrf_wifi_sys_fmac_del_vif_def Let_def split: Option.bind_splits)
    have h2: "only_hal s s2" using h1 only_hal_cmd_cfg [OF c] by (rule only_hal_trans)
    have e: "femit e (nrf_wifi_fmac_vif_decr_if_type ty u) = nrf_wifi_fmac_vif_decr_if_type ty (femit e u)" for e ty u
      by (simp add: femit_def nrf_wifi_fmac_vif_decr_if_type_def)
    show ?thesis using assms a c True h2 \<open>k \<noteq> 0\<close>
      by (auto simp: nrf_wifi_sys_fmac_del_vif_def Let_def e intro!: exI [of _ "femit (IoFree OBJ_UMAC_CMD) s2"])
  qed
qed

lemma vif_op_counts:
  assumes "vif_op os s t" "vif_counts s"
  shows "vif_counts t"
  using assms
proof cases
  case (vif_del k)
  show ?thesis
  proof (cases "op_mode s = NRF_WIFI_OP_MODE_SYS")
    case True
    then obtain v where v: "vif_at s k = Some v" "iftype_supported (if_type v)"
      using vif_del by (auto simp: nrf_wifi_sys_fmac_del_vif_def split: if_splits Option.bind_splits)
    obtain u where u: "only_hal s u"
        "only_hal (del_vif_free k (nrf_wifi_fmac_vif_decr_if_type (if_type v) u)) t"
      using del_vif_cases [OF vif_del True v] by auto
    have "vif_counts u" "vif_at u k = Some v"
      using u(1) assms(2) v(1)
      by (auto simp: counts_only_hal vif_at_def only_hal_fields split: if_splits)
    then show ?thesis using counts_delete u(2) by (simp add: counts_only_hal)
  next
    case False
    then show ?thesis using vif_del by (simp add: nrf_wifi_sys_fmac_del_vif_def)
  qed
qed (auto intro: add_vif_counts chg_vif_counts)



text \<open>A deletion frees the interface context on every path behind the type check, also when
  the command fails and the interface stays counted, and leaves the pointer in the table: the slot
  is not NULL, so it is never given out again, and every later access through it is undefined.\<close>

theorem del_vif_dangling:
  assumes "nrf_wifi_sys_fmac_del_vif os k s = Some (st, t)" "op_mode s = NRF_WIFI_OP_MODE_SYS"
    and "vif_at s k = Some v" "iftype_supported (if_type v)"
  shows "vif_ctx t ! k = VIF_FREED \<and> vif_at t k = None \<and> nrf_wifi_fmac_vif_idx_get t \<noteq> k \<and>
    nrf_wifi_fmac_vif_clear_ctx k t = None \<and>
    (st = FAIL \<longrightarrow> num_sta t = num_sta s \<and> num_ap t = num_ap s)"
proof -
  have k: "k < length (vif_ctx s)" using assms(3) by (simp add: vif_at_def split: if_splits)
  obtain u where u: "only_hal s u" "only_hal (del_vif_free k
      (if st = SUCCESS then nrf_wifi_fmac_vif_decr_if_type (if_type v) u else u)) t"
    using del_vif_cases [OF assms] by blast
  have t: "vif_ctx t = (vif_ctx s)[k := VIF_FREED]"
    using u by (auto simp: only_hal_fields del_vif_free_def nrf_wifi_fmac_vif_decr_if_type_def femit_def)
  have "nrf_wifi_fmac_vif_idx_get t \<noteq> k"
    using idx_get_null [of t] k by (auto simp: t)
  moreover have "st = FAIL \<longrightarrow> num_sta t = num_sta s \<and> num_ap t = num_ap s"
    using u by (auto simp: only_hal_fields del_vif_free_def femit_def)
  ultimately show ?thesis
    using k by (simp add: t vif_at_def nrf_wifi_fmac_vif_clear_ctx_def nth_opt_def)
qed

theorem del_vif_dangling_witness:
  "\<exists>t. nrf_wifi_sys_fmac_del_vif demo_os 0 fmac_demo = Some (SUCCESS, t) \<and> vif_at t 0 = None \<and>
    nrf_wifi_fmac_vif_idx_get t \<noteq> 0"
proof -
  have "\<exists>t. nrf_wifi_sys_fmac_del_vif demo_os 0 fmac_demo = Some (SUCCESS, t)"
    by (simp add: nrf_wifi_sys_fmac_del_vif_def vif_at_def fmac_demo_def sta_vif_def iftype_supported_def)
  then show ?thesis
    using del_vif_dangling [of demo_os 0 fmac_demo SUCCESS _ sta_vif]
    by (auto simp: fmac_demo_def vif_at_def sta_vif_def iftype_supported_def)
qed

section \<open>Peer properties\<close>

definition peers_ok :: "fmac \<Rightarrow> bool" where
  "peers_ok s = (length (peers s) = MAX_SW_PEERS \<and>
     (\<forall>i<MAX_PEERS. peer_id (peers s ! i) = -1 \<or> peer_id (peers s ! i) = int i) \<and>
     (\<forall>i<MAX_SW_PEERS. length (ra_addr (peers s ! i)) = 6))"

text \<open>The occupied slot of an address.\<close>

definition slot_of :: "u8 list \<Rightarrow> fmac \<Rightarrow> nat option" where
  "slot_of mac s = find (\<lambda>i. peer_id (peers s ! i) \<noteq> -1 \<and> ra_addr (peers s ! i) = mac) [0..<MAX_PEERS]"

lemma find_map: "find P (map f xs) = map_option f (find (P \<circ> f) xs)"
  by (induction xs) auto

lemma find_cong_set: "(\<And>x. x \<in> set xs \<Longrightarrow> P x = Q x) \<Longrightarrow> find P xs = find Q xs"
  by (induction xs) auto

lemma peer_get_id_slot:
  assumes "peers_ok s" "length mac = 6" "\<not> nrf_wifi_util_is_multicast_addr mac"
  shows "nrf_wifi_fmac_peer_get_id mac s = (case slot_of mac s of None \<Rightarrow> -1 | Some i \<Rightarrow> int i)"
proof -
  have "take MAX_PEERS (peers s) = map ((!) (peers s)) [0..<MAX_PEERS]"
    using assms(1) by (intro nth_equalityI) (auto simp: peers_ok_def)
  moreover have "find ((\<lambda>p. peer_id p \<noteq> -1 \<and> nrf_wifi_util_ether_addr_equal mac (ra_addr p)) \<circ> (!) (peers s)) [0..<MAX_PEERS]
      = slot_of mac s"
    unfolding slot_of_def
    using assms by (intro find_cong_set) (auto simp: peers_ok_def ether_addr_equal_bytes)
  moreover have "peer_id (peers s ! i) = int i" if "slot_of mac s = Some i" for i
    using that assms(1) by (auto simp: slot_of_def find_Some_iff peers_ok_def)
  ultimately show ?thesis
    using assms(3) by (auto simp: nrf_wifi_fmac_peer_get_id_def find_map split: option.splits)
qed

lemma peers_ok_only_hal: "only_hal s t \<Longrightarrow> peers_ok t = peers_ok s"
  by (simp add: peers_ok_def only_hal_fields)

lemma peers_ok_put:
  assumes "peers_ok s" "i < MAX_PEERS" "peer_id p = -1 \<or> peer_id p = int i" "length (ra_addr p) = 6"
  shows "peers_ok (peer_put i p s)"
  using assms by (auto simp: peers_ok_def peer_put_def nth_list_update)

lemma peers_ok_put_mc:
  assumes "peers_ok s" "length (ra_addr p) = 6"
  shows "peers_ok (peer_put MAX_PEERS p s)"
  using assms by (auto simp: peers_ok_def peer_put_def nth_list_update)

text \<open>The optional write of the address into the memory of the firmware.\<close>

lemma mac_write_only_hal: "peer_mac_write os ifi i s = Some t \<Longrightarrow> only_hal s t"
  by (auto simp: peer_mac_write_def split: if_splits Option.bind_splits dest: only_hal_on_hal)

lemma slot_add_outcome:
  assumes "peer_slot_add os ifi mac l q s = Some (pid, t)" "pid \<noteq> -1"
  shows "\<exists>i<MAX_PEERS. pid = int i \<and> peer_id (peers s ! i) = -1 \<and>
    only_hal (peer_put i ((peers s ! i)\<lparr>ra_addr := mac, peer_if_idx := ifi, peer_id := int i,
      is_legacy := l, qos_supported := q\<rparr>) s) t"
proof -
  obtain i where i: "find (\<lambda>i. peer_id (peers s ! i) = -1) [0..<MAX_PEERS] = Some i"
    using assms by (auto simp: peer_slot_add_def split: option.splits)
  then have "i < MAX_PEERS" "peer_id (peers s ! i) = -1"
    by (auto simp: find_Some_iff)
  moreover have "pid = int i \<and> only_hal (peer_put i ((peers s ! i)\<lparr>ra_addr := mac, peer_if_idx := ifi,
      peer_id := int i, is_legacy := l, qos_supported := q\<rparr>) s) t"
    using assms(1) i
    by (auto simp: peer_slot_add_def Let_def split: Option.bind_splits dest!: mac_write_only_hal)
  ultimately show ?thesis by blast
qed

lemma peer_add_kept:
  assumes "peers_ok s" "length mac = 6" "nrf_wifi_fmac_peer_add os ifi mac l q s = Some (pid, t)"
  shows "peers_ok t"
proof -
  have slot: "peers_ok t" if a: "peer_slot_add os ifi mac l q s = Some (pid, t)"
  proof (cases "pid = -1")
    case True
    then show ?thesis using a assms(1)
      by (auto simp: peer_slot_add_def Let_def split: option.splits Option.bind_splits)
  next
    case False
    then obtain i where "i < MAX_PEERS" "only_hal (peer_put i ((peers s ! i)\<lparr>ra_addr := mac,
        peer_if_idx := ifi, peer_id := int i, is_legacy := l, qos_supported := q\<rparr>) s) t"
      using slot_add_outcome [OF a False] by blast
    with assms(1,2) show ?thesis by (simp add: peers_ok_only_hal peers_ok_put)
  qed
  have mc: "length (ra_addr (peers s ! MAX_PEERS)) = 6"
    using assms(1) by (simp add: peers_ok_def)
  show ?thesis
    using assms(3) slot peers_ok_put_mc [OF assms(1)] mc
    by (auto simp: nrf_wifi_fmac_peer_add_def split: if_splits Option.bind_splits)
qed

lemma zero_slot_ok:
  "peers_ok s \<Longrightarrow> i < MAX_PEERS \<Longrightarrow> peers_ok (peer_put i (peer_zero\<lparr>peer_id := -1\<rparr>) s)"
  by (rule peers_ok_put) (simp_all add: peer_zero_def)

lemma peer_remove_kept:
  assumes "peers_ok s" "nrf_wifi_fmac_peer_remove os ifi pid s = Some t"
  shows "peers_ok t"
proof -
  have *: "peers_ok (peer_put (nat pid) (peer_zero\<lparr>peer_id := -1\<rparr>) u)"
    if "only_hal s u" "0 \<le> pid" "pid < 5" for u
    using that assms(1) by (intro zero_slot_ok) (auto simp: peers_ok_only_hal)
  show ?thesis using assms *
    by (auto simp: nrf_wifi_fmac_peer_remove_def Let_def split: if_splits Option.bind_splits
        dest: mac_write_only_hal)
qed

lemma flush_loop_kept:
  "peers_flush_loop os ifi is s = Some t \<Longrightarrow> set is \<subseteq> {..<MAX_PEERS} \<Longrightarrow> peers_ok s \<Longrightarrow> peers_ok t"
proof (induction "is" arbitrary: s)
  case (Cons i "is")
  show ?case
  proof (cases "peer_id (peers s ! i) = -1 \<or> peer_if_idx (peers s ! i) \<noteq> ifi")
    case True
    then show ?thesis using Cons by (auto split: if_splits)
  next
    case False
    then obtain u where u: "only_hal (peer_put i (peer_zero\<lparr>peer_id := -1\<rparr>) s) u"
        "peers_flush_loop os ifi is u = Some t"
      using Cons.prems(1) by (auto simp: Let_def split: if_splits Option.bind_splits dest!: mac_write_only_hal)
    then show ?thesis using Cons zero_slot_ok by (auto simp: peers_ok_only_hal)
  qed
qed simp

lemma peers_flush_kept:
  assumes "peers_ok s" "nrf_wifi_fmac_peers_flush os ifi s = Some t"
  shows "peers_ok t"
  using assms(2) unfolding nrf_wifi_fmac_peers_flush_def
proof (rule flush_loop_kept)
  have "length (ra_addr (peers s ! MAX_PEERS)) = 6" using assms(1) by (simp add: peers_ok_def)
  then show "peers_ok (peer_put MAX_PEERS ((peers s ! MAX_PEERS)\<lparr>peer_id := -1\<rparr>) s)"
    using assms(1) by (intro peers_ok_put_mc) simp_all
qed auto

text \<open>The peer operations as steps.\<close>

inductive peer_op :: "os \<Rightarrow> fmac \<Rightarrow> fmac \<Rightarrow> bool" for os where
  peer_add: "length mac = 6 \<Longrightarrow> nrf_wifi_fmac_peer_add os ifi mac l q s = Some (r, t) \<Longrightarrow> peer_op os s t"
| peer_remove: "nrf_wifi_fmac_peer_remove os ifi pid s = Some t \<Longrightarrow> peer_op os s t"
| peers_flush: "nrf_wifi_fmac_peers_flush os ifi s = Some t \<Longrightarrow> peer_op os s t"

lemma peer_op_kept: "peer_op os s t \<Longrightarrow> peers_ok s \<Longrightarrow> peers_ok t"
  by (erule peer_op.cases) (auto intro: peer_add_kept peer_remove_kept peers_flush_kept)

lemma peer_ops_kept: "(peer_op os)\<^sup>*\<^sup>* s t \<Longrightarrow> peers_ok s \<Longrightarrow> peers_ok t"
  by (induction rule: rtranclp_induct) (auto intro: peer_op_kept)

lemma slot_of_put:
  assumes "length (peers s) = MAX_SW_PEERS" "i < MAX_PEERS" "\<not> (peer_id (peers s ! i) \<noteq> -1 \<and> ra_addr (peers s ! i) = mac)"
    and "\<not> (peer_id p \<noteq> -1 \<and> ra_addr p = mac)"
  shows "slot_of mac (peer_put i p s) = slot_of mac s"
  unfolding slot_of_def using assms by (intro find_cong_set) (auto simp: peer_put_def nth_list_update)

lemma slot_of_new:
  assumes "length (peers s) = MAX_SW_PEERS" "i < MAX_PEERS" "slot_of mac s = None"
    and "peer_id p \<noteq> -1" "ra_addr p = mac"
  shows "slot_of mac (peer_put i p s) = Some i"
proof -
  have "slot_of mac (peer_put i p s) = find (\<lambda>j. j = i) [0..<MAX_PEERS]"
    unfolding slot_of_def
    using assms by (intro find_cong_set) (auto simp: peer_put_def nth_list_update slot_of_def find_None_iff)
  also have "\<dots> = Some i" using assms(2) by (simp add: find_Some_iff) (rule exI [of _ i], auto)
  finally show ?thesis .
qed

lemma slot_of_gone:
  assumes "length (peers s) = MAX_SW_PEERS" "i < MAX_PEERS" "slot_of mac s = None"
    and "peer_id p = -1"
  shows "slot_of mac (peer_put i p s) = None"
  using assms by (auto simp: slot_of_def find_None_iff peer_put_def nth_list_update)

lemma slot_of_only_hal: "only_hal s t \<Longrightarrow> slot_of mac t = slot_of mac s"
  by (simp add: slot_of_def only_hal_fields)

text \<open>C32 The peer table keeps its invariant under all operations: a slot is free or holds its own
  number. Adding a station that is not known gives its address a slot between 0 and 4 that
  the lookup then finds, changes the lookup of no other address, and removing that slot makes the
  address unknown again.\<close>

theorem peer_lookup:
  assumes "(peer_op os)\<^sup>*\<^sup>* s0 s" "peers_ok s0" "length mac = 6" "\<not> nrf_wifi_util_is_multicast_addr mac"
    and "nrf_wifi_fmac_peer_get_id mac s = -1"
    and "nrf_wifi_fmac_peer_add os ifi mac l q s = Some (pid, t)" "pid \<noteq> -1"
  shows "0 \<le> pid \<and> pid < int MAX_PEERS \<and> nrf_wifi_fmac_peer_get_id mac t = pid \<and>
    (\<forall>m. length m = 6 \<and> m \<noteq> mac \<longrightarrow> nrf_wifi_fmac_peer_get_id m t = nrf_wifi_fmac_peer_get_id m s) \<and>
    (\<forall>u. nrf_wifi_fmac_peer_remove os ifi pid t = Some u \<longrightarrow> nrf_wifi_fmac_peer_get_id mac u = -1)"
proof -
  have ok: "peers_ok s" using peer_ops_kept assms(1,2) .
  have tok: "peers_ok t" using peer_add_kept [OF ok assms(3,6)] .
  have len: "length (peers s) = MAX_SW_PEERS" using ok by (simp add: peers_ok_def)
  have add: "peer_slot_add os ifi mac l q s = Some (pid, t)"
    using assms(4,6) by (simp add: nrf_wifi_fmac_peer_add_def)
  obtain i where i: "i < MAX_PEERS" "pid = int i" "peer_id (peers s ! i) = -1"
      "only_hal (peer_put i ((peers s ! i)\<lparr>ra_addr := mac, peer_if_idx := ifi, peer_id := int i,
        is_legacy := l, qos_supported := q\<rparr>) s) t"
    using slot_add_outcome [OF add assms(7)] by blast
  have none: "slot_of mac s = None"
    using assms(5) peer_get_id_slot [OF ok assms(3,4)] by (cases "slot_of mac s") simp_all
  have id: "nrf_wifi_fmac_peer_get_id mac t = pid"
    using i none slot_of_new [OF len i(1) none] peer_get_id_slot [OF tok assms(3,4)]
    by (simp add: slot_of_only_hal [OF i(4)])
  have other: "nrf_wifi_fmac_peer_get_id m t = nrf_wifi_fmac_peer_get_id m s" if "length m = 6" "m \<noteq> mac" for m
  proof (cases "nrf_wifi_util_is_multicast_addr m")
    case True
    then show ?thesis by (simp add: nrf_wifi_fmac_peer_get_id_def)
  next
    case False
    then show ?thesis
      using peer_get_id_slot [OF ok that(1) False] peer_get_id_slot [OF tok that(1) False]
        slot_of_put [OF len i(1), of m] i(3) that(2) by (simp add: slot_of_only_hal [OF i(4)])
  qed
  have gone: "nrf_wifi_fmac_peer_get_id mac u = -1"
    if u: "nrf_wifi_fmac_peer_remove os ifi pid t = Some u" for u
  proof -
    have p: "peers t ! i = (peers s ! i)\<lparr>ra_addr := mac, peer_if_idx := ifi, peer_id := int i,
        is_legacy := l, qos_supported := q\<rparr>"
      using only_hal_fields(4) [OF i(4)] i(1) len by (simp add: peer_put_def)
    obtain w where w: "only_hal t w" "u = peer_put i (peer_zero\<lparr>peer_id := -1\<rparr>) w"
      using u i(1,2) p by (auto simp: nrf_wifi_fmac_peer_remove_def Let_def split: if_splits
          Option.bind_splits dest!: mac_write_only_hal)
    have "slot_of mac u = None"
      unfolding slot_of_def find_None_iff w(2)
      using only_hal_fields(4) [OF w(1)] only_hal_fields(4) [OF i(4)] i(1) len none
      by (auto simp: peer_put_def nth_list_update slot_of_def find_None_iff)
    then show ?thesis
      using peer_get_id_slot [OF peer_remove_kept [OF tok u] assms(3,4)] by simp
  qed
  show ?thesis using i(1,2) id other gone by auto
qed

lemma peers_ok_demo: "peers_ok fmac_demo"
  by (auto simp: peers_ok_def fmac_demo_def peer_zero_def nth_append)

theorem peer_lookup_witness:
  "\<exists>t. nrf_wifi_fmac_peer_add demo_os 0 [2, 0, 0, 0, 0, 9] 0 1 fmac_demo = Some (0, t) \<and>
    nrf_wifi_fmac_peer_get_id [2, 0, 0, 0, 0, 9] t = 0"
proof -
  let ?mac = "[2, 0, 0, 0, 0, 9] :: u8 list"
  have "\<exists>t. nrf_wifi_fmac_peer_add demo_os 0 ?mac 0 1 fmac_demo = Some (0, t)"
    by (simp add: nrf_wifi_fmac_peer_add_def nrf_wifi_util_is_multicast_addr_def peer_slot_add_def
        fmac_demo_simps upt_peers Let_def peer_mac_write_def vif_at_def peer_put_def sta_vif_def)
  then obtain t where t: "nrf_wifi_fmac_peer_add demo_os 0 ?mac 0 1 fmac_demo = Some (0, t)" by blast
  have "nrf_wifi_fmac_peer_get_id ?mac fmac_demo = -1"
    by (simp add: nrf_wifi_fmac_peer_get_id_def nrf_wifi_util_is_multicast_addr_def fmac_demo_simps numeral_eq_Suc)
  from peer_lookup [OF rtranclp.rtrancl_refl peers_ok_demo _ _ this t]
  have "nrf_wifi_fmac_peer_get_id ?mac t = 0" by (simp add: nrf_wifi_util_is_multicast_addr_def)
  with t show ?thesis by blast
qed

end
