(* ===== verification/Fmac_Step.thy ===== *)
theory Fmac_Step
  imports Fmac_Vif "HOL-Library.Multiset"
begin

text \<open>What every operation of the FMAC keeps, above the HAL: the trace grows legally (no lock is
  taken twice, no access to the bus while the device may sleep), and the frames that the transmit
  path was given are owned by one of its queues or freed, each once. The second part is a
  balance: an operation adds the frames of a multiset to those that are owned or freed.\<close>

named_theorems fsteps \<open>steps of the operations of the FMAC\<close>

section \<open>Steps\<close>

definition owned :: "fmac \<Rightarrow> u32 multiset" where
  "owned s = mset (map nb_ptr (concat (concat (data_pending_txq s))))
     + mset (map nb_ptr (concat (map pkt (pkt_info s))))"

fun freed :: "io list \<Rightarrow> u32 multiset" where
  "freed [] = {#}"
| "freed (IoNbufFree p # tr) = add_mset p (freed tr)"
| "freed (_ # tr) = freed tr"

definition frames :: "fmac \<Rightarrow> u32 multiset" where
  "frames s = owned s + freed (ftrace s)"

text \<open>The sizes of the tables of the transmit path.\<close>

definition same_tables :: "fmac \<Rightarrow> fmac \<Rightarrow> bool" where
  "same_tables s t = (num_tx_tokens t = num_tx_tokens s \<and> length (pkt_info t) = length (pkt_info s)
     \<and> map length (data_pending_txq t) = map length (data_pending_txq s))"

definition fready :: "os_lock set \<Rightarrow> fmac \<Rightarrow> bool" where
  "fready L s = (ps_coherent (hal_dev_ctx s) \<and> set (held (ftrace s)) \<inter> L = {})"

definition fstep :: "os_lock set \<Rightarrow> u32 multiset \<Rightarrow> fmac \<Rightarrow> fmac \<Rightarrow> bool" where
  "fstep L x s t = (same_setup (hal_dev_ctx s) (hal_dev_ctx t) \<and> same_tables s t \<and>
     (fready L s \<longrightarrow> fready L t \<and>
        legal (rpu_fw_booted (hal_dev_ctx s)) (ftrace s) (ftrace t) \<and> frames t = frames s + x))"

lemma fstep_refl [simp, intro]: "fstep L {#} s s"
  by (simp add: fstep_def same_tables_def)

lemma fstep_trans:
  assumes "fstep L x s t" "fstep L y t u"
  shows "fstep L (x + y) s u"
proof -
  have "rpu_fw_booted (hal_dev_ctx t) = rpu_fw_booted (hal_dev_ctx s)"
    using assms(1) by (simp add: fstep_def same_setup_booted)
  then show ?thesis
    using assms by (auto simp: fstep_def same_tables_def intro: same_setup_trans legal_trans)
qed

lemma fstep_trans0: "fstep L x s t \<Longrightarrow> fstep L {#} t u \<Longrightarrow> fstep L x s u"
  using fstep_trans by fastforce

lemma freed_host_evs: "freed (host_evs tr) = freed tr"
  by (induction tr rule: freed.induct) auto

lemma fstep_eq:
  assumes "fstep L x s t" "hal_dev_ctx u = hal_dev_ctx t" "same_tables t u" "owned u = owned t"
  shows "fstep L x s u"
  using assms by (simp add: fstep_def same_tables_def fready_def frames_def)

lemma fstep_gain:
  assumes "fstep L x s t" "hal_dev_ctx u = hal_dev_ctx t" "same_tables t u" "owned u = owned t + m"
  shows "fstep L (x + m) s u"
  using assms by (simp add: fstep_def same_tables_def fready_def frames_def)

lemma fstep_drop:
  assumes "fstep L (x + m) s t" "hal_dev_ctx u = hal_dev_ctx t" "same_tables t u" "owned t = owned u + m"
  shows "fstep L x s u"
  using assms by (simp add: fstep_def same_tables_def fready_def frames_def)

text \<open>Fields that neither hold frames nor belong to the HAL.\<close>

lemma fstep_fields [simp]:
  "fstep L x s (t\<lparr>peers := a\<rparr>) = fstep L x s t" "fstep L x s (t\<lparr>vif_ctx := b\<rparr>) = fstep L x s t"
  "fstep L x s (t\<lparr>num_sta := c\<rparr>) = fstep L x s t" "fstep L x s (t\<lparr>num_ap := d\<rparr>) = fstep L x s t"
  "fstep L x s (t\<lparr>buf_pool_bmp := e\<rparr>) = fstep L x s t"
  "fstep L x s (t\<lparr>outstanding_descs := f\<rparr>) = fstep L x s t"
  "fstep L x s (t\<lparr>spare_desc_queue_map := g\<rparr>) = fstep L x s t"
  "fstep L x s (t\<lparr>curr_peer_opp := h\<rparr>) = fstep L x s t"
  "fstep L x s (t\<lparr>wakeup_client_q := i\<rparr>) = fstep L x s t"
  "fstep L x s (t\<lparr>fmac_tx_info := j\<rparr>) = fstep L x s t"
  "fstep L x s (t\<lparr>fmac_rx_info := k\<rparr>) = fstep L x s t"
  "fstep L x s (t\<lparr>host_stats := l\<rparr>) = fstep L x s t"
  "fstep L x s (t\<lparr>send_pkt_coalesce_count := m\<rparr>) = fstep L x s t"
  "fstep L x s (t\<lparr>twt_sleep_status := n\<rparr>) = fstep L x s t"
  by (simp_all add: fstep_def same_tables_def fready_def frames_def owned_def)

lemma fstep_peer_put [simp]: "fstep L x s (peer_put i p t) = fstep L x s t"
  by (simp add: peer_put_def)

lemma fstep_peer_putI [intro!]: "fstep L x s t \<Longrightarrow> fstep L x s (peer_put i p t)"
  by simp

lemma fstep_on_hal:
  assumes "on_hal f s = Some (r, t)" "sat (f (hal_dev_ctx s)) (\<lambda>(r, h). hal_step L (hal_dev_ctx s) h)"
    "fstep L x s0 s"
  shows "fstep L x s0 t"
proof -
  obtain h where f: "f (hal_dev_ctx s) = Some (r, h)" and t: "t = s\<lparr>hal_dev_ctx := h\<rparr>"
    using assms(1) by (auto simp: on_hal_def split: Option.bind_splits)
  have h: "hal_step L (hal_dev_ctx s) h" using assms(2) f by simp
  have "fready L t \<and> legal (rpu_fw_booted (hal_dev_ctx s)) (ftrace s) (ftrace t) \<and> frames t = frames s"
    if r: "fready L s"
  proof -
    have c: "ps_coherent h" and g: "grows (rpu_fw_booted (hal_dev_ctx s)) (ftrace s) (w_trace h)"
      using h r by (simp_all add: hal_step_def fready_def)
    have "freed (w_trace h) = freed (ftrace s)"
      using grows_host_evs [OF g] freed_host_evs by metis
    then show ?thesis
      using c g r grows_held [OF g] grows_legal [OF g]
      by (simp add: t fready_def frames_def owned_def)
  qed
  then have "fstep L {#} s t"
    using h by (simp add: fstep_def same_tables_def hal_step_def t)
  with assms(3) show ?thesis by (rule fstep_trans0)
qed

text \<open>Events: those of the OS objects, a frame that is freed, other events of the FMAC, and a
  critical section.\<close>

lemma same_setup_femit [simp]: "same_setup h (hal_dev_ctx (femit e t)) = same_setup h (hal_dev_ctx t)"
  by (simp add: same_setup_def)

lemma same_tables_femit [simp]: "same_tables s (femit e t) = same_tables s t"
  by (simp add: same_tables_def femit_def)

lemma same_tables_femit' [simp]: "same_tables (femit e s) t = same_tables s t"
  by (simp add: same_tables_def femit_def)

lemma owned_femit [simp]: "owned (femit e t) = owned t"
  by (simp add: owned_def)

lemma fready_femit:
  "held (e # ftrace t) = held (ftrace t) \<Longrightarrow> awake (e # ftrace t) = awake (ftrace t) \<Longrightarrow>
   fready L (femit e t) = fready L t"
  by (simp add: fready_def ps_coherent_def)

lemma fstep_event:
  assumes "fstep L x s t" "ev_ok (rpu_fw_booted (hal_dev_ctx s)) e (ftrace t)"
    "held (e # ftrace t) = held (ftrace t)" "awake (e # ftrace t) = awake (ftrace t)"
    "freed (e # ftrace t) = freed (ftrace t) + y"
  shows "fstep L (x + y) s (femit e t)"
proof -
  have "frames (femit e t) = frames t + y"
    using assms(5) by (simp only: frames_def owned_femit femit_simps) (simp add: ac_simps)
  then show ?thesis
    using assms(1) legal_event [OF assms(2,3)] fready_femit [OF assms(3,4)]
    by (simp only: fstep_def same_setup_femit same_tables_femit femit_simps(1)) (simp add: ac_simps)
qed

lemma fstep_quiet [intro]:
  assumes "quiet e" "fstep L x s t"
  shows "fstep L x s (femit e t)"
proof -
  have "freed (e # ftrace t) = freed (ftrace t) + {#}"
    using assms(1) by (cases e) auto
  from fstep_event [OF assms(2) _ _ _ this] quiet_simps [OF assms(1)] show ?thesis by (simp only: add_0_right simp_thms)
qed

lemma fstep_free [intro!]: "fstep L x s t \<Longrightarrow> fstep L x s (femit (IoFree ob) t)"
  by (simp add: fstep_quiet)

lemma fstep_nbuf_free: "fstep L x s t \<Longrightarrow> fstep L (add_mset p x) s (femit (IoNbufFree p) t)"
  using fstep_event [of L x s t "IoNbufFree p" "{#p#}"] by simp

lemma fstep_callback [intro]: "fstep L x s t \<Longrightarrow> fstep L x s (femit (IoFmacCallback c i bs) t)"
  using fstep_event [of L x s t "IoFmacCallback c i bs" "{#}"] by simp

lemma fstep_nbuf_alloc [intro]: "fstep L x s t \<Longrightarrow> fstep L x s (femit (IoNbufAlloc p) t)"
  using fstep_event [of L x s t "IoNbufAlloc p" "{#}"] by simp

lemma fstep_falloc [fsteps]: "falloc os ob s = (ok, t) \<Longrightarrow> fstep L x s0 s \<Longrightarrow> fstep L x s0 t"
  using fstep_quiet [of "IoAlloc ob ok" L x s0 s]
  by (auto simp: falloc_def osal_alloc_def Let_def femit_def)

lemma fstep_locked:
  assumes "fstep (L - {l}) x (femit (IoLock l) s) t" "l \<in> L"
  shows "fstep L x s (femit (IoUnlock l) t)"
proof -
  have "fready L (femit (IoUnlock l) t) \<and>
      legal (rpu_fw_booted (hal_dev_ctx s)) (ftrace s) (ftrace (femit (IoUnlock l) t)) \<and>
      frames (femit (IoUnlock l) t) = frames s + x"
    if r: "fready L s"
  proof -
    have "fready (L - {l}) (femit (IoLock l) s)"
      using r by (auto simp: fready_def ps_coherent_def)
    with assms(1) have t: "fready (L - {l}) t"
        "legal (rpu_fw_booted (hal_dev_ctx s)) (IoLock l # ftrace s) (ftrace t)" "frames t = frames s + x"
      by (auto simp: fstep_def frames_def owned_def)
    have h: "held (ftrace t) = l # held (ftrace s)" using legal_held [OF t(2)] by simp
    have "l \<notin> set (held (ftrace s))" using r assms(2) by (auto simp: fready_def)
    from legal_lock [OF this t(2)] t h r show ?thesis
      by (auto simp: fready_def ps_coherent_def frames_def owned_def)
  qed
  then show ?thesis
    using assms(1) by (simp add: fstep_def same_setup_def)
qed

section \<open>Commands, interfaces and peers\<close>

abbreviation hal_locks :: "os_lock set" where
  "hal_locks \<equiv> {LOCK_PS, LOCK_HAL}"

lemma mem_write_fstep [fsteps]:
  "on_hal (hal_rpu_mem_write os a bs) s = Some (st, t) \<Longrightarrow> LOCK_PS \<in> L \<Longrightarrow> fstep L x s0 s \<Longrightarrow> fstep L x s0 t"
  by (erule fstep_on_hal, rule mem_write_step_sat)

lemma hal_ok_sat: "hal_ok L s m \<Longrightarrow> L \<subseteq> M \<Longrightarrow> sat m (\<lambda>(st, t). hal_step M s t)"
  unfolding hal_ok_def by (erule sat_mono) (auto intro: hal_step_mono)

lemma ctrl_cmd_fstep [fsteps]:
  "on_hal (nrf_wifi_hal_ctrl_cmd_send os cmd) s = Some (st, t) \<Longrightarrow> LOCK_PS \<in> L \<Longrightarrow> LOCK_HAL \<in> L \<Longrightarrow> fstep L x s0 s \<Longrightarrow>
   fstep L x s0 t"
  by (erule fstep_on_hal, rule hal_ok_sat [OF ctrl_cmd_send_ok]) auto

lemma data_cmd_fstep [fsteps]:
  "on_hal (nrf_wifi_sys_hal_data_cmd_send os ty cmd d p) s = Some (st, t) \<Longrightarrow> LOCK_PS \<in> L \<Longrightarrow> LOCK_HAL \<in> L \<Longrightarrow>
   fstep L x s0 s \<Longrightarrow> fstep L x s0 t"
  by (erule fstep_on_hal, rule hal_ok_sat [OF data_cmd_send_ok]) auto

lemma map_tx_fstep [fsteps]:
  "on_hal (nrf_wifi_sys_hal_buf_map_tx os mem buf len d tok i) s = Some (a, t) \<Longrightarrow> LOCK_PS \<in> L \<Longrightarrow> LOCK_HAL \<in> L \<Longrightarrow>
   fstep L x s0 s \<Longrightarrow> fstep L x s0 t"
  by (erule fstep_on_hal, rule buf_map_tx_step)

lemma unmap_tx_fstep [fsteps]:
  "on_hal (nrf_wifi_sys_hal_buf_unmap_tx d) s = Some (a, t) \<Longrightarrow> fstep L x s0 s \<Longrightarrow> fstep L x s0 t"
  by (erule fstep_on_hal, rule buf_unmap_tx_step)

lemma map_rx_fstep [fsteps]:
  "on_hal (nrf_wifi_sys_hal_buf_map_rx os mem buf len p b) s = Some (a, t) \<Longrightarrow> LOCK_PS \<in> L \<Longrightarrow> LOCK_HAL \<in> L \<Longrightarrow>
   fstep L x s0 s \<Longrightarrow> fstep L x s0 t"
  by (erule fstep_on_hal, rule buf_map_rx_step)

lemma cmd_send_fstep [fsteps]:
  "cmd_send os ty body s = Some (st, t) \<Longrightarrow> LOCK_PS \<in> L \<Longrightarrow> LOCK_HAL \<in> L \<Longrightarrow> fstep L x s0 s \<Longrightarrow> fstep L x s0 t"
  by (auto simp: cmd_send_def umac_cmd_alloc_def split: prod.splits if_splits; blast intro: fsteps)

lemma cmd_cfg_fstep [fsteps]:
  "umac_cmd_cfg os p s = Some (st, t) \<Longrightarrow> LOCK_PS \<in> L \<Longrightarrow> LOCK_HAL \<in> L \<Longrightarrow> fstep L x s0 s \<Longrightarrow> fstep L x s0 t"
  by (auto simp: umac_cmd_cfg_def split: if_splits; blast intro: fsteps)

lemma if_type_fstep [simp]:
  "fstep L x s (nrf_wifi_fmac_vif_incr_if_type ty t) = fstep L x s t"
  "fstep L x s (nrf_wifi_fmac_vif_decr_if_type ty t) = fstep L x s t"
  by (simp_all add: nrf_wifi_fmac_vif_incr_if_type_def nrf_wifi_fmac_vif_decr_if_type_def)

lemma vif_commit_fstep: "vif_commit i a t = (r, u) \<Longrightarrow> fstep L x s u = fstep L x s t"
  by (auto simp: vif_commit_def)

lemma add_vif_err_fstep: "add_vif_err t = (r, u) \<Longrightarrow> fstep L x s t \<Longrightarrow> fstep L x s u"
  by (auto simp: add_vif_err_def)

lemma add_vif_fstep [fsteps]:
  "nrf_wifi_sys_fmac_add_vif os i s = Some (r, t) \<Longrightarrow> LOCK_PS \<in> L \<Longrightarrow> LOCK_HAL \<in> L \<Longrightarrow> fstep L x s0 s \<Longrightarrow> fstep L x s0 t"
  unfolding nrf_wifi_sys_fmac_add_vif_def Let_def add_vif_err_def vif_commit_def
  by (auto split: if_splits prod.splits Option.bind_splits; blast intro: fsteps)

lemma del_vif_free_fstep: "fstep L x s t \<Longrightarrow> fstep L x s (del_vif_free i t)"
  by (auto simp: del_vif_free_def)

lemma del_vif_fstep [fsteps]:
  "nrf_wifi_sys_fmac_del_vif os i s = Some (r, t) \<Longrightarrow> LOCK_PS \<in> L \<Longrightarrow> LOCK_HAL \<in> L \<Longrightarrow> fstep L x s0 s \<Longrightarrow> fstep L x s0 t"
  unfolding nrf_wifi_sys_fmac_del_vif_def Let_def
  by (auto split: if_splits prod.splits Option.bind_splits intro!: del_vif_free_fstep; blast intro: fsteps)

lemma chg_vif_fstep [fsteps]:
  "nrf_wifi_sys_fmac_chg_vif os i ty a s = Some (r, t) \<Longrightarrow> LOCK_PS \<in> L \<Longrightarrow> LOCK_HAL \<in> L \<Longrightarrow> fstep L x s0 s \<Longrightarrow> fstep L x s0 t"
  unfolding nrf_wifi_sys_fmac_chg_vif_def Let_def nrf_wifi_fmac_vif_update_if_type_def
  by (auto split: if_splits prod.splits Option.bind_splits; blast intro: fsteps)

lemma mac_write_fstep [fsteps]:
  "peer_mac_write os ifi i s = Some t \<Longrightarrow> LOCK_PS \<in> L \<Longrightarrow> LOCK_HAL \<in> L \<Longrightarrow> fstep L x s0 s \<Longrightarrow> fstep L x s0 t"
  unfolding peer_mac_write_def
  by (auto split: if_splits prod.splits Option.bind_splits; blast intro: fsteps)

lemma slot_add_fstep [fsteps]:
  "peer_slot_add os ifi mac l q s = Some (r, t) \<Longrightarrow> LOCK_PS \<in> L \<Longrightarrow> LOCK_HAL \<in> L \<Longrightarrow> fstep L x s0 s \<Longrightarrow> fstep L x s0 t"
  unfolding peer_slot_add_def Let_def
  by (auto split: if_splits prod.splits option.splits Option.bind_splits; blast intro: fsteps)

lemma peer_add_fstep [fsteps]:
  "nrf_wifi_fmac_peer_add os ifi mac l q s = Some (r, t) \<Longrightarrow> LOCK_PS \<in> L \<Longrightarrow> LOCK_HAL \<in> L \<Longrightarrow> fstep L x s0 s \<Longrightarrow> fstep L x s0 t"
  unfolding nrf_wifi_fmac_peer_add_def
  by (auto split: if_splits Option.bind_splits; blast intro: fsteps)

lemma peer_remove_fstep [fsteps]:
  "nrf_wifi_fmac_peer_remove os ifi p s = Some t \<Longrightarrow> LOCK_PS \<in> L \<Longrightarrow> LOCK_HAL \<in> L \<Longrightarrow> fstep L x s0 s \<Longrightarrow> fstep L x s0 t"
  unfolding nrf_wifi_fmac_peer_remove_def Let_def
  by (auto split: if_splits Option.bind_splits; blast intro: fsteps)

lemma flush_loop_fstep [fsteps]:
  "peers_flush_loop os ifi is s = Some t \<Longrightarrow> LOCK_PS \<in> L \<Longrightarrow> LOCK_HAL \<in> L \<Longrightarrow> fstep L x s0 s \<Longrightarrow> fstep L x s0 t"
  by (induction "is" arbitrary: s) (auto simp: Let_def split: if_splits Option.bind_splits intro: fsteps)

lemma peers_flush_fstep [fsteps]:
  "nrf_wifi_fmac_peers_flush os ifi s = Some t \<Longrightarrow> LOCK_PS \<in> L \<Longrightarrow> LOCK_HAL \<in> L \<Longrightarrow> fstep L x s0 s \<Longrightarrow> fstep L x s0 t"
  unfolding nrf_wifi_fmac_peers_flush_def by (erule flush_loop_fstep) auto

end
