(* ===== verification/Fmac_Tx.thy ===== *)
theory Fmac_Tx
  imports Fmac_Step
begin

text \<open>The transmit path of the FMAC (\<open>fw_if/umac_if/src/system/tx.c\<close>): transmit descriptors
  (tokens) with their bitmap and the map of the spare ones, the pending queues per peer and access
  category, aggregation, the transmit command, the completion event, set-up and removal. A
  descriptor is a number; a peer and an access category are indices, below the sizes of the
  arrays of the context; an index that comes from the state is checked, as is one into an array
  that was allocated.\<close>

section \<open>The map of the spare descriptors\<close>

text \<open>A modulus of zero is undefined behaviour.\<close>

definition reserved_descs :: "fmac \<Rightarrow> nat" where
  "reserved_descs s = unat (num_tx_tokens_per_ac s) * NRF_WIFI_FMAC_AC_MAX"

definition spare_desc_bit :: "nat \<Rightarrow> nat \<Rightarrow> fmac \<Rightarrow> nat" where
  "spare_desc_bit desc q s = desc mod reserved_descs s * 4 + q"

definition set_spare_desc_q_map :: "nat \<Rightarrow> nat \<Rightarrow> fmac \<Rightarrow> fmac option" where
  "set_spare_desc_q_map desc tx_done_q s =
    (if reserved_descs s = 0 then None
     else Some (s\<lparr>spare_desc_queue_map := set_bit (spare_desc_bit desc tx_done_q s) (spare_desc_queue_map s)\<rparr>))"

definition clear_spare_desc_q_map :: "nat \<Rightarrow> nat \<Rightarrow> fmac \<Rightarrow> fmac option" where
  "clear_spare_desc_q_map desc tx_done_q s =
    (if reserved_descs s = 0 then None
     else Some (s\<lparr>spare_desc_queue_map := unset_bit (spare_desc_bit desc tx_done_q s) (spare_desc_queue_map s)\<rparr>))"

definition get_spare_desc_q_map :: "nat \<Rightarrow> fmac \<Rightarrow> u32 option" where
  "get_spare_desc_q_map desc s =
    (if reserved_descs s = 0 then None
     else Some (drop_bit (spare_desc_bit desc 0 s) (spare_desc_queue_map s) AND 0xF))"

section \<open>Descriptors\<close>

definition desc_busy :: "fmac \<Rightarrow> nat \<Rightarrow> bool" where
  "desc_busy s d = bit (buf_pool_bmp s ! (d div 32)) (d mod 32)"

definition desc_mark :: "nat \<Rightarrow> fmac \<Rightarrow> fmac" where
  "desc_mark d s = s\<lparr>buf_pool_bmp := (buf_pool_bmp s)[d div 32 := set_bit (d mod 32) (buf_pool_bmp s ! (d div 32))]\<rparr>"

definition outstanding_add :: "nat \<Rightarrow> u32 \<Rightarrow> fmac \<Rightarrow> fmac" where
  "outstanding_add q n s = s\<lparr>outstanding_descs := (outstanding_descs s)[q := outstanding_descs s ! q + n]\<rparr>"

definition tx_desc_free :: "nat \<Rightarrow> nat \<Rightarrow> fmac \<Rightarrow> fmac option" where
  "tx_desc_free desc queue s = do {
     w \<leftarrow> nth_opt (buf_pool_bmp s) (desc div 32);
     if \<not> bit w (desc mod 32) then Some s
     else let s = outstanding_add queue (-1)
            (s\<lparr>buf_pool_bmp := (buf_pool_bmp s)[desc div 32 := unset_bit (desc mod 32) w]\<rparr>) in
       if reserved_descs s \<le> desc then clear_spare_desc_q_map desc queue s else Some s
   }"

text \<open>First the descriptors reserved for the queue, then the spare ones; the number of tokens
  stands for none.\<close>

fun desc_search :: "nat list \<Rightarrow> u32 list \<Rightarrow> nat option option" where
  "desc_search [] bmp = Some None"
| "desc_search (d # ds) bmp = do {
     w \<leftarrow> nth_opt bmp (d div 32);
     if bit w (d mod 32) then desc_search ds bmp else Some (Some d)
   }"

definition tx_desc_get :: "nat \<Rightarrow> fmac \<Rightarrow> (nat \<times> fmac) option" where
  "tx_desc_get queue s = do {
     r \<leftarrow> desc_search (map (\<lambda>cnt. queue + NRF_WIFI_FMAC_AC_MAX * cnt) [0..<unat (num_tx_tokens_per_ac s)])
            (buf_pool_bmp s);
     (case r of
        Some d \<Rightarrow> Some (d, outstanding_add queue 1 (desc_mark d s))
      | None \<Rightarrow> do {
          r \<leftarrow> desc_search [reserved_descs s..<unat (num_tx_tokens s)] (buf_pool_bmp s);
          (case r of
             Some d \<Rightarrow> do {
               s \<leftarrow> set_spare_desc_q_map d queue (outstanding_add queue 1 (desc_mark d s));
               Some (d, s)
             }
           | None \<Rightarrow> Some (max (reserved_descs s) (unat (num_tx_tokens s)), s))
        })
   }"

section \<open>Pending queues and the choice of the peer\<close>

definition pend_at :: "fmac \<Rightarrow> nat \<Rightarrow> nat \<Rightarrow> nbuf list option" where
  "pend_at s peer ac = do { row \<leftarrow> nth_opt (data_pending_txq s) peer; nth_opt row ac }"

definition pending_frames_count :: "nat \<Rightarrow> fmac \<Rightarrow> nat" where
  "pending_frames_count peer s =
    length (pend s peer 3) + length (pend s peer 2) + length (pend s peer 1) + length (pend s peer 0)"

definition update_pend_q_bmp :: "os \<Rightarrow> nat \<Rightarrow> nat \<Rightarrow> fmac \<Rightarrow> (nrf_status \<times> fmac) option" where
  "update_pend_q_bmp os ac peer s = do {
     v \<leftarrow> vif_at s (unat (peer_if_idx (peers s ! peer)));
     if if_type v = NRF_WIFI_IFTYPE_AP \<and> peer < MAX_PEERS
     then let p = peers s ! peer;
              bmp = (if pend s peer ac = [] then unset_bit ac (pend_q_bmp p) else set_bit ac (pend_q_bmp p));
              s = peer_put peer (p\<lparr>pend_q_bmp := bmp\<rparr>) s
       in on_hal (hal_rpu_mem_write os (pend_bmp_addr peer + 8) [bmp, 0, 0, 0]) s
     else Some (SUCCESS, s)
   }"

definition tx_aggr_check :: "os \<Rightarrow> nbuf \<Rightarrow> nat \<Rightarrow> nat \<Rightarrow> fmac \<Rightarrow> bool" where
  "tx_aggr_check os first_nwb ac peer s =
    (if is_legacy (peers s ! peer) \<noteq> 0 then False
     else case pend s peer ac of [] \<Rightarrow> False
     | nwb # _ \<Rightarrow> nrf_wifi_util_ether_addr_equal (nrf_wifi_get_dest os nwb) (nrf_wifi_get_dest os first_nwb) \<and>
         nrf_wifi_util_ether_addr_equal (nrf_wifi_get_src os nwb) (nrf_wifi_get_src os first_nwb))"

text \<open>A woken peer that still has a token and frames of the category gives a token away.\<close>

fun wakeup_q_find :: "nat \<Rightarrow> nat list \<Rightarrow> fmac \<Rightarrow> (nat option \<times> fmac) option" where
  "wakeup_q_find ac [] s = Some (None, s)"
| "wakeup_q_find ac (i # is) s =
    (let p = peers s ! i in
     if ps_token_count p = 0 then wakeup_q_find ac is s
     else if peer_id p < 0 then None
     else do {
       q \<leftarrow> pend_at s (nat (peer_id p)) ac;
       if q \<noteq> []
       then Some (Some (nat (peer_id p)), peer_put i (p\<lparr>ps_token_count := ps_token_count p - 1\<rparr>) s)
       else wakeup_q_find ac is s
     })"

definition get_peer_from_wakeup_q :: "nat \<Rightarrow> fmac \<Rightarrow> (nat option \<times> fmac) option" where
  "get_peer_from_wakeup_q ac s = wakeup_q_find ac (wakeup_client_q s) s"

definition tx_curr_peer_opp_get :: "nat \<Rightarrow> fmac \<Rightarrow> (nat option \<times> fmac) option" where
  "tx_curr_peer_opp_get ac s =
    (if ac = NRF_WIFI_FMAC_AC_MC then Some (Some MAX_PEERS, s)
     else do {
       (p, s) \<leftarrow> get_peer_from_wakeup_q ac s;
       if p \<noteq> None then Some (p, s)
       else let init_peer_opp = curr_peer_opp s ! ac in
         (case find (\<lambda>c. ps_state (peers s ! c) \<noteq> NRF_WIFI_CLIENT_PS_MODE \<and> pend s c ac \<noteq> [])
                 (map (\<lambda>i. (init_peer_opp + i) mod MAX_PEERS) [0..<MAX_PEERS]) of
            None \<Rightarrow> Some (None, s)
          | Some c \<Rightarrow> Some (Some c, s\<lparr>curr_peer_opp := (curr_peer_opp s)[ac := (c + 1) mod MAX_PEERS]\<rparr>))
     })"

section \<open>Aggregation\<close>

definition txq_add :: "os \<Rightarrow> nat \<Rightarrow> nbuf \<Rightarrow> fmac \<Rightarrow> fmac" where
  "txq_add os desc b s =
    (let (ok, s) = falloc os OBJ_Q_NODE s; i = pkt_info s ! desc in
     if ok then s\<lparr>pkt_info := (pkt_info s)[desc := i\<lparr>pkt := pkt i @ [b]\<rparr>]\<rparr> else s)"

definition pend_dequeue :: "nat \<Rightarrow> nat \<Rightarrow> fmac \<Rightarrow> fmac" where
  "pend_dequeue peer ac s = femit (IoFree OBJ_Q_NODE) (pend_put peer ac (tl (pend s peer ac)) s)"

text \<open>The loop over the pending queue; its list argument is the queue. The lengths are compared as
  signed numbers.\<close>

fun pend_loop :: "os \<Rightarrow> nat \<Rightarrow> nat \<Rightarrow> nat \<Rightarrow> nbuf \<Rightarrow> u32 \<Rightarrow> nbuf list \<Rightarrow> fmac \<Rightarrow> fmac" where
  "pend_loop os desc ac peer first_nwb ampdu_len [] s = s"
| "pend_loop os desc ac peer first_nwb ampdu_len (nwb # q) s =
    (let ampdu_len = ampdu_len + (TX_BUF_HEADROOM + nbuf_size nwb) in
     if word_sle (avail_ampdu_len_per_token s) ampdu_len then s
     else if \<not> can_xmit s nwb \<or> \<not> tx_aggr_check os first_nwb ac peer s
        \<or> unat (max_tx_aggregation s) \<le> length (pkt (pkt_info s ! desc)) then s
     else pend_loop os desc ac peer first_nwb ampdu_len q (txq_add os desc nwb (pend_dequeue peer ac s)))"

definition collect_finish :: "os \<Rightarrow> nat \<Rightarrow> nat \<Rightarrow> nat \<Rightarrow> fmac \<Rightarrow> (nat \<times> fmac) option" where
  "collect_finish os desc ac peer s =
    (let len = length (pkt (pkt_info s ! desc));
         s = (if 0 < len then s\<lparr>pkt_info := (pkt_info s)[desc := (pkt_info s ! desc)\<lparr>pkt_peer_id := int peer\<rparr>]\<rparr> else s)
     in do { (_, s) \<leftarrow> update_pend_q_bmp os ac peer s; Some (len, s) })"

definition tx_pending_collect :: "os \<Rightarrow> nat \<Rightarrow> nat \<Rightarrow> fmac \<Rightarrow> (nat \<times> fmac) option" where
  "tx_pending_collect os desc ac s = do {
     (p, s) \<leftarrow> tx_curr_peer_opp_get ac s;
     (case p of None \<Rightarrow> Some (0, s) | Some peer \<Rightarrow> do {
        q \<leftarrow> pend_at s peer ac;
        (case q of [] \<Rightarrow> Some (0, s)
         | first_nwb # _ \<Rightarrow> do {
             _ \<leftarrow> nth_opt (pkt_info s) desc;
             let s = pend_loop os desc ac peer first_nwb 0 q s;
             if pkt (pkt_info s ! desc) \<noteq> [] then collect_finish os desc ac peer s
             else (case pend s peer ac of [] \<Rightarrow> Some (0, s)
               | nwb # _ \<Rightarrow>
                   if \<not> can_xmit s nwb then Some (0, s)
                   else collect_finish os desc ac peer (txq_add os desc nwb (pend_dequeue peer ac s)))
           })
      })
   }"

section \<open>The transmit command\<close>

text \<open>The loop of \<open>tx_cmd_prep_callbk_fn\<close> over the frames: each is mapped into the packet memory;
  the result has the length and the address of the mapped ones.\<close>

fun tx_cmd_prep_loop :: "os \<Rightarrow> nat \<Rightarrow> nat \<Rightarrow> nbuf list \<Rightarrow> fmac \<Rightarrow>
    (nrf_status \<times> (u16 \<times> u32) list \<times> fmac) option" where
  "tx_cmd_prep_loop os desc frame_indx [] s = Some (SUCCESS, [], s)"
| "tx_cmd_prep_loop os desc frame_indx (b # bs) s = do {
     let desc_id = desc * unat (max_tx_aggregation s) + frame_indx;
     tbl \<leftarrow> fmac_tx_info s;
     e \<leftarrow> nth_opt tbl desc_id;
     if buf_mapped e then Some (FAIL, [], s)
     else do {
       (phy_addr, s) \<leftarrow> on_hal (nrf_wifi_sys_hal_buf_map_tx os (nbuf_mem os b) (nb_data_ptr b) (nbuf_size b)
         (of_nat desc_id) (of_nat desc) (of_nat frame_indx)) s;
       if phy_addr = 0 then Some (FAIL, [], s)
       else do {
         (st, infos, s) \<leftarrow> tx_cmd_prep_loop os desc (frame_indx + 1) bs
           (s\<lparr>fmac_tx_info := Some (tbl[desc_id := \<lparr>buf_mapped = True, buf_nwb = Some b\<rparr>])\<rparr>);
         Some (st, (ucast (nbuf_size b), phy_addr) # infos, s)
       }
     }
   }"

abbreviation (input) NRF_WIFI_CMD_TX_BUFF :: u32 where "NRF_WIFI_CMD_TX_BUFF \<equiv> 1"

definition tx_flags_of :: "os \<Rightarrow> nbuf \<Rightarrow> u32" where
  "tx_flags_of os nwb = (of_nat (nrf_wifi_get_tid os nwb) AND 0xFFFF)
     OR (if is_twt_emergency_pkt nwb then push_bit 31 1 else 0)
     OR (if nb_chksum_done nwb then push_bit 30 1 else 0)"

definition tx_buff_info_bytes :: "u16 \<times> u32 \<Rightarrow> u8 list" where
  "tx_buff_info_bytes i = le16_bytes (fst i) @ le32_bytes (snd i)"

definition tx_mac_hdr_info :: "os \<Rightarrow> nbuf \<Rightarrow> u8 \<Rightarrow> u8 \<Rightarrow> u8 list" where
  "tx_mac_hdr_info os nwb more_data eosp = le32_bytes 0 @ le16_bytes 0 @ nrf_wifi_get_dest os nwb
     @ nrf_wifi_get_src os nwb @ le16_bytes (nrf_wifi_util_tx_get_eth_type os nwb)
     @ le32_bytes (tx_flags_of os nwb) @ [more_data, eosp]"

definition tx_buff_bytes :: "os \<Rightarrow> nat \<Rightarrow> u8 \<Rightarrow> nbuf \<Rightarrow> u8 \<Rightarrow> u8 \<Rightarrow> (u16 \<times> u32) list \<Rightarrow> u8 list" where
  "tx_buff_bytes os desc wdev_id nwb more_data eosp infos =
     le32_bytes NRF_WIFI_CMD_TX_BUFF @ le32_bytes (of_nat (41 + 6 * length infos)) @ [wdev_id, of_nat desc]
     @ tx_mac_hdr_info os nwb more_data eosp @ le32_bytes 0 @ [of_nat (length infos)]
     @ concat (map tx_buff_info_bytes infos)"

text \<open>Deleting a peer from the queue of woken peers frees its nodes.\<close>

definition wakeup_q_del :: "nat \<Rightarrow> fmac \<Rightarrow> fmac" where
  "wakeup_q_del peer s = (foldl (\<lambda>s _. femit (IoFree OBJ_Q_NODE) s) s (filter (\<lambda>i. i = peer) (wakeup_client_q s)))
     \<lparr>wakeup_client_q := filter (\<lambda>i. i \<noteq> peer) (wakeup_client_q s)\<rparr>"

definition tx_cmd_prepare :: "os \<Rightarrow> nat \<Rightarrow> nbuf list \<Rightarrow> nat \<Rightarrow> fmac \<Rightarrow> (nrf_status \<times> u8 list \<times> fmac) option" where
  "tx_cmd_prepare os desc txq peer s =
    (if txq = [] then Some (FAIL, [], s)
     else let wdev_id = peer_if_idx (peers s ! peer); nwb = hd txq in do {
       _ \<leftarrow> nth_opt (send_pkt_coalesce_count s) desc;
       let s = s\<lparr>send_pkt_coalesce_count := (send_pkt_coalesce_count s)[desc := of_nat (length txq)]\<rparr>;
       (st, infos, s) \<leftarrow> tx_cmd_prep_loop os desc 0 txq s;
       if st \<noteq> SUCCESS then Some (FAIL, [], s)
       else do {
         let s = s\<lparr>host_stats := (host_stats s)\<lparr>total_tx_pkts := total_tx_pkts (host_stats s) + of_nat (length infos)\<rparr>\<rparr>;
         v \<leftarrow> vif_at s (unat wdev_id);
         let more_data = (if if_type v \<in> {NRF_WIFI_IFTYPE_AP, NRF_WIFI_IFTYPE_AP_VLAN, NRF_WIFI_IFTYPE_MESH_POINT}
           \<and> pending_frames_count peer s \<noteq> 0 then 1 else 0);
         let (eosp, s) = (if ps_token_count (peers s ! peer) = 0 then (1, wakeup_q_del peer s) else (0, s));
         Some (SUCCESS, tx_buff_bytes os desc wdev_id nwb more_data eosp infos, s)
       }
     })"

text \<open>After the command was handed over, sent or not, its frames are freed.\<close>

definition nbufs_free :: "nbuf list \<Rightarrow> fmac \<Rightarrow> fmac" where
  "nbufs_free bs s = foldl (\<lambda>s b. femit (IoNbufFree (nb_ptr b)) (femit (IoFree OBJ_Q_NODE) s)) s bs"

definition tx_cmd_init :: "os \<Rightarrow> nat \<Rightarrow> nat \<Rightarrow> fmac \<Rightarrow> (nrf_status \<times> fmac) option" where
  "tx_cmd_init os desc peer s = do {
     i \<leftarrow> nth_opt (pkt_info s) desc;
     let txq = pkt i;
     let (ok, s) = umac_cmd_alloc os s;
     if txq = [] then Some (FAIL, s)
     else if \<not> ok then None
     else do {
       (st, body, s) \<leftarrow> tx_cmd_prepare os desc txq peer s;
       if st \<noteq> SUCCESS then Some (st, s)
       else do {
         (st, s) \<leftarrow> on_hal (nrf_wifi_sys_hal_data_cmd_send os NRF_WIFI_HAL_MSG_TYPE_CMD_DATA_TX
           (host_rpu_msg NRF_WIFI_HOST_RPU_MSG_TYPE_DATA body) (of_nat desc) 0) s;
         let s = nbufs_free txq (femit (IoFree OBJ_CMD) s);
         Some (st, s\<lparr>pkt_info := (pkt_info s)[desc := (pkt_info s ! desc)\<lparr>pkt := []\<rparr>]\<rparr>)
       }
     }
   }"

definition tx_pending_process :: "os \<Rightarrow> nat \<Rightarrow> nat \<Rightarrow> fmac \<Rightarrow> (nrf_status \<times> fmac) option" where
  "tx_pending_process os desc ac s = do {
     (len, s) \<leftarrow> tx_pending_collect os desc ac s;
     if len \<noteq> 0 then tx_cmd_init os desc (nat (pkt_peer_id (pkt_info s ! desc))) s
     else do { s \<leftarrow> tx_desc_free desc ac s; Some (SUCCESS, s) }
   }"

section \<open>Accepting a frame\<close>

definition tx_enqueue :: "os \<Rightarrow> nbuf \<Rightarrow> nat \<Rightarrow> nat \<Rightarrow> fmac \<Rightarrow> (nrf_status \<times> fmac) option" where
  "tx_enqueue os nwb ac peer s = do {
     q \<leftarrow> pend_at s peer ac;
     if max_tx_pending_qlen s \<le> length q then Some (FAIL, s)
     else let (ok, s) = falloc os OBJ_Q_NODE s;
              s = (if \<not> ok then s
                   else pend_put peer ac (if is_twt_emergency_pkt nwb then nwb # q else q @ [nwb]) s)
       in update_pend_q_bmp os ac peer s
   }"

definition tx_process :: "os \<Rightarrow> nbuf \<Rightarrow> nat \<Rightarrow> nat \<Rightarrow> fmac \<Rightarrow> (nrf_wifi_fmac_tx_status \<times> fmac) option" where
  "tx_process os nbuf ac peer s = do {
     (st, s) \<leftarrow> tx_enqueue os nbuf ac peer s;
     if st \<noteq> SUCCESS then Some (NRF_WIFI_FMAC_TX_STATUS_FAIL, s)
     else if ps_state (peers s ! peer) = NRF_WIFI_CLIENT_PS_MODE then Some (NRF_WIFI_FMAC_TX_STATUS_QUEUED, s)
     else if ucast (num_tx_tokens_per_ac s) \<le> outstanding_descs s ! ac
     then (case pend s peer ac of [] \<Rightarrow> Some (NRF_WIFI_FMAC_TX_STATUS_SUCCESS, s)
       | first_nwb # _ \<Rightarrow>
           if nrf_wifi_util_ether_addr_equal (nrf_wifi_get_dest os nbuf) (nrf_wifi_get_dest os first_nwb)
             \<and> nrf_wifi_util_ether_addr_equal (nrf_wifi_get_src os nbuf) (nrf_wifi_get_src os first_nwb)
             \<and> length (pend s peer ac) < unat (max_tx_aggregation s)
           then Some (NRF_WIFI_FMAC_TX_STATUS_QUEUED, s)
           else Some (NRF_WIFI_FMAC_TX_STATUS_SUCCESS, s))
     else Some (NRF_WIFI_FMAC_TX_STATUS_SUCCESS, s)
   }"

fun tx_status_of :: "nrf_status \<Rightarrow> nrf_wifi_fmac_tx_status" where
  "tx_status_of NRF_WIFI_STATUS_SUCCESS = NRF_WIFI_FMAC_TX_STATUS_SUCCESS"
| "tx_status_of NRF_WIFI_STATUS_FAIL = NRF_WIFI_FMAC_TX_STATUS_FAIL"

definition tx_locked :: "os \<Rightarrow> nbuf \<Rightarrow> nat \<Rightarrow> nat \<Rightarrow> fmac \<Rightarrow> (nrf_wifi_fmac_tx_status \<times> fmac) option" where
  "tx_locked os nbuf ac peer s =
    (if num_tx_tokens s = 0 then Some (NRF_WIFI_FMAC_TX_STATUS_FAIL, s)
     else do {
       (st, s) \<leftarrow> tx_process os nbuf ac peer s;
       if st \<noteq> NRF_WIFI_FMAC_TX_STATUS_SUCCESS then Some (st, s)
       else if \<not> can_xmit s nbuf then Some (NRF_WIFI_FMAC_TX_STATUS_QUEUED, s)
       else do {
         (desc, s) \<leftarrow> tx_desc_get ac s;
         if desc = unat (num_tx_tokens s) then Some (NRF_WIFI_FMAC_TX_STATUS_QUEUED, s)
         else do { (st, s) \<leftarrow> tx_pending_process os desc ac s; Some (tx_status_of st, s) }
       }
     })"

definition nrf_wifi_fmac_tx :: "os \<Rightarrow> nbuf \<Rightarrow> nat \<Rightarrow> nat \<Rightarrow> fmac \<Rightarrow> (nrf_wifi_fmac_tx_status \<times> fmac) option" where
  "nrf_wifi_fmac_tx os nbuf ac peer s = do {
     (st, s) \<leftarrow> tx_locked os nbuf ac peer (femit (IoLock LOCK_TX) s);
     Some (st, femit (IoUnlock LOCK_TX) s)
   }"

text \<open>The peer and the access category of a frame, if the peer is known.\<close>

definition xmit_target :: "os \<Rightarrow> vif \<Rightarrow> nbuf \<Rightarrow> fmac \<Rightarrow> (nat \<times> nat) option" where
  "xmit_target os v nbuf s =
    (let ra = nrf_wifi_util_get_ra os v nbuf; pid = nrf_wifi_fmac_peer_get_id ra s; peer = nat pid in
     if pid = -1 then None
     else if peer = MAX_PEERS then Some (peer, NRF_WIFI_FMAC_AC_MC)
     else if qos_supported (peers s ! peer) \<noteq> 0 then Some (peer, get_ac (nrf_wifi_get_tid os nbuf) ra)
     else Some (peer, NRF_WIFI_FMAC_AC_BE))"

definition nrf_wifi_fmac_start_xmit :: "os \<Rightarrow> nat \<Rightarrow> nbuf \<Rightarrow> fmac \<Rightarrow> (nrf_status \<times> fmac) option" where
  "nrf_wifi_fmac_start_xmit os ifi nbuf s =
    (if length (nb_data nbuf) < 14 then Some (FAIL, femit (IoNbufFree (nb_ptr nbuf)) s)
     else do {
       v \<leftarrow> vif_at s ifi;
       (case xmit_target os v nbuf s of
          None \<Rightarrow> Some (FAIL, femit (IoNbufFree (nb_ptr nbuf)) s)
        | Some (peer, ac) \<Rightarrow> do {
            (st, s) \<leftarrow> nrf_wifi_fmac_tx os nbuf ac peer s;
            if st = NRF_WIFI_FMAC_TX_STATUS_FAIL then Some (FAIL, femit (IoNbufFree (nb_ptr nbuf)) s)
            else Some (SUCCESS, s)
          })
     })"

section \<open>Completion\<close>

text \<open>The access category of a spare descriptor, from its map.\<close>

definition spare_queue :: "u32 \<Rightarrow> nat" where
  "spare_queue m = (if bit m NRF_WIFI_FMAC_AC_BK then NRF_WIFI_FMAC_AC_BK
     else if bit m NRF_WIFI_FMAC_AC_BE then NRF_WIFI_FMAC_AC_BE
     else if bit m NRF_WIFI_FMAC_AC_VI then NRF_WIFI_FMAC_AC_VI
     else if bit m NRF_WIFI_FMAC_AC_VO then NRF_WIFI_FMAC_AC_VO else 0)"

text \<open>The loop over the categories a completed descriptor can serve.\<close>

fun req_free_loop :: "os \<Rightarrow> nat \<Rightarrow> nat \<Rightarrow> nat list \<Rightarrow> fmac \<Rightarrow> (nat \<times> fmac) option" where
  "req_free_loop os desc tx_done_q [] s = Some (0, s)"
| "req_free_loop os desc tx_done_q (ac # acs) s = do {
     (pkts_pend, s) \<leftarrow> tx_pending_collect os desc ac s;
     if pkts_pend = 0 then req_free_loop os desc tx_done_q acs s
     else if tx_done_q = ac then Some (pkts_pend, s)
     else do {
       let s = outstanding_add ac 1 (outstanding_add tx_done_q (-1) s);
       s \<leftarrow> clear_spare_desc_q_map desc tx_done_q s;
       s \<leftarrow> set_spare_desc_q_map desc ac s;
       Some (pkts_pend, s)
     }
   }"

definition tx_buff_req_free :: "os \<Rightarrow> nat \<Rightarrow> fmac \<Rightarrow> (nat \<times> fmac) option" where
  "tx_buff_req_free os desc s = do {
     (tx_done_q, acs) \<leftarrow> (if desc < reserved_descs s
       then Some (desc mod NRF_WIFI_FMAC_AC_MAX, [desc mod NRF_WIFI_FMAC_AC_MAX])
       else do { m \<leftarrow> get_spare_desc_q_map desc s; Some (spare_queue m, [3, 2, 1, 0]) });
     (pkts_pend, s) \<leftarrow> req_free_loop os desc tx_done_q acs s;
     if pkts_pend \<noteq> 0 then Some (pkts_pend, s)
     else do { s \<leftarrow> tx_desc_free desc tx_done_q s; Some (0, s) }
   }"

fun tx_unmap_loop :: "nat \<Rightarrow> nat list \<Rightarrow> fmac \<Rightarrow> (nrf_status \<times> fmac) option" where
  "tx_unmap_loop desc [] s = Some (SUCCESS, s)"
| "tx_unmap_loop desc (frame # fs) s = do {
     let desc_id = desc * unat (max_tx_aggregation s) + frame;
     tbl \<leftarrow> fmac_tx_info s;
     e \<leftarrow> nth_opt tbl desc_id;
     if \<not> buf_mapped e then Some (FAIL, s)
     else do {
       (virt, s) \<leftarrow> on_hal (nrf_wifi_sys_hal_buf_unmap_tx (of_nat desc_id)) s;
       if virt = 0 then Some (FAIL, s)
       else tx_unmap_loop desc fs (s\<lparr>fmac_tx_info := Some (tbl[desc_id := fmac_unmapped])\<rparr>)
     }
   }"

definition tx_done_process :: "os \<Rightarrow> u8 \<Rightarrow> fmac \<Rightarrow> (nrf_status \<times> fmac) option" where
  "tx_done_process os tx_desc_num s =
    (if num_tx_tokens s < tx_desc_num then Some (FAIL, s)
     else let desc = unat tx_desc_num in do {
       n \<leftarrow> nth_opt (send_pkt_coalesce_count s) desc;
       (st, s) \<leftarrow> tx_unmap_loop desc [0..<unat n] s;
       if st \<noteq> SUCCESS then Some (FAIL, s)
       else do {
         (pkts_pending, s) \<leftarrow> tx_buff_req_free os desc s;
         if pkts_pending \<noteq> 0 \<and> twt_sleep_status s = NRF_WIFI_FMAC_TWT_STATE_AWAKE
         then tx_cmd_init os desc (nat (pkt_peer_id (pkt_info s ! desc))) s
         else Some (SUCCESS, s)
       }
     })"

definition nrf_wifi_fmac_tx_done_event_process :: "os \<Rightarrow> u8 \<Rightarrow> fmac \<Rightarrow> (nrf_status \<times> fmac) option" where
  "nrf_wifi_fmac_tx_done_event_process os tx_desc_num s =
    (if \<not> tx_lock s then Some (SUCCESS, s)
     else do {
       (st, s) \<leftarrow> tx_done_process os tx_desc_num (femit (IoLock LOCK_TX) s);
       Some (st, femit (IoUnlock LOCK_TX) s)
     })"

section \<open>Set-up and removal\<close>

fun alloc_all :: "os \<Rightarrow> os_obj list \<Rightarrow> fmac \<Rightarrow> bool \<times> fmac" where
  "alloc_all os [] s = (True, s)"
| "alloc_all os (x # xs) s = (let (ok, s) = falloc os x s in if ok then alloc_all os xs s else (False, s))"

definition free_all :: "os_obj list \<Rightarrow> fmac \<Rightarrow> fmac" where
  "free_all xs s = foldl (\<lambda>s x. femit (IoFree x) s) s xs"

definition pend_objs :: "nat \<Rightarrow> os_obj list" where
  "pend_objs ac = map (\<lambda>peer. OBJ_PENDING_Q peer ac) [0..<MAX_SW_PEERS]"

definition all_pend_objs :: "os_obj list" where
  "all_pend_objs = concat (map pend_objs [0..<NRF_WIFI_FMAC_AC_MAX])"

definition pkt_objs :: "fmac \<Rightarrow> os_obj list" where
  "pkt_objs s = map OBJ_PKT_LIST [0..<unat (num_tx_tokens s)]"

text \<open>A queue is new and empty once it is allocated.\<close>

fun tx_q_alloc_loop :: "os \<Rightarrow> nat list \<Rightarrow> fmac \<Rightarrow> bool \<times> fmac" where
  "tx_q_alloc_loop os [] s = (True, s)"
| "tx_q_alloc_loop os (ac # acs) s =
    (let (ok, s) = alloc_all os (pend_objs ac) s in
     if \<not> ok then (False, s)
     else tx_q_alloc_loop os acs (s\<lparr>outstanding_descs := (outstanding_descs s)[ac := 0],
       data_pending_txq := map (\<lambda>row. row[ac := []]) (data_pending_txq s)\<rparr>))"

text \<open>The bitmap of the descriptors: the bytes that are asked for and the bytes that are cleared.
  How many bytes an allocation really provides is a property of the allocator; clearing more is
  undefined behaviour.\<close>

definition bmp_alloc_size :: "nat \<Rightarrow> nat" where
  "bmp_alloc_size n = 4 * (n div 32) + 1"

definition bmp_clear_size :: "nat \<Rightarrow> nat" where
  "bmp_clear_size n = 4 * (n div 32 + 1)"

definition tx_q_free :: "fmac \<Rightarrow> nrf_status \<times> fmac" where
  "tx_q_free s = (FAIL, femit (IoFree OBJ_COALESCE) (free_all all_pend_objs s))"

definition tx_q_setup_free :: "fmac \<Rightarrow> nrf_status \<times> fmac" where
  "tx_q_setup_free s = tx_q_free (femit (IoFree OBJ_PKT_INFO) s)"

definition tx_pkt_info_free :: "fmac \<Rightarrow> nrf_status \<times> fmac" where
  "tx_pkt_info_free s = tx_q_setup_free (free_all (pkt_objs s) s)"

definition tx_buff_map_free :: "fmac \<Rightarrow> nrf_status \<times> fmac" where
  "tx_buff_map_free s = tx_pkt_info_free (femit (IoFree OBJ_BUF_POOL_BMP) s)"

definition tx_spin_lock_free :: "fmac \<Rightarrow> nrf_status \<times> fmac" where
  "tx_spin_lock_free s = tx_buff_map_free (femit (IoFree (OBJ_LOCK LOCK_TX)) s)"

definition tx_init_locks :: "os \<Rightarrow> fmac \<Rightarrow> nrf_status \<times> fmac" where
  "tx_init_locks os s =
    (let s = s\<lparr>peers := map (\<lambda>i. if i < MAX_PEERS then (peers s ! i)\<lparr>peer_id := -1\<rparr> else peers s ! i) [0..<length (peers s)]\<rparr>;
         (ok, s) = falloc os (OBJ_LOCK LOCK_TX) s; s = s\<lparr>tx_lock := ok\<rparr> in
     if \<not> ok then tx_buff_map_free s
     else let (ok, s) = falloc os OBJ_WAKEUP_Q s; s = s\<lparr>wakeup_client_q := []\<rparr> in
       if \<not> ok then tx_spin_lock_free s
       else (SUCCESS, s\<lparr>twt_sleep_status := NRF_WIFI_FMAC_TWT_STATE_AWAKE\<rparr>))"

definition tx_init :: "os \<Rightarrow> (nat \<Rightarrow> nat) \<Rightarrow> fmac \<Rightarrow> (nrf_status \<times> fmac) option" where
  "tx_init os usable s =
    (let n = unat (num_tx_tokens s); (ok, s) = falloc os OBJ_COALESCE s in
     if \<not> ok then Some (FAIL, s)
     else let (ok, s) = tx_q_alloc_loop os [0..<NRF_WIFI_FMAC_AC_MAX]
                 (s\<lparr>send_pkt_coalesce_count := replicate n 0\<rparr>) in
       if \<not> ok then Some (FAIL, femit (IoFree OBJ_COALESCE) s)
       else let (ok, s) = falloc os OBJ_PKT_INFO s in
         if \<not> ok then Some (tx_q_free s)
         else let (ok, s) = alloc_all os (pkt_objs s)
                     (s\<lparr>pkt_info := replicate n \<lparr>pkt = [], pkt_peer_id = 0\<rparr>\<rparr>) in
           if \<not> ok then Some (tx_q_setup_free s)
           else let s = s\<lparr>curr_peer_opp := replicate NRF_WIFI_FMAC_AC_MAX 0\<rparr>;
                    (ok, s) = falloc os OBJ_BUF_POOL_BMP s in
             if \<not> ok then Some (tx_pkt_info_free s)
             else if usable (bmp_alloc_size n) < bmp_clear_size n then None
             else Some (tx_init_locks os (s\<lparr>buf_pool_bmp := replicate (n div 32 + 1) 0\<rparr>)))"

text \<open>An empty \<open>pkt_info\<close> is the pointer NULL.\<close>

fun tx_pkt_free_loop :: "nat list \<Rightarrow> fmac \<Rightarrow> fmac option" where
  "tx_pkt_free_loop [] s = Some s"
| "tx_pkt_free_loop (i # is) s =
    (if pkt_info s = [] then Some s
     else do {
       p \<leftarrow> nth_opt (pkt_info s) i;
       let s = nbufs_free (pkt p) s;
       tx_pkt_free_loop is (femit (IoFree (OBJ_PKT_LIST i)) (s\<lparr>pkt_info := (pkt_info s)[i := p\<lparr>pkt := []\<rparr>]\<rparr>))
     })"

fun tx_pend_free_loop :: "(nat \<times> nat) list \<Rightarrow> fmac \<Rightarrow> fmac" where
  "tx_pend_free_loop [] s = s"
| "tx_pend_free_loop ((peer, ac) # qs) s =
    tx_pend_free_loop qs (femit (IoFree (OBJ_PENDING_Q peer ac))
      (pend_put peer ac [] (nbufs_free (pend s peer ac) s)))"

definition tx_config_zero :: "fmac \<Rightarrow> fmac" where
  "tx_config_zero s = s\<lparr>tx_lock := False, peers := replicate MAX_SW_PEERS peer_zero,
     send_pkt_coalesce_count := [], data_pending_txq := replicate MAX_SW_PEERS (replicate NRF_WIFI_FMAC_AC_MAX []),
     wakeup_client_q := [], buf_pool_bmp := [], outstanding_descs := replicate NRF_WIFI_FMAC_AC_MAX 0,
     curr_peer_opp := replicate NRF_WIFI_FMAC_AC_MAX 0, pkt_info := [], spare_desc_queue_map := 0\<rparr>"

definition tx_deinit :: "fmac \<Rightarrow> fmac option" where
  "tx_deinit s = do {
     s \<leftarrow> tx_pkt_free_loop [0..<unat (num_tx_tokens s)]
       (free_all [OBJ_WAKEUP_Q, OBJ_LOCK LOCK_TX, OBJ_BUF_POOL_BMP] s);
     let s = tx_pend_free_loop (concat (map (\<lambda>ac. map (\<lambda>peer. (peer, ac)) [0..<MAX_SW_PEERS])
         [0..<NRF_WIFI_FMAC_AC_MAX])) (femit (IoFree OBJ_PKT_INFO) s);
     Some (tx_config_zero (femit (IoFree OBJ_COALESCE) s))
   }"

end
