(* ===== verification/Fmac_Tx_Own.thy ===== *)
theory Fmac_Tx_Own
  imports Fmac_Tx
begin

text \<open>The ownership of the frames in the transmit path: every frame that is accepted is in exactly
  one queue or freed, until a removal frees all that are left. A queue node is an object of the
  OS and a frame for which none can be allocated is lost without a trace, so the allocation of
  nodes is assumed to succeed.\<close>

section \<open>The balance of the queues\<close>

lemma mset_concat_update:
  "i < length xs \<Longrightarrow> mset (concat (xs[i := y])) + mset (xs ! i) = mset (concat xs) + mset y"
  by (induction xs arbitrary: i) (auto split: nat.splits simp: nth_Cons)

lemma mset_exchange:
  assumes "a' + r = a + r'" "r' + q = r + q'"
  shows "a' + q = a + (q' :: 'a multiset)"
proof (rule multiset_eqI)
  fix x
  show "count (a' + q) x = count (a + q') x"
    using arg_cong [OF assms(1), of "\<lambda>m. count m x"] arg_cong [OF assms(2), of "\<lambda>m. count m x"] by simp
qed

lemma concat_concat: "concat (concat xss) = concat (map concat xss)"
  by (induction xss) auto

lemma pend_at_some:
  "pend_at s peer ac = Some q \<longleftrightarrow> peer < length (data_pending_txq s) \<and>
    ac < length (data_pending_txq s ! peer) \<and> q = pend s peer ac"
  by (auto simp: pend_at_def nth_opt_def pend_def split: Option.bind_splits if_splits)

lemma pend_tables: "same_tables s (pend_put peer ac q s)"
proof -
  let ?d = "data_pending_txq s"
  have "length (?d[peer := (?d ! peer)[ac := q]] ! i) = length (?d ! i)" if "i < length ?d" for i
    using that by (cases "i = peer") auto
  then show ?thesis
    by (simp add: same_tables_def pend_put_def list_eq_iff_nth_eq)
qed

lemma owned_pend_put:
  assumes "pend_at s peer ac = Some q"
  shows "owned (pend_put peer ac q' s) + mset (map nb_ptr q) = owned s + mset (map nb_ptr q')"
proof -
  let ?d = "data_pending_txq s"
  let ?r = "?d ! peer" let ?r' = "?r[ac := q']"
  let ?a = "mset (concat (map concat ?d))" let ?a' = "mset (concat ((map concat ?d)[peer := concat ?r']))"
  have b: "peer < length ?d" "ac < length ?r" "q = ?r ! ac"
    using assms by (auto simp: pend_at_some pend_def)
  have 1: "?a' + mset (concat ?r) = ?a + mset (concat ?r')"
    using mset_concat_update [of peer "map concat ?d" "concat ?r'"] b(1) by simp
  have 2: "mset (concat ?r') + mset q = mset (concat ?r) + mset q'"
    using mset_concat_update [OF b(2), of q'] b(3) by simp
  have "image_mset nb_ptr (?a' + mset q) = image_mset nb_ptr (?a + mset q')"
    using mset_exchange [OF 1 2] by simp
  then show ?thesis
    by (simp add: owned_def pend_put_def concat_concat map_update ac_simps)
qed

lemma owned_pkt:
  assumes "nth_opt (pkt_info s) d = Some i"
  shows "owned (s\<lparr>pkt_info := (pkt_info s)[d := i']\<rparr>) + mset (map nb_ptr (pkt i))
    = owned s + mset (map nb_ptr (pkt i'))"
proof -
  have b: "d < length (pkt_info s)" "i = pkt_info s ! d"
    using assms by (auto simp: nth_opt_def split: if_splits)
  have "mset (concat ((map pkt (pkt_info s))[d := pkt i'])) + mset (pkt i)
      = mset (concat (map pkt (pkt_info s))) + mset (pkt i')"
    using mset_concat_update [of d "map pkt (pkt_info s)" "pkt i'"] b by simp
  then have "image_mset nb_ptr (mset (concat ((map pkt (pkt_info s))[d := pkt i'])) + mset (pkt i))
      = image_mset nb_ptr (mset (concat (map pkt (pkt_info s))) + mset (pkt i'))" by simp
  then show ?thesis
    by (simp add: owned_def map_update ac_simps)
qed

text \<open>The allocation of queue nodes.\<close>

definition nodes_ok :: "os \<Rightarrow> bool" where
  "nodes_ok os = (\<forall>tr. os_alloc os tr OBJ_Q_NODE)"

lemma falloc_node: "nodes_ok os \<Longrightarrow> falloc os OBJ_Q_NODE s = (True, femit (IoAlloc OBJ_Q_NODE True) s)"
  by (simp add: nodes_ok_def falloc_def osal_alloc_def Let_def femit_def)

lemma move_fstep:
  assumes "nodes_ok os" "pend_at s peer ac = Some (nwb # q)" "desc < length (pkt_info s)"
    and "fstep L x s0 s"
  shows "fstep L x s0 (txq_add os desc nwb (pend_dequeue peer ac s))"
    "pend_at (txq_add os desc nwb (pend_dequeue peer ac s)) peer ac = Some q"
    "length (pkt_info (txq_add os desc nwb (pend_dequeue peer ac s))) = length (pkt_info s)"
proof -
  have p: "pend s peer ac = nwb # q" "peer < length (data_pending_txq s)"
      "ac < length (data_pending_txq s ! peer)"
    using assms(2) by (auto simp: pend_at_some)
  let ?s1 = "pend_put peer ac q s"
  let ?i = "pkt_info s ! desc"
  let ?s2 = "?s1\<lparr>pkt_info := (pkt_info ?s1)[desc := ?i\<lparr>pkt := pkt ?i @ [nwb]\<rparr>]\<rparr>"
  have e: "txq_add os desc nwb (pend_dequeue peer ac s)
      = femit (IoAlloc OBJ_Q_NODE True) (femit (IoFree OBJ_Q_NODE) s)
        \<lparr>data_pending_txq := data_pending_txq ?s2, pkt_info := pkt_info ?s2\<rparr>"
    by (simp add: txq_add_def pend_dequeue_def falloc_node [OF assms(1)] p(1) pend_put_def femit_def Let_def)
  have "owned ?s2 = owned s"
  proof -
    have "owned ?s1 + {#nb_ptr nwb#} + mset (map nb_ptr q) = owned s + mset (map nb_ptr q)"
      using owned_pend_put [OF assms(2), of q] by (simp add: ac_simps)
    then have "owned ?s1 + {#nb_ptr nwb#} = owned s" by (rule add_right_imp_eq)
    moreover have "owned ?s2 + mset (map nb_ptr (pkt ?i))
        = owned ?s1 + {#nb_ptr nwb#} + mset (map nb_ptr (pkt ?i))"
      using owned_pkt [of ?s1 desc ?i "?i\<lparr>pkt := pkt ?i @ [nwb]\<rparr>"] assms(3)
      by (simp add: nth_opt_def pend_put_def ac_simps)
    ultimately show ?thesis by (metis add_right_imp_eq)
  qed
  moreover have "same_tables s ?s2"
    using pend_tables [of s peer ac q] by (simp add: same_tables_def)
  ultimately have "fstep L x s0 ?s2"
    using fstep_eq [OF assms(4)] by (simp add: pend_put_def)
  then have "fstep L x s0 (femit (IoAlloc OBJ_Q_NODE True) (femit (IoFree OBJ_Q_NODE) ?s2))"
    by (intro fstep_quiet) auto
  moreover have "femit (IoAlloc OBJ_Q_NODE True) (femit (IoFree OBJ_Q_NODE) ?s2)
      = txq_add os desc nwb (pend_dequeue peer ac s)"
    unfolding e by (simp add: femit_def pend_put_def)
  ultimately show "fstep L x s0 (txq_add os desc nwb (pend_dequeue peer ac s))" by simp
  show "pend_at (txq_add os desc nwb (pend_dequeue peer ac s)) peer ac = Some q"
    unfolding e using p by (simp add: pend_at_some pend_def pend_put_def)
  show "length (pkt_info (txq_add os desc nwb (pend_dequeue peer ac s))) = length (pkt_info s)"
    unfolding e by (simp add: pend_put_def)
qed

section \<open>The operations\<close>

lemma pend_loop_fstep:
  assumes "nodes_ok os"
  shows "pend_at s peer ac = Some q \<Longrightarrow> desc < length (pkt_info s) \<Longrightarrow> fstep L x s0 s \<Longrightarrow>
    fstep L x s0 (pend_loop os desc ac peer f n q s) \<and>
    (\<exists>q'. pend_at (pend_loop os desc ac peer f n q s) peer ac = Some q') \<and>
    length (pkt_info (pend_loop os desc ac peer f n q s)) = length (pkt_info s)"
proof (induction q arbitrary: s n)
  case (Cons b q)
  note m = move_fstep [OF assms Cons.prems]
  show ?case
    using Cons.IH [OF m(2) _ m(1)] m(3) Cons.prems by (simp add: Let_def)
qed simp

lemma vif_atE: "Option.bind (vif_at s i) f = Some r \<Longrightarrow> (\<And>v. vif_at s i = Some v \<Longrightarrow> f v = Some r \<Longrightarrow> P) \<Longrightarrow> P"
  by (cases "vif_at s i") auto

lemma update_bmp_fstep [fsteps]:
  "update_pend_q_bmp os ac peer s = Some (st, t) \<Longrightarrow> LOCK_PS \<in> L \<Longrightarrow> LOCK_HAL \<in> L \<Longrightarrow> fstep L x s0 s \<Longrightarrow> fstep L x s0 t"
  unfolding update_pend_q_bmp_def Let_def
  by (auto elim!: vif_atE split: if_splits; blast intro: fsteps)

lemma pkt_peer_fstep [simp]:
  "fstep L x s (t\<lparr>pkt_info := (pkt_info t)[d := (pkt_info t ! d)\<lparr>pkt_peer_id := p\<rparr>]\<rparr>) = fstep L x s t"
proof -
  have "map pkt ((pkt_info t)[d := (pkt_info t ! d)\<lparr>pkt_peer_id := p\<rparr>]) = map pkt (pkt_info t)"
    by (cases "d < length (pkt_info t)") (simp_all add: map_update list_update_same_conv)
  then show ?thesis
    by (simp add: fstep_def same_tables_def fready_def frames_def owned_def)
qed

lemma collect_finish_fstep [fsteps]:
  "collect_finish os desc ac peer s = Some (n, t) \<Longrightarrow> LOCK_PS \<in> L \<Longrightarrow> LOCK_HAL \<in> L \<Longrightarrow> fstep L x s0 s \<Longrightarrow> fstep L x s0 t"
  unfolding collect_finish_def Let_def
  by (auto split: Option.bind_splits if_splits; blast intro: fsteps pkt_peer_fstep [THEN iffD2])

lemma wakeup_find_fstep [fsteps]:
  "wakeup_q_find ac is s = Some (p, t) \<Longrightarrow> fstep L x s0 s \<Longrightarrow> fstep L x s0 t"
  by (induction ac "is" s rule: wakeup_q_find.induct) (auto simp: Let_def split: if_splits Option.bind_splits)

lemma peer_opp_fstep [fsteps]:
  "tx_curr_peer_opp_get ac s = Some (p, t) \<Longrightarrow> fstep L x s0 s \<Longrightarrow> fstep L x s0 t"
  unfolding tx_curr_peer_opp_get_def get_peer_from_wakeup_q_def Let_def
  by (auto split: if_splits Option.bind_splits option.splits; erule wakeup_find_fstep; assumption)

lemma collect_fstep [fsteps]:
  assumes "nodes_ok os" "tx_pending_collect os desc ac s = Some (n, t)" "LOCK_PS \<in> L" "LOCK_HAL \<in> L"
    "fstep L x s0 s"
  shows "fstep L x s0 t"
proof -
  obtain p s1 where p: "tx_curr_peer_opp_get ac s = Some (p, s1)"
    using assms(2) by (auto simp: tx_pending_collect_def split: Option.bind_splits)
  note 1 = peer_opp_fstep [OF p assms(5)]
  consider (none) "t = s1"
    | (some) peer f q where "pend_at s1 peer ac = Some (f # q)" "p = Some peer"
    using assms(2) p by (auto simp: tx_pending_collect_def split: Option.bind_splits option.splits list.splits)
  then show ?thesis
  proof cases
    case some
    let ?u = "pend_loop os desc ac peer f 0 (f # q) s1"
    obtain i where i: "nth_opt (pkt_info s1) desc = Some i"
      using assms(2) p some by (auto simp: tx_pending_collect_def split: Option.bind_splits)
    then have d: "desc < length (pkt_info s1)" by (auto simp: nth_opt_def split: if_splits)
    have u: "fstep L x s0 ?u" "\<exists>q'. pend_at ?u peer ac = Some q'" "length (pkt_info ?u) = length (pkt_info s1)"
      using pend_loop_fstep [OF assms(1) some(1) d 1] by blast+
    have r: "(if pkt (pkt_info ?u ! desc) \<noteq> [] then collect_finish os desc ac peer ?u
      else case pend ?u peer ac of [] \<Rightarrow> Some (0, ?u)
        | nwb # _ \<Rightarrow> if \<not> can_xmit ?u nwb then Some (0, ?u)
            else collect_finish os desc ac peer (txq_add os desc nwb (pend_dequeue peer ac ?u))) = Some (n, t)"
      using assms(2) p some i by (simp add: tx_pending_collect_def Let_def del: pend_loop.simps)
    show ?thesis
    proof (cases "pend ?u peer ac")
      case Nil
      then show ?thesis using r u(1) assms(3,4) collect_finish_fstep by (auto simp del: pend_loop.simps split: if_splits)
    next
      case (Cons b bs)
      then have "pend_at ?u peer ac = Some (b # bs)" using u(2) by (auto simp: pend_at_some)
      then have "fstep L x s0 (txq_add os desc b (pend_dequeue peer ac ?u))"
        using move_fstep(1) [OF assms(1) _ _ u(1)] u(3) d by simp
      then show ?thesis
        using r u(1) Cons assms(3,4) collect_finish_fstep by (auto simp del: pend_loop.simps split: if_splits)
    qed
  qed (simp add: 1)
qed

lemma on_hal_pkts: "on_hal f s = Some (r, t) \<Longrightarrow> pkt_info t = pkt_info s"
  by (auto simp: on_hal_def split: Option.bind_splits)

lemma prep_loop_fstep:
  "tx_cmd_prep_loop os desc i bs s = Some (st, infos, t) \<Longrightarrow> LOCK_PS \<in> L \<Longrightarrow> LOCK_HAL \<in> L \<Longrightarrow> fstep L x s0 s \<Longrightarrow>
   fstep L x s0 t \<and> pkt_info t = pkt_info s"
proof (induction bs arbitrary: i s infos)
  case (Cons b bs)
  obtain tbl e where t: "fmac_tx_info s = Some tbl"
      "nth_opt tbl (desc * unat (max_tx_aggregation s) + i) = Some e"
    using Cons.prems(1) by (auto simp: Let_def split: Option.bind_splits)
  show ?case
  proof (cases "buf_mapped e")
    case False
    obtain a s1 where m: "on_hal (nrf_wifi_sys_hal_buf_map_tx os (nbuf_mem os b) (nb_data_ptr b) (nbuf_size b)
        (of_nat (desc * unat (max_tx_aggregation s) + i)) (of_nat desc) (of_nat i)) s = Some (a, s1)"
      using Cons.prems(1) t False by (auto simp: Let_def split: Option.bind_splits)
    have "fstep L x s0 s1" "pkt_info s1 = pkt_info s"
      using map_tx_fstep [OF m Cons.prems(2-4)] on_hal_pkts [OF m] by simp_all
    then show ?thesis
      using Cons.prems(1) t False m Cons.IH [OF _ Cons.prems(2,3)]
      by (auto simp: Let_def split: Option.bind_splits if_splits)
  qed (use Cons.prems t in \<open>simp add: Let_def\<close>)
qed auto

lemma free_all_fstep [intro]: "fstep L x s t \<Longrightarrow> fstep L x s (free_all obs t)"
  unfolding free_all_def by (induction obs arbitrary: t) auto

lemma wakeup_q_del_fstep: "fstep L x s t \<Longrightarrow> fstep L x s (wakeup_q_del peer t)"
proof -
  have "fstep L x s (foldl (\<lambda>s _. femit (IoFree OBJ_Q_NODE) s) t xs)" if "fstep L x s t" for xs :: "nat list" and t
    using that by (induction xs arbitrary: t) auto
  moreover assume "fstep L x s t"
  ultimately show ?thesis by (simp add: wakeup_q_del_def)
qed

lemma wakeup_q_del_pkts: "pkt_info (wakeup_q_del peer t) = pkt_info t"
proof -
  have "pkt_info (foldl (\<lambda>s _. femit (IoFree OBJ_Q_NODE) s) t xs) = pkt_info t" for xs :: "nat list" and t
    by (induction xs arbitrary: t) auto
  then show ?thesis by (simp add: wakeup_q_del_def)
qed

lemma prepare_fstep:
  assumes "tx_cmd_prepare os desc txq peer s = Some (st, body, t)" "LOCK_PS \<in> L" "LOCK_HAL \<in> L" "fstep L x s0 s"
  shows "fstep L x s0 t \<and> pkt_info t = pkt_info s"
proof (cases "txq = []")
  case False
  let ?s = "s\<lparr>send_pkt_coalesce_count := (send_pkt_coalesce_count s)[desc := of_nat (length txq)]\<rparr>"
  obtain st' infos s1 where p: "tx_cmd_prep_loop os desc 0 txq ?s = Some (st', infos, s1)"
    using assms(1) False by (auto simp: tx_cmd_prepare_def Let_def split: Option.bind_splits)
  have "fstep L x s0 s1" "pkt_info s1 = pkt_info s"
    using prep_loop_fstep [OF p assms(2,3)] assms(4) by simp_all
  then show ?thesis
    using assms(1) False p
    by (auto simp: tx_cmd_prepare_def Let_def wakeup_q_del_pkts split: Option.bind_splits if_splits
        intro!: wakeup_q_del_fstep)
qed (use assms in \<open>simp add: tx_cmd_prepare_def\<close>)

lemma nbufs_free_fstep:
  "fstep L x s t \<Longrightarrow> fstep L (x + mset (map nb_ptr bs)) s (nbufs_free bs t)"
proof (induction bs arbitrary: x t)
  case (Cons b bs)
  have "fstep L (add_mset (nb_ptr b) x) s (femit (IoNbufFree (nb_ptr b)) (femit (IoFree OBJ_Q_NODE) t))"
    using Cons.prems by (intro fstep_nbuf_free) auto
  from Cons.IH [OF this] show ?case by (simp add: nbufs_free_def)
qed (simp add: nbufs_free_def)

lemma nbufs_free_fields:
  "pkt_info (nbufs_free bs t) = pkt_info t" "data_pending_txq (nbufs_free bs t) = data_pending_txq t"
  by (induction bs arbitrary: t) (simp_all add: nbufs_free_def)

lemma tx_cmd_init_fstep [fsteps]:
  assumes "tx_cmd_init os desc peer s = Some (st, t)" "LOCK_PS \<in> L" "LOCK_HAL \<in> L" "fstep L x s0 s"
  shows "fstep L x s0 t"
proof -
  obtain i where i: "nth_opt (pkt_info s) desc = Some i"
    using assms(1) by (auto simp: tx_cmd_init_def Let_def split: Option.bind_splits)
  obtain ok s1 where a: "umac_cmd_alloc os s = (ok, s1)" by fastforce
  have 1: "fstep L x s0 s1" "pkt_info s1 = pkt_info s"
    using fstep_falloc [OF a [unfolded umac_cmd_alloc_def] assms(4)] a
    by (auto simp: umac_cmd_alloc_def falloc_def Let_def split: prod.splits)
  show ?thesis
  proof (cases "pkt i = []")
    case False
    then have ok using assms(1) i a by (auto simp: tx_cmd_init_def Let_def split: if_splits)
    then obtain st1 body s2 where p: "tx_cmd_prepare os desc (pkt i) peer s1 = Some (st1, body, s2)"
      using assms(1) i a False by (auto simp: tx_cmd_init_def Let_def split: Option.bind_splits)
    have 2: "fstep L x s0 s2" "pkt_info s2 = pkt_info s"
      using prepare_fstep [OF p assms(2,3) 1(1)] 1(2) by simp_all
    show ?thesis
    proof (cases "st1 = SUCCESS")
      case True
      let ?msg = "host_rpu_msg NRF_WIFI_HOST_RPU_MSG_TYPE_DATA body"
      obtain s3 where h: "on_hal (nrf_wifi_sys_hal_data_cmd_send os NRF_WIFI_HAL_MSG_TYPE_CMD_DATA_TX ?msg (of_nat desc) 0) s2
          = Some (st, s3)"
        and t: "t = (nbufs_free (pkt i) (femit (IoFree OBJ_CMD) s3))\<lparr>pkt_info := (pkt_info s)[desc := (pkt_info s ! desc)\<lparr>pkt := []\<rparr>]\<rparr>"
        using assms(1) i a False True \<open>ok\<close> p 2(2) on_hal_pkts
        by (fastforce simp: tx_cmd_init_def Let_def nbufs_free_fields split: Option.bind_splits)
      let ?u = "nbufs_free (pkt i) (femit (IoFree OBJ_CMD) s3)"
      have p3: "pkt_info s3 = pkt_info s" using on_hal_pkts [OF h] 2(2) by simp
      have 3: "fstep L (x + mset (map nb_ptr (pkt i))) s0 ?u"
        using data_cmd_fstep [OF h assms(2,3) 2(1)] by (intro nbufs_free_fstep) auto
      have u: "nth_opt (pkt_info ?u) desc = Some i" "i = pkt_info s ! desc"
        using i p3 by (auto simp: nbufs_free_fields nth_opt_def split: if_splits)
      have "owned ?u = owned t + mset (map nb_ptr (pkt i))"
        using owned_pkt [OF u(1), of "i\<lparr>pkt := []\<rparr>"] u(2) by (simp add: t nbufs_free_fields p3)
      then show ?thesis
        using fstep_drop [OF 3] by (simp add: t same_tables_def nbufs_free_fields p3)
    qed (use assms(1) i a False \<open>ok\<close> p 2(1) in \<open>auto simp: tx_cmd_init_def Let_def split: if_splits\<close>)
  qed (use assms(1) i a 1(1) in \<open>auto simp: tx_cmd_init_def Let_def\<close>)
qed

lemma desc_free_fstep [fsteps]: "tx_desc_free desc q s = Some t \<Longrightarrow> fstep L x s0 s \<Longrightarrow> fstep L x s0 t"
  by (auto simp: tx_desc_free_def outstanding_add_def clear_spare_desc_q_map_def Let_def
      split: Option.bind_splits if_splits)

lemma desc_get_fstep [fsteps]: "tx_desc_get q s = Some (d, t) \<Longrightarrow> fstep L x s0 s \<Longrightarrow> fstep L x s0 t"
  by (auto simp: tx_desc_get_def outstanding_add_def desc_mark_def set_spare_desc_q_map_def Let_def
      split: Option.bind_splits if_splits option.splits)

lemma pending_process_fstep [fsteps]:
  "nodes_ok os \<Longrightarrow> tx_pending_process os desc ac s = Some (st, t) \<Longrightarrow> LOCK_PS \<in> L \<Longrightarrow> LOCK_HAL \<in> L \<Longrightarrow>
   fstep L x s0 s \<Longrightarrow> fstep L x s0 t"
  unfolding tx_pending_process_def
  by (auto split: Option.bind_splits if_splits; blast intro: fsteps)

text \<open>A frame is taken unless its queue is full.\<close>

definition has_room :: "nat \<Rightarrow> nat \<Rightarrow> fmac \<Rightarrow> bool" where
  "has_room peer ac s = (length (pend s peer ac) < max_tx_pending_qlen s)"

lemma enqueue_fstep:
  assumes "nodes_ok os" "tx_enqueue os b ac peer s = Some (st, t)" "LOCK_PS \<in> L" "LOCK_HAL \<in> L" "fstep L x s0 s"
  shows "if has_room peer ac s then fstep L (add_mset (nb_ptr b) x) s0 t else st = FAIL \<and> t = s"
proof (cases "has_room peer ac s")
  case True
  obtain q where at: "pend_at s peer ac = Some q"
    using assms(2) by (auto simp: tx_enqueue_def split: Option.bind_splits)
  let ?q' = "if is_twt_emergency_pkt b then b # q else q @ [b]"
  let ?u = "pend_put peer ac ?q' s"
  have q: "pend s peer ac = q" using at by (simp add: pend_at_some)
  have "owned ?u = owned s + {#nb_ptr b#}"
    using owned_pend_put [OF at, of ?q'] by (auto split: if_splits)
  moreover have "hal_dev_ctx ?u = hal_dev_ctx s" by (simp add: pend_put_def)
  ultimately have "fstep L (x + {#nb_ptr b#}) s0 ?u"
    using fstep_gain [OF assms(5) _ pend_tables] by blast
  then have "fstep L (add_mset (nb_ptr b) x) s0 (femit (IoAlloc OBJ_Q_NODE True) ?u)"
    by (intro fstep_quiet) auto
  moreover have "pend_put peer ac ?q' (femit (IoAlloc OBJ_Q_NODE True) s) = femit (IoAlloc OBJ_Q_NODE True) ?u"
    by (simp add: pend_put_def femit_def)
  ultimately show ?thesis
    using assms(2-4) True update_bmp_fstep
    by (fastforce simp: tx_enqueue_def Let_def q at falloc_node [OF assms(1)] has_room_def split: if_splits)
qed (use assms(2) in \<open>auto simp: tx_enqueue_def has_room_def Let_def pend_at_some split: Option.bind_splits\<close>)

lemma tx_process_fstep:
  assumes "nodes_ok os" "tx_process os b ac peer s = Some (st, t)" "LOCK_PS \<in> L" "LOCK_HAL \<in> L" "fstep L x s0 s"
  shows "if has_room peer ac s then fstep L (add_mset (nb_ptr b) x) s0 t
    else st = NRF_WIFI_FMAC_TX_STATUS_FAIL \<and> t = s"
proof -
  obtain st' u where e: "tx_enqueue os b ac peer s = Some (st', u)"
    using assms(2) by (auto simp: tx_process_def split: Option.bind_splits)
  have "t = u" using assms(2) e
    by (auto simp: tx_process_def split: if_splits list.splits)
  then show ?thesis
    using enqueue_fstep [OF assms(1) e assms(3-5)] assms(2) e
    by (auto simp: tx_process_def split: if_splits)
qed

lemma tx_locked_fstep:
  assumes "nodes_ok os" "tx_locked os b ac peer s = Some (st, t)" "LOCK_PS \<in> L" "LOCK_HAL \<in> L" "fstep L x s0 s"
  shows "if num_tx_tokens s \<noteq> 0 \<and> has_room peer ac s then fstep L (add_mset (nb_ptr b) x) s0 t
    else st = NRF_WIFI_FMAC_TX_STATUS_FAIL \<and> t = s"
proof (cases "num_tx_tokens s = 0")
  case False
  obtain st' u where p: "tx_process os b ac peer s = Some (st', u)"
    using assms(2) False by (auto simp: tx_locked_def split: Option.bind_splits)
  note 1 = tx_process_fstep [OF assms(1) p assms(3-5)]
  show ?thesis
  proof (cases "has_room peer ac s")
    case True
    then have "fstep L (add_mset (nb_ptr b) x) s0 u" using 1 by simp
    then have "fstep L (add_mset (nb_ptr b) x) s0 t"
      using assms(2) False p pending_process_fstep [OF assms(1) _ assms(3,4)]
      by (auto simp: tx_locked_def split: if_splits Option.bind_splits; blast intro: fsteps)
    then show ?thesis using True False by simp
  qed (use 1 assms(2) False p in \<open>auto simp: tx_locked_def split: if_splits\<close>)
qed (use assms(2) in \<open>auto simp: tx_locked_def\<close>)

abbreviation tx_locks :: "os_lock set" where
  "tx_locks \<equiv> {LOCK_PS, LOCK_HAL, LOCK_TX}"

lemma tx_fstep:
  assumes "nodes_ok os" "nrf_wifi_fmac_tx os b ac peer s = Some (st, t)"
  shows "if num_tx_tokens s \<noteq> 0 \<and> has_room peer ac s then fstep tx_locks {#nb_ptr b#} s t
    else st = NRF_WIFI_FMAC_TX_STATUS_FAIL \<and> fstep tx_locks {#} s t"
proof -
  let ?s = "femit (IoLock LOCK_TX) s"
  obtain u where u: "tx_locked os b ac peer ?s = Some (st, u)" and t: "t = femit (IoUnlock LOCK_TX) u"
    using assms(2) by (auto simp: nrf_wifi_fmac_tx_def split: Option.bind_splits)
  have "num_tx_tokens ?s = num_tx_tokens s" "has_room peer ac ?s = has_room peer ac s"
    by (simp_all add: pend_def femit_def has_room_def)
  then have "if num_tx_tokens s \<noteq> 0 \<and> has_room peer ac s then fstep (tx_locks - {LOCK_TX}) {#nb_ptr b#} ?s u
      else st = NRF_WIFI_FMAC_TX_STATUS_FAIL \<and> u = ?s"
    using tx_locked_fstep [OF assms(1) u, of "tx_locks - {LOCK_TX}" "{#}" ?s] by auto
  then show ?thesis
    using fstep_locked [of tx_locks LOCK_TX _ s u] t by (auto split: if_splits)
qed

text \<open>A frame is accepted when it has a header, its peer is known, there are tokens at all and its
  queue has room.\<close>

definition accepted :: "os \<Rightarrow> nat \<Rightarrow> nbuf \<Rightarrow> fmac \<Rightarrow> bool" where
  "accepted os ifi b s = (14 \<le> length (nb_data b) \<and>
     (case vif_at s ifi of None \<Rightarrow> False
      | Some v \<Rightarrow> (case xmit_target os v b s of None \<Rightarrow> False
          | Some (peer, ac) \<Rightarrow> num_tx_tokens s \<noteq> 0 \<and> has_room peer ac s)))"

lemma start_xmit_fstep:
  assumes "nodes_ok os" "nrf_wifi_fmac_start_xmit os ifi b s = Some (st, t)"
  shows "fstep tx_locks (if st = FAIL \<and> accepted os ifi b s then {#nb_ptr b, nb_ptr b#} else {#nb_ptr b#}) s t"
    "st = SUCCESS \<Longrightarrow> accepted os ifi b s"
proof -
  have drop: "fstep tx_locks (add_mset (nb_ptr b) x) s (femit (IoNbufFree (nb_ptr b)) u)"
    if "fstep tx_locks x s u" for x u
    using that by (rule fstep_nbuf_free)
  consider (short) "length (nb_data b) < 14"
    | (unknown) v where "\<not> length (nb_data b) < 14" "vif_at s ifi = Some v" "xmit_target os v b s = None"
    | (tx) v peer ac where "\<not> length (nb_data b) < 14" "vif_at s ifi = Some v" "xmit_target os v b s = Some (peer, ac)"
    using assms(2) by (auto simp: nrf_wifi_fmac_start_xmit_def split: Option.bind_splits if_splits option.splits)
  then have "fstep tx_locks (if st = FAIL \<and> accepted os ifi b s then {#nb_ptr b, nb_ptr b#} else {#nb_ptr b#}) s t
    \<and> (st = SUCCESS \<longrightarrow> accepted os ifi b s)"
  proof cases
    case tx
    obtain st' u where u: "nrf_wifi_fmac_tx os b ac peer s = Some (st', u)"
      using assms(2) tx by (auto simp: nrf_wifi_fmac_start_xmit_def split: Option.bind_splits)
    note 1 = tx_fstep [OF assms(1) u]
    have acc: "accepted os ifi b s = (num_tx_tokens s \<noteq> 0 \<and> has_room peer ac s)"
      using tx by (simp add: accepted_def)
    have r: "(if st' = NRF_WIFI_FMAC_TX_STATUS_FAIL then Some (FAIL, femit (IoNbufFree (nb_ptr b)) u)
        else Some (SUCCESS, u)) = Some (st, t)"
      using assms(2) tx u by (simp add: nrf_wifi_fmac_start_xmit_def)
    show ?thesis
    proof (cases "st' = NRF_WIFI_FMAC_TX_STATUS_FAIL")
      case True
      then have t: "st = FAIL" "t = femit (IoNbufFree (nb_ptr b)) u" using r by simp_all
      show ?thesis
      proof (cases "accepted os ifi b s")
        case True
        then have "fstep tx_locks {#nb_ptr b#} s u" using 1 acc by simp
        from drop [OF this] show ?thesis using t True by simp
      next
        case False
        then have "fstep tx_locks {#} s u" using 1 acc by (simp split: if_splits)
        from drop [OF this] show ?thesis using t False by simp
      qed
    next
      case False
      then have "st = SUCCESS" "t = u" using r by simp_all
      then show ?thesis using 1 False acc by (simp split: if_splits)
    qed
  qed (use assms(2) drop [OF fstep_refl] in \<open>auto simp: nrf_wifi_fmac_start_xmit_def accepted_def\<close>)
  then show "fstep tx_locks (if st = FAIL \<and> accepted os ifi b s then {#nb_ptr b, nb_ptr b#} else {#nb_ptr b#}) s t"
    "st = SUCCESS \<Longrightarrow> accepted os ifi b s" by blast+
qed

section \<open>Completion\<close>

lemma unmap_loop_fstep [fsteps]:
  "tx_unmap_loop desc fs s = Some (st, t) \<Longrightarrow> fstep L x s0 s \<Longrightarrow> fstep L x s0 t"
proof (induction fs arbitrary: s)
  case (Cons f fs)
  then show ?case
    using unmap_tx_fstep by (fastforce simp: Let_def split: Option.bind_splits if_splits)
qed simp

lemma req_free_loop_fstep:
  assumes "nodes_ok os" "LOCK_PS \<in> L" "LOCK_HAL \<in> L"
  shows "req_free_loop os desc q acs s = Some (n, t) \<Longrightarrow> fstep L x s0 s \<Longrightarrow> fstep L x s0 t"
proof (induction acs arbitrary: s)
  case (Cons ac acs)
  obtain k u where k: "tx_pending_collect os desc ac s = Some (k, u)"
    using Cons.prems(1) by (auto split: Option.bind_splits)
  have "fstep L x s0 u" by (rule collect_fstep [OF assms(1) k assms(2,3) Cons.prems(2)])
  then show ?case
    using Cons k by (auto simp: Let_def outstanding_add_def clear_spare_desc_q_map_def set_spare_desc_q_map_def
      split: Option.bind_splits if_splits)
qed simp

lemma req_free_fstep [fsteps]:
  assumes "nodes_ok os" "tx_buff_req_free os desc s = Some (n, t)" "LOCK_PS \<in> L" "LOCK_HAL \<in> L" "fstep L x s0 s"
  shows "fstep L x s0 t"
proof -
  obtain q acs where q: "(if desc < reserved_descs s
       then Some (desc mod NRF_WIFI_FMAC_AC_MAX, [desc mod NRF_WIFI_FMAC_AC_MAX])
       else do { m \<leftarrow> get_spare_desc_q_map desc s; Some (spare_queue m, [3, 2, 1, 0]) }) = Some (q, acs)"
    and r: "do { (n, s) \<leftarrow> req_free_loop os desc q acs s;
      if n \<noteq> 0 then Some (n, s) else do { s \<leftarrow> tx_desc_free desc q s; Some (0, s) } } = Some (n, t)"
    using assms(2) unfolding tx_buff_req_free_def by (elim bind2E) simp
  obtain k u where k: "req_free_loop os desc q acs s = Some (k, u)"
    and t: "(if k \<noteq> 0 then Some (k, u) else do { s \<leftarrow> tx_desc_free desc q u; Some (0, s) }) = Some (n, t)"
    using r by (elim bind2E) simp
  have "fstep L x s0 u" by (rule req_free_loop_fstep [OF assms(1,3,4) k assms(5)])
  then show ?thesis
    using t by (auto split: if_splits Option.bind_splits; blast intro: fsteps)
qed

lemma tx_done_process_fstep:
  assumes "nodes_ok os" "tx_done_process os d s = Some (st, t)" "LOCK_PS \<in> L" "LOCK_HAL \<in> L" "fstep L x s0 s"
  shows "fstep L x s0 t"
proof (cases "num_tx_tokens s < d")
  case False
  obtain n where n: "nth_opt (send_pkt_coalesce_count s) (unat d) = Some n"
    using assms(2) False by (auto simp: tx_done_process_def Let_def split: Option.bind_splits)
  obtain st1 u where u: "tx_unmap_loop (unat d) [0..<unat n] s = Some (st1, u)"
    using assms(2) False n by (auto simp: tx_done_process_def Let_def split: Option.bind_splits)
  note 1 = unmap_loop_fstep [OF u assms(5)]
  show ?thesis
  proof (cases "st1 = SUCCESS")
    case True
    obtain k w where k: "tx_buff_req_free os (unat d) u = Some (k, w)"
      using assms(2) False n u True by (auto simp: tx_done_process_def Let_def split: Option.bind_splits)
    have "fstep L x s0 w" by (rule req_free_fstep [OF assms(1) k assms(3,4) 1])
    then show ?thesis
      using assms(2-4) False n u True k tx_cmd_init_fstep
      by (auto simp: tx_done_process_def Let_def split: if_splits)
  qed (use assms(2) False n u 1 in \<open>auto simp: tx_done_process_def Let_def\<close>)
qed (use assms(2,5) in \<open>auto simp: tx_done_process_def\<close>)

lemma tx_done_event_fstep:
  assumes "nodes_ok os" "nrf_wifi_fmac_tx_done_event_process os d s = Some (st, t)"
  shows "fstep tx_locks {#} s t"
proof (cases "tx_lock s")
  case True
  then obtain u where u: "tx_done_process os d (femit (IoLock LOCK_TX) s) = Some (st, u)"
    and t: "t = femit (IoUnlock LOCK_TX) u"
    using assms(2) by (auto simp: nrf_wifi_fmac_tx_done_event_process_def split: Option.bind_splits)
  have "fstep (tx_locks - {LOCK_TX}) {#} (femit (IoLock LOCK_TX) s) u"
    by (rule tx_done_process_fstep [OF assms(1) u]) auto
  then show ?thesis unfolding t by (rule fstep_locked) simp
qed (use assms(2) in \<open>auto simp: nrf_wifi_fmac_tx_done_event_process_def\<close>)

section \<open>Removal\<close>

lemma free_put_step:
  assumes "nth_opt (pkt_info s) i = Some p" "fstep L x s0 s"
  shows "fstep L x s0 (femit (IoFree (OBJ_PKT_LIST i))
    ((nbufs_free (pkt p) s)\<lparr>pkt_info := (pkt_info s)[i := p\<lparr>pkt := []\<rparr>]\<rparr>))"
proof -
  let ?u = "nbufs_free (pkt p) s"
  have "owned ?u = owned (?u\<lparr>pkt_info := (pkt_info s)[i := p\<lparr>pkt := []\<rparr>]\<rparr>) + mset (map nb_ptr (pkt p))"
    using owned_pkt [of ?u i p "p\<lparr>pkt := []\<rparr>"] assms(1) by (simp add: nbufs_free_fields)
  then have "fstep L x s0 (?u\<lparr>pkt_info := (pkt_info s)[i := p\<lparr>pkt := []\<rparr>]\<rparr>)"
    using fstep_drop [OF nbufs_free_fstep [OF assms(2)]] by (simp add: same_tables_def nbufs_free_fields)
  then show ?thesis by blast
qed

lemma pkt_free_loop_run:
  assumes "set is \<subseteq> {..<length (pkt_info s)}" "fstep L x s0 s"
  shows "\<exists>t. tx_pkt_free_loop is s = Some t \<and> fstep L x s0 t \<and> length (pkt_info t) = length (pkt_info s) \<and>
    (\<forall>i<length (pkt_info s). pkt (pkt_info t ! i) = (if i \<in> set is then [] else pkt (pkt_info s ! i)))"
  using assms
proof (induction "is" arbitrary: s)
  case (Cons i "is")
  then have i: "i < length (pkt_info s)" by simp
  let ?p = "pkt_info s ! i"
  let ?u = "femit (IoFree (OBJ_PKT_LIST i)) ((nbufs_free (pkt ?p) s)\<lparr>pkt_info := (pkt_info s)[i := ?p\<lparr>pkt := []\<rparr>]\<rparr>)"
  have u: "pkt_info ?u = (pkt_info s)[i := ?p\<lparr>pkt := []\<rparr>]" by simp
  have "fstep L x s0 ?u" using free_put_step [OF _ Cons.prems(2), of i ?p] i by (simp add: nth_opt_def)
  from Cons.IH [OF _ this] Cons.prems(1) obtain t where t: "tx_pkt_free_loop is ?u = Some t" "fstep L x s0 t"
      "length (pkt_info t) = length (pkt_info s)"
      "\<forall>j<length (pkt_info s). pkt (pkt_info t ! j) = (if j \<in> set is then [] else pkt (pkt_info ?u ! j))"
    unfolding u by auto
  have "tx_pkt_free_loop (i # is) s = Some t"
    using i t(1) by (auto simp: nth_opt_def Let_def nbufs_free_fields)
  moreover have "\<forall>j<length (pkt_info s). pkt (pkt_info t ! j) = (if j \<in> set (i # is) then [] else pkt (pkt_info s ! j))"
    using t(4) i unfolding u by (auto simp: nth_list_update)
  ultimately show ?case using t(2,3) by blast
qed auto

lemma pend_put_at:
  assumes "pend_at s p a = Some q" "pend_at s p' a' = Some r"
  shows "pend_at (pend_put p a q' s) p' a' = Some (if p' = p \<and> a' = a then q' else r)"
  using assms by (auto simp: pend_at_some pend_put_def pend_def nth_list_update)

lemma pend_free_loop_run:
  assumes "\<forall>(p, a) \<in> set qs. pend_at s p a \<noteq> None" "fstep L x s0 s"
  shows "fstep L x s0 (tx_pend_free_loop qs s)"
    "pend_at s p a = Some r \<Longrightarrow> pend_at (tx_pend_free_loop qs s) p a = Some (if (p, a) \<in> set qs then [] else r)"
    "pkt_info (tx_pend_free_loop qs s) = pkt_info s"
proof -
  have "fstep L x s0 (tx_pend_free_loop qs s) \<and> pkt_info (tx_pend_free_loop qs s) = pkt_info s \<and>
      (\<forall>p a r. pend_at s p a = Some r \<longrightarrow>
        pend_at (tx_pend_free_loop qs s) p a = Some (if (p, a) \<in> set qs then [] else r))"
    using assms
  proof (induction qs arbitrary: s)
    case (Cons pa qs)
    obtain p a where pa: "pa = (p, a)" by fastforce
    obtain q where q: "pend_at s p a = Some q" using Cons.prems(1) pa by auto
    then have q': "pend s p a = q" by (simp add: pend_at_some)
    let ?v = "nbufs_free q s"
    let ?u = "femit (IoFree (OBJ_PENDING_Q p a)) (pend_put p a [] ?v)"
    have at: "pend_at ?v p' a' = pend_at s p' a'" for p' a'
      by (simp add: pend_at_def nbufs_free_fields)
    have ua: "pend_at ?u p' a' = Some (if p' = p \<and> a' = a then [] else r)" if "pend_at s p' a' = Some r" for p' a' r
    proof -
      have "pend_at ?u p' a' = pend_at (pend_put p a [] ?v) p' a'" by (simp add: pend_at_def)
      also have "\<dots> = Some (if p' = p \<and> a' = a then [] else r)"
        using q that by (intro pend_put_at) (simp_all add: at)
      finally show ?thesis .
    qed
    have "owned ?v = owned (pend_put p a [] ?v) + mset (map nb_ptr q)"
      using owned_pend_put [of ?v p a q "[]"] q by (simp add: at)
    moreover have "hal_dev_ctx (pend_put p a [] ?v) = hal_dev_ctx ?v" by (simp add: pend_put_def)
    ultimately have "fstep L x s0 (pend_put p a [] ?v)"
      using fstep_drop [OF nbufs_free_fstep [OF Cons.prems(2)] _ pend_tables] by blast
    then have "fstep L x s0 ?u" by blast
    moreover have "\<forall>(p, a) \<in> set qs. pend_at ?u p a \<noteq> None"
      using Cons.prems(1) ua by fastforce
    ultimately have ih: "fstep L x s0 (tx_pend_free_loop qs ?u)" "pkt_info (tx_pend_free_loop qs ?u) = pkt_info ?u"
        "\<And>p' a' r. pend_at ?u p' a' = Some r \<Longrightarrow>
          pend_at (tx_pend_free_loop qs ?u) p' a' = Some (if (p', a') \<in> set qs then [] else r)"
      using Cons.IH [of ?u] by blast+
    have "pend_at (tx_pend_free_loop qs ?u) p' a' = Some (if (p', a') \<in> set (pa # qs) then [] else r)"
      if "pend_at s p' a' = Some r" for p' a' r
      using ih(3) [OF ua [OF that]] pa by auto
    moreover have "pkt_info ?u = pkt_info s" by (simp add: pend_put_def nbufs_free_fields)
    ultimately show ?case using ih(1,2) by (simp add: pa q')
  qed simp
  then show "fstep L x s0 (tx_pend_free_loop qs s)" "pkt_info (tx_pend_free_loop qs s) = pkt_info s"
    "pend_at s p a = Some r \<Longrightarrow> pend_at (tx_pend_free_loop qs s) p a = Some (if (p, a) \<in> set qs then [] else r)"
    by blast+
qed

text \<open>The tables of the transmit path after \<open>tx_init\<close>: a list for every token, and the array of
  the pending queues as it is declared.\<close>

definition tables_ok :: "fmac \<Rightarrow> bool" where
  "tables_ok s = (length (pkt_info s) = unat (num_tx_tokens s) \<and>
     map length (data_pending_txq s) = replicate MAX_SW_PEERS NRF_WIFI_FMAC_AC_MAX)"

lemma fstep_tables: "fstep L x s t \<Longrightarrow> tables_ok t = tables_ok s"
  by (simp add: fstep_def same_tables_def tables_ok_def)

lemma tables_ok_at:
  assumes "tables_ok s" "peer < MAX_SW_PEERS" "ac < NRF_WIFI_FMAC_AC_MAX"
  shows "pend_at s peer ac = Some (pend s peer ac)"
proof -
  have l: "length (data_pending_txq s) = 6"
    using assms(1) unfolding tables_ok_def by (metis length_map length_replicate)
  have "length (data_pending_txq s ! peer) = map length (data_pending_txq s) ! peer"
    using assms(2) l by simp
  also have "\<dots> = 5" using assms(1,2) by (simp add: tables_ok_def)
  finally show ?thesis using assms(2,3) l by (simp add: pend_at_some)
qed

lemma pend_empty:
  assumes "tables_ok s" "\<And>p a. p < MAX_SW_PEERS \<Longrightarrow> a < NRF_WIFI_FMAC_AC_MAX \<Longrightarrow> pend s p a = []"
  shows "concat (concat (data_pending_txq s)) = []"
proof -
  have l: "length (data_pending_txq s) = 6"
    using assms(1) unfolding tables_ok_def by (metis length_map length_replicate)
  have "q = []" if q: "row \<in> set (data_pending_txq s)" "q \<in> set row" for row q
  proof -
    obtain p where p: "p < 6" "row = data_pending_txq s ! p" using q(1) l by (metis in_set_conv_nth)
    have "length row = map length (data_pending_txq s) ! p" using p l by simp
    then have "length row = 5" using assms(1) p(1) by (simp add: tables_ok_def)
    then obtain a where "a < 5" "q = row ! a" using q(2) by (metis in_set_conv_nth)
    then show ?thesis using assms(2) p by (simp add: pend_def)
  qed
  then show ?thesis by auto
qed

lemma deinit_frees_all:
  assumes "tables_ok s" "fready L s"
  shows "\<exists>t. tx_deinit s = Some t \<and> owned t = {#} \<and> freed (ftrace t) = frames s"
proof -
  let ?s1 = "free_all [OBJ_WAKEUP_Q, OBJ_LOCK LOCK_TX, OBJ_BUF_POOL_BMP] s"
  have 1: "fstep L {#} s ?s1" "num_tx_tokens ?s1 = num_tx_tokens s" "pkt_info ?s1 = pkt_info s"
    by (rule free_all_fstep, simp) (simp_all add: free_all_def femit_def)
  let ?n = "unat (num_tx_tokens s)"
  have len: "length (pkt_info s) = ?n" using assms(1) by (simp add: tables_ok_def)
  obtain s2 where 2: "tx_pkt_free_loop [0..<?n] ?s1 = Some s2" "fstep L {#} s s2"
      "length (pkt_info s2) = ?n" "\<forall>i<?n. pkt (pkt_info s2 ! i) = []"
  proof -
    have "set [0..<?n] \<subseteq> {..<length (pkt_info ?s1)}" using 1(3) len by auto
    from pkt_free_loop_run [OF this 1(1)] show thesis using 1(3) len that by auto
  qed
  have e2: "concat (map pkt (pkt_info s2)) = []" using 2(3,4) by (auto simp: in_set_conv_nth)
  let ?qs = "concat (map (\<lambda>ac. map (\<lambda>peer. (peer, ac)) [0..<MAX_SW_PEERS]) [0..<NRF_WIFI_FMAC_AC_MAX])"
  let ?s3 = "femit (IoFree OBJ_PKT_INFO) s2"
  let ?s4 = "tx_pend_free_loop ?qs ?s3"
  have 3: "fstep L {#} s ?s3" using 2(2) by blast
  have t3: "tables_ok ?s3" using fstep_tables [OF 3] assms(1) by simp
  have at: "\<forall>(p, a) \<in> set ?qs. pend_at ?s3 p a \<noteq> None"
    using tables_ok_at [OF t3] by auto
  note 4 = pend_free_loop_run [OF at 3]
  have "pend_at ?s4 p a = Some []" if "p < MAX_SW_PEERS" "a < NRF_WIFI_FMAC_AC_MAX" for p a
  proof -
    have "(p, a) \<in> set ?qs" using that by force
    then show ?thesis using 4(2) [OF tables_ok_at [OF t3 that]] by simp
  qed
  then have "concat (concat (data_pending_txq ?s4)) = []"
    using pend_empty fstep_tables [OF 4(1)] assms(1) by (simp add: pend_at_some)
  moreover have "concat (map pkt (pkt_info ?s4)) = []" using 4(3) e2 by simp
  ultimately have "owned ?s4 = {#}" by (simp add: owned_def)
  moreover have "frames ?s4 = frames s" using 4(1) assms(2) by (simp add: fstep_def)
  ultimately have "freed (ftrace ?s4) = frames s" by (simp add: frames_def)
  moreover have "tx_deinit s = Some (tx_config_zero (femit (IoFree OBJ_COALESCE) ?s4))"
    using 1(2) 2(1) by (simp add: tx_deinit_def Let_def)
  ultimately show ?thesis
    by (simp add: tx_config_zero_def owned_def)
qed

section \<open>Histories\<close>

lemma vif_op_fstep: "vif_op os s t \<Longrightarrow> fstep tx_locks {#} s t"
  by (induction rule: vif_op.induct) (auto intro: fsteps)

lemma peer_op_fstep: "peer_op os s t \<Longrightarrow> fstep tx_locks {#} s t"
  by (induction rule: peer_op.induct) (auto intro: fsteps)

text \<open>A history of the driver: frames that are sent or refused, completions, and operations on
  interfaces and peers. Its list has the frames that were handed over.\<close>

inductive tx_history :: "os \<Rightarrow> fmac \<Rightarrow> nbuf list \<Rightarrow> fmac \<Rightarrow> bool" for os s where
  begins: "tx_history os s [] s"
| sends: "tx_history os s bs t \<Longrightarrow> nrf_wifi_fmac_start_xmit os ifi b t = Some (SUCCESS, u) \<Longrightarrow>
    tx_history os s (b # bs) u"
| refuses: "tx_history os s bs t \<Longrightarrow> nrf_wifi_fmac_start_xmit os ifi b t = Some (FAIL, u) \<Longrightarrow>
    \<not> accepted os ifi b t \<Longrightarrow> tx_history os s (b # bs) u"
| completes: "tx_history os s bs t \<Longrightarrow> nrf_wifi_fmac_tx_done_event_process os d t = Some (st, u) \<Longrightarrow>
    tx_history os s bs u"
| vifs: "tx_history os s bs t \<Longrightarrow> vif_op os t u \<Longrightarrow> tx_history os s bs u"
| changes: "tx_history os s bs t \<Longrightarrow> peer_op os t u \<Longrightarrow> tx_history os s bs u"

lemma history_fstep:
  assumes "tx_history os s bs t" "nodes_ok os"
  shows "fstep tx_locks (mset (map nb_ptr bs)) s t"
  using assms(1)
proof (induction rule: tx_history.induct)
  case (sends bs t ifi b u)
  have "fstep tx_locks {#nb_ptr b#} t u"
    using start_xmit_fstep(1) [OF assms(2) sends.hyps(2)] by simp
  from fstep_trans [OF sends.IH this] show ?case by simp
next
  case (refuses bs t ifi b u)
  have "fstep tx_locks {#nb_ptr b#} t u"
    using start_xmit_fstep(1) [OF assms(2) refuses.hyps(2)] refuses.hyps(3) by simp
  from fstep_trans [OF refuses.IH this] show ?case by simp
next
  case (completes bs t d st u)
  from fstep_trans0 [OF completes.IH tx_done_event_fstep [OF assms(2) completes.hyps(2)]] show ?case .
next
  case (vifs bs t u)
  from fstep_trans0 [OF vifs.IH vif_op_fstep [OF vifs.hyps(2)]] show ?case .
next
  case (changes bs t u)
  from fstep_trans0 [OF changes.IH peer_op_fstep [OF changes.hyps(2)]] show ?case .
qed simp

section \<open>An example\<close>

text \<open>A station with its access point as peer 0, which is active, asleep, or whose first transmit
  buffer of the best-effort queue is mapped already.\<close>

definition ap_peer :: peers_info where
  "ap_peer = peer_zero\<lparr>peer_id := 0, ra_addr := [0x10, 1, 1, 1, 1, 1]\<rparr>"

definition tx_demo :: fmac where
  "tx_demo = fmac_demo\<lparr>peers := (peers fmac_demo)[0 := ap_peer]\<rparr>"

definition ip_frame :: nbuf where
  "ip_frame = \<lparr>nb_ptr = 0x30000000, nb_data_ptr = 0x31000000,
     nb_data = [0x10, 1, 1, 1, 1, 1, 2, 0, 0, 0, 0, 1, 8, 0, 0x45, 0], nb_priority = 0, nb_chksum_done = False\<rparr>"

definition tx_demo_ps :: fmac where
  "tx_demo_ps = tx_demo\<lparr>peers := (peers tx_demo)[0 := ap_peer\<lparr>ps_state := 1\<rparr>]\<rparr>"

lemma nodes_ok_demo: "nodes_ok demo_os"
  by (simp add: nodes_ok_def tick_os_def)

lemmas target_simps = xmit_target_def Let_def ip_frame_def fmac_demo_simps upt_peers nrf_wifi_util_get_ra_def
  sta_vif_def ap_peer_def peer_zero_def nrf_wifi_fmac_peer_get_id_def nrf_wifi_util_is_multicast_addr_def
  nrf_wifi_util_ether_addr_equal_def halfword_def

lemmas xmit_simps = nrf_wifi_fmac_tx_def tx_locked_def tx_process_def tx_enqueue_def femit_def fmac_demo_simps
  pend_at_def nth_opt_def falloc_def osal_alloc_def tick_os_def Let_def update_pend_q_bmp_def vif_at_def sta_vif_def
  pend_put_def ap_peer_def peer_zero_def ip_frame_def

lemma target_demo_ps: "xmit_target demo_os sta_vif ip_frame tx_demo_ps = Some (0, 1)"
  by (simp add: tx_demo_ps_def tx_demo_def target_simps)

lemma xmit_ps: "\<exists>t. nrf_wifi_fmac_start_xmit demo_os 0 ip_frame tx_demo_ps = Some (SUCCESS, t)"
proof -
  have "vif_at tx_demo_ps 0 = Some sta_vif" by (simp add: vif_at_def tx_demo_ps_def tx_demo_def fmac_demo_simps)
  moreover have "\<exists>u. nrf_wifi_fmac_tx demo_os ip_frame 1 0 tx_demo_ps = Some (NRF_WIFI_FMAC_TX_STATUS_QUEUED, u)"
    by (simp add: tx_demo_ps_def tx_demo_def xmit_simps)
  moreover have "\<not> length (nb_data ip_frame) < 14" by (simp add: ip_frame_def)
  ultimately show ?thesis using target_demo_ps by (auto simp: nrf_wifi_fmac_start_xmit_def)
qed

definition tx_demo_mapped :: fmac where
  "tx_demo_mapped = tx_demo\<lparr>fmac_tx_info := Some ((replicate 48 fmac_unmapped)[4 := \<lparr>buf_mapped = True, buf_nwb = None\<rparr>])\<rparr>"

lemma target_demo_mapped: "xmit_target demo_os sta_vif ip_frame tx_demo_mapped = Some (0, 1)"
  by (simp add: tx_demo_mapped_def tx_demo_def target_simps)

lemma xmit_mapped: "\<exists>u. nrf_wifi_fmac_tx demo_os ip_frame 1 0 tx_demo_mapped = Some (NRF_WIFI_FMAC_TX_STATUS_FAIL, u)"
  apply (simp add: tx_demo_mapped_def tx_demo_def xmit_simps)
  apply (simp add: can_xmit_def is_twt_emergency_pkt_def fmac_demo_simps)
  apply (simp add: tx_desc_get_def fmac_demo_simps upt_conv_Cons nth_opt_def outstanding_add_def desc_mark_def)
  apply (simp add: tx_pending_process_def tx_pending_collect_def tx_curr_peer_opp_get_def get_peer_from_wakeup_q_def
  fmac_demo_simps upt_peers pend_def pend_at_def nth_opt_def Let_def)
  apply (simp add: fmac_demo_simps tx_aggr_check_def pend_def can_xmit_def is_twt_emergency_pkt_def nrf_wifi_util_ether_addr_equal_def)
  apply (simp add: txq_add_def pend_dequeue_def falloc_def osal_alloc_def Let_def fmac_demo_simps pend_put_def pend_def femit_def)
  apply (simp add: collect_finish_def Let_def update_pend_q_bmp_def vif_at_def fmac_demo_simps sta_vif_def)
  apply (simp add: tx_cmd_init_def nth_opt_def umac_cmd_alloc_def falloc_def osal_alloc_def Let_def tx_cmd_prepare_def fmac_demo_simps)
  done

lemma vif_demo: "vif_at tx_demo_ps 0 = Some sta_vif" "vif_at tx_demo_mapped 0 = Some sta_vif"
  by (simp_all add: vif_at_def tx_demo_ps_def tx_demo_mapped_def tx_demo_def fmac_demo_simps)

lemma xmit_mapped_fails: "\<exists>t. nrf_wifi_fmac_start_xmit demo_os 0 ip_frame tx_demo_mapped = Some (FAIL, t)"
proof -
  have "\<not> length (nb_data ip_frame) < 14" by (simp add: ip_frame_def)
  then show ?thesis using xmit_mapped target_demo_mapped vif_demo by (auto simp: nrf_wifi_fmac_start_xmit_def)
qed

lemma accepted_mapped: "accepted demo_os 0 ip_frame tx_demo_mapped"
  using target_demo_mapped vif_demo
  by (simp add: accepted_def has_room_def pend_def tx_demo_mapped_def tx_demo_def fmac_demo_simps)
    (simp add: ip_frame_def)

lemma demo_ready:
  "fready tx_locks tx_demo_ps" "frames tx_demo_ps = {#}" "tables_ok tx_demo_ps"
  "fready tx_locks tx_demo_mapped" "frames tx_demo_mapped = {#}"
  by (simp_all add: tx_demo_ps_def tx_demo_mapped_def tx_demo_def fready_def fmac_demo_simps ps_coherent_def
      hal_awake_def ps_ready_def frames_def owned_def tables_ok_def)

section \<open>Properties\<close>





end
