(* ===== verification/Fmac_Tx_Desc.thy ===== *)
theory Fmac_Tx_Desc
  imports Fmac_Tx_Own
begin

text \<open>The transmit descriptors: a descriptor that is in use belongs to one access category, the
  reserved ones by their number, the spare ones by the map of the spare descriptors. The
  counters, the bitmap and the map refine a partial function from descriptors to categories.\<close>

section \<open>The refinement relation\<close>

definition tokens :: "fmac \<Rightarrow> nat" where
  "tokens s = unat (num_tx_tokens s)"

text \<open>The set-up: every category has a descriptor, and the spare ones fit into the map, one for
  every reserved one at most.\<close>

definition desc_setup :: "fmac \<Rightarrow> bool" where
  "desc_setup s = (0 < reserved_descs s \<and> reserved_descs s \<le> tokens s \<and>
     tokens s - reserved_descs s \<le> min 8 (reserved_descs s) \<and>
     tokens s \<le> 32 * length (buf_pool_bmp s) \<and> length (outstanding_descs s) = NRF_WIFI_FMAC_AC_MAX)"

definition owned_by :: "(nat \<Rightarrow> nat option) \<Rightarrow> nat \<Rightarrow> nat set" where
  "owned_by own q = {d. own d = Some q}"

definition desc_rel :: "fmac \<Rightarrow> (nat \<Rightarrow> nat option) \<Rightarrow> bool" where
  "desc_rel s own = (desc_setup s \<and>
     (\<forall>d<tokens s. desc_busy s d = (own d \<noteq> None)) \<and>
     (\<forall>d. tokens s \<le> d \<longrightarrow> own d = None) \<and>
     (\<forall>d q. d < reserved_descs s \<longrightarrow> own d = Some q \<longrightarrow> q = d mod NRF_WIFI_FMAC_AC_MAX) \<and>
     (\<forall>d q. reserved_descs s \<le> d \<longrightarrow> own d = Some q \<longrightarrow> q < 4) \<and>
     (\<forall>d q. reserved_descs s \<le> d \<longrightarrow> d < tokens s \<longrightarrow> q < 4 \<longrightarrow>
        bit (spare_desc_queue_map s) (4 * (d - reserved_descs s) + q) = (own d = Some q)) \<and>
     (\<forall>q<NRF_WIFI_FMAC_AC_MAX. outstanding_descs s ! q = of_nat (card (owned_by own q))))"

lemma owned_by_finite: "desc_rel s own \<Longrightarrow> finite (owned_by own q)"
proof -
  assume "desc_rel s own"
  then have "owned_by own q \<subseteq> {..<tokens s}"
    by (auto simp: desc_rel_def owned_by_def) (metis leI option.distinct(1))
  then show ?thesis by (rule finite_subset) simp
qed

lemma owned_by_upd:
  assumes "desc_rel s own" "own d = None"
  shows "card (owned_by (own(d \<mapsto> q)) q') = card (owned_by own q') + (if q' = q then 1 else 0)"
proof -
  have "owned_by (own(d \<mapsto> q)) q' = (if q' = q then insert d (owned_by own q') else owned_by own q')"
    using assms(2) by (auto simp: owned_by_def)
  moreover have "d \<notin> owned_by own q'" using assms(2) by (simp add: owned_by_def)
  ultimately show ?thesis using owned_by_finite [OF assms(1)] by (cases "q' = q") simp_all
qed

lemma owned_by_clear:
  assumes "desc_rel s own" "own d = Some q"
  shows "card (owned_by (own(d := None)) q') + (if q' = q then 1 else 0) = card (owned_by own q')"
proof -
  have "owned_by (own(d := None)) q' = owned_by own q' - (if q' = q then {d} else {})"
    using assms(2) by (auto simp: owned_by_def)
  moreover have "d \<in> owned_by own q" using assms(2) by (simp add: owned_by_def)
  ultimately show ?thesis using owned_by_finite [OF assms(1), of q]
    by (auto simp: card_Diff_singleton dest: card_gt_0_iff [THEN iffD2, rotated])
      (metis One_nat_def Suc_pred card_gt_0_iff empty_iff)
qed

section \<open>The operations\<close>

lemma spare_bit:
  assumes "desc_setup s" "reserved_descs s \<le> d" "d < tokens s"
  shows "spare_desc_bit d q s = 4 * (d - reserved_descs s) + q"
proof -
  have "d mod reserved_descs s = d - reserved_descs s"
    using assms by (intro mod_if [THEN trans] ) (auto simp: desc_setup_def le_mod_geq)
  then show ?thesis by (simp add: spare_desc_bit_def)
qed

lemma search_result:
  assumes "\<forall>d \<in> set ds. d div 32 < length bmp"
  shows "desc_search ds bmp = Some (find (\<lambda>d. \<not> bit (bmp ! (d div 32)) (d mod 32)) ds)"
  using assms by (induction ds) (auto simp: nth_opt_def)

lemma spare_index:
  assumes "q < 4" "q' < (4::nat)"
  shows "4 * (d - r) + q = 4 * (d' - r) + q' \<longleftrightarrow> d - r = d' - r \<and> q = (q'::nat)"
proof
  assume h: "4 * (d - r) + q = 4 * (d' - r) + q'"
  from arg_cong [OF h, of "\<lambda>n. n div 4"] arg_cong [OF h, of "\<lambda>n. n mod 4"] assms
  show "d - r = d' - r \<and> q = q'" by simp
qed simp

text \<open>Setting or clearing the bit of a descriptor.\<close>

definition bmp_put :: "bool \<Rightarrow> nat \<Rightarrow> u32 list \<Rightarrow> u32 list" where
  "bmp_put b d bmp = bmp[d div 32 := (if b then set_bit else unset_bit) (d mod 32) (bmp ! (d div 32))]"

lemma bmp_put_busy:
  assumes "d < 32 * length bmp" "d' < 32 * length bmp"
  shows "bit (bmp_put b d bmp ! (d' div 32)) (d' mod 32) = (if d' = d then b else bit (bmp ! (d' div 32)) (d' mod 32))"
proof -
  have l: "d div 32 < length bmp" "d' div 32 < length bmp" using assms by (simp_all add: div_less_iff_less_mult)
  show ?thesis
  proof (cases "d' div 32 = d div 32")
    case True
    have "d' = d" if "d' mod 32 = d mod 32"
      using that True div_mult_mod_eq [of d 32] div_mult_mod_eq [of d' 32] by metis
    then have "(d mod 32 = d' mod 32) = (d = d')" by metis
    then show ?thesis using True l by (auto simp: bmp_put_def bit_simps)
  next
    case False
    then have "d' \<noteq> d" by blast
    then show ?thesis using False l by (simp add: bmp_put_def)
  qed
qed

definition desc_put :: "bool \<Rightarrow> nat \<Rightarrow> nat \<Rightarrow> fmac \<Rightarrow> fmac \<Rightarrow> bool" where
  "desc_put b d q s t = (num_tx_tokens t = num_tx_tokens s \<and> num_tx_tokens_per_ac t = num_tx_tokens_per_ac s \<and>
     buf_pool_bmp t = bmp_put b d (buf_pool_bmp s) \<and>
     outstanding_descs t = (outstanding_descs s)[q := outstanding_descs s ! q + (if b then 1 else -1)] \<and>
     spare_desc_queue_map t = (if reserved_descs s \<le> d
        then (if b then set_bit else unset_bit) (4 * (d - reserved_descs s) + q) (spare_desc_queue_map s)
        else spare_desc_queue_map s))"

lemma desc_put_rel:
  assumes "desc_rel s own" "desc_put b d q s t" "d < tokens s" "q < NRF_WIFI_FMAC_AC_MAX"
    and "own d = (if b then None else Some q)"
    and "d < reserved_descs s \<longrightarrow> q = d mod NRF_WIFI_FMAC_AC_MAX" "reserved_descs s \<le> d \<longrightarrow> q < 4"
  shows "desc_rel t (own(d := if b then Some q else None))" (is "desc_rel t ?own")
proof -
  have r: "reserved_descs t = reserved_descs s" "tokens t = tokens s"
    and bm: "buf_pool_bmp t = bmp_put b d (buf_pool_bmp s)"
    and ou: "outstanding_descs t = (outstanding_descs s)[q := outstanding_descs s ! q + (if b then 1 else -1)]"
    and mp: "spare_desc_queue_map t = (if reserved_descs s \<le> d
        then (if b then set_bit else unset_bit) (4 * (d - reserved_descs s) + q) (spare_desc_queue_map s)
        else spare_desc_queue_map s)"
    using assms(2) by (simp_all add: desc_put_def reserved_descs_def tokens_def)
  have su: "desc_setup t" using assms(1)
    by (simp add: desc_rel_def desc_setup_def r bm ou bmp_put_def)
  have lb: "tokens s \<le> 32 * length (buf_pool_bmp s)" and sp: "tokens s - reserved_descs s \<le> 8"
    using assms(1) by (simp_all add: desc_rel_def desc_setup_def)
  have busy: "desc_busy t d' = (?own d' \<noteq> None)" if "d' < tokens s" for d'
    using assms(1,3) that lb bmp_put_busy [of d "buf_pool_bmp s" d' b]
    by (auto simp: desc_rel_def desc_busy_def bm)
  have spare: "bit (spare_desc_queue_map t) (4 * (d' - reserved_descs s) + q') = (?own d' = Some q')"
    if d': "reserved_descs s \<le> d'" "d' < tokens s" "q' < 4" for d' q'
  proof -
    have old: "bit (spare_desc_queue_map s) (4 * (d' - reserved_descs s) + q') = (own d' = Some q')"
      using assms(1) d' by (simp add: desc_rel_def)
    show ?thesis
    proof (cases "reserved_descs s \<le> d")
      case True
      have b: "4 * (d' - reserved_descs s) + q' < 32" using d' sp by linarith
      have "(4 * (d - reserved_descs s) + q = 4 * (d' - reserved_descs s) + q') = (d = d' \<and> q = q')"
        using spare_index [of q q' d "reserved_descs s" d'] True assms(7) d' by auto
      then show ?thesis using True old assms(5) b by (auto simp: mp bit_simps)
    next
      case False
      then show ?thesis using old d' by (auto simp: mp)
    qed
  qed
  have out: "outstanding_descs t ! q' = of_nat (card (owned_by ?own q'))" if "q' < NRF_WIFI_FMAC_AC_MAX" for q'
  proof -
    have "length (outstanding_descs s) = NRF_WIFI_FMAC_AC_MAX"
      and "outstanding_descs s ! q' = of_nat (card (owned_by own q'))"
      using assms(1) that by (simp_all add: desc_rel_def desc_setup_def)
    then show ?thesis
      using owned_by_upd [OF assms(1), of d q q'] owned_by_clear [OF assms(1), of d q q', symmetric] assms(5) that
      by (auto simp: ou nth_list_update split: if_splits)
  qed
  show ?thesis
    unfolding desc_rel_def r
    using su busy spare out assms(1,3,6,7) by (auto simp: desc_rel_def)
qed

lemma outstanding_put: "outstanding_add q n s = s\<lparr>outstanding_descs := (outstanding_descs s)[q := outstanding_descs s ! q + n]\<rparr>"
  by (simp add: outstanding_add_def)

lemma setup_facts:
  assumes "desc_rel s own"
  shows "0 < reserved_descs s" "reserved_descs s \<le> tokens s" "tokens s \<le> 32 * length (buf_pool_bmp s)" "desc_setup s"
  using assms by (simp_all add: desc_rel_def desc_setup_def)

text \<open>Taking a descriptor: the first free one of the category, else the first free spare one.\<close>

definition candidates :: "nat \<Rightarrow> fmac \<Rightarrow> nat list" where
  "candidates q s = map (\<lambda>cnt. q + NRF_WIFI_FMAC_AC_MAX * cnt) [0..<unat (num_tx_tokens_per_ac s)]
     @ [reserved_descs s..<tokens s]"

lemma candidates_bounds:
  assumes "desc_setup s" "q < NRF_WIFI_FMAC_AC_MAX" "c \<in> set (candidates q s)"
  shows "c < tokens s" "c < reserved_descs s \<Longrightarrow> c mod NRF_WIFI_FMAC_AC_MAX = q"
proof -
  have "q + 5 * k < reserved_descs s" if "k < unat (num_tx_tokens_per_ac s)" for k
    using that assms(2) by (simp add: reserved_descs_def)
  then have "q + 5 * k < tokens s" if "k < unat (num_tx_tokens_per_ac s)" for k
    using that assms(1) unfolding desc_setup_def by (meson less_le_trans)
  then show "c < tokens s" "c < reserved_descs s \<Longrightarrow> c mod NRF_WIFI_FMAC_AC_MAX = q"
    using assms(2,3) by (auto simp: candidates_def)
qed

lemma get_run:
  assumes "desc_rel s own" "q < NRF_WIFI_FMAC_AC_MAX"
  shows "\<exists>d t. tx_desc_get q s = Some (d, t) \<and>
    (case find (\<lambda>d. own d = None) (candidates q s) of
       Some c \<Rightarrow> d = c \<and> desc_put True d q s t
     | None \<Rightarrow> d = tokens s \<and> t = s)"
proof -
  let ?rs = "map (\<lambda>cnt. q + NRF_WIFI_FMAC_AC_MAX * cnt) [0..<unat (num_tx_tokens_per_ac s)]"
  let ?sp = "[reserved_descs s..<tokens s]"
  note su = setup_facts [OF assms(1)]
  have c: "c < tokens s" if "c \<in> set (candidates q s)" for c
    using candidates_bounds(1) [OF su(4) _ that] assms(2) by simp
  then have lt: "c < tokens s" if "c \<in> set ?rs \<or> c \<in> set ?sp" for c
    using that by (auto simp: candidates_def)
  have "desc_search ds (buf_pool_bmp s) = Some (find (\<lambda>d. own d = None) ds)"
    if "\<forall>d \<in> set ds. d < tokens s" for ds
  proof -
    have "\<forall>d \<in> set ds. d div 32 < length (buf_pool_bmp s)"
      using that su(3) by (auto simp: div_less_iff_less_mult)
    moreover have "find (\<lambda>d. \<not> bit (buf_pool_bmp s ! (d div 32)) (d mod 32)) ds = find (\<lambda>d. own d = None) ds"
      using assms(1) that by (intro find_cong) (auto simp: desc_rel_def desc_busy_def)
    ultimately show ?thesis by (simp add: search_result)
  qed
  then have s1: "desc_search ?rs (buf_pool_bmp s) = Some (find (\<lambda>d. own d = None) ?rs)"
    and s2: "desc_search ?sp (buf_pool_bmp s) = Some (find (\<lambda>d. own d = None) ?sp)"
    using lt by blast+
  have fa: "find P (xs @ ys) = (case find P xs of None \<Rightarrow> find P ys | r \<Rightarrow> r)" for P and xs ys :: "nat list"
    by (induction xs) auto
  show ?thesis
  proof (cases "find (\<lambda>d. own d = None) ?rs")
    case (Some d)
    then have "d \<in> set ?rs" by (auto simp: find_Some_iff)
    then have "d < reserved_descs s" using assms(2) by (auto simp: reserved_descs_def)
    then have "desc_put True d q s (outstanding_add q 1 (desc_mark d s))"
      by (simp add: desc_put_def outstanding_add_def desc_mark_def bmp_put_def)
    then show ?thesis using Some s1 by (simp add: tx_desc_get_def candidates_def fa)
  next
    case None
    show ?thesis
    proof (cases "find (\<lambda>d. own d = None) ?sp")
      case (Some d)
      then have d: "reserved_descs s \<le> d" "d < tokens s" by (auto simp: find_Some_iff)
      let ?u = "outstanding_add q 1 (desc_mark d s)"
      let ?t = "?u\<lparr>spare_desc_queue_map := set_bit (4 * (d - reserved_descs s) + q) (spare_desc_queue_map ?u)\<rparr>"
      have r: "reserved_descs ?u = reserved_descs s" "spare_desc_bit d q ?u = spare_desc_bit d q s"
        by (simp_all add: outstanding_add_def desc_mark_def reserved_descs_def spare_desc_bit_def)
      have "set_spare_desc_q_map d q ?u = Some ?t"
        using su(1) spare_bit [OF su(4) d] by (simp add: set_spare_desc_q_map_def r)
      moreover have "desc_put True d q s ?t"
        using d by (simp add: desc_put_def outstanding_add_def desc_mark_def bmp_put_def)
      ultimately show ?thesis
        using Some None s1 s2 by (simp add: tx_desc_get_def candidates_def fa tokens_def)
    next
      case n2: None
      then show ?thesis
        using None s1 s2 su(2) by (simp add: tx_desc_get_def candidates_def fa tokens_def max_absorb2)
    qed
  qed
qed

lemma free_run:
  assumes "desc_rel s own" "own d = Some q" "q < NRF_WIFI_FMAC_AC_MAX"
  shows "\<exists>t. tx_desc_free d q s = Some t \<and> desc_put False d q s t"
proof -
  note su = setup_facts [OF assms(1)]
  have d: "d < tokens s" using assms(1,2) by (auto simp: desc_rel_def) (metis leI option.distinct(1))
  have w: "nth_opt (buf_pool_bmp s) (d div 32) = Some (buf_pool_bmp s ! (d div 32))"
    using d su(3) by (simp add: nth_opt_def div_less_iff_less_mult)
  have b: "bit (buf_pool_bmp s ! (d div 32)) (d mod 32)"
    using assms(1,2) d by (simp add: desc_rel_def desc_busy_def)
  let ?u = "outstanding_add q (-1) (s\<lparr>buf_pool_bmp := (buf_pool_bmp s)[d div 32 := unset_bit (d mod 32) (buf_pool_bmp s ! (d div 32))]\<rparr>)"
  have r: "reserved_descs ?u = reserved_descs s" "spare_desc_bit d q ?u = spare_desc_bit d q s"
    by (simp_all add: outstanding_add_def reserved_descs_def spare_desc_bit_def)
  show ?thesis
  proof (cases "reserved_descs s \<le> d")
    case True
    then show ?thesis
      using w b su(1) spare_bit [OF su(4) True d]
      by (simp add: tx_desc_free_def r clear_spare_desc_q_map_def Let_def)
        (simp add: desc_put_def outstanding_add_def bmp_put_def True)
  next
    case False
    then show ?thesis
      using w b by (simp add: tx_desc_free_def r Let_def) (simp add: desc_put_def outstanding_add_def bmp_put_def)
  qed
qed

text \<open>A completed spare descriptor passes from one category to another.\<close>

lemma pass_run:
  assumes "desc_rel s own" "own d = Some q" "reserved_descs s \<le> d" "q' < 4" "q \<noteq> q'"
  shows "\<exists>t. do { s \<leftarrow> clear_spare_desc_q_map d q (outstanding_add q' 1 (outstanding_add q (-1) s));
      set_spare_desc_q_map d q' s } = Some t \<and> desc_rel t (own(d \<mapsto> q')) \<and> pkt_info t = pkt_info s"
proof -
  note su = setup_facts [OF assms(1)]
  have d: "d < tokens s" using assms(1,2) by (auto simp: desc_rel_def) (metis leI option.distinct(1))
  have q: "q < 4" using assms(1-3) by (auto simp: desc_rel_def)
  let ?b = "\<lambda>q. 4 * (d - reserved_descs s) + q"
  let ?u = "outstanding_add q' 1 (outstanding_add q (-1) s)"
  let ?t = "?u\<lparr>spare_desc_queue_map := set_bit (?b q') (unset_bit (?b q) (spare_desc_queue_map s))\<rparr>"
  have t: "do { s \<leftarrow> clear_spare_desc_q_map d q ?u; set_spare_desc_q_map d q' s } = Some ?t"
    using su(1) spare_bit [OF su(4) assms(3) d]
    by (simp add: clear_spare_desc_q_map_def set_spare_desc_q_map_def spare_desc_bit_def reserved_descs_def
        outstanding_add_def mult.commute)
  let ?m = "s\<lparr>buf_pool_bmp := bmp_put False d (buf_pool_bmp s),
    outstanding_descs := (outstanding_descs s)[q := outstanding_descs s ! q - 1],
    spare_desc_queue_map := unset_bit (?b q) (spare_desc_queue_map s)\<rparr>"
  have rm: "reserved_descs ?m = reserved_descs s" "tokens ?m = tokens s"
    by (simp_all add: reserved_descs_def tokens_def)
  have "desc_put False d q s ?m" using assms(3) by (simp add: desc_put_def)
  from desc_put_rel [OF assms(1) this d _ _ _ _] assms(2,3) q
  have m: "desc_rel ?m (own(d := None))" by simp
  have "bmp_put True d (bmp_put False d (buf_pool_bmp s)) = buf_pool_bmp s"
  proof -
    have l: "d div 32 < length (buf_pool_bmp s)" using d su(3) by (simp add: div_less_iff_less_mult)
    have "bit (buf_pool_bmp s ! (d div 32)) (d mod 32)"
      using assms(1,2) d by (simp add: desc_rel_def desc_busy_def)
    then have "set_bit (d mod 32) (unset_bit (d mod 32) (buf_pool_bmp s ! (d div 32))) = buf_pool_bmp s ! (d div 32)"
      by (intro bit_word_eqI) (auto simp: bit_simps)
    then show ?thesis using l by (simp add: bmp_put_def)
  qed
  moreover have "length (outstanding_descs s) = 5" using su(4) by (simp add: desc_setup_def)
  ultimately have "desc_put True d q' ?m ?t"
    using assms(3,5) by (simp add: desc_put_def outstanding_add_def rm)
  from desc_put_rel [OF m this] d assms(3,4) have "desc_rel ?t (own(d \<mapsto> q'))" by (simp add: rm)
  then show ?thesis using t by (simp add: outstanding_add_def)
qed

section \<open>What leaves the descriptors alone\<close>

definition desc_view :: "fmac \<Rightarrow> u8 \<times> u8 \<times> u32 list \<times> u32 list \<times> u32" where
  "desc_view s = (num_tx_tokens s, num_tx_tokens_per_ac s, buf_pool_bmp s, outstanding_descs s, spare_desc_queue_map s)"

lemma desc_view_rel: "desc_view t = desc_view s \<Longrightarrow> desc_rel t = desc_rel s"
  by (rule ext) (simp add: desc_view_def desc_rel_def desc_setup_def desc_busy_def tokens_def reserved_descs_def)

lemma desc_view_fields:
  "desc_view t = desc_view s \<Longrightarrow> tokens t = tokens s \<and> reserved_descs t = reserved_descs s \<and>
   spare_desc_queue_map t = spare_desc_queue_map s"
  by (simp add: desc_view_def tokens_def reserved_descs_def)

lemma desc_view_femit [simp]: "desc_view (femit e s) = desc_view s"
  by (simp add: desc_view_def femit_def)

lemma desc_view_pend [simp]: "desc_view (pend_put p a q s) = desc_view s"
  "desc_view (peer_put i pe s) = desc_view s"
  by (simp_all add: desc_view_def pend_put_def peer_put_def)

lemma desc_view_falloc: "falloc os x s = (ok, t) \<Longrightarrow> desc_view t = desc_view s"
  by (auto simp: falloc_def Let_def desc_view_def split: prod.splits)

lemma desc_view_on_hal: "on_hal f s = Some (r, t) \<Longrightarrow> desc_view t = desc_view s"
  by (auto simp: on_hal_def desc_view_def split: Option.bind_splits)

lemma desc_view_txq [simp]: "desc_view (txq_add os d b s) = desc_view s" "desc_view (pend_dequeue p a s) = desc_view s"
  by (simp_all add: txq_add_def pend_dequeue_def falloc_def osal_alloc_def Let_def desc_view_def femit_def pend_put_def)

lemma desc_view_pend_loop [simp]: "desc_view (pend_loop os d ac p f n q s) = desc_view s"
  by (induction q arbitrary: n s) (simp_all add: Let_def)

lemma desc_view_bmp: "update_pend_q_bmp os ac p s = Some (st, t) \<Longrightarrow> desc_view t = desc_view s"
  unfolding update_pend_q_bmp_def Let_def
  by (auto split: Option.bind_splits if_splits dest!: desc_view_on_hal)

lemma desc_view_upd [simp]: "desc_view (s\<lparr>pkt_info := x\<rparr>) = desc_view s"
  "desc_view (s\<lparr>curr_peer_opp := y\<rparr>) = desc_view s" "desc_view (s\<lparr>fmac_tx_info := z\<rparr>) = desc_view s"
  "desc_view (s\<lparr>send_pkt_coalesce_count := u\<rparr>) = desc_view s" "desc_view (s\<lparr>host_stats := v\<rparr>) = desc_view s"
  "desc_view (s\<lparr>wakeup_client_q := w\<rparr>) = desc_view s"
  by (simp_all add: desc_view_def)

lemma desc_view_finish: "collect_finish os d ac p s = Some (n, t) \<Longrightarrow> desc_view t = desc_view s"
  unfolding collect_finish_def Let_def
  by (auto split: Option.bind_splits if_splits dest!: desc_view_bmp)

lemma desc_view_wakeup: "wakeup_q_find ac is s = Some (p, t) \<Longrightarrow> desc_view t = desc_view s"
  by (induction ac "is" s rule: wakeup_q_find.induct) (auto simp: Let_def split: if_splits Option.bind_splits)

lemma desc_view_opp: "tx_curr_peer_opp_get ac s = Some (p, t) \<Longrightarrow> desc_view t = desc_view s"
  unfolding tx_curr_peer_opp_get_def get_peer_from_wakeup_q_def Let_def
  by (auto split: if_splits Option.bind_splits option.splits dest!: desc_view_wakeup)

lemma desc_view_collect: "tx_pending_collect os d ac s = Some (n, t) \<Longrightarrow> desc_view t = desc_view s"
  unfolding tx_pending_collect_def Let_def
  by (auto split: if_splits Option.bind_splits option.splits list.splits simp del: pend_loop.simps
      dest!: desc_view_opp desc_view_finish)

lemma desc_view_unmap: "tx_unmap_loop d fs s = Some (st, t) \<Longrightarrow> desc_view t = desc_view s"
  by (induction fs arbitrary: s) (auto simp: Let_def split: Option.bind_splits if_splits dest!: desc_view_on_hal)

lemma desc_view_prep: "tx_cmd_prep_loop os d i bs s = Some (st, infos, t) \<Longrightarrow> desc_view t = desc_view s"
  by (induction bs arbitrary: i s infos)
    (fastforce simp: Let_def split: Option.bind_splits if_splits dest!: desc_view_on_hal)+

lemma desc_view_foldl:
  "(\<And>s x. desc_view (f s x) = desc_view s) \<Longrightarrow> desc_view (foldl f s xs) = desc_view s"
  by (induction xs arbitrary: s) simp_all

lemma desc_view_frees [simp]: "desc_view (nbufs_free bs s) = desc_view s" "desc_view (wakeup_q_del p s) = desc_view s"
  by (simp_all add: nbufs_free_def wakeup_q_del_def desc_view_foldl)

lemma desc_view_prepare: "tx_cmd_prepare os d q p s = Some (st, body, t) \<Longrightarrow> desc_view t = desc_view s"
  unfolding tx_cmd_prepare_def Let_def
  by (auto split: Option.bind_splits if_splits prod.splits dest!: desc_view_prep)

lemma desc_view_init: "tx_cmd_init os d p s = Some (st, t) \<Longrightarrow> desc_view t = desc_view s"
  unfolding tx_cmd_init_def Let_def umac_cmd_alloc_def
  by (auto split: Option.bind_splits if_splits prod.splits dest!: desc_view_prepare desc_view_falloc desc_view_on_hal)

lemma desc_view_process: "tx_process os b ac p s = Some (st, t) \<Longrightarrow> desc_view t = desc_view s"
  unfolding tx_process_def tx_enqueue_def Let_def
  by (auto split: Option.bind_splits if_splits prod.splits list.splits dest!: desc_view_bmp desc_view_falloc)

section \<open>Completion\<close>

lemma nibble_bits:
  fixes x :: u32
  shows "bit (x AND 0xF) 0 = bit x 0" "bit (x AND 0xF) (Suc 0) = bit x (Suc 0)" "bit (x AND 0xF) 2 = bit x 2"
    "bit (x AND 0xF) 3 = bit x 3"
  by (simp_all add: bit_and_iff)

lemma spare_queue_own:
  assumes "desc_rel s own" "own d = Some q" "reserved_descs s \<le> d"
  shows "get_spare_desc_q_map d s = Some (drop_bit (4 * (d - reserved_descs s)) (spare_desc_queue_map s) AND 0xF)"
    "spare_queue (drop_bit (4 * (d - reserved_descs s)) (spare_desc_queue_map s) AND 0xF) = q" "q < 4"
proof -
  note su = setup_facts [OF assms(1)]
  have d: "d < tokens s" using assms(1,2) by (auto simp: desc_rel_def) (metis leI option.distinct(1))
  show "get_spare_desc_q_map d s = Some (drop_bit (4 * (d - reserved_descs s)) (spare_desc_queue_map s) AND 0xF)"
    using su(1) spare_bit [OF su(4) assms(3) d, of 0] by (simp add: get_spare_desc_q_map_def)
  let ?m = "drop_bit (4 * (d - reserved_descs s)) (spare_desc_queue_map s) AND 0xF"
  have own: "bit (spare_desc_queue_map s) (4 * (d - reserved_descs s) + k) = (own d = Some k)" if "k < 4" for k
    using assms(1,3) d that unfolding desc_rel_def by blast
  have b: "bit ?m 0 = (0 = q)" "bit ?m (Suc 0) = (1 = q)" "bit ?m 2 = (2 = q)" "bit ?m 3 = (3 = q)"
    using own [of 0] own [of 1] own [of 2] own [of 3] assms(2) by (auto simp: nibble_bits bit_drop_bit_eq)
  show "q < 4" using assms by (auto simp: desc_rel_def)
  then show "spare_queue ?m = q"
    by (auto simp: spare_queue_def b)
qed

lemma req_free_loop_desc:
  assumes "desc_rel s own" "own d = Some q"
    and "\<forall>ac \<in> set acs. ac = q \<or> (ac < 4 \<and> reserved_descs s \<le> d)"
    and "req_free_loop os d q acs s = Some (n, t)"
  shows "\<exists>q'. desc_rel t (own(d \<mapsto> q')) \<and> (n = 0 \<longrightarrow> q' = q)"
  using assms
proof (induction acs arbitrary: s)
  case Nil
  moreover have "own(d \<mapsto> q) = own" using Nil.prems(2) by (simp add: fun_upd_idem)
  ultimately show ?case by (intro exI [of _ q]) simp
next
  case (Cons ac acs)
  obtain k u where k: "tx_pending_collect os d ac s = Some (k, u)"
    using Cons.prems(4) by (auto split: Option.bind_splits)
  have v: "desc_view u = desc_view s" by (rule desc_view_collect [OF k])
  have ru: "desc_rel u own" using Cons.prems(1) desc_view_rel [OF v] by simp
  have re: "reserved_descs u = reserved_descs s" using desc_view_fields [OF v] by simp
  show ?case
  proof (cases "k = 0")
    case True
    then have n: "req_free_loop os d q acs u = Some (n, t)" using Cons.prems(4) k by simp
    show ?thesis by (rule Cons.IH [OF ru Cons.prems(2) _ n]) (use Cons.prems(3) re in simp)
  next
    case False
    show ?thesis
    proof (cases "q = ac")
      case True
      then have "n = k" "t = u" using Cons.prems(4) k False by simp_all
      moreover have "own(d \<mapsto> q) = own" using Cons.prems(2) by (simp add: fun_upd_idem)
      ultimately show ?thesis using ru by metis
    next
      case q: False
      then have "reserved_descs u \<le> d" "ac < 4" using Cons.prems(3) re by auto
      from pass_run [OF ru Cons.prems(2) this q] obtain w where
        w: "do { s \<leftarrow> clear_spare_desc_q_map d q (outstanding_add ac 1 (outstanding_add q (-1) u));
           set_spare_desc_q_map d ac s } = Some w" "desc_rel w (own(d \<mapsto> ac))" by blast
      have "do { s \<leftarrow> clear_spare_desc_q_map d q (outstanding_add ac 1 (outstanding_add q (-1) u));
           s \<leftarrow> set_spare_desc_q_map d ac s; Some (k, s) } = Some (k, w)"
        using w(1) by (cases "clear_spare_desc_q_map d q (outstanding_add ac 1 (outstanding_add q (-1) u))") simp_all
      then have "n = k" "t = w" using Cons.prems(4) k False q by (simp_all add: Let_def)
      then show ?thesis using w(2) False by blast
    qed
  qed
qed

lemma tokens_own: "desc_rel s own \<Longrightarrow> own d = Some q \<Longrightarrow> d < tokens s"
  unfolding desc_rel_def by (metis leI option.distinct(1))

lemma queue_own:
  assumes "desc_rel s own" "own d = Some q"
  shows "q < NRF_WIFI_FMAC_AC_MAX" "d < reserved_descs s \<Longrightarrow> q = d mod NRF_WIFI_FMAC_AC_MAX"
    "reserved_descs s \<le> d \<Longrightarrow> q < 4"
proof -
  show r: "q = d mod NRF_WIFI_FMAC_AC_MAX" if "d < reserved_descs s"
    using assms that unfolding desc_rel_def by blast
  show l: "q < 4" if "reserved_descs s \<le> d"
    using assms that unfolding desc_rel_def by blast
  show "q < NRF_WIFI_FMAC_AC_MAX" using r l by (cases "d < reserved_descs s") simp_all
qed

lemma desc_free_rel:
  assumes "desc_rel s own" "own d = Some q" "tx_desc_free d q s = Some t"
  shows "desc_rel t (own(d := None))"
proof -
  note q = queue_own [OF assms(1,2)]
  have "desc_put False d q s t" using free_run [OF assms(1,2) q(1)] assms(3) by auto
  from desc_put_rel [OF assms(1) this tokens_own [OF assms(1,2)] q(1)] show ?thesis
    using assms(2) q(2,3) by simp
qed

lemma req_free_eq:
  assumes "desc_rel s own" "own d = Some q"
  shows "tx_buff_req_free os d s = do {
     (n, t) \<leftarrow> req_free_loop os d q (if d < reserved_descs s then [q] else [3, 2, 1, 0]) s;
     if n \<noteq> 0 then Some (n, t) else do { t \<leftarrow> tx_desc_free d q t; Some (0, t) } }"
proof (cases "d < reserved_descs s")
  case True
  then show ?thesis using queue_own(2) [OF assms True]
    by (simp add: tx_buff_req_free_def del: req_free_loop.simps cong: if_cong)
next
  case False
  then show ?thesis using spare_queue_own(1,2) [OF assms]
    by (simp add: tx_buff_req_free_def del: req_free_loop.simps)
qed

lemma req_free_rel:
  assumes "desc_rel s own" "own d = Some q" "tx_buff_req_free os d s = Some (n, t)"
  shows "\<exists>x. desc_rel t (own(d := x)) \<and> (x = None) = (n = 0)"
proof -
  let ?acs = "if d < reserved_descs s then [q] else [3, 2, 1, 0 :: nat]"
  obtain k u where k: "req_free_loop os d q ?acs s = Some (k, u)"
    and t: "(if k \<noteq> 0 then Some (k, u) else do { t \<leftarrow> tx_desc_free d q u; Some (0, t) }) = Some (n, t)"
    using assms(3) unfolding req_free_eq [OF assms(1,2)] by (auto elim!: bind2E)
  have "\<forall>ac \<in> set ?acs. ac = q \<or> (ac < 4 \<and> reserved_descs s \<le> d)" by auto
  from req_free_loop_desc [OF assms(1,2) this k] obtain q' where
    u: "desc_rel u (own(d \<mapsto> q'))" "k = 0 \<longrightarrow> q' = q" by blast
  show ?thesis
  proof (cases "k = 0")
    case True
    then obtain w where w: "tx_desc_free d q u = Some w" "n = 0" "t = w"
      using t by (auto split: Option.bind_splits)
    have "desc_rel w ((own(d \<mapsto> q))(d := None))"
      by (rule desc_free_rel [OF _ _ w(1), of _ ]) (use u True in simp_all)
    then show ?thesis using w by (intro exI [of _ None]) simp
  next
    case False
    then show ?thesis using t u(1) by (intro exI [of _ "Some q'"]) auto
  qed
qed

text \<open>The whole operations, for every state they meet.\<close>

lemma desc_view_desc_rel: "desc_rel s own \<Longrightarrow> desc_view t = desc_view s \<Longrightarrow> desc_rel t own"
  using desc_view_rel [of t s] by simp

lemma pending_process_rel:
  assumes "desc_rel s own" "own d = Some q" "tx_pending_process os d q s = Some (st, t)"
  shows "\<exists>own'. desc_rel t own'"
proof -
  obtain n u where u: "tx_pending_collect os d q s = Some (n, u)"
    and t: "(if n \<noteq> 0 then tx_cmd_init os d (nat (pkt_peer_id (pkt_info u ! d))) u
       else do { s \<leftarrow> tx_desc_free d q u; Some (SUCCESS, s) }) = Some (st, t)"
    using assms(3) unfolding tx_pending_process_def by (auto elim!: bind2E)
  have r: "desc_rel u own" by (rule desc_view_desc_rel [OF assms(1) desc_view_collect [OF u]])
  show ?thesis
  proof (cases "n = 0")
    case True
    then have "tx_desc_free d q u = Some t" using t by (auto split: Option.bind_splits)
    from desc_free_rel [OF r assms(2) this] show ?thesis by blast
  next
    case False
    then have "desc_view t = desc_view u" using t desc_view_init by simp
    from desc_view_desc_rel [OF r this] show ?thesis by blast
  qed
qed

lemma desc_get_cases:
  assumes "desc_rel s own" "q < 4" "tx_desc_get q s = Some (d, t)"
  obtains "d = tokens s" "t = s"
  | "d < tokens s" "own d = None" "desc_put True d q s t" "desc_rel t (own(d \<mapsto> q))"
proof -
  obtain d' t' where "tx_desc_get q s = Some (d', t')"
    and g: "case find (\<lambda>d. own d = None) (candidates q s) of
       Some c \<Rightarrow> d' = c \<and> desc_put True d' q s t' | None \<Rightarrow> d' = tokens s \<and> t' = s"
    using get_run [OF assms(1), of q] assms(2) by auto
  then have e: "d' = d" "t' = t" using assms(3) by simp_all
  show thesis
  proof (cases "find (\<lambda>d. own d = None) (candidates q s)")
    case None
    then show thesis using that(1) g e by simp
  next
    case (Some c)
    then have p: "desc_put True d q s t" and c: "find (\<lambda>d. own d = None) (candidates q s) = Some d"
      using g e by auto
    from c have d: "own d = None" "d \<in> set (candidates q s)" by (auto simp: find_Some_iff)
    note b = candidates_bounds [OF setup_facts(4) [OF assms(1)] _ d(2)]
    have "desc_rel t (own(d := if True then Some q else None))"
      by (rule desc_put_rel [OF assms(1) p]) (use b assms(2) d(1) in auto)
    then show thesis using that(2) b(1) d(1) p assms(2) by simp
  qed
qed

lemma tx_locked_rel:
  assumes "desc_rel s own" "q < 4" "tx_locked os b q p s = Some (st, t)"
  shows "\<exists>own'. desc_rel t own'"
proof (cases "num_tx_tokens s = 0")
  case False
  obtain st1 u where u: "tx_process os b q p s = Some (st1, u)"
    using assms(3) False by (auto simp: tx_locked_def split: Option.bind_splits)
  have r: "desc_rel u own" by (rule desc_view_desc_rel [OF assms(1) desc_view_process [OF u]])
  show ?thesis
  proof (cases "st1 = NRF_WIFI_FMAC_TX_STATUS_SUCCESS \<and> can_xmit u b")
    case True
    obtain d w where w: "tx_desc_get q u = Some (d, w)" using get_run [OF r, of q] assms(2) by auto
    have l: "(if d = tokens w then Some (NRF_WIFI_FMAC_TX_STATUS_QUEUED, w)
        else do { (st, s) \<leftarrow> tx_pending_process os d q w; Some (tx_status_of st, s) }) = Some (st, t)"
      using assms(3) False u w True by (simp add: tx_locked_def tokens_def)
    from r assms(2) w show ?thesis
    proof (cases rule: desc_get_cases)
      case 1
      then show ?thesis using l r by auto
    next
      case 2
      then have "d \<noteq> tokens w" by (simp add: desc_put_def tokens_def)
      then obtain st2 where "tx_pending_process os d q w = Some (st2, t)"
        using l by (auto split: Option.bind_splits)
      from pending_process_rel [OF 2(4) _ this] show ?thesis by simp
    qed
  next
    case f: False
    then have "t = u" using assms(3) False u by (auto simp: tx_locked_def split: if_splits)
    then show ?thesis using r by blast
  qed
qed (use assms in \<open>auto simp: tx_locked_def\<close>)

text \<open>A frame to a peer or to nobody; frames to the group of peers use the category MC.\<close>

definition unicast :: "os \<Rightarrow> nat \<Rightarrow> nbuf \<Rightarrow> fmac \<Rightarrow> bool" where
  "unicast os ifi b s = (\<forall>v peer. vif_at s ifi = Some v \<longrightarrow> xmit_target os v b s \<noteq> Some (peer, NRF_WIFI_FMAC_AC_MC))"

lemma target_category:
  "xmit_target os v b s = Some (peer, ac) \<Longrightarrow> ac \<noteq> NRF_WIFI_FMAC_AC_MC \<Longrightarrow> ac < 4"
  using get_ac_less [of "nrf_wifi_get_tid os b" "nrf_wifi_util_get_ra os v b"]
  by (auto simp: xmit_target_def Let_def split: if_splits)

lemma start_xmit_rel:
  assumes "desc_rel s own" "unicast os ifi b s" "nrf_wifi_fmac_start_xmit os ifi b s = Some (st, t)"
  shows "\<exists>own'. desc_rel t own'"
proof -
  consider (drop) "t = femit (IoNbufFree (nb_ptr b)) s"
    | (tx) v peer ac st1 u where "vif_at s ifi = Some v" "xmit_target os v b s = Some (peer, ac)"
        "nrf_wifi_fmac_tx os b ac peer s = Some (st1, u)" "t = u \<or> t = femit (IoNbufFree (nb_ptr b)) u"
    using assms(3) by (auto simp: nrf_wifi_fmac_start_xmit_def split: Option.bind_splits if_splits option.splits)
  then show ?thesis
  proof cases
    case drop
    then show ?thesis using desc_view_desc_rel [OF assms(1), of t] by auto
  next
    case tx
    have ac: "ac < 4" using tx(1,2) assms(2) target_category by (auto simp: unicast_def)
    obtain st2 w where w: "tx_locked os b ac peer (femit (IoLock LOCK_TX) s) = Some (st2, w)"
        "u = femit (IoUnlock LOCK_TX) w"
      using tx(3) by (auto simp: nrf_wifi_fmac_tx_def split: Option.bind_splits)
    have "desc_rel (femit (IoLock LOCK_TX) s) own" by (rule desc_view_desc_rel [OF assms(1)]) simp
    from tx_locked_rel [OF this ac w(1)] obtain own' where "desc_rel w own'" by blast
    then show ?thesis using tx(4) w(2) desc_view_desc_rel [of w own' t] by auto
  qed
qed

lemma tx_done_rel:
  assumes "desc_rel s own" "own (unat d) \<noteq> None" "nrf_wifi_fmac_tx_done_event_process os d s = Some (st, t)"
  shows "\<exists>own'. desc_rel t own'"
proof (cases "tx_lock s")
  case True
  then obtain u where u: "tx_done_process os d (femit (IoLock LOCK_TX) s) = Some (st, u)"
    and t: "t = femit (IoUnlock LOCK_TX) u"
    using assms(3) by (auto simp: nrf_wifi_fmac_tx_done_event_process_def split: Option.bind_splits)
  let ?s = "femit (IoLock LOCK_TX) s"
  have r: "desc_rel ?s own" by (rule desc_view_desc_rel [OF assms(1)]) simp
  have "\<exists>own'. desc_rel u own'"
  proof (cases "num_tx_tokens ?s < d")
    case False
    obtain n where n: "nth_opt (send_pkt_coalesce_count ?s) (unat d) = Some n"
      using u False by (auto simp: tx_done_process_def Let_def split: Option.bind_splits)
    obtain st1 v where v: "tx_unmap_loop (unat d) [0..<unat n] ?s = Some (st1, v)"
      using u False n by (auto simp: tx_done_process_def Let_def split: Option.bind_splits)
    have rv: "desc_rel v own" by (rule desc_view_desc_rel [OF r desc_view_unmap [OF v]])
    show ?thesis
    proof (cases "st1 = SUCCESS")
      case True
      obtain k w where k: "tx_buff_req_free os (unat d) v = Some (k, w)"
        and f: "(if k \<noteq> 0 \<and> twt_sleep_status w = NRF_WIFI_FMAC_TWT_STATE_AWAKE
           then tx_cmd_init os (unat d) (nat (pkt_peer_id (pkt_info w ! unat d))) w else Some (SUCCESS, w)) = Some (st, u)"
        using u False n v True by (auto simp: tx_done_process_def Let_def split: Option.bind_splits)
      obtain q where "own (unat d) = Some q" using assms(2) by blast
      from req_free_rel [OF rv this k] obtain own' where w: "desc_rel w own'" by blast
      have "desc_view u = desc_view w" using f desc_view_init by (auto split: if_splits)
      then show ?thesis using desc_view_desc_rel [OF w] by blast
    qed (use u False n v rv in \<open>auto simp: tx_done_process_def Let_def\<close>)
  qed (use u r in \<open>auto simp: tx_done_process_def\<close>)
  then show ?thesis unfolding t using desc_view_desc_rel [of u _ "femit (IoUnlock LOCK_TX) u"] by auto
qed (use assms in \<open>auto simp: nrf_wifi_fmac_tx_done_event_process_def\<close>)

lemma only_hal_view: "only_hal s t \<Longrightarrow> desc_view t = desc_view s"
  by (auto simp: desc_view_def elim!: only_halE)

lemma desc_view_if_type [simp]:
  "desc_view (nrf_wifi_fmac_vif_incr_if_type ty s) = desc_view s"
  "desc_view (nrf_wifi_fmac_vif_decr_if_type ty s) = desc_view s"
  "desc_view (s\<lparr>vif_ctx := vs\<rparr>) = desc_view s"
  by (simp_all add: desc_view_def nrf_wifi_fmac_vif_incr_if_type_def nrf_wifi_fmac_vif_decr_if_type_def)

lemma vif_op_view: "vif_op os s t \<Longrightarrow> desc_view t = desc_view s"
  by (erule vif_op.cases)
    (auto simp: nrf_wifi_sys_fmac_add_vif_def nrf_wifi_sys_fmac_chg_vif_def nrf_wifi_sys_fmac_del_vif_def
      vif_commit_def add_vif_err_def del_vif_free_def nrf_wifi_fmac_vif_update_if_type_def Let_def
      split: if_splits prod.splits Option.bind_splits dest!: desc_view_falloc only_hal_cmd_cfg [THEN only_hal_view])

lemma mac_write_view: "peer_mac_write os ifi i s = Some t \<Longrightarrow> desc_view t = desc_view s"
  by (auto dest!: mac_write_only_hal only_hal_view)

lemma flush_loop_view: "peers_flush_loop os ifi is s = Some t \<Longrightarrow> desc_view t = desc_view s"
  by (induction "is" arbitrary: s) (auto simp: Let_def split: if_splits Option.bind_splits dest!: mac_write_view)

lemma peer_op_view: "peer_op os s t \<Longrightarrow> desc_view t = desc_view s"
  by (erule peer_op.cases)
    (auto simp: nrf_wifi_fmac_peer_add_def peer_slot_add_def nrf_wifi_fmac_peer_remove_def
      nrf_wifi_fmac_peers_flush_def Let_def
      split: if_splits option.splits Option.bind_splits dest!: mac_write_view flush_loop_view)

section \<open>The state determines the owners\<close>

text \<open>What the tables of the code say of a descriptor.\<close>

definition owner :: "fmac \<Rightarrow> nat \<Rightarrow> nat option" where
  "owner s d = (if tokens s \<le> d \<or> \<not> desc_busy s d then None
     else if d < reserved_descs s then Some (d mod NRF_WIFI_FMAC_AC_MAX)
     else map_option spare_queue (get_spare_desc_q_map d s))"

lemma owner_rel:
  assumes "desc_rel s own"
  shows "owner s = own"
proof (rule ext)
  fix d
  show "owner s d = own d"
  proof (cases "own d")
    case None
    then have "tokens s \<le> d \<or> \<not> desc_busy s d" using assms unfolding desc_rel_def by (metis not_le)
    then show ?thesis using None by (simp add: owner_def)
  next
    case (Some q)
    have d: "d < tokens s" by (rule tokens_own [OF assms Some])
    then have "desc_busy s d" using assms Some by (simp add: desc_rel_def)
    then show ?thesis
      using Some d queue_own(2) [OF assms Some] spare_queue_own(1,2) [OF assms Some]
      by (cases "d < reserved_descs s") (auto simp: owner_def)
  qed
qed

text \<open>The set-up as \<open>tx_init\<close> leaves it: no descriptor is in use.\<close>

definition desc_idle :: "fmac \<Rightarrow> bool" where
  "desc_idle s = (desc_setup s \<and> (\<forall>w \<in> set (buf_pool_bmp s). w = 0) \<and> spare_desc_queue_map s = 0 \<and>
     outstanding_descs s = replicate NRF_WIFI_FMAC_AC_MAX 0)"

lemma idle_rel: "desc_idle s \<Longrightarrow> desc_rel s Map.empty"
proof -
  assume i: "desc_idle s"
  have "\<not> desc_busy s d" if "d < tokens s" for d
  proof -
    have "d div 32 < length (buf_pool_bmp s)"
      using i that by (simp add: desc_idle_def desc_setup_def div_less_iff_less_mult)
    then have "buf_pool_bmp s ! (d div 32) = 0" using i nth_mem unfolding desc_idle_def by blast
    then show ?thesis by (simp add: desc_busy_def)
  qed
  then show ?thesis using i by (simp add: desc_rel_def desc_idle_def owned_by_def)
qed

text \<open>A history with frames to single peers and completions of descriptors that are in use.\<close>

inductive desc_history :: "os \<Rightarrow> fmac \<Rightarrow> fmac \<Rightarrow> bool" for os s where
  idle: "desc_history os s s"
| send: "desc_history os s t \<Longrightarrow> unicast os ifi b t \<Longrightarrow>
    nrf_wifi_fmac_start_xmit os ifi b t = Some (st, u) \<Longrightarrow> desc_history os s u"
| complete: "desc_history os s t \<Longrightarrow> owner t (unat d) \<noteq> None \<Longrightarrow>
    nrf_wifi_fmac_tx_done_event_process os d t = Some (st, u) \<Longrightarrow> desc_history os s u"
| vif_change: "desc_history os s t \<Longrightarrow> vif_op os t u \<Longrightarrow> desc_history os s u"
| peer_change: "desc_history os s t \<Longrightarrow> peer_op os t u \<Longrightarrow> desc_history os s u"

lemma history_rel: "desc_history os s t \<Longrightarrow> desc_idle s \<Longrightarrow> \<exists>own. desc_rel t own"
proof (induction rule: desc_history.induct)
  case idle
  then show ?case using idle_rel by blast
next
  case (send t ifi b st u)
  then show ?case using start_xmit_rel by blast
next
  case (complete t d st u)
  then obtain own where own: "desc_rel t own" by blast
  from tx_done_rel [OF own _ complete.hyps(3)] complete.hyps(2) show ?case by (simp add: owner_rel [OF own])
next
  case (vif_change t u)
  then show ?case using desc_view_desc_rel vif_op_view by blast
next
  case (peer_change t u)
  then show ?case using desc_view_desc_rel peer_op_view by blast
qed

lemma unat_less_256: "unat (x :: u8) < 256"
  using unsigned_less [of x] by simp

lemma reserved_share: "card {d. d < n * 5 \<and> d mod 5 = (q::nat)} \<le> n"
proof -
  have "{d. d < n * 5 \<and> d mod 5 = q} \<subseteq> (\<lambda>k. 5 * k + q) ` {..<n}"
  proof
    fix d assume "d \<in> {d. d < n * 5 \<and> d mod 5 = q}"
    then have "d = 5 * (d div 5) + q" "d div 5 < n" by (auto simp: div_less_iff_less_mult)
    then show "d \<in> (\<lambda>k. 5 * k + q) ` {..<n}" by blast
  qed
  from card_mono [OF _ this] card_image_le [of "{..<n}" "\<lambda>k. 5 * k + q"] show ?thesis by simp
qed

lemma owned_by_share:
  assumes "desc_rel s own"
  shows "card (owned_by own q) \<le> unat (num_tx_tokens_per_ac s) + (tokens s - reserved_descs s)"
proof -
  let ?A = "{d. d < unat (num_tx_tokens_per_ac s) * 5 \<and> d mod 5 = q}"
  have "owned_by own q \<subseteq> ?A \<union> {reserved_descs s..<tokens s}"
    using tokens_own [OF assms] queue_own(2) [OF assms]
    by (auto simp: owned_by_def reserved_descs_def not_less)
  from card_mono [OF _ this] have "card (owned_by own q) \<le> card (?A \<union> {reserved_descs s..<tokens s})" by simp
  also have "\<dots> \<le> card ?A + card {reserved_descs s..<tokens s}" by (rule card_Un_le)
  finally show ?thesis using reserved_share [of "unat (num_tx_tokens_per_ac s)" q] by simp
qed

section \<open>Properties\<close>

text \<open>C8 The accounting of the transmit descriptors. From an idle transmit path, after any history
  of frames to peers, completions and changes of interfaces and peers, the counter of every
  category is the number of the descriptors it owns, no category owns more than its reserved
  descriptors and the spare ones, and a reserved descriptor is owned by its category only.\<close>

theorem desc_accounting:
  assumes "desc_idle s" "desc_history os s t" "q < NRF_WIFI_FMAC_AC_MAX"
  shows "unat (outstanding_descs t ! q) = card {d. owner t d = Some q} \<and>
    card {d. owner t d = Some q} \<le> unat (num_tx_tokens_per_ac t) + (unat (num_tx_tokens t) - reserved_descs t) \<and>
    (\<forall>d<reserved_descs t. owner t d \<in> {None, Some (d mod NRF_WIFI_FMAC_AC_MAX)})"
proof -
  obtain own where own: "desc_rel t own" using history_rel [OF assms(2,1)] by blast
  note b = owned_by_share [OF own, of q]
  have "unat (num_tx_tokens_per_ac t) < 256" "tokens t < 256"
    using unat_less_256 by (simp_all add: tokens_def)
  then have "card (owned_by own q) < 2 ^ 32" using b by simp
  then have "unat (outstanding_descs t ! q) = card (owned_by own q)"
    using own assms(3) by (simp add: desc_rel_def unat_of_nat_small)
  moreover have "own d \<in> {None, Some (d mod NRF_WIFI_FMAC_AC_MAX)}" if "d < reserved_descs t" for d
    using queue_own(2) [OF own _ that] by (cases "own d") auto
  ultimately show ?thesis using b by (simp add: owner_rel [OF own] owned_by_def tokens_def)
qed

lemma idle_mapped: "desc_idle tx_demo_mapped"
  by (simp add: desc_idle_def desc_setup_def tokens_def reserved_descs_def tx_demo_mapped_def tx_demo_def
    fmac_demo_simps)
    (simp add: numeral_eq_Suc)

theorem desc_accounting_witness:
  "\<exists>t. nrf_wifi_fmac_start_xmit demo_os 0 ip_frame tx_demo_mapped = Some (FAIL, t) \<and>
    unat (outstanding_descs t ! 1) = card {d. owner t d = Some 1}"
proof -
  obtain t where t: "nrf_wifi_fmac_start_xmit demo_os 0 ip_frame tx_demo_mapped = Some (FAIL, t)"
    using xmit_mapped_fails by blast
  have "unicast demo_os 0 ip_frame tx_demo_mapped"
    using target_demo_mapped vif_demo by (simp add: unicast_def)
  from desc_history.send [OF desc_history.idle this t] have "desc_history demo_os tx_demo_mapped t" .
  from desc_accounting [OF idle_mapped this, of 1] t show ?thesis by auto
qed

text \<open>A frame for the group of peers that takes a spare descriptor. The map of the spare
  descriptors has four bits for each of them and the category MC is number 4: its bit is the one
  of BK for the next descriptor. So the completion takes the descriptor for one of BK; freeing it
  takes one off the counter of BK, which may be 0, and the counter of MC is never lowered.\<close>

theorem mc_spare_alias:
  assumes "desc_rel s own" "\<forall>d<reserved_descs s. d mod NRF_WIFI_FMAC_AC_MAX = NRF_WIFI_FMAC_AC_MC \<longrightarrow> own d \<noteq> None"
    and "tx_desc_get NRF_WIFI_FMAC_AC_MC s = Some (d, t)" "d < unat (num_tx_tokens s)"
  shows "reserved_descs s \<le> d \<and>
    outstanding_descs t ! NRF_WIFI_FMAC_AC_MC = outstanding_descs s ! NRF_WIFI_FMAC_AC_MC + 1 \<and>
    (d - reserved_descs s < 7 \<longrightarrow>
      bit (spare_desc_queue_map t) (4 * (d + 1 - reserved_descs s) + NRF_WIFI_FMAC_AC_BK)) \<and>
    owner t d = Some NRF_WIFI_FMAC_AC_BK \<and>
    (\<exists>u. tx_desc_free d NRF_WIFI_FMAC_AC_BK t = Some u \<and> \<not> desc_busy u d \<and>
      outstanding_descs u ! NRF_WIFI_FMAC_AC_BK = outstanding_descs s ! NRF_WIFI_FMAC_AC_BK - 1 \<and>
      outstanding_descs u ! NRF_WIFI_FMAC_AC_MC = outstanding_descs s ! NRF_WIFI_FMAC_AC_MC + 1)"
proof -
  obtain d' t' where "tx_desc_get NRF_WIFI_FMAC_AC_MC s = Some (d', t')"
    and g: "case find (\<lambda>d. own d = None) (candidates NRF_WIFI_FMAC_AC_MC s) of
       Some c \<Rightarrow> d' = c \<and> desc_put True d' NRF_WIFI_FMAC_AC_MC s t' | None \<Rightarrow> d' = tokens s \<and> t' = s"
    using get_run [OF assms(1), of NRF_WIFI_FMAC_AC_MC] by auto
  then have c: "find (\<lambda>d. own d = None) (candidates NRF_WIFI_FMAC_AC_MC s) = Some d" "desc_put True d NRF_WIFI_FMAC_AC_MC s t"
    using assms(3,4) by (auto simp: tokens_def split: option.splits)
  then have d: "own d = None" "d \<in> set (candidates NRF_WIFI_FMAC_AC_MC s)" by (auto simp: find_Some_iff)
  note su = setup_facts [OF assms(1)]
  note b = candidates_bounds [OF su(4) _ d(2)]
  have r: "reserved_descs s \<le> d" using assms(2) d(1) b(2) by (cases "reserved_descs s \<le> d") (auto simp: not_le)
  let ?k = "4 * (d - reserved_descs s)"
  have l: "length (outstanding_descs s) = 5" "d < 32 * length (buf_pool_bmp s)" "d < tokens s"
    using su(3,4) assms(4) by (simp_all add: desc_setup_def tokens_def)
  have p: "tokens t = tokens s" "reserved_descs t = reserved_descs s" "buf_pool_bmp t = bmp_put True d (buf_pool_bmp s)"
      "outstanding_descs t = (outstanding_descs s)[4 := outstanding_descs s ! 4 + 1]"
      "spare_desc_queue_map t = set_bit (?k + 4) (spare_desc_queue_map s)"
    using c(2) r by (simp_all add: desc_put_def tokens_def reserved_descs_def)
  have "desc_setup t" using su(4) by (simp add: desc_setup_def p bmp_put_def)
  then have sb: "spare_desc_bit d q t = ?k + q" for q using spare_bit [of t d q] r l(3) p by simp
  have busy: "desc_busy t d" using bmp_put_busy [OF l(2,2)] by (simp add: desc_busy_def p)
  have "bit (spare_desc_queue_map s) (?k + q) = (own d = Some q)" if "q < 4" for q
    using assms(1) r l(3) that unfolding desc_rel_def by blast
  then have nib: "\<not> bit (spare_desc_queue_map t) (?k + q)" if "q < 4" for q
    using that d(1) by (simp add: p bit_simps)
  let ?m = "drop_bit ?k (spare_desc_queue_map t) AND 0xF"
  have "spare_queue ?m = 0"
    using nib [of 0] nib [of 1] nib [of 2] nib [of 3] by (simp add: spare_queue_def nibble_bits bit_drop_bit_eq)
  moreover have "get_spare_desc_q_map d t = Some ?m"
    using su(1) sb [of 0] by (simp add: get_spare_desc_q_map_def p)
  ultimately have ow: "owner t d = Some 0" using busy r l(3) by (simp add: owner_def p)
  have w: "d div 32 < length (buf_pool_bmp t)" using l(2) by (simp add: p bmp_put_def div_less_iff_less_mult)
  let ?u = "outstanding_add 0 (-1) (t\<lparr>buf_pool_bmp := bmp_put False d (buf_pool_bmp t)\<rparr>)"
  let ?v = "?u\<lparr>spare_desc_queue_map := unset_bit ?k (spare_desc_queue_map t)\<rparr>"
  have "tx_desc_free d 0 t = Some ?v"
    using w busy r su(1) sb [of 0] p(2)
    by (simp add: tx_desc_free_def nth_opt_def desc_busy_def Let_def clear_spare_desc_q_map_def bmp_put_def
        outstanding_add_def reserved_descs_def spare_desc_bit_def mult.commute)
  moreover have "\<not> desc_busy ?v d"
    using bmp_put_busy [of d "buf_pool_bmp t" d False] l(2) by (simp add: desc_busy_def outstanding_add_def p bmp_put_def)
  moreover have "bit (spare_desc_queue_map t) (4 * (d + 1 - reserved_descs s))" if "d - reserved_descs s < 7"
  proof -
    have "4 * (d + 1 - reserved_descs s) = ?k + 4" using r by simp
    then show ?thesis using that by (simp add: p bit_simps)
  qed
  ultimately show ?thesis
    using r ow l(1) by (auto simp: p outstanding_add_def)
qed

text \<open>The two descriptors reserved for the category MC, 4 and 9, are in use; the third frame takes
  descriptor 10.\<close>

definition mc_demo :: fmac where
  "mc_demo = fmac_demo\<lparr>buf_pool_bmp := [0x210], outstanding_descs := [0, 0, 0, 0, 2]\<rparr>"

lemma mc_demo_rel: "desc_rel mc_demo [4 \<mapsto> 4, 9 \<mapsto> 4]"
proof -
  have ow: "owned_by [4 \<mapsto> 4, 9 \<mapsto> 4] q = (if q = 4 then {4, 9} else {})" for q
    by (auto simp: owned_by_def)
  have bt: "desc_busy mc_demo d = (d \<in> {4, 9})" if "d < 12" for d
  proof -
    have "\<forall>d \<in> set [0..<12]. bit (0x210 :: u32) d = (d = 4 \<or> d = 9)" by (simp add: upt_conv_Cons)
    then have "bit (0x210 :: u32) d = (d = 4 \<or> d = 9)" using that by (simp add: Ball_def)
    then show ?thesis using that by (simp add: mc_demo_def desc_busy_def)
  qed
  have f: "tokens mc_demo = 12" "reserved_descs mc_demo = 10" "spare_desc_queue_map mc_demo = 0"
    "outstanding_descs mc_demo = [0, 0, 0, 0, 2]" "length (buf_pool_bmp mc_demo) = 1"
    by (simp_all add: mc_demo_def tokens_def reserved_descs_def fmac_demo_simps)
  have out: "[0, 0, 0, 0, 2 :: u32] ! q = of_nat (card (owned_by [4 \<mapsto> 4, 9 \<mapsto> 4] q))" if "q < 5" for q
  proof -
    have "q \<in> {0, 1, 2, 3, 4}" using that by auto
    then show ?thesis by (auto simp: ow)
  qed
  show ?thesis
    unfolding desc_rel_def desc_setup_def f using bt out by (auto simp: less_Suc_eq)
qed

lemma mc_demo_get: "\<exists>t. tx_desc_get 4 mc_demo = Some (10, t)"
  by (simp add: mc_demo_def tx_desc_get_def fmac_demo_simps upt_conv_Cons nth_opt_def reserved_descs_def
      set_spare_desc_q_map_def outstanding_add_def desc_mark_def)

theorem mc_spare_alias_witness:
  "\<exists>t u. tx_desc_get 4 mc_demo = Some (10, t) \<and> tx_desc_free 10 0 t = Some u \<and>
    outstanding_descs u ! 0 = 0xFFFFFFFF \<and> outstanding_descs u ! 4 = 3"
proof -
  obtain t where t: "tx_desc_get 4 mc_demo = Some (10, t)" using mc_demo_get by blast
  have "outstanding_descs mc_demo ! 0 = 0" "outstanding_descs mc_demo ! 4 = 2" "num_tx_tokens mc_demo = 12"
      "reserved_descs mc_demo = 10"
    by (simp_all add: mc_demo_def reserved_descs_def fmac_demo_simps)
  moreover have "\<forall>d<10 :: nat. d mod 5 = 4 \<longrightarrow> [4 \<mapsto> 4 :: nat, 9 \<mapsto> 4] d \<noteq> None"
  proof (intro allI impI)
    fix d :: nat assume "d < 10" "d mod 5 = 4"
    then have "d = 4 \<or> d = 9" by presburger
    then show "[4 \<mapsto> 4 :: nat, 9 \<mapsto> 4] d \<noteq> None" by auto
  qed
  ultimately show ?thesis using mc_spare_alias [OF mc_demo_rel _ t] t by auto
qed

end
