(* ===== verification/Fmac_Tx_Sched.thy ===== *)
theory Fmac_Tx_Sched
  imports Fmac_Tx_Own
begin

text \<open>The order in which pending frames are sent: the choice of the peer, which goes round, and the
  frames of its queue that are joined into one transmission.\<close>

section \<open>The choice of the peer\<close>

definition sendable :: "fmac \<Rightarrow> nat \<Rightarrow> nat \<Rightarrow> bool" where
  "sendable s ac c = (ps_state (peers s ! c) \<noteq> NRF_WIFI_CLIENT_PS_MODE \<and> pend s c ac \<noteq> [])"

text \<open>The distance from the position of the round to a peer.\<close>

definition turn :: "fmac \<Rightarrow> nat \<Rightarrow> nat \<Rightarrow> nat" where
  "turn s ac c = (c + MAX_PEERS - curr_peer_opp s ! ac) mod MAX_PEERS"

lemma find_turn:
  assumes "opp < 5" "find P (map (\<lambda>i. (opp + i) mod 5) [0..<5]) = Some p"
  shows "\<exists>k<5. p = (opp + k) mod 5 \<and> P p \<and> (\<forall>j<k. \<not> P ((opp + j) mod 5))"
  using assms(2) by (auto simp: find_Some_iff)

lemma turn_less:
  assumes "x < 5" "y < z" "z < (5 :: nat)"
  shows "((x + z) mod 5 + 5 - ((x + y) mod 5 + 1) mod 5) mod 5 < z"
proof -
  have "\<forall>x \<in> {0, 1, 2, 3, 4 :: nat}. \<forall>y \<in> {0, 1, 2, 3, 4}. \<forall>z \<in> {0, 1, 2, 3, 4}.
      y < z \<longrightarrow> ((x + z) mod 5 + 5 - ((x + y) mod 5 + 1) mod 5) mod 5 < z" by simp
  moreover have "x \<in> {0, 1, 2, 3, 4}" "y \<in> {0, 1, 2, 3, 4}" "z \<in> {0, 1, 2, 3, 4}" using assms by auto
  ultimately show ?thesis using assms(2) by blast
qed

lemma opp_run:
  assumes "ac < 4" "wakeup_client_q s = []" "curr_peer_opp s ! ac < MAX_PEERS" "ac < length (curr_peer_opp s)"
    and "sendable s ac c" "c < MAX_PEERS"
  obtains p t where "tx_curr_peer_opp_get ac s = Some (Some p, t)" "p < MAX_PEERS" "sendable s ac p"
    "curr_peer_opp t = (curr_peer_opp s)[ac := (p + 1) mod MAX_PEERS]"
    "p = c \<or> turn t ac c < turn s ac c"
proof -
  let ?o = "curr_peer_opp s ! ac"
  let ?cs = "map (\<lambda>i. (?o + i) mod MAX_PEERS) [0..<MAX_PEERS]"
  have c: "c = (?o + turn s ac c) mod 5" "turn s ac c < 5"
    using assms(3,6) by (auto simp: turn_def mod_simps)
  have "c \<in> set ?cs" using c by (auto intro!: image_eqI [of _ _ "turn s ac c"])
  then obtain p where p: "find (sendable s ac) ?cs = Some p"
    using assms(5) by (metis find_None_iff not_None_eq)
  obtain k where k: "k < 5" "p = (?o + k) mod 5" "sendable s ac p" "\<forall>j<k. \<not> sendable s ac ((?o + j) mod 5)"
    using find_turn [OF assms(3) p] by blast
  have le: "k \<le> turn s ac c" using k(4) c assms(5) by (metis not_le)
  let ?t = "s\<lparr>curr_peer_opp := (curr_peer_opp s)[ac := (p + 1) mod MAX_PEERS]\<rparr>"
  have "tx_curr_peer_opp_get ac s = Some (Some p, ?t)"
    using assms(1,2) p unfolding tx_curr_peer_opp_get_def get_peer_from_wakeup_q_def sendable_def by simp
  moreover have "p = c \<or> turn ?t ac c < turn s ac c"
  proof (cases "k = turn s ac c")
    case True
    then show ?thesis using k(2) c(1) by simp
  next
    case False
    then have "k < turn s ac c" using le by simp
    from turn_less [OF assms(3) this c(2)]
    have "((?o + turn s ac c) mod 5 + 5 - ((?o + k) mod 5 + 1) mod 5) mod 5 < turn s ac c" .
    then show ?thesis using assms(4) k(2) c(1) by (simp add: turn_def)
  qed
  ultimately show thesis using that [of p ?t] k by simp
qed

text \<open>A series of choices that nothing else of the driver disturbs: from one to the next the position
  is kept, no woken peer is waiting, and the peer can be sent to.\<close>

lemma served_soon:
  assumes "ac < 4" "c < MAX_PEERS"
    and "\<And>i. tx_curr_peer_opp_get ac (\<sigma> i) = Some (p i, \<tau> i)"
    and "\<And>i. curr_peer_opp (\<sigma> (Suc i)) = curr_peer_opp (\<tau> i)"
    and "\<And>i. wakeup_client_q (\<sigma> i) = []" "\<And>i. sendable (\<sigma> i) ac c"
    and "\<And>i. length (curr_peer_opp (\<sigma> i)) = 5 \<and> curr_peer_opp (\<sigma> i) ! ac < 5"
  shows "\<exists>j \<le> turn (\<sigma> i) ac c. p (i + j) = Some c"
proof (induction "turn (\<sigma> i) ac c" arbitrary: i rule: less_induct)
  case less
  obtain r t where r: "tx_curr_peer_opp_get ac (\<sigma> i) = Some (Some r, t)" "r = c \<or> turn t ac c < turn (\<sigma> i) ac c"
  proof -
    have "curr_peer_opp (\<sigma> i) ! ac < 5" "ac < length (curr_peer_opp (\<sigma> i))" using assms(1) assms(7) [of i] by simp_all
    then show thesis
      by (rule opp_run [OF assms(1) assms(5) [of i] _ _ assms(6) [of i] assms(2)]) (rule that)
  qed
  have e: "p i = Some r" "t = \<tau> i" using r(1) assms(3) [of i] by simp_all
  show ?case
  proof (cases "r = c")
    case True
    then show ?thesis using e by (intro exI [of _ 0]) simp
  next
    case False
    then have l: "turn (\<sigma> (Suc i)) ac c < turn (\<sigma> i) ac c" using r(2) e(2) assms(4) [of i] by (simp add: turn_def)
    from less.hyps [OF this] obtain j where "j \<le> turn (\<sigma> (Suc i)) ac c" "p (Suc i + j) = Some c" by blast
    then show ?thesis using l by (intro exI [of _ "Suc j"]) simp
  qed
qed

section \<open>The frames of a transmission\<close>

lemma opp_frame:
  assumes "tx_curr_peer_opp_get ac s = Some (p, t)"
  shows "data_pending_txq t = data_pending_txq s" "pkt_info t = pkt_info s"
    "max_tx_aggregation t = max_tx_aggregation s" "avail_ampdu_len_per_token t = avail_ampdu_len_per_token s"
    "twt_sleep_status t = twt_sleep_status s" "is_legacy (peers t ! i) = is_legacy (peers s ! i)"
proof -
  have w: "wakeup_q_find ac is s = Some (r, u) \<Longrightarrow> data_pending_txq u = data_pending_txq s \<and> pkt_info u = pkt_info s \<and>
      max_tx_aggregation u = max_tx_aggregation s \<and> avail_ampdu_len_per_token u = avail_ampdu_len_per_token s \<and>
      twt_sleep_status u = twt_sleep_status s \<and> is_legacy (peers u ! i) = is_legacy (peers s ! i)" for "is" r u
  proof (induction "is")
    case (Cons k ks)
    have "is_legacy (peers (peer_put k ((peers s ! k)\<lparr>ps_token_count := n\<rparr>) s) ! i) = is_legacy (peers s ! i)" for n
      by (cases "i = k"; cases "k < length (peers s)") (simp_all add: peer_put_def)
    then show ?case using Cons
      by (auto simp: Let_def split: if_splits Option.bind_splits) (simp_all add: peer_put_def)
  qed simp
  then show "data_pending_txq t = data_pending_txq s" "pkt_info t = pkt_info s"
    "max_tx_aggregation t = max_tx_aggregation s" "avail_ampdu_len_per_token t = avail_ampdu_len_per_token s"
    "twt_sleep_status t = twt_sleep_status s" "is_legacy (peers t ! i) = is_legacy (peers s ! i)"
    using assms by (auto simp: tx_curr_peer_opp_get_def get_peer_from_wakeup_q_def Let_def
      split: if_splits Option.bind_splits option.splits)
qed

lemma bmp_frame:
  assumes "update_pend_q_bmp os ac p s = Some (st, t)"
  shows "data_pending_txq t = data_pending_txq s \<and> pkt_info t = pkt_info s"
  using assms by (auto simp: update_pend_q_bmp_def Let_def on_hal_def peer_put_def split: if_splits Option.bind_splits)

text \<open>One frame moves from the pending queue to the list of the descriptor.\<close>

definition moved :: "nat \<Rightarrow> nat \<Rightarrow> nat \<Rightarrow> nat \<Rightarrow> fmac \<Rightarrow> fmac \<Rightarrow> bool" where
  "moved d ac p n s t = (
     data_pending_txq t = data_pending_txq (pend_put p ac (drop n (pend s p ac)) s) \<and>
     pkt_info t = (pkt_info s)[d := (pkt_info s ! d)\<lparr>pkt := pkt (pkt_info s ! d) @ take n (pend s p ac)\<rparr>] \<and>
     max_tx_aggregation t = max_tx_aggregation s \<and> avail_ampdu_len_per_token t = avail_ampdu_len_per_token s \<and>
     twt_sleep_status t = twt_sleep_status s \<and> peers t = peers s)"

lemma pend_in_range:
  "pend_at s p ac = Some q \<Longrightarrow> p < length (data_pending_txq s) \<and> ac < length (data_pending_txq s ! p) \<and> pend s p ac = q"
  by (auto simp: pend_at_def pend_def nth_opt_def split: Option.bind_splits if_splits)

lemma moved_0: "pend_at s p ac = Some q \<Longrightarrow> moved d ac p 0 s s"
  by (simp add: moved_def pend_put_def pend_def)

lemma move_one:
  assumes "nodes_ok os" "d < length (pkt_info s)" "pend_at s p ac = Some (b # q)"
  shows "moved d ac p 1 s (txq_add os d b (pend_dequeue p ac s))"
  using pend_in_range [OF assms(3)] assms(1,2)
  by (simp add: moved_def txq_add_def pend_dequeue_def falloc_def osal_alloc_def nodes_ok_def Let_def femit_def
      pend_put_def pend_def tick_os_def split: prod.splits)

lemma moved_trans:
  assumes "moved d ac p m s t" "moved d ac p n t u" "pend_at s p ac = Some q" "m \<le> length q" "d < length (pkt_info s)"
  shows "moved d ac p (m + n) s u"
proof -
  note r = pend_in_range [OF assms(3)]
  have "pend t p ac = drop m q" using assms(1) r by (simp add: moved_def pend_def pend_put_def)
  then show ?thesis
    using assms r by (simp add: moved_def pend_put_def pend_def take_add add.commute)
qed

definition same_addrs :: "os \<Rightarrow> nbuf \<Rightarrow> nbuf \<Rightarrow> bool" where
  "same_addrs os b f = (nrf_wifi_get_dest os b = nrf_wifi_get_dest os f \<and> nrf_wifi_get_src os b = nrf_wifi_get_src os f)"

lemma aggr_check_same:
  assumes "tx_aggr_check os f ac p s" "pend s p ac = b # q"
  shows "same_addrs os b f" "is_legacy (peers s ! p) = 0"
  using assms by (auto simp: tx_aggr_check_def same_addrs_def ether_addr_equal_bytes nrf_wifi_get_dest_def
      nrf_wifi_get_src_def split: if_splits)

definition aggr_len :: "nbuf list \<Rightarrow> u32" where
  "aggr_len bs = (\<Sum>b \<leftarrow> bs. TX_BUF_HEADROOM + nbuf_size b)"

text \<open>What is joined: at most the limit, of the same addresses, within the length of the token.\<close>

definition joined :: "os \<Rightarrow> nat \<Rightarrow> fmac \<Rightarrow> nbuf \<Rightarrow> u32 \<Rightarrow> nbuf list \<Rightarrow> bool" where
  "joined os p s f n bs = (bs = [] \<or>
     (\<forall>b \<in> set bs. same_addrs os b f \<and> can_xmit s b) \<and> is_legacy (peers s ! p) = 0 \<and>
     n + aggr_len bs <s avail_ampdu_len_per_token s)"

lemma pend_loop_run:
  assumes "nodes_ok os" "d < length (pkt_info s)" "pend_at s p ac = Some q"
    and "length (pkt (pkt_info s ! d)) \<le> unat (max_tx_aggregation s)"
  shows "\<exists>k \<le> length q. moved d ac p k s (pend_loop os d ac p f n q s) \<and> joined os p s f n (take k q) \<and>
    length (pkt (pkt_info s ! d)) + k \<le> unat (max_tx_aggregation s)"
  using assms(2-)
proof (induction q arbitrary: n s)
  case Nil
  then show ?case by (auto intro!: exI [of _ 0] moved_0 simp: joined_def)
next
  case (Cons b q)
  let ?n = "n + (TX_BUF_HEADROOM + nbuf_size b)"
  note r = pend_in_range [OF Cons.prems(2)]
  show ?case
  proof (cases "word_sle (avail_ampdu_len_per_token s) ?n \<or> \<not> can_xmit s b \<or> \<not> tx_aggr_check os f ac p s
        \<or> unat (max_tx_aggregation s) \<le> length (pkt (pkt_info s ! d))")
    case True
    then have "pend_loop os d ac p f n (b # q) s = s" by (auto simp: Let_def)
    then show ?thesis using Cons.prems moved_0 [OF Cons.prems(2)] by (intro exI [of _ 0]) (simp add: joined_def)
  next
    case False
    let ?t = "txq_add os d b (pend_dequeue p ac s)"
    have m: "moved d ac p 1 s ?t" by (rule move_one [OF assms(1) Cons.prems(1,2)])
    have t: "d < length (pkt_info ?t)" "pkt (pkt_info ?t ! d) = pkt (pkt_info s ! d) @ [b]"
        "max_tx_aggregation ?t = max_tx_aggregation s" "peers ?t = peers s"
        "avail_ampdu_len_per_token ?t = avail_ampdu_len_per_token s" "can_xmit ?t = can_xmit s"
      using m r Cons.prems(1) by (simp_all add: moved_def can_xmit_def fun_eq_iff)
    have pt: "pend_at ?t p ac = Some q"
      using m r by (simp add: moved_def pend_at_def nth_opt_def pend_put_def)
    obtain k where k: "k \<le> length q" "moved d ac p k ?t (pend_loop os d ac p f ?n q ?t)" "joined os p ?t f ?n (take k q)"
        "length (pkt (pkt_info ?t ! d)) + k \<le> unat (max_tx_aggregation ?t)"
      using Cons.IH [OF t(1) pt, of ?n] t(2,3) False by auto
    have e: "pend_loop os d ac p f n (b # q) s = pend_loop os d ac p f ?n q ?t" using False by (simp add: Let_def)
    have "moved d ac p (1 + k) s (pend_loop os d ac p f n (b # q) s)"
      unfolding e by (rule moved_trans [OF m k(2) Cons.prems(2) _ Cons.prems(1)]) simp
    moreover have "joined os p s f n (take (1 + k) (b # q))"
    proof -
      have b: "same_addrs os b f" "is_legacy (peers s ! p) = 0" "can_xmit s b" "?n <s avail_ampdu_len_per_token s"
        using aggr_check_same [of os f ac p s b q] False r by (auto simp: not_le word_sless_alt word_sle_eq)
      show ?thesis
      proof (cases "take k q = []")
        case True
        then show ?thesis using b by (auto simp: joined_def aggr_len_def)
      next
        case False
        then show ?thesis using b k(3) by (simp add: joined_def t aggr_len_def add.assoc)
      qed
    qed
    ultimately show ?thesis using k(1,4) t(2,3) by (intro exI [of _ "1 + k"]) simp
  qed
qed

lemma finish_frame:
  assumes "collect_finish os d ac p s = Some (n, t)"
  shows "n = length (pkt (pkt_info s ! d))" "data_pending_txq t = data_pending_txq s"
    "0 < n \<Longrightarrow> pkt_info t = (pkt_info s)[d := (pkt_info s ! d)\<lparr>pkt_peer_id := int p\<rparr>]"
  using assms by (auto simp: collect_finish_def Let_def split: Option.bind_splits if_splits dest!: bmp_frame)

section \<open>Properties\<close>

text \<open>C29 Peers are served in turn. As long as a peer has frames of an access category and is not
  asleep, and no woken peer is waiting, one of any five choices of the driver for that category is
  that peer.\<close>

theorem peer_served_in_turn:
  assumes "ac < NRF_WIFI_FMAC_AC_MC" "c < MAX_PEERS"
    and "\<And>i. tx_curr_peer_opp_get ac (\<sigma> i) = Some (p i, \<tau> i)"
    and "\<And>i. curr_peer_opp (\<sigma> (Suc i)) = curr_peer_opp (\<tau> i)"
    and "\<And>i. wakeup_client_q (\<sigma> i) = []"
    and "\<And>i. ps_state (peers (\<sigma> i) ! c) \<noteq> NRF_WIFI_CLIENT_PS_MODE \<and> pend (\<sigma> i) c ac \<noteq> []"
    and "curr_peer_opp (\<sigma> 0) = o0" "length o0 = NRF_WIFI_FMAC_AC_MAX" "\<forall>k<NRF_WIFI_FMAC_AC_MAX. o0 ! k < MAX_PEERS"
  shows "\<exists>j<MAX_PEERS. p (n + j) = Some c"
proof -
  have s: "sendable (\<sigma> i) ac c" for i using assms(6) by (simp add: sendable_def)
  have inv: "length (curr_peer_opp (\<sigma> i)) = 5 \<and> curr_peer_opp (\<sigma> i) ! ac < 5" for i
  proof (induction i)
    case (Suc i)
    have c: "curr_peer_opp (\<sigma> i) ! ac < 5" "ac < length (curr_peer_opp (\<sigma> i))" using Suc assms(1) by simp_all
    obtain r t where "tx_curr_peer_opp_get ac (\<sigma> i) = Some (Some r, t)"
        "curr_peer_opp t = (curr_peer_opp (\<sigma> i))[ac := (r + 1) mod MAX_PEERS]"
      by (rule opp_run [OF assms(1) assms(5) [of i] c s assms(2)]) (rule that)
    then show ?case using Suc assms(1) assms(3) [of i] assms(4) [of i] by simp
  qed (use assms(1,7-9) in simp)
  from served_soon [of ac c \<sigma> p \<tau> n, OF assms(1,2) assms(3) assms(4) assms(5) s inv] obtain j
    where "j \<le> turn (\<sigma> n) ac c" "p (n + j) = Some c" by blast
  moreover have "turn (\<sigma> n) ac c < 5" by (simp add: turn_def)
  ultimately show ?thesis by (intro exI [of _ j]) simp
qed

text \<open>Collecting from a queue moves a prefix of it to the descriptor: the one that the loop joined, or, when the
  loop took nothing, the first frame.\<close>

lemma collect_moved:
  assumes "nodes_ok os" "tx_pending_collect os d ac s = Some (n, t)" "0 < n" "tx_curr_peer_opp_get ac s = Some (Some p, u)"
    and "pend_at u p ac = Some (f # q)" "d < length (pkt_info u)" "pkt (pkt_info u ! d) = []"
  obtains m w k where "moved d ac p m u w" "collect_finish os d ac p w = Some (n, t)" "m \<le> length (f # q)"
    "joined os p u f 0 (take k (f # q))" "k \<le> unat (max_tx_aggregation u)" "m = k \<and> 0 < k \<or> m = 1 \<and> can_xmit u f"
proof -
  let ?v = "pend_loop os d ac p f 0 (f # q) u"
  have ps: "pend u p ac = f # q" using pend_in_range [OF assms(5)] by simp
  obtain k where k: "k \<le> length (f # q)" "moved d ac p k u ?v" "joined os p u f 0 (take k (f # q))"
      "k \<le> unat (max_tx_aggregation u)"
    using pend_loop_run [OF assms(1,6,5), of f 0] assms(7) by auto
  have e: "(if pkt (pkt_info ?v ! d) \<noteq> [] then collect_finish os d ac p ?v
      else case pend ?v p ac of [] \<Rightarrow> Some (0, ?v)
       | nwb # _ \<Rightarrow> if \<not> can_xmit ?v nwb then Some (0, ?v)
           else collect_finish os d ac p (txq_add os d nwb (pend_dequeue p ac ?v))) = Some (n, t)"
    using assms(2,4-6) by (simp add: tx_pending_collect_def nth_opt_def Let_def del: pend_loop.simps)
  show thesis
  proof (cases "k = 0")
    case False
    then have "pkt (pkt_info ?v ! d) \<noteq> []" using k(2) assms(6,7) ps by (simp add: moved_def)
    then show thesis using that [of k ?v k] e k False by simp
  next
    case True
    then have v: "pkt (pkt_info ?v ! d) = []" "pend ?v p ac = f # q" "d < length (pkt_info ?v)" "can_xmit ?v = can_xmit u"
      using k(2) assms(6,7) ps pend_in_range [OF assms(5)]
      by (simp_all add: moved_def pend_def pend_put_def can_xmit_def fun_eq_iff)
    let ?x = "txq_add os d f (pend_dequeue p ac ?v)"
    have pv: "pend_at ?v p ac = Some (f # q)"
      using k(2) True pend_in_range [OF assms(5)] by (simp add: moved_def pend_at_def nth_opt_def pend_put_def pend_def)
    have x: "can_xmit u f" "collect_finish os d ac p ?x = Some (n, t)"
      using e v assms(3) by (auto split: if_splits simp del: pend_loop.simps)
    have "moved d ac p 1 ?v ?x" by (rule move_one [OF assms(1) v(3) pv])
    from moved_trans [OF k(2) this assms(5) _ assms(6)] True have "moved d ac p 1 u ?x" by simp
    then show thesis using that [of 1 ?x k] x k by simp
  qed
qed


text \<open>Two peers with frames: the choices alternate between them, whatever the state in between.\<close>

definition two_peers :: "nat \<Rightarrow> fmac" where
  "two_peers opp = fmac_demo\<lparr>curr_peer_opp := [0, opp, 0, 0, 0],
     data_pending_txq := [[[], [ip_frame], [], [], []], [[], [ip_frame], [], [], []], [[], [], [], [], []],
       [[], [], [], [], []], [[], [], [], [], []], [[], [], [], [], []]]\<rparr>"

lemma two_peers_step:
  "tx_curr_peer_opp_get 1 (two_peers 0) = Some (Some 0, two_peers 1)"
  "tx_curr_peer_opp_get 1 (two_peers 1) = Some (Some 1, two_peers 2)"
  "tx_curr_peer_opp_get 1 (two_peers 2) = Some (Some 0, two_peers 1)"
  by (simp_all add: two_peers_def tx_curr_peer_opp_get_def get_peer_from_wakeup_q_def fmac_demo_simps upt_peers
      pend_def peer_zero_def)

lemma two_peers_facts:
  "wakeup_client_q (two_peers k) = []" "curr_peer_opp (two_peers k) = [0, k, 0, 0, 0]"
  "ps_state (peers (two_peers k) ! 1) = 0" "pend (two_peers k) 1 1 = [ip_frame]" "pend (two_peers k) 0 1 = [ip_frame]"
  by (simp_all add: two_peers_def fmac_demo_simps pend_def peer_zero_def)

theorem peer_served_in_turn_witness:
  "\<exists>j<MAX_PEERS. (\<lambda>i. if odd i then Some 1 else Some (0 :: nat)) (7 + j) = Some 1 \<and>
    tx_curr_peer_opp_get 1 (two_peers 1) = Some (Some 1, two_peers 2)"
proof -
  let ?s = "\<lambda>i :: nat. two_peers (if i = 0 then 0 else if odd i then 1 else 2)"
  have "\<exists>j<MAX_PEERS. (\<lambda>i. if odd i then Some 1 else Some (0 :: nat)) (7 + j) = Some 1"
  proof (rule peer_served_in_turn [of 1 1 ?s _ "\<lambda>i. two_peers (if odd i then 2 else 1)" "[0, 0, 0, 0, 0]" 7])
    show "tx_curr_peer_opp_get 1 (?s i) = Some (if odd i then Some 1 else Some 0, two_peers (if odd i then 2 else 1))" for i
      by (simp add: two_peers_step del: One_nat_def)
  qed (auto simp: two_peers_facts nth_Cons' simp del: One_nat_def)
  then show ?thesis using two_peers_step(2) by blast
qed

lemma two_peers_collect: "\<exists>t. tx_pending_collect demo_os 0 1 (two_peers 0) = Some (1, t)"
  apply (simp add: tx_pending_collect_def two_peers_step del: One_nat_def pend_loop.simps)
  apply (simp add: two_peers_def pend_at_def nth_opt_def fmac_demo_simps Let_def del: One_nat_def)
  apply (simp add: fmac_demo_simps can_xmit_def is_twt_emergency_pkt_def tx_aggr_check_def pend_def peer_zero_def
     nrf_wifi_util_ether_addr_equal_def ip_frame_def)
  apply (simp add: txq_add_def pend_dequeue_def falloc_def osal_alloc_def tick_os_def Let_def fmac_demo_simps pend_put_def pend_def femit_def)
  apply (simp add: collect_finish_def Let_def update_pend_q_bmp_def vif_at_def fmac_demo_simps sta_vif_def peer_zero_def)
  done


end
