(* ===== verification/Fmac_Rx.thy ===== *)
theory Fmac_Rx
  imports Fmac_Step
begin

text \<open>The receive path of the FMAC (\<open>fw_if/umac_if/src/system/rx.c\<close>): giving receive buffers to the
  firmware and taking them back, the conversion of 802.11 frames to Ethernet, and the receive
  event. Without the work queue, raw and promiscuous reception and the raw scan results.\<close>

section \<open>Descriptors and pools\<close>

text \<open>The pool of a descriptor and its number in the pool; the sum is 32 bits wide.\<close>

definition nrf_wifi_fmac_map_desc_to_pool :: "u32 \<Rightarrow> fmac \<Rightarrow> (u32 \<times> u32) option" where
  "nrf_wifi_fmac_map_desc_to_pool desc_id s =
    (case find (\<lambda>p. rx_desc s ! p \<le> desc_id \<and> desc_id < rx_desc s ! p + ucast (num_bufs (rx_buf_pools s ! p)))
        [0..<MAX_NUM_OF_RX_QUEUES] of
       None \<Rightarrow> None
     | Some p \<Rightarrow> Some (of_nat p, desc_id - rx_desc s ! p))"

section \<open>From 802.11 to Ethernet\<close>

abbreviation (input) NRF_WIFI_FMAC_ETH_P_AARP :: u16 where "NRF_WIFI_FMAC_ETH_P_AARP \<equiv> 0x80F3"
abbreviation (input) NRF_WIFI_FMAC_ETH_P_IPX :: u16 where "NRF_WIFI_FMAC_ETH_P_IPX \<equiv> 0x8137"
abbreviation (input) NRF_WIFI_FMAC_ETH_P_802_3_MIN :: u16 where "NRF_WIFI_FMAC_ETH_P_802_3_MIN \<equiv> 0x0600"

definition nrf_wifi_get_skip_header_bytes :: "u16 \<Rightarrow> nat" where
  "nrf_wifi_get_skip_header_bytes eth_type =
    (if eth_type = NRF_WIFI_FMAC_ETH_P_AARP \<or> eth_type = NRF_WIFI_FMAC_ETH_P_IPX then 2 + 6
     else if NRF_WIFI_FMAC_ETH_P_802_3_MIN \<le> eth_type then 2 + 6
     else 2)"

text \<open>The header that is written: destination, source and the type or the length, which is stored
  in the order of the host; the type was swapped for it.\<close>

definition eth_proto :: "u16 \<Rightarrow> u32 \<Rightarrow> u16" where
  "eth_proto eth_type len =
    (if NRF_WIFI_FMAC_ETH_P_802_3_MIN \<le> eth_type then drop_bit 8 eth_type OR push_bit 8 eth_type else ucast len)"

definition eth_hdr_write :: "os \<Rightarrow> u8 list \<Rightarrow> u8 list \<Rightarrow> u16 \<Rightarrow> nbuf \<Rightarrow> nbuf" where
  "eth_hdr_write os dst src eth_type b =
    (let len = nbuf_size b; b = os_nbuf_push os 14 b in
     b\<lparr>nb_data := dst @ src @ le16_bytes (eth_proto eth_type len) @ drop 14 (nb_data b)\<rparr>)"

definition nrf_wifi_convert_amsdu_to_eth :: "os \<Rightarrow> nbuf \<Rightarrow> nbuf" where
  "nrf_wifi_convert_amsdu_to_eth os b =
    (let dst = nbuf_bytes os b 0 6; src = nbuf_bytes os b 6 6;
         eth_type = nrf_wifi_util_rx_get_eth_type (nbuf_bytes os b 14 8) in
     eth_hdr_write os dst src eth_type (os_nbuf_pull os (14 + nrf_wifi_get_skip_header_bytes eth_type) b))"

text \<open>The bytes of \<open>struct nrf_wifi_fmac_ieee80211_hdr\<close>.\<close>

definition fc_tods :: "u8 list \<Rightarrow> bool" where
  "fc_tods hdr = bit (hdr ! 1) 0"

definition fc_fromds :: "u8 list \<Rightarrow> bool" where
  "fc_fromds hdr = bit (hdr ! 1) 1"

abbreviation (input) addr_1 :: "u8 list \<Rightarrow> u8 list" where "addr_1 hdr \<equiv> take 6 (drop 4 hdr)"
abbreviation (input) addr_2 :: "u8 list \<Rightarrow> u8 list" where "addr_2 hdr \<equiv> take 6 (drop 10 hdr)"
abbreviation (input) addr_3 :: "u8 list \<Rightarrow> u8 list" where "addr_3 hdr \<equiv> take 6 (drop 16 hdr)"
abbreviation (input) addr_4 :: "u8 list \<Rightarrow> u8 list" where "addr_4 hdr \<equiv> take 6 (drop 24 hdr)"

definition nrf_wifi_convert_to_eth :: "os \<Rightarrow> nbuf \<Rightarrow> u8 list \<Rightarrow> u16 \<Rightarrow> nbuf" where
  "nrf_wifi_convert_to_eth os b hdr eth_type =
    (if fc_tods hdr \<and> fc_fromds hdr then eth_hdr_write os (addr_1 hdr) (addr_4 hdr) eth_type b
     else if fc_fromds hdr then eth_hdr_write os (addr_1 hdr) (addr_3 hdr) eth_type b
     else if fc_tods hdr then eth_hdr_write os (addr_3 hdr) (addr_2 hdr) eth_type b
     else eth_hdr_write os (addr_1 hdr) (addr_2 hdr) eth_type b)"

section \<open>Commands\<close>

datatype rx_cmd_type = NRF_WIFI_FMAC_RX_CMD_TYPE_INIT | NRF_WIFI_FMAC_RX_CMD_TYPE_DEINIT
  | NRF_WIFI_FMAC_RX_CMD_TYPE_MAX

text \<open>The memory of a new buffer, with the number of the descriptor at its start.\<close>

definition rx_buf_mem :: "os \<Rightarrow> nbuf \<Rightarrow> u32 \<Rightarrow> u32 \<Rightarrow> u8" where
  "rx_buf_mem os b desc_id a = (let i = unat (a - nb_data_ptr b) in
     if i < 4 then le32_bytes desc_id ! i else nbuf_mem os b a)"

definition rx_info_put :: "nat \<Rightarrow> fmac_buf_map_info \<Rightarrow> fmac \<Rightarrow> fmac" where
  "rx_info_put i e s = s\<lparr>fmac_rx_info := map_option (\<lambda>tbl. tbl[i := e]) (fmac_rx_info s)\<rparr>"

definition rx_cmd_init :: "os \<Rightarrow> u32 \<Rightarrow> u32 \<Rightarrow> u32 \<Rightarrow> fmac_buf_map_info \<Rightarrow> fmac \<Rightarrow> (nrf_status \<times> fmac) option" where
  "rx_cmd_init os desc_id pool_id buf_id e s =
    (if buf_mapped e then Some (FAIL, s)
     else let buf_len = ucast (buf_sz (rx_buf_pools s ! unat pool_id)) + RX_BUF_HEADROOM;
              (r, h) = osal_nbuf_alloc os buf_len (hal_dev_ctx s);
              s = s\<lparr>hal_dev_ctx := h\<rparr> in
       (case r of None \<Rightarrow> Some (FAIL, s)
        | Some b \<Rightarrow> do {
            (phy_addr, s) \<leftarrow> on_hal (nrf_wifi_sys_hal_buf_map_rx os (rx_buf_mem os b desc_id) (nb_data_ptr b) buf_len
              pool_id buf_id) s;
            if phy_addr = 0 then Some (FAIL, s)
            else on_hal (nrf_wifi_sys_hal_data_cmd_send os NRF_WIFI_HAL_MSG_TYPE_CMD_DATA_RX (le32_bytes phy_addr)
              desc_id pool_id) (rx_info_put (unat desc_id) \<lparr>buf_mapped = True, buf_nwb = Some b\<rparr> s)
          }))"

definition nrf_wifi_fmac_rx_cmd_send :: "os \<Rightarrow> rx_cmd_type \<Rightarrow> u32 \<Rightarrow> fmac \<Rightarrow> (nrf_status \<times> fmac) option" where
  "nrf_wifi_fmac_rx_cmd_send os cmd_type desc_id s =
    (case nrf_wifi_fmac_map_desc_to_pool desc_id s of
       None \<Rightarrow> Some (FAIL, s)
     | Some (pool_id, buf_id) \<Rightarrow> do {
         tbl \<leftarrow> fmac_rx_info s;
         e \<leftarrow> nth_opt tbl (unat desc_id);
         (case cmd_type of
            NRF_WIFI_FMAC_RX_CMD_TYPE_INIT \<Rightarrow> rx_cmd_init os desc_id pool_id buf_id e s
          | NRF_WIFI_FMAC_RX_CMD_TYPE_DEINIT \<Rightarrow>
              if \<not> buf_mapped e then Some (FAIL, s)
              else do {
                (nwb_data, s) \<leftarrow> on_hal (\<lambda>h. do {
                  (a, _, h) \<leftarrow> nrf_wifi_sys_hal_buf_unmap_rx os 0 pool_id buf_id h; Some (a, h) }) s;
                if nwb_data = 0 then Some (SUCCESS, s)
                else do {
                  b \<leftarrow> buf_nwb e;
                  Some (SUCCESS, rx_info_put (unat desc_id) fmac_unmapped (femit (IoNbufFree (nb_ptr b)) s))
                }
              }
          | _ \<Rightarrow> Some (SUCCESS, s))
       })"

section \<open>The receive event\<close>

record rx_buff_info =
  descriptor_id :: u16
  rx_pkt_len :: u16
  pkt_type :: u8

record rx_buff =
  rx_pkt_type :: int
  rx_wdev_id :: u8
  rx_pkt_cnt :: u8
  rx_mac_header_len :: u8
  rx_signal :: u16
  rx_buff_infos :: "rx_buff_info list"

abbreviation (input) NRF_WIFI_RX_PKT_DATA :: int where "NRF_WIFI_RX_PKT_DATA \<equiv> 0"
abbreviation (input) NRF_WIFI_RX_PKT_BCN_PRB_RSP :: int where "NRF_WIFI_RX_PKT_BCN_PRB_RSP \<equiv> 1"
abbreviation (input) NRF_WIFI_RAW_RX_PKT :: int where "NRF_WIFI_RAW_RX_PKT \<equiv> 2"
abbreviation (input) PKT_TYPE_MPDU :: u8 where "PKT_TYPE_MPDU \<equiv> 0"
abbreviation (input) PKT_TYPE_MSDU_WITH_MAC :: u8 where "PKT_TYPE_MSDU_WITH_MAC \<equiv> 1"
abbreviation (input) PKT_TYPE_MSDU :: u8 where "PKT_TYPE_MSDU \<equiv> 2"

text \<open>The buffer after the firmware filled it: the bytes the HAL stored in host memory, which the
  data area is extended over, without the headroom.\<close>

definition rx_stored :: "os \<Rightarrow> nbuf \<Rightarrow> (u32 \<times> u8 list) option \<Rightarrow> u32 \<Rightarrow> u8" where
  "rx_stored os b data a = (case data of None \<Rightarrow> nbuf_mem os b a
     | Some (p, bs) \<Rightarrow> if unat (a - p) < length bs then bs ! unat (a - p) else nbuf_mem os b a)"

definition rx_filled :: "os \<Rightarrow> (u32 \<times> u8 list) option \<Rightarrow> nat \<Rightarrow> nbuf \<Rightarrow> nbuf" where
  "rx_filled os data n b = os_nbuf_pull os 4 (os_nbuf_put os
     (map (\<lambda>i. rx_stored os b data (nb_data_ptr b + of_nat (length (nb_data b) + i))) [0..<n + 4]) b)"

text \<open>The Ethernet frame of a data packet, if its type is valid.\<close>

definition rx_to_eth :: "os \<Rightarrow> rx_buff \<Rightarrow> u8 \<Rightarrow> nbuf \<Rightarrow> nbuf option" where
  "rx_to_eth os c ty b =
    (let mac_len = unat (rx_mac_header_len c) in
     if ty = PKT_TYPE_MPDU then
       let hdr = nbuf_bytes os b 0 30;
           eth_type = nrf_wifi_util_rx_get_eth_type (nbuf_bytes os b mac_len 8) in
       Some (nrf_wifi_convert_to_eth os
         (os_nbuf_pull os (mac_len + nrf_wifi_get_skip_header_bytes eth_type) b) hdr eth_type)
     else if ty = PKT_TYPE_MSDU_WITH_MAC then Some (nrf_wifi_convert_amsdu_to_eth os (os_nbuf_pull os mac_len b))
     else if ty = PKT_TYPE_MSDU then Some (nrf_wifi_convert_amsdu_to_eth os b)
     else None)"

definition rx_deliver :: "rx_buff \<Rightarrow> nbuf \<Rightarrow> fmac \<Rightarrow> fmac" where
  "rx_deliver c b s = femit (IoFmacCallback CB_rx_frm (rx_wdev_id c) (le32_bytes (nb_ptr b) @ nb_data b)) s"

text \<open>One packet of the event. A packet that is skipped is \<open>continue\<close> in the loop.\<close>

definition rx_packet :: "os \<Rightarrow> rx_buff \<Rightarrow> rx_buff_info \<Rightarrow> fmac \<Rightarrow> (nrf_status \<times> fmac) option" where
  "rx_packet os c i s =
    (let desc_id = ucast (descriptor_id i); pkt_len = rx_pkt_len i in
     if num_rx_bufs s \<le> desc_id then Some (FAIL, s)
     else case nrf_wifi_fmac_map_desc_to_pool desc_id s of
       None \<Rightarrow> Some (FAIL, s)
     | Some (pool_id, buf_id) \<Rightarrow> do {
         (r, s) \<leftarrow> on_hal (\<lambda>h. do {
           (a, d, h) \<leftarrow> nrf_wifi_sys_hal_buf_unmap_rx os (ucast pkt_len) pool_id buf_id h; Some ((a, d), h) }) s;
         if fst r = 0 then Some (FAIL, s)
         else do {
           tbl \<leftarrow> fmac_rx_info s;
           e \<leftarrow> nth_opt tbl (unat desc_id);
           b \<leftarrow> buf_nwb e;
           let b = rx_filled os (snd r) (unat pkt_len) b;
           let s = rx_info_put (unat desc_id) fmac_unmapped s;
           if rx_pkt_type c = NRF_WIFI_RX_PKT_DATA then
             (case rx_to_eth os c (pkt_type i) b of
                None \<Rightarrow> Some (FAIL, s)
              | Some b \<Rightarrow> nrf_wifi_fmac_rx_cmd_send os NRF_WIFI_FMAC_RX_CMD_TYPE_INIT desc_id (rx_deliver c b s))
           else if rx_pkt_type c = NRF_WIFI_RX_PKT_BCN_PRB_RSP
           then nrf_wifi_fmac_rx_cmd_send os NRF_WIFI_FMAC_RX_CMD_TYPE_INIT desc_id (femit (IoNbufFree (nb_ptr b)) s)
           else Some (FAIL, femit (IoNbufFree (nb_ptr b)) s)
         }
       })"

fun rx_packets :: "os \<Rightarrow> rx_buff \<Rightarrow> nat list \<Rightarrow> nrf_status \<Rightarrow> fmac \<Rightarrow> (nrf_status \<times> fmac) option" where
  "rx_packets os c [] st s = Some (st, s)"
| "rx_packets os c (k # ks) st s = do {
     i \<leftarrow> nth_opt (rx_buff_infos c) k;
     (st, s) \<leftarrow> rx_packet os c i s;
     rx_packets os c ks st s
   }"

definition nrf_wifi_fmac_rx_event_process :: "os \<Rightarrow> rx_buff \<Rightarrow> fmac \<Rightarrow> (nrf_status \<times> fmac) option" where
  "nrf_wifi_fmac_rx_event_process os c s = do {
     p \<leftarrow> nth_opt (vif_ctx s) (unat (rx_wdev_id c));
     s \<leftarrow> (if rx_pkt_type c = NRF_WIFI_RAW_RX_PKT then Some s
        else do {
          _ \<leftarrow> vif_at s (unat (rx_wdev_id c));
          Some (femit (IoFmacCallback CB_process_rssi_from_rx (rx_wdev_id c) (le16_bytes (rx_signal c))) s)
        });
     rx_packets os c [0..<unat (rx_pkt_cnt c)] FAIL s
   }"

section \<open>Conversion properties\<close>

lemma be16_bytes: "le16_bytes (drop_bit 8 (be16 hi lo) OR push_bit 8 (be16 hi lo)) = [hi, lo]"
proof -
  have "ucast (drop_bit 8 (be16 hi lo) OR push_bit 8 (be16 hi lo)) = hi"
    "ucast (drop_bit 8 (drop_bit 8 (be16 hi lo) OR push_bit 8 (be16 hi lo))) = lo"
    by (rule bit_word_eqI; auto simp: be16_def bit_simps dest: bit_imp_le_length)+
  then show ?thesis by (simp add: le16_bytes_def)
qed

text \<open>The addresses of a frame by its direction.\<close>

definition ds_dst :: "u8 list \<Rightarrow> u8 list" where
  "ds_dst hdr = (if fc_tods hdr \<and> \<not> fc_fromds hdr then addr_3 hdr else addr_1 hdr)"

definition ds_src :: "u8 list \<Rightarrow> u8 list" where
  "ds_src hdr = (if fc_fromds hdr then if fc_tods hdr then addr_4 hdr else addr_3 hdr else addr_2 hdr)"

definition snap :: "u8 list" where
  "snap = [0xAA, 0xAA, 0x03, 0x00, 0x00, 0x00]"

text \<open>The type field of a frame and what follows it: with a SNAP header the type is kept, else the
  length of what is left is put in its place, after two bytes were dropped.\<close>

definition eth_rest :: "u8 list \<Rightarrow> u8 list" where
  "eth_rest llc = (let ty = be16 (llc ! 6) (llc ! 7) in
     if NRF_WIFI_FMAC_ETH_P_802_3_MIN \<le> ty then drop 6 llc
     else le16_bytes (of_nat (length llc - 2)) @ drop 2 llc)"

context os_nbufs
begin

lemma eth_write:
  assumes "nb_data b = pre @ llc" "8 \<le> length llc" "14 \<le> length pre + nrf_wifi_get_skip_header_bytes ty"
    and "ty = be16 (llc ! 6) (llc ! 7)" "length llc < 2 ^ 32"
  shows "nb_data (eth_hdr_write os dst src ty (os_nbuf_pull os (length pre + nrf_wifi_get_skip_header_bytes ty) b)) =
      dst @ src @ eth_rest llc"
    "nb_ptr (eth_hdr_write os dst src ty (os_nbuf_pull os (length pre + nrf_wifi_get_skip_header_bytes ty) b)) = nb_ptr b"
proof -
  let ?k = "nrf_wifi_get_skip_header_bytes ty"
  have k: "?k = (if NRF_WIFI_FMAC_ETH_P_802_3_MIN \<le> ty then 8 else 2)"
    by (auto simp: nrf_wifi_get_skip_header_bytes_def)
  have l: "length pre + ?k \<le> length (nb_data b)" using assms(1,2) k by (simp split: if_splits)
  have d: "nb_data (os_nbuf_pull os (length pre + ?k) b) = drop ?k llc"
    using pull_law [OF l] assms(1) by simp
  have p: "drop 14 (nb_data (os_nbuf_push os 14 (os_nbuf_pull os (length pre + ?k) b))) = drop ?k llc"
    using push_drop [OF l assms(3)] assms(1) by simp
  have "nb_data (eth_hdr_write os dst src ty (os_nbuf_pull os (length pre + ?k) b)) =
      dst @ src @ le16_bytes (eth_proto ty (of_nat (length llc - ?k))) @ drop ?k llc"
    by (simp add: eth_hdr_write_def Let_def d p)
  also have "\<dots> = dst @ src @ eth_rest llc"
  proof (cases "NRF_WIFI_FMAC_ETH_P_802_3_MIN \<le> ty")
    case True
    have "drop 6 llc = llc ! 6 # llc ! 7 # drop 8 llc"
      using assms(2) Cons_nth_drop_Suc [of 6 llc] Cons_nth_drop_Suc [of 7 llc] by simp
    moreover have "eth_proto ty n = drop_bit 8 ty OR push_bit 8 ty" for n using True by (simp add: eth_proto_def)
    ultimately show ?thesis using True k assms(4) be16_bytes [of "llc ! 6" "llc ! 7"] by (simp add: eth_rest_def)
  next
    case False
    have "ucast (of_nat n :: u32) = (of_nat n :: u16)" for n
      by (rule bit_word_eqI) (simp add: bit_simps)
    then show ?thesis using k False assms(4) by (simp add: eth_rest_def eth_proto_def)
  qed
  finally show "nb_data (eth_hdr_write os dst src ty (os_nbuf_pull os (length pre + ?k) b)) = dst @ src @ eth_rest llc" .
  show "nb_ptr (eth_hdr_write os dst src ty (os_nbuf_pull os (length pre + ?k) b)) = nb_ptr b"
    by (simp add: eth_hdr_write_def Let_def handle_law)
qed

lemma amsdu_frame:
  assumes "nb_data b = dst @ src @ len @ llc" "length dst = 6" "length src = 6" "length len = 2" "8 \<le> length llc"
    and "length (nb_data b) < 2 ^ 32"
  shows "nb_data (nrf_wifi_convert_amsdu_to_eth os b) = dst @ src @ eth_rest llc"
    "nb_ptr (nrf_wifi_convert_amsdu_to_eth os b) = nb_ptr b"
proof -
  have h: "nbuf_bytes os b 0 6 = dst" "nbuf_bytes os b 6 6 = src" "nbuf_bytes os b 14 8 = take 8 llc"
    using assms by (simp_all add: nbuf_bytes_in)
  let ?ty = "be16 (llc ! 6) (llc ! 7)"
  have t: "nrf_wifi_util_rx_get_eth_type (nbuf_bytes os b 14 8) = ?ty"
    by (simp add: h nrf_wifi_util_rx_get_eth_type_def)
  have e: "nrf_wifi_convert_amsdu_to_eth os b =
      eth_hdr_write os dst src ?ty (os_nbuf_pull os (length (dst @ src @ len) + nrf_wifi_get_skip_header_bytes ?ty) b)"
    using assms(2-4) t by (simp add: nrf_wifi_convert_amsdu_to_eth_def h Let_def)
  have d: "nb_data b = (dst @ src @ len) @ llc" "14 \<le> length (dst @ src @ len) + nrf_wifi_get_skip_header_bytes ?ty"
    "length llc < 2 ^ 32"
    using assms by simp_all
  show "nb_data (nrf_wifi_convert_amsdu_to_eth os b) = dst @ src @ eth_rest llc"
    unfolding e by (rule eth_write(1) [OF d(1) assms(5) d(2) refl d(3)])
  show "nb_ptr (nrf_wifi_convert_amsdu_to_eth os b) = nb_ptr b"
    unfolding e by (rule eth_write(2) [OF d(1) assms(5) d(2) refl d(3)])
qed

lemma mpdu_frame:
  assumes "nb_data b = hdr @ llc" "24 \<le> length hdr" "fc_tods hdr \<and> fc_fromds hdr \<longrightarrow> 30 \<le> length hdr"
    and "length hdr = unat (rx_mac_header_len c)" "8 \<le> length llc" "length (nb_data b) < 2 ^ 32"
  shows "\<exists>b'. rx_to_eth os c PKT_TYPE_MPDU b = Some b' \<and> nb_ptr b' = nb_ptr b \<and>
    nb_data b' = ds_dst hdr @ ds_src hdr @ eth_rest llc"
proof -
  let ?h = "take 30 (hdr @ llc)"
  have h: "nbuf_bytes os b 0 30 = ?h" "nbuf_bytes os b (length hdr) 8 = take 8 llc"
    using assms by (simp_all add: nbuf_bytes_in)
  have f: "fc_tods ?h = fc_tods hdr" "fc_fromds ?h = fc_fromds hdr" "addr_1 ?h = addr_1 hdr" "addr_2 ?h = addr_2 hdr"
      "addr_3 ?h = addr_3 hdr"
    using assms(2) by (auto simp: fc_tods_def fc_fromds_def nth_append drop_take take_drop [symmetric] min_def)
  have a4: "addr_4 ?h = addr_4 hdr" if "fc_tods hdr \<and> fc_fromds hdr" using assms(3) that by (simp add: drop_take)
  let ?ty = "be16 (llc ! 6) (llc ! 7)"
  have t: "nrf_wifi_util_rx_get_eth_type (nbuf_bytes os b (length hdr) 8) = ?ty"
    by (simp add: h nrf_wifi_util_rx_get_eth_type_def)
  let ?p = "os_nbuf_pull os (length hdr + nrf_wifi_get_skip_header_bytes ?ty) b"
  have e: "rx_to_eth os c PKT_TYPE_MPDU b = Some (nrf_wifi_convert_to_eth os ?p ?h ?ty)"
    using t by (simp add: rx_to_eth_def Let_def h(1) assms(4) [symmetric])
  have w: "nrf_wifi_convert_to_eth os ?p ?h ?ty = eth_hdr_write os (ds_dst hdr) (ds_src hdr) ?ty ?p"
    unfolding nrf_wifi_convert_to_eth_def f ds_dst_def ds_src_def
    using a4 by (cases "fc_tods hdr"; cases "fc_fromds hdr") (simp_all only: simp_thms if_True if_False)
  have d: "14 \<le> length hdr + nrf_wifi_get_skip_header_bytes ?ty" "length llc < 2 ^ 32" using assms by simp_all
  from eth_write [OF assms(1,5) d(1) refl d(2)] show ?thesis unfolding e w by simp
qed

end

section \<open>Properties\<close>



end
