(* ===== verification/Fmac_Rx_Loss.thy ===== *)
theory Fmac_Rx_Loss
  imports Fmac_Rx Fmac_Tx_Own
begin

text \<open>A receive buffer whose packet has an unknown type.\<close>

lemma rx_again:
  assumes "nrf_wifi_fmac_map_desc_to_pool (ucast (descriptor_id i)) t = Some (p, k)"
    and "rx_entry p k (hal_dev_ctx t) = Some e" "\<not> mapped e"
  shows "rx_packet os c i t = Some (FAIL, t)"
  using assms by (simp add: rx_packet_def Let_def on_hal_def nrf_wifi_sys_hal_buf_unmap_rx_def)

text \<open>A receive buffer is lost when its packet has an unknown type: the event is reported as
  failed, the buffer was taken back from the firmware and forgotten, but it is neither delivered
  nor freed nor given to the firmware again, and every later event for the descriptor fails
  without doing anything.\<close>

theorem rx_buffer_lost:
  assumes "rx_packet os c i s = Some (st, t)" "rx_pkt_type c = NRF_WIFI_RX_PKT_DATA" "2 < pkt_type i"
    and "fready {LOCK_PS} s" "ucast (descriptor_id i) < num_rx_bufs s"
    and "nrf_wifi_fmac_map_desc_to_pool (ucast (descriptor_id i)) s = Some (p, k)"
    and "fmac_rx_info s = Some tbl" "unat (descriptor_id i) < length tbl" "buf_nwb (tbl ! unat (descriptor_id i)) = Some b"
    and "length (rx_buf_info (hal_dev_ctx s)) = MAX_NUM_OF_RX_QUEUES" "rx_entry p k (hal_dev_ctx s) = Some e" "mapped e"
    and "nrf_wifi_bal_dma_unmap (phy_addr e) (hal_dev_ctx s) \<noteq> 0" "virt_addr e \<noteq> 0"
  shows "st = FAIL \<and> host_evs (ftrace t) = host_evs (ftrace s) \<and>
    fmac_rx_info t = Some (tbl[unat (descriptor_id i) := fmac_unmapped]) \<and>
    (\<forall>c' i'. descriptor_id i' = descriptor_id i \<longrightarrow> rx_packet os c' i' t = Some (FAIL, t))"
proof -
  let ?d = "ucast (descriptor_id i) :: u32"
  have d: "unat ?d = unat (descriptor_id i)" by (rule unat_ucast_u16)
  obtain a dat h where h: "nrf_wifi_sys_hal_buf_unmap_rx os (ucast (rx_pkt_len i)) p k (hal_dev_ctx s) = Some (a, dat, h)"
  proof (cases "nrf_wifi_sys_hal_buf_unmap_rx os (ucast (rx_pkt_len i)) p k (hal_dev_ctx s)")
    case None
    have "\<not> num_rx_bufs s \<le> ?d" using assms(5) by simp
    then have "rx_packet os c i s = None" using None assms(6) by (simp add: rx_packet_def Let_def on_hal_def)
    then show ?thesis using assms(1) by simp
  qed (metis prod_cases3 that)
  have r: "a = virt_addr e" "rx_entry p k h = Some no_buf"
    using buf_unmap_rx_run [OF assms(11,12) refl assms(13) h assms(10)] by simp_all
  have inv: "rx_to_eth os c (pkt_type i) x = None" for x
    using assms(3) by (auto simp: rx_to_eth_def Let_def)
  have t: "st = FAIL" "t = rx_info_put (unat (descriptor_id i)) fmac_unmapped (s\<lparr>hal_dev_ctx := h\<rparr>)"
  proof -
    have n: "\<not> num_rx_bufs s \<le> ?d" using assms(5) by simp
    have "rx_packet os c i s = Some (FAIL, rx_info_put (unat (descriptor_id i)) fmac_unmapped (s\<lparr>hal_dev_ctx := h\<rparr>))"
      unfolding rx_packet_def Let_def if_not_P [OF n]
      using assms(2,6-9,14) r(1) h inv d by (simp add: on_hal_def nth_opt_def Let_def)
    then show "st = FAIL" "t = rx_info_put (unat (descriptor_id i)) fmac_unmapped (s\<lparr>hal_dev_ctx := h\<rparr>)"
      using assms(1) by simp_all
  qed
  have "hal_step {LOCK_PS} (hal_dev_ctx s) h"
    using buf_unmap_rx_step [of "{LOCK_PS}" os "ucast (rx_pkt_len i)" p k "hal_dev_ctx s"] h by simp
  then have "grows (rpu_fw_booted (hal_dev_ctx s)) (ftrace s) (w_trace h)"
    using assms(4) by (simp add: hal_step_def fready_def)
  then have e: "host_evs (ftrace t) = host_evs (ftrace s)" using grows_host_evs by (simp add: t(2) rx_info_put_def)
  have m: "nrf_wifi_fmac_map_desc_to_pool ?d t = Some (p, k)"
    using assms(6) unfolding t(2) nrf_wifi_fmac_map_desc_to_pool_def
    by (simp add: rx_info_put_def cong: option.case_cong)
  have "rx_entry p k (hal_dev_ctx t) = Some no_buf" using r(2) by (simp add: t(2) rx_info_put_def)
  then have "rx_packet os c' i' t = Some (FAIL, t)" if "descriptor_id i' = descriptor_id i" for c' i'
    using rx_again [of i' t p k no_buf] m that by simp
  then show ?thesis using t e assms(7) by (simp add: rx_info_put_def)
qed

definition lost_buf :: nbuf where
  "lost_buf = \<lparr>nb_ptr = 0x30000000, nb_data_ptr = 0x20000000, nb_data = [], nb_priority = 0, nb_chksum_done = False\<rparr>"

definition rx_mapped_buf :: buf_map_info where
  "rx_mapped_buf = \<lparr>mapped = True, virt_addr = 0x20000000, phy_addr = 0xAFF60004, buf_len = 1600\<rparr>"

definition rx_loss_demo :: fmac where
  "rx_loss_demo = fmac_demo\<lparr>hal_dev_ctx := hal_awake\<lparr>rx_buf_info := [Some [no_buf], Some [no_buf], Some [rx_mapped_buf]]\<rparr>,
     fmac_rx_info := Some [fmac_unmapped, fmac_unmapped, \<lparr>buf_mapped = True, buf_nwb = Some lost_buf\<rparr>]\<rparr>"

definition rx_demo_event :: rx_buff where
  "rx_demo_event = \<lparr>rx_pkt_type = 0, rx_wdev_id = 0, rx_pkt_cnt = 1, rx_mac_header_len = 24, rx_signal = 0,
     rx_buff_infos = [\<lparr>descriptor_id = 2, rx_pkt_len = 100, pkt_type = 3\<rparr>]\<rparr>"

theorem rx_buffer_lost_witness:
  "\<exists>t. rx_packet demo_os rx_demo_event \<lparr>descriptor_id = 2, rx_pkt_len = 100, pkt_type = 3\<rparr> rx_loss_demo = Some (FAIL, t) \<and>
    (\<forall>n. rx_packet demo_os rx_demo_event \<lparr>descriptor_id = 2, rx_pkt_len = n, pkt_type = 0\<rparr> t = Some (FAIL, t))"
proof -
  let ?i = "\<lparr>descriptor_id = 2, rx_pkt_len = 100, pkt_type = 3\<rparr>"
  have m: "nrf_wifi_fmac_map_desc_to_pool 2 rx_loss_demo = Some (2, 0)"
    by (simp add: nrf_wifi_fmac_map_desc_to_pool_def rx_loss_demo_def fmac_demo_def upt_conv_Cons)
  have f: "num_rx_bufs rx_loss_demo = 3" "rx_entry 2 0 (hal_dev_ctx rx_loss_demo) = Some rx_mapped_buf"
      "fready {LOCK_PS} rx_loss_demo" "length (rx_buf_info (hal_dev_ctx rx_loss_demo)) = 3"
      "nrf_wifi_bal_dma_unmap (phy_addr rx_mapped_buf) (hal_dev_ctx rx_loss_demo) \<noteq> 0"
      "virt_addr rx_mapped_buf \<noteq> 0" "mapped rx_mapped_buf"
      "fmac_rx_info rx_loss_demo = Some [fmac_unmapped, fmac_unmapped, \<lparr>buf_mapped = True, buf_nwb = Some lost_buf\<rparr>]"
    by (simp_all add: rx_loss_demo_def fmac_demo_simps rx_entry_def rx_mapped_buf_def fready_def ps_coherent_def
        hal_awake_def hal_demo_def ps_ready_def bal_dma_unmap)
  have "\<exists>d h. nrf_wifi_sys_hal_buf_unmap_rx demo_os 100 2 0 (hal_dev_ctx rx_loss_demo) = Some (0x20000000, d, h)"
    by (simp add: nrf_wifi_sys_hal_buf_unmap_rx_def rx_loss_demo_def rx_mapped_buf_def rx_demo_simps)
  then obtain d h where "nrf_wifi_sys_hal_buf_unmap_rx demo_os 100 2 0 (hal_dev_ctx rx_loss_demo) = Some (0x20000000, d, h)"
    by blast
  then have "\<exists>st t. rx_packet demo_os rx_demo_event ?i rx_loss_demo = Some (st, t)"
    using m f(1,8) by (simp add: rx_packet_def on_hal_def Let_def nth_opt_def rx_demo_event_def rx_to_eth_def)
  then obtain st t where r: "rx_packet demo_os rx_demo_event ?i rx_loss_demo = Some (st, t)" by blast
  have "rx_pkt_type rx_demo_event = 0" by (simp add: rx_demo_event_def)
  from rx_buffer_lost [OF r this _ f(3) _ _ f(8) _ _ f(4,2,7,5,6)] m f(1) r show ?thesis by simp
qed

end
