(* ===== verification/Fmac_Rx_Deliver.thy ===== *)
theory Fmac_Rx_Deliver
  imports Fmac_Rx_Loss
begin

text \<open>What becomes of a received data packet, from the memory of the RPU to the network stack.\<close>

lemma host_on_hal:
  assumes "on_hal f s = Some (r, t)" "sat (f (hal_dev_ctx s)) (\<lambda>(r, h). hal_step L (hal_dev_ctx s) h)" "fready L s"
  shows "fready L t \<and> host_evs (ftrace t) = host_evs (ftrace s)"
proof -
  obtain h where h: "f (hal_dev_ctx s) = Some (r, h)" "t = s\<lparr>hal_dev_ctx := h\<rparr>"
    using assms(1) by (auto simp: on_hal_def split: Option.bind_splits)
  then have "ps_coherent h" "grows (rpu_fw_booted (hal_dev_ctx s)) (ftrace s) (w_trace h)"
    using assms(2,3) by (simp_all add: hal_step_def fready_def)
  then show ?thesis
    using grows_held grows_host_evs assms(3) by (metis fready_def fmac.select_convs(1) fmac.surjective fmac.update_convs(1) h(2))
qed

text \<open>Giving a new buffer to the firmware asks for at most one, and for one when it succeeds.\<close>

lemma rx_refill:
  assumes "nrf_wifi_fmac_rx_cmd_send os NRF_WIFI_FMAC_RX_CMD_TYPE_INIT d s = Some (st, t)" "fready hal_locks s"
  shows "\<exists>X. host_evs (ftrace t) = X @ host_evs (ftrace s) \<and> (X = [] \<or> (\<exists>q. X = [IoNbufAlloc q])) \<and>
    (st = SUCCESS \<longrightarrow> (\<exists>q. X = [IoNbufAlloc (Some q)]))"
proof (cases "nrf_wifi_fmac_map_desc_to_pool d s")
  case None
  then show ?thesis using assms(1) by (simp add: nrf_wifi_fmac_rx_cmd_send_def)
next
  case (Some _)
  then obtain p k e where c: "rx_cmd_init os d p k e s = Some (st, t)"
    using assms(1) by (auto simp: nrf_wifi_fmac_rx_cmd_send_def split: option.splits Option.bind_splits prod.splits)
  show ?thesis
  proof (cases "buf_mapped e")
    case True
    then show ?thesis using c by (simp add: rx_cmd_init_def)
  next
    case False
    define n where "n = ucast (buf_sz (rx_buf_pools s ! unat p)) + RX_BUF_HEADROOM"
    define h where "h = snd (osal_nbuf_alloc os n (hal_dev_ctx s))"
    define u where "u = s\<lparr>hal_dev_ctx := h\<rparr>"
    obtain q where q: "osal_nbuf_alloc os n (hal_dev_ctx s) = (q, h)" by (cases "osal_nbuf_alloc os n (hal_dev_ctx s)") (simp add: h_def)
    have tr: "ftrace u = IoNbufAlloc (map_option nb_ptr q) # ftrace s"
      using q by (auto simp: u_def osal_nbuf_alloc_def Let_def)
    have rdy: "fready hal_locks u"
      using assms(2) q by (auto simp: u_def fready_def ps_coherent_def osal_nbuf_alloc_def Let_def)
    show ?thesis
    proof (cases q)
      case None
      then show ?thesis using c False q tr by (auto simp: rx_cmd_init_def Let_def n_def u_def)
    next
      case (Some b)
      obtain a v where m: "on_hal (nrf_wifi_sys_hal_buf_map_rx os (rx_buf_mem os b d) (nb_data_ptr b) n p k) u = Some (a, v)"
          and r: "(if a = 0 then Some (FAIL, v) else on_hal (nrf_wifi_sys_hal_data_cmd_send os NRF_WIFI_HAL_MSG_TYPE_CMD_DATA_RX
            (le32_bytes a) d p) (rx_info_put (unat d) \<lparr>buf_mapped = True, buf_nwb = Some b\<rparr> v)) = Some (st, t)"
        using c False q Some by (auto simp: rx_cmd_init_def Let_def u_def simp flip: n_def split: Option.bind_splits)
      have v: "fready hal_locks v" "host_evs (ftrace v) = host_evs (ftrace u)"
        using host_on_hal [OF m buf_map_rx_step rdy] by simp_all
      have "host_evs (ftrace t) = host_evs (ftrace v)"
      proof (cases "a = 0")
        case False
        let ?w = "rx_info_put (unat d) \<lparr>buf_mapped = True, buf_nwb = Some b\<rparr> v"
        have rw: "fready hal_locks ?w" using v(1) by (simp add: rx_info_put_def fready_def)
        have sw: "sat (nrf_wifi_sys_hal_data_cmd_send os NRF_WIFI_HAL_MSG_TYPE_CMD_DATA_RX (le32_bytes a) d p (hal_dev_ctx ?w))
            (\<lambda>(st, t). hal_step hal_locks (hal_dev_ctx ?w) t)"
          by (rule hal_ok_sat [OF data_cmd_send_ok]) simp
        have "on_hal (nrf_wifi_sys_hal_data_cmd_send os NRF_WIFI_HAL_MSG_TYPE_CMD_DATA_RX (le32_bytes a) d p) ?w = Some (st, t)"
          using r False by simp
        from host_on_hal [OF this sw rw] show ?thesis by (simp add: rx_info_put_def)
      qed (use r in simp)
      then show ?thesis using tr v Some by simp
    qed
  qed
qed


definition rx_no_bufs :: os where
  "rx_no_bufs = demo_os\<lparr>os_nbuf_alloc := \<lambda>_ _. None\<rparr>"


end
