(* ===== verification/Fmac_Ap.thy ===== *)
theory Fmac_Ap
  imports Fmac_Tx_Own
begin

text \<open>The power save of the clients of an access point
  (\<open>fw_if/umac_if/src/system/fmac_ap.c\<close>) and the packet filter of the promiscuous mode
  (\<open>fmac_promisc.c\<close>). The queue of the woken peers exists while the transmit path is set up; a peer
  whose node cannot be allocated is not queued, and nobody looks at the result.\<close>

section \<open>Waking a client\<close>

definition wakeup_q_add :: "os \<Rightarrow> nat \<Rightarrow> fmac \<Rightarrow> fmac" where
  "wakeup_q_add os i s =
    (let (ok, s) = falloc os OBJ_Q_NODE s in
     if ok then s\<lparr>wakeup_client_q := wakeup_client_q s @ [i]\<rparr> else s)"

text \<open>The loop over the access categories: a descriptor is taken for each, and given back when
  there is nothing to send; what the transmission reports is ignored.\<close>

fun sap_send_loop :: "os \<Rightarrow> nat list \<Rightarrow> fmac \<Rightarrow> fmac option" where
  "sap_send_loop os [] s = Some s"
| "sap_send_loop os (ac # acs) s = do {
     (desc, s) \<leftarrow> tx_desc_get ac s;
     s \<leftarrow> (if desc < unat (num_tx_tokens s) then do { (_, s) \<leftarrow> tx_pending_process os desc ac s; Some s }
        else Some s);
     sap_send_loop os acs s
   }"

abbreviation sap_acs :: "nat list" where
  "sap_acs \<equiv> [NRF_WIFI_FMAC_AC_VO, NRF_WIFI_FMAC_AC_VI, NRF_WIFI_FMAC_AC_BE, NRF_WIFI_FMAC_AC_BK]"

definition sap_wake :: "os \<Rightarrow> nat \<Rightarrow> fmac \<Rightarrow> fmac option" where
  "sap_wake os i s = sap_send_loop os sap_acs (wakeup_q_add os i s)"

record nrf_wifi_sap_ps_get_frames =
  gf_mac_addr :: "u8 list"
  gf_num_frames :: u8

text \<open>The number of frames is a signed character.\<close>

definition sap_get_frames_locked :: "os \<Rightarrow> nrf_wifi_sap_ps_get_frames \<Rightarrow> fmac \<Rightarrow> (nrf_status \<times> fmac) option" where
  "sap_get_frames_locked os c s =
    (let id = nrf_wifi_fmac_peer_get_id (gf_mac_addr c) s; i = nat id in
     if id = -1 then Some (FAIL, s)
     else do {
       s \<leftarrow> sap_wake os i (peer_put i ((peers s ! i)\<lparr>ps_token_count := sint (gf_num_frames c)\<rparr>) s);
       Some (SUCCESS, s)
     })"

definition sap_client_ps_get_frames :: "os \<Rightarrow> nrf_wifi_sap_ps_get_frames \<Rightarrow> fmac \<Rightarrow> (nrf_status \<times> fmac) option" where
  "sap_client_ps_get_frames os c s = do {
     (st, s) \<leftarrow> sap_get_frames_locked os c (femit (IoLock LOCK_TX) s);
     Some (st, femit (IoUnlock LOCK_TX) s)
   }"

record nrf_wifi_sap_client_pwrsave =
  pm_sta_ps_state :: u8
  pm_mac_addr :: "u8 list"

definition sap_pmmode_locked :: "os \<Rightarrow> nrf_wifi_sap_client_pwrsave \<Rightarrow> fmac \<Rightarrow> (nrf_status \<times> fmac) option" where
  "sap_pmmode_locked os c s =
    (let id = nrf_wifi_fmac_peer_get_id (pm_mac_addr c) s; i = nat id in
     if id = -1 then Some (FAIL, s)
     else let s = peer_put i ((peers s ! i)\<lparr>ps_state := pm_sta_ps_state c\<rparr>) s in
       if pm_sta_ps_state c = NRF_WIFI_CLIENT_ACTIVE then do { s \<leftarrow> sap_wake os i s; Some (SUCCESS, s) }
       else Some (SUCCESS, s))"

definition sap_client_update_pmmode :: "os \<Rightarrow> nrf_wifi_sap_client_pwrsave \<Rightarrow> fmac \<Rightarrow> (nrf_status \<times> fmac) option" where
  "sap_client_update_pmmode os c s = do {
     (st, s) \<leftarrow> sap_pmmode_locked os c (femit (IoLock LOCK_TX) s);
     Some (st, femit (IoUnlock LOCK_TX) s)
   }"

section \<open>The packet filter\<close>

text \<open>The type of a frame, bits 2 and 3 of its frame control.\<close>

definition frm_type :: "u16 \<Rightarrow> u16" where
  "frm_type frame_control = drop_bit 2 frame_control AND 3"

abbreviation (input) NRF_WIFI_MGMT_PKT_TYPE :: u16 where "NRF_WIFI_MGMT_PKT_TYPE \<equiv> 0"
abbreviation (input) NRF_WIFI_CTRL_PKT_TYPE :: u16 where "NRF_WIFI_CTRL_PKT_TYPE \<equiv> 1"
abbreviation (input) NRF_WIFI_DATA_PKT_TYPE :: u16 where "NRF_WIFI_DATA_PKT_TYPE \<equiv> 2"

definition nrf_wifi_util_check_filt_setting :: "u8 \<Rightarrow> u16 \<Rightarrow> bool" where
  "nrf_wifi_util_check_filt_setting packet_filter frame_control =
    (let ty = frm_type frame_control in
     if packet_filter = 2 then ty = NRF_WIFI_MGMT_PKT_TYPE
     else if packet_filter = 4 then ty = NRF_WIFI_DATA_PKT_TYPE
     else if packet_filter = 6 then ty = NRF_WIFI_DATA_PKT_TYPE \<or> ty = NRF_WIFI_MGMT_PKT_TYPE
     else if packet_filter = 8 then ty = NRF_WIFI_CTRL_PKT_TYPE
     else if packet_filter = 0xA then ty = NRF_WIFI_CTRL_PKT_TYPE \<or> ty = NRF_WIFI_MGMT_PKT_TYPE
     else if packet_filter = 0xC then ty = NRF_WIFI_DATA_PKT_TYPE \<or> ty = NRF_WIFI_CTRL_PKT_TYPE
     else True)"

section \<open>Steps\<close>

lemma wakeup_q_add_fstep: "fstep L x s t \<Longrightarrow> fstep L x s (wakeup_q_add os i t)"
  by (auto simp: wakeup_q_add_def Let_def split: prod.splits intro: fsteps)

lemma sap_send_fstep:
  "sap_send_loop os acs s = Some t \<Longrightarrow> nodes_ok os \<Longrightarrow> LOCK_PS \<in> L \<Longrightarrow> LOCK_HAL \<in> L \<Longrightarrow> fstep L x s0 s \<Longrightarrow>
   fstep L x s0 t"
proof (induction acs arbitrary: s)
  case (Cons ac acs)
  obtain d u where g: "tx_desc_get ac s = Some (d, u)"
    using Cons.prems(1) by (cases "tx_desc_get ac s") auto
  have u: "fstep L x s0 u" using desc_get_fstep [OF g Cons.prems(5)] .
  show ?case
  proof (cases "d < unat (num_tx_tokens u)")
    case True
    then obtain st v where p: "tx_pending_process os d ac u = Some (st, v)" "sap_send_loop os acs v = Some t"
      using Cons.prems(1) g by (cases "tx_pending_process os d ac u") auto
    from pending_process_fstep [OF Cons.prems(2) p(1) Cons.prems(3,4) u] show ?thesis
      using Cons.IH [OF p(2) Cons.prems(2-4)] by blast
  next
    case False
    then have "sap_send_loop os acs u = Some t" using Cons.prems(1) g by simp
    from Cons.IH [OF this Cons.prems(2-4) u] show ?thesis .
  qed
qed simp

lemma sap_wake_fstep:
  "sap_wake os i s = Some t \<Longrightarrow> nodes_ok os \<Longrightarrow> LOCK_PS \<in> L \<Longrightarrow> LOCK_HAL \<in> L \<Longrightarrow> fstep L x s0 s \<Longrightarrow> fstep L x s0 t"
  unfolding sap_wake_def by (erule sap_send_fstep; blast intro: wakeup_q_add_fstep)

lemma get_frames_fstep:
  assumes "sap_client_ps_get_frames os c s = Some (st, t)" "nodes_ok os"
  shows "fstep tx_locks {#} s t"
proof -
  let ?s = "femit (IoLock LOCK_TX) s"
  obtain u where u: "sap_get_frames_locked os c ?s = Some (st, u)" and t: "t = femit (IoUnlock LOCK_TX) u"
    using assms(1) by (auto simp: sap_client_ps_get_frames_def split: Option.bind_splits)
  have "fstep (tx_locks - {LOCK_TX}) {#} ?s u"
    using u sap_wake_fstep [OF _ assms(2)]
    by (auto simp: sap_get_frames_locked_def Let_def split: if_splits Option.bind_splits)
  from fstep_locked [OF this] show ?thesis by (simp add: t)
qed

lemma update_pmmode_fstep:
  assumes "sap_client_update_pmmode os c s = Some (st, t)" "nodes_ok os"
  shows "fstep tx_locks {#} s t"
proof -
  let ?s = "femit (IoLock LOCK_TX) s"
  obtain u where u: "sap_pmmode_locked os c ?s = Some (st, u)" and t: "t = femit (IoUnlock LOCK_TX) u"
    using assms(1) by (auto simp: sap_client_update_pmmode_def split: Option.bind_splits)
  have "fstep (tx_locks - {LOCK_TX}) {#} ?s u"
    using u sap_wake_fstep [OF _ assms(2)]
    by (auto simp: sap_pmmode_locked_def Let_def split: if_splits Option.bind_splits)
  from fstep_locked [OF this] show ?thesis by (simp add: t)
qed

text \<open>The filter has one bit per type of frame; bit 0 lets everything pass, and so do no bits and
  all three.\<close>

lemma check_filt_setting_bits:
  assumes "packet_filter < 16"
  shows "nrf_wifi_util_check_filt_setting packet_filter fc =
    (bit packet_filter 0 \<or> packet_filter = 0 \<or> packet_filter = 14 \<or>
     frm_type fc = 0 \<and> bit packet_filter 1 \<or> frm_type fc = 2 \<and> bit packet_filter 2 \<or>
     frm_type fc = 1 \<and> bit packet_filter 3)"
proof -
  have "packet_filter \<in> of_nat ` {0..<16}"
    using assms by (intro image_eqI [of _ _ "unat packet_filter"]) (auto simp: word_less_nat_alt)
  then show ?thesis
    by (auto simp: nrf_wifi_util_check_filt_setting_def Let_def atLeastLessThan_nat_numeral)
qed

end
