(* ===== verification/Fmac_Msg.thy ===== *)
theory Fmac_Msg
  imports Fmac_Cmd
begin

text \<open>The structures of the management commands
  (\<open>fw_if/umac_if/inc/fw/host_rpu_umac_if.h\<close>): a record for each, with the names of the fields
  behind a prefix that stands for the structure, its bytes in the packed, little-endian layout,
  and the lengths of its arrays. A signed number is kept as the word of its bits.\<close>

lemma le32s_size [simp]: "length (concat (map le32_bytes ws)) = 4 * length ws"
  by (induction ws) simp_all

section \<open>Elements\<close>

record nrf_wifi_ssid =
  ssid_len :: u8
  ssid_ssid :: "u8 list"

definition nrf_wifi_ssid_bytes :: "nrf_wifi_ssid \<Rightarrow> u8 list" where
  "nrf_wifi_ssid_bytes r =
    [ssid_len r] @ ssid_ssid r"

definition nrf_wifi_ssid_wf :: "nrf_wifi_ssid \<Rightarrow> bool" where
  "nrf_wifi_ssid_wf r = (length (ssid_ssid r) = 32)"

lemma nrf_wifi_ssid_size [simp]: "nrf_wifi_ssid_wf r \<Longrightarrow> length (nrf_wifi_ssid_bytes r) = 33"
  by (simp add: nrf_wifi_ssid_bytes_def nrf_wifi_ssid_wf_def)

lemma ssids_size [simp]:
  "list_all nrf_wifi_ssid_wf rs \<Longrightarrow> length (concat (map nrf_wifi_ssid_bytes rs)) = 33 * length rs"
  by (induction rs) simp_all

record nrf_wifi_ie =
  ie_len :: u16
  ie_ie :: "u8 list"

definition nrf_wifi_ie_bytes :: "nrf_wifi_ie \<Rightarrow> u8 list" where
  "nrf_wifi_ie_bytes r =
    le16_bytes (ie_len r) @ ie_ie r"

definition nrf_wifi_ie_wf :: "nrf_wifi_ie \<Rightarrow> bool" where
  "nrf_wifi_ie_wf r = (length (ie_ie r) = 400)"

lemma nrf_wifi_ie_size [simp]: "nrf_wifi_ie_wf r \<Longrightarrow> length (nrf_wifi_ie_bytes r) = 402"
  by (simp add: nrf_wifi_ie_bytes_def nrf_wifi_ie_wf_def)

record nrf_wifi_seq =
  seq_len :: u32
  seq_seq :: "u8 list"

definition nrf_wifi_seq_bytes :: "nrf_wifi_seq \<Rightarrow> u8 list" where
  "nrf_wifi_seq_bytes r =
    le32_bytes (seq_len r) @ seq_seq r"

definition nrf_wifi_seq_wf :: "nrf_wifi_seq \<Rightarrow> bool" where
  "nrf_wifi_seq_wf r = (length (seq_seq r) = 256)"

lemma nrf_wifi_seq_size [simp]: "nrf_wifi_seq_wf r \<Longrightarrow> length (nrf_wifi_seq_bytes r) = 260"
  by (simp add: nrf_wifi_seq_bytes_def nrf_wifi_seq_wf_def)

record nrf_wifi_key =
  key_len :: u32
  key_key :: "u8 list"

definition nrf_wifi_key_bytes :: "nrf_wifi_key \<Rightarrow> u8 list" where
  "nrf_wifi_key_bytes r =
    le32_bytes (key_len r) @ key_key r"

definition nrf_wifi_key_wf :: "nrf_wifi_key \<Rightarrow> bool" where
  "nrf_wifi_key_wf r = (length (key_key r) = 256)"

lemma nrf_wifi_key_size [simp]: "nrf_wifi_key_wf r \<Longrightarrow> length (nrf_wifi_key_bytes r) = 260"
  by (simp add: nrf_wifi_key_bytes_def nrf_wifi_key_wf_def)

record nrf_wifi_sae =
  sae_data_len :: u32
  sae_data :: "u8 list"

definition nrf_wifi_sae_bytes :: "nrf_wifi_sae \<Rightarrow> u8 list" where
  "nrf_wifi_sae_bytes r =
    le32_bytes (sae_data_len r) @ sae_data r"

definition nrf_wifi_sae_wf :: "nrf_wifi_sae \<Rightarrow> bool" where
  "nrf_wifi_sae_wf r = (length (sae_data r) = 256)"

lemma nrf_wifi_sae_size [simp]: "nrf_wifi_sae_wf r \<Longrightarrow> length (nrf_wifi_sae_bytes r) = 260"
  by (simp add: nrf_wifi_sae_bytes_def nrf_wifi_sae_wf_def)

section \<open>Scanning\<close>

record nrf_wifi_scan_params =
  sp_passive_scan :: u16
  sp_num_scan_ssids :: u8
  sp_scan_ssids :: "nrf_wifi_ssid list"
  sp_no_cck :: u8
  sp_bands :: u8
  sp_ie :: nrf_wifi_ie
  sp_mac_addr :: "u8 list"
  sp_dwell_time_active :: u16
  sp_dwell_time_passive :: u16
  sp_num_scan_channels :: u16
  sp_skip_local_admin_macs :: u8

definition nrf_wifi_scan_params_bytes :: "nrf_wifi_scan_params \<Rightarrow> u8 list" where
  "nrf_wifi_scan_params_bytes r =
    le16_bytes (sp_passive_scan r) @ [sp_num_scan_ssids r] @
    concat (map nrf_wifi_ssid_bytes (sp_scan_ssids r)) @ [sp_no_cck r] @ [sp_bands r] @
    nrf_wifi_ie_bytes (sp_ie r) @ sp_mac_addr r @ le16_bytes (sp_dwell_time_active r) @
    le16_bytes (sp_dwell_time_passive r) @ le16_bytes (sp_num_scan_channels r) @
    [sp_skip_local_admin_macs r]"

definition nrf_wifi_scan_params_wf :: "nrf_wifi_scan_params \<Rightarrow> bool" where
  "nrf_wifi_scan_params_wf r = (length (sp_scan_ssids r) = 2 \<and> list_all nrf_wifi_ssid_wf (sp_scan_ssids r) \<and>
    nrf_wifi_ie_wf (sp_ie r) \<and> length (sp_mac_addr r) = 6)"

lemma nrf_wifi_scan_params_size [simp]: "nrf_wifi_scan_params_wf r \<Longrightarrow> length (nrf_wifi_scan_params_bytes r) = 486"
  by (simp add: nrf_wifi_scan_params_bytes_def nrf_wifi_scan_params_wf_def)

record nrf_wifi_umac_scan_info =
  si_scan_reason :: u32
  si_scan_params :: nrf_wifi_scan_params

definition nrf_wifi_umac_scan_info_bytes :: "nrf_wifi_umac_scan_info \<Rightarrow> u8 list" where
  "nrf_wifi_umac_scan_info_bytes r =
    le32_bytes (si_scan_reason r) @ nrf_wifi_scan_params_bytes (si_scan_params r)"

definition nrf_wifi_umac_scan_info_wf :: "nrf_wifi_umac_scan_info \<Rightarrow> bool" where
  "nrf_wifi_umac_scan_info_wf r = (nrf_wifi_scan_params_wf (si_scan_params r))"

lemma nrf_wifi_umac_scan_info_size [simp]: "nrf_wifi_umac_scan_info_wf r \<Longrightarrow> length (nrf_wifi_umac_scan_info_bytes r) = 490"
  by (simp add: nrf_wifi_umac_scan_info_bytes_def nrf_wifi_umac_scan_info_wf_def)

section \<open>Keys, authentication, association\<close>

record nrf_wifi_umac_key_info =
  ki_valid_fields :: u32
  ki_cipher_suite :: u32
  ki_flags :: u16
  ki_key_type :: u32
  ki_key :: nrf_wifi_key
  ki_seq :: nrf_wifi_seq
  ki_key_idx :: u8

definition nrf_wifi_umac_key_info_bytes :: "nrf_wifi_umac_key_info \<Rightarrow> u8 list" where
  "nrf_wifi_umac_key_info_bytes r =
    le32_bytes (ki_valid_fields r) @ le32_bytes (ki_cipher_suite r) @ le16_bytes (ki_flags r) @
    le32_bytes (ki_key_type r) @ nrf_wifi_key_bytes (ki_key r) @ nrf_wifi_seq_bytes (ki_seq r) @
    [ki_key_idx r]"

definition nrf_wifi_umac_key_info_wf :: "nrf_wifi_umac_key_info \<Rightarrow> bool" where
  "nrf_wifi_umac_key_info_wf r = (nrf_wifi_key_wf (ki_key r) \<and> nrf_wifi_seq_wf (ki_seq r))"

lemma nrf_wifi_umac_key_info_size [simp]: "nrf_wifi_umac_key_info_wf r \<Longrightarrow> length (nrf_wifi_umac_key_info_bytes r) = 535"
  by (simp add: nrf_wifi_umac_key_info_bytes_def nrf_wifi_umac_key_info_wf_def)

record nrf_wifi_umac_auth_info =
  au_frequency :: u32
  au_flags :: u16
  au_auth_type :: u32
  au_key_info :: nrf_wifi_umac_key_info
  au_ssid :: nrf_wifi_ssid
  au_ie :: nrf_wifi_ie
  au_sae :: nrf_wifi_sae
  au_bssid :: "u8 list"
  au_scan_width :: u32
  au_signal :: u32
  au_from_beacon :: u32
  au_bss_ie :: nrf_wifi_ie
  au_capability :: u16
  au_beacon_interval :: u16
  au_tsf :: "64 word"

definition nrf_wifi_umac_auth_info_bytes :: "nrf_wifi_umac_auth_info \<Rightarrow> u8 list" where
  "nrf_wifi_umac_auth_info_bytes r =
    le32_bytes (au_frequency r) @ le16_bytes (au_flags r) @ le32_bytes (au_auth_type r) @
    nrf_wifi_umac_key_info_bytes (au_key_info r) @ nrf_wifi_ssid_bytes (au_ssid r) @
    nrf_wifi_ie_bytes (au_ie r) @ nrf_wifi_sae_bytes (au_sae r) @ au_bssid r @
    le32_bytes (au_scan_width r) @ le32_bytes (au_signal r) @ le32_bytes (au_from_beacon r) @
    nrf_wifi_ie_bytes (au_bss_ie r) @ le16_bytes (au_capability r) @
    le16_bytes (au_beacon_interval r) @ le64_bytes (au_tsf r)"

definition nrf_wifi_umac_auth_info_wf :: "nrf_wifi_umac_auth_info \<Rightarrow> bool" where
  "nrf_wifi_umac_auth_info_wf r = (nrf_wifi_umac_key_info_wf (au_key_info r) \<and> nrf_wifi_ssid_wf (au_ssid r) \<and>
    nrf_wifi_ie_wf (au_ie r) \<and> nrf_wifi_sae_wf (au_sae r) \<and>
    length (au_bssid r) = 6 \<and> nrf_wifi_ie_wf (au_bss_ie r))"

lemma nrf_wifi_umac_auth_info_size [simp]: "nrf_wifi_umac_auth_info_wf r \<Longrightarrow> length (nrf_wifi_umac_auth_info_bytes r) = 1672"
  by (simp add: nrf_wifi_umac_auth_info_bytes_def nrf_wifi_umac_auth_info_wf_def)

record nrf_wifi_umac_disconn_info =
  dc_flags :: u16
  dc_reason_code :: u16
  dc_mac_addr :: "u8 list"

definition nrf_wifi_umac_disconn_info_bytes :: "nrf_wifi_umac_disconn_info \<Rightarrow> u8 list" where
  "nrf_wifi_umac_disconn_info_bytes r =
    le16_bytes (dc_flags r) @ le16_bytes (dc_reason_code r) @ dc_mac_addr r"

definition nrf_wifi_umac_disconn_info_wf :: "nrf_wifi_umac_disconn_info \<Rightarrow> bool" where
  "nrf_wifi_umac_disconn_info_wf r = (length (dc_mac_addr r) = 6)"

lemma nrf_wifi_umac_disconn_info_size [simp]: "nrf_wifi_umac_disconn_info_wf r \<Longrightarrow> length (nrf_wifi_umac_disconn_info_bytes r) = 10"
  by (simp add: nrf_wifi_umac_disconn_info_bytes_def nrf_wifi_umac_disconn_info_wf_def)

record nrf_wifi_ht_vht_capabilities =
  hv_valid_fields :: u32
  hv_flags :: u16
  hv_ht_capability :: "u8 list"
  hv_ht_capability_mask :: "u8 list"
  hv_vht_capability :: "u8 list"
  hv_vht_capability_mask :: "u8 list"

definition nrf_wifi_ht_vht_capabilities_bytes :: "nrf_wifi_ht_vht_capabilities \<Rightarrow> u8 list" where
  "nrf_wifi_ht_vht_capabilities_bytes r =
    le32_bytes (hv_valid_fields r) @ le16_bytes (hv_flags r) @ hv_ht_capability r @
    hv_ht_capability_mask r @ hv_vht_capability r @ hv_vht_capability_mask r"

definition nrf_wifi_ht_vht_capabilities_wf :: "nrf_wifi_ht_vht_capabilities \<Rightarrow> bool" where
  "nrf_wifi_ht_vht_capabilities_wf r = (length (hv_ht_capability r) = 256 \<and> length (hv_ht_capability_mask r) = 256 \<and>
    length (hv_vht_capability r) = 256 \<and> length (hv_vht_capability_mask r) = 256)"

lemma nrf_wifi_ht_vht_capabilities_size [simp]: "nrf_wifi_ht_vht_capabilities_wf r \<Longrightarrow> length (nrf_wifi_ht_vht_capabilities_bytes r) = 1030"
  by (simp add: nrf_wifi_ht_vht_capabilities_bytes_def nrf_wifi_ht_vht_capabilities_wf_def)

record nrf_wifi_connect_common_info =
  cc_valid_fields :: u32
  cc_frequency :: u32
  cc_freq_hint :: u32
  cc_wpa_versions :: u32
  cc_num_cipher_suites_pairwise :: u32
  cc_cipher_suites_pairwise :: "u32 list"
  cc_cipher_suite_group :: u32
  cc_num_akm_suites :: u32
  cc_akm_suites :: "u32 list"
  cc_use_mfp :: u32
  cc_flags :: u32
  cc_bg_scan_period :: u16
  cc_mac_addr :: "u8 list"
  cc_mac_addr_hint :: "u8 list"
  cc_ssid :: nrf_wifi_ssid
  cc_wpa_ie :: nrf_wifi_ie
  cc_ht_vht_capabilities :: nrf_wifi_ht_vht_capabilities
  cc_control_port_ether_type :: u16
  cc_control_port_no_encrypt :: u8
  cc_control_port :: u8
  cc_prev_bssid :: "u8 list"
  cc_maxidle_insec :: u16

definition nrf_wifi_connect_common_info_bytes :: "nrf_wifi_connect_common_info \<Rightarrow> u8 list" where
  "nrf_wifi_connect_common_info_bytes r =
    le32_bytes (cc_valid_fields r) @ le32_bytes (cc_frequency r) @ le32_bytes (cc_freq_hint r) @
    le32_bytes (cc_wpa_versions r) @ le32_bytes (cc_num_cipher_suites_pairwise r) @
    concat (map le32_bytes (cc_cipher_suites_pairwise r)) @ le32_bytes (cc_cipher_suite_group r) @
    le32_bytes (cc_num_akm_suites r) @ concat (map le32_bytes (cc_akm_suites r)) @
    le32_bytes (cc_use_mfp r) @ le32_bytes (cc_flags r) @ le16_bytes (cc_bg_scan_period r) @
    cc_mac_addr r @ cc_mac_addr_hint r @ nrf_wifi_ssid_bytes (cc_ssid r) @
    nrf_wifi_ie_bytes (cc_wpa_ie r) @
    nrf_wifi_ht_vht_capabilities_bytes (cc_ht_vht_capabilities r) @
    le16_bytes (cc_control_port_ether_type r) @ [cc_control_port_no_encrypt r] @
    [cc_control_port r] @ cc_prev_bssid r @ le16_bytes (cc_maxidle_insec r)"

definition nrf_wifi_connect_common_info_wf :: "nrf_wifi_connect_common_info \<Rightarrow> bool" where
  "nrf_wifi_connect_common_info_wf r = (length (cc_cipher_suites_pairwise r) = 7 \<and> length (cc_akm_suites r) = 2 \<and>
    length (cc_mac_addr r) = 6 \<and> length (cc_mac_addr_hint r) = 6 \<and>
    nrf_wifi_ssid_wf (cc_ssid r) \<and> nrf_wifi_ie_wf (cc_wpa_ie r) \<and>
    nrf_wifi_ht_vht_capabilities_wf (cc_ht_vht_capabilities r) \<and> length (cc_prev_bssid r) = 6)"

lemma nrf_wifi_connect_common_info_size [simp]: "nrf_wifi_connect_common_info_wf r \<Longrightarrow> length (nrf_wifi_connect_common_info_bytes r) = 1563"
  by (simp add: nrf_wifi_connect_common_info_bytes_def nrf_wifi_connect_common_info_wf_def)

record nrf_wifi_umac_assoc_info =
  asc_center_frequency :: u32
  asc_ssid :: nrf_wifi_ssid
  asc_bssid :: "u8 list"
  asc_wpa_ie :: nrf_wifi_ie
  asc_use_mfp :: u8
  asc_control_port :: u8
  asc_prev_bssid_flag :: u32
  asc_prev_bssid :: "u8 list"
  asc_bss_max_idle_time :: u16
  asc_conn_type :: u8

definition nrf_wifi_umac_assoc_info_bytes :: "nrf_wifi_umac_assoc_info \<Rightarrow> u8 list" where
  "nrf_wifi_umac_assoc_info_bytes r =
    le32_bytes (asc_center_frequency r) @ nrf_wifi_ssid_bytes (asc_ssid r) @ asc_bssid r @
    nrf_wifi_ie_bytes (asc_wpa_ie r) @ [asc_use_mfp r] @ [asc_control_port r] @
    le32_bytes (asc_prev_bssid_flag r) @ asc_prev_bssid r @ le16_bytes (asc_bss_max_idle_time r) @
    [asc_conn_type r]"

definition nrf_wifi_umac_assoc_info_wf :: "nrf_wifi_umac_assoc_info \<Rightarrow> bool" where
  "nrf_wifi_umac_assoc_info_wf r = (nrf_wifi_ssid_wf (asc_ssid r) \<and> length (asc_bssid r) = 6 \<and>
    nrf_wifi_ie_wf (asc_wpa_ie r) \<and> length (asc_prev_bssid r) = 6)"

lemma nrf_wifi_umac_assoc_info_size [simp]: "nrf_wifi_umac_assoc_info_wf r \<Longrightarrow> length (nrf_wifi_umac_assoc_info_bytes r) = 460"
  by (simp add: nrf_wifi_umac_assoc_info_bytes_def nrf_wifi_umac_assoc_info_wf_def)

section \<open>Stations\<close>

record nrf_wifi_supp_rates =
  sr_valid_fields :: u32
  sr_band :: u32
  sr_num_rates :: u32
  sr_rates :: "u8 list"

definition nrf_wifi_supp_rates_bytes :: "nrf_wifi_supp_rates \<Rightarrow> u8 list" where
  "nrf_wifi_supp_rates_bytes r =
    le32_bytes (sr_valid_fields r) @ le32_bytes (sr_band r) @ le32_bytes (sr_num_rates r) @
    sr_rates r"

definition nrf_wifi_supp_rates_wf :: "nrf_wifi_supp_rates \<Rightarrow> bool" where
  "nrf_wifi_supp_rates_wf r = (length (sr_rates r) = 60)"

lemma nrf_wifi_supp_rates_size [simp]: "nrf_wifi_supp_rates_wf r \<Longrightarrow> length (nrf_wifi_supp_rates_bytes r) = 72"
  by (simp add: nrf_wifi_supp_rates_bytes_def nrf_wifi_supp_rates_wf_def)

record nrf_wifi_ext_capability =
  ec_ext_capability_len :: u32
  ec_ext_capability :: "u8 list"

definition nrf_wifi_ext_capability_bytes :: "nrf_wifi_ext_capability \<Rightarrow> u8 list" where
  "nrf_wifi_ext_capability_bytes r =
    le32_bytes (ec_ext_capability_len r) @ ec_ext_capability r"

definition nrf_wifi_ext_capability_wf :: "nrf_wifi_ext_capability \<Rightarrow> bool" where
  "nrf_wifi_ext_capability_wf r = (length (ec_ext_capability r) = 32)"

lemma nrf_wifi_ext_capability_size [simp]: "nrf_wifi_ext_capability_wf r \<Longrightarrow> length (nrf_wifi_ext_capability_bytes r) = 36"
  by (simp add: nrf_wifi_ext_capability_bytes_def nrf_wifi_ext_capability_wf_def)

record nrf_wifi_supported_channels =
  sch_supported_channels_len :: u32
  sch_supported_channels :: "u8 list"

definition nrf_wifi_supported_channels_bytes :: "nrf_wifi_supported_channels \<Rightarrow> u8 list" where
  "nrf_wifi_supported_channels_bytes r =
    le32_bytes (sch_supported_channels_len r) @ sch_supported_channels r"

definition nrf_wifi_supported_channels_wf :: "nrf_wifi_supported_channels \<Rightarrow> bool" where
  "nrf_wifi_supported_channels_wf r = (length (sch_supported_channels r) = 64)"

lemma nrf_wifi_supported_channels_size [simp]: "nrf_wifi_supported_channels_wf r \<Longrightarrow> length (nrf_wifi_supported_channels_bytes r) = 68"
  by (simp add: nrf_wifi_supported_channels_bytes_def nrf_wifi_supported_channels_wf_def)

record nrf_wifi_supported_oper_classes =
  soc_supported_oper_classes_len :: u32
  soc_supported_oper_classes :: "u8 list"

definition nrf_wifi_supported_oper_classes_bytes :: "nrf_wifi_supported_oper_classes \<Rightarrow> u8 list" where
  "nrf_wifi_supported_oper_classes_bytes r =
    le32_bytes (soc_supported_oper_classes_len r) @ soc_supported_oper_classes r"

definition nrf_wifi_supported_oper_classes_wf :: "nrf_wifi_supported_oper_classes \<Rightarrow> bool" where
  "nrf_wifi_supported_oper_classes_wf r = (length (soc_supported_oper_classes r) = 64)"

lemma nrf_wifi_supported_oper_classes_size [simp]: "nrf_wifi_supported_oper_classes_wf r \<Longrightarrow> length (nrf_wifi_supported_oper_classes_bytes r) = 68"
  by (simp add: nrf_wifi_supported_oper_classes_bytes_def nrf_wifi_supported_oper_classes_wf_def)

record nrf_wifi_sta_flag_update =
  sf_mask :: u32
  sf_set :: u32

definition nrf_wifi_sta_flag_update_bytes :: "nrf_wifi_sta_flag_update \<Rightarrow> u8 list" where
  "nrf_wifi_sta_flag_update_bytes r =
    le32_bytes (sf_mask r) @ le32_bytes (sf_set r)"

abbreviation nrf_wifi_sta_flag_update_wf :: "nrf_wifi_sta_flag_update \<Rightarrow> bool" where
  "nrf_wifi_sta_flag_update_wf r \<equiv> True"

lemma nrf_wifi_sta_flag_update_size [simp]: "length (nrf_wifi_sta_flag_update_bytes r) = 8"
  by (simp add: nrf_wifi_sta_flag_update_bytes_def)

record nrf_wifi_umac_chg_sta_info =
  cs_listen_interval :: u32
  cs_sta_vlan :: u32
  cs_aid :: u16
  cs_peer_aid :: u16
  cs_sta_capability :: u16
  cs_spare :: u16
  cs_supp_rates :: nrf_wifi_supp_rates
  cs_ext_capability :: nrf_wifi_ext_capability
  cs_supported_channels :: nrf_wifi_supported_channels
  cs_supported_oper_classes :: nrf_wifi_supported_oper_classes
  cs_sta_flags2 :: nrf_wifi_sta_flag_update
  cs_ht_capability :: "u8 list"
  cs_vht_capability :: "u8 list"
  cs_mac_addr :: "u8 list"
  cs_opmode_notif :: u8
  cs_wme_uapsd_queues :: u8
  cs_wme_max_sp :: u8

definition nrf_wifi_umac_chg_sta_info_bytes :: "nrf_wifi_umac_chg_sta_info \<Rightarrow> u8 list" where
  "nrf_wifi_umac_chg_sta_info_bytes r =
    le32_bytes (cs_listen_interval r) @ le32_bytes (cs_sta_vlan r) @ le16_bytes (cs_aid r) @
    le16_bytes (cs_peer_aid r) @ le16_bytes (cs_sta_capability r) @ le16_bytes (cs_spare r) @
    nrf_wifi_supp_rates_bytes (cs_supp_rates r) @
    nrf_wifi_ext_capability_bytes (cs_ext_capability r) @
    nrf_wifi_supported_channels_bytes (cs_supported_channels r) @
    nrf_wifi_supported_oper_classes_bytes (cs_supported_oper_classes r) @
    nrf_wifi_sta_flag_update_bytes (cs_sta_flags2 r) @ cs_ht_capability r @ cs_vht_capability r @
    cs_mac_addr r @ [cs_opmode_notif r] @ [cs_wme_uapsd_queues r] @ [cs_wme_max_sp r]"

definition nrf_wifi_umac_chg_sta_info_wf :: "nrf_wifi_umac_chg_sta_info \<Rightarrow> bool" where
  "nrf_wifi_umac_chg_sta_info_wf r = (nrf_wifi_supp_rates_wf (cs_supp_rates r) \<and>
    nrf_wifi_ext_capability_wf (cs_ext_capability r) \<and>
    nrf_wifi_supported_channels_wf (cs_supported_channels r) \<and>
    nrf_wifi_supported_oper_classes_wf (cs_supported_oper_classes r) \<and>
    nrf_wifi_sta_flag_update_wf (cs_sta_flags2 r) \<and> length (cs_ht_capability r) = 256 \<and>
    length (cs_vht_capability r) = 256 \<and> length (cs_mac_addr r) = 6)"

lemma nrf_wifi_umac_chg_sta_info_size [simp]: "nrf_wifi_umac_chg_sta_info_wf r \<Longrightarrow> length (nrf_wifi_umac_chg_sta_info_bytes r) = 789"
  by (simp add: nrf_wifi_umac_chg_sta_info_bytes_def nrf_wifi_umac_chg_sta_info_wf_def)

record nrf_wifi_umac_add_sta_info =
  ads_listen_interval :: u32
  ads_sta_vlan :: u32
  ads_aid :: u16
  ads_peer_aid :: u16
  ads_sta_capability :: u16
  ads_spare :: u16
  ads_supp_rates :: nrf_wifi_supp_rates
  ads_ext_capability :: nrf_wifi_ext_capability
  ads_supported_channels :: nrf_wifi_supported_channels
  ads_supported_oper_classes :: nrf_wifi_supported_oper_classes
  ads_sta_flags2 :: nrf_wifi_sta_flag_update
  ads_ht_capability :: "u8 list"
  ads_vht_capability :: "u8 list"
  ads_mac_addr :: "u8 list"
  ads_opmode_notif :: u8
  ads_wme_uapsd_queues :: u8
  ads_wme_max_sp :: u8

definition nrf_wifi_umac_add_sta_info_bytes :: "nrf_wifi_umac_add_sta_info \<Rightarrow> u8 list" where
  "nrf_wifi_umac_add_sta_info_bytes r =
    le32_bytes (ads_listen_interval r) @ le32_bytes (ads_sta_vlan r) @ le16_bytes (ads_aid r) @
    le16_bytes (ads_peer_aid r) @ le16_bytes (ads_sta_capability r) @ le16_bytes (ads_spare r) @
    nrf_wifi_supp_rates_bytes (ads_supp_rates r) @
    nrf_wifi_ext_capability_bytes (ads_ext_capability r) @
    nrf_wifi_supported_channels_bytes (ads_supported_channels r) @
    nrf_wifi_supported_oper_classes_bytes (ads_supported_oper_classes r) @
    nrf_wifi_sta_flag_update_bytes (ads_sta_flags2 r) @ ads_ht_capability r @
    ads_vht_capability r @ ads_mac_addr r @ [ads_opmode_notif r] @ [ads_wme_uapsd_queues r] @
    [ads_wme_max_sp r]"

definition nrf_wifi_umac_add_sta_info_wf :: "nrf_wifi_umac_add_sta_info \<Rightarrow> bool" where
  "nrf_wifi_umac_add_sta_info_wf r = (nrf_wifi_supp_rates_wf (ads_supp_rates r) \<and>
    nrf_wifi_ext_capability_wf (ads_ext_capability r) \<and>
    nrf_wifi_supported_channels_wf (ads_supported_channels r) \<and>
    nrf_wifi_supported_oper_classes_wf (ads_supported_oper_classes r) \<and>
    nrf_wifi_sta_flag_update_wf (ads_sta_flags2 r) \<and> length (ads_ht_capability r) = 256 \<and>
    length (ads_vht_capability r) = 256 \<and> length (ads_mac_addr r) = 6)"

lemma nrf_wifi_umac_add_sta_info_size [simp]: "nrf_wifi_umac_add_sta_info_wf r \<Longrightarrow> length (nrf_wifi_umac_add_sta_info_bytes r) = 789"
  by (simp add: nrf_wifi_umac_add_sta_info_bytes_def nrf_wifi_umac_add_sta_info_wf_def)

record nrf_wifi_umac_del_sta_info =
  dls_mac_addr :: "u8 list"
  dls_mgmt_subtype :: u8
  dls_reason_code :: u16

definition nrf_wifi_umac_del_sta_info_bytes :: "nrf_wifi_umac_del_sta_info \<Rightarrow> u8 list" where
  "nrf_wifi_umac_del_sta_info_bytes r =
    dls_mac_addr r @ [dls_mgmt_subtype r] @ le16_bytes (dls_reason_code r)"

definition nrf_wifi_umac_del_sta_info_wf :: "nrf_wifi_umac_del_sta_info \<Rightarrow> bool" where
  "nrf_wifi_umac_del_sta_info_wf r = (length (dls_mac_addr r) = 6)"

lemma nrf_wifi_umac_del_sta_info_size [simp]: "nrf_wifi_umac_del_sta_info_wf r \<Longrightarrow> length (nrf_wifi_umac_del_sta_info_bytes r) = 9"
  by (simp add: nrf_wifi_umac_del_sta_info_bytes_def nrf_wifi_umac_del_sta_info_wf_def)

section \<open>Access point\<close>

record nrf_wifi_umac_bss_info =
  bss_p2p_go_ctwindow :: u32
  bss_p2p_opp_ps :: u32
  bss_num_basic_rates :: u32
  bss_ht_opmode :: u16
  bss_cts :: u8
  bss_preamble :: u8
  bss_slot :: u8
  bss_ap_isolate :: u8
  bss_basic_rates :: "u8 list"

definition nrf_wifi_umac_bss_info_bytes :: "nrf_wifi_umac_bss_info \<Rightarrow> u8 list" where
  "nrf_wifi_umac_bss_info_bytes r =
    le32_bytes (bss_p2p_go_ctwindow r) @ le32_bytes (bss_p2p_opp_ps r) @
    le32_bytes (bss_num_basic_rates r) @ le16_bytes (bss_ht_opmode r) @ [bss_cts r] @
    [bss_preamble r] @ [bss_slot r] @ [bss_ap_isolate r] @ bss_basic_rates r"

definition nrf_wifi_umac_bss_info_wf :: "nrf_wifi_umac_bss_info \<Rightarrow> bool" where
  "nrf_wifi_umac_bss_info_wf r = (length (bss_basic_rates r) = 32)"

lemma nrf_wifi_umac_bss_info_size [simp]: "nrf_wifi_umac_bss_info_wf r \<Longrightarrow> length (nrf_wifi_umac_bss_info_bytes r) = 50"
  by (simp add: nrf_wifi_umac_bss_info_bytes_def nrf_wifi_umac_bss_info_wf_def)

record nrf_wifi_beacon_data =
  bd_head_len :: u32
  bd_tail_len :: u32
  bd_probe_resp_len :: u32
  bd_head :: "u8 list"
  bd_tail :: "u8 list"
  bd_probe_resp :: "u8 list"

definition nrf_wifi_beacon_data_bytes :: "nrf_wifi_beacon_data \<Rightarrow> u8 list" where
  "nrf_wifi_beacon_data_bytes r =
    le32_bytes (bd_head_len r) @ le32_bytes (bd_tail_len r) @ le32_bytes (bd_probe_resp_len r) @
    bd_head r @ bd_tail r @ bd_probe_resp r"

definition nrf_wifi_beacon_data_wf :: "nrf_wifi_beacon_data \<Rightarrow> bool" where
  "nrf_wifi_beacon_data_wf r = (length (bd_head r) = 256 \<and> length (bd_tail r) = 512 \<and> length (bd_probe_resp r) = 400)"

lemma nrf_wifi_beacon_data_size [simp]: "nrf_wifi_beacon_data_wf r \<Longrightarrow> length (nrf_wifi_beacon_data_bytes r) = 1180"
  by (simp add: nrf_wifi_beacon_data_bytes_def nrf_wifi_beacon_data_wf_def)

record nrf_wifi_umac_set_beacon_info =
  sb_beacon_data :: nrf_wifi_beacon_data

definition nrf_wifi_umac_set_beacon_info_bytes :: "nrf_wifi_umac_set_beacon_info \<Rightarrow> u8 list" where
  "nrf_wifi_umac_set_beacon_info_bytes r =
    nrf_wifi_beacon_data_bytes (sb_beacon_data r)"

definition nrf_wifi_umac_set_beacon_info_wf :: "nrf_wifi_umac_set_beacon_info \<Rightarrow> bool" where
  "nrf_wifi_umac_set_beacon_info_wf r = (nrf_wifi_beacon_data_wf (sb_beacon_data r))"

lemma nrf_wifi_umac_set_beacon_info_size [simp]: "nrf_wifi_umac_set_beacon_info_wf r \<Longrightarrow> length (nrf_wifi_umac_set_beacon_info_bytes r) = 1180"
  by (simp add: nrf_wifi_umac_set_beacon_info_bytes_def nrf_wifi_umac_set_beacon_info_wf_def)

record freq_params =
  fq_valid_fields :: u32
  fq_frequency :: u32
  fq_channel_width :: u32
  fq_center_frequency1 :: u32
  fq_center_frequency2 :: u32
  fq_channel_type :: u32

definition freq_params_bytes :: "freq_params \<Rightarrow> u8 list" where
  "freq_params_bytes r =
    le32_bytes (fq_valid_fields r) @ le32_bytes (fq_frequency r) @
    le32_bytes (fq_channel_width r) @ le32_bytes (fq_center_frequency1 r) @
    le32_bytes (fq_center_frequency2 r) @ le32_bytes (fq_channel_type r)"

abbreviation freq_params_wf :: "freq_params \<Rightarrow> bool" where
  "freq_params_wf r \<equiv> True"

lemma freq_params_size [simp]: "length (freq_params_bytes r) = 24"
  by (simp add: freq_params_bytes_def)

record nrf_wifi_umac_start_ap_info =
  sap_beacon_interval :: u16
  sap_dtim_period :: u8
  sap_hidden_ssid :: u32
  sap_auth_type :: u32
  sap_smps_mode :: u32
  sap_flags :: u32
  sap_beacon_data :: nrf_wifi_beacon_data
  sap_ssid :: nrf_wifi_ssid
  sap_connect_common_info :: nrf_wifi_connect_common_info
  sap_freq_params :: freq_params
  sap_inactivity_timeout :: u16
  sap_p2p_go_ctwindow :: u8
  sap_p2p_opp_ps :: u8

definition nrf_wifi_umac_start_ap_info_bytes :: "nrf_wifi_umac_start_ap_info \<Rightarrow> u8 list" where
  "nrf_wifi_umac_start_ap_info_bytes r =
    le16_bytes (sap_beacon_interval r) @ [sap_dtim_period r] @ le32_bytes (sap_hidden_ssid r) @
    le32_bytes (sap_auth_type r) @ le32_bytes (sap_smps_mode r) @ le32_bytes (sap_flags r) @
    nrf_wifi_beacon_data_bytes (sap_beacon_data r) @ nrf_wifi_ssid_bytes (sap_ssid r) @
    nrf_wifi_connect_common_info_bytes (sap_connect_common_info r) @
    freq_params_bytes (sap_freq_params r) @ le16_bytes (sap_inactivity_timeout r) @
    [sap_p2p_go_ctwindow r] @ [sap_p2p_opp_ps r]"

definition nrf_wifi_umac_start_ap_info_wf :: "nrf_wifi_umac_start_ap_info \<Rightarrow> bool" where
  "nrf_wifi_umac_start_ap_info_wf r = (nrf_wifi_beacon_data_wf (sap_beacon_data r) \<and> nrf_wifi_ssid_wf (sap_ssid r) \<and>
    nrf_wifi_connect_common_info_wf (sap_connect_common_info r) \<and>
    freq_params_wf (sap_freq_params r))"

lemma nrf_wifi_umac_start_ap_info_size [simp]: "nrf_wifi_umac_start_ap_info_wf r \<Longrightarrow> length (nrf_wifi_umac_start_ap_info_bytes r) = 2823"
  by (simp add: nrf_wifi_umac_start_ap_info_bytes_def nrf_wifi_umac_start_ap_info_wf_def)

section \<open>Frames and channels\<close>

record nrf_wifi_umac_frame_match =
  fm_frame_match_len :: u32
  fm_frame_match :: "u8 list"

definition nrf_wifi_umac_frame_match_bytes :: "nrf_wifi_umac_frame_match \<Rightarrow> u8 list" where
  "nrf_wifi_umac_frame_match_bytes r =
    le32_bytes (fm_frame_match_len r) @ fm_frame_match r"

definition nrf_wifi_umac_frame_match_wf :: "nrf_wifi_umac_frame_match \<Rightarrow> bool" where
  "nrf_wifi_umac_frame_match_wf r = (length (fm_frame_match r) = 8)"

lemma nrf_wifi_umac_frame_match_size [simp]: "nrf_wifi_umac_frame_match_wf r \<Longrightarrow> length (nrf_wifi_umac_frame_match_bytes r) = 12"
  by (simp add: nrf_wifi_umac_frame_match_bytes_def nrf_wifi_umac_frame_match_wf_def)

record nrf_wifi_umac_mgmt_frame_info =
  mf_frame_type :: u16
  mf_frame_match :: nrf_wifi_umac_frame_match

definition nrf_wifi_umac_mgmt_frame_info_bytes :: "nrf_wifi_umac_mgmt_frame_info \<Rightarrow> u8 list" where
  "nrf_wifi_umac_mgmt_frame_info_bytes r =
    le16_bytes (mf_frame_type r) @ nrf_wifi_umac_frame_match_bytes (mf_frame_match r)"

definition nrf_wifi_umac_mgmt_frame_info_wf :: "nrf_wifi_umac_mgmt_frame_info \<Rightarrow> bool" where
  "nrf_wifi_umac_mgmt_frame_info_wf r = (nrf_wifi_umac_frame_match_wf (mf_frame_match r))"

lemma nrf_wifi_umac_mgmt_frame_info_size [simp]: "nrf_wifi_umac_mgmt_frame_info_wf r \<Longrightarrow> length (nrf_wifi_umac_mgmt_frame_info_bytes r) = 14"
  by (simp add: nrf_wifi_umac_mgmt_frame_info_bytes_def nrf_wifi_umac_mgmt_frame_info_wf_def)

record remain_on_channel_info =
  roc_dur :: u32
  roc_freq_params :: freq_params
  roc_host_cookie :: "64 word"
  roc_cookie :: "64 word"

definition remain_on_channel_info_bytes :: "remain_on_channel_info \<Rightarrow> u8 list" where
  "remain_on_channel_info_bytes r =
    le32_bytes (roc_dur r) @ freq_params_bytes (roc_freq_params r) @
    le64_bytes (roc_host_cookie r) @ le64_bytes (roc_cookie r)"

definition remain_on_channel_info_wf :: "remain_on_channel_info \<Rightarrow> bool" where
  "remain_on_channel_info_wf r = (freq_params_wf (roc_freq_params r))"

lemma remain_on_channel_info_size [simp]: "remain_on_channel_info_wf r \<Longrightarrow> length (remain_on_channel_info_bytes r) = 44"
  by (simp add: remain_on_channel_info_bytes_def remain_on_channel_info_wf_def)

record nrf_wifi_frame =
  fr_frame_len :: u32
  fr_frame :: "u8 list"

definition nrf_wifi_frame_bytes :: "nrf_wifi_frame \<Rightarrow> u8 list" where
  "nrf_wifi_frame_bytes r =
    le32_bytes (fr_frame_len r) @ fr_frame r"

definition nrf_wifi_frame_wf :: "nrf_wifi_frame \<Rightarrow> bool" where
  "nrf_wifi_frame_wf r = (length (fr_frame r) = 400)"

lemma nrf_wifi_frame_size [simp]: "nrf_wifi_frame_wf r \<Longrightarrow> length (nrf_wifi_frame_bytes r) = 404"
  by (simp add: nrf_wifi_frame_bytes_def nrf_wifi_frame_wf_def)

record nrf_wifi_umac_mgmt_tx_info =
  mt_flags :: u32
  mt_frequency :: u32
  mt_dur :: u32
  mt_frame :: nrf_wifi_frame
  mt_freq_params :: freq_params
  mt_host_cookie :: "64 word"

definition nrf_wifi_umac_mgmt_tx_info_bytes :: "nrf_wifi_umac_mgmt_tx_info \<Rightarrow> u8 list" where
  "nrf_wifi_umac_mgmt_tx_info_bytes r =
    le32_bytes (mt_flags r) @ le32_bytes (mt_frequency r) @ le32_bytes (mt_dur r) @
    nrf_wifi_frame_bytes (mt_frame r) @ freq_params_bytes (mt_freq_params r) @
    le64_bytes (mt_host_cookie r)"

definition nrf_wifi_umac_mgmt_tx_info_wf :: "nrf_wifi_umac_mgmt_tx_info \<Rightarrow> bool" where
  "nrf_wifi_umac_mgmt_tx_info_wf r = (nrf_wifi_frame_wf (mt_frame r) \<and> freq_params_wf (mt_freq_params r))"

lemma nrf_wifi_umac_mgmt_tx_info_size [simp]: "nrf_wifi_umac_mgmt_tx_info_wf r \<Longrightarrow> length (nrf_wifi_umac_mgmt_tx_info_bytes r) = 448"
  by (simp add: nrf_wifi_umac_mgmt_tx_info_bytes_def nrf_wifi_umac_mgmt_tx_info_wf_def)

section \<open>Configuration\<close>

record nrf_wifi_txq_params =
  tq_txop :: u16
  tq_cwmin :: u16
  tq_cwmax :: u16
  tq_aifs :: u8
  tq_ac :: u8

definition nrf_wifi_txq_params_bytes :: "nrf_wifi_txq_params \<Rightarrow> u8 list" where
  "nrf_wifi_txq_params_bytes r =
    le16_bytes (tq_txop r) @ le16_bytes (tq_cwmin r) @ le16_bytes (tq_cwmax r) @ [tq_aifs r] @
    [tq_ac r]"

abbreviation nrf_wifi_txq_params_wf :: "nrf_wifi_txq_params \<Rightarrow> bool" where
  "nrf_wifi_txq_params_wf r \<equiv> True"

lemma nrf_wifi_txq_params_size [simp]: "length (nrf_wifi_txq_params_bytes r) = 8"
  by (simp add: nrf_wifi_txq_params_bytes_def)

record nrf_wifi_tx_power_setting =
  tp_valid_fields :: u32
  tp_type :: u32
  tp_tx_power_level :: u32

definition nrf_wifi_tx_power_setting_bytes :: "nrf_wifi_tx_power_setting \<Rightarrow> u8 list" where
  "nrf_wifi_tx_power_setting_bytes r =
    le32_bytes (tp_valid_fields r) @ le32_bytes (tp_type r) @ le32_bytes (tp_tx_power_level r)"

abbreviation nrf_wifi_tx_power_setting_wf :: "nrf_wifi_tx_power_setting \<Rightarrow> bool" where
  "nrf_wifi_tx_power_setting_wf r \<equiv> True"

lemma nrf_wifi_tx_power_setting_size [simp]: "length (nrf_wifi_tx_power_setting_bytes r) = 12"
  by (simp add: nrf_wifi_tx_power_setting_bytes_def)

record nrf_wifi_umac_set_wiphy_info =
  wp_rts_threshold :: u32
  wp_frag_threshold :: u32
  wp_antenna_tx :: u32
  wp_antenna_rx :: u32
  wp_freq_params :: freq_params
  wp_txq_params :: nrf_wifi_txq_params
  wp_tx_power_setting :: nrf_wifi_tx_power_setting
  wp_retry_short :: u8
  wp_retry_long :: u8
  wp_coverage_class :: u8
  wp_wiphy_name :: "u8 list"

definition nrf_wifi_umac_set_wiphy_info_bytes :: "nrf_wifi_umac_set_wiphy_info \<Rightarrow> u8 list" where
  "nrf_wifi_umac_set_wiphy_info_bytes r =
    le32_bytes (wp_rts_threshold r) @ le32_bytes (wp_frag_threshold r) @
    le32_bytes (wp_antenna_tx r) @ le32_bytes (wp_antenna_rx r) @
    freq_params_bytes (wp_freq_params r) @ nrf_wifi_txq_params_bytes (wp_txq_params r) @
    nrf_wifi_tx_power_setting_bytes (wp_tx_power_setting r) @ [wp_retry_short r] @
    [wp_retry_long r] @ [wp_coverage_class r] @ wp_wiphy_name r"

definition nrf_wifi_umac_set_wiphy_info_wf :: "nrf_wifi_umac_set_wiphy_info \<Rightarrow> bool" where
  "nrf_wifi_umac_set_wiphy_info_wf r = (freq_params_wf (wp_freq_params r) \<and> nrf_wifi_txq_params_wf (wp_txq_params r) \<and>
    nrf_wifi_tx_power_setting_wf (wp_tx_power_setting r) \<and> length (wp_wiphy_name r) = 32)"

lemma nrf_wifi_umac_set_wiphy_info_size [simp]: "nrf_wifi_umac_set_wiphy_info_wf r \<Longrightarrow> length (nrf_wifi_umac_set_wiphy_info_bytes r) = 95"
  by (simp add: nrf_wifi_umac_set_wiphy_info_bytes_def nrf_wifi_umac_set_wiphy_info_wf_def)

record nrf_wifi_umac_qos_map_info =
  qm_qos_map_info_len :: u32
  qm_qos_map_info :: "u8 list"

definition nrf_wifi_umac_qos_map_info_bytes :: "nrf_wifi_umac_qos_map_info \<Rightarrow> u8 list" where
  "nrf_wifi_umac_qos_map_info_bytes r =
    le32_bytes (qm_qos_map_info_len r) @ qm_qos_map_info r"

definition nrf_wifi_umac_qos_map_info_wf :: "nrf_wifi_umac_qos_map_info \<Rightarrow> bool" where
  "nrf_wifi_umac_qos_map_info_wf r = (length (qm_qos_map_info r) = 256)"

lemma nrf_wifi_umac_qos_map_info_size [simp]: "nrf_wifi_umac_qos_map_info_wf r \<Longrightarrow> length (nrf_wifi_umac_qos_map_info_bytes r) = 260"
  by (simp add: nrf_wifi_umac_qos_map_info_bytes_def nrf_wifi_umac_qos_map_info_wf_def)

record nrf_wifi_umac_config_twt_info =
  tw_twt_flow_id :: u8
  tw_neg_type :: u8
  tw_setup_cmd :: u32
  tw_ap_trigger_frame :: u8
  tw_is_implicit :: u8
  tw_twt_flow_type :: u8
  tw_twt_target_wake_interval_exponent :: u8
  tw_twt_target_wake_interval_mantissa :: u16
  tw_target_wake_time :: "64 word"
  tw_nominal_min_twt_wake_duration :: u32
  tw_dialog_token :: u8
  tw_twt_resp_status :: u8
  tw_twt_wake_ahead_duration :: u32
  tw_twt_req_timeout :: u32

definition nrf_wifi_umac_config_twt_info_bytes :: "nrf_wifi_umac_config_twt_info \<Rightarrow> u8 list" where
  "nrf_wifi_umac_config_twt_info_bytes r =
    [tw_twt_flow_id r] @ [tw_neg_type r] @ le32_bytes (tw_setup_cmd r) @ [tw_ap_trigger_frame r] @
    [tw_is_implicit r] @ [tw_twt_flow_type r] @ [tw_twt_target_wake_interval_exponent r] @
    le16_bytes (tw_twt_target_wake_interval_mantissa r) @ le64_bytes (tw_target_wake_time r) @
    le32_bytes (tw_nominal_min_twt_wake_duration r) @ [tw_dialog_token r] @
    [tw_twt_resp_status r] @ le32_bytes (tw_twt_wake_ahead_duration r) @
    le32_bytes (tw_twt_req_timeout r)"

abbreviation nrf_wifi_umac_config_twt_info_wf :: "nrf_wifi_umac_config_twt_info \<Rightarrow> bool" where
  "nrf_wifi_umac_config_twt_info_wf r \<equiv> True"

lemma nrf_wifi_umac_config_twt_info_size [simp]: "length (nrf_wifi_umac_config_twt_info_bytes r) = 34"
  by (simp add: nrf_wifi_umac_config_twt_info_bytes_def)

record nrf_wifi_umac_mcast_cfg =
  mc_type :: u32
  mc_mac_addr :: "u8 list"

definition nrf_wifi_umac_mcast_cfg_bytes :: "nrf_wifi_umac_mcast_cfg \<Rightarrow> u8 list" where
  "nrf_wifi_umac_mcast_cfg_bytes r =
    le32_bytes (mc_type r) @ mc_mac_addr r"

definition nrf_wifi_umac_mcast_cfg_wf :: "nrf_wifi_umac_mcast_cfg \<Rightarrow> bool" where
  "nrf_wifi_umac_mcast_cfg_wf r = (length (mc_mac_addr r) = 6)"

lemma nrf_wifi_umac_mcast_cfg_size [simp]: "nrf_wifi_umac_mcast_cfg_wf r \<Longrightarrow> length (nrf_wifi_umac_mcast_cfg_bytes r) = 10"
  by (simp add: nrf_wifi_umac_mcast_cfg_bytes_def nrf_wifi_umac_mcast_cfg_wf_def)

record nrf_wifi_umac_chg_vif_state_info =
  vs_state :: u32
  vs_if_index :: u8

definition nrf_wifi_umac_chg_vif_state_info_bytes :: "nrf_wifi_umac_chg_vif_state_info \<Rightarrow> u8 list" where
  "nrf_wifi_umac_chg_vif_state_info_bytes r =
    le32_bytes (vs_state r) @ [vs_if_index r]"

abbreviation nrf_wifi_umac_chg_vif_state_info_wf :: "nrf_wifi_umac_chg_vif_state_info \<Rightarrow> bool" where
  "nrf_wifi_umac_chg_vif_state_info_wf r \<equiv> True"

lemma nrf_wifi_umac_chg_vif_state_info_size [simp]: "length (nrf_wifi_umac_chg_vif_state_info_bytes r) = 5"
  by (simp add: nrf_wifi_umac_chg_vif_state_info_bytes_def)

end
