(* ===== verification/Fmac_Fw.thy ===== *)
theory Fmac_Fw
  imports Fmac_Step
begin

text \<open>What the modes of the FMAC have in common (\<open>fmac_api_common.c\<close>): the check and the parsing of
  a firmware patch file, the loading of its images and the boot of the processors, the OTP
  address, the regulatory domain and the reset of the statistics. The static table
  \<open>wifi_proc\<close> is the field \<open>patch_present\<close> of the state, for the LMAC and the UMAC.\<close>

section \<open>The patch file\<close>

abbreviation (input) NRF_WIFI_PATCH_SIGNATURE :: u32 where "NRF_WIFI_PATCH_SIGNATURE \<equiv> 0xDEAD1EAF"
abbreviation (input) NRF_WIFI_PATCH_NUM_IMAGES :: u32 where "NRF_WIFI_PATCH_NUM_IMAGES \<equiv> 4"
abbreviation (input) RPU_FAMILY :: u32 where "RPU_FAMILY \<equiv> 1"
abbreviation (input) RPU_MAJOR_VERSION :: u32 where "RPU_MAJOR_VERSION \<equiv> 2"
abbreviation (input) RPU_MINOR_VERSION :: u32 where "RPU_MINOR_VERSION \<equiv> 14"
abbreviation (input) RPU_PATCH_VERSION :: u32 where "RPU_PATCH_VERSION \<equiv> 8"

record nrf70_fw_image_info =
  info_signature :: u32
  info_num_images :: u32
  info_version :: u32
  info_feature_flags :: u32

definition nrf_wifi_patch_version_compat :: "u32 \<Rightarrow> int" where
  "nrf_wifi_patch_version_compat version =
    (if drop_bit 24 version AND 0xFF \<noteq> RPU_FAMILY then -1
     else if drop_bit 16 version AND 0xFF \<noteq> RPU_MAJOR_VERSION then -1
     else if drop_bit 8 version AND 0xFF \<noteq> RPU_MINOR_VERSION then -1
     else if version AND 0xFF \<noteq> RPU_PATCH_VERSION then -1
     else 0)"

fun nrf_wifi_patch_feature_flags_compat :: "nrf_wifi_op_mode \<Rightarrow> u32 \<Rightarrow> int" where
  "nrf_wifi_patch_feature_flags_compat NRF_WIFI_OP_MODE_RT flags = (if \<not> bit flags 1 then -1 else 0)"
| "nrf_wifi_patch_feature_flags_compat NRF_WIFI_OP_MODE_SYS flags =
    (if \<not> bit flags 0 \<and> \<not> bit flags 3 then -1 else 0)"
| "nrf_wifi_patch_feature_flags_compat NRF_WIFI_OP_MODE_OFF_RAW_TX flags = (if \<not> bit flags 4 then -1 else 0)"
| "nrf_wifi_patch_feature_flags_compat NRF_WIFI_OP_MODE_UNKNOWN flags = -1"

definition nrf_wifi_validate_fw_header :: "nrf_wifi_op_mode \<Rightarrow> nrf70_fw_image_info \<Rightarrow> nrf_status" where
  "nrf_wifi_validate_fw_header mode info =
    (if info_signature info \<noteq> NRF_WIFI_PATCH_SIGNATURE then FAIL
     else if info_num_images info \<noteq> NRF_WIFI_PATCH_NUM_IMAGES then FAIL
     else if nrf_wifi_patch_version_compat (info_version info) \<noteq> 0 then FAIL
     else if nrf_wifi_patch_feature_flags_compat mode (info_feature_flags info) \<noteq> 0 then FAIL
     else SUCCESS)"

text \<open>A pointer into the file is the list of the bytes from there on; a word that is read beyond
  the memory of the file is undefined behaviour.\<close>

definition fw_word :: "u8 list \<Rightarrow> nat \<Rightarrow> u32 option" where
  "fw_word data i = (if i + 4 \<le> length data then Some (le32_get (take 4 (drop i data))) else None)"

definition fw_header :: "u8 list \<Rightarrow> nrf70_fw_image_info option" where
  "fw_header data = do {
     sg \<leftarrow> fw_word data 0; n \<leftarrow> fw_word data 4; v \<leftarrow> fw_word data 8; f \<leftarrow> fw_word data 12;
     Some \<lparr>info_signature = sg, info_num_images = n, info_version = v, info_feature_flags = f\<rparr>
   }"

record nrf_wifi_fw_info =
  fw_data :: "u8 list option"
  fw_size :: u32

record nrf_wifi_fmac_fw_info =
  lmac_patch_pri :: nrf_wifi_fw_info
  lmac_patch_sec :: nrf_wifi_fw_info
  umac_patch_pri :: nrf_wifi_fw_info
  umac_patch_sec :: nrf_wifi_fw_info

definition fw_info_put :: "nat \<Rightarrow> nrf_wifi_fw_info \<Rightarrow> nrf_wifi_fmac_fw_info \<Rightarrow> nrf_wifi_fmac_fw_info" where
  "fw_info_put image_id f i =
    (if image_id = 2 then i\<lparr>lmac_patch_pri := f\<rparr> else if image_id = 3 then i\<lparr>lmac_patch_sec := f\<rparr>
     else if image_id = 0 then i\<lparr>umac_patch_pri := f\<rparr> else if image_id = 1 then i\<lparr>umac_patch_sec := f\<rparr>
     else i)"

text \<open>The loop over the images; the sums of the bounds check are 32 bits wide.\<close>

fun fw_parse_loop :: "u8 list \<Rightarrow> u32 \<Rightarrow> nat list \<Rightarrow> u32 \<Rightarrow> nrf_wifi_fmac_fw_info \<Rightarrow>
    (nrf_status \<times> nrf_wifi_fmac_fw_info) option" where
  "fw_parse_loop data sz [] offset i = Some (SUCCESS, i)"
| "fw_parse_loop data sz (image_id # ids) offset i = do {
     len \<leftarrow> fw_word data (unat offset + 4);
     if sz < offset + 8 + len then Some (FAIL, i)
     else fw_parse_loop data sz ids (offset + (8 + len))
       (fw_info_put image_id \<lparr>fw_data = Some (drop (unat offset + 8) data), fw_size = len\<rparr> i)
   }"

definition nrf_wifi_fmac_fw_parse :: "u8 list option \<Rightarrow> u32 \<Rightarrow> nrf_wifi_fmac_fw_info option \<Rightarrow> fmac \<Rightarrow>
    (nrf_status \<times> nrf_wifi_fmac_fw_info option) option" where
  "nrf_wifi_fmac_fw_parse data sz fw_info s = (case (data, fw_info) of
     (Some data, Some i) \<Rightarrow>
       if sz < 52 then Some (FAIL, fw_info)
       else do {
         h \<leftarrow> fw_header data;
         if nrf_wifi_validate_fw_header (op_mode s) h \<noteq> SUCCESS then Some (FAIL, fw_info)
         else do {
           (st, i) \<leftarrow> fw_parse_loop data sz [0..<unat (info_num_images h)] 52 i;
           Some (st, Some i)
         }
       }
   | _ \<Rightarrow> Some (FAIL, fw_info))"

section \<open>Loading and booting\<close>

abbreviation wifi_procs :: "(nat \<times> rpu_proc) list" where
  "wifi_procs \<equiv> [(0, RPU_PROC_TYPE_MCU_LMAC), (1, RPU_PROC_TYPE_MCU_UMAC)]"

fun fw_reset_loop :: "os \<Rightarrow> (nat \<times> rpu_proc) list \<Rightarrow> fmac \<Rightarrow> (nrf_status \<times> fmac) option" where
  "fw_reset_loop os [] s = Some (SUCCESS, s)"
| "fw_reset_loop os ((_, p) # ps) s = do {
     (st, s) \<leftarrow> on_hal (nrf_wifi_hal_proc_reset os p) s;
     if st \<noteq> SUCCESS then Some (FAIL, s) else fw_reset_loop os ps s
   }"

definition nrf_wifi_fmac_fw_reset :: "os \<Rightarrow> fmac \<Rightarrow> (nrf_status \<times> fmac) option" where
  "nrf_wifi_fmac_fw_reset os s = fw_reset_loop os wifi_procs s"

fun fw_boot_loop :: "os \<Rightarrow> (nat \<times> rpu_proc) list \<Rightarrow> fmac \<Rightarrow> (nrf_status \<times> fmac) option" where
  "fw_boot_loop os [] s = Some (SUCCESS, s)"
| "fw_boot_loop os ((i, p) # ps) s = do {
     (st, s) \<leftarrow> on_hal (nrf_wifi_hal_fw_patch_boot os p (patch_present s ! i)) s;
     if st \<noteq> SUCCESS then Some (FAIL, s)
     else do {
       (st, s) \<leftarrow> on_hal (nrf_wifi_hal_fw_chk_boot os p) s;
       if st \<noteq> SUCCESS then Some (FAIL, s) else fw_boot_loop os ps s
     }
   }"

definition nrf_wifi_fmac_fw_boot :: "os \<Rightarrow> fmac \<Rightarrow> (nrf_status \<times> fmac) option" where
  "nrf_wifi_fmac_fw_boot os s = fw_boot_loop os wifi_procs s"

record nrf_wifi_fmac_fw_chunk_info =
  chunk_data :: "u8 list"
  chunk_dest_addr :: u32

definition nrf_wifi_fmac_fw_chunk_load ::
    "os \<Rightarrow> rpu_proc \<Rightarrow> nrf_wifi_fmac_fw_chunk_info \<Rightarrow> fmac \<Rightarrow> (nrf_status \<times> fmac) option" where
  "nrf_wifi_fmac_fw_chunk_load os rpu_proc c s =
    on_hal (hal_fw_patch_chunk_load os rpu_proc (chunk_dest_addr c) (chunk_data c)) s"

text \<open>The images of a processor are loaded when all four pointers and sizes are set; otherwise it
  is marked as having no patch. An image that is longer than its memory is undefined behaviour.\<close>

definition fw_image_bytes :: "nrf_wifi_fw_info \<Rightarrow> u8 list option" where
  "fw_image_bytes f = (case fw_data f of None \<Rightarrow> None
     | Some d \<Rightarrow> if unat (fw_size f) \<le> length d then Some (take (unat (fw_size f)) d) else None)"

definition fw_proc_load :: "os \<Rightarrow> nat \<Rightarrow> rpu_proc \<Rightarrow> nrf_wifi_fw_info \<Rightarrow> nrf_wifi_fw_info \<Rightarrow> fmac \<Rightarrow>
    (nrf_status \<times> fmac) option" where
  "fw_proc_load os i p pri sec s =
    (if fw_data pri \<noteq> None \<and> fw_size pri \<noteq> 0 \<and> fw_data sec \<noteq> None \<and> fw_size sec \<noteq> 0 then do {
       a \<leftarrow> fw_image_bytes pri;
       b \<leftarrow> fw_image_bytes sec;
       on_hal (nrf_wifi_hal_fw_patch_load os p (Some a) (Some b)) s
     }
     else Some (SUCCESS, s\<lparr>patch_present := (patch_present s)[i := False]\<rparr>))"

definition nrf_wifi_fmac_fw_load :: "os \<Rightarrow> nrf_wifi_fmac_fw_info \<Rightarrow> fmac \<Rightarrow> (nrf_status \<times> fmac) option" where
  "nrf_wifi_fmac_fw_load os fw s = do {
     (st, s) \<leftarrow> nrf_wifi_fmac_fw_reset os s;
     if st \<noteq> SUCCESS then Some (st, s)
     else do {
       (st, s) \<leftarrow> fw_proc_load os 1 RPU_PROC_TYPE_MCU_UMAC (umac_patch_pri fw) (umac_patch_sec fw) s;
       if st \<noteq> SUCCESS then Some (st, s)
       else do {
         (st, s) \<leftarrow> fw_proc_load os 0 RPU_PROC_TYPE_MCU_LMAC (lmac_patch_pri fw) (lmac_patch_sec fw) s;
         if st \<noteq> SUCCESS then Some (st, s)
         else do {
           (st, s) \<leftarrow> nrf_wifi_fmac_fw_boot os s;
           if st \<noteq> SUCCESS then Some (st, s) else Some (st, s\<lparr>fw_boot_done := True\<rparr>)
         }
       }
     }
   }"

section \<open>Version and address\<close>

abbreviation (input) RPU_MEM_UMAC_VER :: u32 where "RPU_MEM_UMAC_VER \<equiv> 0xB0000004"

definition nrf_wifi_fmac_ver_get :: "os \<Rightarrow> fmac \<Rightarrow> (nrf_status \<times> u32 option \<times> fmac) option" where
  "nrf_wifi_fmac_ver_get os s = do {
     (r, s) \<leftarrow> on_hal (\<lambda>h. do { (st, bs, h) \<leftarrow> hal_rpu_mem_read os RPU_MEM_UMAC_VER 4 h; Some ((st, bs), h) }) s;
     Some (fst r, if snd r = [] then None else Some (le32_get (snd r)), s)
   }"

text \<open>The address is left alone when none was programmed, which is a success too. In
  \<open>struct host_rpu_umac_info\<close> the two addresses are at the offsets 132 and 140.\<close>

definition nrf_wifi_fmac_otp_mac_addr_get :: "os \<Rightarrow> nat \<Rightarrow> u8 list \<Rightarrow> fmac \<Rightarrow>
    (nrf_status \<times> u8 list \<times> fmac) option" where
  "nrf_wifi_fmac_otp_mac_addr_get os vif_idx mac_addr s =
    (if MAX_NUM_VIFS \<le> vif_idx then Some (FAIL, mac_addr, s)
     else do {
       (r, s) \<leftarrow> on_hal (\<lambda>h. do { (st, i, f, h) \<leftarrow> nrf_wifi_hal_otp_info_get os h; Some ((st, i, f), h) }) s;
       let (st, info, flags) = r;
       if st \<noteq> SUCCESS then Some (st, mac_addr, s)
       else do {
         f \<leftarrow> flags;
         if f AND (if vif_idx = 0 then 2 else 4) \<noteq> 0 then Some (st, mac_addr, s)
         else Some (st, take 6 (drop (if vif_idx = 0 then 132 else 140) info), s)
       }
     })"

section \<open>Waiting for an answer\<close>

text \<open>While a thread sleeps the rest of the system runs: the event handling and the layer above.
  What it does is the parameter \<open>env\<close>.\<close>

definition sleep_ms :: "(fmac \<Rightarrow> fmac) \<Rightarrow> u32 \<Rightarrow> fmac \<Rightarrow> fmac" where
  "sleep_ms env ms s = env (femit (IoSleepMs ms) s)"

record nrf_wifi_fmac_reg_info =
  ri_alpha2 :: "u8 list"
  ri_force :: bool
  ri_chan_count :: u32
  ri_chan_info :: "u8 list"

text \<open>The loop of at least one and at most 101 turns; the result is its end.\<close>

fun get_reg_wait :: "(fmac \<Rightarrow> fmac) \<Rightarrow> nat \<Rightarrow> fmac \<Rightarrow> fmac" where
  "get_reg_wait env 0 s = sleep_ms env 100 s"
| "get_reg_wait env (Suc n) s =
    (let s = sleep_ms env 100 s in if alpha2_valid s then s else get_reg_wait env n s)"

definition nrf_wifi_fmac_get_reg :: "os \<Rightarrow> (fmac \<Rightarrow> fmac) \<Rightarrow> nrf_wifi_fmac_reg_info \<Rightarrow> fmac \<Rightarrow>
    (nrf_status \<times> nrf_wifi_fmac_reg_info \<times> fmac) option" where
  "nrf_wifi_fmac_get_reg os env ri s =
    (let (ok, s) = falloc os OBJ_UMAC_CMD s in
     if \<not> ok then Some (FAIL, ri, s)
     else do {
       (st, s) \<leftarrow> umac_cmd_cfg os (umac_hdr 44 0 0) (s\<lparr>alpha2_valid := False, reg_chan_info := Some (ri_chan_info ri)\<rparr>);
       if st \<noteq> SUCCESS then Some (st, ri, femit (IoFree OBJ_UMAC_CMD) s)
       else let s = get_reg_wait env 100 s;
                ri = (case reg_chan_info s of None \<Rightarrow> ri | Some i \<Rightarrow> ri\<lparr>ri_chan_info := i\<rparr>) in
         if \<not> alpha2_valid s then Some (st, ri, femit (IoFree OBJ_UMAC_CMD) s)
         else Some (SUCCESS, ri\<lparr>ri_alpha2 := take 2 (alpha2 s), ri_chan_count := reg_chan_count s\<rparr>,
                femit (IoFree OBJ_UMAC_CMD) s)
     })"

abbreviation (input) NRF_WIFI_FMAC_STATS_RECV_TIMEOUT :: u8 where "NRF_WIFI_FMAC_STATS_RECV_TIMEOUT \<equiv> 50"

text \<open>The loop counts in the second operand of its condition, so not when the answer is there; the
  first argument bounds the turns.\<close>

fun stats_wait :: "(fmac \<Rightarrow> fmac) \<Rightarrow> nat \<Rightarrow> u8 \<Rightarrow> fmac \<Rightarrow> u8 \<times> fmac" where
  "stats_wait env 0 cnt s = (cnt, s)"
| "stats_wait env (Suc n) cnt s =
    (let s = sleep_ms env 1 s in
     if stats_req s
     then if cnt < NRF_WIFI_FMAC_STATS_RECV_TIMEOUT then stats_wait env n (cnt + 1) s else (cnt + 1, s)
     else (cnt, s))"

definition nrf_wifi_fmac_stats_reset :: "os \<Rightarrow> (fmac \<Rightarrow> fmac) \<Rightarrow> fmac \<Rightarrow> (nrf_status \<times> fmac) option" where
  "nrf_wifi_fmac_stats_reset os env s = do {
     (st, s) \<leftarrow> umac_cmd_prog_stats_reset os s;
     if st \<noteq> SUCCESS then Some (st, s)
     else let (cnt, s) = stats_wait env 51 0 s in
       Some (if cnt = NRF_WIFI_FMAC_STATS_RECV_TIMEOUT then st else SUCCESS, s)
   }"

definition nrf_wifi_fmac_conf_srcoex :: "os \<Rightarrow> u8 list \<Rightarrow> fmac \<Rightarrow> (nrf_status \<times> fmac) option" where
  "nrf_wifi_fmac_conf_srcoex os cmd s = umac_cmd_srcoex os cmd s"

text \<open>The regulatory domain: the answer is an event, of whose bytes the initiator, the type and the
  country are compared with what was asked for.\<close>

fun set_reg_wait :: "(fmac \<Rightarrow> fmac) \<Rightarrow> nat \<Rightarrow> fmac \<Rightarrow> fmac" where
  "set_reg_wait env 0 s = s"
| "set_reg_wait env (Suc n) s = (if reg_set_status s \<noteq> 0 then s else set_reg_wait env n (sleep_ms env 100 s))"

definition set_reg_check :: "u8 list \<Rightarrow> u8 list \<Rightarrow> nrf_status" where
  "set_reg_check exp_alpha2 change =
    (let intr = le32_get (take 4 (drop 38 change)); ty = change ! 42; a2 = take 2 (drop 43 change);
         exp_ty = (if exp_alpha2 = [0x30, 0x30] then 1 else 0) in
     if intr \<noteq> 1 then FAIL
     else if ty \<noteq> exp_ty then FAIL
     else if ty = 0 \<and> a2 \<noteq> exp_alpha2 then FAIL
     else SUCCESS)"

definition set_reg_body :: "nrf_wifi_fmac_reg_info \<Rightarrow> u8 list" where
  "set_reg_body ri = umac_hdr 46 0 0 @ le32_bytes (1 OR (if ri_force ri then 4 else 0)) @ le32_bytes 0 @ ri_alpha2 ri"

definition reg_info_zero :: nrf_wifi_fmac_reg_info where
  "reg_info_zero = \<lparr>ri_alpha2 = [0, 0], ri_force = False, ri_chan_count = 0, ri_chan_info = replicate (42 * 11) 0\<rparr>"

definition nrf_wifi_fmac_set_reg :: "os \<Rightarrow> (fmac \<Rightarrow> fmac) \<Rightarrow> nrf_wifi_fmac_reg_info \<Rightarrow> fmac \<Rightarrow>
    (nrf_status \<times> fmac) option" where
  "nrf_wifi_fmac_set_reg os env ri s = do {
     (st, cur, s) \<leftarrow> nrf_wifi_fmac_get_reg os env reg_info_zero s;
     if st \<noteq> SUCCESS then Some (st, s)
     else if ri_alpha2 cur = ri_alpha2 ri then Some (SUCCESS, s)
     else let (ok, s) = falloc os OBJ_UMAC_CMD s in
       if \<not> ok then Some (st, s)
       else do {
         (st, s) \<leftarrow> umac_cmd_cfg os (set_reg_body ri) (s\<lparr>reg_set_status := 0, waiting_for_reg_event := True\<rparr>);
         if st \<noteq> SUCCESS then Some (st, femit (IoFree OBJ_UMAC_CMD) s)
         else let s = set_reg_wait env 101 (s\<lparr>reg_set_status := 0\<rparr>) in
           if reg_set_status s = 0 then Some (FAIL, femit (IoFree OBJ_UMAC_CMD) s)
           else do {
             change \<leftarrow> reg_change s;
             Some (set_reg_check (ri_alpha2 ri) change, femit (IoFree OBJ_REG_CHANGE) (femit (IoFree OBJ_UMAC_CMD)
               (s\<lparr>waiting_for_reg_event := False, reg_change := None\<rparr>)))
           }
       }
   }"

section \<open>Properties\<close>

text \<open>A patch file: its header, of 52 bytes, and the four images, each with its type and length.\<close>

definition fw_file :: "u32 \<Rightarrow> u32 \<Rightarrow> u8 list \<Rightarrow> (u32 \<times> u8 list) list \<Rightarrow> u8 list" where
  "fw_file ver flags hash imgs = le32_bytes NRF_WIFI_PATCH_SIGNATURE @ le32_bytes (of_nat (length imgs))
     @ le32_bytes ver @ le32_bytes flags
     @ le32_bytes (of_nat (length (concat (map (\<lambda>(ty, d). le32_bytes ty @ le32_bytes (of_nat (length d)) @ d) imgs))))
     @ hash @ concat (map (\<lambda>(ty, d). le32_bytes ty @ le32_bytes (of_nat (length d)) @ d) imgs)"

definition fw_image :: "u32 \<times> u8 list \<Rightarrow> u8 list" where
  "fw_image i = le32_bytes (fst i) @ le32_bytes (of_nat (length (snd i))) @ snd i"

lemma fw_word_at: "length pre = i \<Longrightarrow> fw_word (pre @ le32_bytes w @ post) i = Some w"
  by (simp add: fw_word_def le32_round)

text \<open>What the loop leaves in the result: the bytes from each image on.\<close>

fun fw_put_all :: "u8 list \<Rightarrow> nat list \<Rightarrow> (u32 \<times> u8 list) list \<Rightarrow> nrf_wifi_fmac_fw_info \<Rightarrow> nrf_wifi_fmac_fw_info" where
  "fw_put_all post (k # ks) (i # is) f = fw_put_all post ks is
     (fw_info_put k \<lparr>fw_data = Some (snd i @ concat (map fw_image is) @ post), fw_size = of_nat (length (snd i))\<rparr> f)"
| "fw_put_all post _ _ f = f"

lemma parse_loop_images:
  assumes "length pre + length (concat (map fw_image imgs)) \<le> unat sz" "length ks = length imgs"
  shows "fw_parse_loop (pre @ concat (map fw_image imgs) @ post) sz ks (of_nat (length pre)) f =
    Some (SUCCESS, fw_put_all post ks imgs f)"
  using assms
proof (induction imgs arbitrary: pre ks f)
  case (Cons i imgs)
  obtain k ks' where ks: "ks = k # ks'" using Cons.prems(2) by (cases ks) auto
  let ?rest = "concat (map fw_image imgs)"
  let ?data = "pre @ concat (map fw_image (i # imgs)) @ post"
  have im: "fw_image i = le32_bytes (fst i) @ le32_bytes (of_nat (length (snd i))) @ snd i" by (simp add: fw_image_def)
  have b: "length pre + 8 + length (snd i) + length ?rest \<le> unat sz" using Cons.prems(1) by (simp add: im)
  have sz: "unat sz < 2 ^ 32" using unsigned_less [of sz] by simp
  have u: "unat (of_nat (length pre) :: u32) = length pre"
    by (rule unat_of_nat_small) (use b sz in simp)
  have len: "fw_word ?data (length pre + 4) = Some (of_nat (length (snd i)))"
    using fw_word_at [of "pre @ le32_bytes (fst i)" "length pre + 4"] by (simp add: im)
  have le: "\<not> sz < of_nat (length pre) + 8 + of_nat (length (snd i))"
  proof -
    have "of_nat (length pre) + 8 + of_nat (length (snd i)) = (of_nat (length pre + 8 + length (snd i)) :: u32)" by simp
    moreover have "unat (of_nat (length pre + 8 + length (snd i)) :: u32) = length pre + 8 + length (snd i)"
      by (rule unat_of_nat_small) (use b sz in simp)
    ultimately show ?thesis using b by (metis (no_types, lifting) add_leD1 not_le word_le_nat_alt)
  qed
  have d: "drop (length pre + 8) ?data = snd i @ ?rest @ post" by (simp add: im)
  have "fw_parse_loop ?data sz ks (of_nat (length pre)) f =
      fw_parse_loop ((pre @ fw_image i) @ ?rest @ post) sz ks' (of_nat (length (pre @ fw_image i)))
        (fw_info_put k \<lparr>fw_data = Some (snd i @ ?rest @ post), fw_size = of_nat (length (snd i))\<rparr> f)"
    using len le d u by (simp add: ks im add.commute add.left_commute)
  also have "\<dots> = Some (SUCCESS, fw_put_all post ks (i # imgs) f)"
    using Cons.IH [of "pre @ fw_image i" ks'] Cons.prems ks by (simp add: add.assoc)
  finally show ?case .
qed simp

text \<open>C33 A patch file that is built as the firmware tools build it is parsed into its images: from
  a file of four images whose header is accepted, the data of every image is found at its
  pointer with its length, the first two as those of the UMAC and the last two as those of the
  LMAC.\<close>

theorem fw_parse_round_trip:
  assumes "length (hash :: u8 list) = 32" "length data < 2 ^ 32" "data = fw_file ver flags hash [i0, i1, i2, i3]"
    and "nrf_wifi_patch_version_compat ver = 0" "nrf_wifi_patch_feature_flags_compat (op_mode s) flags = 0"
  shows "\<exists>t. nrf_wifi_fmac_fw_parse (Some data) (of_nat (length data)) (Some f) s = Some (SUCCESS, Some t) \<and>
    fw_image_bytes (umac_patch_pri t) = Some (snd i0) \<and> fw_image_bytes (umac_patch_sec t) = Some (snd i1) \<and>
    fw_image_bytes (lmac_patch_pri t) = Some (snd i2) \<and> fw_image_bytes (lmac_patch_sec t) = Some (snd i3)"
proof -
  let ?imgs = "[i0, i1, i2, i3]"
  let ?body = "concat (map fw_image ?imgs)"
  have fi: "(\<lambda>(ty, d). le32_bytes ty @ le32_bytes (of_nat (length d)) @ d) = fw_image"
    by (rule ext) (simp add: fw_image_def split: prod.splits)
  define pre where "pre = le32_bytes NRF_WIFI_PATCH_SIGNATURE @ le32_bytes 4 @ le32_bytes ver @ le32_bytes flags
     @ le32_bytes (of_nat (length ?body)) @ hash"
  have d: "data = pre @ ?body @ []" using assms(3) by (simp add: fw_file_def pre_def fi)
  have lp: "length pre = 52" using assms(1) by (simp add: pre_def)
  have sz: "unat (of_nat (length data) :: u32) = length data" by (rule unat_of_nat_small) (use assms(2) in simp)
  have h: "fw_header data = Some \<lparr>info_signature = NRF_WIFI_PATCH_SIGNATURE, info_num_images = 4,
      info_version = ver, info_feature_flags = flags\<rparr>"
    using fw_word_at [of "[]" 0] fw_word_at [of "le32_bytes NRF_WIFI_PATCH_SIGNATURE" 4]
      fw_word_at [of "le32_bytes NRF_WIFI_PATCH_SIGNATURE @ le32_bytes 4" 8]
      fw_word_at [of "le32_bytes NRF_WIFI_PATCH_SIGNATURE @ le32_bytes 4 @ le32_bytes ver" 12]
    by (simp add: fw_header_def d pre_def)
  have "fw_parse_loop (pre @ ?body @ []) (of_nat (length data)) [0, 1, 2, 3] (of_nat (length pre)) f =
      Some (SUCCESS, fw_put_all [] [0, 1, 2, 3] ?imgs f)"
    by (rule parse_loop_images) (use d sz in simp_all)
  moreover have e: "[0..<4 :: nat] = [0, 1, 2, 3]" by (simp add: upt_conv_Cons)
  ultimately have l: "fw_parse_loop data (of_nat (length data)) [0..<4] 52 f = Some (SUCCESS, fw_put_all [] [0, 1, 2, 3] ?imgs f)"
    unfolding d [symmetric] lp by (simp only: e of_nat_numeral)
  have "\<not> (of_nat (length data) :: u32) < 52"
    using sz lp d by (simp add: word_less_nat_alt)
  then have p: "nrf_wifi_fmac_fw_parse (Some data) (of_nat (length data)) (Some f) s =
      Some (SUCCESS, Some (fw_put_all [] [0, 1, 2, 3] ?imgs f))"
    using assms(4,5) by (simp add: nrf_wifi_fmac_fw_parse_def h nrf_wifi_validate_fw_header_def l)
  have "length (snd i) < 2 ^ 32" if "i \<in> set ?imgs" for i
    using assms(2) that unfolding d by (auto simp: fw_image_def)
  then have "unat (of_nat (length (snd i)) :: u32) = length (snd i)" if "i \<in> set ?imgs" for i
    using that by (intro unat_of_nat_small) simp
  then have n: "unat (of_nat (length (snd i0)) :: u32) = length (snd i0)" "unat (of_nat (length (snd i1)) :: u32) = length (snd i1)"
    "unat (of_nat (length (snd i2)) :: u32) = length (snd i2)" "unat (of_nat (length (snd i3)) :: u32) = length (snd i3)"
    by simp_all
  show ?thesis unfolding p by (simp add: fw_info_put_def fw_image_bytes_def n)
qed

definition no_fw :: nrf_wifi_fmac_fw_info where
  "no_fw = (let n = \<lparr>fw_data = None, fw_size = 0\<rparr> in
     \<lparr>lmac_patch_pri = n, lmac_patch_sec = n, umac_patch_pri = n, umac_patch_sec = n\<rparr>)"

definition small_fw :: "u8 list" where
  "small_fw = fw_file 0x01020E08 1 (replicate 32 7) [(0, [1]), (1, []), (2, [2, 3]), (3, [])]"

theorem fw_parse_round_trip_witness:
  "\<exists>t. nrf_wifi_fmac_fw_parse (Some small_fw) 87 (Some no_fw) fmac_demo = Some (SUCCESS, Some t) \<and>
    fw_image_bytes (umac_patch_pri t) = Some [1] \<and> fw_image_bytes (lmac_patch_pri t) = Some [2, 3]"
proof -
  have l: "length small_fw = 87" by (simp add: small_fw_def fw_file_def)
  have v: "nrf_wifi_patch_version_compat 0x01020E08 = 0"
      "nrf_wifi_patch_feature_flags_compat (op_mode fmac_demo) 1 = 0"
    by (simp_all add: nrf_wifi_patch_version_compat_def fmac_demo_simps)
  have "length (replicate 32 (7 :: u8)) = 32" "length small_fw < 2 ^ 32" using l by simp_all
  from fw_parse_round_trip [OF this small_fw_def v, of no_fw] show ?thesis unfolding l by auto
qed

text \<open>C34 The bounds check of the parser is done with sums of 32 bits. When the length of an image is
  so large that its end wraps around, the check passes: the image is recorded with its length
  although the file ends before it, and the parser goes on with the next image at the wrapped
  offset, inside the part that was parsed already.\<close>

theorem fw_parse_wraps:
  assumes "fw_word data (unat off + 4) = Some len" "unat off + 8 + unat len = 2 ^ 32 + unat (off' :: u32)"
    and "off' \<le> sz" "length data = unat sz"
  shows "fw_parse_loop data sz (k # ks) off f = fw_parse_loop data sz ks off'
      (fw_info_put k \<lparr>fw_data = Some (drop (unat off + 8) data), fw_size = len\<rparr> f) \<and>
    fw_image_bytes \<lparr>fw_data = Some (drop (unat off + 8) data), fw_size = len\<rparr> = None"
proof -
  have sz: "unat sz < 2 ^ 32" using unsigned_less [of sz] by simp
  have o: "unat off' < 2 ^ 32" using unsigned_less [of off'] by simp
  have e: "off + 8 + len = off'"
  proof (rule word_unat_eq_iff [THEN iffD2])
    have "unat (off + 8 + len) = (unat off + 8 + unat len) mod 2 ^ 32" by (simp add: unat_word_ariths mod_simps)
    also have "\<dots> = unat off'" unfolding assms(2) using o by simp
    finally show "unat (off + 8 + len) = unat off'" .
  qed
  then have "\<not> sz < off + 8 + len" using assms(3) by (simp add: not_less)
  moreover have "\<not> unat len \<le> length (drop (unat off + 8) data)" using assms(1,2,4) sz by (auto simp: fw_word_def split: if_splits)
  moreover have "off + (8 + len) = off'" using e by (simp add: add.assoc)
  ultimately show ?thesis using assms(1) by (simp add: fw_image_bytes_def)
qed

text \<open>A file of 60 bytes, just a header and one image header, whose image ends at the start of the
  file: the header is taken for the second image.\<close>

definition wrap_fw :: "u8 list" where
  "wrap_fw = replicate 52 0 @ le32_bytes 0 @ le32_bytes 0xFFFFFFC4"

theorem fw_parse_wraps_witness:
  "fw_parse_loop wrap_fw 60 [0] 52 no_fw = Some (SUCCESS, fw_info_put 0 \<lparr>fw_data = Some [], fw_size = 0xFFFFFFC4\<rparr> no_fw)"
proof -
  have "wrap_fw = (replicate 52 0 @ le32_bytes 0) @ le32_bytes 0xFFFFFFC4 @ []" by (simp add: wrap_fw_def)
  then have w: "fw_word wrap_fw (unat (52 :: u32) + 4) = Some 0xFFFFFFC4"
    using fw_word_at [of "replicate 52 0 @ le32_bytes 0" 56 "0xFFFFFFC4" "[]"] by simp
  have "drop (unat (52 :: u32) + 8) wrap_fw = []" "length wrap_fw = unat (60 :: u32)" by (simp_all add: wrap_fw_def)
  then show ?thesis using fw_parse_wraps [OF w, of 0 60 0 "[]" no_fw] by simp
qed

end
