(* ===== verification/Fmac_Api.thy ===== *)
theory Fmac_Api
  imports Fmac_Msg Fmac_Fw
begin

text \<open>The management commands of \<open>fw_if/umac_if/src/system/fmac_api.c\<close>, for the configuration with
  \<open>NRF70_STA_MODE\<close>, \<open>NRF70_AP_MODE\<close>, \<open>NRF70_P2P_MODE\<close> and \<open>NRF70_UTIL\<close>. A pointer that the code tests
  for NULL is an option; the memory of a structure that is sent is its record and its bytes.\<close>

section \<open>Constants\<close>

abbreviation (input) NRF_WIFI_UMAC_CMD_TRIGGER_SCAN :: u32 where "NRF_WIFI_UMAC_CMD_TRIGGER_SCAN \<equiv> 0"
abbreviation (input) NRF_WIFI_UMAC_CMD_ABORT_SCAN :: u32 where "NRF_WIFI_UMAC_CMD_ABORT_SCAN \<equiv> 50"
abbreviation (input) NRF_WIFI_UMAC_CMD_GET_SCAN_RESULTS :: u32 where "NRF_WIFI_UMAC_CMD_GET_SCAN_RESULTS \<equiv> 1"
abbreviation (input) NRF_WIFI_UMAC_CMD_AUTHENTICATE :: u32 where "NRF_WIFI_UMAC_CMD_AUTHENTICATE \<equiv> 2"
abbreviation (input) NRF_WIFI_UMAC_CMD_DEAUTHENTICATE :: u32 where "NRF_WIFI_UMAC_CMD_DEAUTHENTICATE \<equiv> 4"
abbreviation (input) NRF_WIFI_UMAC_CMD_ASSOCIATE :: u32 where "NRF_WIFI_UMAC_CMD_ASSOCIATE \<equiv> 3"
abbreviation (input) NRF_WIFI_UMAC_CMD_NEW_KEY :: u32 where "NRF_WIFI_UMAC_CMD_NEW_KEY \<equiv> 6"
abbreviation (input) NRF_WIFI_UMAC_CMD_DEL_KEY :: u32 where "NRF_WIFI_UMAC_CMD_DEL_KEY \<equiv> 7"
abbreviation (input) NRF_WIFI_UMAC_CMD_SET_KEY :: u32 where "NRF_WIFI_UMAC_CMD_SET_KEY \<equiv> 8"
abbreviation (input) NRF_WIFI_UMAC_CMD_SET_STATION :: u32 where "NRF_WIFI_UMAC_CMD_SET_STATION \<equiv> 21"
abbreviation (input) NRF_WIFI_UMAC_CMD_SET_BSS :: u32 where "NRF_WIFI_UMAC_CMD_SET_BSS \<equiv> 12"
abbreviation (input) NRF_WIFI_UMAC_CMD_SET_BEACON :: u32 where "NRF_WIFI_UMAC_CMD_SET_BEACON \<equiv> 11"
abbreviation (input) NRF_WIFI_UMAC_CMD_START_AP :: u32 where "NRF_WIFI_UMAC_CMD_START_AP \<equiv> 13"
abbreviation (input) NRF_WIFI_UMAC_CMD_STOP_AP :: u32 where "NRF_WIFI_UMAC_CMD_STOP_AP \<equiv> 14"
abbreviation (input) NRF_WIFI_UMAC_CMD_DEL_STATION :: u32 where "NRF_WIFI_UMAC_CMD_DEL_STATION \<equiv> 20"
abbreviation (input) NRF_WIFI_UMAC_CMD_NEW_STATION :: u32 where "NRF_WIFI_UMAC_CMD_NEW_STATION \<equiv> 19"
abbreviation (input) NRF_WIFI_UMAC_CMD_REGISTER_FRAME :: u32 where "NRF_WIFI_UMAC_CMD_REGISTER_FRAME \<equiv> 29"
abbreviation (input) NRF_WIFI_UMAC_CMD_START_P2P_DEVICE :: u32 where "NRF_WIFI_UMAC_CMD_START_P2P_DEVICE \<equiv> 23"
abbreviation (input) NRF_WIFI_UMAC_CMD_STOP_P2P_DEVICE :: u32 where "NRF_WIFI_UMAC_CMD_STOP_P2P_DEVICE \<equiv> 24"
abbreviation (input) NRF_WIFI_UMAC_CMD_REMAIN_ON_CHANNEL :: u32 where "NRF_WIFI_UMAC_CMD_REMAIN_ON_CHANNEL \<equiv> 25"
abbreviation (input) NRF_WIFI_UMAC_CMD_CANCEL_REMAIN_ON_CHANNEL :: u32 where "NRF_WIFI_UMAC_CMD_CANCEL_REMAIN_ON_CHANNEL \<equiv> 26"
abbreviation (input) NRF_WIFI_UMAC_CMD_FRAME :: u32 where "NRF_WIFI_UMAC_CMD_FRAME \<equiv> 30"
abbreviation (input) NRF_WIFI_UMAC_CMD_SET_IFFLAGS :: u32 where "NRF_WIFI_UMAC_CMD_SET_IFFLAGS \<equiv> 18"
abbreviation (input) NRF_WIFI_UMAC_CMD_CHANGE_MACADDR :: u32 where "NRF_WIFI_UMAC_CMD_CHANGE_MACADDR \<equiv> 52"
abbreviation (input) NRF_WIFI_UMAC_CMD_SET_WIPHY :: u32 where "NRF_WIFI_UMAC_CMD_SET_WIPHY \<equiv> 5"
abbreviation (input) NRF_WIFI_UMAC_CMD_GET_TX_POWER :: u32 where "NRF_WIFI_UMAC_CMD_GET_TX_POWER \<equiv> 39"
abbreviation (input) NRF_WIFI_UMAC_CMD_GET_CHANNEL :: u32 where "NRF_WIFI_UMAC_CMD_GET_CHANNEL \<equiv> 38"
abbreviation (input) NRF_WIFI_UMAC_CMD_GET_STATION :: u32 where "NRF_WIFI_UMAC_CMD_GET_STATION \<equiv> 22"
abbreviation (input) NRF_WIFI_UMAC_CMD_GET_INTERFACE :: u32 where "NRF_WIFI_UMAC_CMD_GET_INTERFACE \<equiv> 40"
abbreviation (input) NRF_WIFI_UMAC_CMD_SET_QOS_MAP :: u32 where "NRF_WIFI_UMAC_CMD_SET_QOS_MAP \<equiv> 37"
abbreviation (input) NRF_WIFI_UMAC_CMD_SET_POWER_SAVE :: u32 where "NRF_WIFI_UMAC_CMD_SET_POWER_SAVE \<equiv> 33"
abbreviation (input) NRF_WIFI_UMAC_CMD_CONFIG_UAPSD :: u32 where "NRF_WIFI_UMAC_CMD_CONFIG_UAPSD \<equiv> 47"
abbreviation (input) NRF_WIFI_UMAC_CMD_SET_POWER_SAVE_TIMEOUT :: u32 where "NRF_WIFI_UMAC_CMD_SET_POWER_SAVE_TIMEOUT \<equiv> 53"
abbreviation (input) NRF_WIFI_UMAC_CMD_GET_WIPHY :: u32 where "NRF_WIFI_UMAC_CMD_GET_WIPHY \<equiv> 41"
abbreviation (input) NRF_WIFI_UMAC_CMD_CONFIG_TWT :: u32 where "NRF_WIFI_UMAC_CMD_CONFIG_TWT \<equiv> 48"
abbreviation (input) NRF_WIFI_UMAC_CMD_TEARDOWN_TWT :: u32 where "NRF_WIFI_UMAC_CMD_TEARDOWN_TWT \<equiv> 49"
abbreviation (input) NRF_WIFI_UMAC_CMD_MCAST_FILTER :: u32 where "NRF_WIFI_UMAC_CMD_MCAST_FILTER \<equiv> 51"
abbreviation (input) NRF_WIFI_UMAC_CMD_GET_CONNECTION_INFO :: u32 where "NRF_WIFI_UMAC_CMD_GET_CONNECTION_INFO \<equiv> 54"
abbreviation (input) NRF_WIFI_UMAC_CMD_GET_POWER_SAVE_INFO :: u32 where "NRF_WIFI_UMAC_CMD_GET_POWER_SAVE_INFO \<equiv> 55"
abbreviation (input) NRF_WIFI_UMAC_CMD_SET_LISTEN_INTERVAL :: u32 where "NRF_WIFI_UMAC_CMD_SET_LISTEN_INTERVAL \<equiv> 56"
abbreviation (input) NRF_WIFI_UMAC_CMD_CONFIG_EXTENDED_PS :: u32 where "NRF_WIFI_UMAC_CMD_CONFIG_EXTENDED_PS \<equiv> 57"
abbreviation (input) NRF_WIFI_UMAC_CMD_PS_EXIT_STRATEGY :: u32 where "NRF_WIFI_UMAC_CMD_PS_EXIT_STRATEGY \<equiv> 59"
abbreviation (input) NRF_WIFI_CIPHER_SUITE_VALID :: u32 where "NRF_WIFI_CIPHER_SUITE_VALID \<equiv> 0x10"
abbreviation (input) NRF_WIFI_CMD_AUTHENTICATE_FREQ_VALID :: u32 where "NRF_WIFI_CMD_AUTHENTICATE_FREQ_VALID \<equiv> 4"
abbreviation (input) NRF_WIFI_CMD_AUTHENTICATE_KEY_INFO_VALID :: u32 where "NRF_WIFI_CMD_AUTHENTICATE_KEY_INFO_VALID \<equiv> 1"
abbreviation (input) NRF_WIFI_CMD_AUTHENTICATE_SAE_VALID :: u32 where "NRF_WIFI_CMD_AUTHENTICATE_SAE_VALID \<equiv> 0x20"
abbreviation (input) NRF_WIFI_CMD_AUTHENTICATE_SSID_VALID :: u32 where "NRF_WIFI_CMD_AUTHENTICATE_SSID_VALID \<equiv> 8"
abbreviation (input) NRF_WIFI_CMD_BEACON_INFO_BEACON_INTERVAL_VALID :: u32 where "NRF_WIFI_CMD_BEACON_INFO_BEACON_INTERVAL_VALID \<equiv> 1"
abbreviation (input) NRF_WIFI_CMD_BEACON_INFO_CIPHER_SUITE_GROUP_VALID :: u32 where "NRF_WIFI_CMD_BEACON_INFO_CIPHER_SUITE_GROUP_VALID \<equiv> 8"
abbreviation (input) NRF_WIFI_CMD_BEACON_INFO_P2P_CTWINDOW_VALID :: u32 where "NRF_WIFI_CMD_BEACON_INFO_P2P_CTWINDOW_VALID \<equiv> 0x40"
abbreviation (input) NRF_WIFI_CMD_BEACON_INFO_P2P_OPPPS_VALID :: u32 where "NRF_WIFI_CMD_BEACON_INFO_P2P_OPPPS_VALID \<equiv> 0x80"
abbreviation (input) NRF_WIFI_CMD_BEACON_INFO_VERSIONS_VALID :: u32 where "NRF_WIFI_CMD_BEACON_INFO_VERSIONS_VALID \<equiv> 4"
abbreviation (input) NRF_WIFI_CMD_CANCEL_ROC_COOKIE_VALID :: u32 where "NRF_WIFI_CMD_CANCEL_ROC_COOKIE_VALID \<equiv> 1"
abbreviation (input) NRF_WIFI_CMD_CONNECT_COMMON_INFO_USE_RRM :: u32 where "NRF_WIFI_CMD_CONNECT_COMMON_INFO_USE_RRM \<equiv> 0x4000"
abbreviation (input) NRF_WIFI_CMD_DEL_STATION_MAC_ADDR_VALID :: u32 where "NRF_WIFI_CMD_DEL_STATION_MAC_ADDR_VALID \<equiv> 1"
abbreviation (input) NRF_WIFI_CMD_DEL_STATION_MGMT_SUBTYPE_VALID :: u32 where "NRF_WIFI_CMD_DEL_STATION_MGMT_SUBTYPE_VALID \<equiv> 2"
abbreviation (input) NRF_WIFI_CMD_DEL_STATION_REASON_CODE_VALID :: u32 where "NRF_WIFI_CMD_DEL_STATION_REASON_CODE_VALID \<equiv> 4"
abbreviation (input) NRF_WIFI_CMD_FRAME_DURATION_VALID :: u32 where "NRF_WIFI_CMD_FRAME_DURATION_VALID \<equiv> 2"
abbreviation (input) NRF_WIFI_CMD_FRAME_FREQ_VALID :: u32 where "NRF_WIFI_CMD_FRAME_FREQ_VALID \<equiv> 1"
abbreviation (input) NRF_WIFI_CMD_KEY_MAC_ADDR_VALID :: u32 where "NRF_WIFI_CMD_KEY_MAC_ADDR_VALID \<equiv> 1"
abbreviation (input) NRF_WIFI_CMD_MLME_MAC_ADDR_VALID :: u32 where "NRF_WIFI_CMD_MLME_MAC_ADDR_VALID \<equiv> 1"
abbreviation (input) NRF_WIFI_CMD_NEW_STATION_AID_VALID :: u32 where "NRF_WIFI_CMD_NEW_STATION_AID_VALID \<equiv> 2"
abbreviation (input) NRF_WIFI_CMD_NEW_STATION_EXT_CAPABILITY_VALID :: u32 where "NRF_WIFI_CMD_NEW_STATION_EXT_CAPABILITY_VALID \<equiv> 0x10"
abbreviation (input) NRF_WIFI_CMD_NEW_STATION_HT_CAPABILITY_VALID :: u32 where "NRF_WIFI_CMD_NEW_STATION_HT_CAPABILITY_VALID \<equiv> 0x40"
abbreviation (input) NRF_WIFI_CMD_NEW_STATION_LISTEN_INTERVAL_VALID :: u32 where "NRF_WIFI_CMD_NEW_STATION_LISTEN_INTERVAL_VALID \<equiv> 0x8000"
abbreviation (input) NRF_WIFI_CMD_NEW_STATION_OPMODE_NOTIF_VALID :: u32 where "NRF_WIFI_CMD_NEW_STATION_OPMODE_NOTIF_VALID \<equiv> 0x200"
abbreviation (input) NRF_WIFI_CMD_NEW_STATION_STA_CAPABILITY_VALID :: u32 where "NRF_WIFI_CMD_NEW_STATION_STA_CAPABILITY_VALID \<equiv> 8"
abbreviation (input) NRF_WIFI_CMD_NEW_STATION_STA_FLAGS2_VALID :: u32 where "NRF_WIFI_CMD_NEW_STATION_STA_FLAGS2_VALID \<equiv> 0x1000"
abbreviation (input) NRF_WIFI_CMD_NEW_STATION_STA_WME_MAX_SP_VALID :: u32 where "NRF_WIFI_CMD_NEW_STATION_STA_WME_MAX_SP_VALID \<equiv> 0x4000"
abbreviation (input) NRF_WIFI_CMD_NEW_STATION_STA_WME_UAPSD_QUEUES_VALID :: u32 where "NRF_WIFI_CMD_NEW_STATION_STA_WME_UAPSD_QUEUES_VALID \<equiv> 0x2000"
abbreviation (input) NRF_WIFI_CMD_NEW_STATION_SUPPORTED_CHANNELS_VALID :: u32 where "NRF_WIFI_CMD_NEW_STATION_SUPPORTED_CHANNELS_VALID \<equiv> 0x400"
abbreviation (input) NRF_WIFI_CMD_NEW_STATION_SUPPORTED_OPER_CLASSES_VALID :: u32 where "NRF_WIFI_CMD_NEW_STATION_SUPPORTED_OPER_CLASSES_VALID \<equiv> 0x800"
abbreviation (input) NRF_WIFI_CMD_NEW_STATION_SUPP_RATES_VALID :: u32 where "NRF_WIFI_CMD_NEW_STATION_SUPP_RATES_VALID \<equiv> 1"
abbreviation (input) NRF_WIFI_CMD_NEW_STATION_VHT_CAPABILITY_VALID :: u32 where "NRF_WIFI_CMD_NEW_STATION_VHT_CAPABILITY_VALID \<equiv> 0x80"
abbreviation (input) NRF_WIFI_CMD_ROC_DURATION_VALID :: u32 where "NRF_WIFI_CMD_ROC_DURATION_VALID \<equiv> 2"
abbreviation (input) NRF_WIFI_CMD_ROC_FREQ_PARAMS_VALID :: u32 where "NRF_WIFI_CMD_ROC_FREQ_PARAMS_VALID \<equiv> 1"
abbreviation (input) NRF_WIFI_CMD_SET_BSS_AP_ISOLATE_VALID :: u32 where "NRF_WIFI_CMD_SET_BSS_AP_ISOLATE_VALID \<equiv> 0x10"
abbreviation (input) NRF_WIFI_CMD_SET_BSS_CTS_VALID :: u32 where "NRF_WIFI_CMD_SET_BSS_CTS_VALID \<equiv> 1"
abbreviation (input) NRF_WIFI_CMD_SET_BSS_HT_OPMODE_VALID :: u32 where "NRF_WIFI_CMD_SET_BSS_HT_OPMODE_VALID \<equiv> 8"
abbreviation (input) NRF_WIFI_CMD_SET_BSS_P2P_CTWINDOW_VALID :: u32 where "NRF_WIFI_CMD_SET_BSS_P2P_CTWINDOW_VALID \<equiv> 0x20"
abbreviation (input) NRF_WIFI_CMD_SET_BSS_P2P_OPPPS_VALID :: u32 where "NRF_WIFI_CMD_SET_BSS_P2P_OPPPS_VALID \<equiv> 0x40"
abbreviation (input) NRF_WIFI_CMD_SET_BSS_PREAMBLE_VALID :: u32 where "NRF_WIFI_CMD_SET_BSS_PREAMBLE_VALID \<equiv> 2"
abbreviation (input) NRF_WIFI_CMD_SET_BSS_SLOT_VALID :: u32 where "NRF_WIFI_CMD_SET_BSS_SLOT_VALID \<equiv> 4"
abbreviation (input) NRF_WIFI_CMD_SET_FRAME_FREQ_PARAMS_VALID :: u32 where "NRF_WIFI_CMD_SET_FRAME_FREQ_PARAMS_VALID \<equiv> 4"
abbreviation (input) NRF_WIFI_CMD_SET_STATION_AID_VALID :: u32 where "NRF_WIFI_CMD_SET_STATION_AID_VALID \<equiv> 2"
abbreviation (input) NRF_WIFI_CMD_SET_STATION_OPMODE_NOTIF_VALID :: u32 where "NRF_WIFI_CMD_SET_STATION_OPMODE_NOTIF_VALID \<equiv> 0x200"
abbreviation (input) NRF_WIFI_CMD_SET_STATION_STA_FLAGS2_VALID :: u32 where "NRF_WIFI_CMD_SET_STATION_STA_FLAGS2_VALID \<equiv> 0x1000"
abbreviation (input) NRF_WIFI_CMD_SET_STATION_STA_WME_MAX_SP_VALID :: u32 where "NRF_WIFI_CMD_SET_STATION_STA_WME_MAX_SP_VALID \<equiv> 0x4000"
abbreviation (input) NRF_WIFI_CMD_SET_STATION_SUPPORTED_CHANNELS_VALID :: u32 where "NRF_WIFI_CMD_SET_STATION_SUPPORTED_CHANNELS_VALID \<equiv> 0x400"
abbreviation (input) NRF_WIFI_CMD_SET_STATION_SUPPORTED_OPER_CLASSES_VALID :: u32 where "NRF_WIFI_CMD_SET_STATION_SUPPORTED_OPER_CLASSES_VALID \<equiv> 0x800"
abbreviation (input) NRF_WIFI_CMD_SET_WIPHY_FRAG_THRESHOLD_VALID :: u32 where "NRF_WIFI_CMD_SET_WIPHY_FRAG_THRESHOLD_VALID \<equiv> 8"
abbreviation (input) NRF_WIFI_CMD_SET_WIPHY_FREQ_PARAMS_VALID :: u32 where "NRF_WIFI_CMD_SET_WIPHY_FREQ_PARAMS_VALID \<equiv> 1"
abbreviation (input) NRF_WIFI_CMD_SET_WIPHY_RETRY_LONG_VALID :: u32 where "NRF_WIFI_CMD_SET_WIPHY_RETRY_LONG_VALID \<equiv> 0x100"
abbreviation (input) NRF_WIFI_CMD_SET_WIPHY_RETRY_SHORT_VALID :: u32 where "NRF_WIFI_CMD_SET_WIPHY_RETRY_SHORT_VALID \<equiv> 0x80"
abbreviation (input) NRF_WIFI_CMD_SET_WIPHY_RTS_THRESHOLD_VALID :: u32 where "NRF_WIFI_CMD_SET_WIPHY_RTS_THRESHOLD_VALID \<equiv> 4"
abbreviation (input) NRF_WIFI_CONNECT_COMMON_INFO_AKM_SUITES_VALID :: u32 where "NRF_WIFI_CONNECT_COMMON_INFO_AKM_SUITES_VALID \<equiv> 0x400"
abbreviation (input) NRF_WIFI_CONNECT_COMMON_INFO_CIPHER_SUITES_PAIRWISE_VALID :: u32 where "NRF_WIFI_CONNECT_COMMON_INFO_CIPHER_SUITES_PAIRWISE_VALID \<equiv> 0x100"
abbreviation (input) NRF_WIFI_CONNECT_COMMON_INFO_CONTROL_PORT_ETHER_TYPE :: u32 where "NRF_WIFI_CONNECT_COMMON_INFO_CONTROL_PORT_ETHER_TYPE \<equiv> 0x1000"
abbreviation (input) NRF_WIFI_CONNECT_COMMON_INFO_CONTROL_PORT_NO_ENCRYPT :: u32 where "NRF_WIFI_CONNECT_COMMON_INFO_CONTROL_PORT_NO_ENCRYPT \<equiv> 0x2000"
abbreviation (input) NRF_WIFI_CONNECT_COMMON_INFO_FREQ_VALID :: u32 where "NRF_WIFI_CONNECT_COMMON_INFO_FREQ_VALID \<equiv> 4"
abbreviation (input) NRF_WIFI_CONNECT_COMMON_INFO_MAC_ADDR_VALID :: u32 where "NRF_WIFI_CONNECT_COMMON_INFO_MAC_ADDR_VALID \<equiv> 1"
abbreviation (input) NRF_WIFI_CONNECT_COMMON_INFO_PREV_BSSID :: u32 where "NRF_WIFI_CONNECT_COMMON_INFO_PREV_BSSID \<equiv> 0x8000"
abbreviation (input) NRF_WIFI_CONNECT_COMMON_INFO_SECURITY :: u32 where "NRF_WIFI_CONNECT_COMMON_INFO_SECURITY \<equiv> 0x10000"
abbreviation (input) NRF_WIFI_CONNECT_COMMON_INFO_SSID_VALID :: u32 where "NRF_WIFI_CONNECT_COMMON_INFO_SSID_VALID \<equiv> 0x20"
abbreviation (input) NRF_WIFI_CONNECT_COMMON_INFO_USE_MFP_VALID :: u32 where "NRF_WIFI_CONNECT_COMMON_INFO_USE_MFP_VALID \<equiv> 0x800"
abbreviation (input) NRF_WIFI_CONNECT_COMMON_INFO_WPA_IE_VALID :: u32 where "NRF_WIFI_CONNECT_COMMON_INFO_WPA_IE_VALID \<equiv> 0x40"
abbreviation (input) NRF_WIFI_CONNECT_COMMON_INFO_WPA_VERSIONS_VALID :: u32 where "NRF_WIFI_CONNECT_COMMON_INFO_WPA_VERSIONS_VALID \<equiv> 0x80"
abbreviation (input) NRF_WIFI_KEY_IDX_VALID :: u32 where "NRF_WIFI_KEY_IDX_VALID \<equiv> 4"
abbreviation (input) NRF_WIFI_KEY_TYPE_VALID :: u32 where "NRF_WIFI_KEY_TYPE_VALID \<equiv> 2"
abbreviation (input) NRF_WIFI_KEY_VALID :: u32 where "NRF_WIFI_KEY_VALID \<equiv> 1"
abbreviation (input) NRF_WIFI_SEQ_VALID :: u32 where "NRF_WIFI_SEQ_VALID \<equiv> 8"
abbreviation (input) NRF_WIFI_SET_FREQ_PARAMS_CENTER_FREQ1_VALID :: u32 where "NRF_WIFI_SET_FREQ_PARAMS_CENTER_FREQ1_VALID \<equiv> 4"
abbreviation (input) NRF_WIFI_SET_FREQ_PARAMS_CENTER_FREQ2_VALID :: u32 where "NRF_WIFI_SET_FREQ_PARAMS_CENTER_FREQ2_VALID \<equiv> 8"
abbreviation (input) NRF_WIFI_SET_FREQ_PARAMS_CHANNEL_TYPE_VALID :: u32 where "NRF_WIFI_SET_FREQ_PARAMS_CHANNEL_TYPE_VALID \<equiv> 0x10"
abbreviation (input) NRF_WIFI_SET_FREQ_PARAMS_CHANNEL_WIDTH_VALID :: u32 where "NRF_WIFI_SET_FREQ_PARAMS_CHANNEL_WIDTH_VALID \<equiv> 2"
abbreviation (input) NRF_WIFI_SET_FREQ_PARAMS_FREQ_VALID :: u32 where "NRF_WIFI_SET_FREQ_PARAMS_FREQ_VALID \<equiv> 1"

section \<open>Sending a command\<close>

text \<open>What the commands share: the operating mode is tested, the structure of the command is
  allocated, filled, sent and freed.\<close>

definition sys_begin :: "os \<Rightarrow> (fmac \<Rightarrow> (nrf_status \<times> fmac) option) \<Rightarrow> fmac \<Rightarrow> (nrf_status \<times> fmac) option" where
  "sys_begin os f s =
    (if op_mode s \<noteq> NRF_WIFI_OP_MODE_SYS then Some (FAIL, s)
     else let (ok, s) = falloc os OBJ_UMAC_CMD s in if \<not> ok then Some (FAIL, s) else f s)"

definition sys_cfg :: "os \<Rightarrow> u8 list \<Rightarrow> fmac \<Rightarrow> (nrf_status \<times> fmac) option" where
  "sys_cfg os cmd s = do {
     (st, s) \<leftarrow> umac_cmd_cfg os cmd s;
     Some (st, femit (IoFree OBJ_UMAC_CMD) s)
   }"

definition wdev_hdr :: "u32 \<Rightarrow> u32 \<Rightarrow> u8 list" where
  "wdev_hdr cmd_evnt if_idx = umac_hdr cmd_evnt 1 (ucast if_idx)"

abbreviation (input) flag :: "bool \<Rightarrow> u32 \<Rightarrow> u32" where
  "flag c v \<equiv> (if c then v else 0)"

section \<open>Scanning\<close>

text \<open>\<open>rest\<close> is the memory behind the structure; the copy takes 39 bytes (a
  \<open>struct nrf_wifi_channel\<close>) of it for each channel, whatever is allocated there.\<close>

definition nrf_wifi_sys_fmac_scan ::
    "os \<Rightarrow> u8 \<Rightarrow> nrf_wifi_umac_scan_info \<Rightarrow> u8 list \<Rightarrow> fmac \<Rightarrow> (nrf_status \<times> fmac) option" where
  "nrf_wifi_sys_fmac_scan os if_idx scan_info rest s =
    (let channel_info_len = 39 * unat (sp_num_scan_channels (si_scan_params scan_info)) in
     sys_begin os (\<lambda>s. if length rest < channel_info_len then None
       else sys_cfg os (wdev_hdr NRF_WIFI_UMAC_CMD_TRIGGER_SCAN (ucast if_idx)
         @ nrf_wifi_umac_scan_info_bytes scan_info @ take channel_info_len rest) s) s)"

definition nrf_wifi_sys_fmac_abort_scan :: "os \<Rightarrow> u8 \<Rightarrow> fmac \<Rightarrow> (nrf_status \<times> fmac) option" where
  "nrf_wifi_sys_fmac_abort_scan os if_idx =
    sys_begin os (sys_cfg os (wdev_hdr NRF_WIFI_UMAC_CMD_ABORT_SCAN (ucast if_idx)))"

definition nrf_wifi_sys_fmac_scan_res_get :: "os \<Rightarrow> u8 \<Rightarrow> u32 \<Rightarrow> fmac \<Rightarrow> (nrf_status \<times> fmac) option" where
  "nrf_wifi_sys_fmac_scan_res_get os vif_idx scan_type =
    sys_begin os (sys_cfg os (wdev_hdr NRF_WIFI_UMAC_CMD_GET_SCAN_RESULTS (ucast vif_idx) @ le32_bytes scan_type))"

section \<open>Joining and leaving a network\<close>

definition auth_cmd :: "u8 \<Rightarrow> nrf_wifi_umac_auth_info \<Rightarrow> u8 list" where
  "auth_cmd if_idx i =
    (let key = au_key_info i; has_key = 0 < key_len (ki_key key);
         valid = flag (au_frequency i \<noteq> 0) NRF_WIFI_CMD_AUTHENTICATE_FREQ_VALID
           OR flag (0 < ssid_len (au_ssid i)) NRF_WIFI_CMD_AUTHENTICATE_SSID_VALID
           OR flag has_key NRF_WIFI_CMD_AUTHENTICATE_KEY_INFO_VALID
           OR flag (0 <s sae_data_len (au_sae i)) NRF_WIFI_CMD_AUTHENTICATE_SAE_VALID;
         key = (if has_key then key\<lparr>ki_valid_fields := ki_valid_fields key OR NRF_WIFI_KEY_IDX_VALID
                  OR NRF_WIFI_KEY_VALID OR NRF_WIFI_CIPHER_SUITE_VALID\<rparr> else key) in
     wdev_hdr NRF_WIFI_UMAC_CMD_AUTHENTICATE (ucast if_idx) @ le32_bytes valid
       @ nrf_wifi_umac_auth_info_bytes (i\<lparr>au_key_info := key\<rparr>))"

definition nrf_wifi_sys_fmac_auth :: "os \<Rightarrow> u8 \<Rightarrow> nrf_wifi_umac_auth_info \<Rightarrow> fmac \<Rightarrow> (nrf_status \<times> fmac) option" where
  "nrf_wifi_sys_fmac_auth os if_idx auth_info s =
    (if op_mode s = NRF_WIFI_OP_MODE_SYS \<and> length (vif_ctx s) \<le> unat if_idx then None
     else sys_begin os (sys_cfg os (auth_cmd if_idx auth_info)) s)"

definition disconn_cmd :: "u8 \<Rightarrow> nrf_wifi_umac_disconn_info \<Rightarrow> u8 list" where
  "disconn_cmd if_idx i = wdev_hdr NRF_WIFI_UMAC_CMD_DEAUTHENTICATE (ucast if_idx)
     @ le32_bytes (flag (\<not> nrf_wifi_util_is_arr_zero (dc_mac_addr i)) NRF_WIFI_CMD_MLME_MAC_ADDR_VALID)
     @ nrf_wifi_umac_disconn_info_bytes i"

definition nrf_wifi_sys_fmac_deauth ::
    "os \<Rightarrow> u8 \<Rightarrow> nrf_wifi_umac_disconn_info \<Rightarrow> fmac \<Rightarrow> (nrf_status \<times> fmac) option" where
  "nrf_wifi_sys_fmac_deauth os if_idx deauth_info = sys_begin os (sys_cfg os (disconn_cmd if_idx deauth_info))"

text \<open>A disassociation sends the command of a deauthentication.\<close>

definition nrf_wifi_sys_fmac_disassoc ::
    "os \<Rightarrow> u8 \<Rightarrow> nrf_wifi_umac_disconn_info \<Rightarrow> fmac \<Rightarrow> (nrf_status \<times> fmac) option" where
  "nrf_wifi_sys_fmac_disassoc os if_idx disassoc_info =
    sys_begin os (sys_cfg os (disconn_cmd if_idx disassoc_info))"

definition connect_common_zero :: nrf_wifi_connect_common_info where
  "connect_common_zero = \<lparr>cc_valid_fields = 0, cc_frequency = 0, cc_freq_hint = 0, cc_wpa_versions = 0,
     cc_num_cipher_suites_pairwise = 0, cc_cipher_suites_pairwise = replicate 7 0,
     cc_cipher_suite_group = 0, cc_num_akm_suites = 0, cc_akm_suites = replicate 2 0, cc_use_mfp = 0,
     cc_flags = 0, cc_bg_scan_period = 0, cc_mac_addr = replicate 6 0, cc_mac_addr_hint = replicate 6 0,
     cc_ssid = \<lparr>ssid_len = 0, ssid_ssid = replicate 32 0\<rparr>, cc_wpa_ie = \<lparr>ie_len = 0, ie_ie = replicate 400 0\<rparr>,
     cc_ht_vht_capabilities = \<lparr>hv_valid_fields = 0, hv_flags = 0, hv_ht_capability = replicate 256 0,
       hv_ht_capability_mask = replicate 256 0, hv_vht_capability = replicate 256 0,
       hv_vht_capability_mask = replicate 256 0\<rparr>,
     cc_control_port_ether_type = 0, cc_control_port_no_encrypt = 0, cc_control_port = 0,
     cc_prev_bssid = replicate 6 0, cc_maxidle_insec = 0\<rparr>"

definition assoc_common :: "nrf_wifi_umac_assoc_info \<Rightarrow> nrf_wifi_connect_common_info" where
  "assoc_common i =
    (let has_ssid = 0 < ssid_len (asc_ssid i); has_ie = 0 < ie_len (asc_wpa_ie i);
         prev = asc_prev_bssid_flag i \<noteq> 0 in
     connect_common_zero\<lparr>
       cc_valid_fields := flag (\<not> nrf_wifi_util_is_arr_zero (asc_bssid i)) NRF_WIFI_CONNECT_COMMON_INFO_MAC_ADDR_VALID
         OR flag has_ssid NRF_WIFI_CONNECT_COMMON_INFO_SSID_VALID OR NRF_WIFI_CONNECT_COMMON_INFO_FREQ_VALID
         OR flag has_ie NRF_WIFI_CONNECT_COMMON_INFO_WPA_IE_VALID OR NRF_WIFI_CONNECT_COMMON_INFO_USE_MFP_VALID,
       cc_frequency := asc_center_frequency i, cc_use_mfp := ucast (asc_use_mfp i),
       cc_flags := NRF_WIFI_CMD_CONNECT_COMMON_INFO_USE_RRM
         OR flag prev NRF_WIFI_CONNECT_COMMON_INFO_PREV_BSSID
         OR flag (asc_conn_type i = 1) NRF_WIFI_CONNECT_COMMON_INFO_SECURITY,
       cc_mac_addr := asc_bssid i,
       cc_ssid := (if has_ssid then asc_ssid i else cc_ssid connect_common_zero),
       cc_wpa_ie := (if has_ie then asc_wpa_ie i else cc_wpa_ie connect_common_zero),
       cc_control_port := asc_control_port i,
       cc_prev_bssid := (if prev then asc_prev_bssid i else replicate 6 0),
       cc_maxidle_insec := asc_bss_max_idle_time i\<rparr>)"

definition assoc_cmd :: "u8 \<Rightarrow> nrf_wifi_umac_assoc_info \<Rightarrow> u8 list" where
  "assoc_cmd if_idx i = wdev_hdr NRF_WIFI_UMAC_CMD_ASSOCIATE (ucast if_idx) @ le32_bytes 0
     @ nrf_wifi_connect_common_info_bytes (assoc_common i) @ replicate 6 0"

definition vif_put :: "nat \<Rightarrow> vif \<Rightarrow> fmac \<Rightarrow> fmac" where
  "vif_put i v s = s\<lparr>vif_ctx := (vif_ctx s)[i := VIF_PTR v]\<rparr>"

text \<open>The address of the network is stored before the command is allocated.\<close>

definition nrf_wifi_sys_fmac_assoc :: "os \<Rightarrow> u8 \<Rightarrow> nrf_wifi_umac_assoc_info \<Rightarrow> fmac \<Rightarrow> (nrf_status \<times> fmac) option" where
  "nrf_wifi_sys_fmac_assoc os if_idx assoc_info s =
    (if op_mode s \<noteq> NRF_WIFI_OP_MODE_SYS then Some (FAIL, s)
     else do {
       v \<leftarrow> vif_at s (unat if_idx);
       sys_begin os (sys_cfg os (assoc_cmd if_idx assoc_info))
         (vif_put (unat if_idx) (v\<lparr>bssid := asc_bssid assoc_info\<rparr>) s)
     })"

section \<open>Keys\<close>

definition key_cmd :: "u32 \<Rightarrow> u8 \<Rightarrow> nrf_wifi_umac_key_info \<Rightarrow> u8 list option \<Rightarrow> u8 list" where
  "key_cmd cmd_evnt if_idx i mac_addr = wdev_hdr cmd_evnt (ucast if_idx)
     @ le32_bytes (flag (mac_addr \<noteq> None) NRF_WIFI_CMD_KEY_MAC_ADDR_VALID) @ nrf_wifi_umac_key_info_bytes i
     @ (case mac_addr of None \<Rightarrow> replicate 6 0 | Some m \<Rightarrow> m)"

text \<open>The cipher is stored for the interface or for the peer before the command is sent. The
  address of a pairwise key is read without a test for NULL; it is -1 that means no peer.\<close>

definition key_store :: "u8 \<Rightarrow> nrf_wifi_umac_key_info \<Rightarrow> u8 list option \<Rightarrow> fmac \<Rightarrow> (bool \<times> fmac) option" where
  "key_store if_idx i mac_addr s =
    (if ki_key_type i = 0 then do {
       v \<leftarrow> vif_at s (unat if_idx);
       Some (True, vif_put (unat if_idx) (v\<lparr>groupwise_cipher := sint (ki_cipher_suite i)\<rparr>) s)
     }
     else if ki_key_type i = 1 then do {
       m \<leftarrow> mac_addr;
       let id = nrf_wifi_fmac_peer_get_id m s;
       if id = -1 then Some (False, s)
       else Some (True, peer_put (nat id) ((peers s ! nat id)\<lparr>pairwise_cipher := ki_cipher_suite i\<rparr>) s)
     }
     else Some (False, s))"

definition add_key_info :: "nrf_wifi_umac_key_info \<Rightarrow> nrf_wifi_umac_key_info" where
  "add_key_info i = i\<lparr>ki_valid_fields := ki_valid_fields i
     OR flag (0 < key_len (ki_key i)) (NRF_WIFI_KEY_VALID OR NRF_WIFI_KEY_IDX_VALID)
     OR flag (0 <s seq_len (ki_seq i)) NRF_WIFI_SEQ_VALID
     OR NRF_WIFI_CIPHER_SUITE_VALID OR NRF_WIFI_KEY_TYPE_VALID\<rparr>"

definition nrf_wifi_sys_fmac_add_key ::
    "os \<Rightarrow> u8 \<Rightarrow> nrf_wifi_umac_key_info \<Rightarrow> u8 list option \<Rightarrow> fmac \<Rightarrow> (nrf_status \<times> fmac) option" where
  "nrf_wifi_sys_fmac_add_key os if_idx key_info mac_addr s =
    (if op_mode s = NRF_WIFI_OP_MODE_SYS \<and> length (vif_ctx s) \<le> unat if_idx then None
     else sys_begin os (\<lambda>s. do {
       (ok, s) \<leftarrow> key_store if_idx key_info mac_addr s;
       if \<not> ok then Some (FAIL, femit (IoFree OBJ_UMAC_CMD) s)
       else sys_cfg os (key_cmd NRF_WIFI_UMAC_CMD_NEW_KEY if_idx (add_key_info key_info) mac_addr) s
     }) s)"

definition nrf_wifi_sys_fmac_del_key ::
    "os \<Rightarrow> u8 \<Rightarrow> nrf_wifi_umac_key_info \<Rightarrow> u8 list option \<Rightarrow> fmac \<Rightarrow> (nrf_status \<times> fmac) option" where
  "nrf_wifi_sys_fmac_del_key os if_idx key_info mac_addr = sys_begin os (\<lambda>s. do {
     p \<leftarrow> nth_opt (vif_ctx s) (unat if_idx);
     s \<leftarrow> (if ki_key_type key_info = 0 then do {
          v \<leftarrow> vif_at s (unat if_idx);
          Some (vif_put (unat if_idx) (v\<lparr>groupwise_cipher := 0\<rparr>) s)
        } else Some s);
     sys_cfg os (key_cmd NRF_WIFI_UMAC_CMD_DEL_KEY if_idx (key_info\<lparr>ki_valid_fields :=
       ki_valid_fields key_info OR NRF_WIFI_KEY_IDX_VALID OR NRF_WIFI_KEY_TYPE_VALID\<rparr>) mac_addr) s
   })"

definition nrf_wifi_sys_fmac_set_key :: "os \<Rightarrow> u8 \<Rightarrow> nrf_wifi_umac_key_info \<Rightarrow> fmac \<Rightarrow> (nrf_status \<times> fmac) option" where
  "nrf_wifi_sys_fmac_set_key os if_idx key_info =
    sys_begin os (sys_cfg os (wdev_hdr NRF_WIFI_UMAC_CMD_SET_KEY (ucast if_idx) @ nrf_wifi_umac_key_info_bytes
      (key_info\<lparr>ki_valid_fields := ki_valid_fields key_info OR NRF_WIFI_KEY_IDX_VALID\<rparr>)))"

section \<open>Stations\<close>

definition chg_sta_valid :: "nrf_wifi_umac_chg_sta_info \<Rightarrow> u32" where
  "chg_sta_valid i =
    flag (cs_aid i \<noteq> 0) NRF_WIFI_CMD_SET_STATION_AID_VALID
    OR flag (0 < sch_supported_channels_len (cs_supported_channels i)) NRF_WIFI_CMD_SET_STATION_SUPPORTED_CHANNELS_VALID
    OR flag (0 < soc_supported_oper_classes_len (cs_supported_oper_classes i))
         NRF_WIFI_CMD_SET_STATION_SUPPORTED_OPER_CLASSES_VALID
    OR NRF_WIFI_CMD_SET_STATION_STA_FLAGS2_VALID
    OR flag (cs_opmode_notif i \<noteq> 0) NRF_WIFI_CMD_SET_STATION_OPMODE_NOTIF_VALID
    OR flag (cs_wme_max_sp i \<noteq> 0) NRF_WIFI_CMD_SET_STATION_STA_WME_MAX_SP_VALID"

definition nrf_wifi_sys_fmac_chg_sta ::
    "os \<Rightarrow> u8 \<Rightarrow> nrf_wifi_umac_chg_sta_info \<Rightarrow> fmac \<Rightarrow> (nrf_status \<times> fmac) option" where
  "nrf_wifi_sys_fmac_chg_sta os if_idx i =
    sys_begin os (sys_cfg os (wdev_hdr NRF_WIFI_UMAC_CMD_SET_STATION (ucast if_idx)
      @ le32_bytes (chg_sta_valid i) @ nrf_wifi_umac_chg_sta_info_bytes i))"

definition del_sta_valid :: "nrf_wifi_umac_del_sta_info \<Rightarrow> u32" where
  "del_sta_valid i =
    flag (\<not> nrf_wifi_util_is_arr_zero (dls_mac_addr i)) NRF_WIFI_CMD_DEL_STATION_MAC_ADDR_VALID
    OR flag (dls_mgmt_subtype i \<noteq> 0) NRF_WIFI_CMD_DEL_STATION_MGMT_SUBTYPE_VALID
    OR flag (dls_reason_code i \<noteq> 0) NRF_WIFI_CMD_DEL_STATION_REASON_CODE_VALID"

definition nrf_wifi_sys_fmac_del_sta ::
    "os \<Rightarrow> u8 \<Rightarrow> nrf_wifi_umac_del_sta_info \<Rightarrow> fmac \<Rightarrow> (nrf_status \<times> fmac) option" where
  "nrf_wifi_sys_fmac_del_sta os if_idx i =
    sys_begin os (sys_cfg os (wdev_hdr NRF_WIFI_UMAC_CMD_DEL_STATION (ucast if_idx)
      @ le32_bytes (del_sta_valid i) @ nrf_wifi_umac_del_sta_info_bytes i))"

definition add_sta_valid :: "nrf_wifi_umac_add_sta_info \<Rightarrow> u32" where
  "add_sta_valid i =
    flag (ads_aid i \<noteq> 0) NRF_WIFI_CMD_NEW_STATION_AID_VALID
    OR flag (ads_sta_capability i \<noteq> 0) NRF_WIFI_CMD_NEW_STATION_STA_CAPABILITY_VALID
    OR NRF_WIFI_CMD_NEW_STATION_LISTEN_INTERVAL_VALID
    OR flag (0 <s sr_num_rates (ads_supp_rates i)) NRF_WIFI_CMD_NEW_STATION_SUPP_RATES_VALID
    OR flag (0 < ec_ext_capability_len (ads_ext_capability i)) NRF_WIFI_CMD_NEW_STATION_EXT_CAPABILITY_VALID
    OR flag (0 < sch_supported_channels_len (ads_supported_channels i)) NRF_WIFI_CMD_NEW_STATION_SUPPORTED_CHANNELS_VALID
    OR flag (0 < soc_supported_oper_classes_len (ads_supported_oper_classes i))
         NRF_WIFI_CMD_NEW_STATION_SUPPORTED_OPER_CLASSES_VALID
    OR NRF_WIFI_CMD_NEW_STATION_STA_FLAGS2_VALID
    OR flag (\<not> nrf_wifi_util_is_arr_zero (ads_ht_capability i)) NRF_WIFI_CMD_NEW_STATION_HT_CAPABILITY_VALID
    OR flag (\<not> nrf_wifi_util_is_arr_zero (ads_vht_capability i)) NRF_WIFI_CMD_NEW_STATION_VHT_CAPABILITY_VALID
    OR flag (ads_opmode_notif i \<noteq> 0) NRF_WIFI_CMD_NEW_STATION_OPMODE_NOTIF_VALID
    OR flag (ads_wme_uapsd_queues i \<noteq> 0) NRF_WIFI_CMD_NEW_STATION_STA_WME_UAPSD_QUEUES_VALID
    OR flag (ads_wme_max_sp i \<noteq> 0) NRF_WIFI_CMD_NEW_STATION_STA_WME_MAX_SP_VALID"

definition nrf_wifi_sys_fmac_add_sta ::
    "os \<Rightarrow> u8 \<Rightarrow> nrf_wifi_umac_add_sta_info \<Rightarrow> fmac \<Rightarrow> (nrf_status \<times> fmac) option" where
  "nrf_wifi_sys_fmac_add_sta os if_idx i =
    sys_begin os (sys_cfg os (wdev_hdr NRF_WIFI_UMAC_CMD_NEW_STATION (ucast if_idx)
      @ le32_bytes (add_sta_valid i) @ nrf_wifi_umac_add_sta_info_bytes i))"

end
