(* ===== verification/Fmac_Ctl.thy ===== *)
theory Fmac_Ctl
  imports Fmac_Api
begin

text \<open>The commands of \<open>fw_if/umac_if/src/system/fmac_api.c\<close> for an access point, P2P, the
  configuration of the device and of the interfaces, power save and TWT, and those that wait for
  an answer of the firmware.\<close>

section \<open>Access point\<close>

definition p2p_window :: "u32 \<Rightarrow> bool" where
  "p2p_window w = (0 < w \<and> w < 127)"

definition set_bss_valid :: "nrf_wifi_umac_bss_info \<Rightarrow> u32" where
  "set_bss_valid i = NRF_WIFI_CMD_SET_BSS_CTS_VALID OR NRF_WIFI_CMD_SET_BSS_PREAMBLE_VALID
     OR NRF_WIFI_CMD_SET_BSS_SLOT_VALID OR NRF_WIFI_CMD_SET_BSS_HT_OPMODE_VALID
     OR NRF_WIFI_CMD_SET_BSS_AP_ISOLATE_VALID
     OR flag (p2p_window (bss_p2p_go_ctwindow i))
          (NRF_WIFI_CMD_SET_BSS_P2P_CTWINDOW_VALID OR NRF_WIFI_CMD_SET_BSS_P2P_OPPPS_VALID)"

definition nrf_wifi_sys_fmac_set_bss :: "os \<Rightarrow> u8 \<Rightarrow> nrf_wifi_umac_bss_info \<Rightarrow> fmac \<Rightarrow> (nrf_status \<times> fmac) option" where
  "nrf_wifi_sys_fmac_set_bss os if_idx i =
    sys_begin os (sys_cfg os (wdev_hdr NRF_WIFI_UMAC_CMD_SET_BSS (ucast if_idx)
      @ le32_bytes (set_bss_valid i) @ nrf_wifi_umac_bss_info_bytes i))"

definition nrf_wifi_sys_fmac_chg_bcn ::
    "os \<Rightarrow> u8 \<Rightarrow> nrf_wifi_umac_set_beacon_info \<Rightarrow> fmac \<Rightarrow> (nrf_status \<times> fmac) option" where
  "nrf_wifi_sys_fmac_chg_bcn os if_idx data =
    sys_begin os (sys_cfg os (wdev_hdr NRF_WIFI_UMAC_CMD_SET_BEACON (ucast if_idx)
      @ nrf_wifi_umac_set_beacon_info_bytes data))"

text \<open>The parameters of the device: the frequency parameters that are set are marked valid in the
  structure of the caller; the result has the status, the structure and the state.\<close>

definition freq_valid :: "freq_params \<Rightarrow> u32" where
  "freq_valid f = flag (fq_frequency f \<noteq> 0) NRF_WIFI_SET_FREQ_PARAMS_FREQ_VALID
     OR flag (fq_channel_width f \<noteq> 0) NRF_WIFI_SET_FREQ_PARAMS_CHANNEL_WIDTH_VALID
     OR flag (fq_center_frequency1 f \<noteq> 0) NRF_WIFI_SET_FREQ_PARAMS_CENTER_FREQ1_VALID
     OR flag (fq_center_frequency2 f \<noteq> 0) NRF_WIFI_SET_FREQ_PARAMS_CENTER_FREQ2_VALID
     OR flag (fq_channel_type f \<noteq> 0) NRF_WIFI_SET_FREQ_PARAMS_CHANNEL_TYPE_VALID"

definition wiphy_mark :: "nrf_wifi_umac_set_wiphy_info \<Rightarrow> nrf_wifi_umac_set_wiphy_info" where
  "wiphy_mark i = (let f = wp_freq_params i in
     i\<lparr>wp_freq_params := f\<lparr>fq_valid_fields := fq_valid_fields f OR freq_valid f\<rparr>\<rparr>)"

definition wiphy_valid :: "nrf_wifi_umac_set_wiphy_info \<Rightarrow> u32" where
  "wiphy_valid i = flag (freq_valid (wp_freq_params i) \<noteq> 0) NRF_WIFI_CMD_SET_WIPHY_FREQ_PARAMS_VALID
     OR flag (wp_rts_threshold i \<noteq> 0) NRF_WIFI_CMD_SET_WIPHY_RTS_THRESHOLD_VALID
     OR flag (wp_frag_threshold i \<noteq> 0) NRF_WIFI_CMD_SET_WIPHY_FRAG_THRESHOLD_VALID
     OR flag (wp_retry_long i \<noteq> 0) NRF_WIFI_CMD_SET_WIPHY_RETRY_LONG_VALID
     OR flag (wp_retry_short i \<noteq> 0) NRF_WIFI_CMD_SET_WIPHY_RETRY_SHORT_VALID"

definition set_wiphy_cmd :: "u8 \<Rightarrow> nrf_wifi_umac_set_wiphy_info \<Rightarrow> u8 list" where
  "set_wiphy_cmd if_idx i = wdev_hdr NRF_WIFI_UMAC_CMD_SET_WIPHY (ucast if_idx)
     @ le32_bytes (wiphy_valid i) @ nrf_wifi_umac_set_wiphy_info_bytes (wiphy_mark i)"

definition nrf_wifi_sys_fmac_set_wiphy_params :: "os \<Rightarrow> u8 \<Rightarrow> nrf_wifi_umac_set_wiphy_info option \<Rightarrow> fmac \<Rightarrow>
    (nrf_status \<times> nrf_wifi_umac_set_wiphy_info option \<times> fmac) option" where
  "nrf_wifi_sys_fmac_set_wiphy_params os if_idx wiphy_info s =
    (if op_mode s \<noteq> NRF_WIFI_OP_MODE_SYS then Some (FAIL, wiphy_info, s)
     else case wiphy_info of None \<Rightarrow> Some (FAIL, None, s)
     | Some i \<Rightarrow>
         let (ok, s) = falloc os OBJ_UMAC_CMD s in
         if \<not> ok then Some (FAIL, wiphy_info, s)
         else do {
           (st, s) \<leftarrow> sys_cfg os (set_wiphy_cmd if_idx i) s;
           Some (st, Some (wiphy_mark i), s)
         })"

abbreviation (input) freq_all_valid :: u32 where
  "freq_all_valid \<equiv> NRF_WIFI_SET_FREQ_PARAMS_FREQ_VALID OR NRF_WIFI_SET_FREQ_PARAMS_CHANNEL_WIDTH_VALID
     OR NRF_WIFI_SET_FREQ_PARAMS_CENTER_FREQ1_VALID OR NRF_WIFI_SET_FREQ_PARAMS_CENTER_FREQ2_VALID
     OR NRF_WIFI_SET_FREQ_PARAMS_CHANNEL_TYPE_VALID"

definition start_ap_common :: "nrf_wifi_connect_common_info \<Rightarrow> nrf_wifi_connect_common_info" where
  "start_ap_common c = c\<lparr>cc_valid_fields := cc_valid_fields c OR NRF_WIFI_CONNECT_COMMON_INFO_WPA_VERSIONS_VALID
     OR flag (0 <s cc_num_cipher_suites_pairwise c) NRF_WIFI_CONNECT_COMMON_INFO_CIPHER_SUITES_PAIRWISE_VALID
     OR flag (0 <s cc_num_akm_suites c) NRF_WIFI_CONNECT_COMMON_INFO_AKM_SUITES_VALID
     OR flag (cc_control_port_ether_type c \<noteq> 0) NRF_WIFI_CONNECT_COMMON_INFO_CONTROL_PORT_ETHER_TYPE
     OR flag (cc_control_port_no_encrypt c \<noteq> 0) NRF_WIFI_CONNECT_COMMON_INFO_CONTROL_PORT_NO_ENCRYPT\<rparr>"

definition start_ap_cmd :: "u8 \<Rightarrow> nrf_wifi_umac_start_ap_info \<Rightarrow> u8 list" where
  "start_ap_cmd if_idx i =
    (let f = sap_freq_params i in
     wdev_hdr NRF_WIFI_UMAC_CMD_START_AP (ucast if_idx)
     @ le32_bytes (NRF_WIFI_CMD_BEACON_INFO_BEACON_INTERVAL_VALID OR NRF_WIFI_CMD_BEACON_INFO_VERSIONS_VALID
         OR NRF_WIFI_CMD_BEACON_INFO_CIPHER_SUITE_GROUP_VALID
         OR flag (p2p_window (ucast (sap_p2p_go_ctwindow i)))
              (NRF_WIFI_CMD_BEACON_INFO_P2P_CTWINDOW_VALID OR NRF_WIFI_CMD_BEACON_INFO_P2P_OPPPS_VALID))
     @ nrf_wifi_umac_start_ap_info_bytes (i\<lparr>sap_freq_params := f\<lparr>fq_valid_fields := fq_valid_fields f OR freq_all_valid\<rparr>,
         sap_connect_common_info := start_ap_common (sap_connect_common_info i)\<rparr>))"

definition wiphy_of_ap :: "nrf_wifi_umac_start_ap_info \<Rightarrow> nrf_wifi_umac_set_wiphy_info" where
  "wiphy_of_ap i = \<lparr>wp_rts_threshold = 0, wp_frag_threshold = 0, wp_antenna_tx = 0, wp_antenna_rx = 0,
     wp_freq_params = (sap_freq_params i)\<lparr>fq_valid_fields := 0\<rparr>,
     wp_txq_params = \<lparr>tq_txop = 0, tq_cwmin = 0, tq_cwmax = 0, tq_aifs = 0, tq_ac = 0\<rparr>,
     wp_tx_power_setting = \<lparr>tp_valid_fields = 0, tp_type = 0, tp_tx_power_level = 0\<rparr>, wp_retry_short = 0,
     wp_retry_long = 0, wp_coverage_class = 0, wp_wiphy_name = replicate 32 0\<rparr>"

definition nrf_wifi_sys_fmac_start_ap ::
    "os \<Rightarrow> u8 \<Rightarrow> nrf_wifi_umac_start_ap_info \<Rightarrow> fmac \<Rightarrow> (nrf_status \<times> fmac) option" where
  "nrf_wifi_sys_fmac_start_ap os if_idx ap_info = sys_begin os (\<lambda>s.
     let (ok, s) = falloc os OBJ_WIPHY_INFO s in
     if \<not> ok then Some (FAIL, femit (IoFree OBJ_UMAC_CMD) s)
     else do {
       (st, _, s) \<leftarrow> nrf_wifi_sys_fmac_set_wiphy_params os if_idx (Some (wiphy_of_ap ap_info)) s;
       if st = FAIL then Some (st, femit (IoFree OBJ_UMAC_CMD) (femit (IoFree OBJ_WIPHY_INFO) s))
       else do {
         s \<leftarrow> nrf_wifi_fmac_peers_flush os if_idx s;
         (st, s) \<leftarrow> umac_cmd_cfg os (start_ap_cmd if_idx ap_info) s;
         Some (st, femit (IoFree OBJ_UMAC_CMD) (femit (IoFree OBJ_WIPHY_INFO) s))
       }
     })"

definition nrf_wifi_sys_fmac_stop_ap :: "os \<Rightarrow> u8 \<Rightarrow> fmac \<Rightarrow> (nrf_status \<times> fmac) option" where
  "nrf_wifi_sys_fmac_stop_ap os if_idx = sys_begin os (\<lambda>s. do {
     s \<leftarrow> nrf_wifi_fmac_peers_flush os if_idx s;
     sys_cfg os (wdev_hdr NRF_WIFI_UMAC_CMD_STOP_AP (ucast if_idx)) s
   })"

definition frame_reg_cmd :: "u8 \<Rightarrow> nrf_wifi_umac_mgmt_frame_info \<Rightarrow> u8 list" where
  "frame_reg_cmd if_idx i =
    wdev_hdr NRF_WIFI_UMAC_CMD_REGISTER_FRAME (ucast if_idx) @ nrf_wifi_umac_mgmt_frame_info_bytes i"

definition nrf_wifi_sys_fmac_mgmt_frame_reg ::
    "os \<Rightarrow> u8 \<Rightarrow> nrf_wifi_umac_mgmt_frame_info \<Rightarrow> fmac \<Rightarrow> (nrf_status \<times> fmac) option" where
  "nrf_wifi_sys_fmac_mgmt_frame_reg os if_idx frame_info =
    sys_begin os (sys_cfg os (frame_reg_cmd if_idx frame_info))"

section \<open>P2P\<close>

definition nrf_wifi_sys_fmac_p2p_dev_start :: "os \<Rightarrow> u8 \<Rightarrow> fmac \<Rightarrow> (nrf_status \<times> fmac) option" where
  "nrf_wifi_sys_fmac_p2p_dev_start os if_idx =
    sys_begin os (sys_cfg os (wdev_hdr NRF_WIFI_UMAC_CMD_START_P2P_DEVICE (ucast if_idx)))"

definition nrf_wifi_sys_fmac_p2p_dev_stop :: "os \<Rightarrow> u8 \<Rightarrow> fmac \<Rightarrow> (nrf_status \<times> fmac) option" where
  "nrf_wifi_sys_fmac_p2p_dev_stop os if_idx =
    sys_begin os (sys_cfg os (wdev_hdr NRF_WIFI_UMAC_CMD_STOP_P2P_DEVICE (ucast if_idx)))"

definition roc_cmd :: "u8 \<Rightarrow> remain_on_channel_info \<Rightarrow> u8 list" where
  "roc_cmd if_idx i = wdev_hdr NRF_WIFI_UMAC_CMD_REMAIN_ON_CHANNEL (ucast if_idx)
     @ le32_bytes (flag (roc_dur i \<noteq> 0) NRF_WIFI_CMD_ROC_DURATION_VALID OR NRF_WIFI_CMD_ROC_FREQ_PARAMS_VALID)
     @ remain_on_channel_info_bytes (i\<lparr>roc_freq_params :=
         (roc_freq_params i)\<lparr>fq_valid_fields := NRF_WIFI_SET_FREQ_PARAMS_FREQ_VALID\<rparr>\<rparr>)"

definition nrf_wifi_sys_fmac_p2p_roc_start ::
    "os \<Rightarrow> u8 \<Rightarrow> remain_on_channel_info \<Rightarrow> fmac \<Rightarrow> (nrf_status \<times> fmac) option" where
  "nrf_wifi_sys_fmac_p2p_roc_start os if_idx roc_info = sys_begin os (sys_cfg os (roc_cmd if_idx roc_info))"

definition nrf_wifi_sys_fmac_p2p_roc_stop :: "os \<Rightarrow> u8 \<Rightarrow> 64 word \<Rightarrow> fmac \<Rightarrow> (nrf_status \<times> fmac) option" where
  "nrf_wifi_sys_fmac_p2p_roc_stop os if_idx cookie =
    sys_begin os (sys_cfg os (wdev_hdr NRF_WIFI_UMAC_CMD_CANCEL_REMAIN_ON_CHANNEL (ucast if_idx)
      @ le32_bytes NRF_WIFI_CMD_CANCEL_ROC_COOKIE_VALID @ le64_bytes cookie))"

definition mgmt_tx_cmd :: "u8 \<Rightarrow> nrf_wifi_umac_mgmt_tx_info \<Rightarrow> u8 list" where
  "mgmt_tx_cmd if_idx i =
    (let f = mt_freq_params i in
     wdev_hdr NRF_WIFI_UMAC_CMD_FRAME (ucast if_idx)
     @ le32_bytes (NRF_WIFI_CMD_FRAME_FREQ_VALID OR NRF_WIFI_CMD_FRAME_DURATION_VALID
         OR NRF_WIFI_CMD_SET_FRAME_FREQ_PARAMS_VALID)
     @ nrf_wifi_umac_mgmt_tx_info_bytes (i\<lparr>mt_freq_params := f\<lparr>fq_valid_fields := fq_valid_fields f OR freq_all_valid\<rparr>\<rparr>))"

definition nrf_wifi_sys_fmac_mgmt_tx ::
    "os \<Rightarrow> u8 \<Rightarrow> nrf_wifi_umac_mgmt_tx_info \<Rightarrow> fmac \<Rightarrow> (nrf_status \<times> fmac) option" where
  "nrf_wifi_sys_fmac_mgmt_tx os if_idx mgmt_tx_info = sys_begin os (sys_cfg os (mgmt_tx_cmd if_idx mgmt_tx_info))"

section \<open>Interfaces\<close>

text \<open>The free slot that was found is a NULL pointer, whose address field is copied.\<close>

definition nrf_wifi_sys_fmac_mac_addr :: "u8 list \<Rightarrow> fmac \<Rightarrow> (nrf_status \<times> u8 list) option" where
  "nrf_wifi_sys_fmac_mac_addr addr s =
    (if op_mode s \<noteq> NRF_WIFI_OP_MODE_SYS then Some (FAIL, addr)
     else let vif_idx = nrf_wifi_fmac_vif_idx_get s in
       if vif_idx = MAX_NUM_VIFS then Some (FAIL, addr)
       else do {
         v \<leftarrow> vif_at s vif_idx;
         Some (SUCCESS, (vif_mac_addr v)[5 := vif_mac_addr v ! 5 + of_nat vif_idx])
       })"

definition nrf_wifi_sys_fmac_set_vif_macaddr ::
    "os \<Rightarrow> u8 \<Rightarrow> u8 list option \<Rightarrow> fmac \<Rightarrow> (nrf_status \<times> fmac) option" where
  "nrf_wifi_sys_fmac_set_vif_macaddr os if_idx mac_addr s =
    (case mac_addr of None \<Rightarrow> Some (FAIL, s)
     | Some m \<Rightarrow> sys_begin os (sys_cfg os (wdev_hdr NRF_WIFI_UMAC_CMD_CHANGE_MACADDR (ucast if_idx) @ m)) s)"

text \<open>Changing the state of an interface waits for the flag that the event handling sets; the wait
  has at most 9999 turns and is not left early when the command failed.\<close>

abbreviation (input) RPU_CMD_TIMEOUT_MS :: nat where "RPU_CMD_TIMEOUT_MS \<equiv> 10000"

fun ifflags_wait :: "(fmac \<Rightarrow> fmac) \<Rightarrow> nat \<Rightarrow> nat \<Rightarrow> fmac \<Rightarrow> (bool \<times> fmac) option" where
  "ifflags_wait env i 0 s = do { v \<leftarrow> vif_at s i; Some (ifflags v, s) }"
| "ifflags_wait env i (Suc n) s = do {
     v \<leftarrow> vif_at s i;
     if ifflags v then Some (True, s) else ifflags_wait env i n (sleep_ms env 1 s)
   }"

definition mc_peer_put :: "int \<Rightarrow> u8 \<Rightarrow> fmac \<Rightarrow> fmac" where
  "mc_peer_put pid if_idx s = peer_put MAX_PEERS ((peers s ! MAX_PEERS)\<lparr>peer_id := pid, peer_if_idx := if_idx\<rparr>) s"

definition nrf_wifi_sys_fmac_chg_vif_state :: "os \<Rightarrow> (fmac \<Rightarrow> fmac) \<Rightarrow> u8 \<Rightarrow> nrf_wifi_umac_chg_vif_state_info \<Rightarrow>
    fmac \<Rightarrow> (nrf_status \<times> fmac) option" where
  "nrf_wifi_sys_fmac_chg_vif_state os env if_idx vif_info = sys_begin os (\<lambda>s. do {
     v \<leftarrow> vif_at s (unat if_idx);
     (st, s) \<leftarrow> umac_cmd_cfg os (wdev_hdr NRF_WIFI_UMAC_CMD_SET_IFFLAGS (ucast if_idx)
       @ nrf_wifi_umac_chg_vif_state_info_bytes vif_info) (vif_put (unat if_idx) (v\<lparr>ifflags := False\<rparr>) s);
     (up, s) \<leftarrow> ifflags_wait env (unat if_idx) (RPU_CMD_TIMEOUT_MS - 1) s;
     if \<not> up then Some (FAIL, femit (IoFree OBJ_UMAC_CMD) s)
     else do {
       v \<leftarrow> vif_at s (unat if_idx);
       let s = (if if_type v \<noteq> NRF_WIFI_IFTYPE_AP then s
         else if vs_state vif_info = 1 then mc_peer_put (int MAX_PEERS) if_idx s
         else if vs_state vif_info = 0 then mc_peer_put (-1) if_idx s
         else s);
       Some (st, femit (IoFree OBJ_UMAC_CMD) s)
     }
   })"

section \<open>Configuration and queries\<close>

definition nrf_wifi_sys_fmac_get_tx_power :: "os \<Rightarrow> u32 \<Rightarrow> fmac \<Rightarrow> (nrf_status \<times> fmac) option" where
  "nrf_wifi_sys_fmac_get_tx_power os if_idx =
    sys_begin os (sys_cfg os (wdev_hdr NRF_WIFI_UMAC_CMD_GET_TX_POWER if_idx))"

definition nrf_wifi_sys_fmac_get_channel :: "os \<Rightarrow> u32 \<Rightarrow> fmac \<Rightarrow> (nrf_status \<times> fmac) option" where
  "nrf_wifi_sys_fmac_get_channel os if_idx =
    sys_begin os (sys_cfg os (wdev_hdr NRF_WIFI_UMAC_CMD_GET_CHANNEL if_idx))"

definition nrf_wifi_sys_fmac_get_station :: "os \<Rightarrow> u32 \<Rightarrow> u8 list \<Rightarrow> fmac \<Rightarrow> (nrf_status \<times> fmac) option" where
  "nrf_wifi_sys_fmac_get_station os if_idx mac =
    sys_begin os (sys_cfg os (wdev_hdr NRF_WIFI_UMAC_CMD_GET_STATION if_idx @ mac))"

text \<open>The index is compared with \<open>>\<close>, so the number of interfaces itself passes.\<close>

definition nrf_wifi_sys_fmac_get_interface :: "os \<Rightarrow> u32 \<Rightarrow> fmac \<Rightarrow> (nrf_status \<times> fmac) option" where
  "nrf_wifi_sys_fmac_get_interface os if_idx s =
    (if of_nat MAX_NUM_VIFS < if_idx then Some (FAIL, s)
     else sys_begin os (sys_cfg os (wdev_hdr NRF_WIFI_UMAC_CMD_GET_INTERFACE if_idx)) s)"

text \<open>The map is copied with the length the caller gives; more than the 256 bytes of the command is
  undefined behaviour.\<close>

definition nrf_wifi_sys_fmac_set_qos_map ::
    "os \<Rightarrow> u8 \<Rightarrow> nrf_wifi_umac_qos_map_info \<Rightarrow> fmac \<Rightarrow> (nrf_status \<times> fmac) option" where
  "nrf_wifi_sys_fmac_set_qos_map os if_idx i =
    sys_begin os (\<lambda>s. let n = unat (qm_qos_map_info_len i) in
      if 256 < n then None
      else sys_cfg os (wdev_hdr NRF_WIFI_UMAC_CMD_SET_QOS_MAP (ucast if_idx)
        @ nrf_wifi_umac_qos_map_info_bytes (i\<lparr>qm_qos_map_info := take n (qm_qos_map_info i) @ replicate (256 - n) 0\<rparr>)) s)"

definition nrf_wifi_sys_fmac_get_wiphy :: "os \<Rightarrow> u8 \<Rightarrow> fmac \<Rightarrow> (nrf_status \<times> fmac) option" where
  "nrf_wifi_sys_fmac_get_wiphy os if_idx s =
    (if MAX_NUM_VIFS \<le> unat if_idx then Some (FAIL, s)
     else sys_begin os (sys_cfg os (wdev_hdr NRF_WIFI_UMAC_CMD_GET_WIPHY (ucast if_idx))) s)"

definition nrf_wifi_sys_fmac_register_frame ::
    "os \<Rightarrow> u8 \<Rightarrow> nrf_wifi_umac_mgmt_frame_info option \<Rightarrow> fmac \<Rightarrow> (nrf_status \<times> fmac) option" where
  "nrf_wifi_sys_fmac_register_frame os if_idx frame_info s =
    (case frame_info of None \<Rightarrow> Some (FAIL, s)
     | Some i \<Rightarrow> if MAX_NUM_VIFS \<le> unat if_idx then Some (FAIL, s)
         else sys_begin os (sys_cfg os (frame_reg_cmd if_idx i)) s)"

definition nrf_wifi_sys_fmac_set_mcast_addr ::
    "os \<Rightarrow> u8 \<Rightarrow> nrf_wifi_umac_mcast_cfg \<Rightarrow> fmac \<Rightarrow> (nrf_status \<times> fmac) option" where
  "nrf_wifi_sys_fmac_set_mcast_addr os if_idx mcast_info =
    sys_begin os (sys_cfg os (wdev_hdr NRF_WIFI_UMAC_CMD_MCAST_FILTER (ucast if_idx)
      @ nrf_wifi_umac_mcast_cfg_bytes mcast_info))"

definition nrf_wifi_sys_fmac_get_conn_info :: "os \<Rightarrow> u8 \<Rightarrow> fmac \<Rightarrow> (nrf_status \<times> fmac) option" where
  "nrf_wifi_sys_fmac_get_conn_info os if_idx =
    sys_begin os (sys_cfg os (wdev_hdr NRF_WIFI_UMAC_CMD_GET_CONNECTION_INFO (ucast if_idx)))"

section \<open>Power save and TWT\<close>

definition nrf_wifi_sys_fmac_set_power_save :: "os \<Rightarrow> u8 \<Rightarrow> bool \<Rightarrow> fmac \<Rightarrow> (nrf_status \<times> fmac) option" where
  "nrf_wifi_sys_fmac_set_power_save os if_idx state =
    sys_begin os (sys_cfg os (wdev_hdr NRF_WIFI_UMAC_CMD_SET_POWER_SAVE (ucast if_idx)
      @ le32_bytes (if state then 1 else 0)))"

definition nrf_wifi_sys_fmac_set_uapsd_queue :: "os \<Rightarrow> u8 \<Rightarrow> u32 \<Rightarrow> fmac \<Rightarrow> (nrf_status \<times> fmac) option" where
  "nrf_wifi_sys_fmac_set_uapsd_queue os if_idx uapsd_queue =
    sys_begin os (sys_cfg os (wdev_hdr NRF_WIFI_UMAC_CMD_CONFIG_UAPSD (ucast if_idx) @ le32_bytes uapsd_queue))"

definition nrf_wifi_sys_fmac_set_power_save_timeout :: "os \<Rightarrow> u8 \<Rightarrow> u32 \<Rightarrow> fmac \<Rightarrow> (nrf_status \<times> fmac) option" where
  "nrf_wifi_sys_fmac_set_power_save_timeout os if_idx ps_timeout =
    sys_begin os (sys_cfg os (wdev_hdr NRF_WIFI_UMAC_CMD_SET_POWER_SAVE_TIMEOUT (ucast if_idx)
      @ le32_bytes ps_timeout))"

definition nrf_wifi_sys_fmac_get_power_save_info :: "os \<Rightarrow> u8 \<Rightarrow> fmac \<Rightarrow> (nrf_status \<times> fmac) option" where
  "nrf_wifi_sys_fmac_get_power_save_info os if_idx =
    sys_begin os (sys_cfg os (wdev_hdr NRF_WIFI_UMAC_CMD_GET_POWER_SAVE_INFO (ucast if_idx)))"

definition nrf_wifi_sys_fmac_set_listen_interval :: "os \<Rightarrow> u8 \<Rightarrow> u16 \<Rightarrow> fmac \<Rightarrow> (nrf_status \<times> fmac) option" where
  "nrf_wifi_sys_fmac_set_listen_interval os if_idx listen_interval =
    sys_begin os (sys_cfg os (wdev_hdr NRF_WIFI_UMAC_CMD_SET_LISTEN_INTERVAL (ucast if_idx)
      @ le16_bytes listen_interval))"

definition nrf_wifi_sys_fmac_set_ps_wakeup_mode :: "os \<Rightarrow> u8 \<Rightarrow> bool \<Rightarrow> fmac \<Rightarrow> (nrf_status \<times> fmac) option" where
  "nrf_wifi_sys_fmac_set_ps_wakeup_mode os if_idx ps_wakeup_mode =
    sys_begin os (sys_cfg os (wdev_hdr NRF_WIFI_UMAC_CMD_CONFIG_EXTENDED_PS (ucast if_idx)
      @ [if ps_wakeup_mode then 1 else 0]))"

text \<open>The strategy has one byte in the command.\<close>

definition nrf_wifi_sys_fmac_set_ps_exit_strategy :: "os \<Rightarrow> u8 \<Rightarrow> u32 \<Rightarrow> fmac \<Rightarrow> (nrf_status \<times> fmac) option" where
  "nrf_wifi_sys_fmac_set_ps_exit_strategy os if_idx ps_exit_strategy =
    sys_begin os (sys_cfg os (wdev_hdr NRF_WIFI_UMAC_CMD_PS_EXIT_STRATEGY (ucast if_idx) @ [ucast ps_exit_strategy]))"

definition nrf_wifi_sys_fmac_twt_setup ::
    "os \<Rightarrow> u8 \<Rightarrow> nrf_wifi_umac_config_twt_info option \<Rightarrow> fmac \<Rightarrow> (nrf_status \<times> fmac) option" where
  "nrf_wifi_sys_fmac_twt_setup os if_idx twt_params s =
    (case twt_params of None \<Rightarrow> Some (FAIL, s)
     | Some i \<Rightarrow> sys_begin os (sys_cfg os (wdev_hdr NRF_WIFI_UMAC_CMD_CONFIG_TWT (ucast if_idx)
         @ nrf_wifi_umac_config_twt_info_bytes i)) s)"

text \<open>The structure of the command is the first two bytes of the parameters: its reason code is the
  type of the negotiation.\<close>

definition nrf_wifi_sys_fmac_twt_teardown ::
    "os \<Rightarrow> u8 \<Rightarrow> nrf_wifi_umac_config_twt_info option \<Rightarrow> fmac \<Rightarrow> (nrf_status \<times> fmac) option" where
  "nrf_wifi_sys_fmac_twt_teardown os if_idx twt_params s =
    (case twt_params of None \<Rightarrow> Some (FAIL, s)
     | Some i \<Rightarrow> sys_begin os (sys_cfg os (wdev_hdr NRF_WIFI_UMAC_CMD_TEARDOWN_TWT (ucast if_idx)
         @ take 2 (nrf_wifi_umac_config_twt_info_bytes i))) s)"

section \<open>Messages of the system type\<close>

abbreviation (input) NRF_WIFI_CMD_TX_FIX_DATA_RATE :: u32 where "NRF_WIFI_CMD_TX_FIX_DATA_RATE \<equiv> 15"
abbreviation (input) NRF_WIFI_CMD_CHANNEL :: u32 where "NRF_WIFI_CMD_CHANNEL \<equiv> 16"
abbreviation (input) NRF_WIFI_CMD_RAW_CONFIG_MODE :: u32 where "NRF_WIFI_CMD_RAW_CONFIG_MODE \<equiv> 17"
abbreviation (input) NRF_WIFI_CMD_RAW_CONFIG_FILTER :: u32 where "NRF_WIFI_CMD_RAW_CONFIG_FILTER \<equiv> 18"

definition sys_msg :: "os \<Rightarrow> u32 \<Rightarrow> u8 list \<Rightarrow> fmac \<Rightarrow> (nrf_status \<times> fmac) option" where
  "sys_msg os cmd body s =
    (if op_mode s \<noteq> NRF_WIFI_OP_MODE_SYS then Some (FAIL, s)
     else cmd_send os NRF_WIFI_HOST_RPU_MSG_TYPE_SYSTEM (sys_head cmd (8 + length body) @ body) s)"

definition nrf_wifi_sys_fmac_set_mode :: "os \<Rightarrow> u8 \<Rightarrow> u8 \<Rightarrow> fmac \<Rightarrow> (nrf_status \<times> fmac) option" where
  "nrf_wifi_sys_fmac_set_mode os if_idx mode = sys_msg os NRF_WIFI_CMD_RAW_CONFIG_MODE [if_idx, mode]"

definition nrf_wifi_sys_fmac_set_channel :: "os \<Rightarrow> u8 \<Rightarrow> u32 \<Rightarrow> fmac \<Rightarrow> (nrf_status \<times> fmac) option" where
  "nrf_wifi_sys_fmac_set_channel os if_idx channel =
    sys_msg os NRF_WIFI_CMD_CHANNEL ([if_idx] @ le32_bytes channel @ replicate 9 0)"

definition nrf_wifi_sys_fmac_set_packet_filter :: "os \<Rightarrow> u8 \<Rightarrow> u8 \<Rightarrow> u16 \<Rightarrow> fmac \<Rightarrow> (nrf_status \<times> fmac) option" where
  "nrf_wifi_sys_fmac_set_packet_filter os filt if_idx buffer_size =
    sys_msg os NRF_WIFI_CMD_RAW_CONFIG_FILTER ([if_idx, filt] @ le16_bytes buffer_size)"

definition nrf_wifi_sys_fmac_set_tx_rate :: "os \<Rightarrow> u8 \<Rightarrow> u32 \<Rightarrow> fmac \<Rightarrow> (nrf_status \<times> fmac) option" where
  "nrf_wifi_sys_fmac_set_tx_rate os rate_flag data_rate =
    sys_msg os NRF_WIFI_CMD_TX_FIX_DATA_RATE ([rate_flag] @ le32_bytes data_rate)"

definition nrf_wifi_sys_fmac_conf_ltf_gi :: "os \<Rightarrow> u8 \<Rightarrow> u8 \<Rightarrow> u8 \<Rightarrow> fmac \<Rightarrow> (nrf_status \<times> fmac) option" where
  "nrf_wifi_sys_fmac_conf_ltf_gi os he_ltf he_gi enabled s =
    (if op_mode s \<noteq> NRF_WIFI_OP_MODE_SYS then Some (FAIL, s) else umac_cmd_sys_he_ltf_gi os he_ltf he_gi enabled s)"

section \<open>Statistics\<close>

text \<open>The loop of at least one and at most 50 turns; the result is the number of turns.\<close>

fun stats_get_wait :: "(fmac \<Rightarrow> fmac) \<Rightarrow> nat \<Rightarrow> u8 \<Rightarrow> fmac \<Rightarrow> u8 \<times> fmac" where
  "stats_get_wait env 0 cnt s = (cnt, s)"
| "stats_get_wait env (Suc n) cnt s =
    (let s = sleep_ms env 1 s; cnt = cnt + 1 in
     if stats_req s \<and> cnt < NRF_WIFI_FMAC_STATS_RECV_TIMEOUT then stats_get_wait env n cnt s else (cnt, s))"

definition nrf_wifi_sys_fmac_stats_get ::
    "os \<Rightarrow> (fmac \<Rightarrow> fmac) \<Rightarrow> u32 \<Rightarrow> u8 list \<Rightarrow> fmac \<Rightarrow> (nrf_status \<times> fmac) option" where
  "nrf_wifi_sys_fmac_stats_get os env stats_type stats s =
    (if op_mode s \<noteq> NRF_WIFI_OP_MODE_SYS then Some (FAIL, s)
     else if stats_req s then Some (FAIL, s)
     else do {
       (st, s) \<leftarrow> umac_cmd_sys_prog_stats_get os stats_type (s\<lparr>stats_req := True, fw_stats := Some stats\<rparr>);
       if st \<noteq> SUCCESS then Some (st, s)
       else let (cnt, s) = stats_get_wait env 50 0 s in
         Some (if cnt = NRF_WIFI_FMAC_STATS_RECV_TIMEOUT then (FAIL, s\<lparr>stats_req := False\<rparr>) else (SUCCESS, s))
     })"

end
