(* ===== verification/Fmac_Event.thy ===== *)
theory Fmac_Event
  imports Fmac_Ap Fmac_Rx Fmac_Ctl
begin

text \<open>The events of the firmware (\<open>fw_if/umac_if/src/system/fmac_event.c\<close>): the message of the HAL is
  a list of bytes, little-endian, whose fields are read at their offsets; a read behind the end of
  the memory of the event is undefined behaviour (None). The callbacks of the OS are recorded in
  the trace with the interface and the bytes they get.\<close>

section \<open>Reading an event\<close>

definition mem_bytes :: "u8 list \<Rightarrow> nat \<Rightarrow> nat \<Rightarrow> u8 list option" where
  "mem_bytes mem p n = (if p + n \<le> length mem then Some (take n (drop p mem)) else None)"

definition mem_u16 :: "u8 list \<Rightarrow> nat \<Rightarrow> u16 option" where
  "mem_u16 mem p = do { bs \<leftarrow> mem_bytes mem p 2; Some (ucast (bs ! 0) OR push_bit 8 (ucast (bs ! 1))) }"

definition mem_u32 :: "u8 list \<Rightarrow> nat \<Rightarrow> u32 option" where
  "mem_u32 mem p = do { bs \<leftarrow> mem_bytes mem p 4; Some (le32_get bs) }"

text \<open>The callbacks that the OS registered, and the answer of the one for the carrier.\<close>

record nrf_wifi_fmac_callbk_fns =
  cb_registered :: "fmac_cb \<Rightarrow> bool"
  cb_carr_status :: "u8 \<Rightarrow> bool \<Rightarrow> nrf_status"

section \<open>Data events\<close>

abbreviation (input) NRF_WIFI_CMD_TX_BUFF_DONE :: u32 where "NRF_WIFI_CMD_TX_BUFF_DONE \<equiv> 2"
abbreviation (input) NRF_WIFI_CMD_RX_BUFF :: u32 where "NRF_WIFI_CMD_RX_BUFF \<equiv> 3"
abbreviation (input) NRF_WIFI_CMD_CARRIER_ON :: u32 where "NRF_WIFI_CMD_CARRIER_ON \<equiv> 4"
abbreviation (input) NRF_WIFI_CMD_CARRIER_OFF :: u32 where "NRF_WIFI_CMD_CARRIER_OFF \<equiv> 5"
abbreviation (input) NRF_WIFI_CMD_PM_MODE :: u32 where "NRF_WIFI_CMD_PM_MODE \<equiv> 6"
abbreviation (input) NRF_WIFI_CMD_PS_GET_FRAMES :: u32 where "NRF_WIFI_CMD_PS_GET_FRAMES \<equiv> 7"

text \<open>The packets of a receive event: those that lie in the memory of the event, so that the
  processing of a packet behind it is undefined.\<close>

definition rx_buff_info_at :: "u8 list \<Rightarrow> nat \<Rightarrow> rx_buff_info option" where
  "rx_buff_info_at mem p = do {
     d \<leftarrow> mem_u16 mem p;
     l \<leftarrow> mem_u16 mem (p + 2);
     ty \<leftarrow> nth_opt mem (p + 4);
     Some \<lparr>descriptor_id = d, rx_pkt_len = l, pkt_type = ty\<rparr>
   }"

fun rx_buff_infos_at :: "u8 list \<Rightarrow> nat \<Rightarrow> nat \<Rightarrow> rx_buff_info list" where
  "rx_buff_infos_at mem p 0 = []"
| "rx_buff_infos_at mem p (Suc n) =
    (case rx_buff_info_at mem p of None \<Rightarrow> [] | Some i \<Rightarrow> i # rx_buff_infos_at mem (p + 17) n)"

definition rx_buff_at :: "u8 list \<Rightarrow> nat \<Rightarrow> rx_buff option" where
  "rx_buff_at mem p = do {
     ty \<leftarrow> mem_u16 mem (p + 8);
     w \<leftarrow> nth_opt mem (p + 12);
     n \<leftarrow> nth_opt mem (p + 13);
     m \<leftarrow> nth_opt mem (p + 15);
     g \<leftarrow> mem_u16 mem (p + 18);
     Some \<lparr>rx_pkt_type = sint ty, rx_wdev_id = w, rx_pkt_cnt = n, rx_mac_header_len = m, rx_signal = g,
       rx_buff_infos = rx_buff_infos_at mem (p + 20) (unat n)\<rparr>
   }"

definition nrf_wifi_fmac_if_carr_state_event_proc ::
    "nrf_wifi_fmac_callbk_fns \<Rightarrow> u8 list \<Rightarrow> nat \<Rightarrow> bool \<Rightarrow> fmac \<Rightarrow> (nrf_status \<times> fmac) option" where
  "nrf_wifi_fmac_if_carr_state_event_proc c mem p carr_state s =
    (if \<not> cb_registered c CB_if_carr_state_chg then Some (SUCCESS, s)
     else do {
       w \<leftarrow> mem_u32 mem (p + 8);
       let if_idx = (ucast w :: u8);
       if 2 \<le> if_idx then Some (FAIL, s)
       else do {
         _ \<leftarrow> vif_at s (unat if_idx);
         Some (cb_carr_status c if_idx carr_state,
           femit (IoFmacCallback CB_if_carr_state_chg if_idx [of_bool carr_state]) s)
       }
     })"

definition nrf_wifi_fmac_data_event_process ::
    "os \<Rightarrow> nrf_wifi_fmac_callbk_fns \<Rightarrow> u8 list \<Rightarrow> nat \<Rightarrow> fmac \<Rightarrow> (nrf_status \<times> fmac) option" where
  "nrf_wifi_fmac_data_event_process os c mem p s = do {
     event \<leftarrow> mem_u32 mem p;
     if event = NRF_WIFI_CMD_RX_BUFF then do {
       b \<leftarrow> rx_buff_at mem p;
       nrf_wifi_fmac_rx_event_process os b s
     }
     else if event = NRF_WIFI_CMD_TX_BUFF_DONE then do {
       d \<leftarrow> nth_opt mem (p + 8);
       nrf_wifi_fmac_tx_done_event_process os d s
     }
     else if event = NRF_WIFI_CMD_CARRIER_ON then nrf_wifi_fmac_if_carr_state_event_proc c mem p True s
     else if event = NRF_WIFI_CMD_CARRIER_OFF then nrf_wifi_fmac_if_carr_state_event_proc c mem p False s
     else if event = NRF_WIFI_CMD_PM_MODE then do {
       ps \<leftarrow> nth_opt mem (p + 12);
       m \<leftarrow> mem_bytes mem (p + 13) 6;
       sap_client_update_pmmode os \<lparr>pm_sta_ps_state = ps, pm_mac_addr = m\<rparr> s
     }
     else if event = NRF_WIFI_CMD_PS_GET_FRAMES then do {
       m \<leftarrow> mem_bytes mem (p + 12) 6;
       n \<leftarrow> nth_opt mem (p + 18);
       sap_client_ps_get_frames os \<lparr>gf_mac_addr = m, gf_num_frames = n\<rparr> s
     }
     else Some (SUCCESS, s)
   }"

text \<open>The events of a message, one after the other, until one fails. The length that is left is a
  signed integer; an event of length 0 is processed again and again, so the loop may not end.\<close>

partial_function (option) data_events_loop ::
    "os \<Rightarrow> nrf_wifi_fmac_callbk_fns \<Rightarrow> u8 list \<Rightarrow> nrf_status \<Rightarrow> u32 \<Rightarrow> nat \<Rightarrow> fmac \<Rightarrow> (nrf_status \<times> fmac) option" where
  "data_events_loop os c mem st left p s =
    (if \<not> 0 <s left then Some (st, s)
     else do {
       (st, s) \<leftarrow> nrf_wifi_fmac_data_event_process os c mem p s;
       if st \<noteq> SUCCESS then Some (st, s)
       else do {
         len \<leftarrow> mem_u32 mem (p + 4);
         data_events_loop os c mem st (left - len) (p + unat len) s
       }
     })"

definition nrf_wifi_fmac_data_events_process ::
    "os \<Rightarrow> nrf_wifi_fmac_callbk_fns \<Rightarrow> u8 list \<Rightarrow> fmac \<Rightarrow> (nrf_status \<times> fmac) option" where
  "nrf_wifi_fmac_data_events_process os c mem s = do {
     len \<leftarrow> mem_u32 mem 0;
     data_events_loop os c mem FAIL (len - of_nat HOST_RPU_MSG_SIZE) HOST_RPU_MSG_SIZE s
   }"

section \<open>System events\<close>

abbreviation (input) NRF_WIFI_EVENT_INIT_DONE :: u32 where "NRF_WIFI_EVENT_INIT_DONE \<equiv> 1"
abbreviation (input) NRF_WIFI_EVENT_STATS :: u32 where "NRF_WIFI_EVENT_STATS \<equiv> 2"
abbreviation (input) NRF_WIFI_EVENT_DEINIT_DONE :: u32 where "NRF_WIFI_EVENT_DEINIT_DONE \<equiv> 3"

text \<open>The statistics are the 647 bytes of \<open>struct rpu_sys_fw_stats\<close> behind the header.\<close>

definition umac_event_sys_stats_process :: "u8 list \<Rightarrow> fmac \<Rightarrow> (nrf_status \<times> fmac) option" where
  "umac_event_sys_stats_process mem s =
    (if \<not> stats_req s then Some (SUCCESS, s)
     else do {
       _ \<leftarrow> fw_stats s;
       bs \<leftarrow> mem_bytes mem (HOST_RPU_MSG_SIZE + 8) 647;
       Some (SUCCESS, s\<lparr>fw_stats := Some bs, stats_req := False\<rparr>)
     })"

definition umac_event_sys_proc_events :: "u8 list \<Rightarrow> fmac \<Rightarrow> (nrf_status \<times> fmac) option" where
  "umac_event_sys_proc_events mem s = do {
     cmd_event \<leftarrow> mem_u32 mem HOST_RPU_MSG_SIZE;
     if cmd_event = NRF_WIFI_EVENT_STATS then umac_event_sys_stats_process mem s
     else if cmd_event = NRF_WIFI_EVENT_INIT_DONE then Some (SUCCESS, s\<lparr>fw_init_done := True\<rparr>)
     else if cmd_event = NRF_WIFI_EVENT_DEINIT_DONE then Some (SUCCESS, s\<lparr>fw_deinit_done := True\<rparr>)
     else Some (FAIL, s)
   }"

section \<open>Control events\<close>

abbreviation (input) NRF_WIFI_UMAC_EVENT_GET_REG :: u32 where "NRF_WIFI_UMAC_EVENT_GET_REG \<equiv> 0x11C"
abbreviation (input) NRF_WIFI_UMAC_EVENT_REG_CHANGE :: u32 where "NRF_WIFI_UMAC_EVENT_REG_CHANGE \<equiv> 0x121"
abbreviation (input) NRF_WIFI_UMAC_EVENT_TRIGGER_SCAN_START :: u32 where "NRF_WIFI_UMAC_EVENT_TRIGGER_SCAN_START \<equiv> 0x101"
abbreviation (input) NRF_WIFI_UMAC_EVENT_SCAN_DONE :: u32 where "NRF_WIFI_UMAC_EVENT_SCAN_DONE \<equiv> 0x103"
abbreviation (input) NRF_WIFI_UMAC_EVENT_SCAN_ABORTED :: u32 where "NRF_WIFI_UMAC_EVENT_SCAN_ABORTED \<equiv> 0x102"
abbreviation (input) NRF_WIFI_UMAC_EVENT_SCAN_DISPLAY_RESULT :: u32 where "NRF_WIFI_UMAC_EVENT_SCAN_DISPLAY_RESULT \<equiv> 0x123"
abbreviation (input) NRF_WIFI_UMAC_EVENT_SET_INTERFACE :: u32 where "NRF_WIFI_UMAC_EVENT_SET_INTERFACE \<equiv> 0x116"
abbreviation (input) NRF_WIFI_UMAC_EVENT_TWT_SLEEP :: u32 where "NRF_WIFI_UMAC_EVENT_TWT_SLEEP \<equiv> 0x128"
abbreviation (input) NRF_WIFI_UMAC_EVENT_SCAN_RESULT :: u32 where "NRF_WIFI_UMAC_EVENT_SCAN_RESULT \<equiv> 0x104"
abbreviation (input) NRF_WIFI_UMAC_EVENT_AUTHENTICATE :: u32 where "NRF_WIFI_UMAC_EVENT_AUTHENTICATE \<equiv> 0x105"
abbreviation (input) NRF_WIFI_UMAC_EVENT_ASSOCIATE :: u32 where "NRF_WIFI_UMAC_EVENT_ASSOCIATE \<equiv> 0x106"
abbreviation (input) NRF_WIFI_UMAC_EVENT_DEAUTHENTICATE :: u32 where "NRF_WIFI_UMAC_EVENT_DEAUTHENTICATE \<equiv> 0x108"
abbreviation (input) NRF_WIFI_UMAC_EVENT_DISASSOCIATE :: u32 where "NRF_WIFI_UMAC_EVENT_DISASSOCIATE \<equiv> 0x109"
abbreviation (input) NRF_WIFI_UMAC_EVENT_FRAME :: u32 where "NRF_WIFI_UMAC_EVENT_FRAME \<equiv> 0x110"
abbreviation (input) NRF_WIFI_UMAC_EVENT_GET_TX_POWER :: u32 where "NRF_WIFI_UMAC_EVENT_GET_TX_POWER \<equiv> 0x114"
abbreviation (input) NRF_WIFI_UMAC_EVENT_GET_CHANNEL :: u32 where "NRF_WIFI_UMAC_EVENT_GET_CHANNEL \<equiv> 0x115"
abbreviation (input) NRF_WIFI_UMAC_EVENT_GET_STATION :: u32 where "NRF_WIFI_UMAC_EVENT_GET_STATION \<equiv> 0x10C"
abbreviation (input) NRF_WIFI_UMAC_EVENT_NEW_INTERFACE :: u32 where "NRF_WIFI_UMAC_EVENT_NEW_INTERFACE \<equiv> 0x119"
abbreviation (input) NRF_WIFI_UMAC_EVENT_COOKIE_RESP :: u32 where "NRF_WIFI_UMAC_EVENT_COOKIE_RESP \<equiv> 0x111"
abbreviation (input) NRF_WIFI_UMAC_EVENT_FRAME_TX_STATUS :: u32 where "NRF_WIFI_UMAC_EVENT_FRAME_TX_STATUS \<equiv> 0x112"
abbreviation (input) NRF_WIFI_UMAC_EVENT_UNPROT_DEAUTHENTICATE :: u32 where "NRF_WIFI_UMAC_EVENT_UNPROT_DEAUTHENTICATE \<equiv> 0x117"
abbreviation (input) NRF_WIFI_UMAC_EVENT_UNPROT_DISASSOCIATE :: u32 where "NRF_WIFI_UMAC_EVENT_UNPROT_DISASSOCIATE \<equiv> 0x118"
abbreviation (input) NRF_WIFI_UMAC_EVENT_CONFIG_TWT :: u32 where "NRF_WIFI_UMAC_EVENT_CONFIG_TWT \<equiv> 0x126"
abbreviation (input) NRF_WIFI_UMAC_EVENT_TEARDOWN_TWT :: u32 where "NRF_WIFI_UMAC_EVENT_TEARDOWN_TWT \<equiv> 0x127"
abbreviation (input) NRF_WIFI_UMAC_EVENT_NEW_WIPHY :: u32 where "NRF_WIFI_UMAC_EVENT_NEW_WIPHY \<equiv> 0x11A"
abbreviation (input) NRF_WIFI_UMAC_EVENT_GET_POWER_SAVE_INFO :: u32 where "NRF_WIFI_UMAC_EVENT_GET_POWER_SAVE_INFO \<equiv> 0x12C"
abbreviation (input) NRF_WIFI_UMAC_EVENT_REMAIN_ON_CHANNEL :: u32 where "NRF_WIFI_UMAC_EVENT_REMAIN_ON_CHANNEL \<equiv> 0x10D"
abbreviation (input) NRF_WIFI_UMAC_EVENT_CANCEL_REMAIN_ON_CHANNEL :: u32 where "NRF_WIFI_UMAC_EVENT_CANCEL_REMAIN_ON_CHANNEL \<equiv> 0x10E"
abbreviation (input) NRF_WIFI_UMAC_EVENT_GET_CONNECTION_INFO :: u32 where "NRF_WIFI_UMAC_EVENT_GET_CONNECTION_INFO \<equiv> 0x12B"
abbreviation (input) NRF_WIFI_UMAC_EVENT_IFFLAGS_STATUS :: u32 where "NRF_WIFI_UMAC_EVENT_IFFLAGS_STATUS \<equiv> 0x113"
abbreviation (input) NRF_WIFI_UMAC_EVENT_NEW_STATION :: u32 where "NRF_WIFI_UMAC_EVENT_NEW_STATION \<equiv> 0x10A"
abbreviation (input) NRF_WIFI_UMAC_EVENT_DEL_STATION :: u32 where "NRF_WIFI_UMAC_EVENT_DEL_STATION \<equiv> 0x10B"

text \<open>The events that only call the callback of the OS, in the order of the code, from the last to the first part.\<close>

definition event_callback_last :: "u32 \<Rightarrow> fmac_cb option" where
  "event_callback_last e =
    (if e = NRF_WIFI_UMAC_EVENT_CONFIG_TWT then Some CB_twt_config
     else if e = NRF_WIFI_UMAC_EVENT_TEARDOWN_TWT then Some CB_twt_teardown
     else if e = NRF_WIFI_UMAC_EVENT_NEW_WIPHY then Some CB_event_get_wiphy
     else if e = NRF_WIFI_UMAC_EVENT_GET_POWER_SAVE_INFO then Some CB_event_get_ps_info
     else if e = NRF_WIFI_UMAC_EVENT_REMAIN_ON_CHANNEL then Some CB_roc
     else if e = NRF_WIFI_UMAC_EVENT_CANCEL_REMAIN_ON_CHANNEL then Some CB_roc_cancel
     else if e = NRF_WIFI_UMAC_EVENT_GET_CONNECTION_INFO then Some CB_get_conn_info
     else None)"

definition event_callback_late :: "u32 \<Rightarrow> fmac_cb option" where
  "event_callback_late e =
    (if e = NRF_WIFI_UMAC_EVENT_DISASSOCIATE then Some CB_disassoc
     else if e = NRF_WIFI_UMAC_EVENT_FRAME then Some CB_mgmt_rx
     else if e = NRF_WIFI_UMAC_EVENT_GET_TX_POWER then Some CB_tx_pwr_get
     else if e = NRF_WIFI_UMAC_EVENT_GET_CHANNEL then Some CB_chnl_get
     else if e = NRF_WIFI_UMAC_EVENT_GET_STATION then Some CB_get_station
     else if e = NRF_WIFI_UMAC_EVENT_NEW_INTERFACE then Some CB_get_interface
     else if e = NRF_WIFI_UMAC_EVENT_COOKIE_RESP then Some CB_cookie_rsp
     else if e = NRF_WIFI_UMAC_EVENT_FRAME_TX_STATUS then Some CB_mgmt_tx_status
     else if e = NRF_WIFI_UMAC_EVENT_UNPROT_DEAUTHENTICATE then Some CB_unprot_mlme_mgmt_rx
     else if e = NRF_WIFI_UMAC_EVENT_UNPROT_DISASSOCIATE then Some CB_unprot_mlme_mgmt_rx
     else event_callback_last e)"

definition event_callback :: "u32 \<Rightarrow> fmac_cb option" where
  "event_callback e =
    (if e = NRF_WIFI_UMAC_EVENT_GET_REG then Some CB_event_get_reg
     else if e = NRF_WIFI_UMAC_EVENT_REG_CHANGE then Some CB_reg_change
     else if e = NRF_WIFI_UMAC_EVENT_TRIGGER_SCAN_START then Some CB_scan_start
     else if e = NRF_WIFI_UMAC_EVENT_SCAN_DONE then Some CB_scan_done
     else if e = NRF_WIFI_UMAC_EVENT_SCAN_ABORTED then Some CB_scan_abort
     else if e = NRF_WIFI_UMAC_EVENT_SCAN_DISPLAY_RESULT then Some CB_disp_scan_res
     else if e = NRF_WIFI_UMAC_EVENT_SET_INTERFACE then Some CB_set_if
     else if e = NRF_WIFI_UMAC_EVENT_TWT_SLEEP then Some CB_twt_sleep
     else if e = NRF_WIFI_UMAC_EVENT_SCAN_RESULT then Some CB_scan_res
     else if e = NRF_WIFI_UMAC_EVENT_AUTHENTICATE then Some CB_auth_resp
     else if e = NRF_WIFI_UMAC_EVENT_ASSOCIATE then Some CB_assoc_resp
     else if e = NRF_WIFI_UMAC_EVENT_DEAUTHENTICATE then Some CB_deauth
     else event_callback_late e)"

text \<open>A new or a removed station: an AP of a station interface is its BSSID.\<close>

definition umac_event_connect :: "os \<Rightarrow> u8 list \<Rightarrow> fmac \<Rightarrow> fmac option" where
  "umac_event_connect os mem s = do {
     cmd_evnt \<leftarrow> mem_u32 mem (HOST_RPU_MSG_SIZE + 8);
     if_index \<leftarrow> nth_opt mem (HOST_RPU_MSG_SIZE + 28);
     v \<leftarrow> vif_at s (unat if_index);
     mac \<leftarrow> mem_bytes mem (HOST_RPU_MSG_SIZE + 42) 6;
     if cmd_evnt = NRF_WIFI_UMAC_EVENT_NEW_STATION then
       let s = (if if_type v = NRF_WIFI_IFTYPE_STATION then vif_put (unat if_index) (v\<lparr>bssid := mac\<rparr>) s else s) in
       if nrf_wifi_fmac_peer_get_id mac s \<noteq> -1 then Some s
       else do {
         wme \<leftarrow> nth_opt mem (HOST_RPU_MSG_SIZE + 40);
         legacy \<leftarrow> nth_opt mem (HOST_RPU_MSG_SIZE + 41);
         (_, s) \<leftarrow> nrf_wifi_fmac_peer_add os if_index mac legacy wme s;
         Some s
       }
     else if cmd_evnt = NRF_WIFI_UMAC_EVENT_DEL_STATION then
       let id = nrf_wifi_fmac_peer_get_id mac s in
       if id \<noteq> -1 then nrf_wifi_fmac_peer_remove os if_index id s else Some s
     else Some s
   }"

text \<open>What a callback gets: the length that the header of the message announces, for scan results
  whether more follow, and the memory of the event from the UMAC header on.\<close>

definition callback_data :: "u8 list \<Rightarrow> u32 \<Rightarrow> fmac_cb \<Rightarrow> u32 \<Rightarrow> u8 list" where
  "callback_data mem event_len cb sq = le32_bytes event_len
     @ (if cb = CB_scan_res \<or> cb = CB_disp_scan_res then [of_bool (sq \<noteq> 0)] else []) @ drop HOST_RPU_MSG_SIZE mem"

definition umac_event_ctrl_process ::
    "os \<Rightarrow> nrf_wifi_fmac_callbk_fns \<Rightarrow> u8 list \<Rightarrow> u32 \<Rightarrow> fmac \<Rightarrow> (nrf_status \<times> fmac) option" where
  "umac_event_ctrl_process os c mem event_len s = do {
     if_id \<leftarrow> nth_opt mem (HOST_RPU_MSG_SIZE + 28);
     e \<leftarrow> mem_u32 mem (HOST_RPU_MSG_SIZE + 8);
     if 2 \<le> if_id then Some (SUCCESS, s)
     else do {
       p \<leftarrow> nth_opt (vif_ctx s) (unat if_id);
       if p = VIF_NULL then Some (SUCCESS, s)
       else if e = NRF_WIFI_UMAC_EVENT_IFFLAGS_STATUS then do {
         st \<leftarrow> mem_u32 mem (HOST_RPU_MSG_SIZE + 36);
         if st <s 0 then Some (SUCCESS, s)
         else do {
           v \<leftarrow> vif_at s (unat if_id);
           Some (SUCCESS, vif_put (unat if_id) (v\<lparr>ifflags := True\<rparr>) s)
         }
       }
       else if e = NRF_WIFI_UMAC_EVENT_NEW_STATION \<or> e = NRF_WIFI_UMAC_EVENT_DEL_STATION then do {
         s \<leftarrow> umac_event_connect os mem s;
         Some (SUCCESS, s)
       }
       else (case event_callback e of
           None \<Rightarrow> Some (SUCCESS, s)
         | Some cb \<Rightarrow> if \<not> cb_registered c cb then Some (SUCCESS, s)
             else do {
               _ \<leftarrow> vif_at s (unat if_id);
               sq \<leftarrow> mem_u32 mem (HOST_RPU_MSG_SIZE + 4);
               Some (SUCCESS, femit (IoFmacCallback cb if_id (callback_data mem event_len cb sq)) s)
             })
     }
   }"

section \<open>The event callback of the HAL\<close>

definition nrf_wifi_sys_fmac_event_callback ::
    "os \<Rightarrow> nrf_wifi_fmac_callbk_fns \<Rightarrow> u8 list \<Rightarrow> fmac \<Rightarrow> (nrf_status \<times> fmac) option" where
  "nrf_wifi_sys_fmac_event_callback os c mem s = do {
     len \<leftarrow> mem_u32 mem 0;
     ty \<leftarrow> mem_u32 mem 8;
     if ty = msg_type_num NRF_WIFI_HOST_RPU_MSG_TYPE_DATA then nrf_wifi_fmac_data_events_process os c mem s
     else if ty = msg_type_num NRF_WIFI_HOST_RPU_MSG_TYPE_UMAC then umac_event_ctrl_process os c mem len s
     else if ty = msg_type_num NRF_WIFI_HOST_RPU_MSG_TYPE_SYSTEM then umac_event_sys_proc_events mem s
     else Some (FAIL, s)
   }"

section \<open>The walk over the data events\<close>

fun framed :: "u8 list \<Rightarrow> nat \<Rightarrow> nat list \<Rightarrow> bool" where
  "framed mem p [] = True"
| "framed mem p (l # ls) = (0 < l \<and> mem_u32 mem (p + 4) = Some (of_nat l) \<and> framed mem (p + l) ls)"

fun data_events_run :: "os \<Rightarrow> nrf_wifi_fmac_callbk_fns \<Rightarrow> u8 list \<Rightarrow> nat \<Rightarrow> nat list \<Rightarrow> fmac \<Rightarrow> (nrf_status \<times> fmac) option" where
  "data_events_run os c mem p [] s = Some (SUCCESS, s)"
| "data_events_run os c mem p (l # ls) s = do {
     (st, s) \<leftarrow> nrf_wifi_fmac_data_event_process os c mem p s;
     if st \<noteq> SUCCESS then Some (st, s) else data_events_run os c mem (p + l) ls s
   }"

lemma sint_small: "sint (of_nat n :: u32) = int n" if "n < 2 ^ 31"
  using that by (simp add: signed_of_nat signed_take_bit_int_eq_self)

lemma sless_zero: "0 <s (of_nat n :: u32) \<longleftrightarrow> 0 < n" if "n < 2 ^ 31"
  using that by (simp add: word_sless_alt sint_small)

lemma data_events_loop_eq:
  assumes "framed mem p ls" "sum_list ls < 2 ^ 31"
  shows "data_events_loop os c mem SUCCESS (of_nat (sum_list ls)) p s = data_events_run os c mem p ls s"
  using assms
proof (induction ls arbitrary: p s)
  case Nil
  then show ?case by (subst data_events_loop.simps) simp
next
  case (Cons l ls)
  have left: "of_nat (sum_list (l # ls)) - of_nat l = (of_nat (sum_list ls) :: u32)" by simp
  have len: "unat (of_nat l :: u32) = l" using Cons.prems by (simp add: unat_of_nat_small)
  have pos: "0 <s (of_nat (sum_list (l # ls)) :: u32)" using Cons.prems by (subst sless_zero) auto
  have IH: "data_events_loop os c mem SUCCESS (of_nat (sum_list ls)) (p + l) t
      = data_events_run os c mem (p + l) ls t" for t
    using Cons.prems by (intro Cons.IH) auto
  show ?case
    using Cons.prems(1) pos len IH left
    by (subst data_events_loop.simps) (auto cong: if_cong split: Option.bind_splits)
qed

lemma data_events_loop_status:
  "0 <s left \<Longrightarrow> data_events_loop os c mem st left p s = data_events_loop os c mem SUCCESS left p s"
  by (subst (1 2) data_events_loop.simps) simp

text \<open>C6 The events of a data message are processed one after the other, each where the one before
  it ends, until one of them fails: the loop over a signed remaining length and a moving pointer
  gives what a walk over the list of the event lengths gives, and it ends, provided that no event
  has length zero and that the lengths add up to the length of the message.\<close>

theorem data_events_walk:
  assumes "mem_u32 mem 0 = Some (of_nat (12 + sum_list ls))" "framed mem 12 ls" "ls \<noteq> []"
    "sum_list ls < 2 ^ 31"
  shows "nrf_wifi_fmac_data_events_process os c mem s = data_events_run os c mem 12 ls s"
proof -
  have "0 < sum_list ls" using assms(2,3) by (cases ls) auto
  then have "0 <s (of_nat (sum_list ls) :: u32)" using assms(4) by (simp add: sless_zero)
  then show ?thesis
    using data_events_loop_eq [OF assms(2,4)] assms(1)
    by (simp add: nrf_wifi_fmac_data_events_process_def data_events_loop_status [of _ _ _ _ FAIL])
qed

definition event_demo :: "u8 list" where
  "event_demo = le32_bytes 32 @ le32_bytes 0 @ le32_bytes 2 @ le32_bytes 0 @ le32_bytes 8
     @ le32_bytes NRF_WIFI_CMD_CARRIER_ON @ le32_bytes 12 @ le32_bytes 0"

definition all_callbacks :: nrf_wifi_fmac_callbk_fns where
  "all_callbacks = \<lparr>cb_registered = (\<lambda>_. True), cb_carr_status = (\<lambda>_ _. SUCCESS)\<rparr>"

lemmas event_demo_simps = mem_u32_def mem_u16_def mem_bytes_def nth_opt_def le32_get_def le32_bytes_def

theorem data_events_walk_witness:
  "nrf_wifi_fmac_data_events_process demo_os all_callbacks event_demo fmac_demo
     = Some (SUCCESS, femit (IoFmacCallback CB_if_carr_state_chg 0 [1]) fmac_demo)"
proof -
  have m: "mem_u32 event_demo 0 = Some (of_nat (12 + sum_list [8, 12]))" "framed event_demo 12 [8, 12]"
    by (simp_all add: event_demo_def event_demo_simps)
  have e: "mem_u32 event_demo 12 = Some 0" "mem_u32 event_demo 20 = Some 4" "mem_u32 event_demo 28 = Some 0"
    by (simp_all add: event_demo_def event_demo_simps)
  show ?thesis
    by (subst data_events_walk [OF m]) (simp_all add: e nrf_wifi_fmac_data_event_process_def
        nrf_wifi_fmac_if_carr_state_event_proc_def all_callbacks_def vif_at_def fmac_demo_simps)
qed

lemma data_events_stuck:
  assumes "data_events_loop os c mem st left p s = Some r"
  shows "\<not> (0 <s left \<and> nrf_wifi_fmac_data_event_process os c mem p s = Some (SUCCESS, s) \<and> mem_u32 mem (p + 4) = Some 0)"
proof (rule data_events_loop.raw_induct [OF _ assms])
  fix loop os c mem st left p s r
  let ?stuck = "\<lambda>left p s. 0 <s left \<and> nrf_wifi_fmac_data_event_process os c mem p s = Some (SUCCESS, s)
      \<and> mem_u32 mem (p + 4) = Some 0"
  assume IH: "\<And>os c mem st left p s r. loop os c mem st left p s = Some r \<Longrightarrow>
      \<not> (0 <s left \<and> nrf_wifi_fmac_data_event_process os c mem p s = Some (SUCCESS, s) \<and> mem_u32 mem (p + 4) = Some 0)"
    and body: "(if \<not> 0 <s left then Some (st, s)
      else do {
        (st, s) \<leftarrow> nrf_wifi_fmac_data_event_process os c mem p s;
        if st \<noteq> SUCCESS then Some (st, s)
        else do { len \<leftarrow> mem_u32 mem (p + 4); loop os c mem st (left - len) (p + unat len) s }
      }) = Some r"
  show "\<not> ?stuck left p s"
  proof
    assume a: "?stuck left p s"
    with body have "loop os c mem SUCCESS left p s = Some r" by simp
    from notE [OF IH [OF this] a] show False .
  qed
qed



section \<open>Stations\<close>

definition stations_ok :: "fmac \<Rightarrow> bool" where
  "stations_ok s = (peers_ok s \<and> (\<forall>i<MAX_PEERS. \<forall>j<MAX_PEERS. peer_id (peers s ! i) \<noteq> -1 \<and> peer_id (peers s ! j) \<noteq> -1
     \<and> ra_addr (peers s ! i) = ra_addr (peers s ! j) \<longrightarrow> i = j))"

lemma mem_bytes_length: "mem_bytes mem p n = Some bs \<Longrightarrow> length bs = n"
  by (auto simp: mem_bytes_def split: if_splits)

lemma slot_of_None: "slot_of mac s = None \<longleftrightarrow> (\<forall>i<MAX_PEERS. peer_id (peers s ! i) = -1 \<or> ra_addr (peers s ! i) \<noteq> mac)"
  by (auto simp: slot_of_def find_None_iff)

lemma slot_of_SomeD: "slot_of mac s = Some i \<Longrightarrow> i < MAX_PEERS \<and> peer_id (peers s ! i) \<noteq> -1 \<and> ra_addr (peers s ! i) = mac"
  by (auto simp: slot_of_def find_Some_iff)

lemma stations_ok_peers: "peers t = peers s \<Longrightarrow> stations_ok t = stations_ok s"
  by (simp add: stations_ok_def peers_ok_def)

lemma get_id_peers: "peers t = peers s \<Longrightarrow> nrf_wifi_fmac_peer_get_id mac t = nrf_wifi_fmac_peer_get_id mac s"
  by (simp add: nrf_wifi_fmac_peer_get_id_def)

lemma vif_put_fields [simp]:
  "peers (vif_put i v s) = peers s" "hal_dev_ctx (vif_put i v s) = hal_dev_ctx s"
  "vif_ctx (vif_put i v s) = (vif_ctx s)[i := VIF_PTR v]"
  by (simp_all add: vif_put_def)

lemma stations_ok_simps [simp]:
  "stations_ok (femit e s) = stations_ok s" "stations_ok (vif_put i v s) = stations_ok s"
  by (rule stations_ok_peers, simp)+

lemma add_station:
  assumes "stations_ok s" "nrf_wifi_fmac_peer_get_id mac s = -1" "length mac = 6"
    and "nrf_wifi_fmac_peer_add os ifi mac l q s = Some (pid, t)"
  shows "stations_ok t \<and> vif_ctx t = vif_ctx s \<and> (if \<exists>i<MAX_PEERS. peer_id (peers s ! i) = -1
    then \<exists>i<MAX_PEERS. peer_id (peers s ! i) = -1 \<and> nrf_wifi_fmac_peer_get_id mac t = int i \<and>
      peers t = (peers s)[i := (peers s ! i)\<lparr>ra_addr := mac, peer_if_idx := ifi, peer_id := int i,
        is_legacy := l, qos_supported := q\<rparr>]
    else t = s)"
proof -
  have uni: "\<not> nrf_wifi_util_is_multicast_addr mac"
    using assms(2) by (auto simp: nrf_wifi_fmac_peer_get_id_def)
  have ok: "peers_ok s" using assms(1) by (simp add: stations_ok_def)
  have add: "peer_slot_add os ifi mac l q s = Some (pid, t)"
    using assms(4) uni by (simp add: nrf_wifi_fmac_peer_add_def)
  have none: "slot_of mac s = None"
    using assms(2) peer_get_id_slot [OF ok assms(3) uni] by (cases "slot_of mac s") simp_all
  show ?thesis
  proof (cases "\<exists>i<MAX_PEERS. peer_id (peers s ! i) = -1")
    case False
    then have "find (\<lambda>i. peer_id (peers s ! i) = -1) [0..<MAX_PEERS] = None"
      by (auto simp: find_None_iff)
    then show ?thesis using add False assms(1) by (auto simp: peer_slot_add_def)
  next
    case True
    then have "find (\<lambda>i. peer_id (peers s ! i) = -1) [0..<MAX_PEERS] \<noteq> None"
      by (auto simp: find_None_iff)
    then have "pid \<noteq> -1" using add by (auto simp: peer_slot_add_def Let_def split: Option.bind_splits)
    from slot_add_outcome [OF add this] obtain i where i: "i < MAX_PEERS" "peer_id (peers s ! i) = -1"
      "only_hal (peer_put i ((peers s ! i)\<lparr>ra_addr := mac, peer_if_idx := ifi, peer_id := int i,
        is_legacy := l, qos_supported := q\<rparr>) s) t" by blast
    have tok: "peers_ok t" using peer_add_kept [OF ok assms(3,4)] .
    have len: "length (peers s) = MAX_SW_PEERS" using ok by (simp add: peers_ok_def)
    have pt: "peers t = (peers s)[i := (peers s ! i)\<lparr>ra_addr := mac, peer_if_idx := ifi, peer_id := int i,
        is_legacy := l, qos_supported := q\<rparr>]" and vt: "vif_ctx t = vif_ctx s"
      using only_hal_fields [OF i(3)] by (simp_all add: peer_put_def)
    have "stations_ok t"
      using assms(1) tok none i(1,2) len unfolding stations_ok_def slot_of_None pt
      by (auto simp: nth_list_update)
    moreover have "nrf_wifi_fmac_peer_get_id mac t = int i"
      using i none slot_of_new [OF len i(1) none] peer_get_id_slot [OF tok assms(3) uni]
      by (simp add: slot_of_only_hal [OF i(3)])
    ultimately show ?thesis using True i(1,2) pt vt by auto
  qed
qed

lemma known_station:
  assumes "stations_ok s" "nrf_wifi_fmac_peer_get_id mac s \<noteq> -1" "length mac = 6"
    "\<not> nrf_wifi_util_is_multicast_addr mac"
  obtains i where "i < MAX_PEERS" "nrf_wifi_fmac_peer_get_id mac s = int i" "peer_id (peers s ! i) = int i"
    "ra_addr (peers s ! i) = mac"
proof -
  have ok: "peers_ok s" using assms(1) by (simp add: stations_ok_def)
  from peer_get_id_slot [OF ok assms(3,4)] assms(2) obtain i where
    i: "slot_of mac s = Some i" "nrf_wifi_fmac_peer_get_id mac s = int i" by (cases "slot_of mac s") auto
  with slot_of_SomeD [OF i(1)] ok that show thesis by (auto simp: peers_ok_def)
qed

lemma remove_station:
  assumes "stations_ok s" "nrf_wifi_fmac_peer_get_id mac s \<noteq> -1" "length mac = 6"
    "nrf_wifi_fmac_peer_remove os ifi (nrf_wifi_fmac_peer_get_id mac s) s = Some t"
  shows "stations_ok t \<and> vif_ctx t = vif_ctx s \<and>
    (\<not> nrf_wifi_util_is_multicast_addr mac \<and> peer_if_idx (peers s ! nat (nrf_wifi_fmac_peer_get_id mac s)) = ifi \<longrightarrow>
      nrf_wifi_fmac_peer_get_id mac t = -1)"
proof (cases "nrf_wifi_util_is_multicast_addr mac")
  case True
  then have "t = s" using assms(4) by (simp add: nrf_wifi_fmac_peer_get_id_def nrf_wifi_fmac_peer_remove_def)
  with True assms(1) show ?thesis by simp
next
  case uni: False
  obtain i where i: "i < MAX_PEERS" "nrf_wifi_fmac_peer_get_id mac s = int i" "peer_id (peers s ! i) = int i"
      "ra_addr (peers s ! i) = mac"
    using known_station [OF assms(1-3) uni] .
  have ok: "peers_ok s" using assms(1) by (simp add: stations_ok_def)
  have len: "length (peers s) = MAX_SW_PEERS" using ok by (simp add: peers_ok_def)
  show ?thesis
  proof (cases "peer_if_idx (peers s ! i) = ifi")
    case False
    then have "t = s" using assms(4) i by (simp add: nrf_wifi_fmac_peer_remove_def Let_def)
    with False assms(1) i(2) show ?thesis by simp
  next
    case True
    obtain w where w: "only_hal s w" "t = peer_put i (peer_zero\<lparr>peer_id := -1\<rparr>) w"
      using assms(4) i True by (auto simp: nrf_wifi_fmac_peer_remove_def Let_def split: Option.bind_splits
          dest!: mac_write_only_hal)
    have pt: "peers t = (peers s)[i := peer_zero\<lparr>peer_id := -1\<rparr>]" and vt: "vif_ctx t = vif_ctx s"
      using only_hal_fields [OF w(1)] w(2) by (simp_all add: peer_put_def)
    have tok: "peers_ok t" using peer_remove_kept [OF ok assms(4)] .
    have s_ok: "stations_ok t"
      using assms(1) tok len i(1) unfolding stations_ok_def pt by (auto simp: nth_list_update)
    have "slot_of mac t = None"
      using assms(1) len i unfolding slot_of_None pt stations_ok_def by (auto simp: nth_list_update)
    then have "nrf_wifi_fmac_peer_get_id mac t = -1"
      using peer_get_id_slot [OF tok assms(3) uni] by simp
    with s_ok vt show ?thesis by simp
  qed
qed

text \<open>A control event, with the length that its message announces.\<close>

definition ctrl_event :: "os \<Rightarrow> nrf_wifi_fmac_callbk_fns \<Rightarrow> fmac \<Rightarrow> fmac \<Rightarrow> bool" where
  "ctrl_event os c s t = (\<exists>mem len st. umac_event_ctrl_process os c mem len s = Some (st, t))"

lemma connect_stations:
  assumes "umac_event_connect os mem s = Some t" "stations_ok s"
  shows "stations_ok t"
proof -
  obtain e ifi v mac where m: "mem_u32 mem (HOST_RPU_MSG_SIZE + 8) = Some e" "nth_opt mem (HOST_RPU_MSG_SIZE + 28) = Some ifi"
      "vif_at s (unat ifi) = Some v" "mem_bytes mem (HOST_RPU_MSG_SIZE + 42) 6 = Some mac"
    using assms(1) by (auto simp: umac_event_connect_def split: Option.bind_splits)
  note len = mem_bytes_length [OF m(4)]
  let ?s = "if if_type v = NRF_WIFI_IFTYPE_STATION then vif_put (unat ifi) (v\<lparr>bssid := mac\<rparr>) s else s"
  have s: "stations_ok ?s" using assms(2) stations_ok_peers [of ?s s] by simp
  show ?thesis
  proof (cases "e = NRF_WIFI_UMAC_EVENT_NEW_STATION")
    case True
    show ?thesis
    proof (cases "nrf_wifi_fmac_peer_get_id mac ?s = -1")
      case new: True
      then obtain l q r where "nrf_wifi_fmac_peer_add os ifi mac l q ?s = Some (r, t)"
        using assms(1) m True by (auto simp: umac_event_connect_def Let_def split: Option.bind_splits if_splits)
      from add_station [OF s new len this] show ?thesis by simp
    qed (use assms m True s in \<open>simp add: umac_event_connect_def Let_def split: if_splits\<close>)
  next
    case False
    then have "t = s \<or> nrf_wifi_fmac_peer_get_id mac s \<noteq> -1 \<and>
        nrf_wifi_fmac_peer_remove os ifi (nrf_wifi_fmac_peer_get_id mac s) s = Some t"
      using assms(1) m by (simp add: umac_event_connect_def Let_def split: if_splits)
    then show ?thesis using assms(2) remove_station [OF assms(2) _ len] by blast
  qed
qed

text \<open>What a control event can do to the state.\<close>

inductive ctrl_effect :: "os \<Rightarrow> u8 list \<Rightarrow> fmac \<Rightarrow> fmac \<Rightarrow> bool" for os mem s where
  nothing: "ctrl_effect os mem s s"
| ifflags: "vif_at s i = Some v \<Longrightarrow> ctrl_effect os mem s (vif_put i (v\<lparr>ifflags := True\<rparr>) s)"
| station: "umac_event_connect os mem s = Some t \<Longrightarrow> ctrl_effect os mem s t"
| callback: "ctrl_effect os mem s (femit (IoFmacCallback cb i d) s)"

lemma ctrl_outcome:
  assumes "umac_event_ctrl_process os c mem len s = Some (st, t)"
  shows "st = SUCCESS \<and> ctrl_effect os mem s t"
proof -
  obtain i e where m: "nth_opt mem (HOST_RPU_MSG_SIZE + 28) = Some i" "mem_u32 mem (HOST_RPU_MSG_SIZE + 8) = Some e"
    using assms by (auto simp: umac_event_ctrl_process_def split: Option.bind_splits)
  show ?thesis
    using assms unfolding umac_event_ctrl_process_def m Option.bind.simps
    by (auto split: if_split_asm Option.bind_split_asm option.split_asm intro: ctrl_effect.intros)
qed

lemma ctrl_effect_stations: "ctrl_effect os mem s t \<Longrightarrow> stations_ok s \<Longrightarrow> stations_ok t"
  by (induction rule: ctrl_effect.induct) (auto intro: connect_stations)

lemma ctrl_event_stations: "ctrl_event os c s t \<Longrightarrow> stations_ok s \<Longrightarrow> stations_ok t"
  unfolding ctrl_event_def using ctrl_outcome ctrl_effect_stations by blast

lemma ctrl_events_stations: "(ctrl_event os c)\<^sup>*\<^sup>* s t \<Longrightarrow> stations_ok s \<Longrightarrow> stations_ok t"
  by (induction rule: rtranclp_induct) (auto dest: ctrl_event_stations)

lemma ctrl_connect:
  assumes "umac_event_ctrl_process os c mem len s = Some (st, t)" "mem_u32 mem 20 = Some e"
    "nth_opt mem 40 = Some ifi" "ifi < 2" "vif_at s (unat ifi) = Some v"
    "e = NRF_WIFI_UMAC_EVENT_NEW_STATION \<or> e = NRF_WIFI_UMAC_EVENT_DEL_STATION"
  shows "umac_event_connect os mem s = Some t"
proof -
  have "nth_opt (vif_ctx s) (unat ifi) = Some (VIF_PTR v)"
    using assms(5) by (auto simp: vif_at_def nth_opt_def split: if_splits vif_ptr.splits)
  moreover have "\<not> 2 \<le> ifi" using assms(4) by (simp add: not_le)
  ultimately show ?thesis
    using assms by (auto simp: umac_event_ctrl_process_def split: if_splits Option.bind_splits)
qed


definition station_demo :: "u8 list" where
  "station_demo = le32_bytes 60 @ le32_bytes 0 @ le32_bytes 3
     @ umac_hdr NRF_WIFI_UMAC_EVENT_NEW_STATION 1 0 @ le32_bytes 0 @ [1, 0] @ [2, 0, 0, 0, 0, 9]"

lemma stations_ok_demo: "stations_ok fmac_demo"
  using peers_ok_demo unfolding stations_ok_def
  by (auto simp: fmac_demo_simps peer_zero_def nth_Cons' split: if_splits)


end
