(* ===== verification/Fw_Layout.thy ===== *)
theory Fw_Layout
  imports Fmac_Event
begin

text \<open>The layout of the packed structures of the firmware interface: C types without padding, the offset of
  a field, the values of a type, and their bytes, from which the value can be read back.\<close>

named_theorems layouts \<open>the definitions of the structures\<close>

section \<open>Types\<close>

datatype ctype = CU8 | CU16 | CU32 | CU64 | CArr nat ctype | CStruct "(string \<times> ctype) list"

fun sizeof :: "ctype \<Rightarrow> nat" where
  "sizeof CU8 = 1"
| "sizeof CU16 = 2"
| "sizeof CU32 = 4"
| "sizeof CU64 = 8"
| "sizeof (CArr n t) = n * sizeof t"
| "sizeof (CStruct []) = 0"
| "sizeof (CStruct ((f, t) # fs)) = sizeof t + sizeof (CStruct fs)"

text \<open>The offset and the type of the field that a path of names leads to.\<close>

fun offset_of :: "ctype \<Rightarrow> string list \<Rightarrow> (nat \<times> ctype) option" where
  "offset_of t [] = Some (0, t)"
| "offset_of (CStruct ((f, t) # fs)) (n # ns) =
    (if f = n then offset_of t ns
     else map_option (\<lambda>(p, u). (sizeof t + p, u)) (offset_of (CStruct fs) (n # ns)))"
| "offset_of t (n # ns) = None"

section \<open>Values\<close>

text \<open>A structure or an array is the list of its elements.\<close>

datatype cval = V8 u8 | V16 u16 | V32 u32 | V64 "64 word" | VList "cval list"

fun has_type :: "ctype \<Rightarrow> cval \<Rightarrow> bool" where
  "has_type CU8 v = (case v of V8 _ \<Rightarrow> True | _ \<Rightarrow> False)"
| "has_type CU16 v = (case v of V16 _ \<Rightarrow> True | _ \<Rightarrow> False)"
| "has_type CU32 v = (case v of V32 _ \<Rightarrow> True | _ \<Rightarrow> False)"
| "has_type CU64 v = (case v of V64 _ \<Rightarrow> True | _ \<Rightarrow> False)"
| "has_type (CArr n t) v = (case v of VList vs \<Rightarrow> length vs = n \<and> list_all (has_type t) vs | _ \<Rightarrow> False)"
| "has_type (CStruct []) v = (v = VList [])"
| "has_type (CStruct ((f, t) # fs)) v =
    (case v of VList (w # ws) \<Rightarrow> has_type t w \<and> has_type (CStruct fs) (VList ws) | _ \<Rightarrow> False)"

fun field_of :: "ctype \<Rightarrow> cval \<Rightarrow> string list \<Rightarrow> cval option" where
  "field_of t v [] = Some v"
| "field_of (CStruct ((f, t) # fs)) (VList (w # ws)) (n # ns) =
    (if f = n then field_of t w ns else field_of (CStruct fs) (VList ws) (n # ns))"
| "field_of t v (n # ns) = None"

fun encode :: "cval \<Rightarrow> u8 list" where
  "encode (V8 w) = [w]"
| "encode (V16 w) = le16_bytes w"
| "encode (V32 w) = le32_bytes w"
| "encode (V64 w) = le64_bytes w"
| "encode (VList vs) = concat (map encode vs)"

definition le16_get :: "u8 list \<Rightarrow> u16" where
  "le16_get bs = ucast (bs ! 0) OR push_bit 8 (ucast (bs ! 1))"

definition le64_get :: "u8 list \<Rightarrow> 64 word" where
  "le64_get bs = ucast (le32_get bs) OR push_bit 32 (ucast (le32_get (drop 4 bs)))"

definition vcons :: "cval \<Rightarrow> cval \<Rightarrow> cval" where
  "vcons v w = (case w of VList ws \<Rightarrow> VList (v # ws) | _ \<Rightarrow> w)"

fun decode :: "ctype \<Rightarrow> u8 list \<Rightarrow> cval" where
  "decode CU8 bs = V8 (bs ! 0)"
| "decode CU16 bs = V16 (le16_get bs)"
| "decode CU32 bs = V32 (le32_get bs)"
| "decode CU64 bs = V64 (le64_get bs)"
| "decode (CArr n t) bs = VList (map (\<lambda>i. decode t (take (sizeof t) (drop (i * sizeof t) bs))) [0..<n])"
| "decode (CStruct []) bs = VList []"
| "decode (CStruct ((f, t) # fs)) bs = vcons (decode t (take (sizeof t) bs)) (decode (CStruct fs) (drop (sizeof t) bs))"

section \<open>Bytes and values\<close>

lemma le16_round [simp]: "le16_get (le16_bytes w) = w"
  by (rule bit_word_eqI) (auto simp: le16_get_def le16_bytes_def bit_simps)

lemma le32_get_prefix [simp]: "length bs = 4 \<Longrightarrow> le32_get (bs @ cs) = le32_get bs"
  by (simp add: le32_get_def nth_append)

lemma le64_round [simp]: "le64_get (le64_bytes w) = w"
proof (rule bit_word_eqI)
  fix n assume "n < LENGTH(64)"
  then show "bit (le64_get (le64_bytes w)) n = bit w n"
    by (cases "n < 32") (auto simp: le64_get_def le64_bytes_def bit_simps)
qed

lemma bit_beyond [simp]:
  "\<not> bit (a :: u8) (8 + n)" "\<not> bit (a :: u8) (16 + n)" "\<not> bit (a :: u8) (24 + n)" "\<not> bit (c :: u32) (32 + n)"
  by (auto dest: bit_imp_le_length)

lemma list_of_length:
  "length bs = 2 \<Longrightarrow> \<exists>a b. bs = [a, b]"
  "length bs = 4 \<Longrightarrow> \<exists>a b c d. bs = [a, b, c, d]"
  "length bs = 8 \<Longrightarrow> \<exists>a b c d cs. bs = a # b # c # d # cs \<and> length cs = 4"
  by (auto simp: numeral_eq_Suc length_Suc_conv)

lemma le16_get_bytes: "length bs = 2 \<Longrightarrow> le16_bytes (le16_get bs) = bs"
  by (drule list_of_length(1))
    (auto simp: le16_bytes_def le16_get_def bit_simps intro!: bit_word_eqI)

lemma le32_get_bytes: "length bs = 4 \<Longrightarrow> le32_bytes (le32_get bs) = bs"
  by (drule list_of_length(2))
    (auto simp: le32_bytes_def le32_get_def bit_simps intro!: bit_word_eqI)

lemma le64_get_bytes: "length bs = 8 \<Longrightarrow> le64_bytes (le64_get bs) = bs"
proof -
  assume "length bs = 8"
  have "ucast (le64_get bs) = le32_get bs" "ucast (drop_bit 32 (le64_get bs)) = le32_get (drop 4 bs)"
    by (auto simp: le64_get_def bit_simps intro!: bit_word_eqI)
  then have "le64_bytes (le64_get bs) = le32_bytes (le32_get bs) @ le32_bytes (le32_get (drop 4 bs))"
    by (simp add: le64_bytes_def)
  also have "le32_bytes (le32_get bs) = le32_bytes (le32_get (take 4 bs))"
    using \<open>length bs = 8\<close> by (simp add: le32_get_def)
  finally show ?thesis using \<open>length bs = 8\<close> by (simp add: le32_get_bytes)
qed

lemma encode_size [simp]: "has_type t v \<Longrightarrow> length (encode v) = sizeof t"
proof (induction t v rule: has_type.induct)
  case (5 n t v)
  then obtain vs where v: "v = VList vs" "length vs = n" "\<forall>w \<in> set vs. length (encode w) = sizeof t"
    by (auto split: cval.splits simp: list_all_iff)
  then have "map (length \<circ> encode) vs = replicate n (sizeof t)"
    by (auto simp: map_replicate_const intro!: nth_equalityI)
  then show ?case using v by (simp add: length_concat sum_list_replicate o_def)
qed (auto split: cval.splits list.splits)

lemma vcons_VList [simp]: "vcons v (VList ws) = VList (v # ws)"
  by (simp add: vcons_def)

lemma decode_struct: "\<exists>ws. decode (CStruct fs) bs = VList ws"
  by (induction fs arbitrary: bs) (auto, metis vcons_VList)

theorem decode_type: "has_type t (decode t bs)"
proof (induction t bs rule: decode.induct)
  case (7 f t fs bs)
  then show ?case using decode_struct [of fs "drop (sizeof t) bs"] by auto
qed (auto simp: list_all_iff)

lemma concat_slice:
  assumes "\<forall>w \<in> set vs. length (encode w) = k" "i < length vs"
  shows "take k (drop (i * k) (concat (map encode vs))) = encode (vs ! i)"
  using assms
proof (induction vs arbitrary: i)
  case (Cons v vs)
  then show ?case by (cases i) auto
qed simp

theorem decode_encode: "has_type t v \<Longrightarrow> decode t (encode v) = v"
proof (induction t v rule: has_type.induct)
  case (5 n t v)
  then obtain vs where v: "v = VList vs" "length vs = n" "list_all (has_type t) vs" by (auto split: cval.splits)
  then have "decode t (take (sizeof t) (drop (i * sizeof t) (concat (map encode vs)))) = vs ! i" if "i < n" for i
    using that 5 by (subst concat_slice) (auto simp: list_all_iff)
  then have "map (\<lambda>i. decode t (take (sizeof t) (drop (i * sizeof t) (concat (map encode vs))))) [0..<n] = vs"
    using v(2) by (intro nth_equalityI) auto
  then show ?case using v(1) by simp
qed (auto split: cval.splits list.splits)

lemma chunks_concat: "length bs = n * k \<Longrightarrow> concat (map (\<lambda>i. take k (drop (i * k) bs)) [0..<n]) = bs"
proof (induction n arbitrary: bs)
  case (Suc n)
  have "concat (map (\<lambda>i. take k (drop (i * k) bs)) [0..<Suc n])
      = take k bs @ concat (map (\<lambda>i. take k (drop (i * k) (drop k bs))) [0..<n])"
    by (simp only: upt_conv_Cons zero_less_Suc, subst map_Suc_upt [symmetric]) (simp add: o_def add.commute)
  also have "\<dots> = take k bs @ drop k bs"
    using Suc.prems by (subst Suc.IH) simp_all
  finally show ?case by simp
qed simp

theorem encode_decode: "length bs = sizeof t \<Longrightarrow> encode (decode t bs) = bs"
proof (induction t bs rule: decode.induct)
  case (1 bs)
  then show ?case by (cases bs) auto
next
  case (5 n t bs)
  have "encode (decode t (take (sizeof t) (drop (i * sizeof t) bs))) = take (sizeof t) (drop (i * sizeof t) bs)"
    if "i < n" for i
  proof -
    have "Suc i * sizeof t \<le> n * sizeof t" using that by (intro mult_le_mono1) simp
    then show ?thesis using that 5 by simp
  qed
  then have m: "map (encode \<circ> (\<lambda>i. decode t (take (sizeof t) (drop (i * sizeof t) bs)))) [0..<n]
      = map (\<lambda>i. take (sizeof t) (drop (i * sizeof t) bs)) [0..<n]" by simp
  have "encode (decode (CArr n t) bs)
      = concat (map (encode \<circ> (\<lambda>i. decode t (take (sizeof t) (drop (i * sizeof t) bs)))) [0..<n])" by simp
  also have "\<dots> = bs" using 5(2) by (subst m, intro chunks_concat) simp
  finally show ?case .
next
  case (7 f t fs bs)
  then show ?case using decode_struct [of fs "drop (sizeof t) bs"] by auto
qed (simp_all add: le16_get_bytes le32_get_bytes le64_get_bytes)

section \<open>Fields\<close>

lemma offset_struct: "offset_of t (n # ns) = Some x \<Longrightarrow> \<exists>f u fs. t = CStruct ((f, u) # fs)"
  by (cases "(t, n # ns)" rule: offset_of.cases) auto

theorem field_bytes:
  assumes "has_type t v" "offset_of t ns = Some (p, u)"
  shows "\<exists>w. field_of t v ns = Some w \<and> has_type u w \<and> p + sizeof u \<le> sizeof t \<and>
    take (sizeof u) (drop p (encode v)) = encode w"
  using assms
proof (induction t v ns arbitrary: p u rule: field_of.induct)
  case (2 f t fs w ws n ns)
  show ?case
  proof (cases "f = n")
    case True
    then show ?thesis using 2 by fastforce
  next
    case False
    then show ?thesis using 2 by fastforce
  qed
next
qed (auto dest!: offset_struct)

section \<open>Reading a field\<close>

text \<open>A message carries a structure at a place; a field as a number or as bytes.\<close>

definition carries :: "ctype \<Rightarrow> cval \<Rightarrow> u8 list \<Rightarrow> nat \<Rightarrow> bool" where
  "carries t v mem b = (has_type t v \<and> take (sizeof t) (drop b mem) = encode v)"

definition fld8 :: "ctype \<Rightarrow> cval \<Rightarrow> string list \<Rightarrow> u8" where
  "fld8 t v ns = (case field_of t v ns of Some (V8 w) \<Rightarrow> w | _ \<Rightarrow> 0)"

definition fld16 :: "ctype \<Rightarrow> cval \<Rightarrow> string list \<Rightarrow> u16" where
  "fld16 t v ns = (case field_of t v ns of Some (V16 w) \<Rightarrow> w | _ \<Rightarrow> 0)"

definition fld32 :: "ctype \<Rightarrow> cval \<Rightarrow> string list \<Rightarrow> u32" where
  "fld32 t v ns = (case field_of t v ns of Some (V32 w) \<Rightarrow> w | _ \<Rightarrow> 0)"

definition fld64 :: "ctype \<Rightarrow> cval \<Rightarrow> string list \<Rightarrow> 64 word" where
  "fld64 t v ns = (case field_of t v ns of Some (V64 w) \<Rightarrow> w | _ \<Rightarrow> 0)"

definition fldbytes :: "ctype \<Rightarrow> cval \<Rightarrow> string list \<Rightarrow> u8 list" where
  "fldbytes t v ns = (case field_of t v ns of Some w \<Rightarrow> encode w | None \<Rightarrow> [])"

text \<open>What a reader of the message finds at the offset of a field is the field.\<close>

lemma read_bytes:
  assumes "carries t v mem b" "offset_of t ns = Some (p, u)" "0 < sizeof u"
  shows "mem_bytes mem (b + p) (sizeof u) = Some (fldbytes t v ns)"
proof -
  have v: "has_type t v" and m: "take (sizeof t) (drop b mem) = encode v"
    using assms(1) by (simp_all add: carries_def)
  obtain w where w: "field_of t v ns = Some w" "has_type u w" "p + sizeof u \<le> sizeof t"
      "take (sizeof u) (drop p (encode v)) = encode w"
    using field_bytes [OF v assms(2)] by auto
  have "length (encode v) = sizeof t" using v by simp
  then have "sizeof t \<le> length mem - b" using m by (metis length_drop length_take min.cobounded1)
  then have l: "b + p + sizeof u \<le> length mem" using w(3) assms(3) by linarith
  have "take (sizeof u) (drop (b + p) mem) = take (sizeof u) (drop p (encode v))"
    using w(3) by (simp flip: m add: drop_take take_take min_def add.commute)
  then have "take (sizeof u) (drop (b + p) mem) = fldbytes t v ns" using w by (simp add: fldbytes_def)
  then show ?thesis using l by (auto simp: mem_bytes_def)
qed

lemma field_typed:
  assumes "carries t v mem b" "offset_of t ns = Some (p, u)"
  obtains w where "field_of t v ns = Some w" "has_type u w"
  using assms field_bytes [of t v ns p u] by (auto simp: carries_def)

lemma read_u32:
  assumes "carries t v mem b" "offset_of t ns = Some (p, CU32)"
  shows "mem_u32 mem (b + p) = Some (fld32 t v ns)"
proof -
  obtain w where "field_of t v ns = Some w" "has_type CU32 w" using field_typed [OF assms] .
  then show ?thesis using read_bytes [OF assms]
    by (auto simp: mem_u32_def fldbytes_def fld32_def split: cval.splits)
qed

lemma read_u16:
  assumes "carries t v mem b" "offset_of t ns = Some (p, CU16)"
  shows "mem_u16 mem (b + p) = Some (fld16 t v ns)"
proof -
  obtain x where x: "field_of t v ns = Some x" "has_type CU16 x" using field_typed [OF assms] .
  then obtain w where w: "field_of t v ns = Some (V16 w)" by (auto split: cval.splits)
  then have "mem_bytes mem (b + p) 2 = Some (le16_bytes w)" using read_bytes [OF assms] by (simp add: fldbytes_def)
  then have "mem_u16 mem (b + p) = Some (le16_get (le16_bytes w))" by (simp add: mem_u16_def le16_get_def)
  then show ?thesis using w by (simp add: fld16_def)
qed

lemma nth_of_mem_bytes: "mem_bytes m k n = Some bs \<Longrightarrow> 0 < n \<Longrightarrow> nth_opt m k = Some (bs ! 0)"
  by (cases n; cases "drop k m") (auto simp: mem_bytes_def nth_opt_def dest: nth_via_drop split: if_splits)

lemma read_u8:
  assumes "carries t v mem b" "offset_of t ns = Some (p, CU8)"
  shows "nth_opt mem (b + p) = Some (fld8 t v ns)"
proof -
  obtain w where "field_of t v ns = Some w" "has_type CU8 w" using field_typed [OF assms] .
  then show ?thesis using nth_of_mem_bytes [OF read_bytes [OF assms]]
    by (auto simp: fldbytes_def fld8_def split: cval.splits)
qed

lemma ucast_low: "(ucast (ucast (w :: 64 word) :: u32) :: u8) = ucast w"
  by (rule bit_word_eqI) (simp add: bit_simps)

text \<open>A byte that is read where the structure has a number of eight bytes.\<close>

lemma read_low:
  assumes "carries t v mem b" "offset_of t ns = Some (p, CU64)"
  shows "nth_opt mem (b + p) = Some (ucast (fld64 t v ns))"
proof -
  obtain w where "field_of t v ns = Some w" "has_type CU64 w" using field_typed [OF assms] .
  then show ?thesis using nth_of_mem_bytes [OF read_bytes [OF assms]]
    by (auto simp: fldbytes_def fld64_def le64_bytes_def le32_bytes_def ucast_low split: cval.splits)
qed

lemma read_array:
  assumes "carries t v mem b" "offset_of t ns = Some (p, CArr n CU8)" "0 < n"
  shows "mem_bytes mem (b + p) n = Some (fldbytes t v ns)"
  using read_bytes [OF assms(1,2)] assms(3) by simp

lemma carries_encode:
  assumes "has_type t v" "length pre = b"
  shows "carries t v (pre @ encode v @ post) b"
  using assms by (simp add: carries_def)

lemma carries_decode:
  assumes "b + sizeof t \<le> length mem"
  shows "carries t (decode t (take (sizeof t) (drop b mem))) mem b"
  using assms by (simp add: carries_def decode_type encode_decode)

end
