(* ===== verification/Fw_Sys.thy ===== *)
theory Fw_Sys
  imports Fw_Layout
begin

text \<open>The structures of the interface to the RPU (\<open>rpu_if.h\<close>, \<open>host_rpu_common_if.h\<close>, \<open>lmac_if_common.h\<close>), of the
  system commands and events (\<open>host_rpu_sys_if.h\<close>) and of the data path (\<open>host_rpu_data_if.h\<close>). A flexible
  array at the end of a structure has no elements.\<close>

section \<open>\<open>rpu_if.h\<close>\<close>

definition host_rpu_rx_buf_info_t :: ctype where [layouts]:
  "host_rpu_rx_buf_info_t = CStruct [
    (''addr'', CU32)]"

definition host_rpu_hpq_t :: ctype where [layouts]:
  "host_rpu_hpq_t = CStruct [
    (''enqueue_addr'', CU32), (''dequeue_addr'', CU32)]"

definition host_rpu_hpqm_info_t :: ctype where [layouts]:
  "host_rpu_hpqm_info_t = CStruct [
    (''event_busy_queue'', host_rpu_hpq_t), (''event_avl_queue'', host_rpu_hpq_t),
    (''cmd_busy_queue'', host_rpu_hpq_t), (''cmd_avl_queue'', host_rpu_hpq_t),
    (''rx_buf_busy_queue'', CArr 3 host_rpu_hpq_t)]"

definition host_rpu_msg_hdr_t :: ctype where [layouts]:
  "host_rpu_msg_hdr_t = CStruct [
    (''len'', CU32), (''resubmit'', CU32)]"

section \<open>\<open>host_rpu_common_if.h\<close>\<close>

definition host_rpu_msg_t :: ctype where [layouts]:
  "host_rpu_msg_t = CStruct [
    (''hdr'', host_rpu_msg_hdr_t), (''type'', CU32), (''msg'', CArr 0 CU8)]"

definition sap_client_pend_frames_bitmap_t :: ctype where [layouts]:
  "sap_client_pend_frames_bitmap_t = CStruct [
    (''mac_addr'', CArr 6 CU8), (''reserved'', CArr 2 CU8), (''pend_frames_bitmap'', CU8),
    (''reserved1'', CArr 3 CU8)]"

definition sap_pend_frames_bitmap_t :: ctype where [layouts]:
  "sap_pend_frames_bitmap_t = CStruct [
    (''mac_addr'', CArr 6 CU8), (''pend_frames_bitmap'', CU8)]"

definition host_rpu_umac_info_t :: ctype where [layouts]:
  "host_rpu_umac_info_t = CStruct [
    (''boot_status'', CU32), (''version'', CU32), (''sap_bitmap'', CArr 4 sap_pend_frames_bitmap_t),
    (''hpqm_info'', host_rpu_hpqm_info_t), (''info_part'', CU32), (''info_variant'', CU32),
    (''info_lromversion'', CU32), (''info_uromversion'', CU32), (''info_uuid'', CArr 4 CU32),
    (''info_spare0'', CU32), (''info_spare1'', CU32), (''mac_address0'', CArr 2 CU32),
    (''mac_address1'', CArr 2 CU32), (''calib'', CArr 9 CU32)]"

section \<open>\<open>lmac_if_common.h\<close>\<close>

definition hpqm_queue_t :: ctype where [layouts]:
  "hpqm_queue_t = CStruct [
    (''pop_addr'', CU32), (''push_addr'', CU32), (''id_num'', CU32), (''status_addr'', CU32),
    (''status_mask'', CU32)]"

definition rx_buf_pool_params_t :: ctype where [layouts]:
  "rx_buf_pool_params_t = CStruct [
    (''buf_sz'', CU16), (''num_bufs'', CU16)]"

definition temp_vbat_config_t :: ctype where [layouts]:
  "temp_vbat_config_t = CStruct [
    (''temp_based_calib_en'', CU32), (''temp_calib_bitmap'', CU32), (''vbat_calibp_bitmap'', CU32),
    (''temp_vbat_mon_period'', CU32), (''vth_very_low'', CU32), (''vth_low'', CU32), (''vth_hi'', CU32),
    (''temp_threshold'', CU32), (''vbat_threshold'', CU32)]"

section \<open>\<open>host_rpu_sys_if.h\<close>\<close>

definition chan_params_t :: ctype where [layouts]:
  "chan_params_t = CStruct [
    (''primary_num'', CU32), (''bw'', CU8), (''sec_20_offset'', CU32), (''sec_40_offset'', CU32)]"

definition rpu_conf_rx_radio_test_params_t :: ctype where [layouts]:
  "rpu_conf_rx_radio_test_params_t = CStruct [
    (''nss'', CU8), (''rf_params'', CArr 200 CU8), (''chan'', chan_params_t), (''phy_threshold'', CU8),
    (''phy_calib'', CU32), (''rx'', CU8)]"

definition umac_rx_dbg_params_t :: ctype where [layouts]:
  "umac_rx_dbg_params_t = CStruct [
    (''lmac_events'', CU32), (''rx_events'', CU32), (''rx_coalesce_events'', CU32),
    (''total_rx_pkts_from_lmac'', CU32), (''max_refill_gap'', CU32), (''current_refill_gap'', CU32),
    (''out_of_order_mpdus'', CU32), (''reorder_free_mpdus'', CU32), (''umac_consumed_pkts'', CU32),
    (''host_consumed_pkts'', CU32), (''rx_mbox_post'', CU32), (''rx_mbox_receive'', CU32),
    (''reordering_ampdu'', CU32), (''timer_mbox_post'', CU32), (''timer_mbox_rcv'', CU32),
    (''work_mbox_post'', CU32), (''work_mbox_rcv'', CU32), (''tasklet_mbox_post'', CU32),
    (''tasklet_mbox_rcv'', CU32), (''userspace_offload_frames'', CU32), (''alloc_buf_fail'', CU32),
    (''rx_packet_total_count'', CU32), (''rx_packet_data_count'', CU32), (''rx_packet_qos_data_count'', CU32),
    (''rx_packet_protected_data_count'', CU32), (''rx_packet_mgmt_count'', CU32),
    (''rx_packet_beacon_count'', CU32), (''rx_packet_probe_resp_count'', CU32),
    (''rx_packet_auth_count'', CU32), (''rx_packet_deauth_count'', CU32),
    (''rx_packet_assoc_resp_count'', CU32), (''rx_packet_disassoc_count'', CU32),
    (''rx_packet_action_count'', CU32), (''rx_packet_probe_req_count'', CU32),
    (''rx_packet_other_mgmt_count'', CU32), (''max_coalesce_pkts'', CU8),
    (''null_skb_pointer_from_lmac'', CU32), (''unexpected_mgmt_pkt'', CU32)]"

definition umac_tx_dbg_params_t :: ctype where [layouts]:
  "umac_tx_dbg_params_t = CStruct [
    (''tx_cmd'', CU32), (''tx_non_coalesce_pkts_rcvd_from_host'', CU32),
    (''tx_coalesce_pkts_rcvd_from_host'', CU32), (''tx_max_coalesce_pkts_rcvd_from_host'', CU32),
    (''tx_cmds_max_used'', CU32), (''tx_cmds_currently_in_use'', CU32),
    (''tx_done_events_send_to_host'', CU32), (''tx_done_success_pkts_to_host'', CU32),
    (''tx_done_failure_pkts_to_host'', CU32), (''tx_cmds_with_crypto_pkts_rcvd_from_host'', CU32),
    (''tx_cmds_with_non_crypto_pkts_rcvd_from_host'', CU32),
    (''tx_cmds_with_broadcast_pkts_rcvd_from_host'', CU32),
    (''tx_cmds_with_multicast_pkts_rcvd_from_host'', CU32),
    (''tx_cmds_with_unicast_pkts_rcvd_from_host'', CU32), (''xmit'', CU32), (''send_addba_req'', CU32),
    (''addba_resp'', CU32), (''softmac_tx'', CU32), (''internal_pkts'', CU32), (''external_pkts'', CU32),
    (''tx_cmds_to_lmac'', CU32), (''tx_dones_from_lmac'', CU32), (''total_cmds_to_lmac'', CU32),
    (''tx_packet_data_count'', CU32), (''tx_packet_mgmt_count'', CU32), (''tx_packet_beacon_count'', CU32),
    (''tx_packet_probe_req_count'', CU32), (''tx_packet_auth_count'', CU32),
    (''tx_packet_deauth_count'', CU32), (''tx_packet_assoc_req_count'', CU32),
    (''tx_packet_disassoc_count'', CU32), (''tx_packet_action_count'', CU32),
    (''tx_packet_other_mgmt_count'', CU32), (''tx_packet_non_mgmt_data_count'', CU32)]"

definition umac_cmd_evnt_dbg_params_t :: ctype where [layouts]:
  "umac_cmd_evnt_dbg_params_t = CStruct [
    (''cmd_init'', CU8), (''event_init_done'', CU8), (''cmd_rf_test'', CU8), (''cmd_connect'', CU8),
    (''cmd_get_stats'', CU32), (''event_ps_state'', CU32), (''cmd_set_reg'', CU32), (''cmd_get_reg'', CU32),
    (''cmd_req_set_reg'', CU32), (''cmd_trigger_scan'', CU32), (''event_scan_done'', CU32),
    (''cmd_get_scan'', CU32), (''umac_scan_req'', CU32), (''umac_scan_complete'', CU32),
    (''umac_scan_busy'', CU32), (''cmd_auth'', CU32), (''cmd_assoc'', CU32), (''cmd_deauth'', CU32),
    (''cmd_register_frame'', CU32), (''cmd_frame'', CU32), (''cmd_del_key'', CU32), (''cmd_new_key'', CU32),
    (''cmd_set_key'', CU32), (''cmd_get_key'', CU32), (''event_beacon_hint'', CU32),
    (''event_reg_change'', CU32), (''event_wiphy_reg_change'', CU32), (''cmd_set_station'', CU32),
    (''cmd_new_station'', CU32), (''cmd_del_station'', CU32), (''cmd_new_interface'', CU32),
    (''cmd_set_interface'', CU32), (''cmd_get_interface'', CU32), (''cmd_set_ifflags'', CU32),
    (''cmd_set_ifflags_done'', CU32), (''cmd_set_bss'', CU32), (''cmd_set_wiphy'', CU32),
    (''cmd_start_ap'', CU32), (''LMAC_CMD_PS'', CU32), (''CURR_STATE'', CU32)]"

definition nrf_wifi_interface_stats_t :: ctype where [layouts]:
  "nrf_wifi_interface_stats_t = CStruct [
    (''tx_unicast_pkt_count'', CU32), (''tx_multicast_pkt_count'', CU32), (''tx_broadcast_pkt_count'', CU32),
    (''tx_bytes'', CU32), (''rx_unicast_pkt_count'', CU32), (''rx_multicast_pkt_count'', CU32),
    (''rx_broadcast_pkt_count'', CU32), (''rx_beacon_success_count'', CU32), (''rx_beacon_miss_count'', CU32),
    (''rx_bytes'', CU32), (''rx_checksum_error_count'', CU32), (''replay_attack_drop_cnt'', CU32)]"

definition rpu_umac_stats_t :: ctype where [layouts]:
  "rpu_umac_stats_t = CStruct [
    (''tx_dbg_params'', umac_tx_dbg_params_t), (''rx_dbg_params'', umac_rx_dbg_params_t),
    (''cmd_evnt_dbg_params'', umac_cmd_evnt_dbg_params_t),
    (''interface_data_stats'', nrf_wifi_interface_stats_t)]"

definition rpu_lmac_stats_t :: ctype where [layouts]:
  "rpu_lmac_stats_t = CStruct [
    (''reset_cmd_cnt'', CU32), (''reset_complete_event_cnt'', CU32), (''unable_gen_event'', CU32),
    (''ch_prog_cmd_cnt'', CU32), (''channel_prog_done'', CU32), (''tx_pkt_cnt'', CU32),
    (''tx_pkt_done_cnt'', CU32), (''scan_pkt_cnt'', CU32), (''internal_pkt_cnt'', CU32),
    (''internal_pkt_done_cnt'', CU32), (''ack_resp_cnt'', CU32), (''tx_timeout'', CU32),
    (''deagg_isr'', CU32), (''deagg_inptr_desc_empty'', CU32), (''deagg_circular_buffer_full'', CU32),
    (''lmac_rxisr_cnt'', CU32), (''rx_decryptcnt'', CU32), (''process_decrypt_fail'', CU32),
    (''prepa_rx_event_fail'', CU32), (''rx_core_pool_full_cnt'', CU32), (''rx_mpdu_crc_success_cnt'', CU32),
    (''rx_mpdu_crc_fail_cnt'', CU32), (''rx_ofdm_crc_success_cnt'', CU32), (''rx_ofdm_crc_fail_cnt'', CU32),
    (''rxDSSSCrcSuccessCnt'', CU32), (''rxDSSSCrcFailCnt'', CU32), (''rx_crypto_start_cnt'', CU32),
    (''rx_crypto_done_cnt'', CU32), (''rx_event_buf_full'', CU32), (''rx_extram_buf_full'', CU32),
    (''scan_req'', CU32), (''scan_complete'', CU32), (''scan_abort_req'', CU32),
    (''scan_abort_complete'', CU32), (''internal_buf_pool_null'', CU32), (''rpu_hw_lockup_count'', CU32),
    (''rpu_hw_lockup_recovery_done'', CU32)]"

definition rpu_phy_stats_t :: ctype where [layouts]:
  "rpu_phy_stats_t = CStruct [
    (''rssi_avg'', CU8), (''pdout_val'', CU8), (''ofdm_crc32_pass_cnt'', CU32),
    (''ofdm_crc32_fail_cnt'', CU32), (''dsss_crc32_pass_cnt'', CU32), (''dsss_crc32_fail_cnt'', CU32)]"

definition nrf_wifi_sys_head_t :: ctype where [layouts]:
  "nrf_wifi_sys_head_t = CStruct [
    (''cmd_event'', CU32), (''len'', CU32)]"

definition nrf_wifi_data_config_params_t :: ctype where [layouts]:
  "nrf_wifi_data_config_params_t = CStruct [
    (''rate_protection_type'', CU8), (''aggregation'', CU8), (''wmm'', CU8),
    (''max_num_tx_agg_sessions'', CU8), (''max_num_rx_agg_sessions'', CU8), (''max_tx_aggregation'', CU8),
    (''reorder_buf_size'', CU8), (''max_rxampdu_size'', CU32)]"

definition nrf_wifi_sys_params_t :: ctype where [layouts]:
  "nrf_wifi_sys_params_t = CStruct [
    (''sleep_enable'', CU32), (''hw_bringup_time'', CU32), (''sw_bringup_time'', CU32),
    (''bcn_time_out'', CU32), (''calib_sleep_clk'', CU32), (''phy_calib'', CU32), (''mac_addr'', CArr 6 CU8),
    (''rf_params'', CArr 200 CU8), (''rf_params_valid'', CU8)]"

definition nrf_wifi_tx_pwr_ctrl_params_t :: ctype where [layouts]:
  "nrf_wifi_tx_pwr_ctrl_params_t = CStruct [
    (''ant_gain_2g'', CU8), (''ant_gain_5g_band1'', CU8), (''ant_gain_5g_band2'', CU8),
    (''ant_gain_5g_band3'', CU8), (''band_edge_2g_lo_dss'', CU8), (''band_edge_2g_lo_ht'', CU8),
    (''band_edge_2g_lo_he'', CU8), (''band_edge_2g_hi_dsss'', CU8), (''band_edge_2g_hi_ht'', CU8),
    (''band_edge_2g_hi_he'', CU8), (''band_edge_5g_unii_1_lo_ht'', CU8), (''band_edge_5g_unii_1_lo_he'', CU8),
    (''band_edge_5g_unii_1_hi_ht'', CU8), (''band_edge_5g_unii_1_hi_he'', CU8),
    (''band_edge_5g_unii_2a_lo_ht'', CU8), (''band_edge_5g_unii_2a_lo_he'', CU8),
    (''band_edge_5g_unii_2a_hi_ht'', CU8), (''band_edge_5g_unii_2a_hi_he'', CU8),
    (''band_edge_5g_unii_2c_lo_ht'', CU8), (''band_edge_5g_unii_2c_lo_he'', CU8),
    (''band_edge_5g_unii_2c_hi_ht'', CU8), (''band_edge_5g_unii_2c_hi_he'', CU8),
    (''band_edge_5g_unii_3_lo_ht'', CU8), (''band_edge_5g_unii_3_lo_he'', CU8),
    (''band_edge_5g_unii_3_hi_ht'', CU8), (''band_edge_5g_unii_3_hi_he'', CU8),
    (''band_edge_5g_unii_4_lo_ht'', CU8), (''band_edge_5g_unii_4_lo_he'', CU8),
    (''band_edge_5g_unii_4_hi_ht'', CU8), (''band_edge_5g_unii_4_hi_he'', CU8)]"

definition nrf_wifi_board_params_t :: ctype where [layouts]:
  "nrf_wifi_board_params_t = CStruct [
    (''pcb_loss_2g'', CU8), (''pcb_loss_5g_band1'', CU8), (''pcb_loss_5g_band2'', CU8),
    (''pcb_loss_5g_band3'', CU8)]"

definition nrf_wifi_cmd_sys_init_t :: ctype where [layouts]:
  "nrf_wifi_cmd_sys_init_t = CStruct [
    (''sys_head'', nrf_wifi_sys_head_t), (''wdev_id'', CU32), (''sys_params'', nrf_wifi_sys_params_t),
    (''rx_buf_pools'', CArr 3 rx_buf_pool_params_t), (''data_config_params'', nrf_wifi_data_config_params_t),
    (''temp_vbat_config_params'', temp_vbat_config_t), (''tcp_ip_checksum_offload'', CU8),
    (''country_code'', CArr 2 CU8), (''op_band'', CU32), (''mgmt_buff_offload'', CU8),
    (''feature_flags'', CU32), (''disable_beamforming'', CU32), (''discon_timeout'', CU32),
    (''ps_exit_strategy'', CU8), (''watchdog_timer_val'', CU32), (''keep_alive_enable'', CU8),
    (''keep_alive_period'', CU32), (''display_scan_bss_limit'', CU32),
    (''coex_disable_ptiwin_for_wifi_scan'', CU32), (''raw_scan_enable'', CU8),
    (''max_ps_poll_fail_cnt'', CU32), (''stbc_enable_in_ht'', CU32), (''dbs_war_ctrl'', CU32),
    (''dynamic_ed'', CU32), (''bt_slot_time_in_ms'', CU32), (''bt_coex_disable'', CU32)]"

definition nrf_wifi_cmd_sys_deinit_t :: ctype where [layouts]:
  "nrf_wifi_cmd_sys_deinit_t = CStruct [
    (''sys_head'', nrf_wifi_sys_head_t)]"

definition nrf_wifi_cmd_he_gi_ltf_config_t :: ctype where [layouts]:
  "nrf_wifi_cmd_he_gi_ltf_config_t = CStruct [
    (''sys_head'', nrf_wifi_sys_head_t), (''wdev_id'', CU8), (''he_gi_type'', CU8), (''he_ltf'', CU8),
    (''enable'', CU8)]"

definition rpu_conf_params_t :: ctype where [layouts]:
  "rpu_conf_params_t = CStruct [
    (''nss'', CU8), (''antenna_sel'', CU8), (''rf_params'', CArr 200 CU8), (''tx_pkt_chnl_bw'', CU8),
    (''tx_pkt_tput_mode'', CU8), (''tx_pkt_sgi'', CU8), (''tx_pkt_nss'', CU8), (''tx_pkt_preamble'', CU8),
    (''tx_pkt_stbc'', CU8), (''tx_pkt_fec_coding'', CU8), (''tx_pkt_mcs'', CU8), (''tx_pkt_rate'', CU8),
    (''phy_threshold'', CU8), (''phy_calib'', CU32), (''op_mode'', CU32), (''chan'', chan_params_t),
    (''tx_mode'', CU8), (''tx_pkt_num'', CU32), (''tx_pkt_len'', CU16), (''tx_power'', CU32), (''tx'', CU8),
    (''rx'', CU8), (''aux_adc_input_chain_id'', CU8), (''agg'', CU8), (''he_ltf'', CU8), (''he_gi'', CU8),
    (''set_he_ltf_gi'', CU8), (''power_save'', CU8), (''rts_threshold'', CU32), (''uapsd_queue'', CU32),
    (''tx_pkt_gap_us'', CU32), (''wlan_ant_switch_ctrl'', CU8), (''sr_ant_switch_ctrl'', CU8),
    (''ru_tone'', CU8), (''ru_index'', CU8), (''tx_tone_freq'', CU8), (''lna_gain'', CU8), (''bb_gain'', CU8),
    (''capture_length'', CU16), (''capture_timeout'', CU16), (''bypass_regulatory'', CU8),
    (''country_code'', CArr 2 CU8), (''tx_pkt_cw'', CU32)]"

definition nrf_wifi_cmd_mode_params_t :: ctype where [layouts]:
  "nrf_wifi_cmd_mode_params_t = CStruct [
    (''sys_head'', nrf_wifi_sys_head_t), (''conf'', rpu_conf_params_t), (''pkt_length'', CArr 16 CU16),
    (''ddr_ptrs'', CArr 16 CU32)]"

definition nrf_wifi_radio_test_init_info_t :: ctype where [layouts]:
  "nrf_wifi_radio_test_init_info_t = CStruct [
    (''rf_params'', CArr 200 CU8), (''chan'', chan_params_t), (''phy_threshold'', CU8), (''phy_calib'', CU32)]"

definition nrf_wifi_cmd_radio_test_init_t :: ctype where [layouts]:
  "nrf_wifi_cmd_radio_test_init_t = CStruct [
    (''sys_head'', nrf_wifi_sys_head_t), (''conf'', nrf_wifi_radio_test_init_info_t)]"

definition nrf_wifi_cmd_rx_t :: ctype where [layouts]:
  "nrf_wifi_cmd_rx_t = CStruct [
    (''sys_head'', nrf_wifi_sys_head_t), (''conf'', rpu_conf_rx_radio_test_params_t)]"

definition nrf_wifi_cmd_get_stats_t :: ctype where [layouts]:
  "nrf_wifi_cmd_get_stats_t = CStruct [
    (''sys_head'', nrf_wifi_sys_head_t), (''stats_type'', CU32), (''op_mode'', CU32)]"

definition nrf_wifi_cmd_set_channel_t :: ctype where [layouts]:
  "nrf_wifi_cmd_set_channel_t = CStruct [
    (''sys_head'', nrf_wifi_sys_head_t), (''if_index'', CU8), (''chan'', chan_params_t)]"

definition nrf_wifi_cmd_raw_config_mode_t :: ctype where [layouts]:
  "nrf_wifi_cmd_raw_config_mode_t = CStruct [
    (''sys_head'', nrf_wifi_sys_head_t), (''if_index'', CU8), (''op_mode'', CU8)]"

definition nrf_wifi_cmd_raw_config_filter_t :: ctype where [layouts]:
  "nrf_wifi_cmd_raw_config_filter_t = CStruct [
    (''sys_head'', nrf_wifi_sys_head_t), (''if_index'', CU8), (''filter'', CU8), (''capture_len'', CU16)]"

definition nrf_wifi_raw_tx_pkt_t :: ctype where [layouts]:
  "nrf_wifi_raw_tx_pkt_t = CStruct [
    (''queue_num'', CU8), (''desc_num'', CU8), (''pkt_length'', CU16), (''rate_retries'', CU8),
    (''rate_flags'', CU8), (''rate'', CU8), (''frame_ddr_pointer'', CU32)]"

definition nrf_wifi_cmd_raw_tx_t :: ctype where [layouts]:
  "nrf_wifi_cmd_raw_tx_t = CStruct [
    (''sys_head'', nrf_wifi_sys_head_t), (''if_index'', CU8), (''raw_tx_info'', nrf_wifi_raw_tx_pkt_t)]"

definition nrf_wifi_offload_ctrl_params_t :: ctype where [layouts]:
  "nrf_wifi_offload_ctrl_params_t = CStruct [
    (''period_in_us'', CU32), (''tx_pwr'', CU32), (''channel_no'', CU32)]"

definition nrf_wifi_offload_tx_ctrl_t :: ctype where [layouts]:
  "nrf_wifi_offload_tx_ctrl_t = CStruct [
    (''pkt_length'', CU32), (''rate_preamble_type'', CU32), (''rate_retries'', CU32), (''rate'', CU32),
    (''rate_flags'', CU32), (''he_gi_type'', CU8), (''he_ltf'', CU8), (''pkt_ram_ptr'', CU32)]"

definition nrf_wifi_cmd_offload_raw_tx_params_t :: ctype where [layouts]:
  "nrf_wifi_cmd_offload_raw_tx_params_t = CStruct [
    (''sys_head'', nrf_wifi_sys_head_t), (''wdev_id'', CU32), (''ctrl_info'', nrf_wifi_offload_ctrl_params_t),
    (''tx_params'', nrf_wifi_offload_tx_ctrl_t)]"

definition nrf_wifi_cmd_offload_raw_tx_ctrl_t :: ctype where [layouts]:
  "nrf_wifi_cmd_offload_raw_tx_ctrl_t = CStruct [
    (''sys_head'', nrf_wifi_sys_head_t), (''wdev_id'', CU32), (''ctrl_type'', CU8)]"

definition nrf_wifi_event_set_channel_t :: ctype where [layouts]:
  "nrf_wifi_event_set_channel_t = CStruct [
    (''sys_head'', nrf_wifi_sys_head_t), (''if_index'', CU8), (''chan_num'', CU32), (''status'', CU32)]"

definition nrf_wifi_event_raw_config_mode_t :: ctype where [layouts]:
  "nrf_wifi_event_raw_config_mode_t = CStruct [
    (''sys_head'', nrf_wifi_sys_head_t), (''if_index'', CU8), (''op_mode'', CU8), (''status'', CU32)]"

definition nrf_wifi_event_raw_config_filter_t :: ctype where [layouts]:
  "nrf_wifi_event_raw_config_filter_t = CStruct [
    (''sys_head'', nrf_wifi_sys_head_t), (''if_index'', CU8), (''filter'', CU8), (''capture_len'', CU16),
    (''status'', CU32)]"

definition nrf_wifi_event_raw_tx_done_t :: ctype where [layouts]:
  "nrf_wifi_event_raw_tx_done_t = CStruct [
    (''sys_head'', nrf_wifi_sys_head_t), (''desc_num'', CU8), (''status'', CU32)]"

definition nrf_wifi_cmd_clear_stats_t :: ctype where [layouts]:
  "nrf_wifi_cmd_clear_stats_t = CStruct [
    (''sys_head'', nrf_wifi_sys_head_t), (''stats_type'', CU32)]"

definition nrf_wifi_cmd_pwr_t :: ctype where [layouts]:
  "nrf_wifi_cmd_pwr_t = CStruct [
    (''sys_head'', nrf_wifi_sys_head_t), (''data_type'', CU32)]"

definition coex_wlan_switch_ctrl_t :: ctype where [layouts]:
  "coex_wlan_switch_ctrl_t = CStruct [
    (''rpu_msg_id'', CU32), (''switch_A'', CU32)]"

definition nrf_wifi_cmd_srcoex_t :: ctype where [layouts]:
  "nrf_wifi_cmd_srcoex_t = CStruct [
    (''sys_head'', nrf_wifi_sys_head_t), (''conf'', coex_wlan_switch_ctrl_t)]"

definition rpu_cmd_coex_config_info_t :: ctype where [layouts]:
  "rpu_cmd_coex_config_info_t = CStruct [
    (''len'', CU32), (''coex_cmd'', CArr 0 CU8)]"

definition nrf_wifi_cmd_coex_config_t :: ctype where [layouts]:
  "nrf_wifi_cmd_coex_config_t = CStruct [
    (''sys_head'', nrf_wifi_sys_head_t), (''coex_config_info'', rpu_cmd_coex_config_info_t)]"

definition rpu_evnt_coex_config_info_t :: ctype where [layouts]:
  "rpu_evnt_coex_config_info_t = CStruct [
    (''len'', CU32), (''coex_event'', CArr 0 CU8)]"

definition nrf_wifi_event_coex_config_t :: ctype where [layouts]:
  "nrf_wifi_event_coex_config_t = CStruct [
    (''sys_head'', nrf_wifi_sys_head_t), (''coex_config_info'', rpu_evnt_coex_config_info_t)]"

definition nrf_wifi_cmd_fix_tx_rate_t :: ctype where [layouts]:
  "nrf_wifi_cmd_fix_tx_rate_t = CStruct [
    (''sys_head'', nrf_wifi_sys_head_t), (''rate_flags'', CU8), (''fixed_rate'', CU32)]"

definition rpu_cmd_rftest_info_t :: ctype where [layouts]:
  "rpu_cmd_rftest_info_t = CStruct [
    (''len'', CU32), (''rfcmd'', CArr 0 CU8)]"

definition nrf_wifi_cmd_rftest_t :: ctype where [layouts]:
  "nrf_wifi_cmd_rftest_t = CStruct [
    (''sys_head'', nrf_wifi_sys_head_t), (''rf_test_info'', rpu_cmd_rftest_info_t)]"

definition rpu_evnt_rftest_info_t :: ctype where [layouts]:
  "rpu_evnt_rftest_info_t = CStruct [
    (''len'', CU32), (''rfevent'', CArr 0 CU8)]"

definition nrf_wifi_event_rftest_t :: ctype where [layouts]:
  "nrf_wifi_event_rftest_t = CStruct [
    (''sys_head'', nrf_wifi_sys_head_t), (''rf_test_info'', rpu_evnt_rftest_info_t)]"

definition rpu_sys_fw_stats_t :: ctype where [layouts]:
  "rpu_sys_fw_stats_t = CStruct [
    (''phy'', rpu_phy_stats_t), (''lmac'', rpu_lmac_stats_t), (''umac'', rpu_umac_stats_t)]"

definition rpu_rt_fw_stats_t :: ctype where [layouts]:
  "rpu_rt_fw_stats_t = CStruct [
    (''phy'', rpu_phy_stats_t)]"

definition rpu_off_raw_tx_fw_stats_t :: ctype where [layouts]:
  "rpu_off_raw_tx_fw_stats_t = CStruct [
    (''offload_raw_tx_state'', CU32), (''offload_raw_tx_cnt'', CU32), (''offload_raw_tx_complete_cnt'', CU32),
    (''warm_boot_cnt'', CU32)]"

definition nrf_wifi_sys_umac_event_stats_t :: ctype where [layouts]:
  "nrf_wifi_sys_umac_event_stats_t = CStruct [
    (''sys_head'', nrf_wifi_sys_head_t), (''fw'', rpu_sys_fw_stats_t)]"

definition nrf_wifi_rt_umac_event_stats_t :: ctype where [layouts]:
  "nrf_wifi_rt_umac_event_stats_t = CStruct [
    (''sys_head'', nrf_wifi_sys_head_t), (''fw'', rpu_rt_fw_stats_t)]"

definition nrf_wifi_off_raw_tx_umac_event_stats_t :: ctype where [layouts]:
  "nrf_wifi_off_raw_tx_umac_event_stats_t = CStruct [
    (''sys_head'', nrf_wifi_sys_head_t), (''fw'', rpu_off_raw_tx_fw_stats_t)]"

definition nrf_wifi_umac_event_err_status_t :: ctype where [layouts]:
  "nrf_wifi_umac_event_err_status_t = CStruct [
    (''sys_head'', nrf_wifi_sys_head_t), (''status'', CU32)]"

definition nrf_wifi_event_init_done_t :: ctype where [layouts]:
  "nrf_wifi_event_init_done_t = CStruct [
    (''sys_head'', nrf_wifi_sys_head_t)]"

definition pool_data_to_host_t :: ctype where [layouts]:
  "pool_data_to_host_t = CStruct [
    (''buffer_size'', CU32), (''num_pool_items'', CU8), (''items_num_max_allocated'', CU8),
    (''items_num_cur_allocated'', CU8), (''items_num_total_allocated'', CU32),
    (''items_num_not_allocated'', CU32)]"

definition umac_int_stats_t :: ctype where [layouts]:
  "umac_int_stats_t = CStruct [
    (''sys_head'', nrf_wifi_sys_head_t), (''scratch_dynamic_memory_info'', CArr 56 pool_data_to_host_t),
    (''retention_dynamic_memory_info'', CArr 56 pool_data_to_host_t)]"

definition nrf_wifi_event_deinit_done_t :: ctype where [layouts]:
  "nrf_wifi_event_deinit_done_t = CStruct [
    (''sys_head'', nrf_wifi_sys_head_t)]"

definition nrf_wifi_cmd_reset_stats_t :: ctype where [layouts]:
  "nrf_wifi_cmd_reset_stats_t = CStruct [
    (''sys_head'', nrf_wifi_sys_head_t)]"

section \<open>\<open>host_rpu_data_if.h\<close>\<close>

definition nrf_wifi_umac_head_t :: ctype where [layouts]:
  "nrf_wifi_umac_head_t = CStruct [
    (''cmd'', CU32), (''len'', CU32)]"

definition tx_mac_hdr_info_t :: ctype where [layouts]:
  "tx_mac_hdr_info_t = CStruct [
    (''umac_fill_flags'', CU32), (''fc'', CU16), (''dest'', CArr 6 CU8), (''src'', CArr 6 CU8),
    (''etype'', CU16), (''tx_flags'', CU32), (''more_data'', CU8), (''eosp'', CU8)]"

definition nrf_wifi_tx_buff_info_t :: ctype where [layouts]:
  "nrf_wifi_tx_buff_info_t = CStruct [
    (''pkt_length'', CU16), (''ddr_ptr'', CU32)]"

definition nrf_wifi_tx_buff_t :: ctype where [layouts]:
  "nrf_wifi_tx_buff_t = CStruct [
    (''umac_head'', nrf_wifi_umac_head_t), (''wdev_id'', CU8), (''tx_desc_num'', CU8),
    (''mac_hdr_info'', tx_mac_hdr_info_t), (''pending_buf_size'', CU32), (''num_tx_pkts'', CU8),
    (''tx_buff_info'', CArr 0 nrf_wifi_tx_buff_info_t)]"

definition nrf_wifi_tx_buff_done_t :: ctype where [layouts]:
  "nrf_wifi_tx_buff_done_t = CStruct [
    (''umac_head'', nrf_wifi_umac_head_t), (''tx_desc_num'', CU8), (''num_tx_status_code'', CU8),
    (''timestamp_t1'', CArr 6 CU8), (''timestamp_t4'', CArr 6 CU8), (''tx_status_code'', CArr 0 CU8)]"

definition nrf_wifi_rx_buff_info_t :: ctype where [layouts]:
  "nrf_wifi_rx_buff_info_t = CStruct [
    (''descriptor_id'', CU16), (''rx_pkt_len'', CU16), (''pkt_type'', CU8), (''timestamp_t2'', CArr 6 CU8),
    (''timestamp_t3'', CArr 6 CU8)]"

definition nrf_wifi_rx_buff_t :: ctype where [layouts]:
  "nrf_wifi_rx_buff_t = CStruct [
    (''umac_head'', nrf_wifi_umac_head_t), (''rx_pkt_type'', CU16), (''rate_flags'', CU8), (''rate'', CU8),
    (''wdev_id'', CU8), (''rx_pkt_cnt'', CU8), (''reserved'', CU8), (''mac_header_len'', CU8),
    (''frequency'', CU16), (''signal'', CU16), (''rx_buff_info'', CArr 0 nrf_wifi_rx_buff_info_t)]"

definition nrf_wifi_data_carrier_state_t :: ctype where [layouts]:
  "nrf_wifi_data_carrier_state_t = CStruct [
    (''umac_head'', nrf_wifi_umac_head_t), (''wdev_id'', CU32)]"

definition nrf_wifi_sap_client_pwrsave_t :: ctype where [layouts]:
  "nrf_wifi_sap_client_pwrsave_t = CStruct [
    (''umac_head'', nrf_wifi_umac_head_t), (''wdev_id'', CU32), (''sta_ps_state'', CU8),
    (''mac_addr'', CArr 6 CU8)]"

definition nrf_wifi_sap_ps_get_frames_t :: ctype where [layouts]:
  "nrf_wifi_sap_ps_get_frames_t = CStruct [
    (''umac_head'', nrf_wifi_umac_head_t), (''wdev_id'', CU32), (''mac_addr'', CArr 6 CU8),
    (''num_frames'', CU8)]"

end
