(* ===== verification/Fw_Umac.thy ===== *)
theory Fw_Umac
  imports Fw_Layout
begin

text \<open>The structures of the management commands and events (\<open>host_rpu_umac_if.h\<close>). A flexible array at the end of a
  structure has no elements; of the union in \<open>nrf_wifi_signal\<close> the larger member is kept.\<close>

section \<open>\<open>host_rpu_umac_if.h\<close>\<close>

definition nrf_wifi_ssid_t :: ctype where [layouts]:
  "nrf_wifi_ssid_t = CStruct [
    (''nrf_wifi_ssid_len'', CU8), (''nrf_wifi_ssid'', CArr 32 CU8)]"

definition nrf_wifi_ie_t :: ctype where [layouts]:
  "nrf_wifi_ie_t = CStruct [
    (''ie_len'', CU16), (''ie'', CArr 400 CU8)]"

definition nrf_wifi_seq_t :: ctype where [layouts]:
  "nrf_wifi_seq_t = CStruct [
    (''nrf_wifi_seq_len'', CU32), (''nrf_wifi_seq'', CArr 256 CU8)]"

definition nrf_wifi_key_t :: ctype where [layouts]:
  "nrf_wifi_key_t = CStruct [
    (''nrf_wifi_key_len'', CU32), (''nrf_wifi_key'', CArr 256 CU8)]"

definition nrf_wifi_sae_t :: ctype where [layouts]:
  "nrf_wifi_sae_t = CStruct [
    (''sae_data_len'', CU32), (''sae_data'', CArr 256 CU8)]"

definition nrf_wifi_frame_t :: ctype where [layouts]:
  "nrf_wifi_frame_t = CStruct [
    (''frame_len'', CU32), (''frame'', CArr 400 CU8)]"

definition nrf_wifi_index_ids_t :: ctype where [layouts]:
  "nrf_wifi_index_ids_t = CStruct [
    (''valid_fields'', CU32), (''ifaceindex'', CU32), (''nrf_wifi_wiphy_idx'', CU32), (''wdev_id'', CU64)]"

definition nrf_wifi_supp_rates_t :: ctype where [layouts]:
  "nrf_wifi_supp_rates_t = CStruct [
    (''valid_fields'', CU32), (''band'', CU32), (''nrf_wifi_num_rates'', CU32), (''rates'', CArr 60 CU8)]"

definition nrf_wifi_channel_t :: ctype where [layouts]:
  "nrf_wifi_channel_t = CStruct [
    (''band'', CU32), (''center_frequency'', CU32), (''nrf_wifi_flags'', CU32),
    (''nrf_wifi_max_antenna_gain'', CU32), (''nrf_wifi_max_power'', CU32), (''nrf_wifi_max_reg_power'', CU32),
    (''nrf_wifi_orig_flags'', CU32), (''nrf_wifi_orig_mag'', CU32), (''nrf_wifi_orig_mpwr'', CU32),
    (''hw_value'', CU16), (''nrf_wifi_beacon_found'', CU8)]"

definition nrf_wifi_scan_params_t :: ctype where [layouts]:
  "nrf_wifi_scan_params_t = CStruct [
    (''passive_scan'', CU16), (''num_scan_ssids'', CU8), (''scan_ssids'', CArr 2 nrf_wifi_ssid_t),
    (''no_cck'', CU8), (''bands'', CU8), (''ie'', nrf_wifi_ie_t), (''mac_addr'', CArr 6 CU8),
    (''dwell_time_active'', CU16), (''dwell_time_passive'', CU16), (''num_scan_channels'', CU16),
    (''skip_local_admin_macs'', CU8), (''center_frequency'', CArr 0 CU32)]"

definition nrf_wifi_ht_vht_capabilities_t :: ctype where [layouts]:
  "nrf_wifi_ht_vht_capabilities_t = CStruct [
    (''valid_fields'', CU32), (''nrf_wifi_flags'', CU16), (''ht_capability'', CArr 256 CU8),
    (''ht_capability_mask'', CArr 256 CU8), (''vht_capability'', CArr 256 CU8),
    (''vht_capability_mask'', CArr 256 CU8)]"

definition nrf_wifi_signal_t :: ctype where [layouts]:
  "nrf_wifi_signal_t = CStruct [
    (''signal_type'', CU32), (''signal'', CU32)]"

definition nrf_wifi_connect_common_info_t :: ctype where [layouts]:
  "nrf_wifi_connect_common_info_t = CStruct [
    (''valid_fields'', CU32), (''frequency'', CU32), (''freq_hint'', CU32), (''wpa_versions'', CU32),
    (''num_cipher_suites_pairwise'', CU32), (''cipher_suites_pairwise'', CArr 7 CU32),
    (''cipher_suite_group'', CU32), (''num_akm_suites'', CU32), (''akm_suites'', CArr 2 CU32),
    (''use_mfp'', CU32), (''nrf_wifi_flags'', CU32), (''bg_scan_period'', CU16), (''mac_addr'', CArr 6 CU8),
    (''mac_addr_hint'', CArr 6 CU8), (''ssid'', nrf_wifi_ssid_t), (''wpa_ie'', nrf_wifi_ie_t),
    (''ht_vht_capabilities'', nrf_wifi_ht_vht_capabilities_t), (''control_port_ether_type'', CU16),
    (''control_port_no_encrypt'', CU8), (''control_port'', CU8), (''prev_bssid'', CArr 6 CU8),
    (''maxidle_insec'', CU16)]"

definition nrf_wifi_beacon_data_t :: ctype where [layouts]:
  "nrf_wifi_beacon_data_t = CStruct [
    (''head_len'', CU32), (''tail_len'', CU32), (''probe_resp_len'', CU32), (''head'', CArr 256 CU8),
    (''tail'', CArr 512 CU8), (''probe_resp'', CArr 400 CU8)]"

definition nrf_wifi_sta_flag_update_t :: ctype where [layouts]:
  "nrf_wifi_sta_flag_update_t = CStruct [
    (''nrf_wifi_mask'', CU32), (''nrf_wifi_set'', CU32)]"

definition nrf_wifi_rate_info_t :: ctype where [layouts]:
  "nrf_wifi_rate_info_t = CStruct [
    (''valid_fields'', CU32), (''bitrate'', CU32), (''bitrate_compat'', CU16), (''nrf_wifi_mcs'', CU8),
    (''vht_mcs'', CU8), (''vht_nss'', CU8), (''nrf_wifi_flags'', CU32)]"

definition nrf_wifi_sta_bss_parameters_t :: ctype where [layouts]:
  "nrf_wifi_sta_bss_parameters_t = CStruct [
    (''nrf_wifi_flags'', CU8), (''dtim_period'', CU8), (''beacon_interval'', CU16)]"

definition nrf_wifi_sta_info_t :: ctype where [layouts]:
  "nrf_wifi_sta_info_t = CStruct [
    (''valid_fields'', CU32), (''connected_time'', CU32), (''inactive_time'', CU32), (''rx_bytes'', CU32),
    (''tx_bytes'', CU32), (''chain_signal_mask'', CU32), (''chain_signal'', CArr 4 CU8),
    (''chain_signal_avg_mask'', CU32), (''chain_signal_avg'', CArr 4 CU8),
    (''tx_bitrate'', nrf_wifi_rate_info_t), (''rx_bitrate'', nrf_wifi_rate_info_t), (''llid'', CU16),
    (''plid'', CU16), (''plink_state'', CU8), (''signal'', CU32), (''signal_avg'', CU32),
    (''rx_packets'', CU32), (''tx_packets'', CU32), (''tx_retries'', CU32), (''tx_failed'', CU32),
    (''expected_throughput'', CU32), (''beacon_loss_count'', CU32), (''local_pm'', CU32), (''peer_pm'', CU32),
    (''nonpeer_pm'', CU32), (''sta_flags'', nrf_wifi_sta_flag_update_t), (''t_offset'', CU64),
    (''rx_dropped_misc'', CU64), (''rx_beacon'', CU64), (''rx_beacon_signal_avg'', CU64),
    (''bss_param'', nrf_wifi_sta_bss_parameters_t)]"

definition nrf_wifi_umac_hdr_t :: ctype where [layouts]:
  "nrf_wifi_umac_hdr_t = CStruct [
    (''portid'', CU32), (''seq'', CU32), (''cmd_evnt'', CU32), (''rpu_ret_val'', CU32),
    (''ids'', nrf_wifi_index_ids_t)]"

definition nrf_wifi_umac_key_info_t :: ctype where [layouts]:
  "nrf_wifi_umac_key_info_t = CStruct [
    (''valid_fields'', CU32), (''cipher_suite'', CU32), (''nrf_wifi_flags'', CU16), (''key_type'', CU32),
    (''key'', nrf_wifi_key_t), (''seq'', nrf_wifi_seq_t), (''key_idx'', CU8)]"

definition nrf_wifi_umac_scan_info_t :: ctype where [layouts]:
  "nrf_wifi_umac_scan_info_t = CStruct [
    (''scan_reason'', CU32), (''scan_params'', nrf_wifi_scan_params_t)]"

definition nrf_wifi_umac_cmd_scan_t :: ctype where [layouts]:
  "nrf_wifi_umac_cmd_scan_t = CStruct [
    (''umac_hdr'', nrf_wifi_umac_hdr_t), (''info'', nrf_wifi_umac_scan_info_t)]"

definition nrf_wifi_umac_cmd_abort_scan_t :: ctype where [layouts]:
  "nrf_wifi_umac_cmd_abort_scan_t = CStruct [
    (''umac_hdr'', nrf_wifi_umac_hdr_t)]"

definition nrf_wifi_umac_cmd_get_scan_results_t :: ctype where [layouts]:
  "nrf_wifi_umac_cmd_get_scan_results_t = CStruct [
    (''umac_hdr'', nrf_wifi_umac_hdr_t), (''scan_reason'', CU32)]"

definition nrf_wifi_umac_event_scan_done_t :: ctype where [layouts]:
  "nrf_wifi_umac_event_scan_done_t = CStruct [
    (''umac_hdr'', nrf_wifi_umac_hdr_t), (''status'', CU32), (''scan_type'', CU32)]"

definition nrf_wifi_umac_mcast_cfg_t :: ctype where [layouts]:
  "nrf_wifi_umac_mcast_cfg_t = CStruct [
    (''type'', CU32), (''mac_addr'', CArr 6 CU8)]"

definition nrf_wifi_umac_cmd_mcast_filter_t :: ctype where [layouts]:
  "nrf_wifi_umac_cmd_mcast_filter_t = CStruct [
    (''umac_hdr'', nrf_wifi_umac_hdr_t), (''info'', nrf_wifi_umac_mcast_cfg_t)]"

definition nrf_wifi_umac_change_macaddr_info_t :: ctype where [layouts]:
  "nrf_wifi_umac_change_macaddr_info_t = CStruct [
    (''mac_addr'', CArr 6 CU8)]"

definition nrf_wifi_umac_cmd_change_macaddr_t :: ctype where [layouts]:
  "nrf_wifi_umac_cmd_change_macaddr_t = CStruct [
    (''umac_hdr'', nrf_wifi_umac_hdr_t), (''macaddr_info'', nrf_wifi_umac_change_macaddr_info_t)]"

definition nrf_wifi_umac_auth_info_t :: ctype where [layouts]:
  "nrf_wifi_umac_auth_info_t = CStruct [
    (''frequency'', CU32), (''nrf_wifi_flags'', CU16), (''auth_type'', CU32),
    (''key_info'', nrf_wifi_umac_key_info_t), (''ssid'', nrf_wifi_ssid_t), (''ie'', nrf_wifi_ie_t),
    (''sae'', nrf_wifi_sae_t), (''nrf_wifi_bssid'', CArr 6 CU8), (''scan_width'', CU32),
    (''nrf_wifi_signal'', CU32), (''from_beacon'', CU32), (''bss_ie'', nrf_wifi_ie_t), (''capability'', CU16),
    (''beacon_interval'', CU16), (''tsf'', CU64)]"

definition nrf_wifi_umac_cmd_auth_t :: ctype where [layouts]:
  "nrf_wifi_umac_cmd_auth_t = CStruct [
    (''umac_hdr'', nrf_wifi_umac_hdr_t), (''valid_fields'', CU32), (''info'', nrf_wifi_umac_auth_info_t)]"

definition nrf_wifi_umac_assoc_info_t :: ctype where [layouts]:
  "nrf_wifi_umac_assoc_info_t = CStruct [
    (''center_frequency'', CU32), (''ssid'', nrf_wifi_ssid_t), (''nrf_wifi_bssid'', CArr 6 CU8),
    (''wpa_ie'', nrf_wifi_ie_t), (''use_mfp'', CU8), (''control_port'', CU8), (''prev_bssid_flag'', CU32),
    (''prev_bssid'', CArr 6 CU8), (''bss_max_idle_time'', CU16), (''conn_type'', CU8)]"

definition nrf_wifi_umac_cmd_assoc_t :: ctype where [layouts]:
  "nrf_wifi_umac_cmd_assoc_t = CStruct [
    (''umac_hdr'', nrf_wifi_umac_hdr_t), (''valid_fields'', CU32),
    (''connect_common_info'', nrf_wifi_connect_common_info_t), (''mac_addr'', CArr 6 CU8)]"

definition nrf_wifi_umac_disconn_info_t :: ctype where [layouts]:
  "nrf_wifi_umac_disconn_info_t = CStruct [
    (''nrf_wifi_flags'', CU16), (''reason_code'', CU16), (''mac_addr'', CArr 6 CU8)]"

definition nrf_wifi_umac_cmd_disconn_t :: ctype where [layouts]:
  "nrf_wifi_umac_cmd_disconn_t = CStruct [
    (''umac_hdr'', nrf_wifi_umac_hdr_t), (''valid_fields'', CU32), (''info'', nrf_wifi_umac_disconn_info_t)]"

definition nrf_wifi_umac_add_vif_info_t :: ctype where [layouts]:
  "nrf_wifi_umac_add_vif_info_t = CStruct [
    (''iftype'', CU32), (''nrf_wifi_use_4addr'', CU32), (''mon_flags'', CU32), (''mac_addr'', CArr 6 CU8),
    (''ifacename'', CArr 16 CU8)]"

definition nrf_wifi_umac_cmd_add_vif_t :: ctype where [layouts]:
  "nrf_wifi_umac_cmd_add_vif_t = CStruct [
    (''umac_hdr'', nrf_wifi_umac_hdr_t), (''valid_fields'', CU32), (''info'', nrf_wifi_umac_add_vif_info_t)]"

definition nrf_wifi_umac_cmd_del_vif_t :: ctype where [layouts]:
  "nrf_wifi_umac_cmd_del_vif_t = CStruct [
    (''umac_hdr'', nrf_wifi_umac_hdr_t)]"

definition nrf_wifi_umac_frame_match_t :: ctype where [layouts]:
  "nrf_wifi_umac_frame_match_t = CStruct [
    (''frame_match_len'', CU32), (''frame_match'', CArr 8 CU8)]"

definition nrf_wifi_umac_mgmt_frame_info_t :: ctype where [layouts]:
  "nrf_wifi_umac_mgmt_frame_info_t = CStruct [
    (''frame_type'', CU16), (''frame_match'', nrf_wifi_umac_frame_match_t)]"

definition nrf_wifi_umac_cmd_mgmt_frame_reg_t :: ctype where [layouts]:
  "nrf_wifi_umac_cmd_mgmt_frame_reg_t = CStruct [
    (''umac_hdr'', nrf_wifi_umac_hdr_t), (''info'', nrf_wifi_umac_mgmt_frame_info_t)]"

definition nrf_wifi_umac_cmd_key_t :: ctype where [layouts]:
  "nrf_wifi_umac_cmd_key_t = CStruct [
    (''umac_hdr'', nrf_wifi_umac_hdr_t), (''valid_fields'', CU32), (''key_info'', nrf_wifi_umac_key_info_t),
    (''mac_addr'', CArr 6 CU8)]"

definition nrf_wifi_umac_cmd_set_key_t :: ctype where [layouts]:
  "nrf_wifi_umac_cmd_set_key_t = CStruct [
    (''umac_hdr'', nrf_wifi_umac_hdr_t), (''key_info'', nrf_wifi_umac_key_info_t)]"

definition nrf_wifi_umac_bss_info_t :: ctype where [layouts]:
  "nrf_wifi_umac_bss_info_t = CStruct [
    (''p2p_go_ctwindow'', CU32), (''p2p_opp_ps'', CU32), (''num_basic_rates'', CU32), (''ht_opmode'', CU16),
    (''nrf_wifi_cts'', CU8), (''preamble'', CU8), (''nrf_wifi_slot'', CU8), (''ap_isolate'', CU8),
    (''basic_rates'', CArr 32 CU8)]"

definition nrf_wifi_umac_cmd_set_bss_t :: ctype where [layouts]:
  "nrf_wifi_umac_cmd_set_bss_t = CStruct [
    (''umac_hdr'', nrf_wifi_umac_hdr_t), (''valid_fields'', CU32), (''bss_info'', nrf_wifi_umac_bss_info_t)]"

definition freq_params_t :: ctype where [layouts]:
  "freq_params_t = CStruct [
    (''valid_fields'', CU32), (''frequency'', CU32), (''channel_width'', CU32), (''center_frequency1'', CU32),
    (''center_frequency2'', CU32), (''channel_type'', CU32)]"

definition nrf_wifi_txq_params_t :: ctype where [layouts]:
  "nrf_wifi_txq_params_t = CStruct [
    (''txop'', CU16), (''cwmin'', CU16), (''cwmax'', CU16), (''aifs'', CU8), (''ac'', CU8)]"

definition nrf_wifi_tx_power_setting_t :: ctype where [layouts]:
  "nrf_wifi_tx_power_setting_t = CStruct [
    (''valid_fields'', CU32), (''type'', CU32), (''tx_power_level'', CU32)]"

definition nrf_wifi_umac_set_wiphy_info_t :: ctype where [layouts]:
  "nrf_wifi_umac_set_wiphy_info_t = CStruct [
    (''rts_threshold'', CU32), (''frag_threshold'', CU32), (''antenna_tx'', CU32), (''antenna_rx'', CU32),
    (''freq_params'', freq_params_t), (''txq_params'', nrf_wifi_txq_params_t),
    (''tx_power_setting'', nrf_wifi_tx_power_setting_t), (''retry_short'', CU8), (''retry_long'', CU8),
    (''coverage_class'', CU8), (''wiphy_name'', CArr 32 CU8)]"

definition nrf_wifi_umac_cmd_set_wiphy_t :: ctype where [layouts]:
  "nrf_wifi_umac_cmd_set_wiphy_t = CStruct [
    (''umac_hdr'', nrf_wifi_umac_hdr_t), (''valid_fields'', CU32), (''info'', nrf_wifi_umac_set_wiphy_info_t)]"

definition nrf_wifi_umac_del_sta_info_t :: ctype where [layouts]:
  "nrf_wifi_umac_del_sta_info_t = CStruct [
    (''mac_addr'', CArr 6 CU8), (''mgmt_subtype'', CU8), (''reason_code'', CU16)]"

definition nrf_wifi_umac_cmd_del_sta_t :: ctype where [layouts]:
  "nrf_wifi_umac_cmd_del_sta_t = CStruct [
    (''umac_hdr'', nrf_wifi_umac_hdr_t), (''valid_fields'', CU32), (''info'', nrf_wifi_umac_del_sta_info_t)]"

definition nrf_wifi_umac_get_sta_info_t :: ctype where [layouts]:
  "nrf_wifi_umac_get_sta_info_t = CStruct [
    (''mac_addr'', CArr 6 CU8)]"

definition nrf_wifi_umac_cmd_get_sta_t :: ctype where [layouts]:
  "nrf_wifi_umac_cmd_get_sta_t = CStruct [
    (''umac_hdr'', nrf_wifi_umac_hdr_t), (''info'', nrf_wifi_umac_get_sta_info_t)]"

definition nrf_wifi_ext_capability_t :: ctype where [layouts]:
  "nrf_wifi_ext_capability_t = CStruct [
    (''ext_capability_len'', CU32), (''ext_capability'', CArr 32 CU8)]"

definition nrf_wifi_supported_channels_t :: ctype where [layouts]:
  "nrf_wifi_supported_channels_t = CStruct [
    (''supported_channels_len'', CU32), (''supported_channels'', CArr 64 CU8)]"

definition nrf_wifi_supported_oper_classes_t :: ctype where [layouts]:
  "nrf_wifi_supported_oper_classes_t = CStruct [
    (''supported_oper_classes_len'', CU32), (''supported_oper_classes'', CArr 64 CU8)]"

definition nrf_wifi_sta_flags2_t :: ctype where [layouts]:
  "nrf_wifi_sta_flags2_t = CStruct [
    (''sta_flags2_len'', CU32), (''sta_flags2'', CArr 64 CU8)]"

definition nrf_wifi_umac_chg_sta_info_t :: ctype where [layouts]:
  "nrf_wifi_umac_chg_sta_info_t = CStruct [
    (''nrf_wifi_listen_interval'', CU32), (''sta_vlan'', CU32), (''aid'', CU16),
    (''nrf_wifi_peer_aid'', CU16), (''sta_capability'', CU16), (''spare'', CU16),
    (''supp_rates'', nrf_wifi_supp_rates_t), (''ext_capability'', nrf_wifi_ext_capability_t),
    (''supported_channels'', nrf_wifi_supported_channels_t),
    (''supported_oper_classes'', nrf_wifi_supported_oper_classes_t),
    (''sta_flags2'', nrf_wifi_sta_flag_update_t), (''ht_capability'', CArr 256 CU8),
    (''vht_capability'', CArr 256 CU8), (''mac_addr'', CArr 6 CU8), (''opmode_notif'', CU8),
    (''wme_uapsd_queues'', CU8), (''wme_max_sp'', CU8)]"

definition nrf_wifi_umac_cmd_chg_sta_t :: ctype where [layouts]:
  "nrf_wifi_umac_cmd_chg_sta_t = CStruct [
    (''umac_hdr'', nrf_wifi_umac_hdr_t), (''valid_fields'', CU32), (''info'', nrf_wifi_umac_chg_sta_info_t)]"

definition nrf_wifi_umac_add_sta_info_t :: ctype where [layouts]:
  "nrf_wifi_umac_add_sta_info_t = CStruct [
    (''nrf_wifi_listen_interval'', CU32), (''sta_vlan'', CU32), (''aid'', CU16),
    (''nrf_wifi_peer_aid'', CU16), (''sta_capability'', CU16), (''spare'', CU16),
    (''supp_rates'', nrf_wifi_supp_rates_t), (''ext_capability'', nrf_wifi_ext_capability_t),
    (''supported_channels'', nrf_wifi_supported_channels_t),
    (''supported_oper_classes'', nrf_wifi_supported_oper_classes_t),
    (''sta_flags2'', nrf_wifi_sta_flag_update_t), (''ht_capability'', CArr 256 CU8),
    (''vht_capability'', CArr 256 CU8), (''mac_addr'', CArr 6 CU8), (''opmode_notif'', CU8),
    (''wme_uapsd_queues'', CU8), (''wme_max_sp'', CU8)]"

definition nrf_wifi_umac_cmd_add_sta_t :: ctype where [layouts]:
  "nrf_wifi_umac_cmd_add_sta_t = CStruct [
    (''umac_hdr'', nrf_wifi_umac_hdr_t), (''valid_fields'', CU32), (''info'', nrf_wifi_umac_add_sta_info_t)]"

definition nrf_wifi_umac_start_ap_info_t :: ctype where [layouts]:
  "nrf_wifi_umac_start_ap_info_t = CStruct [
    (''beacon_interval'', CU16), (''dtim_period'', CU8), (''hidden_ssid'', CU32), (''auth_type'', CU32),
    (''smps_mode'', CU32), (''nrf_wifi_flags'', CU32), (''beacon_data'', nrf_wifi_beacon_data_t),
    (''ssid'', nrf_wifi_ssid_t), (''connect_common_info'', nrf_wifi_connect_common_info_t),
    (''freq_params'', freq_params_t), (''inactivity_timeout'', CU16), (''p2p_go_ctwindow'', CU8),
    (''p2p_opp_ps'', CU8)]"

definition nrf_wifi_umac_cmd_start_ap_t :: ctype where [layouts]:
  "nrf_wifi_umac_cmd_start_ap_t = CStruct [
    (''umac_hdr'', nrf_wifi_umac_hdr_t), (''valid_fields'', CU32), (''info'', nrf_wifi_umac_start_ap_info_t)]"

definition nrf_wifi_umac_cmd_stop_ap_t :: ctype where [layouts]:
  "nrf_wifi_umac_cmd_stop_ap_t = CStruct [
    (''umac_hdr'', nrf_wifi_umac_hdr_t)]"

definition nrf_wifi_umac_set_beacon_info_t :: ctype where [layouts]:
  "nrf_wifi_umac_set_beacon_info_t = CStruct [
    (''beacon_data'', nrf_wifi_beacon_data_t)]"

definition nrf_wifi_umac_cmd_set_beacon_t :: ctype where [layouts]:
  "nrf_wifi_umac_cmd_set_beacon_t = CStruct [
    (''umac_hdr'', nrf_wifi_umac_hdr_t), (''info'', nrf_wifi_umac_set_beacon_info_t)]"

definition nrf_wifi_umac_chg_vif_attr_info_t :: ctype where [layouts]:
  "nrf_wifi_umac_chg_vif_attr_info_t = CStruct [
    (''iftype'', CU32), (''nrf_wifi_use_4addr'', CU32)]"

definition nrf_wifi_umac_cmd_chg_vif_attr_t :: ctype where [layouts]:
  "nrf_wifi_umac_cmd_chg_vif_attr_t = CStruct [
    (''umac_hdr'', nrf_wifi_umac_hdr_t), (''valid_fields'', CU32),
    (''info'', nrf_wifi_umac_chg_vif_attr_info_t)]"

definition nrf_wifi_umac_chg_vif_state_info_t :: ctype where [layouts]:
  "nrf_wifi_umac_chg_vif_state_info_t = CStruct [
    (''state'', CU32), (''if_index'', CU8)]"

definition nrf_wifi_umac_cmd_chg_vif_state_t :: ctype where [layouts]:
  "nrf_wifi_umac_cmd_chg_vif_state_t = CStruct [
    (''umac_hdr'', nrf_wifi_umac_hdr_t), (''info'', nrf_wifi_umac_chg_vif_state_info_t)]"

definition nrf_wifi_umac_event_vif_state_t :: ctype where [layouts]:
  "nrf_wifi_umac_event_vif_state_t = CStruct [
    (''umac_hdr'', nrf_wifi_umac_hdr_t), (''status'', CU32)]"

definition nrf_wifi_cmd_start_p2p_t :: ctype where [layouts]:
  "nrf_wifi_cmd_start_p2p_t = CStruct [
    (''umac_hdr'', nrf_wifi_umac_hdr_t)]"

definition nrf_wifi_umac_cmd_stop_p2p_dev_t :: ctype where [layouts]:
  "nrf_wifi_umac_cmd_stop_p2p_dev_t = CStruct [
    (''umac_hdr'', nrf_wifi_umac_hdr_t)]"

definition nrf_wifi_umac_mgmt_tx_info_t :: ctype where [layouts]:
  "nrf_wifi_umac_mgmt_tx_info_t = CStruct [
    (''nrf_wifi_flags'', CU32), (''frequency'', CU32), (''dur'', CU32), (''frame'', nrf_wifi_frame_t),
    (''freq_params'', freq_params_t), (''host_cookie'', CU64)]"

definition nrf_wifi_umac_cmd_mgmt_tx_t :: ctype where [layouts]:
  "nrf_wifi_umac_cmd_mgmt_tx_t = CStruct [
    (''umac_hdr'', nrf_wifi_umac_hdr_t), (''valid_fields'', CU32), (''info'', nrf_wifi_umac_mgmt_tx_info_t)]"

definition nrf_wifi_umac_set_power_save_info_t :: ctype where [layouts]:
  "nrf_wifi_umac_set_power_save_info_t = CStruct [
    (''ps_state'', CU32)]"

definition nrf_wifi_umac_cmd_set_power_save_t :: ctype where [layouts]:
  "nrf_wifi_umac_cmd_set_power_save_t = CStruct [
    (''umac_hdr'', nrf_wifi_umac_hdr_t), (''info'', nrf_wifi_umac_set_power_save_info_t)]"

definition nrf_wifi_umac_cmd_set_power_save_timeout_t :: ctype where [layouts]:
  "nrf_wifi_umac_cmd_set_power_save_timeout_t = CStruct [
    (''umac_hdr'', nrf_wifi_umac_hdr_t), (''timeout'', CU32)]"

definition nrf_wifi_umac_qos_map_info_t :: ctype where [layouts]:
  "nrf_wifi_umac_qos_map_info_t = CStruct [
    (''qos_map_info_len'', CU32), (''qos_map_info'', CArr 256 CU8)]"

definition nrf_wifi_umac_cmd_set_qos_map_t :: ctype where [layouts]:
  "nrf_wifi_umac_cmd_set_qos_map_t = CStruct [
    (''umac_hdr'', nrf_wifi_umac_hdr_t), (''info'', nrf_wifi_umac_qos_map_info_t)]"

definition nrf_wifi_umac_cmd_get_tx_power_t :: ctype where [layouts]:
  "nrf_wifi_umac_cmd_get_tx_power_t = CStruct [
    (''umac_hdr'', nrf_wifi_umac_hdr_t)]"

definition nrf_wifi_umac_cmd_get_reg_t :: ctype where [layouts]:
  "nrf_wifi_umac_cmd_get_reg_t = CStruct [
    (''umac_hdr'', nrf_wifi_umac_hdr_t)]"

definition nrf_wifi_umac_cmd_get_channel_t :: ctype where [layouts]:
  "nrf_wifi_umac_cmd_get_channel_t = CStruct [
    (''umac_hdr'', nrf_wifi_umac_hdr_t)]"

definition nrf_wifi_umac_config_twt_info_t :: ctype where [layouts]:
  "nrf_wifi_umac_config_twt_info_t = CStruct [
    (''twt_flow_id'', CU8), (''neg_type'', CU8), (''setup_cmd'', CU32), (''ap_trigger_frame'', CU8),
    (''is_implicit'', CU8), (''twt_flow_type'', CU8), (''twt_target_wake_interval_exponent'', CU8),
    (''twt_target_wake_interval_mantissa'', CU16), (''target_wake_time'', CU64),
    (''nominal_min_twt_wake_duration'', CU32), (''dialog_token'', CU8), (''twt_resp_status'', CU8),
    (''twt_wake_ahead_duration'', CU32), (''twt_req_timeout'', CU32)]"

definition nrf_wifi_umac_cmd_config_twt_t :: ctype where [layouts]:
  "nrf_wifi_umac_cmd_config_twt_t = CStruct [
    (''umac_hdr'', nrf_wifi_umac_hdr_t), (''info'', nrf_wifi_umac_config_twt_info_t)]"

definition nrf_wifi_umac_teardown_twt_info_t :: ctype where [layouts]:
  "nrf_wifi_umac_teardown_twt_info_t = CStruct [
    (''twt_flow_id'', CU8), (''reason_code'', CU8)]"

definition nrf_wifi_umac_cmd_teardown_twt_t :: ctype where [layouts]:
  "nrf_wifi_umac_cmd_teardown_twt_t = CStruct [
    (''umac_hdr'', nrf_wifi_umac_hdr_t), (''info'', nrf_wifi_umac_teardown_twt_info_t)]"

definition twt_sleep_info_t :: ctype where [layouts]:
  "twt_sleep_info_t = CStruct [
    (''type'', CU32)]"

definition nrf_wifi_umac_event_twt_sleep_t :: ctype where [layouts]:
  "nrf_wifi_umac_event_twt_sleep_t = CStruct [
    (''umac_hdr'', nrf_wifi_umac_hdr_t), (''info'', twt_sleep_info_t)]"

definition nrf_wifi_umac_uapsd_info_t :: ctype where [layouts]:
  "nrf_wifi_umac_uapsd_info_t = CStruct [
    (''uapsd_queue'', CU32)]"

definition nrf_wifi_umac_cmd_config_uapsd_t :: ctype where [layouts]:
  "nrf_wifi_umac_cmd_config_uapsd_t = CStruct [
    (''umac_hdr'', nrf_wifi_umac_hdr_t), (''info'', nrf_wifi_umac_uapsd_info_t)]"

definition nrf_wifi_umac_event_trigger_scan_t :: ctype where [layouts]:
  "nrf_wifi_umac_event_trigger_scan_t = CStruct [
    (''umac_hdr'', nrf_wifi_umac_hdr_t), (''valid_fields'', CU32), (''nrf_wifi_scan_flags'', CU32),
    (''num_scan_ssid'', CU8), (''num_scan_frequencies'', CU8), (''scan_frequencies'', CArr 64 CU16),
    (''scan_ssid'', CArr 2 nrf_wifi_ssid_t), (''ie'', nrf_wifi_ie_t)]"

definition nrf_wifi_umac_event_new_scan_results_t :: ctype where [layouts]:
  "nrf_wifi_umac_event_new_scan_results_t = CStruct [
    (''umac_hdr'', nrf_wifi_umac_hdr_t), (''valid_fields'', CU32), (''generation'', CU32),
    (''frequency'', CU32), (''chan_width'', CU32), (''seen_ms_ago'', CU32), (''nrf_wifi_flags'', CU32),
    (''status'', CU32), (''ies_tsf'', CU64), (''beacon_ies_tsf'', CU64), (''beacon_interval'', CU16),
    (''capability'', CU16), (''signal'', nrf_wifi_signal_t), (''mac_addr'', CArr 6 CU8), (''ies_len'', CU32),
    (''beacon_ies_len'', CU32), (''ies'', CArr 0 CU8)]"

definition umac_display_results_t :: ctype where [layouts]:
  "umac_display_results_t = CStruct [
    (''ssid'', nrf_wifi_ssid_t), (''mac_addr'', CArr 6 CU8), (''nwk_band'', CU32), (''nwk_channel'', CU32),
    (''protocol_flags'', CU8), (''security_type'', CU32), (''beacon_interval'', CU16), (''capability'', CU16),
    (''signal'', nrf_wifi_signal_t), (''twt_support'', CU8), (''mfp_flag'', CU8), (''reserved3'', CU8),
    (''reserved4'', CU8)]"

definition nrf_wifi_umac_event_new_scan_display_results_t :: ctype where [layouts]:
  "nrf_wifi_umac_event_new_scan_display_results_t = CStruct [
    (''umac_hdr'', nrf_wifi_umac_hdr_t), (''event_bss_count'', CU8),
    (''display_results'', CArr 8 umac_display_results_t)]"

definition nrf_wifi_umac_event_mlme_t :: ctype where [layouts]:
  "nrf_wifi_umac_event_mlme_t = CStruct [
    (''umac_hdr'', nrf_wifi_umac_hdr_t), (''valid_fields'', CU32), (''frequency'', CU32),
    (''rx_signal_dbm'', CU32), (''nrf_wifi_flags'', CU32), (''cookie'', CU64), (''frame'', nrf_wifi_frame_t),
    (''mac_addr'', CArr 6 CU8), (''wme_uapsd_queues'', CU8), (''req_ie_len'', CU32), (''req_ie'', CArr 0 CU8)]"

definition nrf_wifi_umac_event_new_station_t :: ctype where [layouts]:
  "nrf_wifi_umac_event_new_station_t = CStruct [
    (''umac_hdr'', nrf_wifi_umac_hdr_t), (''valid_fields'', CU32), (''wme'', CU8), (''is_sta_legacy'', CU8),
    (''mac_addr'', CArr 6 CU8), (''generation'', CU32), (''sta_info'', nrf_wifi_sta_info_t),
    (''assoc_req_ies'', nrf_wifi_ie_t)]"

definition nrf_wifi_umac_event_cookie_rsp_t :: ctype where [layouts]:
  "nrf_wifi_umac_event_cookie_rsp_t = CStruct [
    (''umac_hdr'', nrf_wifi_umac_hdr_t), (''valid_fields'', CU32), (''host_cookie'', CU64),
    (''cookie'', CU64), (''mac_addr'', CArr 6 CU8)]"

definition nrf_wifi_umac_event_get_tx_power_t :: ctype where [layouts]:
  "nrf_wifi_umac_event_get_tx_power_t = CStruct [
    (''umac_hdr'', nrf_wifi_umac_hdr_t), (''txpwr_level'', CU32)]"

definition nrf_wifi_umac_event_set_interface_t :: ctype where [layouts]:
  "nrf_wifi_umac_event_set_interface_t = CStruct [
    (''umac_hdr'', nrf_wifi_umac_hdr_t), (''return_value'', CU32)]"

definition nrf_wifi_chan_definition_t :: ctype where [layouts]:
  "nrf_wifi_chan_definition_t = CStruct [
    (''chan'', nrf_wifi_channel_t), (''width'', CU32), (''center_frequency1'', CU32),
    (''center_frequency2'', CU32)]"

definition nrf_wifi_umac_event_get_channel_t :: ctype where [layouts]:
  "nrf_wifi_umac_event_get_channel_t = CStruct [
    (''umac_hdr'', nrf_wifi_umac_hdr_t), (''chan_def'', nrf_wifi_chan_definition_t)]"

definition nrf_wifi_umac_cmd_conn_info_t :: ctype where [layouts]:
  "nrf_wifi_umac_cmd_conn_info_t = CStruct [
    (''umac_hdr'', nrf_wifi_umac_hdr_t)]"

definition nrf_wifi_umac_event_conn_info_t :: ctype where [layouts]:
  "nrf_wifi_umac_event_conn_info_t = CStruct [
    (''umac_hdr'', nrf_wifi_umac_hdr_t), (''beacon_interval'', CU16), (''dtim_interval'', CU8),
    (''associated'', CU8), (''twt_capable'', CU8), (''linkmode'', CU8)]"

definition nrf_wifi_umac_cmd_get_power_save_info_t :: ctype where [layouts]:
  "nrf_wifi_umac_cmd_get_power_save_info_t = CStruct [
    (''umac_hdr'', nrf_wifi_umac_hdr_t)]"

definition nrf_wifi_umac_cmd_set_listen_interval_t :: ctype where [layouts]:
  "nrf_wifi_umac_cmd_set_listen_interval_t = CStruct [
    (''umac_hdr'', nrf_wifi_umac_hdr_t), (''listen_interval'', CU16)]"

definition nrf_wifi_umac_cmd_config_extended_ps_t :: ctype where [layouts]:
  "nrf_wifi_umac_cmd_config_extended_ps_t = CStruct [
    (''umac_hdr'', nrf_wifi_umac_hdr_t), (''enable_extended_ps'', CU8)]"

definition nrf_wifi_umac_event_power_save_info_t :: ctype where [layouts]:
  "nrf_wifi_umac_event_power_save_info_t = CStruct [
    (''umac_hdr'', nrf_wifi_umac_hdr_t), (''ps_mode'', CU8), (''enabled'', CU8), (''extended_ps'', CU8),
    (''twt_responder'', CU8), (''ps_timeout'', CU32), (''listen_interval'', CU16),
    (''ps_exit_strategy'', CU8), (''num_twt_flows'', CU8),
    (''twt_flow_info'', CArr 0 nrf_wifi_umac_config_twt_info_t)]"

definition remain_on_channel_info_t :: ctype where [layouts]:
  "remain_on_channel_info_t = CStruct [
    (''dur'', CU32), (''nrf_wifi_freq_params'', freq_params_t), (''host_cookie'', CU64), (''cookie'', CU64)]"

definition nrf_wifi_umac_cmd_remain_on_channel_t :: ctype where [layouts]:
  "nrf_wifi_umac_cmd_remain_on_channel_t = CStruct [
    (''umac_hdr'', nrf_wifi_umac_hdr_t), (''valid_fields'', CU32), (''info'', remain_on_channel_info_t)]"

definition nrf_wifi_umac_cmd_cancel_remain_on_channel_t :: ctype where [layouts]:
  "nrf_wifi_umac_cmd_cancel_remain_on_channel_t = CStruct [
    (''umac_hdr'', nrf_wifi_umac_hdr_t), (''valid_fields'', CU32), (''cookie'', CU64)]"

definition nrf_wifi_event_remain_on_channel_t :: ctype where [layouts]:
  "nrf_wifi_event_remain_on_channel_t = CStruct [
    (''umac_hdr'', nrf_wifi_umac_hdr_t), (''valid_fields'', CU32), (''frequency'', CU32), (''dur'', CU32),
    (''ch_type'', CU32), (''cookie'', CU64)]"

definition nrf_wifi_cmd_get_interface_t :: ctype where [layouts]:
  "nrf_wifi_cmd_get_interface_t = CStruct [
    (''umac_hdr'', nrf_wifi_umac_hdr_t)]"

definition nrf_wifi_interface_info_t :: ctype where [layouts]:
  "nrf_wifi_interface_info_t = CStruct [
    (''umac_hdr'', nrf_wifi_umac_hdr_t), (''valid_fields'', CU32), (''nrf_wifi_iftype'', CU32),
    (''ifacename'', CArr 16 CU8), (''nrf_wifi_eth_addr'', CArr 6 CU8),
    (''chan_def'', nrf_wifi_chan_definition_t), (''ssid'', nrf_wifi_ssid_t)]"

definition nrf_wifi_event_mcs_info_t :: ctype where [layouts]:
  "nrf_wifi_event_mcs_info_t = CStruct [
    (''nrf_wifi_rx_highest'', CU16), (''nrf_wifi_rx_mask'', CArr 10 CU8), (''nrf_wifi_tx_params'', CU8),
    (''nrf_wifi_reserved'', CArr 3 CU8)]"

definition nrf_wifi_event_sta_ht_cap_t :: ctype where [layouts]:
  "nrf_wifi_event_sta_ht_cap_t = CStruct [
    (''nrf_wifi_ht_supported'', CU32), (''nrf_wifi_cap'', CU16), (''mcs'', nrf_wifi_event_mcs_info_t),
    (''nrf_wifi_ampdu_factor'', CU8), (''nrf_wifi_ampdu_density'', CU8)]"

definition nrf_wifi_event_channel_t :: ctype where [layouts]:
  "nrf_wifi_event_channel_t = CStruct [
    (''nrf_wifi_flags'', CU16), (''nrf_wifi_max_power'', CU32), (''nrf_wifi_time'', CU32),
    (''dfs_cac_msec'', CU32), (''ch_valid'', CU8), (''center_frequency'', CU16), (''dfs_state'', CU8)]"

definition nrf_wifi_event_rate_t :: ctype where [layouts]:
  "nrf_wifi_event_rate_t = CStruct [
    (''nrf_wifi_flags'', CU16), (''nrf_wifi_bitrate'', CU16)]"

definition nrf_wifi_event_vht_mcs_info_t :: ctype where [layouts]:
  "nrf_wifi_event_vht_mcs_info_t = CStruct [
    (''rx_mcs_map'', CU16), (''rx_highest'', CU16), (''tx_mcs_map'', CU16), (''tx_highest'', CU16)]"

definition nrf_wifi_event_sta_vht_cap_t :: ctype where [layouts]:
  "nrf_wifi_event_sta_vht_cap_t = CStruct [
    (''nrf_wifi_vht_supported'', CU8), (''nrf_wifi_cap'', CU32), (''vht_mcs'', nrf_wifi_event_vht_mcs_info_t)]"

definition nrf_wifi_event_supported_band_t :: ctype where [layouts]:
  "nrf_wifi_event_supported_band_t = CStruct [
    (''nrf_wifi_n_channels'', CU16), (''nrf_wifi_n_bitrates'', CU16),
    (''channels'', CArr 29 nrf_wifi_event_channel_t), (''bitrates'', CArr 13 nrf_wifi_event_rate_t),
    (''ht_cap'', nrf_wifi_event_sta_ht_cap_t), (''vht_cap'', nrf_wifi_event_sta_vht_cap_t), (''band'', CU8)]"

definition nrf_wifi_event_iface_limit_t :: ctype where [layouts]:
  "nrf_wifi_event_iface_limit_t = CStruct [
    (''nrf_wifi_max'', CU16), (''nrf_wifi_types'', CU16)]"

definition nrf_wifi_event_iface_combination_t :: ctype where [layouts]:
  "nrf_wifi_event_iface_combination_t = CStruct [
    (''nrf_wifi_num_different_channels'', CU32), (''beacon_int_infra_match'', CU32),
    (''limits'', CArr 2 nrf_wifi_event_iface_limit_t), (''nrf_wifi_max_interfaces'', CU16),
    (''nrf_wifi_radar_detect_widths'', CU8), (''nrf_wifi_n_limits'', CU8),
    (''nrf_wifi_radar_detect_regions'', CU8), (''comb_valid'', CU8)]"

definition nrf_wifi_event_get_wiphy_t :: ctype where [layouts]:
  "nrf_wifi_event_get_wiphy_t = CStruct [
    (''umac_hdr'', nrf_wifi_umac_hdr_t), (''nrf_wifi_frag_threshold'', CU32),
    (''nrf_wifi_rts_threshold'', CU32), (''nrf_wifi_available_antennas_tx'', CU32),
    (''nrf_wifi_available_antennas_rx'', CU32), (''nrf_wifi_probe_resp_offload'', CU32), (''tx_ant'', CU32),
    (''rx_ant'', CU32), (''split_start2_flags'', CU32), (''max_remain_on_channel_duration'', CU32),
    (''ap_sme_capa'', CU32), (''features'', CU32), (''max_acl_mac_addresses'', CU32),
    (''max_ap_assoc_sta'', CU32), (''cipher_suites'', CArr 30 CU32), (''get_wiphy_flags'', CU32),
    (''params_valid'', CU32), (''max_scan_ie_len'', CU16), (''max_sched_scan_ie_len'', CU16),
    (''interface_modes'', CU16), (''iface_com'', CArr 6 nrf_wifi_event_iface_combination_t),
    (''supp_commands'', CArr 40 CU8), (''retry_short'', CU8), (''retry_long'', CU8),
    (''coverage_class'', CU8), (''max_scan_ssids'', CU8), (''max_sched_scan_ssids'', CU8),
    (''max_match_sets'', CU8), (''n_cipher_suites'', CU8), (''max_num_pmkids'', CU8),
    (''extended_capabilities_len'', CU8), (''extended_capabilities'', CArr 10 CU8),
    (''extended_capabilities_mask'', CArr 10 CU8), (''ext_features'', CArr 8 CU8),
    (''ext_features_len'', CU8), (''num_iface_com'', CU8), (''wiphy_name'', CArr 32 CU8),
    (''sband'', CArr 2 nrf_wifi_event_supported_band_t)]"

definition nrf_wifi_cmd_get_wiphy_t :: ctype where [layouts]:
  "nrf_wifi_cmd_get_wiphy_t = CStruct [
    (''umac_hdr'', nrf_wifi_umac_hdr_t)]"

definition nrf_wifi_cmd_get_ifhwaddr_t :: ctype where [layouts]:
  "nrf_wifi_cmd_get_ifhwaddr_t = CStruct [
    (''umac_hdr'', nrf_wifi_umac_hdr_t), (''ifacename'', CArr 16 CU8)]"

definition nrf_wifi_cmd_set_ifhwaddr_t :: ctype where [layouts]:
  "nrf_wifi_cmd_set_ifhwaddr_t = CStruct [
    (''umac_hdr'', nrf_wifi_umac_hdr_t), (''ifacename'', CArr 16 CU8), (''nrf_wifi_hwaddr'', CArr 6 CU8)]"

definition nrf_wifi_reg_rules_t :: ctype where [layouts]:
  "nrf_wifi_reg_rules_t = CStruct [
    (''valid_fields'', CU32), (''rule_flags'', CU32), (''freq_range_start'', CU32),
    (''freq_range_end'', CU32), (''freq_range_max_bw'', CU32), (''pwr_max_eirp'', CU32)]"

definition nrf_wifi_get_reg_chn_info_t :: ctype where [layouts]:
  "nrf_wifi_get_reg_chn_info_t = CStruct [
    (''center_frequency'', CU32), (''max_power'', CU32), (''supported'', CU8), (''passive_channel'', CU8),
    (''dfs'', CU8)]"

definition nrf_wifi_reg_t :: ctype where [layouts]:
  "nrf_wifi_reg_t = CStruct [
    (''umac_hdr'', nrf_wifi_umac_hdr_t), (''nrf_wifi_alpha2'', CArr 2 CU8), (''num_channels'', CU32),
    (''chn_info'', CArr 0 nrf_wifi_get_reg_chn_info_t)]"

definition nrf_wifi_cmd_req_set_reg_t :: ctype where [layouts]:
  "nrf_wifi_cmd_req_set_reg_t = CStruct [
    (''umac_hdr'', nrf_wifi_umac_hdr_t), (''valid_fields'', CU32), (''nrf_wifi_user_reg_hint_type'', CU32),
    (''nrf_wifi_alpha2'', CArr 2 CU8)]"

definition nrf_wifi_event_regulatory_change_t :: ctype where [layouts]:
  "nrf_wifi_event_regulatory_change_t = CStruct [
    (''umac_hdr'', nrf_wifi_umac_hdr_t), (''nrf_wifi_flags'', CU16), (''intr'', CU32),
    (''regulatory_type'', CU8), (''nrf_wifi_alpha2'', CArr 2 CU8)]"

definition nrf_wifi_umac_event_cmd_status_t :: ctype where [layouts]:
  "nrf_wifi_umac_event_cmd_status_t = CStruct [
    (''umac_hdr'', nrf_wifi_umac_hdr_t), (''cmd_id'', CU32), (''cmd_status'', CU32)]"

definition nrf_wifi_umac_cmd_config_quiet_period_t :: ctype where [layouts]:
  "nrf_wifi_umac_cmd_config_quiet_period_t = CStruct [
    (''umac_hdr'', nrf_wifi_umac_hdr_t), (''quiet_period_in_sec'', CU32)]"

definition nrf_wifi_cmd_ps_exit_strategy_t :: ctype where [layouts]:
  "nrf_wifi_cmd_ps_exit_strategy_t = CStruct [
    (''umac_hdr'', nrf_wifi_umac_hdr_t), (''ps_exit_strategy'', CU8)]"

end
