(* ===== verification/Fmac_Dev.thy ===== *)
theory Fmac_Dev
  imports Fmac_Event Util
begin

text \<open>The device of the FMAC (\<open>fw_if/umac_if/src/system/fmac_api.c\<close>, \<open>fmac_cmd.c\<close> and
  \<open>hw_if/hal/inc/common/phy_rf_params_common.h\<close>): the RF parameters, the INIT command, bringing a device
  up and taking it down. What the build sets by macros is an argument of the definitions.\<close>

section \<open>RF parameters\<close>

record nrf_wifi_tx_pwr_ceil =
  max_dsss_pwr :: u8
  max_lb_mcs7_pwr :: u8
  max_lb_mcs0_pwr :: u8
  max_hb_low_chan_mcs7_pwr :: u8
  max_hb_mid_chan_mcs7_pwr :: u8
  max_hb_high_chan_mcs7_pwr :: u8
  max_hb_low_chan_mcs0_pwr :: u8
  max_hb_mid_chan_mcs0_pwr :: u8
  max_hb_high_chan_mcs0_pwr :: u8

record nrf_wifi_phy_rf_params =
  rf_reserved :: "u8 list"
  rf_xo_offset :: u8
  rf_pd_adjust_val :: "u8 list"
  rf_syst_tx_pwr_offset :: "u8 list"
  rf_max_pwr_ceil :: nrf_wifi_tx_pwr_ceil
  rf_rx_gain_offset :: "u8 list"
  rf_temp_volt_backoff :: "u8 list"
  rf_phy_params :: "u8 list"

record nrf_wifi_tx_pwr_ceil_params =
  max_pwr_2g_dsss :: u8
  max_pwr_2g_mcs0 :: u8
  max_pwr_2g_mcs7 :: u8
  max_pwr_5g_low_mcs0 :: u8
  max_pwr_5g_low_mcs7 :: u8
  max_pwr_5g_mid_mcs0 :: u8
  max_pwr_5g_mid_mcs7 :: u8
  max_pwr_5g_high_mcs0 :: u8
  max_pwr_5g_high_mcs7 :: u8

definition tx_pwr_ceil_bytes :: "nrf_wifi_tx_pwr_ceil \<Rightarrow> u8 list" where
  "tx_pwr_ceil_bytes c = [max_dsss_pwr c, max_lb_mcs7_pwr c, max_lb_mcs0_pwr c,
     max_hb_low_chan_mcs7_pwr c, max_hb_mid_chan_mcs7_pwr c, max_hb_high_chan_mcs7_pwr c,
     max_hb_low_chan_mcs0_pwr c, max_hb_mid_chan_mcs0_pwr c, max_hb_high_chan_mcs0_pwr c]"

definition rf_params_bytes :: "nrf_wifi_phy_rf_params \<Rightarrow> u8 list" where
  "rf_params_bytes p = rf_reserved p @ [rf_xo_offset p] @ rf_pd_adjust_val p @ rf_syst_tx_pwr_offset p
     @ tx_pwr_ceil_bytes (rf_max_pwr_ceil p) @ rf_rx_gain_offset p @ rf_temp_volt_backoff p @ rf_phy_params p"

definition rf_params_wf :: "nrf_wifi_phy_rf_params \<Rightarrow> bool" where
  "rf_params_wf p = (length (rf_reserved p) = 6 \<and> length (rf_pd_adjust_val p) = 4
     \<and> length (rf_syst_tx_pwr_offset p) = 4 \<and> length (rf_rx_gain_offset p) = 4
     \<and> length (rf_temp_volt_backoff p) = 14 \<and> length (rf_phy_params p) = 158)"

text \<open>The constants of the two packages.\<close>

abbreviation (input) CSP_PACKAGE_INFO :: u32 where "CSP_PACKAGE_INFO \<equiv> 0x4345"

definition package_ceil :: "u32 \<Rightarrow> nrf_wifi_tx_pwr_ceil" where
  "package_ceil package_info =
    (if package_info = CSP_PACKAGE_INFO
     then \<lparr>max_dsss_pwr = 0x44, max_lb_mcs7_pwr = 0x3C, max_lb_mcs0_pwr = 0x3C,
       max_hb_low_chan_mcs7_pwr = 0x34, max_hb_mid_chan_mcs7_pwr = 0x34, max_hb_high_chan_mcs7_pwr = 0x34,
       max_hb_low_chan_mcs0_pwr = 0x34, max_hb_mid_chan_mcs0_pwr = 0x34, max_hb_high_chan_mcs0_pwr = 0x34\<rparr>
     else \<lparr>max_dsss_pwr = 0x54, max_lb_mcs7_pwr = 0x40, max_lb_mcs0_pwr = 0x40,
       max_hb_low_chan_mcs7_pwr = 0x34, max_hb_mid_chan_mcs7_pwr = 0x34, max_hb_high_chan_mcs7_pwr = 0x30,
       max_hb_low_chan_mcs0_pwr = 0x38, max_hb_mid_chan_mcs0_pwr = 0x34, max_hb_high_chan_mcs0_pwr = 0x30\<rparr>)"

definition package_syst_off :: "u32 \<Rightarrow> u8 list" where
  "package_syst_off package_info = (if package_info = CSP_PACKAGE_INFO then [0x45, 5, 5, 5] else [0x33, 3, 3, 3])"

definition package_temp_volt :: "u32 \<Rightarrow> u8 list" where
  "package_temp_volt package_info =
    (if package_info = CSP_PACKAGE_INFO then [0x43, 0x07, 0xEC, 0x00, 0xFC, 0xF4, 0xFC, 0xEC, 0x00, 0xF8]
     else [0x43, 0x07, 0xFC, 0x00, 0xF8, 0xFC, 0xFC, 0xF8, 0x00, 0xFC])"

text \<open>Setting up the parameters in the memory \<open>prf\<close>: the first \<open>mem_set\<close> clears as many bytes as a
  pointer has. \<open>board\<close> are the 34 bytes of the build: band edge backoffs, antenna gains and PCB
  losses.\<close>

definition nrf_wifi_sys_fmac_phy_rf_params_init ::
    "u8 list \<Rightarrow> nrf_wifi_phy_rf_params \<Rightarrow> u32 \<Rightarrow> u8 list \<Rightarrow> int \<times> nrf_wifi_phy_rf_params" where
  "nrf_wifi_sys_fmac_phy_rf_params_init board prf package_info str =
    (let (ret, arr) = nrf_wifi_utils_hex_str_to_val (rf_phy_params prf) 158 str in
     (ret, prf\<lparr>rf_reserved := replicate 4 0 @ drop 4 (rf_reserved prf), rf_xo_offset := 0x2A,
        rf_pd_adjust_val := [0, 0, 0, 0], rf_syst_tx_pwr_offset := package_syst_off package_info,
        rf_max_pwr_ceil := package_ceil package_info, rf_rx_gain_offset := [0, 0, 0, 0],
        rf_temp_volt_backoff := package_temp_volt package_info @ drop 10 (rf_temp_volt_backoff prf),
        rf_phy_params := take 113 arr @ board @ drop 147 arr\<rparr>))"

definition NRF_WIFI_SYS_DEF_RF_PARAMS :: "u8 list" where
  "NRF_WIFI_SYS_DEF_RF_PARAMS = map of_char
    (''007077003F032424001000002800323500000CF008087D8105010071630300EED501001F6F00003B350100F52E'' @
     ''0000E35E0000B7B6000066EFFEFFB5F60000896200007A840200E28FFCFF080808080408120100000000A1A101'' @
     ''78000000080050003B020726181818181A120A140E0600'')"

text \<open>The backoffs by the version of the factory test program, all of them 0.\<close>

definition ft_backoffs :: "u32 \<Rightarrow> u8 \<times> u8 \<times> u8 \<times> u8 \<times> u8" where
  "ft_backoffs ft_prog_ver =
    (if ft_prog_ver = 1 then (0, 0, 0, 0, 0) else if ft_prog_ver = 2 then (0, 0, 0, 0, 0)
     else if ft_prog_ver = 3 then (0, 0, 0, 0, 0) else (0, 0, 0, 0, 0))"

text \<open>The smaller of an unsigned and of a signed character, less the backoff, as a signed
  character.\<close>

definition pwr_limit :: "u8 \<Rightarrow> u8 \<Rightarrow> u8 \<Rightarrow> u8" where
  "pwr_limit board pkg backoff = word_of_int (min (uint board) (sint pkg) - uint backoff)"

definition ceil_limit :: "nrf_wifi_tx_pwr_ceil_params \<Rightarrow> u8 \<times> u8 \<times> u8 \<times> u8 \<times> u8 \<Rightarrow> nrf_wifi_tx_pwr_ceil \<Rightarrow> nrf_wifi_tx_pwr_ceil" where
  "ceil_limit t bk c = (case bk of (dsss, ofdm, low, mid, high) \<Rightarrow>
     \<lparr>max_dsss_pwr = pwr_limit (max_pwr_2g_dsss t) (max_dsss_pwr c) dsss,
      max_lb_mcs7_pwr = pwr_limit (max_pwr_2g_mcs7 t) (max_lb_mcs7_pwr c) ofdm,
      max_lb_mcs0_pwr = pwr_limit (max_pwr_2g_mcs0 t) (max_lb_mcs0_pwr c) ofdm,
      max_hb_low_chan_mcs7_pwr = pwr_limit (max_pwr_5g_low_mcs7 t) (max_hb_low_chan_mcs7_pwr c) low,
      max_hb_mid_chan_mcs7_pwr = pwr_limit (max_pwr_5g_mid_mcs7 t) (max_hb_mid_chan_mcs7_pwr c) mid,
      max_hb_high_chan_mcs7_pwr = pwr_limit (max_pwr_5g_high_mcs7 t) (max_hb_high_chan_mcs7_pwr c) high,
      max_hb_low_chan_mcs0_pwr = pwr_limit (max_pwr_5g_low_mcs0 t) (max_hb_low_chan_mcs0_pwr c) low,
      max_hb_mid_chan_mcs0_pwr = pwr_limit (max_pwr_5g_mid_mcs0 t) (max_hb_mid_chan_mcs0_pwr c) mid,
      max_hb_high_chan_mcs0_pwr = pwr_limit (max_pwr_5g_high_mcs0 t) (max_hb_high_chan_mcs0_pwr c) high\<rparr>)"

text \<open>The calibrated crystal offset, byte 148 of the OTP information, when its flag is cleared.\<close>

definition xo_calibrated :: "u8 list \<Rightarrow> u32 \<Rightarrow> nrf_wifi_phy_rf_params \<Rightarrow> nrf_wifi_phy_rf_params" where
  "xo_calibrated info flags prf = (if flags AND 8 = 0 then prf\<lparr>rf_xo_offset := info ! 148\<rparr> else prf)"

definition nrf_wifi_sys_fmac_rf_params_get ::
    "os \<Rightarrow> u8 list \<Rightarrow> nrf_wifi_tx_pwr_ceil_params \<Rightarrow> nrf_wifi_phy_rf_params \<Rightarrow> fmac \<Rightarrow>
     (nrf_status \<times> nrf_wifi_phy_rf_params \<times> fmac) option" where
  "nrf_wifi_sys_fmac_rf_params_get os board ceil prf s =
    (if op_mode s \<noteq> NRF_WIFI_OP_MODE_SYS then Some (FAIL, prf, s)
     else do {
       (st, info, flags, h) \<leftarrow> nrf_wifi_hal_otp_info_get os (hal_dev_ctx s);
       let s = s\<lparr>hal_dev_ctx := h\<rparr>;
       if st \<noteq> SUCCESS then Some (st, prf, s)
       else do {
         (st, ver, h) \<leftarrow> nrf_wifi_hal_otp_ft_prog_ver_get os (hal_dev_ctx s);
         let s = s\<lparr>hal_dev_ctx := h\<rparr>;
         if st \<noteq> SUCCESS then Some (st, prf, s)
         else do {
           (st, pack, h) \<leftarrow> nrf_wifi_hal_otp_pack_info_get os (hal_dev_ctx s);
           let s = s\<lparr>hal_dev_ctx := h\<rparr>;
           if st \<noteq> SUCCESS then Some (st, prf, s)
           else let (ret, prf) = nrf_wifi_sys_fmac_phy_rf_params_init board prf (the_default 0xFFFFFFFF pack)
                      NRF_WIFI_SYS_DEF_RF_PARAMS in
             if ret = -1 then Some (FAIL, prf, s)
             else do {
               v \<leftarrow> ver;
               let prf = xo_calibrated info (the_default 0xFFFFFFFF flags) prf;
               Some (SUCCESS, prf\<lparr>rf_max_pwr_ceil :=
                 ceil_limit ceil (ft_backoffs (drop_bit 16 (v AND 0xF0000))) (rf_max_pwr_ceil prf)\<rparr>, s)
             }
         }
       }
     })"

section \<open>The INIT command\<close>

record nrf_wifi_data_config_params =
  dc_rate_protection_type :: u8
  dc_aggregation :: u8
  dc_wmm :: u8
  dc_max_num_tx_agg_sessions :: u8
  dc_max_num_rx_agg_sessions :: u8
  dc_max_tx_aggregation :: u8
  dc_reorder_buf_size :: u8
  dc_max_rxampdu_size :: u32

definition data_config_bytes :: "nrf_wifi_data_config_params \<Rightarrow> u8 list" where
  "data_config_bytes d = [dc_rate_protection_type d, dc_aggregation d, dc_wmm d, dc_max_num_tx_agg_sessions d,
     dc_max_num_rx_agg_sessions d, dc_max_tx_aggregation d, dc_reorder_buf_size d] @ le32_bytes (dc_max_rxampdu_size d)"

definition pool_params_bytes :: "rx_buf_pool_params \<Rightarrow> u8 list" where
  "pool_params_bytes p = le16_bytes (buf_sz p) @ le16_bytes (num_bufs p)"

text \<open>The antenna gains and the band edge backoffs of the caller, 4 and 26 bytes, and the PCB losses
  of the board, 4 bytes.\<close>

record nrf_wifi_tx_pwr_ctrl_params =
  tc_ant_gain :: "u8 list"
  tc_band_edge :: "u8 list"

text \<open>What the build sets in the command.\<close>

record sys_init_build =
  sb_sleep_type :: u32
  sb_checksum_offload :: u8
  sb_mgmt_buff_offload :: u8
  sb_feature_flags :: u32
  sb_discon_timeout :: u32
  sb_ps_exit_strategy :: u8
  sb_watchdog_timer_val :: u32
  sb_keep_alive_enable :: u8
  sb_keep_alive_period :: u32
  sb_display_scan_bss_limit :: u32
  sb_coex_disable_ptiwin :: u32
  sb_raw_scan_enable :: u8
  sb_max_ps_poll_fail_cnt :: u32
  sb_stbc_enable_in_ht :: u32
  sb_dbs_war_ctrl :: u32
  sb_dynamic_ed :: u32
  sb_bt_slot_time :: u32
  sb_bt_coex_disable :: u32

text \<open>The 200 bytes of RF parameters, over which the values of the caller and of the board are
  written.\<close>

definition sys_init_rf :: "u8 list \<Rightarrow> nrf_wifi_tx_pwr_ctrl_params \<Rightarrow> u8 list \<Rightarrow> u8 list" where
  "sys_init_rf rf ctrl board = take 155 rf @ tc_band_edge ctrl @ tc_ant_gain ctrl @ board @ drop 189 rf"

definition sys_params_bytes :: "sys_init_build \<Rightarrow> u32 \<Rightarrow> bool \<Rightarrow> u8 list \<Rightarrow> u8 list" where
  "sys_params_bytes b phy_calib valid rf = le32_bytes (sb_sleep_type b) @ le32_bytes 7300 @ le32_bytes 5000
     @ le32_bytes 20000 @ le32_bytes 1 @ le32_bytes phy_calib @ replicate 6 0 @ rf @ [of_bool valid]"

definition temp_vbat_bytes :: "u8 list" where
  "temp_vbat_bytes = le32_bytes 1 @ le32_bytes 0x7B @ le32_bytes 32 @ le32_bytes (1024 * 1024)
     @ le32_bytes 8 @ le32_bytes 12 @ le32_bytes 14 @ le32_bytes 40 @ le32_bytes 0"

definition sys_init_body :: "sys_init_build \<Rightarrow> u8 list option \<Rightarrow> nrf_wifi_data_config_params \<Rightarrow> rx_buf_pool_params list \<Rightarrow>
    u32 \<Rightarrow> u32 \<Rightarrow> bool \<Rightarrow> nrf_wifi_tx_pwr_ctrl_params \<Rightarrow> u8 list \<Rightarrow> u8 list \<Rightarrow> u8 list" where
  "sys_init_body b rf_params config pools phy_calib op_band beamforming ctrl board country_code =
     sys_head 0 365 @ le32_bytes 0
     @ sys_params_bytes b phy_calib (rf_params \<noteq> None)
         (sys_init_rf (the_default (replicate 200 0) rf_params) ctrl board)
     @ concat (map pool_params_bytes pools) @ data_config_bytes config @ temp_vbat_bytes
     @ [sb_checksum_offload b] @ country_code @ le32_bytes op_band @ [sb_mgmt_buff_offload b]
     @ le32_bytes (sb_feature_flags b) @ le32_bytes (if beamforming then 0 else 1) @ le32_bytes (sb_discon_timeout b)
     @ [sb_ps_exit_strategy b] @ le32_bytes (sb_watchdog_timer_val b) @ [sb_keep_alive_enable b]
     @ le32_bytes (sb_keep_alive_period b) @ le32_bytes (sb_display_scan_bss_limit b)
     @ le32_bytes (sb_coex_disable_ptiwin b) @ [sb_raw_scan_enable b] @ le32_bytes (sb_max_ps_poll_fail_cnt b)
     @ le32_bytes (sb_stbc_enable_in_ht b) @ le32_bytes (sb_dbs_war_ctrl b) @ le32_bytes (sb_dynamic_ed b)
     @ le32_bytes (sb_bt_slot_time b) @ le32_bytes (sb_bt_coex_disable b)"

definition umac_cmd_sys_init :: "os \<Rightarrow> sys_init_build \<Rightarrow> u8 list option \<Rightarrow> nrf_wifi_data_config_params \<Rightarrow>
    u32 \<Rightarrow> u32 \<Rightarrow> bool \<Rightarrow> nrf_wifi_tx_pwr_ctrl_params \<Rightarrow> u8 list \<Rightarrow> u8 list \<Rightarrow> fmac \<Rightarrow> (nrf_status \<times> fmac) option" where
  "umac_cmd_sys_init os b rf_params config phy_calib op_band beamforming ctrl board country_code s =
    cmd_send os NRF_WIFI_HOST_RPU_MSG_TYPE_SYSTEM
      (sys_init_body b rf_params config (rx_buf_pools s) phy_calib op_band beamforming ctrl board country_code) s"

lemma sys_init_size:
  assumes "\<forall>rf. rf_params = Some rf \<longrightarrow> length rf = 200" "length (tc_ant_gain ctrl) = 4" "length (tc_band_edge ctrl) = 26"
    "length board = 4" "length country_code = 2" "length pools = MAX_NUM_OF_RX_QUEUES"
  shows "length (sys_init_body b rf_params config pools phy_calib op_band beamforming ctrl board country_code) = 365"
proof -
  have "length (concat (map pool_params_bytes pools)) = 4 * length pools"
    by (induction pools) (simp_all add: pool_params_bytes_def)
  then show ?thesis
    using assms by (cases rf_params) (simp_all add: sys_init_body_def sys_params_bytes_def sys_init_rf_def sys_head_def
      data_config_bytes_def temp_vbat_bytes_def)
qed

section \<open>Transmit and receive tables\<close>

definition nrf_wifi_sys_fmac_init_tx :: "os \<Rightarrow> (nat \<Rightarrow> nat) \<Rightarrow> fmac \<Rightarrow> (nrf_status \<times> fmac) option" where
  "nrf_wifi_sys_fmac_init_tx os usable s =
    (let (ok, s) = falloc os OBJ_FMAC_TX_INFO s in
     if \<not> ok then Some (FAIL, s\<lparr>fmac_tx_info := None\<rparr>)
     else tx_init os usable (s\<lparr>fmac_tx_info :=
       Some (replicate (unat (num_tx_tokens s) * unat (max_tx_aggregation s)) fmac_unmapped)\<rparr>))"

definition nrf_wifi_sys_fmac_deinit_tx :: "fmac \<Rightarrow> fmac option" where
  "nrf_wifi_sys_fmac_deinit_tx s = do {
     s \<leftarrow> tx_deinit s;
     Some (femit (IoFree OBJ_FMAC_TX_INFO) s)
   }"

text \<open>The loop over the descriptors, from one on, until a command fails.\<close>

fun rx_cmd_loop :: "os \<Rightarrow> rx_cmd_type \<Rightarrow> nat list \<Rightarrow> nrf_status \<Rightarrow> fmac \<Rightarrow> (nrf_status \<times> fmac) option" where
  "rx_cmd_loop os ty [] st s = Some (st, s)"
| "rx_cmd_loop os ty (d # ds) st s = do {
     (st, s) \<leftarrow> nrf_wifi_fmac_rx_cmd_send os ty (of_nat d) s;
     if st \<noteq> SUCCESS then Some (st, s) else rx_cmd_loop os ty ds st s
   }"

definition nrf_wifi_sys_fmac_init_rx :: "os \<Rightarrow> fmac \<Rightarrow> (nrf_status \<times> fmac) option" where
  "nrf_wifi_sys_fmac_init_rx os s =
    (let (ok, s) = falloc os OBJ_FMAC_RX_INFO s; n = unat (num_rx_bufs s) in
     if \<not> ok then Some (FAIL, s\<lparr>fmac_rx_info := None\<rparr>)
     else rx_cmd_loop os NRF_WIFI_FMAC_RX_CMD_TYPE_INIT [0..<n] FAIL
       (s\<lparr>fmac_rx_info := Some (replicate n fmac_unmapped)\<rparr>))"

definition nrf_wifi_sys_fmac_deinit_rx :: "os \<Rightarrow> fmac \<Rightarrow> (nrf_status \<times> fmac) option" where
  "nrf_wifi_sys_fmac_deinit_rx os s = do {
     (st, s) \<leftarrow> rx_cmd_loop os NRF_WIFI_FMAC_RX_CMD_TYPE_DEINIT [0..<unat (num_rx_bufs s)] FAIL s;
     if num_rx_bufs s \<noteq> 0 \<and> st \<noteq> SUCCESS then Some (st, s)
     else Some (st, (femit (IoFree OBJ_FMAC_RX_INFO) s)\<lparr>fmac_rx_info := None\<rparr>)
   }"

section \<open>Bringing the firmware up\<close>

text \<open>The wait for the event INIT_DONE: the clock of the OS ends it, so it may never end.\<close>

partial_function (option) fw_init_wait :: "os \<Rightarrow> (fmac \<Rightarrow> fmac) \<Rightarrow> u32 \<Rightarrow> fmac \<Rightarrow> fmac option" where
  "fw_init_wait os env start_time_us s =
    (if fw_init_done s then Some s
     else let s = sleep_ms env 1 s;
              (t, h) = osal_time_elapsed_us os start_time_us (hal_dev_ctx s);
              s = s\<lparr>hal_dev_ctx := h\<rparr> in
       if 5 * 1000 * 1000 \<le> t then Some s else fw_init_wait os env start_time_us s)"

definition fw_init_undo :: "os \<Rightarrow> fmac \<Rightarrow> (nrf_status \<times> fmac) option" where
  "fw_init_undo os s = do {
     (_, s) \<leftarrow> nrf_wifi_sys_fmac_deinit_rx os s;
     s \<leftarrow> nrf_wifi_sys_fmac_deinit_tx s;
     Some (FAIL, s)
   }"

definition nrf_wifi_sys_fmac_fw_init :: "os \<Rightarrow> (fmac \<Rightarrow> fmac) \<Rightarrow> (nat \<Rightarrow> nat) \<Rightarrow> (fmac \<Rightarrow> (nrf_status \<times> fmac) option) \<Rightarrow>
    fmac \<Rightarrow> (nrf_status \<times> fmac) option" where
  "nrf_wifi_sys_fmac_fw_init os env usable init_cmd s = do {
     (st, s) \<leftarrow> nrf_wifi_sys_fmac_init_tx os usable s;
     if st \<noteq> SUCCESS then Some (st, s)
     else do {
       (st, s) \<leftarrow> nrf_wifi_sys_fmac_init_rx os s;
       if st \<noteq> SUCCESS then do { s \<leftarrow> nrf_wifi_sys_fmac_deinit_tx s; Some (st, s) }
       else do {
         (st, s) \<leftarrow> init_cmd s;
         if st \<noteq> SUCCESS then do { (_, s) \<leftarrow> fw_init_undo os s; Some (st, s) }
         else do {
           let (t, h) = osal_time_get_curr_us os (hal_dev_ctx s);
           s \<leftarrow> fw_init_wait os env t (s\<lparr>hal_dev_ctx := h\<rparr>);
           if \<not> fw_init_done s then fw_init_undo os s else Some (SUCCESS, s)
         }
       }
     }
   }"

definition nrf_wifi_sys_fmac_fw_deinit :: "os \<Rightarrow> fmac \<Rightarrow> fmac option" where
  "nrf_wifi_sys_fmac_fw_deinit os s = do {
     (_, s) \<leftarrow> nrf_wifi_sys_fmac_deinit_rx os s;
     nrf_wifi_sys_fmac_deinit_tx s
   }"

section \<open>The device\<close>

text \<open>The driver: what \<open>nrf_wifi_sys_fmac_init\<close> computes from the configuration. The first descriptor of
  a pool is the number of the buffers in the pools before it; a buffer of the HAL has 4 bytes more,
  in 16 bits. The context of a device does not exist yet; its fields are 0.\<close>

fun rx_desc_start :: "rx_buf_pool_params list \<Rightarrow> u32 \<Rightarrow> u32 list" where
  "rx_desc_start [] d = []"
| "rx_desc_start (p # ps) d = d # rx_desc_start ps (d + ucast (num_bufs p))"

definition rx_desc_total :: "rx_buf_pool_params list \<Rightarrow> u32" where
  "rx_desc_total ps = foldl (\<lambda>d p. d + ucast (num_bufs p)) 0 ps"

definition fmac_priv_set :: "u8 \<Rightarrow> nrf_wifi_data_config_params \<Rightarrow> rx_buf_pool_params list \<Rightarrow> fmac \<Rightarrow> fmac" where
  "fmac_priv_set tokens config pools s = s\<lparr>max_tx_aggregation := dc_max_tx_aggregation config,
     num_tx_tokens := tokens, num_tx_tokens_per_ac := tokens div 5, num_tx_tokens_spare := tokens mod 5,
     rx_buf_pools := pools, rx_desc := rx_desc_start pools 0, num_rx_bufs := rx_desc_total pools\<rparr>"

definition fmac_hal_cfg :: "u32 \<Rightarrow> u8 \<Rightarrow> nrf_wifi_data_config_params \<Rightarrow> rx_buf_pool_params list \<Rightarrow> hal_cfg_params" where
  "fmac_hal_cfg mtu tokens config pools = \<lparr>max_cmd_size = 400, max_event_size = 1000, rx_buf_headroom_sz = 4,
     tx_buf_headroom_sz = 52, max_tx_frms = ucast tokens * ucast (dc_max_tx_aggregation config),
     rx_buf_pool = map (\<lambda>p. p\<lparr>buf_sz := buf_sz p + 4\<rparr>) pools, max_tx_frm_sz = mtu + 14 + 52,
     max_ampdu_len_per_token = 0\<rparr>"

definition nrf_wifi_sys_fmac_init :: "os \<Rightarrow> u32 \<Rightarrow> u8 \<Rightarrow> nrf_wifi_data_config_params \<Rightarrow> rx_buf_pool_params list \<Rightarrow>
    fmac \<Rightarrow> bool \<times> fmac" where
  "nrf_wifi_sys_fmac_init os mtu tokens config pools s =
    (let (ok, s) = falloc os OBJ_FMAC_PRIV s in
     if \<not> ok then (False, s)
     else let s = fmac_priv_set tokens config pools s;
              (ok, h) = nrf_wifi_hal_init os (fmac_hal_cfg mtu tokens config pools) (hal_dev_ctx s);
              s = s\<lparr>hal_dev_ctx := h\<rparr> in
       if \<not> ok then (False, femit (IoFree OBJ_FMAC_PRIV) s)
       else (True, s\<lparr>op_mode := NRF_WIFI_OP_MODE_SYS\<rparr>))"

text \<open>The fields of a new device context.\<close>

definition fmac_dev_zero :: "fmac \<Rightarrow> fmac" where
  "fmac_dev_zero s = tx_config_zero (s\<lparr>patch_present := replicate 2 False, alpha2_valid := False, alpha2 := replicate 3 0,
     reg_chan_count := 0, reg_chan_info := None, waiting_for_reg_event := False, reg_set_status := 0,
     reg_change := None, fw_stats := None, fw_boot_done := False, fw_init_done := False, fw_deinit_done := False,
     stats_req := False, vif_ctx := replicate MAX_NUM_VIFS VIF_NULL,
     host_stats := \<lparr>total_tx_pkts = 0, total_tx_done_pkts = 0, total_tx_drop_pkts = 0, total_rx_pkts = 0,
       total_rx_drop_pkts = 0\<rparr>, num_sta := 0, num_ap := 0, fmac_rx_info := None, fmac_tx_info := None,
     twt_sleep_status := NRF_WIFI_FMAC_TWT_STATE_SLEEP\<rparr>)"

text \<open>Adding the device; \<open>ampdu\<close> is the length of the driver for a token. The result tells whether a
  context was made.\<close>

definition nrf_wifi_sys_fmac_dev_add :: "os \<Rightarrow> u32 \<Rightarrow> u32 \<Rightarrow> u32 \<Rightarrow> fmac \<Rightarrow> (bool \<times> fmac) option" where
  "nrf_wifi_sys_fmac_dev_add os rx_num_bufs rx_max_data_size ampdu s =
    (if op_mode s \<noteq> NRF_WIFI_OP_MODE_SYS then Some (False, s)
     else let (ok, s) = falloc os OBJ_FMAC_DEV s in
       if \<not> ok then Some (False, s)
       else do {
         (ok, s) \<leftarrow> on_hal (nrf_wifi_sys_hal_dev_add os rx_num_bufs rx_max_data_size) (fmac_dev_zero s);
         if \<not> ok then Some (False, femit (IoFree OBJ_FMAC_DEV) s)
         else Some (True, s\<lparr>hal_dev_ctx := (hal_dev_ctx s)\<lparr>cfg_params :=
           (cfg_params (hal_dev_ctx s))\<lparr>max_ampdu_len_per_token := ampdu\<rparr>\<rparr>\<rparr>)
       })"

text \<open>The memory of the RF parameters is a local variable, whose bytes before are \<open>stack\<close>.\<close>

definition nrf_wifi_sys_fmac_dev_init :: "os \<Rightarrow> (fmac \<Rightarrow> fmac) \<Rightarrow> (nat \<Rightarrow> nat) \<Rightarrow> sys_init_build \<Rightarrow> u8 list \<Rightarrow>
    nrf_wifi_data_config_params \<Rightarrow> nrf_wifi_phy_rf_params \<Rightarrow> u32 \<Rightarrow> u32 \<Rightarrow> bool \<Rightarrow> nrf_wifi_tx_pwr_ctrl_params \<Rightarrow>
    nrf_wifi_tx_pwr_ceil_params \<Rightarrow> u8 list \<Rightarrow> u8 list \<Rightarrow> fmac \<Rightarrow> (nrf_status \<times> fmac) option" where
  "nrf_wifi_sys_fmac_dev_init os env usable b rf_tail config stack phy_calib op_band beamforming ctrl ceil board country_code s =
    (if op_mode s \<noteq> NRF_WIFI_OP_MODE_SYS then Some (FAIL, s)
     else let (ok, s) = falloc os OBJ_TX_PWR_CEIL s in
       if \<not> ok then None
       else do {
         (st, s) \<leftarrow> on_hal (nrf_wifi_hal_dev_init os) s;
         if st \<noteq> SUCCESS then Some (st, s)
         else do {
           (st, _, _, h) \<leftarrow> nrf_wifi_hal_otp_info_get os (hal_dev_ctx s);
           let s = s\<lparr>hal_dev_ctx := h\<rparr>;
           if st \<noteq> SUCCESS then Some (st, s)
           else do {
             (st, prf, s) \<leftarrow> nrf_wifi_sys_fmac_rf_params_get os rf_tail ceil stack s;
             if st \<noteq> SUCCESS then Some (st, s)
             else nrf_wifi_sys_fmac_fw_init os env usable
               (umac_cmd_sys_init os b (Some (rf_params_bytes prf)) config phy_calib op_band beamforming ctrl board
                  country_code) s
           }
         }
       })"

definition nrf_wifi_sys_fmac_dev_deinit :: "os \<Rightarrow> fmac \<Rightarrow> fmac option" where
  "nrf_wifi_sys_fmac_dev_deinit os s =
    (if op_mode s \<noteq> NRF_WIFI_OP_MODE_SYS then Some s
     else do {
       h \<leftarrow> nrf_wifi_hal_dev_deinit (hal_dev_ctx s);
       s \<leftarrow> nrf_wifi_sys_fmac_fw_deinit os (s\<lparr>hal_dev_ctx := h\<rparr>);
       Some (femit (IoFree OBJ_TX_PWR_CEIL) s)
     })"

definition nrf_wifi_sys_fmac_rpu_recovery_callback ::
    "nrf_wifi_fmac_callbk_fns \<Rightarrow> u8 list \<Rightarrow> fmac \<Rightarrow> nrf_status \<times> fmac" where
  "nrf_wifi_sys_fmac_rpu_recovery_callback c ev s =
    (if op_mode s \<noteq> NRF_WIFI_OP_MODE_SYS then (FAIL, s)
     else if \<not> cb_registered c CB_rpu_recovery then (FAIL, s)
     else (SUCCESS, femit (IoFmacCallback CB_rpu_recovery 0 ev) s))"

definition nrf_wifi_sys_fmac_get_host_rpu_ps_ctrl_state :: "fmac \<Rightarrow> nrf_status \<times> rpu_ps_state option" where
  "nrf_wifi_sys_fmac_get_host_rpu_ps_ctrl_state s =
    (if op_mode s \<noteq> NRF_WIFI_OP_MODE_SYS then (FAIL, None)
     else let (st, ps) = nrf_wifi_hal_get_rpu_ps_state (hal_dev_ctx s) in (st, Some ps))"

lemma sys_rf_ok: "hex_ok NRF_WIFI_SYS_DEF_RF_PARAMS" "length NRF_WIFI_SYS_DEF_RF_PARAMS = 226"
  by (simp_all add: NRF_WIFI_SYS_DEF_RF_PARAMS_def hex_ok_def hex_char_ok_def hex_lower_def)

lemma sys_rf_parse:
  "length arr = 158 \<Longrightarrow> nrf_wifi_utils_hex_str_to_val arr 158 NRF_WIFI_SYS_DEF_RF_PARAMS
     = (113, hex_decode NRF_WIFI_SYS_DEF_RF_PARAMS @ drop 113 arr)"
  using hex_loop_ok [OF sys_rf_ok(1), of 0 0 arr] sys_rf_ok(2)
  by (simp add: nrf_wifi_utils_hex_str_to_val_def)

text \<open>The positions that the initialisation does not write.\<close>

definition stale :: "nat set" where
  "stale = {4, 5} \<union> {38..<42} \<union> {189..<200}"

definition rf_shape :: "u8 list \<Rightarrow> u8 list \<Rightarrow> u8 list \<Rightarrow> u8 list \<Rightarrow> u8 list \<Rightarrow> u8 list \<Rightarrow> u8 list" where
  "rf_shape z a x b y c = z @ a @ x @ b @ y @ c"

lemma rf_shape_nth:
  assumes "length z = 4" "length a = 2" "length x = 32" "length b = 4" "length y = 147" "length c = 11"
    "length z' = 4" "length a' = 2" "length x' = 32" "length b' = 4" "length y' = 147" "length c' = 11" "i < 200"
  shows "i \<in> stale \<Longrightarrow> rf_shape z a x b y c ! i = rf_shape z' a x' b y' c ! i"
    "i \<notin> stale \<Longrightarrow> rf_shape z a x b y c ! i = rf_shape z a' x b' y c' ! i"
  using assms by (auto simp: rf_shape_def stale_def nth_append)

lemma rf_old_shape:
  assumes "rf_params_wf p"
  obtains z x y where "rf_params_bytes p = rf_shape z (drop 4 (rf_reserved p)) x (drop 10 (rf_temp_volt_backoff p)) y
      (drop 147 (rf_phy_params p))" "length z = 4" "length x = 32" "length y = 147"
proof (rule that [of "take 4 (rf_reserved p)"
    "[rf_xo_offset p] @ rf_pd_adjust_val p @ rf_syst_tx_pwr_offset p @ tx_pwr_ceil_bytes (rf_max_pwr_ceil p)
      @ rf_rx_gain_offset p @ take 10 (rf_temp_volt_backoff p)" "take 147 (rf_phy_params p)"])
  show "rf_params_bytes p = rf_shape (take 4 (rf_reserved p)) (drop 4 (rf_reserved p))
      ([rf_xo_offset p] @ rf_pd_adjust_val p @ rf_syst_tx_pwr_offset p @ tx_pwr_ceil_bytes (rf_max_pwr_ceil p)
        @ rf_rx_gain_offset p @ take 10 (rf_temp_volt_backoff p)) (drop 10 (rf_temp_volt_backoff p))
      (take 147 (rf_phy_params p)) (drop 147 (rf_phy_params p))"
    by (simp add: rf_shape_def rf_params_bytes_def flip: append_assoc)
      (simp add: append_assoc)
qed (use assms in \<open>simp_all add: rf_params_wf_def tx_pwr_ceil_bytes_def\<close>)

definition rf_new_x :: "u32 \<Rightarrow> u8 list" where
  "rf_new_x pk = [0x2A] @ [0, 0, 0, 0] @ package_syst_off pk @ tx_pwr_ceil_bytes (package_ceil pk)
     @ [0, 0, 0, 0] @ package_temp_volt pk"

lemma rf_new_shape:
  assumes "rf_params_wf p" "nrf_wifi_sys_fmac_phy_rf_params_init board p pk NRF_WIFI_SYS_DEF_RF_PARAMS = (r, p')"
    "length board = 34"
  shows "r = 113 \<and> rf_params_wf p' \<and> rf_params_bytes p' = rf_shape (replicate 4 0) (drop 4 (rf_reserved p)) (rf_new_x pk)
    (drop 10 (rf_temp_volt_backoff p)) (hex_decode NRF_WIFI_SYS_DEF_RF_PARAMS @ board) (drop 147 (rf_phy_params p))"
proof -
  have l: "length (hex_decode NRF_WIFI_SYS_DEF_RF_PARAMS) = 113"
    using hex_decode_length [of NRF_WIFI_SYS_DEF_RF_PARAMS] sys_rf_ok(2) by simp
  have t: "length (package_temp_volt pk) = 10" "length (package_syst_off pk) = 4"
    by (simp_all add: package_temp_volt_def package_syst_off_def)
  have arr: "length (rf_phy_params p) = 158" using assms(1) by (simp add: rf_params_wf_def)
  show ?thesis
    using assms l t sys_rf_parse [OF arr]
    by (auto simp: nrf_wifi_sys_fmac_phy_rf_params_init_def rf_params_wf_def rf_params_bytes_def rf_shape_def
        rf_new_x_def tx_pwr_ceil_bytes_def)
qed

text \<open>C39 The RF parameters that are set up are a function of the package and of the board except for 17
  of the 200 bytes: those keep what was in the memory before, which is the stack of the caller, and go
  into the INIT command for the firmware. The default string is well formed, so the set-up succeeds.\<close>

theorem rf_params_stale:
  assumes "rf_params_wf p" "rf_params_wf q" "length board = 34"
    and "nrf_wifi_sys_fmac_phy_rf_params_init board p pk NRF_WIFI_SYS_DEF_RF_PARAMS = (r, p')"
    and "nrf_wifi_sys_fmac_phy_rf_params_init board q pk NRF_WIFI_SYS_DEF_RF_PARAMS = (r', q')"
  shows "r = 113 \<and> rf_params_wf p' \<and> card stale = 17 \<and>
    (\<forall>i<200. rf_params_bytes p' ! i = (if i \<in> stale then rf_params_bytes p ! i else rf_params_bytes q' ! i))"
proof -
  note p' = rf_new_shape [OF assms(1,4,3)] and q' = rf_new_shape [OF assms(2,5,3)]
  obtain z x y where p: "rf_params_bytes p = rf_shape z (drop 4 (rf_reserved p)) x (drop 10 (rf_temp_volt_backoff p)) y
      (drop 147 (rf_phy_params p))" "length z = 4" "length x = 32" "length y = 147"
    using rf_old_shape [OF assms(1)] .
  have l: "length (hex_decode NRF_WIFI_SYS_DEF_RF_PARAMS) = 113"
    using hex_decode_length [of NRF_WIFI_SYS_DEF_RF_PARAMS] sys_rf_ok(2) by simp
  have x: "length (rf_new_x pk) = 32"
    by (simp add: rf_new_x_def package_syst_off_def package_temp_volt_def tx_pwr_ceil_bytes_def)
  have lp: "length (drop 4 (rf_reserved u)) = 2" "length (drop 10 (rf_temp_volt_backoff u)) = 4"
      "length (drop 147 (rf_phy_params u)) = 11" if "rf_params_wf u" for u
    using that by (simp_all add: rf_params_wf_def)
  have lb: "length (hex_decode NRF_WIFI_SYS_DEF_RF_PARAMS @ board) = 147" using l assms(3) by simp
  have "rf_params_bytes p' ! i = (if i \<in> stale then rf_params_bytes p ! i else rf_params_bytes q' ! i)" if i: "i < 200" for i
  proof (cases "i \<in> stale")
    case True
    from rf_shape_nth(1) [OF length_replicate lp(1) [OF assms(1)] x lp(2) [OF assms(1)] lb lp(3) [OF assms(1)]
        p(2) lp(1) [OF assms(1)] p(3) lp(2) [OF assms(1)] p(4) lp(3) [OF assms(1)] i True]
    show ?thesis using True p' p(1) by simp
  next
    case False
    from rf_shape_nth(2) [OF length_replicate lp(1) [OF assms(1)] x lp(2) [OF assms(1)] lb lp(3) [OF assms(1)]
        length_replicate lp(1) [OF assms(2)] x lp(2) [OF assms(2)] lb lp(3) [OF assms(2)] i False]
    show ?thesis using False p' q' by simp
  qed
  moreover have "card stale = 17" by (simp add: stale_def card_Un_disjoint)
  ultimately show ?thesis using p' by simp
qed

definition rf_mem :: "u8 \<Rightarrow> nrf_wifi_phy_rf_params" where
  "rf_mem x = \<lparr>rf_reserved = replicate 6 x, rf_xo_offset = x, rf_pd_adjust_val = replicate 4 x,
     rf_syst_tx_pwr_offset = replicate 4 x, rf_max_pwr_ceil = package_ceil 0, rf_rx_gain_offset = replicate 4 x,
     rf_temp_volt_backoff = replicate 14 x, rf_phy_params = replicate 158 x\<rparr>"

theorem rf_params_stale_witness:
  "rf_params_bytes (snd (nrf_wifi_sys_fmac_phy_rf_params_init (replicate 34 0) (rf_mem 0xAA) CSP_PACKAGE_INFO
     NRF_WIFI_SYS_DEF_RF_PARAMS)) ! 190 = 0xAA"
proof -
  have wf: "rf_params_wf (rf_mem x)" for x by (simp add: rf_params_wf_def rf_mem_def)
  have "rf_params_bytes (rf_mem 0xAA) ! 190 = 0xAA"
    by (simp add: rf_params_bytes_def rf_mem_def tx_pwr_ceil_bytes_def nth_append)
  moreover have i: "nrf_wifi_sys_fmac_phy_rf_params_init (replicate 34 0) (rf_mem x) CSP_PACKAGE_INFO NRF_WIFI_SYS_DEF_RF_PARAMS
      = (fst (nrf_wifi_sys_fmac_phy_rf_params_init (replicate 34 0) (rf_mem x) CSP_PACKAGE_INFO NRF_WIFI_SYS_DEF_RF_PARAMS),
         snd (nrf_wifi_sys_fmac_phy_rf_params_init (replicate 34 0) (rf_mem x) CSP_PACKAGE_INFO NRF_WIFI_SYS_DEF_RF_PARAMS))"
    for x by simp
  ultimately show ?thesis
    using rf_params_stale [OF wf wf length_replicate i i, THEN conjunct2, THEN conjunct2, THEN conjunct2, rule_format,
        of 190 "0xAA" 0] by (simp add: stale_def)
qed

section \<open>Power ceilings\<close>

definition ceil_params_list :: "nrf_wifi_tx_pwr_ceil_params \<Rightarrow> u8 list" where
  "ceil_params_list t = [max_pwr_2g_dsss t, max_pwr_2g_mcs7 t, max_pwr_2g_mcs0 t, max_pwr_5g_low_mcs7 t,
     max_pwr_5g_mid_mcs7 t, max_pwr_5g_high_mcs7 t, max_pwr_5g_low_mcs0 t, max_pwr_5g_mid_mcs0 t, max_pwr_5g_high_mcs0 t]"

lemma pwr_limit_min: "0 \<le> sint pkg \<Longrightarrow> sint (pwr_limit board pkg 0) = min (uint board) (sint pkg)"
proof -
  assume a: "0 \<le> sint pkg"
  have "sint pkg < 128" using sint_lt [of pkg] by simp
  with a have r: "0 \<le> min (uint board) (sint pkg)" "min (uint board) (sint pkg) < 2 ^ 7" by simp_all
  have "- (2 ^ 7) \<le> min (uint board) (sint pkg)" using r(1) by (rule order_trans [rotated]) simp
  with r(2) show ?thesis
    by (simp add: pwr_limit_def signed_of_int signed_take_bit_int_eq_self)
qed

lemma ft_backoffs_zero: "ft_backoffs v = (0, 0, 0, 0, 0)"
  by (simp add: ft_backoffs_def)

lemma package_ceil_range: "list_all (\<lambda>c. 0 \<le> sint c \<and> sint c \<le> 0x54) (tx_pwr_ceil_bytes (package_ceil pk))"
  by (simp add: tx_pwr_ceil_bytes_def package_ceil_def)

lemma ceil_limit_list:
  "list_all (\<lambda>c. 0 \<le> sint c) (tx_pwr_ceil_bytes c) \<Longrightarrow>
   map sint (tx_pwr_ceil_bytes (ceil_limit t (ft_backoffs v) c))
     = map2 min (map uint (ceil_params_list t)) (map sint (tx_pwr_ceil_bytes c))"
  by (simp add: tx_pwr_ceil_bytes_def ceil_limit_def ft_backoffs_zero ceil_params_list_def pwr_limit_min)

lemma rf_params_get_run:
  assumes "nrf_wifi_sys_fmac_rf_params_get os board ceil prf s = Some (SUCCESS, prf', t)"
  obtains pk v where "rf_max_pwr_ceil prf' = ceil_limit ceil (ft_backoffs v) (package_ceil pk)"
  using assms unfolding nrf_wifi_sys_fmac_rf_params_get_def nrf_wifi_sys_fmac_phy_rf_params_init_def xo_calibrated_def
  by (auto split: if_split_asm Option.bind_split_asm prod.split_asm simp: Let_def)


lemma otp_read:
  assumes "a \<in> {0xB0000000, 0xB0004FDC, 0xB0004FD8, 0xB0004FD4}"
  shows "\<exists>tr'. hal_rpu_mem_read demo_os a n (hal_awake\<lparr>w_trace := tr\<rparr>)
    = Some (SUCCESS, replicate n 0, hal_awake\<lparr>w_trace := tr'\<rparr>)"
proof -
  have c: "curr_proc (hal_awake\<lparr>w_trace := tr\<rparr>) = RPU_PROC_TYPE_MCU_LMAC" "rpu_fw_booted (hal_awake\<lparr>w_trace := tr\<rparr>)"
      "rpu_ps_state (hal_awake\<lparr>w_trace := tr\<rparr>) = RPU_PS_STATE_AWAKE"
    by (simp_all add: hal_awake_def hal_demo_def)
  obtain off where off: "pal_rpu_addr_offset_get a RPU_PROC_TYPE_MCU_LMAC = Some off"
    using assms by (auto simp: pal_rpu_addr_offset_get_def)
  have "hal_rpu_is_mem_readable RPU_PROC_TYPE_MCU_LMAC a"
    using assms by (auto simp: hal_rpu_is_mem_readable_def hal_rpu_is_mem_ram_def)
  then show ?thesis
    using mem_read_ram_awake [of a "hal_awake\<lparr>w_trace := tr\<rparr>" off demo_os n] off c
    by (intro exI [of _ "[IoTimerSchedule 10, IoUnlock LOCK_PS, IoReadBlock (bus_host_addr_base hal_awake + off) n,
      IoTimerKill, IoLock LOCK_PS] @ tr"]) (simp add: hal_rpu_mem_read_def tick_os_def map_replicate_const)
qed


section \<open>Descriptors of the receive buffers\<close>

lemma rx_three:
  assumes "length pools = MAX_NUM_OF_RX_QUEUES"
  obtains a b c where "pools = [a, b, c]"
  using assms by (auto simp: numeral_3_eq_3 length_Suc_conv)

lemma rx_sum: "unat (ucast a + ucast b :: u32) = unat a + unat b"
  "unat (ucast a + ucast b + ucast c :: u32) = unat a + unat b + unat c"
  for a b c :: u16
proof -
  have u: "unat (x :: u16) < 65536" for x using unsigned_less [of x] by simp
  show "unat (ucast a + ucast b :: u32) = unat a + unat b"
    using u [of a] u [of b] by (subst unat_add_small) (simp_all add: unat_ucast_u16)
  then show "unat (ucast a + ucast b + ucast c :: u32) = unat a + unat b + unat c"
    using u [of a] u [of b] u [of c] by (subst unat_add_small) (simp_all add: unat_ucast_u16)
qed

text \<open>C37 The descriptors of the receive buffers are shared out to the three pools without a gap and without an
  overlap, for every size of the pools: after the initialisation a number is a descriptor if it is below
  the number of buffers; it then belongs to one buffer of one pool, and every buffer of every pool has a
  descriptor.\<close>

theorem rx_descriptors:
  assumes "nrf_wifi_sys_fmac_init os mtu tokens config pools s = (True, t)" "length pools = MAX_NUM_OF_RX_QUEUES"
  shows "unat (num_rx_bufs t) = sum_list (map (unat \<circ> num_bufs) pools) \<and>
    (nrf_wifi_fmac_map_desc_to_pool d t \<noteq> None \<longleftrightarrow> d < num_rx_bufs t) \<and>
    (nrf_wifi_fmac_map_desc_to_pool d t = Some (p, b) \<longleftrightarrow>
      p < 3 \<and> unat b < unat (num_bufs (pools ! unat p)) \<and>
      unat d = sum_list (map (unat \<circ> num_bufs) (take (unat p) pools)) + unat b)"
proof -
  obtain x y z where pools: "pools = [x, y, z]" using rx_three [OF assms(2)] .
  let ?a = "num_bufs x" and ?b = "num_bufs y" and ?c = "num_bufs z"
  have t: "rx_buf_pools t = pools" "rx_desc t = [0, ucast ?a, ucast ?a + ucast ?b]"
      "num_rx_bufs t = ucast ?a + ucast ?b + ucast ?c"
    using assms(1) by (auto simp: nrf_wifi_sys_fmac_init_def fmac_priv_set_def pools rx_desc_total_def Let_def
        split: prod.splits if_splits)
  let ?da = "unat ?a" and ?db = "unat ?b" and ?dc = "unat ?c"
  have m: "nrf_wifi_fmac_map_desc_to_pool d t =
      (if unat d < ?da then Some (0, d)
       else if unat d < ?da + ?db then Some (1, d - ucast ?a)
       else if unat d < ?da + ?db + ?dc then Some (2, d - (ucast ?a + ucast ?b)) else None)"
    by (simp add: nrf_wifi_fmac_map_desc_to_pool_def t pools upt_rec u32_le_iff u32_less_iff rx_sum unat_ucast_u16)
  have p3: "p < 3 \<longleftrightarrow> p = 0 \<or> p = 1 \<or> p = 2"
  proof -
    have "p < 3 \<longleftrightarrow> unat p = 0 \<or> unat p = 1 \<or> unat p = 2" by (auto simp: u32_less_iff)
    then show ?thesis by (simp add: word_unat_eq_iff)
  qed
  have sub: "unat (d - k) = unat d - unat k" if "unat k \<le> unat d" for k
    using that by (simp add: unat_sub_if')
  have off: "unat (ucast ?a :: u32) = ?da" "unat (ucast ?a + ucast ?b :: u32) = ?da + ?db"
    by (simp_all add: rx_sum unat_ucast_u16)
  have one: "nrf_wifi_fmac_map_desc_to_pool d t = Some (p, b) \<longleftrightarrow>
      (if unat d < ?da then p = 0 \<and> unat b = unat d
       else if unat d < ?da + ?db then p = 1 \<and> unat b = unat d - ?da
       else unat d < ?da + ?db + ?dc \<and> p = 2 \<and> unat b = unat d - (?da + ?db))"
    unfolding m by (auto simp: word_unat_eq_iff sub off)
  have three: "nrf_wifi_fmac_map_desc_to_pool d t = Some (p, b) \<longleftrightarrow>
      p < 3 \<and> unat b < unat (num_bufs (pools ! unat p)) \<and>
      unat d = sum_list (map (unat \<circ> num_bufs) (take (unat p) pools)) + unat b"
  proof -
    consider "p = 0" | "p = 1" | "p = 2" | "\<not> p < 3" using p3 by blast
    then show ?thesis
    proof cases
      case 1 then show ?thesis unfolding one pools by auto
    next
      case 2 then show ?thesis unfolding one pools by auto
    next
      case 3
      then have "pools ! unat p = z" "take (unat p) pools = [x, y]" by (simp_all add: pools)
      with 3 show ?thesis unfolding one by auto
    next
      case 4 with p3 show ?thesis unfolding one by auto
    qed
  qed
  show ?thesis using three m by (simp add: t pools rx_sum u32_less_iff)
qed

definition pools_demo :: "rx_buf_pool_params list" where
  "pools_demo = [\<lparr>buf_sz = 100, num_bufs = 2\<rparr>, \<lparr>buf_sz = 100, num_bufs = 1\<rparr>, \<lparr>buf_sz = 100, num_bufs = 1\<rparr>]"

theorem rx_descriptors_witness:
  "\<exists>t. nrf_wifi_sys_fmac_init demo_os 1500 5 \<lparr>dc_rate_protection_type = 0, dc_aggregation = 1, dc_wmm = 1,
       dc_max_num_tx_agg_sessions = 4, dc_max_num_rx_agg_sessions = 8, dc_max_tx_aggregation = 4, dc_reorder_buf_size = 64,
       dc_max_rxampdu_size = 3\<rparr> pools_demo fmac_demo = (True, t) \<and>
     nrf_wifi_fmac_map_desc_to_pool 2 t = Some (1, 0)"
proof -
  let ?c = "\<lparr>dc_rate_protection_type = 0, dc_aggregation = 1, dc_wmm = 1, dc_max_num_tx_agg_sessions = 4,
    dc_max_num_rx_agg_sessions = 8, dc_max_tx_aggregation = 4, dc_reorder_buf_size = 64, dc_max_rxampdu_size = 3\<rparr>"
  have "fst (nrf_wifi_sys_fmac_init demo_os 1500 5 ?c pools_demo fmac_demo)"
    by (simp add: nrf_wifi_sys_fmac_init_def fmac_priv_set_def falloc_def osal_alloc_def nrf_wifi_hal_init_def tick_os_def
        nrf_wifi_bal_init_def nrf_wifi_bus_qspi_ops_def nrf_wifi_bus_qspi_init_def pal_rpu_addr_offset_get_def fmac_demo_simps
        hal_awake_def hal_demo_def Let_def split: prod.splits if_splits)
  then obtain t where run: "nrf_wifi_sys_fmac_init demo_os 1500 5 ?c pools_demo fmac_demo = (True, t)"
    by (cases "nrf_wifi_sys_fmac_init demo_os 1500 5 ?c pools_demo fmac_demo") simp
  have "nrf_wifi_fmac_map_desc_to_pool 2 t = Some (1, 0)"
    using rx_descriptors [OF run, of 2 1 0] by (simp add: pools_demo_def)
  with run show ?thesis by blast
qed

end
