(* ===== verification/Fmac_System.thy ===== *)
theory Fmac_System
  imports Fmac_Event
begin

text \<open>The whole FMAC above the HAL: the management commands, the frames that are sent, the events
  and the interrupts in any order. Between them no lock is held, and every access of the
  bus falls into a time when the device is awake.\<close>

section \<open>Steps of the system\<close>

named_theorems safes \<open>safe operations of the FMAC\<close>

definition idle :: "fmac \<Rightarrow> bool" where
  "idle s = (ps_coherent (hal_dev_ctx s) \<and> held (ftrace s) = [])"

definition fsafe :: "fmac \<Rightarrow> fmac \<Rightarrow> bool" where
  "fsafe s t = (same_setup (hal_dev_ctx s) (hal_dev_ctx t) \<and>
     (idle s \<longrightarrow> idle t \<and> legal (rpu_fw_booted (hal_dev_ctx s)) (ftrace s) (ftrace t)))"

lemma fsafe_refl [simp, intro]: "fsafe s s"
  by (simp add: fsafe_def)

lemma fsafe_trans:
  assumes "fsafe s t" "fsafe t u"
  shows "fsafe s u"
proof -
  have "rpu_fw_booted (hal_dev_ctx t) = rpu_fw_booted (hal_dev_ctx s)"
    using assms(1) by (simp add: fsafe_def same_setup_booted)
  then show ?thesis
    using assms by (auto simp: fsafe_def intro: same_setup_trans legal_trans)
qed

lemma fsafe_fstep:
  assumes "fstep L x s t"
  shows "fsafe s t"
proof -
  have "idle t \<and> legal (rpu_fw_booted (hal_dev_ctx s)) (ftrace s) (ftrace t)" if "idle s"
  proof -
    have "fready L s" using that by (simp add: idle_def fready_def)
    with assms have t: "fready L t" "legal (rpu_fw_booted (hal_dev_ctx s)) (ftrace s) (ftrace t)"
      by (simp_all add: fstep_def)
    then show ?thesis using that legal_held [OF t(2)] by (simp add: idle_def fready_def)
  qed
  with assms show ?thesis by (simp add: fsafe_def fstep_def)
qed

lemma fsafe_then: "fsafe s0 s \<Longrightarrow> fstep L x s t \<Longrightarrow> fsafe s0 t"
  using fsafe_trans fsafe_fstep by blast

lemma fsafe_same: "hal_dev_ctx u = hal_dev_ctx t \<Longrightarrow> fsafe s u = fsafe s t"
  by (simp add: fsafe_def idle_def)

lemma fsafe_fields [simp]:
  "fsafe s (t\<lparr>peers := a\<rparr>) = fsafe s t" "fsafe s (t\<lparr>vif_ctx := b\<rparr>) = fsafe s t"
  "fsafe s (t\<lparr>fmac_rx_info := c\<rparr>) = fsafe s t" "fsafe s (t\<lparr>stats_req := d\<rparr>) = fsafe s t"
  "fsafe s (t\<lparr>fw_stats := e\<rparr>) = fsafe s t" "fsafe s (t\<lparr>fw_init_done := f\<rparr>) = fsafe s t"
  "fsafe s (t\<lparr>fw_deinit_done := g\<rparr>) = fsafe s t" "fsafe s (t\<lparr>alpha2_valid := h\<rparr>) = fsafe s t"
  "fsafe s (t\<lparr>reg_chan_info := i\<rparr>) = fsafe s t" "fsafe s (t\<lparr>reg_set_status := j\<rparr>) = fsafe s t"
  "fsafe s (t\<lparr>waiting_for_reg_event := k\<rparr>) = fsafe s t" "fsafe s (t\<lparr>reg_change := l\<rparr>) = fsafe s t"
  by (rule fsafe_same; simp)+

lemma fsafe_puts [simp]:
  "fsafe s (peer_put n p t) = fsafe s t" "fsafe s (vif_put m v t) = fsafe s t"
  "fsafe s (rx_info_put k e t) = fsafe s t" "fsafe s (mc_peer_put pid ifx t) = fsafe s t"
  by (rule fsafe_same; simp add: peer_put_def vif_put_def rx_info_put_def mc_peer_put_def)+

lemmas fsafe_updates = fsafe_fields [THEN iffD2] fsafe_puts [THEN iffD2]

lemma fsafe_event:
  assumes "fsafe s t" "\<And>b tr. held tr = [] \<Longrightarrow> ev_ok b e tr" "\<And>tr. held (e # tr) = held tr" "\<And>tr. awake (e # tr) = awake tr"
  shows "fsafe s (femit e t)"
proof -
  have "idle (femit e t) \<and> legal (rpu_fw_booted (hal_dev_ctx s)) (ftrace s) (ftrace (femit e t))" if "idle s"
  proof -
    have t: "idle t" "legal (rpu_fw_booted (hal_dev_ctx s)) (ftrace s) (ftrace t)"
      using assms(1) that by (simp_all add: fsafe_def)
    then have "held (ftrace t) = []" by (simp add: idle_def)
    from legal_event [OF assms(2) [OF this] assms(3) t(2)] t(1) show ?thesis
      by (simp add: idle_def ps_coherent_def assms(3,4))
  qed
  then show ?thesis using assms(1) unfolding fsafe_def same_setup_femit by blast
qed

lemma fsafe_emit [intro!]:
  "fsafe s t \<Longrightarrow> fsafe s (femit (IoFree ob) t)" "fsafe s t \<Longrightarrow> fsafe s (femit (IoNbufFree p) t)"
  "fsafe s t \<Longrightarrow> fsafe s (femit (IoFmacCallback c i bs) t)" "fsafe s t \<Longrightarrow> fsafe s (femit (IoSleepMs n) t)"
  "fsafe s t \<Longrightarrow> fsafe s (femit (IoNbufAlloc q) t)"
  by (rule fsafe_event; simp)+

lemma fsafe_on_hal:
  assumes "on_hal f s = Some (r, t)" "sat (f (hal_dev_ctx s)) (\<lambda>(r, h). hal_step L (hal_dev_ctx s) h)" "fsafe s0 s"
  shows "fsafe s0 t"
  using fsafe_then [OF assms(3) fstep_on_hal [OF assms(1,2) fstep_refl]] .

section \<open>Management commands\<close>

lemma falloc_safe [safes]: "falloc os ob s = (ok, t) \<Longrightarrow> fsafe s0 s \<Longrightarrow> fsafe s0 t"
  using fstep_falloc [of os ob s ok t "{}"] fsafe_then by blast

lemma cmd_send_safe [safes]: "cmd_send os ty body s = Some (st, t) \<Longrightarrow> fsafe s0 s \<Longrightarrow> fsafe s0 t"
  using cmd_send_fstep [of os ty body s st t UNIV] fsafe_then by blast

lemma cmd_cfg_safe [safes]: "umac_cmd_cfg os p s = Some (st, t) \<Longrightarrow> fsafe s0 s \<Longrightarrow> fsafe s0 t"
  using cmd_cfg_fstep [of os p s st t UNIV] fsafe_then by blast

lemma sys_cfg_safe [safes]: "sys_cfg os c s = Some (st, t) \<Longrightarrow> fsafe s0 s \<Longrightarrow> fsafe s0 t"
  by (auto simp: sys_cfg_def split: Option.bind_splits; blast intro: safes)

lemma sys_begin_safe:
  assumes "sys_begin os f s = Some (st, t)" "\<And>u. fsafe s0 u \<Longrightarrow> f u = Some (st, t) \<Longrightarrow> fsafe s0 t" "fsafe s0 s"
  shows "fsafe s0 t"
  using assms falloc_safe [of os OBJ_UMAC_CMD s]
  by (auto simp: sys_begin_def split: if_splits prod.splits)

lemma sys_simple_safe [safes]: "sys_begin os (sys_cfg os c) s = Some (st, t) \<Longrightarrow> fsafe s0 s \<Longrightarrow> fsafe s0 t"
  by (erule sys_begin_safe) (blast intro: safes)+

lemma sys_msg_safe [safes]: "sys_msg os c b s = Some (st, t) \<Longrightarrow> fsafe s0 s \<Longrightarrow> fsafe s0 t"
  by (auto simp: sys_msg_def split: if_splits; blast intro: safes)

lemma peers_flush_safe [safes]: "nrf_wifi_fmac_peers_flush os ifi s = Some t \<Longrightarrow> fsafe s0 s \<Longrightarrow> fsafe s0 t"
  using peers_flush_fstep [of os ifi s t UNIV] fsafe_then by blast

lemma set_wiphy_safe [safes]:
  "nrf_wifi_sys_fmac_set_wiphy_params os ifi i s = Some (st, j, t) \<Longrightarrow> fsafe s0 s \<Longrightarrow> fsafe s0 t"
  by (auto simp: nrf_wifi_sys_fmac_set_wiphy_params_def Let_def split: if_splits option.splits prod.splits Option.bind_splits;
      blast intro: safes)

lemma key_store_safe [safes]: "key_store ifi i m s = Some (ok, t) \<Longrightarrow> fsafe s0 s \<Longrightarrow> fsafe s0 t"
  by (auto simp: key_store_def Let_def split: if_splits Option.bind_splits)

text \<open>What runs while a command waits must be safe itself.\<close>

definition env_safe :: "(fmac \<Rightarrow> fmac) \<Rightarrow> bool" where
  "env_safe env = (\<forall>s. fsafe s (env s))"

lemma sleep_safe: "env_safe env \<Longrightarrow> fsafe s0 s \<Longrightarrow> fsafe s0 (sleep_ms env n s)"
  unfolding sleep_ms_def env_safe_def by (blast intro: fsafe_trans)

lemma ifflags_wait_safe: "ifflags_wait env i n s = Some (b, t) \<Longrightarrow> env_safe env \<Longrightarrow> fsafe s0 s \<Longrightarrow> fsafe s0 t"
  by (induction env i n s rule: ifflags_wait.induct) (auto split: Option.bind_splits if_splits intro: sleep_safe)

lemma stats_get_wait_safe: "stats_get_wait env n k s = (c, t) \<Longrightarrow> env_safe env \<Longrightarrow> fsafe s0 s \<Longrightarrow> fsafe s0 t"
  by (induction env n k s rule: stats_get_wait.induct) (auto simp: Let_def split: if_splits intro: sleep_safe)

lemma stats_wait_safe: "stats_wait env n k s = (c, t) \<Longrightarrow> env_safe env \<Longrightarrow> fsafe s0 s \<Longrightarrow> fsafe s0 t"
  by (induction env n k s rule: stats_wait.induct) (auto simp: Let_def split: if_splits intro: sleep_safe)

lemma get_reg_wait_safe: "env_safe env \<Longrightarrow> fsafe s0 s \<Longrightarrow> fsafe s0 (get_reg_wait env n s)"
  by (induction env n s rule: get_reg_wait.induct) (auto simp: Let_def intro: sleep_safe)

lemma set_reg_wait_safe: "env_safe env \<Longrightarrow> fsafe s0 s \<Longrightarrow> fsafe s0 (set_reg_wait env n s)"
  by (induction env n s rule: set_reg_wait.induct) (auto intro: sleep_safe)

text \<open>Every command of \<open>fmac_api.c\<close>, by its name; what it returns is left open.\<close>

inductive mgmt_op :: "os \<Rightarrow> fmac \<Rightarrow> fmac \<Rightarrow> bool" for os where
  mgmt_scan: "nrf_wifi_sys_fmac_scan os i sci rest s = Some (st, t) \<Longrightarrow> mgmt_op os s t"
| mgmt_abort_scan: "nrf_wifi_sys_fmac_abort_scan os i s = Some (st, t) \<Longrightarrow> mgmt_op os s t"
| mgmt_scan_res: "nrf_wifi_sys_fmac_scan_res_get os i ty s = Some (st, t) \<Longrightarrow> mgmt_op os s t"
| mgmt_auth: "nrf_wifi_sys_fmac_auth os i au s = Some (st, t) \<Longrightarrow> mgmt_op os s t"
| mgmt_deauth: "nrf_wifi_sys_fmac_deauth os i dis s = Some (st, t) \<Longrightarrow> mgmt_op os s t"
| mgmt_disassoc: "nrf_wifi_sys_fmac_disassoc os i dis s = Some (st, t) \<Longrightarrow> mgmt_op os s t"
| mgmt_assoc: "nrf_wifi_sys_fmac_assoc os i asc s = Some (st, t) \<Longrightarrow> mgmt_op os s t"
| mgmt_add_key: "nrf_wifi_sys_fmac_add_key os i key mac s = Some (st, t) \<Longrightarrow> mgmt_op os s t"
| mgmt_del_key: "nrf_wifi_sys_fmac_del_key os i key mac s = Some (st, t) \<Longrightarrow> mgmt_op os s t"
| mgmt_set_key: "nrf_wifi_sys_fmac_set_key os i key s = Some (st, t) \<Longrightarrow> mgmt_op os s t"
| mgmt_chg_sta: "nrf_wifi_sys_fmac_chg_sta os i cs s = Some (st, t) \<Longrightarrow> mgmt_op os s t"
| mgmt_del_sta: "nrf_wifi_sys_fmac_del_sta os i ds s = Some (st, t) \<Longrightarrow> mgmt_op os s t"
| mgmt_add_sta: "nrf_wifi_sys_fmac_add_sta os i ads s = Some (st, t) \<Longrightarrow> mgmt_op os s t"
| mgmt_set_bss: "nrf_wifi_sys_fmac_set_bss os i bss s = Some (st, t) \<Longrightarrow> mgmt_op os s t"
| mgmt_chg_bcn: "nrf_wifi_sys_fmac_chg_bcn os i bcn s = Some (st, t) \<Longrightarrow> mgmt_op os s t"
| mgmt_wiphy: "nrf_wifi_sys_fmac_set_wiphy_params os i wp s = Some (st, wp', t) \<Longrightarrow> mgmt_op os s t"
| mgmt_start_ap: "nrf_wifi_sys_fmac_start_ap os i ap s = Some (st, t) \<Longrightarrow> mgmt_op os s t"
| mgmt_stop_ap: "nrf_wifi_sys_fmac_stop_ap os i s = Some (st, t) \<Longrightarrow> mgmt_op os s t"
| mgmt_frame_reg: "nrf_wifi_sys_fmac_mgmt_frame_reg os i fr s = Some (st, t) \<Longrightarrow> mgmt_op os s t"
| mgmt_p2p_start: "nrf_wifi_sys_fmac_p2p_dev_start os i s = Some (st, t) \<Longrightarrow> mgmt_op os s t"
| mgmt_p2p_stop: "nrf_wifi_sys_fmac_p2p_dev_stop os i s = Some (st, t) \<Longrightarrow> mgmt_op os s t"
| mgmt_roc_start: "nrf_wifi_sys_fmac_p2p_roc_start os i roc s = Some (st, t) \<Longrightarrow> mgmt_op os s t"
| mgmt_roc_stop: "nrf_wifi_sys_fmac_p2p_roc_stop os i ck s = Some (st, t) \<Longrightarrow> mgmt_op os s t"
| mgmt_tx: "nrf_wifi_sys_fmac_mgmt_tx os i mt s = Some (st, t) \<Longrightarrow> mgmt_op os s t"
| mgmt_macaddr: "nrf_wifi_sys_fmac_set_vif_macaddr os i m s = Some (st, t) \<Longrightarrow> mgmt_op os s t"
| mgmt_vif_state: "nrf_wifi_sys_fmac_chg_vif_state os env i vs s = Some (st, t) \<Longrightarrow> env_safe env \<Longrightarrow> mgmt_op os s t"
| mgmt_tx_power: "nrf_wifi_sys_fmac_get_tx_power os k s = Some (st, t) \<Longrightarrow> mgmt_op os s t"
| mgmt_channel: "nrf_wifi_sys_fmac_get_channel os k s = Some (st, t) \<Longrightarrow> mgmt_op os s t"
| mgmt_station: "nrf_wifi_sys_fmac_get_station os k m s = Some (st, t) \<Longrightarrow> mgmt_op os s t"
| mgmt_interface: "nrf_wifi_sys_fmac_get_interface os k s = Some (st, t) \<Longrightarrow> mgmt_op os s t"
| mgmt_qos: "nrf_wifi_sys_fmac_set_qos_map os i qm s = Some (st, t) \<Longrightarrow> mgmt_op os s t"
| mgmt_get_wiphy: "nrf_wifi_sys_fmac_get_wiphy os i s = Some (st, t) \<Longrightarrow> mgmt_op os s t"
| mgmt_register: "nrf_wifi_sys_fmac_register_frame os i frm s = Some (st, t) \<Longrightarrow> mgmt_op os s t"
| mgmt_mcast: "nrf_wifi_sys_fmac_set_mcast_addr os i mc s = Some (st, t) \<Longrightarrow> mgmt_op os s t"
| mgmt_conn: "nrf_wifi_sys_fmac_get_conn_info os i s = Some (st, t) \<Longrightarrow> mgmt_op os s t"
| mgmt_ps: "nrf_wifi_sys_fmac_set_power_save os i on s = Some (st, t) \<Longrightarrow> mgmt_op os s t"
| mgmt_uapsd: "nrf_wifi_sys_fmac_set_uapsd_queue os i q s = Some (st, t) \<Longrightarrow> mgmt_op os s t"
| mgmt_ps_timeout: "nrf_wifi_sys_fmac_set_power_save_timeout os i tm s = Some (st, t) \<Longrightarrow> mgmt_op os s t"
| mgmt_ps_info: "nrf_wifi_sys_fmac_get_power_save_info os i s = Some (st, t) \<Longrightarrow> mgmt_op os s t"
| mgmt_listen: "nrf_wifi_sys_fmac_set_listen_interval os i li s = Some (st, t) \<Longrightarrow> mgmt_op os s t"
| mgmt_wakeup: "nrf_wifi_sys_fmac_set_ps_wakeup_mode os i on s = Some (st, t) \<Longrightarrow> mgmt_op os s t"
| mgmt_exit: "nrf_wifi_sys_fmac_set_ps_exit_strategy os i k s = Some (st, t) \<Longrightarrow> mgmt_op os s t"
| mgmt_twt: "nrf_wifi_sys_fmac_twt_setup os i tw s = Some (st, t) \<Longrightarrow> mgmt_op os s t"
| mgmt_twt_down: "nrf_wifi_sys_fmac_twt_teardown os i tw s = Some (st, t) \<Longrightarrow> mgmt_op os s t"
| mgmt_mode: "nrf_wifi_sys_fmac_set_mode os i md s = Some (st, t) \<Longrightarrow> mgmt_op os s t"
| mgmt_set_channel: "nrf_wifi_sys_fmac_set_channel os i k s = Some (st, t) \<Longrightarrow> mgmt_op os s t"
| mgmt_filter: "nrf_wifi_sys_fmac_set_packet_filter os flt i bsz s = Some (st, t) \<Longrightarrow> mgmt_op os s t"
| mgmt_rate: "nrf_wifi_sys_fmac_set_tx_rate os rf k s = Some (st, t) \<Longrightarrow> mgmt_op os s t"
| mgmt_ltf: "nrf_wifi_sys_fmac_conf_ltf_gi os lt gi en s = Some (st, t) \<Longrightarrow> mgmt_op os s t"
| mgmt_stats: "nrf_wifi_sys_fmac_stats_get os env k stt s = Some (st, t) \<Longrightarrow> env_safe env \<Longrightarrow> mgmt_op os s t"
| mgmt_get_reg: "nrf_wifi_fmac_get_reg os env ri s = Some (st, ri', t) \<Longrightarrow> env_safe env \<Longrightarrow> mgmt_op os s t"
| mgmt_set_reg: "nrf_wifi_fmac_set_reg os env ri s = Some (st, t) \<Longrightarrow> env_safe env \<Longrightarrow> mgmt_op os s t"
| mgmt_reset: "nrf_wifi_fmac_stats_reset os env s = Some (st, t) \<Longrightarrow> env_safe env \<Longrightarrow> mgmt_op os s t"
| mgmt_srcoex: "nrf_wifi_fmac_conf_srcoex os cmd s = Some (st, t) \<Longrightarrow> mgmt_op os s t"

lemmas simple_cmd_defs =
  nrf_wifi_sys_fmac_abort_scan_def nrf_wifi_sys_fmac_scan_res_get_def nrf_wifi_sys_fmac_auth_def nrf_wifi_sys_fmac_deauth_def
  nrf_wifi_sys_fmac_disassoc_def nrf_wifi_sys_fmac_set_key_def nrf_wifi_sys_fmac_chg_sta_def nrf_wifi_sys_fmac_del_sta_def
  nrf_wifi_sys_fmac_add_sta_def nrf_wifi_sys_fmac_set_bss_def nrf_wifi_sys_fmac_chg_bcn_def nrf_wifi_sys_fmac_mgmt_frame_reg_def
  nrf_wifi_sys_fmac_p2p_dev_start_def nrf_wifi_sys_fmac_p2p_dev_stop_def nrf_wifi_sys_fmac_p2p_roc_start_def
  nrf_wifi_sys_fmac_p2p_roc_stop_def nrf_wifi_sys_fmac_mgmt_tx_def nrf_wifi_sys_fmac_set_vif_macaddr_def
  nrf_wifi_sys_fmac_get_tx_power_def nrf_wifi_sys_fmac_get_channel_def nrf_wifi_sys_fmac_get_station_def
  nrf_wifi_sys_fmac_get_interface_def nrf_wifi_sys_fmac_get_wiphy_def nrf_wifi_sys_fmac_register_frame_def
  nrf_wifi_sys_fmac_set_mcast_addr_def nrf_wifi_sys_fmac_get_conn_info_def nrf_wifi_sys_fmac_set_power_save_def
  nrf_wifi_sys_fmac_set_uapsd_queue_def nrf_wifi_sys_fmac_set_power_save_timeout_def
  nrf_wifi_sys_fmac_get_power_save_info_def nrf_wifi_sys_fmac_set_listen_interval_def
  nrf_wifi_sys_fmac_set_ps_wakeup_mode_def nrf_wifi_sys_fmac_set_ps_exit_strategy_def nrf_wifi_sys_fmac_twt_setup_def
  nrf_wifi_sys_fmac_twt_teardown_def nrf_wifi_sys_fmac_set_mode_def nrf_wifi_sys_fmac_set_channel_def
  nrf_wifi_sys_fmac_set_packet_filter_def nrf_wifi_sys_fmac_set_tx_rate_def nrf_wifi_sys_fmac_conf_ltf_gi_def
  umac_cmd_sys_he_ltf_gi_def nrf_wifi_fmac_conf_srcoex_def umac_cmd_srcoex_def

lemma scan_safe [safes]: "nrf_wifi_sys_fmac_scan os i sci rest s = Some (st, t) \<Longrightarrow> fsafe s0 s \<Longrightarrow> fsafe s0 t"
  unfolding nrf_wifi_sys_fmac_scan_def Let_def
  by (erule sys_begin_safe) (auto split: if_splits intro: safes)

lemma qos_safe [safes]: "nrf_wifi_sys_fmac_set_qos_map os i qm s = Some (st, t) \<Longrightarrow> fsafe s0 s \<Longrightarrow> fsafe s0 t"
  unfolding nrf_wifi_sys_fmac_set_qos_map_def Let_def
  by (erule sys_begin_safe) (auto split: if_splits intro: safes)

lemma assoc_safe [safes]: "nrf_wifi_sys_fmac_assoc os i asc s = Some (st, t) \<Longrightarrow> fsafe s0 s \<Longrightarrow> fsafe s0 t"
  by (auto simp: nrf_wifi_sys_fmac_assoc_def split: if_splits Option.bind_splits intro: safes)

lemma add_key_safe [safes]: "nrf_wifi_sys_fmac_add_key os i key mac s = Some (st, t) \<Longrightarrow> fsafe s0 s \<Longrightarrow> fsafe s0 t"
  unfolding nrf_wifi_sys_fmac_add_key_def
  by (split if_split_asm, simp, erule sys_begin_safe)
    (auto split: if_splits Option.bind_splits prod.splits; blast intro: safes)+

lemma del_key_safe [safes]: "nrf_wifi_sys_fmac_del_key os i key mac s = Some (st, t) \<Longrightarrow> fsafe s0 s \<Longrightarrow> fsafe s0 t"
  unfolding nrf_wifi_sys_fmac_del_key_def
  by (erule sys_begin_safe) (auto split: if_splits Option.bind_splits intro: safes)

lemma start_ap_safe [safes]: "nrf_wifi_sys_fmac_start_ap os i ap s = Some (st, t) \<Longrightarrow> fsafe s0 s \<Longrightarrow> fsafe s0 t"
  unfolding nrf_wifi_sys_fmac_start_ap_def Let_def
  by (erule sys_begin_safe) (auto split: if_splits Option.bind_splits prod.splits; blast intro: set_wiphy_safe peers_flush_safe cmd_cfg_safe falloc_safe)+

lemma stop_ap_safe [safes]: "nrf_wifi_sys_fmac_stop_ap os i s = Some (st, t) \<Longrightarrow> fsafe s0 s \<Longrightarrow> fsafe s0 t"
  unfolding nrf_wifi_sys_fmac_stop_ap_def
  by (erule sys_begin_safe) (auto split: Option.bind_splits intro: safes)

lemma vif_state_safe:
  "nrf_wifi_sys_fmac_chg_vif_state os env i vs s = Some (st, t) \<Longrightarrow> env_safe env \<Longrightarrow> fsafe s0 s \<Longrightarrow> fsafe s0 t"
  unfolding nrf_wifi_sys_fmac_chg_vif_state_def Let_def
  by (erule sys_begin_safe)
    (auto split: if_splits Option.bind_splits prod.splits; blast intro: ifflags_wait_safe cmd_cfg_safe fsafe_updates)+

lemma stats_get_safe:
  "nrf_wifi_sys_fmac_stats_get os env k stt s = Some (st, t) \<Longrightarrow> env_safe env \<Longrightarrow> fsafe s0 s \<Longrightarrow> fsafe s0 t"
  by (auto simp: nrf_wifi_sys_fmac_stats_get_def umac_cmd_sys_prog_stats_get_def
      split: if_splits Option.bind_splits prod.splits; blast intro: stats_get_wait_safe cmd_send_safe fsafe_updates)

lemma get_reg_safe:
  "nrf_wifi_fmac_get_reg os env ri s = Some (st, ri', t) \<Longrightarrow> env_safe env \<Longrightarrow> fsafe s0 s \<Longrightarrow> fsafe s0 t"
  by (auto simp: nrf_wifi_fmac_get_reg_def Let_def split: if_splits Option.bind_splits prod.splits;
      blast intro: get_reg_wait_safe cmd_cfg_safe falloc_safe fsafe_updates)

lemma set_reg_safe:
  "nrf_wifi_fmac_set_reg os env ri s = Some (st, t) \<Longrightarrow> env_safe env \<Longrightarrow> fsafe s0 s \<Longrightarrow> fsafe s0 t"
  by (auto simp: nrf_wifi_fmac_set_reg_def Let_def split: if_splits Option.bind_splits prod.splits;
      blast intro: get_reg_safe set_reg_wait_safe cmd_cfg_safe falloc_safe fsafe_updates)

lemma stats_reset_safe:
  "nrf_wifi_fmac_stats_reset os env s = Some (st, t) \<Longrightarrow> env_safe env \<Longrightarrow> fsafe s0 s \<Longrightarrow> fsafe s0 t"
  by (auto simp: nrf_wifi_fmac_stats_reset_def umac_cmd_prog_stats_reset_def Let_def
      split: if_splits Option.bind_splits prod.splits; blast intro: stats_wait_safe cmd_send_safe)

lemma guarded_safe [safes]:
  "nrf_wifi_sys_fmac_auth os i au s = Some (st, t) \<Longrightarrow> fsafe s0 s \<Longrightarrow> fsafe s0 t"
  "nrf_wifi_sys_fmac_set_vif_macaddr os i m s = Some (st, t) \<Longrightarrow> fsafe s0 s \<Longrightarrow> fsafe s0 t"
  "nrf_wifi_sys_fmac_get_interface os k s = Some (st, t) \<Longrightarrow> fsafe s0 s \<Longrightarrow> fsafe s0 t"
  "nrf_wifi_sys_fmac_get_wiphy os i s = Some (st, t) \<Longrightarrow> fsafe s0 s \<Longrightarrow> fsafe s0 t"
  "nrf_wifi_sys_fmac_register_frame os i frm s = Some (st, t) \<Longrightarrow> fsafe s0 s \<Longrightarrow> fsafe s0 t"
  "nrf_wifi_sys_fmac_twt_setup os i tw s = Some (st, t) \<Longrightarrow> fsafe s0 s \<Longrightarrow> fsafe s0 t"
  "nrf_wifi_sys_fmac_twt_teardown os i tw s = Some (st, t) \<Longrightarrow> fsafe s0 s \<Longrightarrow> fsafe s0 t"
  "nrf_wifi_sys_fmac_conf_ltf_gi os lt gi en s = Some (st, t) \<Longrightarrow> fsafe s0 s \<Longrightarrow> fsafe s0 t"
  by (auto simp: simple_cmd_defs split: if_splits option.splits intro: sys_simple_safe cmd_send_safe)

lemma mgmt_op_safe: "mgmt_op os s t \<Longrightarrow> fsafe s t"
  by (induction rule: mgmt_op.induct;
      (erule safes vif_state_safe stats_get_safe get_reg_safe set_reg_safe stats_reset_safe, (assumption | rule fsafe_refl)+
      | (unfold simple_cmd_defs, erule sys_simple_safe sys_msg_safe cmd_send_safe, rule fsafe_refl)))

section \<open>Events\<close>

lemma nbuf_alloc_safe [safes]:
  "osal_nbuf_alloc os n (hal_dev_ctx s) = (r, h) \<Longrightarrow> fsafe s0 s \<Longrightarrow> fsafe s0 (s\<lparr>hal_dev_ctx := h\<rparr>)"
  using fsafe_emit(5) [of s0 s] by (auto simp: osal_nbuf_alloc_def Let_def femit_def)

lemma map_rx_safe [safes]:
  "on_hal (nrf_wifi_sys_hal_buf_map_rx os mem buf len p b) s = Some (a, t) \<Longrightarrow> fsafe s0 s \<Longrightarrow> fsafe s0 t"
  using map_rx_fstep [of os mem buf len p b s a t UNIV] fsafe_then by blast

lemma data_cmd_safe [safes]:
  "on_hal (nrf_wifi_sys_hal_data_cmd_send os ty cmd d p) s = Some (st, t) \<Longrightarrow> fsafe s0 s \<Longrightarrow> fsafe s0 t"
  using data_cmd_fstep [of os ty cmd d p s st t UNIV] fsafe_then by blast

lemma unmap_rx_safe [safes]:
  "on_hal (\<lambda>h. Option.bind (nrf_wifi_sys_hal_buf_unmap_rx os n p b h) (\<lambda>(a, d, h). Some (f a d, h))) s = Some (r, t) \<Longrightarrow>
   fsafe s0 s \<Longrightarrow> fsafe s0 t"
  by (erule fsafe_on_hal [where L = UNIV], rule sat_bindI [OF buf_unmap_rx_step [of UNIV]]) auto

lemma rx_cmd_init_safe [safes]: "rx_cmd_init os d p b e s = Some (st, t) \<Longrightarrow> fsafe s0 s \<Longrightarrow> fsafe s0 t"
  unfolding rx_cmd_init_def Let_def
  by (auto split: if_splits option.splits prod.splits Option.bind_splits;
      blast intro: nbuf_alloc_safe map_rx_safe data_cmd_safe fsafe_updates)

lemma rx_cmd_safe [safes]: "nrf_wifi_fmac_rx_cmd_send os ty d s = Some (st, t) \<Longrightarrow> fsafe s0 s \<Longrightarrow> fsafe s0 t"
  unfolding nrf_wifi_fmac_rx_cmd_send_def
  by (auto split: if_splits option.splits prod.splits rx_cmd_type.splits Option.bind_split_asm
      intro: rx_cmd_init_safe unmap_rx_safe)

lemma rx_packet_safe [safes]: "rx_packet os c i s = Some (st, t) \<Longrightarrow> fsafe s0 s \<Longrightarrow> fsafe s0 t"
  unfolding rx_packet_def Let_def rx_deliver_def
  by (auto split: if_splits option.splits prod.splits Option.bind_split_asm;
      blast intro: rx_cmd_safe unmap_rx_safe fsafe_emit fsafe_updates)

lemma rx_packets_safe [safes]: "rx_packets os c ks st s = Some (r, t) \<Longrightarrow> fsafe s0 s \<Longrightarrow> fsafe s0 t"
proof (induction ks arbitrary: st s)
  case (Cons k ks)
  then obtain i u v where "rx_packet os c i s = Some (u, v)" "rx_packets os c ks u v = Some (r, t)"
    by (auto split: Option.bind_splits)
  with Cons show ?case by (blast intro: rx_packet_safe)
qed simp

lemma rx_event_safe [safes]: "nrf_wifi_fmac_rx_event_process os c s = Some (st, t) \<Longrightarrow> fsafe s0 s \<Longrightarrow> fsafe s0 t"
  by (auto simp: nrf_wifi_fmac_rx_event_process_def split: if_splits Option.bind_splits intro: rx_packets_safe)

lemma carr_safe [safes]:
  "nrf_wifi_fmac_if_carr_state_event_proc c mem p b s = Some (st, t) \<Longrightarrow> fsafe s0 s \<Longrightarrow> fsafe s0 t"
  by (auto simp: nrf_wifi_fmac_if_carr_state_event_proc_def Let_def split: if_splits Option.bind_splits)

lemma data_event_safe:
  assumes "nrf_wifi_fmac_data_event_process os c mem p s = Some (st, t)" "nodes_ok os" "fsafe s0 s"
  shows "fsafe s0 t"
proof -
  have tx: "fsafe s0 t" if "nrf_wifi_fmac_tx_done_event_process os d s = Some (st, t)" for d
    using fsafe_then [OF assms(3) tx_done_event_fstep [OF assms(2) that]] .
  have pm: "fsafe s0 t" if "sap_client_update_pmmode os m s = Some (st, t)" for m
    using fsafe_then [OF assms(3) update_pmmode_fstep [OF that assms(2)]] .
  have gf: "fsafe s0 t" if "sap_client_ps_get_frames os g s = Some (st, t)" for g
    using fsafe_then [OF assms(3) get_frames_fstep [OF that assms(2)]] .
  show ?thesis
    using assms(1,3) unfolding nrf_wifi_fmac_data_event_process_def
    by (auto split: if_splits Option.bind_splits intro: tx pm gf rx_event_safe carr_safe)
qed

lemma data_loop_safe:
  assumes "data_events_loop os c mem st left p s = Some r" "nodes_ok os" "fsafe s0 s"
  shows "fsafe s0 (snd r)"
proof -
  have "nodes_ok os \<longrightarrow> fsafe s0 s \<longrightarrow> fsafe s0 (snd r)"
  proof (rule data_events_loop.raw_induct [OF _ assms(1)])
    fix loop os c mem st left p s r
    assume IH: "\<And>os c mem st left p s r. loop os c mem st left p s = Some r \<Longrightarrow>
        nodes_ok os \<longrightarrow> fsafe s0 s \<longrightarrow> fsafe s0 (snd r)"
      and body: "(if \<not> 0 <s left then Some (st, s)
        else do {
          (st, s) \<leftarrow> nrf_wifi_fmac_data_event_process os c mem p s;
          if st \<noteq> SUCCESS then Some (st, s)
          else do { len \<leftarrow> mem_u32 mem (p + 4); loop os c mem st (left - len) (p + unat len) s }
        }) = Some r"
    show "nodes_ok os \<longrightarrow> fsafe s0 s \<longrightarrow> fsafe s0 (snd r)"
    proof (intro impI)
      assume n: "nodes_ok os" and s: "fsafe s0 s"
      show "fsafe s0 (snd r)"
      proof (cases "0 <s left")
        case True
        then obtain u v where e: "nrf_wifi_fmac_data_event_process os c mem p s = Some (u, v)"
          using body by (cases "nrf_wifi_fmac_data_event_process os c mem p s") auto
        have v: "fsafe s0 v" using data_event_safe [OF e n s] .
        show ?thesis
        proof (cases "u = SUCCESS")
          case u: True
          then obtain len where "loop os c mem u (left - len) (p + unat len) v = Some r"
            using body True e by (auto split: Option.bind_splits)
          with IH n v show ?thesis by blast
        qed (use body True e v in auto)
      qed (use body s in auto)
    qed
  qed
  with assms(2,3) show ?thesis by blast
qed

lemma data_events_safe [safes]:
  "nrf_wifi_fmac_data_events_process os c mem s = Some (st, t) \<Longrightarrow> nodes_ok os \<Longrightarrow> fsafe s0 s \<Longrightarrow> fsafe s0 t"
  unfolding nrf_wifi_fmac_data_events_process_def
  by (auto split: Option.bind_splits dest: data_loop_safe)

lemma peer_ops_safe [safes]:
  "nrf_wifi_fmac_peer_add os i mac l q s = Some (r, t) \<Longrightarrow> fsafe s0 s \<Longrightarrow> fsafe s0 t"
  "nrf_wifi_fmac_peer_remove os i p s = Some t \<Longrightarrow> fsafe s0 s \<Longrightarrow> fsafe s0 t"
  using peer_add_fstep [of os i mac l q s r t UNIV] peer_remove_fstep [of os i p s t UNIV] fsafe_then by blast+

lemma connect_safe: "umac_event_connect os mem s = Some t \<Longrightarrow> fsafe s0 s \<Longrightarrow> fsafe s0 t"
  unfolding umac_event_connect_def Let_def
  by (auto split: if_splits Option.bind_splits; blast intro: peer_ops_safe fsafe_updates)

lemma ctrl_event_safe: "umac_event_ctrl_process os c mem len s = Some (st, t) \<Longrightarrow> fsafe s0 s \<Longrightarrow> fsafe s0 t"
  unfolding umac_event_ctrl_process_def
  by (auto split: if_splits option.splits Option.bind_splits intro: connect_safe)

lemma sys_event_safe: "umac_event_sys_proc_events mem s = Some (st, t) \<Longrightarrow> fsafe s0 s \<Longrightarrow> fsafe s0 t"
  unfolding umac_event_sys_proc_events_def umac_event_sys_stats_process_def
  by (auto split: if_splits Option.bind_splits)

lemma event_callback_safe:
  assumes "nrf_wifi_sys_fmac_event_callback os c mem s = Some (st, t)" "nodes_ok os"
  shows "fsafe s t"
  using assms unfolding nrf_wifi_sys_fmac_event_callback_def
  by (auto split: if_splits Option.bind_splits intro: data_events_safe ctrl_event_safe sys_event_safe)

lemma irq_safe: "on_hal (nrf_wifi_hal_irq_handler os) s = Some (st, t) \<Longrightarrow> fsafe s t"
  by (erule fsafe_on_hal [where L = UNIV], rule hal_ok_sat [OF irq_handler_ok]) auto

section \<open>Histories of the system\<close>

text \<open>Any interleaving of the operations of the layer above (management commands, interfaces, frames), of the
  messages of the firmware and of the interrupts. An operation is a step, however it ends.\<close>

inductive fmac_history :: "os \<Rightarrow> nrf_wifi_fmac_callbk_fns \<Rightarrow> fmac \<Rightarrow> fmac \<Rightarrow> bool" for os c s where
  starts: "fmac_history os c s s"
| manages: "fmac_history os c s t \<Longrightarrow> mgmt_op os t u \<Longrightarrow> fmac_history os c s u"
| interfaces: "fmac_history os c s t \<Longrightarrow> vif_op os t u \<Longrightarrow> fmac_history os c s u"
| sends: "fmac_history os c s t \<Longrightarrow> nrf_wifi_fmac_start_xmit os ifi b t = Some (st, u) \<Longrightarrow> fmac_history os c s u"
| receives: "fmac_history os c s t \<Longrightarrow> nrf_wifi_sys_fmac_event_callback os c mem t = Some (st, u) \<Longrightarrow>
    fmac_history os c s u"
| interrupts: "fmac_history os c s t \<Longrightarrow> on_hal (nrf_wifi_hal_irq_handler os) t = Some (st, u) \<Longrightarrow>
    fmac_history os c s u"

lemma history_safe: "fmac_history os c s t \<Longrightarrow> nodes_ok os \<Longrightarrow> fsafe s t"
proof (induction rule: fmac_history.induct)
  case (manages t u)
  then show ?case using mgmt_op_safe fsafe_trans by blast
next
  case (interfaces t u)
  then show ?case using vif_op_fstep fsafe_fstep fsafe_trans by blast
next
  case (sends t ifi b st u)
  then show ?case using start_xmit_fstep(1) fsafe_fstep fsafe_trans by blast
next
  case (receives t mem st u)
  then show ?case using event_callback_safe fsafe_trans by blast
next
  case (interrupts t st u)
  then show ?case using irq_safe fsafe_trans by blast
qed simp


text \<open>A frame for a peer that sleeps, then the message INIT_DONE.\<close>

definition init_done_msg :: "u8 list" where
  "init_done_msg = le32_bytes 20 @ le32_bytes 0 @ le32_bytes 0 @ le32_bytes 1 @ le32_bytes 8"


end
