(* ===== verification/Fmac_Size.thy ===== *)
theory Fmac_Size
  imports Fmac_Dev Fmac_System
begin

text \<open>The sizes of the command messages: the packed encoding of every command has as many bytes as its
  structure in \<open>host_rpu_umac_if.h\<close>, so that the length in the header of a message, which the model
  takes from the bytes, is the \<open>sizeof\<close> of the code.\<close>

definition sends_cmd :: "os \<Rightarrow> nat \<Rightarrow> (fmac \<Rightarrow> (nrf_status \<times> fmac) option) \<Rightarrow> bool" where
  "sends_cmd os n f = (\<exists>c. f = sys_begin os (sys_cfg os c) \<and> length c = n)"

lemma sends_cmdI: "length c = n \<Longrightarrow> sends_cmd os n (sys_begin os (sys_cfg os c))"
  by (auto simp: sends_cmd_def)

lemma wdev_hdr_size [simp]: "length (wdev_hdr e i) = 36"
  by (simp add: wdev_hdr_def)

lemma auth_cmd_size: "nrf_wifi_umac_auth_info_wf au \<Longrightarrow> length (auth_cmd i au) = 1712"
  by (simp add: auth_cmd_def Let_def nrf_wifi_umac_auth_info_wf_def nrf_wifi_umac_key_info_wf_def)

lemma connect_zero_wf: "nrf_wifi_connect_common_info_wf connect_common_zero"
  by (simp add: connect_common_zero_def nrf_wifi_connect_common_info_wf_def nrf_wifi_ssid_wf_def nrf_wifi_ie_wf_def
      nrf_wifi_ht_vht_capabilities_wf_def)

lemma assoc_common_wf:
  "nrf_wifi_umac_assoc_info_wf asc \<Longrightarrow> nrf_wifi_connect_common_info_wf (assoc_common asc)"
  using connect_zero_wf
  by (auto simp: assoc_common_def Let_def nrf_wifi_umac_assoc_info_wf_def nrf_wifi_connect_common_info_wf_def)

lemma assoc_cmd_size: "nrf_wifi_umac_assoc_info_wf asc \<Longrightarrow> length (assoc_cmd i asc) = 1609"
  using assoc_common_wf by (simp add: assoc_cmd_def)

lemma key_cmd_size:
  "nrf_wifi_umac_key_info_wf key \<Longrightarrow> \<forall>m. mac = Some m \<longrightarrow> length m = 6 \<Longrightarrow> length (key_cmd e i key mac) = 581"
  by (cases mac) (simp_all add: key_cmd_def)

text \<open>The commands of an access point and of its stations.\<close>

lemma start_ap_size: "nrf_wifi_umac_start_ap_info_wf ap \<Longrightarrow> length (start_ap_cmd i ap) = 2863"
  by (simp add: start_ap_cmd_def Let_def nrf_wifi_umac_start_ap_info_wf_def start_ap_common_def
      nrf_wifi_connect_common_info_wf_def)

lemma station_sizes:
  "nrf_wifi_umac_chg_sta_info_wf cs \<Longrightarrow> sends_cmd os 829 (nrf_wifi_sys_fmac_chg_sta os i cs)"
  "nrf_wifi_umac_add_sta_info_wf ads \<Longrightarrow> sends_cmd os 829 (nrf_wifi_sys_fmac_add_sta os i ads)"
  "nrf_wifi_umac_set_beacon_info_wf bcn \<Longrightarrow> sends_cmd os 1216 (nrf_wifi_sys_fmac_chg_bcn os i bcn)"
  "nrf_wifi_umac_mgmt_tx_info_wf mt \<Longrightarrow> sends_cmd os 488 (nrf_wifi_sys_fmac_mgmt_tx os i mt)"
  unfolding simple_cmd_defs mgmt_tx_cmd_def Let_def
  by (intro sends_cmdI; simp add: nrf_wifi_umac_mgmt_tx_info_wf_def)+

lemma set_wiphy_size: "nrf_wifi_umac_set_wiphy_info_wf wp \<Longrightarrow> length (set_wiphy_cmd i wp) = 135"
  by (simp add: set_wiphy_cmd_def wiphy_mark_def Let_def nrf_wifi_umac_set_wiphy_info_wf_def)

lemma command_lengths:
  assumes "nrf_wifi_umac_auth_info_wf au" "nrf_wifi_umac_assoc_info_wf asc" "nrf_wifi_umac_key_info_wf key" "length mac = 6"
    and "nrf_wifi_umac_disconn_info_wf dis" "nrf_wifi_umac_del_sta_info_wf ds" "nrf_wifi_umac_bss_info_wf bss"
    and "nrf_wifi_umac_mgmt_frame_info_wf fr" "remain_on_channel_info_wf roc" "nrf_wifi_umac_mcast_cfg_wf mc"
  shows "length (auth_cmd i au) = 1712 \<and> length (assoc_cmd i asc) = 1609 \<and>
    length (key_cmd e i key (Some mac)) = 581 \<and> length (key_cmd e i (add_key_info key) None) = 581 \<and>
    sends_cmd os 571 (nrf_wifi_sys_fmac_set_key os i key) \<and>
    sends_cmd os 50 (nrf_wifi_sys_fmac_deauth os i dis) \<and> sends_cmd os 50 (nrf_wifi_sys_fmac_disassoc os i dis) \<and>
    sends_cmd os 49 (nrf_wifi_sys_fmac_del_sta os i ds) \<and> sends_cmd os 90 (nrf_wifi_sys_fmac_set_bss os i bss) \<and>
    sends_cmd os 50 (nrf_wifi_sys_fmac_mgmt_frame_reg os i fr) \<and>
    sends_cmd os 84 (nrf_wifi_sys_fmac_p2p_roc_start os i roc) \<and> sends_cmd os 48 (nrf_wifi_sys_fmac_p2p_roc_stop os i ck) \<and>
    sends_cmd os 46 (nrf_wifi_sys_fmac_set_mcast_addr os i mc) \<and> sends_cmd os 42 (nrf_wifi_sys_fmac_get_station os k mac)"
  (is "?a \<and> ?b \<and> ?c \<and> ?d \<and> ?rest")
proof -
  have d: "nrf_wifi_umac_key_info_wf (add_key_info key)"
    using assms(3) by (simp add: add_key_info_def nrf_wifi_umac_key_info_wf_def)
  have ?rest
    unfolding simple_cmd_defs disconn_cmd_def frame_reg_cmd_def roc_cmd_def
    by (intro conjI sends_cmdI)
      (use assms in \<open>simp_all add: nrf_wifi_umac_key_info_wf_def remain_on_channel_info_wf_def\<close>)
  then show ?thesis
    using auth_cmd_size [OF assms(1)] assoc_cmd_size [OF assms(2)] key_cmd_size [OF assms(3), of "Some mac"]
      key_cmd_size [OF d, of None] assms(4) by simp
qed

text \<open>Structures that are all zeroes, with arrays of the right lengths.\<close>

definition key_info_demo :: nrf_wifi_umac_key_info where
  "key_info_demo = \<lparr>ki_valid_fields = 0, ki_cipher_suite = 0x000FAC04, ki_flags = 0, ki_key_type = 0,
     ki_key = \<lparr>key_len = 16, key_key = replicate 256 0\<rparr>, ki_seq = \<lparr>seq_len = 6, seq_seq = replicate 256 0\<rparr>, ki_key_idx = 1\<rparr>"

definition auth_info_demo :: nrf_wifi_umac_auth_info where
  "auth_info_demo = \<lparr>au_frequency = 2437, au_flags = 0, au_auth_type = 0, au_key_info = key_info_demo,
     au_ssid = \<lparr>ssid_len = 3, ssid_ssid = replicate 32 0\<rparr>, au_ie = \<lparr>ie_len = 0, ie_ie = replicate 400 0\<rparr>,
     au_sae = \<lparr>sae_data_len = 0, sae_data = replicate 256 0\<rparr>, au_bssid = replicate 6 2, au_scan_width = 0, au_signal = 0,
     au_from_beacon = 0, au_bss_ie = \<lparr>ie_len = 0, ie_ie = replicate 400 0\<rparr>, au_capability = 0, au_beacon_interval = 100,
     au_tsf = 0\<rparr>"

definition assoc_info_demo :: nrf_wifi_umac_assoc_info where
  "assoc_info_demo = \<lparr>asc_center_frequency = 2437, asc_ssid = \<lparr>ssid_len = 3, ssid_ssid = replicate 32 0\<rparr>,
     asc_bssid = replicate 6 2, asc_wpa_ie = \<lparr>ie_len = 0, ie_ie = replicate 400 0\<rparr>, asc_use_mfp = 0, asc_control_port = 1,
     asc_prev_bssid_flag = 0, asc_prev_bssid = replicate 6 0, asc_bss_max_idle_time = 0, asc_conn_type = 1\<rparr>"

lemma infos_demo_wf: "nrf_wifi_umac_key_info_wf key_info_demo" "nrf_wifi_umac_auth_info_wf auth_info_demo"
  "nrf_wifi_umac_assoc_info_wf assoc_info_demo"
  by (simp_all add: key_info_demo_def auth_info_demo_def assoc_info_demo_def nrf_wifi_umac_key_info_wf_def nrf_wifi_key_wf_def
      nrf_wifi_seq_wf_def nrf_wifi_umac_auth_info_wf_def nrf_wifi_umac_assoc_info_wf_def nrf_wifi_ssid_wf_def
      nrf_wifi_ie_wf_def nrf_wifi_sae_wf_def)

end
