(* ===== verification/Fmac_Raw_Tx.thy ===== *)
theory Fmac_Raw_Tx
  imports Fmac_Event Fmac_Tx_Sched
begin

text \<open>The transmission of raw frames (\<open>NRF70_RAW_DATA_TX\<close>) in \<open>fw_if/umac_if/src/system/tx.c\<close>: the build
  adds to the transmit path a branch for frames that carry a header of their own, the parameter
  \<open>os_raw\<close>. A routine whose code the option changes has a second definition here with the
  suffix \<open>_raw\<close>; one that it does not change is the one of \<open>Fmac_Tx\<close>.\<close>

section \<open>State\<close>

text \<open>What the build adds to an interface, and to the device.\<close>

record raw_vif =
  vif_mode :: u8
  vif_channel :: u8
  txinjection_mode :: bool
  vif_packet_filter :: u8
  promisc_mode :: bool

record raw_tx_stats =
  raw_pkts_from_stack :: u32
  raw_pkt_send_failure :: u32
  raw_pkt_send_success :: u32

record raw_fmac =
  raw_base :: fmac
  raw_vifs :: "raw_vif list"
  raw_pkt_stats :: raw_tx_stats

record raw_tx_pkt_header =
  raw_data_rate :: u8
  raw_tx_mode :: u8
  raw_queue :: u8

text \<open>The header of a network buffer, kept by the OS: setting it takes it from the data, or fails.\<close>

record os_raw =
  nbuf_is_raw_tx :: "nbuf \<Rightarrow> bool"
  nbuf_set_raw_tx_hdr :: "nbuf \<Rightarrow> (nbuf \<times> raw_tx_pkt_header) option"
  nbuf_get_raw_tx_hdr :: "nbuf \<Rightarrow> raw_tx_pkt_header option"

definition on_base :: "(fmac \<Rightarrow> ('a \<times> fmac) option) \<Rightarrow> raw_fmac \<Rightarrow> ('a \<times> raw_fmac) option" where
  "on_base f s = do { (r, t) \<leftarrow> f (raw_base s); Some (r, s\<lparr>raw_base := t\<rparr>) }"

section \<open>Collecting pending frames\<close>

text \<open>A raw frame at the head of the queue of the pseudo peer comes first. The peer then keeps the
  value -1 that it was initialised with, and \<open>peers[-1]\<close> is read, which is undefined behaviour.\<close>

definition tx_aggr_check_raw :: "os_raw \<Rightarrow> os \<Rightarrow> nbuf \<Rightarrow> nat \<Rightarrow> int \<Rightarrow> fmac \<Rightarrow> bool option" where
  "tx_aggr_check_raw r os first_nwb ac peer s =
    (if peer < 0 then None
     else Some (\<not> nbuf_is_raw_tx r first_nwb \<and> tx_aggr_check os first_nwb ac (nat peer) s))"

fun pend_loop_raw :: "os_raw \<Rightarrow> os \<Rightarrow> nat \<Rightarrow> nat \<Rightarrow> nat \<Rightarrow> int \<Rightarrow> nbuf \<Rightarrow> u32 \<Rightarrow> nbuf list \<Rightarrow> fmac \<Rightarrow> fmac option" where
  "pend_loop_raw r os desc ac qp peer first_nwb ampdu_len [] s = Some s"
| "pend_loop_raw r os desc ac qp peer first_nwb ampdu_len (nwb # q) s =
    (let ampdu_len = ampdu_len + (TX_BUF_HEADROOM + nbuf_size nwb) in
     if word_sle (avail_ampdu_len_per_token s) ampdu_len \<or> \<not> can_xmit s nwb then Some s
     else do {
       ok \<leftarrow> tx_aggr_check_raw r os first_nwb ac peer s;
       if \<not> ok \<or> unat (max_tx_aggregation s) \<le> length (pkt (pkt_info s ! desc)) then Some s
       else pend_loop_raw r os desc ac qp peer first_nwb ampdu_len q (txq_add os desc nwb (pend_dequeue qp ac s))
     })"

definition collect_finish_raw :: "os \<Rightarrow> nat \<Rightarrow> nat \<Rightarrow> int \<Rightarrow> fmac \<Rightarrow> (nat \<times> fmac) option" where
  "collect_finish_raw os desc ac peer s =
    (if peer < 0
     then let len = length (pkt (pkt_info s ! desc)) in
       Some (len, if 0 < len then s\<lparr>pkt_info := (pkt_info s)[desc := (pkt_info s ! desc)\<lparr>pkt_peer_id := peer\<rparr>]\<rparr> else s)
     else collect_finish os desc ac (nat peer) s)"

definition collect_from :: "os_raw \<Rightarrow> os \<Rightarrow> nat \<Rightarrow> nat \<Rightarrow> nat \<Rightarrow> int \<Rightarrow> fmac \<Rightarrow> (nat \<times> fmac) option" where
  "collect_from r os desc ac qp peer s = do {
     q \<leftarrow> pend_at s qp ac;
     (case q of [] \<Rightarrow> Some (0, s)
      | first_nwb # _ \<Rightarrow> do {
          _ \<leftarrow> nth_opt (pkt_info s) desc;
          s \<leftarrow> pend_loop_raw r os desc ac qp peer first_nwb 0 q s;
          if pkt (pkt_info s ! desc) \<noteq> [] then collect_finish_raw os desc ac peer s
          else (case pend s qp ac of [] \<Rightarrow> Some (0, s)
            | nwb # _ \<Rightarrow>
                if \<not> can_xmit s nwb then Some (0, s)
                else collect_finish_raw os desc ac peer (txq_add os desc nwb (pend_dequeue qp ac s)))
        })
   }"

definition raw_pending :: "os_raw \<Rightarrow> nbuf list \<Rightarrow> bool" where
  "raw_pending r q = (case q of [] \<Rightarrow> False | nwb # _ \<Rightarrow> nbuf_is_raw_tx r nwb)"

definition tx_pending_collect_raw :: "os_raw \<Rightarrow> os \<Rightarrow> nat \<Rightarrow> nat \<Rightarrow> fmac \<Rightarrow> (nat \<times> fmac) option" where
  "tx_pending_collect_raw r os desc ac s = do {
     q \<leftarrow> pend_at s MAX_PEERS ac;
     if raw_pending r q then collect_from r os desc ac MAX_PEERS (-1) s
     else do {
       (p, s) \<leftarrow> tx_curr_peer_opp_get ac s;
       (case p of None \<Rightarrow> Some (0, s) | Some peer \<Rightarrow> collect_from r os desc ac peer (int peer) s)
     }
   }"

section \<open>The raw transmit command\<close>

abbreviation (input) NRF_WIFI_CMD_RAW_TX_PKT :: u32 where "NRF_WIFI_CMD_RAW_TX_PKT \<equiv> 0x13"

definition raw_tx_bytes :: "nat \<Rightarrow> u8 \<Rightarrow> raw_tx_pkt_header option \<Rightarrow> u16 \<times> u32 \<Rightarrow> u8 list" where
  "raw_tx_bytes desc vif_id h i = le32_bytes NRF_WIFI_CMD_RAW_TX_PKT @ le32_bytes 20 @ [vif_id]
     @ [case h of None \<Rightarrow> 0 | Some h \<Rightarrow> raw_queue h, of_nat desc] @ le16_bytes (fst i)
     @ [0, case h of None \<Rightarrow> 0 | Some h \<Rightarrow> raw_tx_mode h, case h of None \<Rightarrow> 0 | Some h \<Rightarrow> raw_data_rate h]
     @ le32_bytes (snd i)"

text \<open>The loop over the frames is that of \<open>tx_cmd_prep_callbk_fn\<close>, but each frame is written to the
  same place of the command, so that the last one stays.\<close>

definition rawtx_cmd_prep_loop :: "os \<Rightarrow> nat \<Rightarrow> nbuf list \<Rightarrow> fmac \<Rightarrow> (nrf_status \<times> (u16 \<times> u32) \<times> fmac) option" where
  "rawtx_cmd_prep_loop os desc txq s = do {
     (st, infos, s) \<leftarrow> tx_cmd_prep_loop os desc 0 txq s;
     Some (st, if infos = [] then (0, 0) else last infos, s)
   }"

definition rawtx_cmd_prepare ::
    "os_raw \<Rightarrow> os \<Rightarrow> nat \<Rightarrow> nbuf list \<Rightarrow> int \<Rightarrow> fmac \<Rightarrow> (nrf_status \<times> u8 list \<times> fmac) option" where
  "rawtx_cmd_prepare r os desc txq peer s =
    (if peer < 0 \<or> int (length (peers s)) \<le> peer then None
     else let vif_id = peer_if_idx (peers s ! nat peer) in do {
       _ \<leftarrow> nth_opt (vif_ctx s) (unat vif_id);
       (case txq of [] \<Rightarrow> Some (FAIL, [], s)
        | nwb # _ \<Rightarrow> do {
            _ \<leftarrow> nth_opt (send_pkt_coalesce_count s) desc;
            let h = (if nbuf_is_raw_tx r nwb then nbuf_get_raw_tx_hdr r nwb else None);
            (st, i, s) \<leftarrow> rawtx_cmd_prep_loop os desc txq
              (s\<lparr>send_pkt_coalesce_count := (send_pkt_coalesce_count s)[desc := of_nat (length txq)]\<rparr>);
            if st \<noteq> SUCCESS then Some (FAIL, [], s) else Some (SUCCESS, raw_tx_bytes desc vif_id h i, s)
          })
     })"

text \<open>The memory has room for one command per frame; only the first is filled.\<close>

definition rawtx_cmd_init :: "os_raw \<Rightarrow> os \<Rightarrow> nat \<Rightarrow> int \<Rightarrow> fmac \<Rightarrow> (nrf_status \<times> fmac) option" where
  "rawtx_cmd_init r os desc peer s = do {
     i \<leftarrow> nth_opt (pkt_info s) desc;
     let txq = pkt i;
     let (ok, s) = umac_cmd_alloc os s;
     if \<not> ok \<and> txq \<noteq> [] then None
     else do {
       (st, body, s) \<leftarrow> rawtx_cmd_prepare r os desc txq peer s;
       if st \<noteq> SUCCESS then Some (st, s)
       else do {
         (st, s) \<leftarrow> on_hal (nrf_wifi_hal_ctrl_cmd_send os (host_rpu_msg NRF_WIFI_HOST_RPU_MSG_TYPE_SYSTEM
           (body @ replicate (20 * (length txq - 1)) 0))) s;
         let s = nbufs_free txq s;
         Some (st, s\<lparr>pkt_info := (pkt_info s)[desc := (pkt_info s ! desc)\<lparr>pkt := []\<rparr>]\<rparr>)
       }
     }
   }"

definition tx_pending_process_raw :: "os_raw \<Rightarrow> os \<Rightarrow> nat \<Rightarrow> nat \<Rightarrow> fmac \<Rightarrow> (nrf_status \<times> fmac) option" where
  "tx_pending_process_raw r os desc ac s = do {
     (len, s) \<leftarrow> tx_pending_collect_raw r os desc ac s;
     if len = 0 then do { s \<leftarrow> tx_desc_free desc ac s; Some (SUCCESS, s) }
     else (case pkt (pkt_info s ! desc) of [] \<Rightarrow> Some (FAIL, s)
       | nwb # _ \<Rightarrow>
           if nbuf_is_raw_tx r nwb then rawtx_cmd_init r os desc (pkt_peer_id (pkt_info s ! desc)) s
           else tx_cmd_init os desc (nat (pkt_peer_id (pkt_info s ! desc))) s)
   }"

section \<open>Sending a raw frame\<close>

definition tx_locked_raw :: "os_raw \<Rightarrow> os \<Rightarrow> nbuf \<Rightarrow> nat \<Rightarrow> nat \<Rightarrow> fmac \<Rightarrow> (nrf_wifi_fmac_tx_status \<times> fmac) option" where
  "tx_locked_raw r os nbuf ac peer s =
    (if num_tx_tokens s = 0 then Some (NRF_WIFI_FMAC_TX_STATUS_FAIL, s)
     else do {
       (st, s) \<leftarrow> tx_process os nbuf ac peer s;
       if st \<noteq> NRF_WIFI_FMAC_TX_STATUS_SUCCESS then Some (st, s)
       else if \<not> can_xmit s nbuf then Some (NRF_WIFI_FMAC_TX_STATUS_QUEUED, s)
       else do {
         (desc, s) \<leftarrow> tx_desc_get ac s;
         if desc = unat (num_tx_tokens s) then Some (NRF_WIFI_FMAC_TX_STATUS_QUEUED, s)
         else do { (st, s) \<leftarrow> tx_pending_process_raw r os desc ac s; Some (tx_status_of st, s) }
       }
     })"

definition nrf_wifi_fmac_tx_raw ::
    "os_raw \<Rightarrow> os \<Rightarrow> nbuf \<Rightarrow> nat \<Rightarrow> nat \<Rightarrow> fmac \<Rightarrow> (nrf_wifi_fmac_tx_status \<times> fmac) option" where
  "nrf_wifi_fmac_tx_raw r os nbuf ac peer s = do {
     (st, s) \<leftarrow> tx_locked_raw r os nbuf ac peer (femit (IoLock LOCK_TX) s);
     Some (st, femit (IoUnlock LOCK_TX) s)
   }"

definition nrf_wifi_raw_pkt_mode_enabled :: "vif \<Rightarrow> bool" where
  "nrf_wifi_raw_pkt_mode_enabled v =
    (if_type v \<in> {NRF_WIFI_STA_TX_INJECTOR, NRF_WIFI_MONITOR_TX_INJECTOR, NRF_WIFI_STA_PROMISC_TX_INJECTOR})"

definition stats_add :: "u32 \<Rightarrow> u32 \<Rightarrow> u32 \<Rightarrow> raw_fmac \<Rightarrow> raw_fmac" where
  "stats_add a f g s = s\<lparr>raw_pkt_stats := (raw_pkt_stats s)
     \<lparr>raw_pkts_from_stack := raw_pkts_from_stack (raw_pkt_stats s) + a,
      raw_pkt_send_failure := raw_pkt_send_failure (raw_pkt_stats s) + f,
      raw_pkt_send_success := raw_pkt_send_success (raw_pkt_stats s) + g\<rparr>\<rparr>"

definition rawpkt_fail :: "nbuf \<Rightarrow> raw_fmac \<Rightarrow> nrf_status \<times> raw_fmac" where
  "rawpkt_fail nwb s = (FAIL, stats_add 0 1 0 (s\<lparr>raw_base := femit (IoNbufFree (nb_ptr nwb)) (raw_base s)\<rparr>))"

definition nrf_wifi_fmac_start_rawpkt_xmit ::
    "os_raw \<Rightarrow> os \<Rightarrow> nat \<Rightarrow> nbuf \<Rightarrow> raw_fmac \<Rightarrow> (nrf_status \<times> raw_fmac) option" where
  "nrf_wifi_fmac_start_rawpkt_xmit r os if_idx nwb s = do {
     let s = stats_add 1 0 0 s;
     v \<leftarrow> vif_at (raw_base s) if_idx;
     if \<not> nrf_wifi_raw_pkt_mode_enabled v then Some (rawpkt_fail nwb s)
     else (case nbuf_set_raw_tx_hdr r nwb of None \<Rightarrow> Some (rawpkt_fail nwb s)
       | Some (nwb, h) \<Rightarrow>
           if NRF_WIFI_FMAC_AC_MAX \<le> unat (raw_queue h) then Some (rawpkt_fail nwb s)
           else do {
             (st, s) \<leftarrow> on_base (nrf_wifi_fmac_tx_raw r os nwb (unat (raw_queue h)) MAX_PEERS) s;
             if st = NRF_WIFI_FMAC_TX_STATUS_FAIL then Some (rawpkt_fail nwb s)
             else Some (SUCCESS, stats_add 0 0 1 s)
           })
   }"

section \<open>Completion\<close>

fun req_free_loop_raw :: "os_raw \<Rightarrow> os \<Rightarrow> nat \<Rightarrow> nat \<Rightarrow> nat list \<Rightarrow> fmac \<Rightarrow> (nat \<times> fmac) option" where
  "req_free_loop_raw r os desc tx_done_q [] s = Some (0, s)"
| "req_free_loop_raw r os desc tx_done_q (ac # acs) s = do {
     (pkts_pend, s) \<leftarrow> tx_pending_collect_raw r os desc ac s;
     if pkts_pend = 0 then req_free_loop_raw r os desc tx_done_q acs s
     else if tx_done_q = ac then Some (pkts_pend, s)
     else do {
       let s = outstanding_add ac 1 (outstanding_add tx_done_q (-1) s);
       s \<leftarrow> clear_spare_desc_q_map desc tx_done_q s;
       s \<leftarrow> set_spare_desc_q_map desc ac s;
       Some (pkts_pend, s)
     }
   }"

definition tx_buff_req_free_raw :: "os_raw \<Rightarrow> os \<Rightarrow> nat \<Rightarrow> fmac \<Rightarrow> (nat \<times> fmac) option" where
  "tx_buff_req_free_raw r os desc s = do {
     (tx_done_q, acs) \<leftarrow> (if desc < reserved_descs s
       then Some (desc mod NRF_WIFI_FMAC_AC_MAX, [desc mod NRF_WIFI_FMAC_AC_MAX])
       else do { m \<leftarrow> get_spare_desc_q_map desc s; Some (spare_queue m, [3, 2, 1, 0]) });
     (pkts_pend, s) \<leftarrow> req_free_loop_raw r os desc tx_done_q acs s;
     if pkts_pend \<noteq> 0 then Some (pkts_pend, s)
     else do { s \<leftarrow> tx_desc_free desc tx_done_q s; Some (0, s) }
   }"

text \<open>The next command for a descriptor: a raw frame of a station that injects waits for the end of
  the TWT sleep, like the other frames; one of a monitor does not.\<close>

definition tx_next_raw :: "os_raw \<Rightarrow> os \<Rightarrow> nat \<Rightarrow> fmac \<Rightarrow> (nrf_status \<times> fmac) option" where
  "tx_next_raw r os desc s = do {
     i \<leftarrow> nth_opt (pkt_info s) desc;
     if \<not> raw_pending r (pkt i)
     then if twt_sleep_status s = NRF_WIFI_FMAC_TWT_STATE_AWAKE
       then tx_cmd_init os desc (nat (pkt_peer_id i)) s
       else Some (SUCCESS, s)
     else do {
       v \<leftarrow> vif_at s (unat (peer_if_idx (peers s ! MAX_PEERS)));
       if if_type v = NRF_WIFI_STA_TX_INJECTOR \<and> twt_sleep_status s = NRF_WIFI_FMAC_TWT_STATE_SLEEP
       then Some (SUCCESS, s)
       else rawtx_cmd_init r os desc (pkt_peer_id i) s
     }
   }"

definition tx_done_process_raw :: "os_raw \<Rightarrow> os \<Rightarrow> u8 \<Rightarrow> fmac \<Rightarrow> (nrf_status \<times> fmac) option" where
  "tx_done_process_raw r os tx_desc_num s =
    (if num_tx_tokens s < tx_desc_num then Some (FAIL, s)
     else let desc = unat tx_desc_num in do {
       n \<leftarrow> nth_opt (send_pkt_coalesce_count s) desc;
       (st, s) \<leftarrow> tx_unmap_loop desc [0..<unat n] s;
       if st \<noteq> SUCCESS then Some (FAIL, s)
       else do {
         (pkts_pending, s) \<leftarrow> tx_buff_req_free_raw r os desc s;
         if pkts_pending \<noteq> 0 then tx_next_raw r os desc s else Some (SUCCESS, s)
       }
     })"

text \<open>A frame that the firmware could not send is counted as a failure; it was counted as a success
  when it was queued.\<close>

definition nrf_wifi_fmac_rawtx_done_event_process ::
    "os_raw \<Rightarrow> os \<Rightarrow> u8 \<Rightarrow> u32 \<Rightarrow> raw_fmac \<Rightarrow> (nrf_status \<times> raw_fmac) option" where
  "nrf_wifi_fmac_rawtx_done_event_process r os desc_num status s =
    (if \<not> tx_lock (raw_base s) then Some (SUCCESS, s)
     else do {
       let s = s\<lparr>raw_base := femit (IoLock LOCK_TX) (raw_base s)\<rparr>;
       let s = (if status = -1 then stats_add 0 1 0 s else s);
       (st, s) \<leftarrow> on_base (tx_done_process_raw r os desc_num) s;
       Some (st, s\<lparr>raw_base := femit (IoUnlock LOCK_TX) (raw_base s)\<rparr>)
     })"

section \<open>Without raw frames\<close>

definition no_raw :: "os_raw \<Rightarrow> bool" where
  "no_raw r = (\<forall>b. \<not> nbuf_is_raw_tx r b)"

lemma raw_pending_none [simp]: "no_raw r \<Longrightarrow> \<not> raw_pending r q"
  by (simp add: no_raw_def raw_pending_def split: list.splits)

lemma pend_loop_agrees:
  "no_raw r \<Longrightarrow> pend_loop_raw r os d ac p (int p) f n q s = Some (pend_loop os d ac p f n q s)"
  by (induction q arbitrary: n s) (auto simp: Let_def tx_aggr_check_raw_def no_raw_def)

lemma collect_agrees:
  assumes "no_raw r" "pend_at s MAX_PEERS ac \<noteq> None"
  shows "tx_pending_collect_raw r os d ac s = tx_pending_collect os d ac s"
proof -
  obtain q where "pend_at s MAX_PEERS ac = Some q" using assms(2) by auto
  then show ?thesis
    by (auto simp: tx_pending_collect_raw_def tx_pending_collect_def collect_from_def collect_finish_raw_def assms(1)
        pend_loop_agrees [OF assms(1)] Let_def simp del: pend_loop.simps pend_loop_raw.simps
        split: option.splits list.splits intro!: bind_option_cong)
qed

lemma collect_pkts:
  assumes "tx_pending_collect os d ac s = Some (n, t)" "n \<noteq> 0"
  shows "pkt (pkt_info t ! d) \<noteq> []"
proof -
  have fin: "pkt (pkt_info v ! d) \<noteq> []" if "collect_finish os d ac p u = Some (n, v)" "d < length (pkt_info u)" for p u v
    using finish_frame [OF that(1)] assms(2) that(2) by auto
  obtain p u where p: "tx_curr_peer_opp_get ac s = Some (p, u)"
    using assms(1) by (auto simp: tx_pending_collect_def split: Option.bind_splits)
  then obtain peer f q where c: "p = Some peer" "pend_at u peer ac = Some (f # q)" "d < length (pkt_info u)"
    using assms by (auto simp: tx_pending_collect_def nth_opt_def split: Option.bind_splits option.splits list.splits if_splits)
  let ?v = "pend_loop os d ac peer f 0 (f # q) u"
  have l: "length (pkt_info (pend_loop os d ac peer f k q u)) = length (pkt_info u)" for k q u
    by (induction q arbitrary: k u) (auto simp: Let_def txq_add_def pend_dequeue_def falloc_def femit_def pend_put_def split: prod.splits)
  have "d < length (pkt_info ?v)" using l c(3) by (simp del: pend_loop.simps)
  moreover have "length (pkt_info (txq_add os d b (pend_dequeue peer ac u))) = length (pkt_info u)" for b u
    by (auto simp: Let_def txq_add_def pend_dequeue_def falloc_def femit_def pend_put_def split: prod.splits)
  moreover have "(if pkt (pkt_info ?v ! d) \<noteq> [] then collect_finish os d ac peer ?v
      else case pend ?v peer ac of [] \<Rightarrow> Some (0, ?v)
       | nwb # _ \<Rightarrow> if \<not> can_xmit ?v nwb then Some (0, ?v)
           else collect_finish os d ac peer (txq_add os d nwb (pend_dequeue peer ac ?v))) = Some (n, t)"
    using assms(1) p c by (simp add: tx_pending_collect_def nth_opt_def Let_def del: pend_loop.simps)
  ultimately show ?thesis
    using fin assms(2) by (auto split: if_splits list.splits simp del: pend_loop.simps)
qed

lemma pending_process_agrees:
  assumes "no_raw r" "pend_at s MAX_PEERS ac \<noteq> None"
  shows "tx_pending_process_raw r os d ac s = tx_pending_process os d ac s"
proof (cases "tx_pending_collect os d ac s")
  case (Some p)
  obtain n t where p: "p = (n, t)" by (cases p)
  have "pkt (pkt_info t ! d) \<noteq> []" if "n \<noteq> 0" using collect_pkts Some p that by blast
  then show ?thesis
    using assms(1) Some p
    by (auto simp: tx_pending_process_raw_def tx_pending_process_def collect_agrees [OF assms] no_raw_def split: list.splits)
qed (simp add: tx_pending_process_raw_def tx_pending_process_def collect_agrees [OF assms])

text \<open>C14 The build with raw transmission handles the other frames as the build without it does: when no frame is
  raw, and queue nodes can be allocated, \<open>nrf_wifi_fmac_tx\<close> has the same result and leaves the same state in both.\<close>

theorem raw_build_agrees:
  assumes "no_raw r" "nodes_ok os" "tables_ok s" "ac < NRF_WIFI_FMAC_AC_MAX"
  shows "nrf_wifi_fmac_tx_raw r os b ac peer s = nrf_wifi_fmac_tx os b ac peer s"
proof -
  have at: "pend_at u MAX_PEERS ac \<noteq> None" if "tables_ok u" for u
    using tables_ok_at [OF that _ assms(4)] by simp
  have "tx_locked_raw r os b ac peer u = tx_locked os b ac peer u" if u: "tables_ok u" for u
  proof -
    have "tx_pending_process_raw r os d ac w = tx_pending_process os d ac w"
      if p: "tx_process os b ac peer u = Some (st, v)" and g: "tx_desc_get ac v = Some (d, w)" for st v d w
    proof -
      have "\<exists>x. fstep tx_locks x u v"
        using tx_process_fstep [OF assms(2) p, of tx_locks "{#}" u] by (auto split: if_splits intro: fstep_refl)
      then obtain x where "fstep tx_locks x u v" by blast
      from desc_get_fstep [OF g this] have "tables_ok w" using u by (simp add: fstep_tables)
      then show ?thesis using pending_process_agrees assms(1) at by blast
    qed
    then show ?thesis
      by (auto simp: tx_locked_raw_def tx_locked_def intro!: bind_option_cong split: prod.splits)
  qed
  moreover have "tables_ok (femit e s)" for e using assms(3) by (simp add: tables_ok_def femit_def)
  ultimately show ?thesis by (simp add: nrf_wifi_fmac_tx_raw_def nrf_wifi_fmac_tx_def)
qed

section \<open>With raw frames\<close>

text \<open>A raw frame that reaches the head of its queue while the device is awake is never sent in a
  defined way: either its aggregation is tested or its command is built for the peer -1.\<close>

definition plain_frames :: os_raw where
  "plain_frames = \<lparr>nbuf_is_raw_tx = \<lambda>_. False, nbuf_set_raw_tx_hdr = \<lambda>_. None, nbuf_get_raw_tx_hdr = \<lambda>_. None\<rparr>"

theorem raw_build_agrees_witness:
  "nrf_wifi_fmac_tx_raw plain_frames demo_os ip_frame 1 0 tx_demo_ps = nrf_wifi_fmac_tx demo_os ip_frame 1 0 tx_demo_ps"
proof -
  have "no_raw plain_frames" by (simp add: no_raw_def plain_frames_def)
  then show ?thesis using raw_build_agrees [OF _ nodes_ok_demo demo_ready(3)] by simp
qed

lemma raw_collect:
  assumes "pend_at s MAX_PEERS ac = Some (f # q)" "nbuf_is_raw_tx r f" "can_xmit s f" "pkt (pkt_info s ! d) = []"
    and "tx_pending_collect_raw r os d ac s = Some (n, t)" "d < length (pkt_info s)" "nodes_ok os"
  shows "0 < n \<and> pkt_info t ! d = \<lparr>pkt = [f], pkt_peer_id = -1\<rparr> \<and> d < length (pkt_info t)"
proof -
  have "pend s MAX_PEERS ac = f # q" using pend_in_range [OF assms(1)] by simp
  moreover from this have "can_xmit s f" "pkt (pkt_info s ! d) = []" using assms(3,4) by simp_all
  ultimately show ?thesis
    using assms(1,2,5-7)
    by (auto simp: tx_pending_collect_raw_def raw_pending_def collect_from_def nth_opt_def Let_def
        tx_aggr_check_raw_def collect_finish_raw_def txq_add_def falloc_node pend_dequeue_def pend_put_def femit_def
        split: if_splits)
qed

theorem raw_frame_undefined:
  assumes "pend_at s MAX_PEERS ac = Some (f # q)" "nbuf_is_raw_tx r f" "can_xmit s f" "pkt (pkt_info s ! d) = []"
    and "nodes_ok os" "d < length (pkt_info s)"
  shows "tx_pending_process_raw r os d ac s = None"
proof (cases "tx_pending_collect_raw r os d ac s")
  case (Some p)
  obtain n t where p: "p = (n, t)" by (cases p)
  from raw_collect [OF assms(1-4) Some [unfolded p] assms(6,5)] assms(2) show ?thesis
    by (auto simp: tx_pending_process_raw_def Some p rawtx_cmd_init_def rawtx_cmd_prepare_def nth_opt_def Let_def
        split: prod.splits)
qed (simp add: tx_pending_process_raw_def)

text \<open>The counters: every frame from the stack that is dealt with is counted as a success or as a
  failure, never both.\<close>

definition raw_balance :: "raw_fmac \<Rightarrow> u32" where
  "raw_balance s = raw_pkts_from_stack (raw_pkt_stats s)
     - (raw_pkt_send_failure (raw_pkt_stats s) + raw_pkt_send_success (raw_pkt_stats s))"

lemma balance_simps [simp]:
  "raw_balance (stats_add a f g s) = raw_balance s + a - (f + g)"
  "raw_balance (s\<lparr>raw_base := t\<rparr>) = raw_balance s" "raw_balance (s\<lparr>raw_vifs := v\<rparr>) = raw_balance s"
  by (simp_all add: raw_balance_def stats_add_def)

lemma on_base_balance: "on_base f s = Some (x, t) \<Longrightarrow> raw_balance t = raw_balance s"
  by (auto simp: on_base_def split: Option.bind_splits)

theorem rawpkt_counted:
  assumes "nrf_wifi_fmac_start_rawpkt_xmit r os i b s = Some (st, t)"
  shows "raw_balance t = raw_balance s"
  using assms
  by (auto simp: nrf_wifi_fmac_start_rawpkt_xmit_def rawpkt_fail_def Let_def dest!: on_base_balance
      split: Option.bind_splits if_splits option.splits prod.splits)

text \<open>The event of a frame that could not be sent counts it a second time.\<close>

theorem rawtx_done_counts_twice:
  assumes "nrf_wifi_fmac_rawtx_done_event_process r os d (-1) s = Some (st, t)" "tx_lock (raw_base s)"
  shows "raw_balance t = raw_balance s - 1"
  using assms
  by (auto simp: nrf_wifi_fmac_rawtx_done_event_process_def Let_def dest!: on_base_balance split: Option.bind_splits)

end
