(* ===== verification/Fmac_Raw_Ev.thy ===== *)
theory Fmac_Raw_Ev
  imports Fmac_Raw_Tx
begin

text \<open>The raw modes of the system build, from the side of the firmware: the events that switch an
  interface to injection, monitoring or promiscuous reception (\<open>system/fmac_event.c\<close>), and the
  reception of frames in these modes (\<open>system/rx.c\<close>). Besides \<open>NRF70_RAW_DATA_TX\<close> the
  options \<open>NRF70_RAW_DATA_RX\<close> and \<open>NRF70_PROMISC_DATA_RX\<close> are on.\<close>

section \<open>The mode of an interface\<close>

abbreviation (input) NRF_WIFI_STA_MODE :: u8 where "NRF_WIFI_STA_MODE \<equiv> 1"
abbreviation (input) NRF_WIFI_MONITOR_MODE :: u8 where "NRF_WIFI_MONITOR_MODE \<equiv> 2"
abbreviation (input) NRF_WIFI_TX_INJECTION_MODE :: u8 where "NRF_WIFI_TX_INJECTION_MODE \<equiv> 4"
abbreviation (input) NRF_WIFI_PROMISCUOUS_MODE :: u8 where "NRF_WIFI_PROMISCUOUS_MODE \<equiv> 8"

text \<open>What the code makes of a mode: the type of the interface, injection, promiscuous reception; a mode
  with neither the station nor the monitor bit leaves the type as it is.\<close>

definition mode_kind :: "u8 \<Rightarrow> (nrf_wifi_iftype \<times> bool \<times> bool) option" where
  "mode_kind m =
    (if m AND NRF_WIFI_STA_MODE = NRF_WIFI_STA_MODE then
       let m = m XOR NRF_WIFI_STA_MODE in
       Some (if m XOR (NRF_WIFI_PROMISCUOUS_MODE OR NRF_WIFI_TX_INJECTION_MODE) = 0
             then (NRF_WIFI_STA_PROMISC_TX_INJECTOR, True, True)
             else if m XOR NRF_WIFI_TX_INJECTION_MODE = 0 then (NRF_WIFI_STA_TX_INJECTOR, True, False)
             else if m XOR NRF_WIFI_PROMISCUOUS_MODE = 0 then (NRF_WIFI_STA_PROMISC, False, True)
             else (NRF_WIFI_IFTYPE_STATION, False, False))
     else if m AND NRF_WIFI_MONITOR_MODE = NRF_WIFI_MONITOR_MODE then
       let m = m XOR NRF_WIFI_MONITOR_MODE in
       Some (if m XOR NRF_WIFI_TX_INJECTION_MODE = 0 then (NRF_WIFI_MONITOR_TX_INJECTOR, True, False)
             else (NRF_WIFI_IFTYPE_MONITOR, False, False))
     else None)"

text \<open>The pseudo peer of the injected frames is the interface that injects; else it is none, and the
  index -1 of its interface is 255.\<close>

definition mode_peer :: "u8 \<Rightarrow> bool \<Rightarrow> fmac \<Rightarrow> fmac" where
  "mode_peer if_idx inject s = peer_put MAX_PEERS ((peers s ! MAX_PEERS)
     \<lparr>peer_id := (if inject then int MAX_PEERS else -1), peer_if_idx := (if inject then if_idx else 255)\<rparr>) s"

definition raw_vif_put :: "nat \<Rightarrow> raw_vif \<Rightarrow> raw_fmac \<Rightarrow> raw_fmac" where
  "raw_vif_put i v s = s\<lparr>raw_vifs := (raw_vifs s)[i := v]\<rparr>"

definition mode_apply :: "u8 \<Rightarrow> u8 \<Rightarrow> vif \<Rightarrow> raw_vif \<Rightarrow> raw_fmac \<Rightarrow> raw_fmac" where
  "mode_apply if_idx mode v rv s =
    (case mode_kind mode of
       None \<Rightarrow> raw_vif_put (unat if_idx) (rv\<lparr>vif_mode := mode, txinjection_mode := False, promisc_mode := False\<rparr>) s
     | Some (ty, inject, promisc) \<Rightarrow>
         raw_vif_put (unat if_idx) (rv\<lparr>vif_mode := mode, txinjection_mode := inject, promisc_mode := promisc\<rparr>)
           (s\<lparr>raw_base := mode_peer if_idx inject (vif_put (unat if_idx) (v\<lparr>if_type := ty\<rparr>) (raw_base s))\<rparr>))"

definition nrf_wifi_fmac_if_mode_set_event_proc :: "u8 list \<Rightarrow> raw_fmac \<Rightarrow> (nrf_status \<times> raw_fmac) option" where
  "nrf_wifi_fmac_if_mode_set_event_proc mem s = do {
     if_idx \<leftarrow> nth_opt mem (HOST_RPU_MSG_SIZE + 8);
     _ \<leftarrow> nth_opt (vif_ctx (raw_base s)) (unat if_idx);
     status \<leftarrow> mem_u32 mem (HOST_RPU_MSG_SIZE + 10);
     if status \<noteq> 0 then Some (FAIL, s)
     else do {
       op_mode \<leftarrow> nth_opt mem (HOST_RPU_MSG_SIZE + 9);
       v \<leftarrow> vif_at (raw_base s) (unat if_idx);
       rv \<leftarrow> nth_opt (raw_vifs s) (unat if_idx);
       Some (SUCCESS, mode_apply if_idx op_mode v rv s)
     }
   }"

section \<open>System events\<close>

abbreviation (input) NRF_WIFI_EVENT_CHANNEL_SET_DONE :: u32 where "NRF_WIFI_EVENT_CHANNEL_SET_DONE \<equiv> 8"
abbreviation (input) NRF_WIFI_EVENT_MODE_SET_DONE :: u32 where "NRF_WIFI_EVENT_MODE_SET_DONE \<equiv> 9"
abbreviation (input) NRF_WIFI_EVENT_FILTER_SET_DONE :: u32 where "NRF_WIFI_EVENT_FILTER_SET_DONE \<equiv> 10"
abbreviation (input) NRF_WIFI_EVENT_RAW_TX_DONE :: u32 where "NRF_WIFI_EVENT_RAW_TX_DONE \<equiv> 11"

text \<open>A setting of the interface is stored when the status of its event is 0; the number of a channel is
  cut to 8 bits.\<close>

definition vif_setting :: "u8 list \<Rightarrow> nat \<Rightarrow> (raw_vif \<Rightarrow> raw_vif option) \<Rightarrow> raw_fmac \<Rightarrow> (nrf_status \<times> raw_fmac) option" where
  "vif_setting mem status_at f s = do {
     status \<leftarrow> mem_u32 mem status_at;
     if status \<noteq> 0 then Some (SUCCESS, s)
     else do {
       if_idx \<leftarrow> nth_opt mem (HOST_RPU_MSG_SIZE + 8);
       _ \<leftarrow> vif_at (raw_base s) (unat if_idx);
       rv \<leftarrow> nth_opt (raw_vifs s) (unat if_idx);
       rv \<leftarrow> f rv;
       Some (SUCCESS, raw_vif_put (unat if_idx) rv s)
     }
   }"

definition umac_event_sys_proc_events_raw ::
    "os_raw \<Rightarrow> os \<Rightarrow> u8 list \<Rightarrow> raw_fmac \<Rightarrow> (nrf_status \<times> raw_fmac) option" where
  "umac_event_sys_proc_events_raw r os mem s = do {
     cmd_event \<leftarrow> mem_u32 mem HOST_RPU_MSG_SIZE;
     if cmd_event = NRF_WIFI_EVENT_RAW_TX_DONE then do {
       desc_num \<leftarrow> nth_opt mem (HOST_RPU_MSG_SIZE + 8);
       status \<leftarrow> mem_u32 mem (HOST_RPU_MSG_SIZE + 9);
       nrf_wifi_fmac_rawtx_done_event_process r os desc_num status s
     }
     else if cmd_event = NRF_WIFI_EVENT_MODE_SET_DONE then nrf_wifi_fmac_if_mode_set_event_proc mem s
     else if cmd_event = NRF_WIFI_EVENT_CHANNEL_SET_DONE then
       vif_setting mem (HOST_RPU_MSG_SIZE + 13)
         (\<lambda>rv. do { ch \<leftarrow> mem_u32 mem (HOST_RPU_MSG_SIZE + 9); Some (rv\<lparr>vif_channel := ucast ch\<rparr>) }) s
     else if cmd_event = NRF_WIFI_EVENT_FILTER_SET_DONE then
       vif_setting mem (HOST_RPU_MSG_SIZE + 12)
         (\<lambda>rv. do { fl \<leftarrow> nth_opt mem (HOST_RPU_MSG_SIZE + 9); Some (rv\<lparr>vif_packet_filter := fl\<rparr>) }) s
     else on_base (umac_event_sys_proc_events mem) s
   }"

section \<open>Reception\<close>

text \<open>The header that goes with a frame to the sniffer: frequency, signal, flags of the rate and rate of the
  receive event.\<close>

record raw_rx_pkt_header =
  rrx_frequency :: u16
  rrx_signal :: u16
  rrx_rate_flags :: u8
  rrx_rate :: u8

definition raw_rx_hdr_at :: "u8 list \<Rightarrow> nat \<Rightarrow> raw_rx_pkt_header option" where
  "raw_rx_hdr_at mem p = do {
     f \<leftarrow> mem_u16 mem (p + 16);
     g \<leftarrow> mem_u16 mem (p + 18);
     fl \<leftarrow> nth_opt mem (p + 10);
     ra \<leftarrow> nth_opt mem (p + 11);
     Some \<lparr>rrx_frequency = f, rrx_signal = g, rrx_rate_flags = fl, rrx_rate = ra\<rparr>
   }"

definition raw_rx_hdr_bytes :: "raw_rx_pkt_header \<Rightarrow> u8 list" where
  "raw_rx_hdr_bytes h = le16_bytes (rrx_frequency h) @ le16_bytes (rrx_signal h) @ [rrx_rate_flags h, rrx_rate h]"

definition sniff :: "rx_buff \<Rightarrow> raw_rx_pkt_header \<Rightarrow> nbuf \<Rightarrow> bool \<Rightarrow> fmac \<Rightarrow> fmac" where
  "sniff c h b pkt_free s = femit (IoFmacCallback CB_sniffer (rx_wdev_id c)
     (le32_bytes (nb_ptr b) @ nb_data b @ raw_rx_hdr_bytes h @ [of_bool pkt_free])) s"

definition frame_control :: "os \<Rightarrow> nbuf \<Rightarrow> u16" where
  "frame_control os b = (let bs = nbuf_bytes os b 0 2 in ucast (bs ! 0) OR push_bit 8 (ucast (bs ! 1)))"

text \<open>What becomes of a received frame, by the type of its event: the frame that goes on to the stack, if
  the type is one of data, and whether the packet was dealt with.\<close>

definition rx_dispose_raw :: "os \<Rightarrow> rx_buff \<Rightarrow> raw_rx_pkt_header \<Rightarrow> raw_vif \<Rightarrow> u8 \<Rightarrow> nbuf \<Rightarrow> fmac \<Rightarrow> bool \<times> fmac" where
  "rx_dispose_raw os c h rv ty b s =
    (let pass = nrf_wifi_util_check_filt_setting (vif_packet_filter rv) (frame_control os b) in
     if rx_pkt_type c = NRF_WIFI_RX_PKT_DATA then
       let s = (if promisc_mode rv \<and> pass then sniff c h b False s else s) in
       (case rx_to_eth os c ty b of None \<Rightarrow> (False, s) | Some b \<Rightarrow> (True, rx_deliver c b s))
     else if rx_pkt_type c = NRF_WIFI_RX_PKT_BCN_PRB_RSP then (True, femit (IoNbufFree (nb_ptr b)) s)
     else if rx_pkt_type c = NRF_WIFI_RAW_RX_PKT then
       (True, if pass then sniff c h b True s else femit (IoNbufFree (nb_ptr b)) s)
     else (False, femit (IoNbufFree (nb_ptr b)) s))"

text \<open>The interface is followed only for a packet that was read.\<close>

definition rx_packet_raw ::
    "os \<Rightarrow> rx_buff \<Rightarrow> raw_rx_pkt_header \<Rightarrow> raw_vif option \<Rightarrow> rx_buff_info \<Rightarrow> fmac \<Rightarrow> (nrf_status \<times> fmac) option" where
  "rx_packet_raw os c h vp i s =
    (let desc_id = ucast (descriptor_id i); pkt_len = rx_pkt_len i in
     if num_rx_bufs s \<le> desc_id then Some (FAIL, s)
     else case nrf_wifi_fmac_map_desc_to_pool desc_id s of
       None \<Rightarrow> Some (FAIL, s)
     | Some (pool_id, buf_id) \<Rightarrow> do {
         (r, s) \<leftarrow> on_hal (\<lambda>h. do {
           (a, d, h) \<leftarrow> nrf_wifi_sys_hal_buf_unmap_rx os (ucast pkt_len) pool_id buf_id h; Some ((a, d), h) }) s;
         if fst r = 0 then Some (FAIL, s)
         else do {
           tbl \<leftarrow> fmac_rx_info s;
           e \<leftarrow> nth_opt tbl (unat desc_id);
           b \<leftarrow> buf_nwb e;
           rv \<leftarrow> vp;
           let (ok, s) = rx_dispose_raw os c h rv (pkt_type i) (rx_filled os (snd r) (unat pkt_len) b)
             (rx_info_put (unat desc_id) fmac_unmapped s);
           if ok then nrf_wifi_fmac_rx_cmd_send os NRF_WIFI_FMAC_RX_CMD_TYPE_INIT desc_id s else Some (FAIL, s)
         }
       })"

fun rx_packets_raw ::
    "os \<Rightarrow> rx_buff \<Rightarrow> raw_rx_pkt_header \<Rightarrow> raw_vif option \<Rightarrow> nat list \<Rightarrow> nrf_status \<Rightarrow> fmac \<Rightarrow> (nrf_status \<times> fmac) option" where
  "rx_packets_raw os c h vp [] st s = Some (st, s)"
| "rx_packets_raw os c h vp (k # ks) st s = do {
     i \<leftarrow> nth_opt (rx_buff_infos c) k;
     (st, s) \<leftarrow> rx_packet_raw os c h vp i s;
     rx_packets_raw os c h vp ks st s
   }"

definition nrf_wifi_fmac_rx_event_process_raw ::
    "os \<Rightarrow> rx_buff \<Rightarrow> raw_rx_pkt_header \<Rightarrow> raw_fmac \<Rightarrow> (nrf_status \<times> raw_fmac) option" where
  "nrf_wifi_fmac_rx_event_process_raw os c h s = do {
     _ \<leftarrow> nth_opt (vif_ctx (raw_base s)) (unat (rx_wdev_id c));
     let vp = do { _ \<leftarrow> vif_at (raw_base s) (unat (rx_wdev_id c)); nth_opt (raw_vifs s) (unat (rx_wdev_id c)) };
     s \<leftarrow> (if rx_pkt_type c = NRF_WIFI_RAW_RX_PKT then Some s
        else do {
          _ \<leftarrow> vp;
          Some (s\<lparr>raw_base := femit (IoFmacCallback CB_process_rssi_from_rx (rx_wdev_id c) (le16_bytes (rx_signal c)))
            (raw_base s)\<rparr>)
        });
     on_base (rx_packets_raw os c h vp [0..<unat (rx_pkt_cnt c)] FAIL) s
   }"

section \<open>Properties\<close>

text \<open>A mode decides type and flags of its interface consistently: it injects when the transmission of raw
  frames is enabled for the type.\<close>

lemma mode_kind_flags:
  assumes "mode_kind m = Some (ty, inject, promisc)"
  shows "if_type v = ty \<Longrightarrow> inject \<longleftrightarrow> nrf_wifi_raw_pkt_mode_enabled v"
    and "promisc \<longleftrightarrow> ty \<in> {NRF_WIFI_STA_PROMISC, NRF_WIFI_STA_PROMISC_TX_INJECTOR}"
  using assms by (auto simp: mode_kind_def nrf_wifi_raw_pkt_mode_enabled_def Let_def split: if_splits)

definition injects :: "raw_fmac \<Rightarrow> nat \<Rightarrow> bool" where
  "injects s i = (case vif_at (raw_base s) i of None \<Rightarrow> False | Some v \<Rightarrow> nrf_wifi_raw_pkt_mode_enabled v)"

theorem mode_set_consistent:
  assumes "nrf_wifi_fmac_if_mode_set_event_proc mem s = Some (SUCCESS, t)" "length (peers (raw_base s)) = MAX_SW_PEERS"
    and "m = mem ! 21" "i = unat (mem ! 20)" "m AND 1 = 1 \<or> m AND 2 = 2"
  shows "vif_mode (raw_vifs t ! i) = m" "txinjection_mode (raw_vifs t ! i) \<longleftrightarrow> injects t i"
    "injects t i \<Longrightarrow> peer_id (peers (raw_base t) ! MAX_PEERS) = int MAX_PEERS \<and>
       unat (peer_if_idx (peers (raw_base t) ! MAX_PEERS)) = i"
    "\<not> injects t i \<Longrightarrow> peer_id (peers (raw_base t) ! MAX_PEERS) = -1"
proof -
  obtain v rv where e: "vif_at (raw_base s) i = Some v" "i < length (raw_vifs s)" "rv = raw_vifs s ! i"
      and t: "t = mode_apply (mem ! 20) m v rv s"
    using assms(1,3,4) by (auto simp: nrf_wifi_fmac_if_mode_set_event_proc_def nth_opt_def split: Option.bind_splits if_splits)
  have "mode_kind m \<noteq> None" using assms(5) by (auto simp: mode_kind_def Let_def)
  then obtain ty inject promisc where k: "mode_kind m = Some (ty, inject, promisc)" by auto
  have i: "i < length (vif_ctx (raw_base s))" using e(1) by (auto simp: vif_at_def split: if_splits)
  have "vif_at (raw_base t) i = Some (v\<lparr>if_type := ty\<rparr>)"
    using i by (simp add: t mode_apply_def k raw_vif_put_def mode_peer_def peer_put_def vif_at_def vif_put_def assms(4))
  then have "injects t i = inject" using mode_kind_flags(1) [OF k, of "v\<lparr>if_type := ty\<rparr>"] by (simp add: injects_def)
  moreover have "vif_mode (raw_vifs t ! i) = m" "txinjection_mode (raw_vifs t ! i) = inject"
    using e(2) by (simp_all add: t mode_apply_def k raw_vif_put_def assms(4))
  moreover have "peers (raw_base t) ! MAX_PEERS = (peers (raw_base s) ! MAX_PEERS)
      \<lparr>peer_id := (if inject then int MAX_PEERS else -1), peer_if_idx := (if inject then mem ! 20 else 255)\<rparr>"
    using assms(2) by (simp add: t mode_apply_def k raw_vif_put_def mode_peer_def peer_put_def vif_put_def)
  ultimately show "vif_mode (raw_vifs t ! i) = m" "txinjection_mode (raw_vifs t ! i) \<longleftrightarrow> injects t i"
      "injects t i \<Longrightarrow> peer_id (peers (raw_base t) ! MAX_PEERS) = int MAX_PEERS \<and>
         unat (peer_if_idx (peers (raw_base t) ! MAX_PEERS)) = i"
      "\<not> injects t i \<Longrightarrow> peer_id (peers (raw_base t) ! MAX_PEERS) = -1"
    using assms(4) by simp_all
qed

text \<open>A mode with neither bit leaves the type of the interface, so one that injected goes on to, although its
  flag says that it does not.\<close>

theorem mode_set_stale:
  assumes "nrf_wifi_fmac_if_mode_set_event_proc mem s = Some (SUCCESS, t)"
    and "m = mem ! 21" "i = unat (mem ! 20)" "m AND 1 \<noteq> 1" "m AND 2 \<noteq> 2"
  shows "injects t i = injects s i" "\<not> txinjection_mode (raw_vifs t ! i)" "raw_base t = raw_base s"
proof -
  obtain v rv where e: "vif_at (raw_base s) i = Some v" "i < length (raw_vifs s)"
      and t: "t = mode_apply (mem ! 20) m v rv s"
    using assms(1-3) by (auto simp: nrf_wifi_fmac_if_mode_set_event_proc_def nth_opt_def split: Option.bind_splits if_splits)
  have k: "mode_kind m = None" using assms(4,5) by (simp add: mode_kind_def)
  show "injects t i = injects s i" "\<not> txinjection_mode (raw_vifs t ! i)" "raw_base t = raw_base s"
    using e(2) assms(3) by (simp_all add: t mode_apply_def k raw_vif_put_def injects_def)
qed

text \<open>The reception of the builds without raw frames, as long as the interface is not promiscuous.\<close>

theorem rx_packet_agrees:
  assumes "rx_pkt_type c \<noteq> NRF_WIFI_RAW_RX_PKT" "\<not> promisc_mode rv"
  shows "rx_packet_raw os c h (Some rv) i s = rx_packet os c i s"
  using assms
  by (auto simp: rx_packet_raw_def rx_packet_def rx_dispose_raw_def Let_def intro!: bind_option_cong
      split: option.splits prod.splits)

text \<open>A frame of the monitor is given to the sniffer, to free it, or freed by the driver, and not delivered.\<close>

theorem monitor_frame_disposed:
  assumes "rx_pkt_type c = NRF_WIFI_RAW_RX_PKT"
  shows "\<exists>e. rx_dispose_raw os c h rv ty b s = (True, femit e s) \<and>
    (e = IoNbufFree (nb_ptr b) \<and> \<not> nrf_wifi_util_check_filt_setting (vif_packet_filter rv) (frame_control os b) \<or>
     e = IoFmacCallback CB_sniffer (rx_wdev_id c)
       (le32_bytes (nb_ptr b) @ nb_data b @ raw_rx_hdr_bytes h @ [1]) \<and>
     nrf_wifi_util_check_filt_setting (vif_packet_filter rv) (frame_control os b))"
  using assms by (auto simp: rx_dispose_raw_def Let_def sniff_def)

end
