(* ===== verification/Hal_Modes.thy ===== *)
theory Hal_Modes
  imports Hal_Init
begin

text \<open>The HAL device of the other modes: \<open>hw_if/hal/src/radio_test/hal_api.c\<close>, without a recovery
  tasklet, and \<open>hw_if/hal/src/offload_raw_tx/hal_api.c\<close>, with one. Neither has tables of
  buffers. The removal is the one of all the modes, \<open>nrf_wifi_hal_dev_rem\<close>.\<close>

section \<open>Adding the device\<close>

text \<open>The part up to the tasklet of the events, the same in both modes: a lock of the HAL that cannot be
  allocated is undefined behaviour, as in the system mode.\<close>

definition mode_dev_add_core :: "os \<Rightarrow> hal \<Rightarrow> (bool \<times> hal) option" where
  "mode_dev_add_core os s =
    (let (ok, s) = osal_alloc os OBJ_HAL_DEV s in
     if \<not> ok then Some (False, s)
     else let s = (hal_dev_zero s)\<lparr>idx := num_devs s, num_devs := num_devs s + 1,
                 num_cmds := RPU_CMD_START_MAGIC\<rparr>;
              (ok, s) = osal_alloc os OBJ_CMD_Q s in
     if \<not> ok then Some (False, dev_free s)
     else let (ok, s) = osal_alloc os OBJ_EVENT_Q s in
     if \<not> ok then Some (False, cmd_q_free s)
     else let (ok, s) = osal_alloc os (OBJ_LOCK LOCK_HAL) s in
     if \<not> ok then None
     else let (ok, s) = osal_alloc os (OBJ_LOCK LOCK_RX) s in
     if \<not> ok then Some (False, lock_hal_free s)
     else let (ok, s) = osal_alloc os (OBJ_TASKLET TASKLET_EVENT) s in
     if \<not> ok then Some (False, lock_rx_free s)
     else Some (True, s))"

text \<open>The power save, the bus and the interrupts; \<open>undo\<close> is what an error frees.\<close>

definition mode_dev_add_bus :: "os \<Rightarrow> (hal \<Rightarrow> hal) \<Rightarrow> hal \<Rightarrow> (bool \<times> hal) option" where
  "mode_dev_add_bus os undo s =
    (let (st, s) = hal_rpu_ps_init os s in
     if st \<noteq> SUCCESS then Some (False, undo s)
     else let (ok, s) = nrf_wifi_bal_dev_add os s in
     if \<not> ok then Some (False, undo s)
     else do {
       (st, s) \<leftarrow> hal_rpu_irq_enable os s;
       if st \<noteq> SUCCESS then Some (False, undo (nrf_wifi_bal_dev_rem s)) else Some (True, s)
     })"

definition nrf_wifi_rt_hal_dev_add :: "os \<Rightarrow> hal \<Rightarrow> (bool \<times> hal) option" where
  "nrf_wifi_rt_hal_dev_add os s = do {
     (ok, s) \<leftarrow> mode_dev_add_core os s;
     if \<not> ok then Some (False, s) else mode_dev_add_bus os event_tasklet_free s
   }"

definition nrf_wifi_off_raw_tx_hal_dev_add :: "os \<Rightarrow> hal \<Rightarrow> (bool \<times> hal) option" where
  "nrf_wifi_off_raw_tx_hal_dev_add os s = do {
     (ok, s) \<leftarrow> mode_dev_add_core os s;
     if \<not> ok then Some (False, s)
     else let (ok, s) = osal_alloc os (OBJ_TASKLET TASKLET_RECOVERY) s in
       if \<not> ok then Some (False, event_tasklet_free s)
       else let (ok, s) = osal_alloc os (OBJ_LOCK LOCK_RECOVERY) s in
         if \<not> ok then Some (False, recovery_tasklet_free s)
         else mode_dev_add_bus os lock_recovery_free s
   }"

section \<open>The tasklets\<close>

definition rt_event_tasklet_fn :: "event_cb \<Rightarrow> hal \<Rightarrow> hal option" where
  "rt_event_tasklet_fn intr_callbk_fn s = do {
     let s = emit (IoLock LOCK_RX) s;
     (_, s) \<leftarrow> (if hal_status s \<noteq> NRF_WIFI_HAL_STATUS_ENABLED then Some (SUCCESS, s)
        else hal_rpu_eventq_process intr_callbk_fn s);
     Some (emit (IoUnlock LOCK_RX) s)
   }"

definition off_event_tasklet_fn :: "event_cb \<Rightarrow> hal \<Rightarrow> hal option" where
  "off_event_tasklet_fn intr_callbk_fn s = do {
     let s = emit (IoLock LOCK_RX) s;
     (_, s) \<leftarrow> (if hal_status s \<noteq> NRF_WIFI_HAL_STATUS_ENABLED then Some (SUCCESS, s)
        else hal_rpu_eventq_process intr_callbk_fn s);
     Some (emit (IoUnlock LOCK_RX) s)
   }"

definition off_hal_rpu_recovery :: "(hal \<Rightarrow> (nrf_status \<times> hal) option) option \<Rightarrow> hal \<Rightarrow>
    (nrf_status \<times> hal) option" where
  "off_hal_rpu_recovery rpu_recovery_callbk_fn s = (case rpu_recovery_callbk_fn of
     None \<Rightarrow> Some (FAIL, s)
   | Some cb \<Rightarrow> cb s)"

definition off_recovery_tasklet_fn :: "(hal \<Rightarrow> (nrf_status \<times> hal) option) option \<Rightarrow> hal \<Rightarrow> hal option" where
  "off_recovery_tasklet_fn rpu_recovery_callbk_fn s = do {
     let s = emit (IoLock LOCK_RECOVERY) s;
     (_, s) \<leftarrow> off_hal_rpu_recovery rpu_recovery_callbk_fn s;
     Some (emit (IoUnlock LOCK_RECOVERY) s)
   }"

text \<open>The tasklets of the modes are those of the system mode.\<close>

lemma mode_tasklets:
  "rt_event_tasklet_fn = event_tasklet_fn" "off_event_tasklet_fn = event_tasklet_fn"
  "off_recovery_tasklet_fn = recovery_tasklet_fn"
  by (intro ext; simp add: rt_event_tasklet_fn_def off_event_tasklet_fn_def event_tasklet_fn_def
      off_recovery_tasklet_fn_def off_hal_rpu_recovery_def recovery_tasklet_fn_def hal_rpu_recovery_def)+

section \<open>What the device holds\<close>

definition rt_core_objs :: "os_obj list" where
  "rt_core_objs = [OBJ_HAL_DEV, OBJ_CMD_Q, OBJ_EVENT_Q, OBJ_LOCK LOCK_HAL, OBJ_LOCK LOCK_RX,
     OBJ_TASKLET TASKLET_EVENT]"

definition recovery_objs :: "os_obj list" where
  "recovery_objs = [OBJ_TASKLET TASKLET_RECOVERY, OBJ_LOCK LOCK_RECOVERY]"

lemma event_tasklet_free_live [simp]:
  "live x (w_trace (event_tasklet_free s)) = live x (w_trace s) - tally rt_core_objs x"
  by (simp add: event_tasklet_free_def lock_rx_free_def lock_hal_free_def event_q_free_def cmd_q_free_def
      dev_free_def rt_core_objs_def)

lemma mode_core_live:
  assumes "mode_dev_add_core os s = Some (ok, t)"
  shows "gains (if ok then rt_core_objs else []) s t"
    "ok \<Longrightarrow> event_q t = [] \<and> bal_bus t = bal_bus s \<and> num_devs t = num_devs s + 1 \<and> \<not> rpu_fw_booted t"
  using assms
  by (auto simp: mode_dev_add_core_def osal_alloc_def Let_def hal_dev_zero_def gains_def rt_core_objs_def
      dev_free_def cmd_q_free_def event_q_free_def lock_hal_free_def lock_rx_free_def split: if_split_asm)

text \<open>\<open>undo\<close> frees the objects \<open>C\<close>: on an error what is left is the lock and the timer of the power
  save, and the handle of the OS on SPI.\<close>

lemma mode_bus_live:
  assumes "mode_dev_add_bus os undo s = Some (ok, t)" "\<not> rpu_fw_booted s"
    and "\<And>u x. live x (w_trace (undo u)) = live x (w_trace u) - tally C x"
  shows "if ok then gains (ps_objs @ bus_objs) s t \<and> same_dev s t
    else (\<forall>x. live x (w_trace s) - tally C x \<le> live x (w_trace t) \<and>
      live x (w_trace t) \<le> live x (w_trace s) - tally C x + tally (ps_objs @ os_dev (bal_bus s)) x)"
proof -
  obtain st1 s1 where ps: "hal_rpu_ps_init os s = (st1, s1)" by fastforce
  note psl = ps_init_live [OF ps]
  obtain ok2 s2 where bal: "nrf_wifi_bal_dev_add os s1 = (ok2, s2)" by fastforce
  note ball = bal_dev_add_live [OF bal]
  have "\<not> rpu_fw_booted s2" using assms(2) psl ball by (simp add: same_dev_def)
  then obtain st3 s3 where irq: "hal_rpu_irq_enable os s2 = Some (st3, s3)" "same_dev s2 s3" "gains [] s2 s3"
    using irq_enable_unbooted by blast
  show ?thesis
    using assms(1) ps bal irq psl ball
    by (auto simp: mode_dev_add_bus_def assms(3) gains_def same_dev_def add_increasing2 split: if_split_asm)
qed

text \<open>Adding a device that succeeds gains exactly its objects; one that fails frees nothing it did not
  allocate and can leave the lock and the timer of the power save.\<close>

lemma rt_dev_add_outcome:
  assumes "nrf_wifi_rt_hal_dev_add os s = Some (ok, t)"
  shows "if ok then gains (rt_core_objs @ ps_objs @ bus_objs) s t \<and> event_q t = [] \<and> bal_bus t = bal_bus s \<and>
      num_devs t = num_devs s + 1
    else gains_within (ps_objs @ os_dev (bal_bus s)) s t"
proof -
  obtain ok1 s1 where core: "mode_dev_add_core os s = Some (ok1, s1)"
    using assms by (auto simp: nrf_wifi_rt_hal_dev_add_def split: Option.bind_split_asm)
  note c = mode_core_live [OF core]
  show ?thesis
  proof (cases ok1)
    case False
    then show ?thesis using assms core c by (simp add: nrf_wifi_rt_hal_dev_add_def gains_def gains_within_def)
  next
    case True
    with assms core have b: "mode_dev_add_bus os event_tasklet_free s1 = Some (ok, t)"
      by (simp add: nrf_wifi_rt_hal_dev_add_def)
    from mode_bus_live [OF b, of rt_core_objs] c True show ?thesis
      by (auto simp: gains_def gains_within_def same_dev_def split: if_split_asm)
  qed
qed

lemma off_dev_add_outcome:
  assumes "nrf_wifi_off_raw_tx_hal_dev_add os s = Some (ok, t)"
  shows "if ok then gains (rt_core_objs @ recovery_objs @ ps_objs @ bus_objs) s t \<and> event_q t = [] \<and>
      bal_bus t = bal_bus s \<and> num_devs t = num_devs s + 1
    else gains_within (ps_objs @ os_dev (bal_bus s)) s t"
proof -
  obtain ok1 s1 where core: "mode_dev_add_core os s = Some (ok1, s1)"
    using assms by (auto simp: nrf_wifi_off_raw_tx_hal_dev_add_def split: Option.bind_split_asm)
  note c = mode_core_live [OF core]
  define s2 where "s2 = emit (IoAlloc (OBJ_LOCK LOCK_RECOVERY) True) (emit (IoAlloc (OBJ_TASKLET TASKLET_RECOVERY) True) s1)"
  consider (refused) "\<not> ok1" "\<not> ok" "t = s1" | (early) ok1 "\<not> ok" "gains [] s t"
    | (bus) ok1 "mode_dev_add_bus os lock_recovery_free s2 = Some (ok, t)"
    using assms c(1) c(2)
    by (cases ok1; cases "os_alloc os (w_trace s1) (OBJ_TASKLET TASKLET_RECOVERY)";
        cases "os_alloc os (IoAlloc (OBJ_TASKLET TASKLET_RECOVERY) True # w_trace s1) (OBJ_LOCK LOCK_RECOVERY)")
      (auto simp: nrf_wifi_off_raw_tx_hal_dev_add_def core osal_alloc_def s2_def gains_def recovery_tasklet_free_def)
  then show ?thesis
  proof cases
    case refused
    then show ?thesis using c by (simp add: gains_def gains_within_def)
  next
    case early
    then show ?thesis by (simp add: gains_def gains_within_def)
  next
    case bus
    have s2: "gains (rt_core_objs @ recovery_objs) s s2" "event_q s2 = []" "bal_bus s2 = bal_bus s"
        "num_devs s2 = num_devs s + 1" "\<not> rpu_fw_booted s2"
      using c bus(1) by (auto simp: s2_def gains_def recovery_objs_def)
    have "tally core_objs x = tally (rt_core_objs @ recovery_objs) x" for x
      by (simp add: core_objs_def rt_core_objs_def recovery_objs_def)
    with mode_bus_live [OF bus(2) s2(5), of core_objs] s2 show ?thesis
      by (auto simp: gains_def gains_within_def same_dev_def split: if_split_asm)
  qed
qed

lemma dev_rem_live:
  assumes "event_q t = []"
  shows "\<exists>u. nrf_wifi_hal_dev_rem t = Some u \<and> num_devs u = num_devs t - 1 \<and>
    (\<forall>x. live x (w_trace u) = live x (w_trace t) - tally dev_objs x + tally (os_dev (bal_bus t)) x)"
proof -
  define t0 where "t0 = t\<lparr>w_trace := [IoFree (OBJ_TASKLET TASKLET_EVENT), IoTaskletKill TASKLET_EVENT,
    IoFree (OBJ_LOCK LOCK_RECOVERY), IoFree (OBJ_TASKLET TASKLET_RECOVERY), IoTaskletKill TASKLET_RECOVERY] @ w_trace t\<rparr>"
  obtain d where d: "hal_rpu_eventq_drain t0 = Some d" "\<And>x. live x (w_trace d) = live x (w_trace t0)"
    "num_devs d = num_devs t0" "bal_bus d = bal_bus t0"
    using drain_empty [of t0] assms by (auto simp: t0_def)
  then show ?thesis
    by (simp add: nrf_wifi_hal_dev_rem_def hal_rpu_ps_deinit_def Let_def dev_objs_def core_objs_def
        ps_objs_def rx_objs_def t0_def)
qed

text \<open>What a removal frees without an allocation, by the mode.\<close>

definition mode_rem_excess :: "bool \<Rightarrow> os_obj list" where
  "mode_rem_excess rt = (if rt then recovery_objs else []) @ rx_objs @ [OBJ_TX_BUF_INFO]"

theorem mode_dev_rem_excess:
  assumes "(if rt then nrf_wifi_rt_hal_dev_add os s else nrf_wifi_off_raw_tx_hal_dev_add os s) = Some (True, t)"
  shows "\<exists>u. nrf_wifi_hal_dev_rem t = Some u \<and> num_devs u = num_devs s \<and>
    (\<forall>x. live x (w_trace u) = live x (w_trace s) - tally (mode_rem_excess rt) x + tally (os_dev (bal_bus s)) x)"
proof -
  have t: "gains (rt_core_objs @ (if rt then [] else recovery_objs) @ ps_objs @ bus_objs) s t"
    "event_q t = []" "bal_bus t = bal_bus s" "num_devs t = num_devs s + 1"
    using assms rt_dev_add_outcome [of os s True t] off_dev_add_outcome [of os s True t] by (auto split: if_splits)
  have "tally dev_objs x = tally (rt_core_objs @ recovery_objs @ ps_objs @ bus_objs @ rx_objs @ [OBJ_TX_BUF_INFO]) x" for x
    by (simp add: dev_objs_def core_objs_def rt_core_objs_def recovery_objs_def)
  with dev_rem_live [OF t(2)] t show ?thesis by (auto simp: gains_def mode_rem_excess_def)
qed

end
