(* ===== verification/Fmac_Modes.thy ===== *)
theory Fmac_Modes
  imports Fmac_Dev Hal_Modes
begin

text \<open>What the mode for radio tests and the one for offloaded raw transmission do in the same way: each
  has a copy of the code, under \<open>fw_if/umac_if/src/radio_test\<close> and
  \<open>fw_if/umac_if/src/offload_raw_tx\<close>.\<close>

section \<open>Waiting for an answer\<close>

text \<open>The loop of all the commands: it sleeps, counts, and goes on while the answer is pending and the
  count is below the limit. The result is the count, which also the unsigned characters of the source
  can hold: their limits are 50 and 100.\<close>

function poll_wait :: "(fmac \<Rightarrow> bool) \<Rightarrow> (fmac \<Rightarrow> fmac) \<Rightarrow> u32 \<Rightarrow> nat \<Rightarrow> nat \<Rightarrow> fmac \<Rightarrow> nat \<times> fmac" where
  "poll_wait pending env ms limit cnt s =
    (let s = sleep_ms env ms s; cnt = Suc cnt in
     if pending s \<and> cnt < limit then poll_wait pending env ms limit cnt s else (cnt, s))"
  by pat_completeness auto
termination
  by (relation "measure (\<lambda>(_, _, _, limit, cnt, _). limit - cnt)") auto

declare poll_wait.simps [simp del]

text \<open>The state after \<open>k + 1\<close> turns, and the first turn, from 0 on, after which nothing is pending.\<close>

definition turn :: "(fmac \<Rightarrow> fmac) \<Rightarrow> u32 \<Rightarrow> fmac \<Rightarrow> nat \<Rightarrow> fmac" where
  "turn env ms s k = (sleep_ms env ms ^^ Suc k) s"

definition answered :: "(fmac \<Rightarrow> bool) \<Rightarrow> (fmac \<Rightarrow> fmac) \<Rightarrow> u32 \<Rightarrow> fmac \<Rightarrow> nat \<Rightarrow> nat" where
  "answered pending env ms s n = first_hit (\<lambda>k. \<not> pending (turn env ms s k)) n"

lemma turn_Suc: "turn env ms (sleep_ms env ms s) k = turn env ms s (Suc k)"
  by (simp add: turn_def funpow_swap1)

lemma poll_wait_from:
  assumes "cnt < limit" "n = answered pending env ms s (limit - cnt)"
  shows "poll_wait pending env ms limit cnt s = (cnt + min (n + 1) (limit - cnt), turn env ms s (min n (limit - cnt - 1)))"
  using assms
proof (induction "limit - cnt" arbitrary: cnt s n)
  case 0
  then show ?case by simp
next
  case (Suc m)
  let ?s = "sleep_ms env ms s"
  have t0: "turn env ms s 0 = ?s" by (simp add: turn_def)
  have hit: "first_hit P (Suc m) = (if P 0 then 0 else Suc (first_hit (\<lambda>k. P (Suc k)) m))" for P
    unfolding first_hit_def by (subst upt_conv_Cons) (simp_all add: map_Suc_upt [symmetric] takeWhile_map comp_def del: upt_Suc)
  have n: "n = (if \<not> pending ?s then 0 else Suc (answered pending env ms ?s m))"
    unfolding Suc.prems(2) Suc.hyps(2) [symmetric] by (simp add: answered_def hit t0 turn_Suc)
  show ?case
  proof (cases "pending ?s \<and> Suc cnt < limit")
    case True
    have m: "m = limit - Suc cnt" using Suc.hyps(2) by simp
    then have "poll_wait pending env ms limit cnt s = (Suc cnt + min (answered pending env ms ?s m + 1) m,
        turn env ms ?s (min (answered pending env ms ?s m) (m - 1)))"
      using Suc.hyps(1) [OF m, of "answered pending env ms ?s m" ?s] True
      by (subst poll_wait.simps) (simp add: Let_def)
    moreover have "0 < m" using True m by simp
    ultimately show ?thesis using True n Suc.hyps(2) [symmetric] by (simp add: turn_Suc) (auto simp: min_def Suc_diff_Suc)
  next
    case False
    then have "poll_wait pending env ms limit cnt s = (Suc cnt, ?s)"
      by (subst poll_wait.simps) (auto simp: Let_def)
    moreover have "min n (limit - cnt - 1) = 0 \<and> min (n + 1) (limit - cnt) = 1"
      using False n Suc.hyps(2) Suc.prems(1) by (auto simp: min_def)
    ultimately show ?thesis by (simp add: t0)
  qed
qed

text \<open>With a limit of 0 the loop has one turn all the same.\<close>

lemma poll_wait_verdict:
  "0 < limit \<Longrightarrow> n = answered pending env ms s limit \<Longrightarrow>
   poll_wait pending env ms limit 0 s = (min (n + 1) limit, turn env ms s (min n (limit - 1)))"
  using poll_wait_from [of 0 limit n pending env ms s] by simp

lemma poll_wait_zero: "poll_wait pending env ms 0 0 s = (1, turn env ms s 0)"
  by (subst poll_wait.simps) (simp add: Let_def turn_def)

lemma answered_turns:
  assumes "n = answered pending env ms s limit"
  shows "n \<le> limit" "k < n \<Longrightarrow> pending (turn env ms s k)" "n < limit \<Longrightarrow> \<not> pending (turn env ms s n)"
  using assms first_hit_le first_hit_miss [of k] first_hit_hit [of "\<lambda>k. \<not> pending (turn env ms s k)" limit]
  by (auto simp: answered_def)

text \<open>While nothing happens the private parts stay as they are.\<close>

lemma turn_idle: "rt_priv (turn id ms s k) = rt_priv s" "off_priv (turn id ms s k) = off_priv s"
  "stats_req (turn id ms s k) = stats_req s"
  by (induction k arbitrary: s) (simp_all add: turn_def sleep_ms_def femit_def)

lemma answered_idle: "(\<And>k. pending (turn env ms s k)) \<Longrightarrow> answered pending env ms s n = n"
  by (simp add: answered_def first_hit_none)

section \<open>The INIT command\<close>

text \<open>The command of the system mode without the receive buffers, the data configuration, the thresholds
  of temperature and battery and the last seven fields, which stay 0.\<close>

definition mode_init_body :: "sys_init_build \<Rightarrow> u8 list option \<Rightarrow> u32 \<Rightarrow> u32 \<Rightarrow> bool \<Rightarrow> nrf_wifi_tx_pwr_ctrl_params \<Rightarrow>
    u8 list \<Rightarrow> u8 list \<Rightarrow> u8 list" where
  "mode_init_body b rf_params phy_calib op_band beamforming ctrl board country_code =
     sys_head 0 365 @ le32_bytes 0
     @ sys_params_bytes b phy_calib (rf_params \<noteq> None)
         (sys_init_rf (the_default (replicate 200 0) rf_params) ctrl board)
     @ replicate 12 0 @ replicate 11 0 @ replicate 36 0
     @ [sb_checksum_offload b] @ country_code @ le32_bytes op_band @ [sb_mgmt_buff_offload b]
     @ le32_bytes (sb_feature_flags b) @ le32_bytes (if beamforming then 0 else 1) @ le32_bytes (sb_discon_timeout b)
     @ [sb_ps_exit_strategy b] @ le32_bytes (sb_watchdog_timer_val b) @ [sb_keep_alive_enable b]
     @ le32_bytes (sb_keep_alive_period b) @ le32_bytes (sb_display_scan_bss_limit b)
     @ le32_bytes (sb_coex_disable_ptiwin b) @ replicate 25 0"

lemma mode_init_size:
  assumes "\<forall>rf. rf_params = Some rf \<longrightarrow> length rf = 200" "length (tc_ant_gain ctrl) = 4" "length (tc_band_edge ctrl) = 26"
    "length board = 4" "length country_code = 2"
  shows "length (mode_init_body b rf_params phy_calib op_band beamforming ctrl board country_code) = 365"
  using assms by (cases rf_params) (simp_all add: mode_init_body_def sys_params_bytes_def sys_init_rf_def sys_head_def)

section \<open>RF parameters\<close>

text \<open>As in the system mode, without the backoffs for temperature and voltage, which are not written.\<close>

definition mode_phy_rf_params_init ::
    "u8 list \<Rightarrow> nrf_wifi_phy_rf_params \<Rightarrow> u32 \<Rightarrow> u8 list \<Rightarrow> int \<times> nrf_wifi_phy_rf_params" where
  "mode_phy_rf_params_init board prf package_info str =
    (let (ret, arr) = nrf_wifi_utils_hex_str_to_val (rf_phy_params prf) 158 str in
     (ret, prf\<lparr>rf_reserved := replicate 4 0 @ drop 4 (rf_reserved prf), rf_xo_offset := 0x2A,
        rf_pd_adjust_val := [0, 0, 0, 0], rf_syst_tx_pwr_offset := package_syst_off package_info,
        rf_max_pwr_ceil := package_ceil package_info, rf_rx_gain_offset := [0, 0, 0, 0],
        rf_phy_params := take 113 arr @ board @ drop 147 arr\<rparr>))"

text \<open>The OTP of the device is read three times, then the parameters are put together.\<close>

definition mode_rf_params_get ::
    "os \<Rightarrow> nrf_wifi_op_mode \<Rightarrow> (nrf_wifi_phy_rf_params \<Rightarrow> u32 \<Rightarrow> int \<times> nrf_wifi_phy_rf_params) \<Rightarrow>
     nrf_wifi_tx_pwr_ceil_params \<Rightarrow> nrf_wifi_phy_rf_params \<Rightarrow> fmac \<Rightarrow>
     (nrf_status \<times> nrf_wifi_phy_rf_params \<times> fmac) option" where
  "mode_rf_params_get os mode init ceil prf s =
    (if op_mode s \<noteq> mode then Some (FAIL, prf, s)
     else do {
       (st, info, flags, h) \<leftarrow> nrf_wifi_hal_otp_info_get os (hal_dev_ctx s);
       let s = s\<lparr>hal_dev_ctx := h\<rparr>;
       if st \<noteq> SUCCESS then Some (st, prf, s)
       else do {
         (st, ver, h) \<leftarrow> nrf_wifi_hal_otp_ft_prog_ver_get os (hal_dev_ctx s);
         let s = s\<lparr>hal_dev_ctx := h\<rparr>;
         if st \<noteq> SUCCESS then Some (st, prf, s)
         else do {
           (st, pack, h) \<leftarrow> nrf_wifi_hal_otp_pack_info_get os (hal_dev_ctx s);
           let s = s\<lparr>hal_dev_ctx := h\<rparr>;
           if st \<noteq> SUCCESS then Some (st, prf, s)
           else let (ret, prf) = init prf (the_default 0xFFFFFFFF pack) in
             if ret = -1 then Some (FAIL, prf, s)
             else do {
               v \<leftarrow> ver;
               let prf = xo_calibrated info (the_default 0xFFFFFFFF flags) prf;
               Some (SUCCESS, prf\<lparr>rf_max_pwr_ceil :=
                 ceil_limit ceil (ft_backoffs (drop_bit 16 (v AND 0xF0000))) (rf_max_pwr_ceil prf)\<rparr>, s)
             }
         }
       }
     })"

text \<open>The routine of the system mode is the same one.\<close>

lemma sys_rf_params_get_eq:
  "nrf_wifi_sys_fmac_rf_params_get os board ceil prf s = mode_rf_params_get os NRF_WIFI_OP_MODE_SYS
     (\<lambda>prf pk. nrf_wifi_sys_fmac_phy_rf_params_init board prf pk NRF_WIFI_SYS_DEF_RF_PARAMS) ceil prf s"
  by (simp add: nrf_wifi_sys_fmac_rf_params_get_def mode_rf_params_get_def)

text \<open>What the build gives for the parameters that are not of the package: 27 bytes of the 200 are not
  written, ten more than in the system mode.\<close>

definition mode_stale :: "nat set" where
  "mode_stale = {4, 5} \<union> {28..<42} \<union> {189..<200}"

lemma mode_rf_shape:
  assumes "rf_params_wf p" "length board = 34" "length str = 226" "hex_ok str"
    and "mode_phy_rf_params_init board p pk str = (r, p')"
  shows "r = 113" "rf_params_wf p'" "rf_params_bytes p' = replicate 4 0 @ drop 4 (rf_reserved p) @
      ([0x2A] @ [0, 0, 0, 0] @ package_syst_off pk @ tx_pwr_ceil_bytes (package_ceil pk) @ [0, 0, 0, 0]) @
      rf_temp_volt_backoff p @ (hex_decode str @ board) @ drop 147 (rf_phy_params p)"
proof -
  have l: "length (hex_decode str) = 113" using hex_decode_length [of str] assms(3) by simp
  have a: "length (rf_phy_params p) = 158" using assms(1) by (simp add: rf_params_wf_def)
  have "nrf_wifi_utils_hex_str_to_val (rf_phy_params p) 158 str = (113, hex_decode str @ drop 113 (rf_phy_params p))"
    using hex_loop_ok [OF assms(4), of 0 0 "rf_phy_params p"] assms(3) a by (simp add: nrf_wifi_utils_hex_str_to_val_def)
  then show "r = 113" "rf_params_wf p'" "rf_params_bytes p' = replicate 4 0 @ drop 4 (rf_reserved p) @
      ([0x2A] @ [0, 0, 0, 0] @ package_syst_off pk @ tx_pwr_ceil_bytes (package_ceil pk) @ [0, 0, 0, 0]) @
      rf_temp_volt_backoff p @ (hex_decode str @ board) @ drop 147 (rf_phy_params p)"
    using assms l a by (auto simp: mode_phy_rf_params_init_def rf_params_wf_def rf_params_bytes_def package_syst_off_def)
qed

lemma nth_mode_shape:
  assumes "length a = 4" "length b = 2" "length x = 22" "length c = 14" "length y = 147" "i < 200" "i \<notin> mode_stale"
    "length b' = 2" "length c' = 14"
  shows "(a @ b @ x @ c @ y @ d) ! i = (a @ b' @ x @ c' @ y @ d') ! i"
  using assms by (auto simp: nth_append mode_stale_def)

text \<open>The parameters are a function of the package and of the board except for those bytes, which go
  into the INIT command as they were in the memory of the caller.\<close>

theorem mode_rf_params_stale:
  assumes "rf_params_wf p" "rf_params_wf q" "length board = 34" "length str = 226" "hex_ok str"
    and "mode_phy_rf_params_init board p pk str = (r, p')" "mode_phy_rf_params_init board q pk str = (r', q')"
    and "i < 200" "i \<notin> mode_stale"
  shows "rf_params_bytes p' ! i = rf_params_bytes q' ! i"
  unfolding mode_rf_shape(3) [OF assms(1,3,4,5,6)] mode_rf_shape(3) [OF assms(2,3,4,5,7)]
  by (rule nth_mode_shape)
    (use assms hex_decode_length [of str] in
      \<open>simp_all add: rf_params_wf_def package_syst_off_def tx_pwr_ceil_bytes_def\<close>)

section \<open>The firmware and the device\<close>

definition mode_fw_init :: "os \<Rightarrow> (fmac \<Rightarrow> fmac) \<Rightarrow> (fmac \<Rightarrow> (nrf_status \<times> fmac) option) \<Rightarrow> fmac \<Rightarrow>
    (nrf_status \<times> fmac) option" where
  "mode_fw_init os env init_cmd s = do {
     (st, s) \<leftarrow> init_cmd s;
     if st \<noteq> SUCCESS then Some (st, s)
     else do {
       let (t, h) = osal_time_get_curr_us os (hal_dev_ctx s);
       s \<leftarrow> fw_init_wait os env t (s\<lparr>hal_dev_ctx := h\<rparr>);
       Some (if fw_init_done s then SUCCESS else FAIL, s)
     }
   }"

text \<open>The driver: no buffers are configured, and no recovery callback is registered.\<close>

definition mode_hal_cfg :: hal_cfg_params where
  "mode_hal_cfg = \<lparr>max_cmd_size = 400, max_event_size = 1000, rx_buf_headroom_sz = 0, tx_buf_headroom_sz = 0,
     max_tx_frms = 0, rx_buf_pool = replicate 3 \<lparr>buf_sz = 0, num_bufs = 0\<rparr>, max_tx_frm_sz = 0,
     max_ampdu_len_per_token = 0\<rparr>"

definition mode_init :: "os \<Rightarrow> nrf_wifi_op_mode \<Rightarrow> fmac \<Rightarrow> bool \<times> fmac" where
  "mode_init os mode s =
    (let (ok, s) = falloc os OBJ_FMAC_PRIV s in
     if \<not> ok then (False, s)
     else let (ok, h) = nrf_wifi_hal_init os mode_hal_cfg (hal_dev_ctx s);
              s = s\<lparr>hal_dev_ctx := h\<rparr> in
       if \<not> ok then (False, femit (IoFree OBJ_FMAC_PRIV) s) else (True, s\<lparr>op_mode := mode\<rparr>))"

definition mode_dev_add :: "os \<Rightarrow> nrf_wifi_op_mode \<Rightarrow> (hal \<Rightarrow> (bool \<times> hal) option) \<Rightarrow> fmac \<Rightarrow> (bool \<times> fmac) option" where
  "mode_dev_add os mode hal_dev_add s =
    (if op_mode s \<noteq> mode then Some (False, s)
     else let (ok, s) = falloc os OBJ_FMAC_DEV s in
       if \<not> ok then Some (False, s)
       else do {
         (ok, s) \<leftarrow> on_hal hal_dev_add ((fmac_dev_zero s)\<lparr>rt_priv := rt_priv_zero, off_priv := off_priv_zero\<rparr>);
         if \<not> ok then Some (False, femit (IoFree OBJ_FMAC_DEV) s) else Some (True, s)
       })"

text \<open>The power ceilings are copied into memory that is not checked: NULL is undefined behaviour.\<close>

definition mode_dev_init :: "os \<Rightarrow> (fmac \<Rightarrow> fmac) \<Rightarrow> nrf_wifi_op_mode \<Rightarrow>
    (fmac \<Rightarrow> (nrf_status \<times> nrf_wifi_phy_rf_params \<times> fmac) option) \<Rightarrow>
    (nrf_wifi_phy_rf_params \<Rightarrow> fmac \<Rightarrow> (nrf_status \<times> fmac) option) \<Rightarrow> fmac \<Rightarrow> (nrf_status \<times> fmac) option" where
  "mode_dev_init os env mode rf_params_get init_cmd s =
    (if op_mode s \<noteq> mode then Some (FAIL, s)
     else do {
       (st, s) \<leftarrow> on_hal (nrf_wifi_hal_dev_init os) s;
       if st \<noteq> SUCCESS then Some (st, s)
       else let (ok, s) = falloc os OBJ_TX_PWR_CEIL s in
         if \<not> ok then None
         else do {
           (st, _, _, h) \<leftarrow> nrf_wifi_hal_otp_info_get os (hal_dev_ctx s);
           let s = s\<lparr>hal_dev_ctx := h\<rparr>;
           if st \<noteq> SUCCESS then Some (st, s)
           else do {
             (st, prf, s) \<leftarrow> rf_params_get s;
             if st \<noteq> SUCCESS then Some (st, s) else mode_fw_init os env (init_cmd prf) s
           }
         }
     })"

section \<open>Statistics\<close>

text \<open>After the last turn the status is the one of the command, and the request stays open.\<close>

definition mode_stats_get :: "os \<Rightarrow> (fmac \<Rightarrow> fmac) \<Rightarrow> nrf_wifi_op_mode \<Rightarrow> (fmac \<Rightarrow> (nrf_status \<times> fmac) option) \<Rightarrow>
    u8 list \<Rightarrow> fmac \<Rightarrow> (nrf_status \<times> fmac) option" where
  "mode_stats_get os env mode cmd stats s =
    (if op_mode s \<noteq> mode then Some (FAIL, s)
     else if stats_req s then Some (FAIL, s)
     else do {
       (st, s) \<leftarrow> cmd (s\<lparr>stats_req := True, fw_stats := Some stats\<rparr>);
       if st \<noteq> SUCCESS then Some (st, s)
       else let (cnt, s) = poll_wait stats_req env 1 50 0 s in
         Some (if cnt = 50 then st else SUCCESS, s)
     })"

definition mode_stats_event :: "nat \<Rightarrow> u8 list \<Rightarrow> fmac \<Rightarrow> (nrf_status \<times> fmac) option" where
  "mode_stats_event sz mem s =
    (if \<not> stats_req s then Some (FAIL, s)
     else do {
       _ \<leftarrow> fw_stats s;
       bs \<leftarrow> mem_bytes mem (HOST_RPU_MSG_SIZE + 8) sz;
       Some (SUCCESS, s\<lparr>fw_stats := Some bs, stats_req := False\<rparr>)
     })"

section \<open>Control events\<close>

text \<open>The regulatory domain: the number of channels is the firmware's, the table the caller's, of 42
  channels; a longer answer is written behind it, which is undefined behaviour.\<close>

definition mode_get_reg_event :: "u8 list \<Rightarrow> fmac \<Rightarrow> fmac option" where
  "mode_get_reg_event mem s = do {
     a2 \<leftarrow> mem_bytes mem (HOST_RPU_MSG_SIZE + 36) 2;
     n \<leftarrow> mem_u32 mem (HOST_RPU_MSG_SIZE + 38);
     let s = s\<lparr>alpha2 := a2 @ drop 2 (alpha2 s), reg_chan_count := n\<rparr>;
     let len = unat (n * 11);
     s \<leftarrow> (if len = 0 then Some s
        else do {
          tab \<leftarrow> reg_chan_info s;
          bs \<leftarrow> mem_bytes mem (HOST_RPU_MSG_SIZE + 42) len;
          if length tab < len then None else Some (s\<lparr>reg_chan_info := Some (bs @ drop len tab)\<rparr>)
        });
     Some (s\<lparr>alpha2_valid := True\<rparr>)
   }"

definition mode_reg_change_event :: "os \<Rightarrow> u8 list \<Rightarrow> fmac \<Rightarrow> fmac option" where
  "mode_reg_change_event os mem s =
    (let (ok, s) = falloc os OBJ_REG_CHANGE s in
     if \<not> ok then Some (s\<lparr>reg_change := None\<rparr>)
     else do {
       bs \<leftarrow> mem_bytes mem HOST_RPU_MSG_SIZE 45;
       Some (s\<lparr>reg_change := Some bs, reg_set_status := 1\<rparr>)
     })"

section \<open>Properties\<close>

text \<open>A statistics request that is sent is always reported as a success: the answer may not have come in
  any of the 50 turns, and then the request stays open.\<close>

lemma mode_stats_get_run:
  assumes "mode_stats_get os env mode cmd stats s = Some (SUCCESS, t)"
  obtains u where "cmd (s\<lparr>stats_req := True, fw_stats := Some stats\<rparr>) = Some (SUCCESS, u)"
    "t = turn env 1 u (min (answered stats_req env 1 u 50) 49)"
    "stats_req t \<longleftrightarrow> answered stats_req env 1 u 50 = 50"
proof -
  have "\<not> stats_req s" "op_mode s = mode" using assms by (auto simp: mode_stats_get_def split: if_splits)
  with assms obtain u where u: "cmd (s\<lparr>stats_req := True, fw_stats := Some stats\<rparr>) = Some (SUCCESS, u)"
    "t = snd (poll_wait stats_req env 1 50 0 u)"
    by (auto simp: mode_stats_get_def split: Option.bind_split_asm if_split_asm prod.split_asm)
  let ?n = "answered stats_req env 1 u 50"
  note a = answered_turns [OF refl [of ?n]]
  have t: "t = turn env 1 u (min ?n 49)" using u(2) by (simp add: poll_wait_verdict [OF _ refl])
  have "stats_req t \<longleftrightarrow> ?n = 50"
  proof (cases "?n = 50")
    case True
    then show ?thesis using t a(2) [of 49] by simp
  next
    case False
    then show ?thesis using t a(1,3) by simp
  qed
  with u(1) t show ?thesis by (rule that)
qed

lemma mode_stats_get_open: "stats_req s \<Longrightarrow> mode_stats_get os env mode cmd stats s = Some (FAIL, s)"
  by (simp add: mode_stats_get_def)

section \<open>A command that is sent\<close>

text \<open>A device that is awake and whose firmware has a free buffer takes a command.\<close>

lemma msg_write_demo:
  "\<exists>t. hal_rpu_msg_write demo_buf_os NRF_WIFI_HAL_MSG_TYPE_CMD_CTRL msg (hal_awake\<lparr>w_trace := tr\<rparr>) = Some (SUCCESS, t) \<and> cmd_q t = []"
  by (simp add: hal_rpu_msg_write_def hal_rpu_msg_get_addr_def hal_rpu_hpq_dequeue_def
      hal_rpu_msg_post_def hal_rpu_hpq_enqueue_def hal_rpu_msg_trigger_def reg_read_awake
      reg_write_awake mem_write_ram_awake hal_awake_def hal_demo_def hal_rpu_is_reg_def pal_sbus
      tick_os_def hal_rpu_mem_write_def hal_rpu_is_mem_writable_def hal_rpu_is_mem_ram_def
      hal_rpu_is_mem_core_indirect_def hal_rpu_is_mem_core_direct_def pal_check_rpu_mcu_regions_def
      pal_gram_demo)

lemma ready_wait_demo:
  "\<exists>tr'. hal_rpu_ready_wait demo_buf_os NRF_WIFI_HAL_MSG_TYPE_CMD_CTRL (hal_awake\<lparr>w_trace := tr\<rparr>)
    = Some (SUCCESS, hal_awake\<lparr>w_trace := tr'\<rparr>)"
  unfolding hal_rpu_ready_wait_def osal_time_get_curr_us_def Let_def prod.case
  by (subst ready_wait_loop.simps)
    (simp add: hal_rpu_ready_def hal_rpu_hpq_is_empty_def hal_awake_def hal_demo_def tick_os_def osal_defs reg_read_awake
      hal_rpu_is_reg_def pal_sbus)

lemma ctrl_cmd_send_demo:
  assumes "length cmd \<le> 400"
  shows "\<exists>t. nrf_wifi_hal_ctrl_cmd_send demo_buf_os cmd (hal_awake\<lparr>w_trace := tr\<rparr>) = Some (SUCCESS, t)"
proof -
  obtain tr1 where q: "hal_rpu_cmd_queue demo_buf_os cmd (hal_awake\<lparr>w_trace := IoLock LOCK_HAL # tr\<rparr>)
      = Some (SUCCESS, hal_awake\<lparr>w_trace := tr1, cmd_q := [cmd]\<rparr>)"
    using assms by (simp add: hal_rpu_cmd_queue_def cmd_q_enqueue_def osal_alloc_def tick_os_def hal_awake_def hal_demo_def Let_def)
  define tr2 where "tr2 = IoFree OBJ_Q_NODE # tr1"
  have d: "cmd_q_dequeue (hal_awake\<lparr>w_trace := tr1, cmd_q := [cmd]\<rparr>) = (Some cmd, hal_awake\<lparr>w_trace := tr2\<rparr>)"
    by (simp add: cmd_q_dequeue_def tr2_def hal_awake_def hal_demo_def)
  obtain tr3 where w: "hal_rpu_ready_wait demo_buf_os NRF_WIFI_HAL_MSG_TYPE_CMD_CTRL (hal_awake\<lparr>w_trace := tr2\<rparr>)
    = Some (SUCCESS, hal_awake\<lparr>w_trace := tr3\<rparr>)" using ready_wait_demo by blast
  obtain t where m: "hal_rpu_msg_write demo_buf_os NRF_WIFI_HAL_MSG_TYPE_CMD_CTRL cmd (hal_awake\<lparr>w_trace := tr3\<rparr>)
    = Some (SUCCESS, t)" "cmd_q t = []" using msg_write_demo by blast
  have "cmd_process_loop demo_buf_os SUCCESS (emit (IoFree OBJ_HAL_MSG) t) = Some (SUCCESS, emit (IoFree OBJ_HAL_MSG) t)"
    using m(2) by (subst cmd_process_loop.simps) (simp add: cmd_q_dequeue_def)
  then have p: "hal_rpu_cmd_process_queue demo_buf_os (hal_awake\<lparr>w_trace := tr1, cmd_q := [cmd]\<rparr>)
      = Some (SUCCESS, emit (IoFree OBJ_HAL_MSG) t)"
    unfolding hal_rpu_cmd_process_queue_def by (subst cmd_process_loop.simps) (simp add: d w m(1))
  have e: "emit (IoLock LOCK_HAL) (hal_awake\<lparr>w_trace := tr\<rparr>) = hal_awake\<lparr>w_trace := IoLock LOCK_HAL # tr\<rparr>" by simp
  show ?thesis unfolding nrf_wifi_hal_ctrl_cmd_send_def Let_def e q by (simp add: p)
qed

lemma cmd_send_demo:
  assumes "length body \<le> 388" "hal_dev_ctx s = hal_awake"
  shows "\<exists>h. cmd_send demo_buf_os ty body s = Some (SUCCESS, s\<lparr>hal_dev_ctx := h\<rparr>)"
proof -
  have "length (host_rpu_msg ty body) \<le> 400" using assms(1) by (simp add: host_rpu_msg_def)
  from ctrl_cmd_send_demo [OF this, of "IoAlloc OBJ_CMD True # w_trace hal_awake"] assms(2) show ?thesis
    by (auto simp: cmd_send_def umac_cmd_alloc_def falloc_def osal_alloc_def on_hal_def tick_os_def Let_def)
qed

end
