(* ===== verification/Rt_Fmac.thy ===== *)
theory Rt_Fmac
  imports Fmac_Modes
begin

text \<open>The mode for radio tests (\<open>fw_if/umac_if/src/radio_test\<close>: \<open>fmac_cmd.c\<close>, \<open>fmac_event.c\<close>,
  \<open>fmac_api.c\<close>). The parameters of a test are the 282 bytes of \<open>struct rpu_conf_params\<close>.\<close>

section \<open>Commands\<close>

definition umac_cmd_rt_init :: "os \<Rightarrow> sys_init_build \<Rightarrow> u8 list option \<Rightarrow> u32 \<Rightarrow> u32 \<Rightarrow> bool \<Rightarrow> nrf_wifi_tx_pwr_ctrl_params \<Rightarrow>
    u8 list \<Rightarrow> u8 list \<Rightarrow> fmac \<Rightarrow> (nrf_status \<times> fmac) option" where
  "umac_cmd_rt_init os b rf_params phy_calib op_band beamforming ctrl board country_code s =
    cmd_send os NRF_WIFI_HOST_RPU_MSG_TYPE_SYSTEM
      (mode_init_body b rf_params phy_calib op_band beamforming ctrl board country_code) s"

definition umac_cmd_rt_prog_stats_get :: "os \<Rightarrow> u32 \<Rightarrow> fmac \<Rightarrow> (nrf_status \<times> fmac) option" where
  "umac_cmd_rt_prog_stats_get os mode s = cmd_send os NRF_WIFI_HOST_RPU_MSG_TYPE_SYSTEM
     (sys_head NRF_WIFI_CMD_GET_STATS 16 @ le32_bytes 4 @ le32_bytes mode) s"

abbreviation (input) NRF_WIFI_CMD_TX :: u32 where "NRF_WIFI_CMD_TX \<equiv> 1"
abbreviation (input) NRF_WIFI_CMD_RX :: u32 where "NRF_WIFI_CMD_RX \<equiv> 6"
abbreviation (input) NRF_WIFI_CMD_RF_TEST :: u32 where "NRF_WIFI_CMD_RF_TEST \<equiv> 10"
abbreviation (input) NRF_WIFI_CMD_RADIO_TEST_INIT :: u32 where "NRF_WIFI_CMD_RADIO_TEST_INIT \<equiv> 13"

definition umac_cmd_rt_prog_init :: "os \<Rightarrow> u8 list \<Rightarrow> fmac \<Rightarrow> (nrf_status \<times> fmac) option" where
  "umac_cmd_rt_prog_init os init_params s = cmd_send os NRF_WIFI_HOST_RPU_MSG_TYPE_SYSTEM
     (sys_head NRF_WIFI_CMD_RADIO_TEST_INIT 226 @ init_params) s"

definition umac_cmd_rt_prog_tx :: "os \<Rightarrow> u8 list \<Rightarrow> fmac \<Rightarrow> (nrf_status \<times> fmac) option" where
  "umac_cmd_rt_prog_tx os params s = cmd_send os NRF_WIFI_HOST_RPU_MSG_TYPE_SYSTEM
     (sys_head NRF_WIFI_CMD_TX 386 @ params @ replicate 96 0) s"

definition umac_cmd_rt_prog_rx :: "os \<Rightarrow> u8 list \<Rightarrow> fmac \<Rightarrow> (nrf_status \<times> fmac) option" where
  "umac_cmd_rt_prog_rx os rx_params s = cmd_send os NRF_WIFI_HOST_RPU_MSG_TYPE_SYSTEM
     (sys_head NRF_WIFI_CMD_RX 228 @ rx_params) s"

definition umac_cmd_rt_prog_rf_test :: "os \<Rightarrow> u8 list \<Rightarrow> fmac \<Rightarrow> (nrf_status \<times> fmac) option" where
  "umac_cmd_rt_prog_rf_test os params s = cmd_send os NRF_WIFI_HOST_RPU_MSG_TYPE_SYSTEM
     (sys_head NRF_WIFI_CMD_RF_TEST (12 + length params) @ le32_bytes (of_nat (length params)) @ params) s"

section \<open>Events\<close>

abbreviation (input) RPU_MEM_RF_TEST_CAP_BASE :: u32 where "RPU_MEM_RF_TEST_CAP_BASE \<equiv> 0xB0006000"
abbreviation (input) NRF_WIFI_RF_TEST_TX_TONE :: u32 where "NRF_WIFI_RF_TEST_TX_TONE \<equiv> 3"
abbreviation (input) NRF_WIFI_RF_TEST_DPD :: u32 where "NRF_WIFI_RF_TEST_DPD \<equiv> 4"
abbreviation (input) NRF_WIFI_RF_TEST_RF_RSSI :: u32 where "NRF_WIFI_RF_TEST_RF_RSSI \<equiv> 5"
abbreviation (input) NRF_WIFI_RF_TEST_GET_TEMPERATURE :: u32 where "NRF_WIFI_RF_TEST_GET_TEMPERATURE \<equiv> 7"
abbreviation (input) NRF_WIFI_RF_TEST_XO_CALIB :: u32 where "NRF_WIFI_RF_TEST_XO_CALIB \<equiv> 8"
abbreviation (input) NRF_WIFI_RF_TEST_XO_TUNE :: u32 where "NRF_WIFI_RF_TEST_XO_TUNE \<equiv> 9"
abbreviation (input) NRF_WIFI_RF_TEST_GET_BAT_VOLT :: u32 where "NRF_WIFI_RF_TEST_GET_BAT_VOLT \<equiv> 10"
abbreviation (input) NRF_WIFI_RF_TEST_MAX :: u32 where "NRF_WIFI_RF_TEST_MAX \<equiv> 11"

definition umac_event_rt_stats_process :: "u8 list \<Rightarrow> fmac \<Rightarrow> (nrf_status \<times> fmac) option" where
  "umac_event_rt_stats_process mem s = mode_stats_event 18 mem s"

text \<open>The samples of a capture are read into the memory of the caller, as far as they can be read; the status
  of the read is lost. A memory that is smaller is overrun.\<close>

definition rt_capture_read :: "os \<Rightarrow> fmac \<Rightarrow> fmac option" where
  "rt_capture_read os s = (let r = rt_priv s in
     case rf_test_cap_data r of
       None \<Rightarrow> Some s
     | Some d \<Rightarrow> do {
         (_, bs, h) \<leftarrow> hal_rpu_mem_read os RPU_MEM_RF_TEST_CAP_BASE (unat (rf_test_cap_sz r)) (hal_dev_ctx s);
         if length d < length bs then None
         else Some (s\<lparr>hal_dev_ctx := h, rt_priv := r\<lparr>rf_test_cap_data := Some (bs @ drop (length bs) d)\<rparr>\<rparr>)
       })"

text \<open>The bytes of the result that are copied, by the type; they are logged.\<close>

definition rf_event_size :: "u8 \<Rightarrow> nat" where
  "rf_event_size ev = (if ev = 7 then 9 else if ev = 10 then 6 else if ev = 5 then 4 else if ev = 8 \<or> ev = 9 then 2 else 0)"

definition umac_event_rt_rf_test_process :: "os \<Rightarrow> u8 list \<Rightarrow> fmac \<Rightarrow> (nrf_status \<times> fmac) option" where
  "umac_event_rt_rf_test_process os mem s = do {
     ev \<leftarrow> nth_opt mem (HOST_RPU_MSG_SIZE + 12);
     if ucast ev \<noteq> rf_test_type (rt_priv s) then Some (FAIL, s)
     else do {
       s \<leftarrow> (if ev \<le> 2 then do {
                s \<leftarrow> rt_capture_read os s;
                p \<leftarrow> mem_bytes mem (HOST_RPU_MSG_SIZE + 12) 8;
                Some (s\<lparr>rt_priv := (rt_priv s)\<lparr>capture_status := p ! 5\<rparr>\<rparr>)
              }
              else do { _ \<leftarrow> mem_bytes mem (HOST_RPU_MSG_SIZE + 12) (rf_event_size ev); Some s });
       Some (SUCCESS, s\<lparr>rt_priv := (rt_priv s)\<lparr>rf_test_type := NRF_WIFI_RF_TEST_MAX\<rparr>\<rparr>)
     }
   }"

definition umac_event_rt_proc_events :: "os \<Rightarrow> u8 list \<Rightarrow> fmac \<Rightarrow> (nrf_status \<times> fmac) option" where
  "umac_event_rt_proc_events os mem s = do {
     cmd_event \<leftarrow> mem_u32 mem HOST_RPU_MSG_SIZE;
     if cmd_event = NRF_WIFI_EVENT_STATS then umac_event_rt_stats_process mem s
     else if cmd_event = NRF_WIFI_EVENT_INIT_DONE then Some (SUCCESS, s\<lparr>fw_init_done := True\<rparr>)
     else if cmd_event = NRF_WIFI_EVENT_DEINIT_DONE then Some (SUCCESS, s\<lparr>fw_deinit_done := True\<rparr>)
     else if cmd_event = 4 then umac_event_rt_rf_test_process os mem s
     else if cmd_event = 7 then do {
       v \<leftarrow> mem_u32 mem (HOST_RPU_MSG_SIZE + 8);
       Some (SUCCESS, s\<lparr>rt_priv := (rt_priv s)\<lparr>radio_cmd_status := v, radio_cmd_done := True\<rparr>\<rparr>)
     }
     else Some (FAIL, s)
   }"

definition rt_umac_event_ctrl_process :: "os \<Rightarrow> u8 list \<Rightarrow> fmac \<Rightarrow> (nrf_status \<times> fmac) option" where
  "rt_umac_event_ctrl_process os mem s = do {
     if_id \<leftarrow> nth_opt mem (HOST_RPU_MSG_SIZE + 28);
     e \<leftarrow> mem_u32 mem (HOST_RPU_MSG_SIZE + 8);
     if 2 \<le> if_id then Some (SUCCESS, s)
     else if e = NRF_WIFI_UMAC_EVENT_GET_REG then do { s \<leftarrow> mode_get_reg_event mem s; Some (SUCCESS, s) }
     else if e = NRF_WIFI_UMAC_EVENT_REG_CHANGE then do { s \<leftarrow> mode_reg_change_event os mem s; Some (SUCCESS, s) }
     else Some (SUCCESS, s)
   }"

definition nrf_wifi_rt_fmac_event_callback :: "os \<Rightarrow> u8 list \<Rightarrow> fmac \<Rightarrow> (nrf_status \<times> fmac) option" where
  "nrf_wifi_rt_fmac_event_callback os mem s = do {
     ty \<leftarrow> mem_u32 mem 8;
     if ty = msg_type_num NRF_WIFI_HOST_RPU_MSG_TYPE_UMAC then rt_umac_event_ctrl_process os mem s
     else if ty = msg_type_num NRF_WIFI_HOST_RPU_MSG_TYPE_SYSTEM then umac_event_rt_proc_events os mem s
     else Some (FAIL, s)
   }"

section \<open>The device\<close>

definition NRF_WIFI_RT_DEF_RF_PARAMS :: "u8 list" where
  "NRF_WIFI_RT_DEF_RF_PARAMS = map of_char
    (''007077003F032424001000002800323500000C0008087D8105010071630300EED501001F6F00003B350100F52E'' @
     ''0000E35E0000B7B6000066EFFEFFB5F60000896200007A840200E28FFCFF080808080408120100000000A1A101'' @
     ''78000000080050003B020726181818181A120A140E0600'')"

definition nrf_wifi_rt_fmac_phy_rf_params_init ::
    "u8 list \<Rightarrow> nrf_wifi_phy_rf_params \<Rightarrow> u32 \<Rightarrow> u8 list \<Rightarrow> int \<times> nrf_wifi_phy_rf_params" where
  "nrf_wifi_rt_fmac_phy_rf_params_init board prf package_info str = mode_phy_rf_params_init board prf package_info str"

definition nrf_wifi_rt_fmac_rf_params_get :: "os \<Rightarrow> u8 list \<Rightarrow> nrf_wifi_tx_pwr_ceil_params \<Rightarrow> nrf_wifi_phy_rf_params \<Rightarrow>
    fmac \<Rightarrow> (nrf_status \<times> nrf_wifi_phy_rf_params \<times> fmac) option" where
  "nrf_wifi_rt_fmac_rf_params_get os board ceil prf s = mode_rf_params_get os NRF_WIFI_OP_MODE_RT
     (\<lambda>prf pk. nrf_wifi_rt_fmac_phy_rf_params_init board prf pk NRF_WIFI_RT_DEF_RF_PARAMS) ceil prf s"

definition nrf_wifi_rt_fmac_fw_init :: "os \<Rightarrow> (fmac \<Rightarrow> fmac) \<Rightarrow> (fmac \<Rightarrow> (nrf_status \<times> fmac) option) \<Rightarrow> fmac \<Rightarrow>
    (nrf_status \<times> fmac) option" where
  "nrf_wifi_rt_fmac_fw_init os env init_cmd s = mode_fw_init os env init_cmd s"

definition nrf_wifi_rt_fmac_init :: "os \<Rightarrow> fmac \<Rightarrow> bool \<times> fmac" where
  "nrf_wifi_rt_fmac_init os s = mode_init os NRF_WIFI_OP_MODE_RT s"

definition nrf_wifi_rt_fmac_dev_add :: "os \<Rightarrow> fmac \<Rightarrow> (bool \<times> fmac) option" where
  "nrf_wifi_rt_fmac_dev_add os s = mode_dev_add os NRF_WIFI_OP_MODE_RT (nrf_wifi_rt_hal_dev_add os) s"

definition nrf_wifi_rt_fmac_dev_init :: "os \<Rightarrow> (fmac \<Rightarrow> fmac) \<Rightarrow> sys_init_build \<Rightarrow> u8 list \<Rightarrow> nrf_wifi_phy_rf_params \<Rightarrow>
    u32 \<Rightarrow> u32 \<Rightarrow> bool \<Rightarrow> nrf_wifi_tx_pwr_ctrl_params \<Rightarrow> nrf_wifi_tx_pwr_ceil_params \<Rightarrow> u8 list \<Rightarrow> u8 list \<Rightarrow> fmac \<Rightarrow>
    (nrf_status \<times> fmac) option" where
  "nrf_wifi_rt_fmac_dev_init os env b rf_tail stack phy_calib op_band beamforming ctrl ceil board country_code s =
    mode_dev_init os env NRF_WIFI_OP_MODE_RT (nrf_wifi_rt_fmac_rf_params_get os rf_tail ceil stack)
      (\<lambda>prf. umac_cmd_rt_init os b (Some (rf_params_bytes prf)) phy_calib op_band beamforming ctrl board country_code) s"

text \<open>The HAL is not stopped, unlike in the system mode.\<close>

definition nrf_wifi_rt_fmac_fw_deinit :: "fmac \<Rightarrow> fmac" where
  "nrf_wifi_rt_fmac_fw_deinit s = s"

definition nrf_wifi_rt_fmac_dev_deinit :: "fmac \<Rightarrow> fmac" where
  "nrf_wifi_rt_fmac_dev_deinit s =
    (if op_mode s \<noteq> NRF_WIFI_OP_MODE_RT then s
     else nrf_wifi_rt_fmac_fw_deinit (femit (IoFree OBJ_TX_PWR_CEIL) s))"

section \<open>Radio commands\<close>

abbreviation (input) RADIO_CMD_STATUS_TIMEOUT :: nat where "RADIO_CMD_STATUS_TIMEOUT \<equiv> 5000"

definition cmd_open :: "fmac \<Rightarrow> bool" where
  "cmd_open s = (\<not> radio_cmd_done (rt_priv s))"

definition wait_for_radio_cmd_status :: "(fmac \<Rightarrow> fmac) \<Rightarrow> nat \<Rightarrow> fmac \<Rightarrow> nrf_status \<times> fmac" where
  "wait_for_radio_cmd_status env timeout s =
    (let (cnt, s) = poll_wait cmd_open env 1 timeout 0 s in
     (if cnt = timeout then FAIL else if radio_cmd_status (rt_priv s) \<noteq> 1 then FAIL else SUCCESS, s))"

definition radio_cmd :: "(fmac \<Rightarrow> fmac) \<Rightarrow> (fmac \<Rightarrow> (nrf_status \<times> fmac) option) \<Rightarrow> fmac \<Rightarrow> (nrf_status \<times> fmac) option" where
  "radio_cmd env cmd s =
    (if op_mode s \<noteq> NRF_WIFI_OP_MODE_RT then Some (FAIL, s)
     else do {
       (st, s) \<leftarrow> cmd (s\<lparr>rt_priv := (rt_priv s)\<lparr>radio_cmd_done := False\<rparr>\<rparr>);
       if st \<noteq> SUCCESS then Some (st, s) else Some (wait_for_radio_cmd_status env RADIO_CMD_STATUS_TIMEOUT s)
     })"

definition nrf_wifi_rt_fmac_radio_test_init :: "os \<Rightarrow> (fmac \<Rightarrow> fmac) \<Rightarrow> u8 list \<Rightarrow> fmac \<Rightarrow> (nrf_status \<times> fmac) option" where
  "nrf_wifi_rt_fmac_radio_test_init os env params s =
    radio_cmd env (umac_cmd_rt_prog_init os (take 200 (drop 2 params) @ take 13 (drop 220 params)
      @ take 5 (drop 211 params))) s"

definition nrf_wifi_rt_fmac_prog_tx :: "os \<Rightarrow> (fmac \<Rightarrow> fmac) \<Rightarrow> u8 list \<Rightarrow> fmac \<Rightarrow> (nrf_status \<times> fmac) option" where
  "nrf_wifi_rt_fmac_prog_tx os env params s = radio_cmd env (umac_cmd_rt_prog_tx os params) s"

definition nrf_wifi_rt_fmac_prog_rx :: "os \<Rightarrow> (fmac \<Rightarrow> fmac) \<Rightarrow> u8 list \<Rightarrow> fmac \<Rightarrow> (nrf_status \<times> fmac) option" where
  "nrf_wifi_rt_fmac_prog_rx os env params s =
    radio_cmd env (umac_cmd_rt_prog_rx os (take 1 params @ take 200 (drop 2 params) @ take 13 (drop 220 params)
      @ take 5 (drop 211 params) @ take 1 (drop 245 params))) s"

section \<open>RF tests\<close>

definition test_open :: "fmac \<Rightarrow> bool" where
  "test_open s = (rf_test_type (rt_priv s) \<noteq> NRF_WIFI_RF_TEST_MAX)"

definition rf_test_begin :: "u32 \<Rightarrow> u8 list option \<Rightarrow> u32 \<Rightarrow> fmac \<Rightarrow> fmac" where
  "rf_test_begin ty d sz s = s\<lparr>rt_priv := (rt_priv s)\<lparr>rf_test_type := ty, rf_test_cap_data := d, rf_test_cap_sz := sz\<rparr>\<rparr>"

definition rf_test_cancel :: "fmac \<Rightarrow> fmac" where
  "rf_test_cancel s = s\<lparr>rt_priv := (rt_priv s)\<lparr>rf_test_type := NRF_WIFI_RF_TEST_MAX, rf_test_cap_data := None\<rparr>\<rparr>"

text \<open>The wait of a test of up to \<open>limit\<close> turns of 100 milliseconds.\<close>

definition rf_test_finish :: "(fmac \<Rightarrow> fmac) \<Rightarrow> nat \<Rightarrow> nrf_status \<times> fmac \<Rightarrow> nrf_status \<times> fmac" where
  "rf_test_finish env limit p = (case p of (st, s) \<Rightarrow>
     if st \<noteq> SUCCESS then (st, s)
     else let (cnt, s) = poll_wait test_open env 100 limit 0 s in
       if cnt = limit then (FAIL, rf_test_cancel s) else (st, s))"

definition rf_test :: "os \<Rightarrow> (fmac \<Rightarrow> fmac) \<Rightarrow> u32 \<Rightarrow> u8 list \<Rightarrow> fmac \<Rightarrow> (nrf_status \<times> fmac) option" where
  "rf_test os env ty params s =
    (if op_mode s \<noteq> NRF_WIFI_OP_MODE_RT then Some (FAIL, s)
     else map_option (rf_test_finish env 50) (umac_cmd_rt_prog_rf_test os params (rf_test_begin ty None 0 s)))"

text \<open>A capture: the limit is 11 turns for every second of its time. The status of the capture is written for
  the caller only when the test is over.\<close>

definition nrf_wifi_rt_fmac_rf_test_rx_cap :: "os \<Rightarrow> (fmac \<Rightarrow> fmac) \<Rightarrow> u32 \<Rightarrow> u8 list \<Rightarrow> u16 \<Rightarrow> u16 \<Rightarrow> u8 \<Rightarrow> u8 \<Rightarrow> fmac \<Rightarrow>
    (nrf_status \<times> u8 option \<times> fmac) option" where
  "nrf_wifi_rt_fmac_rf_test_rx_cap os env ty cap_data num_samples capture_timeout lna_gain bb_gain s =
    (if op_mode s \<noteq> NRF_WIFI_OP_MODE_RT then Some (FAIL, None, s)
     else do {
       let s = rf_test_begin ty (Some cap_data) (ucast num_samples * 3) s;
       (st, s) \<leftarrow> umac_cmd_rt_prog_rf_test os
         ([ucast ty] @ le16_bytes num_samples @ le16_bytes capture_timeout @ [0, lna_gain, bb_gain])
         (s\<lparr>rt_priv := (rt_priv s)\<lparr>capture_status := 0\<rparr>\<rparr>);
       if st \<noteq> SUCCESS then Some (st, None, s)
       else let (st, s) = rf_test_finish env (11 * unat capture_timeout) (st, s) in
         Some (st, if st \<noteq> SUCCESS then None else Some (capture_status (rt_priv s)), s)
     })"

definition nrf_wifi_rt_fmac_rf_test_tx_tone :: "os \<Rightarrow> (fmac \<Rightarrow> fmac) \<Rightarrow> u8 \<Rightarrow> u8 \<Rightarrow> u8 \<Rightarrow> fmac \<Rightarrow> (nrf_status \<times> fmac) option" where
  "nrf_wifi_rt_fmac_rf_test_tx_tone os env enable tone_freq tx_power s =
    rf_test os env NRF_WIFI_RF_TEST_TX_TONE [3, tone_freq, tx_power, enable] s"

definition nrf_wifi_rt_fmac_rf_test_dpd :: "os \<Rightarrow> (fmac \<Rightarrow> fmac) \<Rightarrow> u8 \<Rightarrow> fmac \<Rightarrow> (nrf_status \<times> fmac) option" where
  "nrf_wifi_rt_fmac_rf_test_dpd os env enable s = rf_test os env NRF_WIFI_RF_TEST_DPD [4, enable] s"

definition nrf_wifi_rt_fmac_rf_get_temp :: "os \<Rightarrow> (fmac \<Rightarrow> fmac) \<Rightarrow> fmac \<Rightarrow> (nrf_status \<times> fmac) option" where
  "nrf_wifi_rt_fmac_rf_get_temp os env s = rf_test os env NRF_WIFI_RF_TEST_GET_TEMPERATURE (7 # replicate 8 0) s"

text \<open>The battery voltage: after the last turn the status is the one of the command, and the test stays
  open.\<close>

definition nrf_wifi_rt_fmac_rf_get_bat_volt :: "os \<Rightarrow> (fmac \<Rightarrow> fmac) \<Rightarrow> fmac \<Rightarrow> (nrf_status \<times> fmac) option" where
  "nrf_wifi_rt_fmac_rf_get_bat_volt os env s =
    (if op_mode s \<noteq> NRF_WIFI_OP_MODE_RT then Some (FAIL, s)
     else do {
       (st, s) \<leftarrow> umac_cmd_rt_prog_rf_test os (10 # replicate 5 0) (rf_test_begin NRF_WIFI_RF_TEST_GET_BAT_VOLT None 0 s);
       if st \<noteq> SUCCESS then Some (st, s)
       else let (_, s) = poll_wait test_open env 100 50 0 s in Some (st, s)
     })"

definition nrf_wifi_rt_fmac_rf_get_rf_rssi :: "os \<Rightarrow> (fmac \<Rightarrow> fmac) \<Rightarrow> fmac \<Rightarrow> (nrf_status \<times> fmac) option" where
  "nrf_wifi_rt_fmac_rf_get_rf_rssi os env s = rf_test os env NRF_WIFI_RF_TEST_RF_RSSI [5, 3, 10, 0] s"

definition nrf_wifi_rt_fmac_set_xo_val :: "os \<Rightarrow> (fmac \<Rightarrow> fmac) \<Rightarrow> u8 \<Rightarrow> fmac \<Rightarrow> (nrf_status \<times> fmac) option" where
  "nrf_wifi_rt_fmac_set_xo_val os env val s = rf_test os env NRF_WIFI_RF_TEST_XO_CALIB [8, val] s"

definition nrf_wifi_rt_fmac_rf_test_compute_xo :: "os \<Rightarrow> (fmac \<Rightarrow> fmac) \<Rightarrow> fmac \<Rightarrow> (nrf_status \<times> fmac) option" where
  "nrf_wifi_rt_fmac_rf_test_compute_xo os env s = rf_test os env NRF_WIFI_RF_TEST_XO_TUNE [9, 0] s"

definition nrf_wifi_rt_fmac_stats_get :: "os \<Rightarrow> (fmac \<Rightarrow> fmac) \<Rightarrow> u32 \<Rightarrow> u8 list \<Rightarrow> fmac \<Rightarrow> (nrf_status \<times> fmac) option" where
  "nrf_wifi_rt_fmac_stats_get os env mode stats s =
    mode_stats_get os env NRF_WIFI_OP_MODE_RT (umac_cmd_rt_prog_stats_get os mode) stats s"

section \<open>Verdicts\<close>



lemma rf_test_late_event:
  assumes "\<not> test_open s" "umac_event_rt_rf_test_process os mem s = Some (st, t)" "nth_opt mem 24 \<noteq> Some 11"
  shows "st = FAIL \<and> t = s"
proof -
  have "unat (ucast ev :: u32) = unat ev" for ev :: u8
    by (simp add: unsigned_ucast_eq take_bit_nat_eq_self_iff order_less_le_trans [OF unsigned_less])
  then have "ucast ev \<noteq> (11 :: u32)" if "ev \<noteq> 11" for ev :: u8
    using that by (auto simp: word_unat_eq_iff)
  with assms show ?thesis
    by (auto simp: umac_event_rt_rf_test_process_def test_open_def split: Option.bind_split_asm if_split_asm)
qed

text \<open>The battery voltage: always a success; the test stays open when no event came.\<close>

theorem bat_volt_timeout:
  assumes "nrf_wifi_rt_fmac_rf_get_bat_volt os env s = Some (SUCCESS, t)"
  shows "\<exists>u. t = turn env 100 u (min (answered test_open env 100 u 50) 49) \<and>
    (test_open t \<longleftrightarrow> answered test_open env 100 u 50 = 50)"
proof -
  obtain u k where u: "poll_wait test_open env 100 50 0 u = (k, t)"
    using assms by (auto simp: nrf_wifi_rt_fmac_rf_get_bat_volt_def split: Option.bind_split_asm if_split_asm prod.split_asm)
  let ?n = "answered test_open env 100 u 50"
  note a = answered_turns [OF refl [of ?n]]
  have t: "t = turn env 100 u (min ?n 49)" using u by (simp add: poll_wait_verdict [OF _ refl])
  have "test_open t \<longleftrightarrow> ?n = 50"
  proof (cases "?n = 50")
    case True
    then show ?thesis using t a(2) [of 49] by simp
  next
    case False
    then show ?thesis using t a(1,3) by simp
  qed
  with t show ?thesis by blast
qed

text \<open>A capture without a time has one turn and is a success, whether the event has come or not.\<close>

lemma rx_cap_zero:
  assumes "nrf_wifi_rt_fmac_rf_test_rx_cap os env ty d num 0 lna bb s = Some (st, c, t)" "st = SUCCESS"
  shows "\<exists>u. t = turn env 100 u 0 \<and> rf_test_cap_data (rt_priv u) = Some d \<and> c = Some (capture_status (rt_priv t))"
proof -
  have "rt_priv v = rt_priv u" if "cmd_send os k b u = Some (st', v)" for k b u st' v
    using that by (auto simp: cmd_send_def umac_cmd_alloc_def fmac_access_defs split: if_splits Option.bind_splits prod.splits)
  with assms show ?thesis
    by (auto simp: nrf_wifi_rt_fmac_rf_test_rx_cap_def umac_cmd_rt_prog_rf_test_def rf_test_finish_def poll_wait_zero
        rf_test_begin_def Let_def split: if_split_asm Option.bind_split_asm)
qed

text \<open>A radio command: it succeeds exactly when its status comes in one of the first 4999 turns and is
  \<open>NRF_WIFI_UMAC_CMD_SUCCESS\<close>.\<close>

theorem radio_cmd_verdict:
  assumes "radio_cmd env cmd s = Some (st, t)" "op_mode s = NRF_WIFI_OP_MODE_RT"
    and "cmd (s\<lparr>rt_priv := (rt_priv s)\<lparr>radio_cmd_done := False\<rparr>\<rparr>) = Some (SUCCESS, u)"
    and "n = answered cmd_open env 1 u 5000"
  shows "t = turn env 1 u (min n 4999) \<and> (st = SUCCESS \<longleftrightarrow> n < 4999 \<and> radio_cmd_status (rt_priv t) = 1)"
proof -
  have w: "poll_wait cmd_open env 1 5000 0 u = (min (n + 1) 5000, turn env 1 u (min n 4999))"
    using poll_wait_verdict [OF _ assms(4)] by simp
  have "n \<le> 5000" using answered_turns(1) [OF assms(4)] .
  with assms w show ?thesis
    by (auto simp: radio_cmd_def wait_for_radio_cmd_status_def split: if_split_asm)
qed

text \<open>A request for statistics that is sent is a success, also when no answer came in 50 turns; then the
  request stays open and every other one fails.\<close>

theorem rt_stats_timeout:
  assumes "nrf_wifi_rt_fmac_stats_get os env mode stats s = Some (SUCCESS, t)"
  shows "\<exists>u. t = turn env 1 u (min (answered stats_req env 1 u 50) 49) \<and>
    (stats_req t \<longleftrightarrow> answered stats_req env 1 u 50 = 50) \<and>
    (stats_req t \<longrightarrow> (\<forall>m b. nrf_wifi_rt_fmac_stats_get os env m b t = Some (FAIL, t)))"
  using assms mode_stats_get_open unfolding nrf_wifi_rt_fmac_stats_get_def by (elim mode_stats_get_run) blast

section \<open>The memory of a capture\<close>

text \<open>What the layer above and the firmware do: events, and the calls, during whose waits there are
  more events. A capture brings memory for three bytes for every sample.\<close>

inductive rt_event :: "os \<Rightarrow> fmac \<Rightarrow> fmac \<Rightarrow> bool" for os where
  "nrf_wifi_rt_fmac_event_callback os mem s = Some (st, t) \<Longrightarrow> rt_event os s t"

definition env_events :: "os \<Rightarrow> (fmac \<Rightarrow> fmac) \<Rightarrow> bool" where
  "env_events os env = (\<forall>s. (rt_event os)\<^sup>*\<^sup>* s (env s))"

inductive rt_op :: "os \<Rightarrow> fmac \<Rightarrow> fmac \<Rightarrow> bool" for os where
  rt_op_event: "rt_event os s t \<Longrightarrow> rt_op os s t"
| rt_op_init: "nrf_wifi_rt_fmac_radio_test_init os env p s = Some (st, t) \<Longrightarrow> env_events os env \<Longrightarrow> rt_op os s t"
| rt_op_tx: "nrf_wifi_rt_fmac_prog_tx os env p s = Some (st, t) \<Longrightarrow> env_events os env \<Longrightarrow> rt_op os s t"
| rt_op_rx: "nrf_wifi_rt_fmac_prog_rx os env p s = Some (st, t) \<Longrightarrow> env_events os env \<Longrightarrow> rt_op os s t"
| rt_op_test: "rf_test os env ty p s = Some (st, t) \<Longrightarrow> env_events os env \<Longrightarrow> rt_op os s t"
| rt_op_cap: "nrf_wifi_rt_fmac_rf_test_rx_cap os env ty d num tm lna bb s = Some (st, c, t) \<Longrightarrow> env_events os env \<Longrightarrow>
    3 * unat num \<le> length d \<Longrightarrow> rt_op os s t"
| rt_op_bat: "nrf_wifi_rt_fmac_rf_get_bat_volt os env s = Some (st, t) \<Longrightarrow> env_events os env \<Longrightarrow> rt_op os s t"
| rt_op_stats: "nrf_wifi_rt_fmac_stats_get os env m stats s = Some (st, t) \<Longrightarrow> env_events os env \<Longrightarrow> rt_op os s t"

definition cap_ok :: "fmac \<Rightarrow> bool" where
  "cap_ok s = (\<forall>d. rf_test_cap_data (rt_priv s) = Some d \<longrightarrow> unat (rf_test_cap_sz (rt_priv s)) \<le> length d)"

named_theorems caps

lemma cap_ok_priv: "rt_priv t = rt_priv s \<Longrightarrow> cap_ok s \<Longrightarrow> cap_ok t"
  by (simp add: cap_ok_def)

lemma cmd_send_priv [caps]: "cmd_send os k b s = Some (st, t) \<Longrightarrow> cap_ok s \<Longrightarrow> cap_ok t"
  by (rule cap_ok_priv)
    (auto simp: cmd_send_def umac_cmd_alloc_def fmac_access_defs split: if_splits Option.bind_splits prod.splits)

lemma mem_read_length: "hal_rpu_mem_read os a n s = Some (st, bs, t) \<Longrightarrow> length bs \<le> n"
  by (auto simp: hal_rpu_mem_read_def rpu_mem_read_ram_def hal_ps_access_def bal_read_block Let_def
      split: if_splits option.splits Option.bind_splits prod.splits)

lemma capture_read_ok:
  assumes "rt_capture_read os s = Some t" "cap_ok s"
  shows "cap_ok t"
  using assms by (auto simp: rt_capture_read_def cap_ok_def Let_def split: option.splits Option.bind_split_asm if_split_asm)

lemma ucast_u8_u32: "unat (ucast ev :: u32) = unat ev" for ev :: u8
  by (simp add: unsigned_ucast_eq take_bit_nat_eq_self_iff order_less_le_trans [OF unsigned_less])

lemma cap_ok_close: "cap_ok s \<Longrightarrow> cap_ok (s\<lparr>rt_priv := (rt_priv s)\<lparr>rf_test_type := ty\<rparr>\<rparr>)"
  "cap_ok s \<Longrightarrow> cap_ok (s\<lparr>rt_priv := (rt_priv s)\<lparr>capture_status := c\<rparr>\<rparr>)"
  "cap_ok s \<Longrightarrow> cap_ok (s\<lparr>rt_priv := (rt_priv s)\<lparr>radio_cmd_status := v, radio_cmd_done := b\<rparr>\<rparr>)"
  "cap_ok s \<Longrightarrow> cap_ok (s\<lparr>rt_priv := (rt_priv s)\<lparr>radio_cmd_done := b\<rparr>\<rparr>)"
  by (simp_all add: cap_ok_def)

lemma rf_test_process_run:
  assumes "umac_event_rt_rf_test_process os mem s = Some (st, t)"
  obtains "t = s"
    | u c where "rf_test_type (rt_priv s) \<le> 2" "rt_capture_read os s = Some u"
        "t = (let u = u\<lparr>rt_priv := (rt_priv u)\<lparr>capture_status := c\<rparr>\<rparr> in u\<lparr>rt_priv := (rt_priv u)\<lparr>rf_test_type := 11\<rparr>\<rparr>)"
    | "t = s\<lparr>rt_priv := (rt_priv s)\<lparr>rf_test_type := 11\<rparr>\<rparr>"
proof -
  from assms obtain ev where ev: "nth_opt mem 24 = Some ev"
    by (auto simp: umac_event_rt_rf_test_process_def split: Option.bind_split_asm)
  show ?thesis
  proof (cases "ucast ev = rf_test_type (rt_priv s)")
    case False
    with assms ev have "t = s" by (simp add: umac_event_rt_rf_test_process_def)
    then show ?thesis by (rule that(1))
  next
    case ty: True
    show ?thesis
    proof (cases "ev \<le> 2")
      case True
      then have "rf_test_type (rt_priv s) \<le> 2" by (simp add: ty [symmetric] word_le_nat_alt ucast_u8_u32)
      moreover from True assms ev ty obtain u p where "rt_capture_read os s = Some u" "mem_bytes mem 24 8 = Some p"
          "t = (let u = u\<lparr>rt_priv := (rt_priv u)\<lparr>capture_status := p ! 5\<rparr>\<rparr> in u\<lparr>rt_priv := (rt_priv u)\<lparr>rf_test_type := 11\<rparr>\<rparr>)"
        by (cases "rt_capture_read os s"; cases "mem_bytes mem 24 8") (simp_all add: umac_event_rt_rf_test_process_def Let_def)
      ultimately show ?thesis using that(2) by blast
    next
      case False
      with assms ev ty have "t = s\<lparr>rt_priv := (rt_priv s)\<lparr>rf_test_type := 11\<rparr>\<rparr>"
        by (cases "mem_bytes mem 24 (rf_event_size ev)") (simp_all add: umac_event_rt_rf_test_process_def)
      then show ?thesis by (rule that(3))
    qed
  qed
qed

lemma rf_test_process_ok:
  assumes "umac_event_rt_rf_test_process os mem s = Some (st, t)" "cap_ok s"
  shows "cap_ok t \<and> (2 < rf_test_type (rt_priv s) \<longrightarrow> rf_test_cap_data (rt_priv t) = rf_test_cap_data (rt_priv s))"
  using assms(1)
proof (rule rf_test_process_run)
  fix u c
  assume u: "rf_test_type (rt_priv s) \<le> 2" "rt_capture_read os s = Some u"
    "t = (let u = u\<lparr>rt_priv := (rt_priv u)\<lparr>capture_status := c\<rparr>\<rparr> in u\<lparr>rt_priv := (rt_priv u)\<lparr>rf_test_type := 11\<rparr>\<rparr>)"
  have "cap_ok t" unfolding u(3) Let_def by (intro cap_ok_close capture_read_ok [OF u(2) assms(2)])
  with u(1) show ?thesis by (auto dest: leD)
qed (use assms(2) in \<open>simp_all add: cap_ok_close\<close>)

lemma rt_ctrl_priv: "rt_umac_event_ctrl_process os mem s = Some (st, t) \<Longrightarrow> rt_priv t = rt_priv s"
  by (auto simp: rt_umac_event_ctrl_process_def mode_get_reg_event_def mode_reg_change_event_def falloc_def Let_def
      split: Option.bind_split_asm if_split_asm prod.split_asm)

lemma rt_stats_priv: "umac_event_rt_stats_process mem s = Some (st, t) \<Longrightarrow> rt_priv t = rt_priv s"
  by (auto simp: umac_event_rt_stats_process_def mode_stats_event_def split: Option.bind_split_asm if_split_asm)

lemma rt_proc_events_ok:
  assumes "umac_event_rt_proc_events os mem s = Some (st, t)" "cap_ok s"
  shows "cap_ok t \<and> (2 < rf_test_type (rt_priv s) \<longrightarrow> rf_test_cap_data (rt_priv t) = rf_test_cap_data (rt_priv s))"
proof -
  obtain e where e: "mem_u32 mem 12 = Some e"
    using assms(1) by (auto simp: umac_event_rt_proc_events_def split: Option.bind_split_asm)
  consider "e = 2" | "e = 4" | "e = 7" | "e \<noteq> 2" "e \<noteq> 4" "e \<noteq> 7" by blast
  then show ?thesis
  proof cases
    case 1
    with assms(1) e have "rt_priv t = rt_priv s" by (simp add: umac_event_rt_proc_events_def rt_stats_priv)
    with assms(2) show ?thesis by (simp add: cap_ok_def)
  next
    case 2
    with assms e show ?thesis using rf_test_process_ok by (simp add: umac_event_rt_proc_events_def)
  next
    case 3
    with assms e show ?thesis
      by (cases "mem_u32 mem 20") (auto simp: umac_event_rt_proc_events_def cap_ok_close)
  next
    case 4
    with assms(1) e have "rt_priv t = rt_priv s" by (auto simp: umac_event_rt_proc_events_def split: if_split_asm)
    with assms(2) show ?thesis by (simp add: cap_ok_def)
  qed
qed

lemma rt_callback_ok:
  assumes "nrf_wifi_rt_fmac_event_callback os mem s = Some (st, t)" "cap_ok s"
  shows "cap_ok t \<and> (2 < rf_test_type (rt_priv s) \<longrightarrow> rf_test_cap_data (rt_priv t) = rf_test_cap_data (rt_priv s))"
proof -
  from assms(1) consider "rt_priv t = rt_priv s" | "umac_event_rt_proc_events os mem s = Some (st, t)"
    by (auto simp: nrf_wifi_rt_fmac_event_callback_def dest: rt_ctrl_priv split: Option.bind_split_asm if_split_asm)
  then show ?thesis using assms(2) rt_proc_events_ok by cases (simp_all add: cap_ok_def)
qed

lemma sleep_ok [caps]:
  assumes "env_events os env" "cap_ok s"
  shows "cap_ok (sleep_ms env ms s)"
proof -
  have "cap_ok u" if "(rt_event os)\<^sup>*\<^sup>* v u" "cap_ok v" for u v
    using that by (induction rule: rtranclp_induct) (auto elim: rt_event.cases dest: rt_callback_ok)
  moreover have "cap_ok (femit (IoSleepMs ms) s)" using assms(2) by (simp add: cap_ok_def femit_def)
  ultimately show ?thesis using assms(1) unfolding env_events_def sleep_ms_def by blast
qed

lemma poll_wait_ok [caps]:
  "poll_wait p env ms limit cnt s = (k, t) \<Longrightarrow> env_events os env \<Longrightarrow> cap_ok s \<Longrightarrow> cap_ok t"
proof (induction p env ms limit cnt s rule: poll_wait.induct)
  case (1 p env ms limit cnt s)
  from "1.prems"(1) show ?case
    by (subst (asm) poll_wait.simps)
      (use "1.IH" [OF refl refl] "1.prems"(2,3) sleep_ok in \<open>auto simp: Let_def split: if_split_asm\<close>)
qed

lemma radio_cmd_ok:
  assumes "radio_cmd env cmd s = Some (st, t)" "env_events os env" "cap_ok s"
    and "\<And>u v st. cmd u = Some (st, v) \<Longrightarrow> cap_ok u \<Longrightarrow> cap_ok v"
  shows "cap_ok t"
proof -
  have "cap_ok (s\<lparr>rt_priv := (rt_priv s)\<lparr>radio_cmd_done := False\<rparr>\<rparr>)" by (rule cap_ok_close) fact
  with assms show ?thesis
    by (auto simp: radio_cmd_def wait_for_radio_cmd_status_def Let_def
        split: if_split_asm Option.bind_split_asm prod.split_asm; blast intro: poll_wait_ok)
qed

lemma radio_api_ok:
  "nrf_wifi_rt_fmac_radio_test_init os env p s = Some (st, t) \<Longrightarrow> env_events os env \<Longrightarrow> cap_ok s \<Longrightarrow> cap_ok t"
  "nrf_wifi_rt_fmac_prog_tx os env p s = Some (st, t) \<Longrightarrow> env_events os env \<Longrightarrow> cap_ok s \<Longrightarrow> cap_ok t"
  "nrf_wifi_rt_fmac_prog_rx os env p s = Some (st, t) \<Longrightarrow> env_events os env \<Longrightarrow> cap_ok s \<Longrightarrow> cap_ok t"
  unfolding nrf_wifi_rt_fmac_radio_test_init_def nrf_wifi_rt_fmac_prog_tx_def nrf_wifi_rt_fmac_prog_rx_def
    umac_cmd_rt_prog_init_def umac_cmd_rt_prog_tx_def umac_cmd_rt_prog_rx_def
  by (erule radio_cmd_ok; blast intro: cmd_send_priv)+

lemma rf_test_cmd_ok: "umac_cmd_rt_prog_rf_test os p s = Some (st, t) \<Longrightarrow> cap_ok s \<Longrightarrow> cap_ok t"
  unfolding umac_cmd_rt_prog_rf_test_def by (rule cmd_send_priv)

lemma rf_test_finish_ok:
  assumes "rf_test_finish env limit (st, s) = (st', t)" "env_events os env" "cap_ok s"
  shows "cap_ok t"
proof -
  have "cap_ok (rf_test_cancel u)" for u by (simp add: cap_ok_def rf_test_cancel_def)
  with assms show ?thesis
    by (auto simp: rf_test_finish_def Let_def split: if_split_asm prod.split_asm; blast intro: poll_wait_ok)
qed

lemma rf_test_begin_ok: "cap_ok (rf_test_begin ty None sz s)"
  "unat sz \<le> length d \<Longrightarrow> cap_ok (rf_test_begin ty (Some d) sz s)"
  by (simp_all add: cap_ok_def rf_test_begin_def)

lemma rf_test_ok:
  assumes "rf_test os env ty p s = Some (st, t)" "env_events os env" "cap_ok s"
  shows "cap_ok t"
proof (cases "op_mode s = NRF_WIFI_OP_MODE_RT")
  case True
  with assms(1) obtain st' u where u: "umac_cmd_rt_prog_rf_test os p (rf_test_begin ty None 0 s) = Some (st', u)"
    "rf_test_finish env 50 (st', u) = (st, t)" by (auto simp: rf_test_def)
  show ?thesis
    using rf_test_finish_ok [OF u(2) assms(2)] rf_test_cmd_ok [OF u(1) rf_test_begin_ok(1)] by blast
qed (use assms in \<open>simp add: rf_test_def\<close>)

lemma bat_volt_ok:
  assumes "nrf_wifi_rt_fmac_rf_get_bat_volt os env s = Some (st, t)" "env_events os env" "cap_ok s"
  shows "cap_ok t"
  using assms
  by (auto simp: nrf_wifi_rt_fmac_rf_get_bat_volt_def Let_def split: if_split_asm Option.bind_split_asm prod.split_asm;
      blast intro: poll_wait_ok rf_test_cmd_ok rf_test_begin_ok)

lemma rx_cap_sz: "unat (ucast num * 3 :: u32) = 3 * unat num" for num :: u16
proof -
  have "unat num < 65536" using unsigned_less [of num] by simp
  then show ?thesis by (simp add: unat_word_ariths unat_ucast_u16)
qed

lemma rx_cap_ok:
  assumes "nrf_wifi_rt_fmac_rf_test_rx_cap os env ty d num tm lna bb s = Some (st, c, t)" "env_events os env"
    and "3 * unat num \<le> length d" "cap_ok s"
  shows "cap_ok t"
proof (cases "op_mode s = NRF_WIFI_OP_MODE_RT")
  case True
  let ?s = "rf_test_begin ty (Some d) (ucast num * 3) s"
  let ?b = "?s\<lparr>rt_priv := (rt_priv ?s)\<lparr>capture_status := 0\<rparr>\<rparr>"
  have b: "cap_ok ?b" by (intro cap_ok_close rf_test_begin_ok) (simp add: rx_cap_sz assms(3))
  from True assms(1) obtain st' u where u: "umac_cmd_rt_prog_rf_test os
      ([ucast ty] @ le16_bytes num @ le16_bytes tm @ [0, lna, bb]) ?b = Some (st', u)"
    "t = u \<or> rf_test_finish env (11 * unat tm) (st', u) = (st, t)"
    by (auto simp: nrf_wifi_rt_fmac_rf_test_rx_cap_def Let_def split: if_split_asm Option.bind_split_asm prod.split_asm)
  show ?thesis
    using u(2) rf_test_finish_ok [OF _ assms(2)] rf_test_cmd_ok [OF u(1) b] by blast
qed (use assms in \<open>simp add: nrf_wifi_rt_fmac_rf_test_rx_cap_def\<close>)

lemma rt_stats_get_ok:
  assumes "nrf_wifi_rt_fmac_stats_get os env m stats s = Some (st, t)" "env_events os env" "cap_ok s"
  shows "cap_ok t"
proof -
  have "cap_ok (s\<lparr>stats_req := True, fw_stats := Some stats\<rparr>)" using assms(3) by (simp add: cap_ok_def)
  with assms show ?thesis
    by (auto simp: nrf_wifi_rt_fmac_stats_get_def mode_stats_get_def umac_cmd_rt_prog_stats_get_def Let_def
        split: if_split_asm Option.bind_split_asm prod.split_asm; blast intro: poll_wait_ok cmd_send_priv)
qed

lemma rt_op_ok: "rt_op os s t \<Longrightarrow> cap_ok s \<Longrightarrow> cap_ok t"
proof (induction rule: rt_op.induct)
  case (rt_op_event s t)
  then show ?case by (auto elim: rt_event.cases dest: rt_callback_ok)
qed (auto intro: radio_api_ok rf_test_ok rx_cap_ok bat_volt_ok rt_stats_get_ok)

lemma rt_history_ok: "(rt_op os)\<^sup>*\<^sup>* s t \<Longrightarrow> cap_ok s \<Longrightarrow> cap_ok t"
  by (induction rule: rtranclp_induct) (auto intro: rt_op_ok)

text \<open>C12 The memory of a capture is safe: in every history of a device, from its addition on, of events and
  calls with events during their waits, the event of a capture never writes behind the memory that the caller
  gave, and an event that comes while no capture is under way leaves it as it is.\<close>

theorem rt_capture_safe:
  assumes "nrf_wifi_rt_fmac_dev_add os s0 = Some (True, s)" "(rt_op os)\<^sup>*\<^sup>* s t"
  shows "(rt_capture_read os t = None \<longrightarrow> rf_test_cap_data (rt_priv t) \<noteq> None \<and>
      hal_rpu_mem_read os RPU_MEM_RF_TEST_CAP_BASE (unat (rf_test_cap_sz (rt_priv t))) (hal_dev_ctx t) = None) \<and>
    (nrf_wifi_rt_fmac_event_callback os mem t = Some (st, u) \<and> 2 < rf_test_type (rt_priv t) \<longrightarrow>
      rf_test_cap_data (rt_priv u) = rf_test_cap_data (rt_priv t))"
proof -
  have "rf_test_cap_data (rt_priv s) = None"
    using assms(1) by (auto simp: nrf_wifi_rt_fmac_dev_add_def mode_dev_add_def falloc_def on_hal_def rt_priv_zero_def Let_def
        split: if_split_asm Option.bind_split_asm prod.split_asm)
  then have "cap_ok s" by (simp add: cap_ok_def)
  with assms(2) have ok: "cap_ok t" by (rule rt_history_ok)
  have "rt_capture_read os t = None \<longrightarrow> rf_test_cap_data (rt_priv t) \<noteq> None \<and>
      hal_rpu_mem_read os RPU_MEM_RF_TEST_CAP_BASE (unat (rf_test_cap_sz (rt_priv t))) (hal_dev_ctx t) = None"
    using ok mem_read_length [of os RPU_MEM_RF_TEST_CAP_BASE "unat (rf_test_cap_sz (rt_priv t))" "hal_dev_ctx t"]
    by (auto simp: rt_capture_read_def cap_ok_def Let_def split: option.splits Option.bind_split_asm if_split_asm)
  then show ?thesis using rt_callback_ok [OF _ ok] by blast
qed

text \<open>The capture whose command cannot be allocated: its memory stays registered, and the event may come.\<close>

abbreviation cap_os :: os where
  "cap_os \<equiv> demo_os\<lparr>os_alloc := \<lambda>_ x. x \<noteq> OBJ_CMD\<rparr>"

lemma mode_bus_demo:
  assumes "\<not> rpu_fw_booted s" "\<And>tr x. os_alloc os tr x \<longleftrightarrow> x \<noteq> OBJ_CMD" "\<And>tr a. os_read32 os tr a \<noteq> 0xFFFFFFFF"
  shows "\<exists>t. mode_dev_add_bus os undo s = Some (True, t) \<and> same_dev s t"
proof -
  obtain s1 where ps: "hal_rpu_ps_init os s = (SUCCESS, s1)"
    by (simp add: hal_rpu_ps_init_def osal_alloc_def assms(2) Let_def)
  note p = ps_init_live(2) [OF ps]
  obtain s2 where bal: "nrf_wifi_bal_dev_add os s1 = (True, s2)"
    by (cases "bal_bus s1") (simp_all add: nrf_wifi_bal_dev_add_def nrf_wifi_bus_qspi_ops_def
      nrf_wifi_bus_spi_ops_def nrf_wifi_bus_qspi_dev_add_def nrf_wifi_bus_spi_dev_add_def osal_alloc_def assms(2) Let_def)
  note b = bal_dev_add_live(2) [OF bal]
  have nb: "\<not> rpu_fw_booted s2" using assms(1) p b by (simp add: same_dev_def)
  obtain s3 where i: "hal_rpu_irq_enable os s2 = Some (SUCCESS, s3)"
    using irq_enable_succeeds [OF assms(3) nb] by blast
  then have "same_dev s2 s3" using irq_enable_unbooted [OF nb, of os] by auto
  with p b have "same_dev s s3" by (blast intro: same_dev_trans)
  with i show ?thesis by (simp add: mode_dev_add_bus_def ps bal)
qed

lemma rt_dev_add_demo:
  "\<exists>s. nrf_wifi_rt_fmac_dev_add cap_os (fmac_demo\<lparr>op_mode := NRF_WIFI_OP_MODE_RT\<rparr>) = Some (True, s) \<and>
    op_mode s = NRF_WIFI_OP_MODE_RT \<and> \<not> rpu_fw_booted (hal_dev_ctx s) \<and> curr_proc (hal_dev_ctx s) = RPU_PROC_TYPE_MCU_LMAC"
proof -
  have al: "os_alloc cap_os tr x \<longleftrightarrow> x \<noteq> OBJ_CMD" "os_read32 cap_os tr a \<noteq> 0xFFFFFFFF" for tr x a
    by (simp_all add: tick_os_def)
  let ?h = "hal_awake\<lparr>w_trace := IoAlloc OBJ_FMAC_DEV True # w_trace hal_awake\<rparr>"
  obtain s1 where c: "mode_dev_add_core cap_os ?h = Some (True, s1)" "\<not> rpu_fw_booted s1"
      "curr_proc s1 = RPU_PROC_TYPE_MCU_LMAC"
    by (simp add: mode_dev_add_core_def osal_alloc_def hal_dev_zero_def Let_def)
  obtain t where b: "mode_dev_add_bus cap_os event_tasklet_free s1 = Some (True, t)" "same_dev s1 t"
    using mode_bus_demo [OF c(2) al] by blast
  show ?thesis
    using c b by (simp add: nrf_wifi_rt_fmac_dev_add_def mode_dev_add_def falloc_def osal_alloc_def on_hal_def
        nrf_wifi_rt_hal_dev_add_def fmac_demo_def fmac_dev_zero_def tx_config_zero_def same_dev_def Let_def)
qed

theorem rt_capture_safe_witness:
  "\<exists>s t. nrf_wifi_rt_fmac_dev_add cap_os (fmac_demo\<lparr>op_mode := NRF_WIFI_OP_MODE_RT\<rparr>) = Some (True, s) \<and>
    (rt_op cap_os)\<^sup>*\<^sup>* s t \<and> rf_test_cap_data (rt_priv t) = Some (replicate 6 0) \<and> rt_capture_read cap_os t \<noteq> None"
proof -
  obtain s where s: "nrf_wifi_rt_fmac_dev_add cap_os (fmac_demo\<lparr>op_mode := NRF_WIFI_OP_MODE_RT\<rparr>) = Some (True, s)"
    "op_mode s = NRF_WIFI_OP_MODE_RT" "\<not> rpu_fw_booted (hal_dev_ctx s)" "curr_proc (hal_dev_ctx s) = RPU_PROC_TYPE_MCU_LMAC"
    using rt_dev_add_demo by blast
  obtain st c t where t: "nrf_wifi_rt_fmac_rf_test_rx_cap cap_os id 0 (replicate 6 0) 2 1 0 0 s = Some (st, c, t)"
    "rf_test_cap_data (rt_priv t) = Some (replicate 6 0)" "unat (rf_test_cap_sz (rt_priv t)) = 6"
    "\<not> rpu_fw_booted (hal_dev_ctx t)" "curr_proc (hal_dev_ctx t) = RPU_PROC_TYPE_MCU_LMAC"
    using s by (simp add: nrf_wifi_rt_fmac_rf_test_rx_cap_def umac_cmd_rt_prog_rf_test_def cmd_send_def umac_cmd_alloc_def
        falloc_def osal_alloc_def rf_test_begin_def Let_def)
  have "env_events cap_os id" by (simp add: env_events_def)
  with t(1) have h: "(rt_op cap_os)\<^sup>*\<^sup>* s t" by (intro r_into_rtranclp rt_op_cap) auto
  have "hal_rpu_mem_read cap_os RPU_MEM_RF_TEST_CAP_BASE 6 (hal_dev_ctx t) \<noteq> None"
    using t(4,5) by (simp add: hal_rpu_mem_read_def hal_rpu_is_mem_readable_def hal_rpu_is_mem_ram_def
        mem_read_ram_unbooted pal_rpu_addr_offset_get_def)
  with rt_capture_safe [OF s(1) h] t(3) have "rt_capture_read cap_os t \<noteq> None" by auto
  with s(1) h t(2) show ?thesis by blast
qed

end
