(* ===== verification/Off_Fmac.thy ===== *)
theory Off_Fmac
  imports Fmac_Modes
begin

text \<open>The mode for offloaded raw transmission (\<open>fw_if/umac_if/src/offload_raw_tx\<close>: \<open>fmac_cmd.c\<close>,
  \<open>fmac_event.c\<close>, \<open>fmac_api.c\<close>): the firmware sends a frame of its memory again and again.\<close>

section \<open>Commands\<close>

definition umac_cmd_off_raw_tx_init :: "os \<Rightarrow> sys_init_build \<Rightarrow> u8 list option \<Rightarrow> u32 \<Rightarrow> u32 \<Rightarrow> bool \<Rightarrow>
    nrf_wifi_tx_pwr_ctrl_params \<Rightarrow> u8 list \<Rightarrow> u8 list \<Rightarrow> fmac \<Rightarrow> (nrf_status \<times> fmac) option" where
  "umac_cmd_off_raw_tx_init os b rf_params phy_calib op_band beamforming ctrl board country_code s =
    cmd_send os NRF_WIFI_HOST_RPU_MSG_TYPE_SYSTEM
      (mode_init_body b rf_params phy_calib op_band beamforming ctrl board country_code) s"

definition umac_cmd_off_raw_tx_prog_stats_get :: "os \<Rightarrow> fmac \<Rightarrow> (nrf_status \<times> fmac) option" where
  "umac_cmd_off_raw_tx_prog_stats_get os s = cmd_send os NRF_WIFI_HOST_RPU_MSG_TYPE_SYSTEM
     (sys_head NRF_WIFI_CMD_GET_STATS 16 @ le32_bytes 5 @ le32_bytes 0) s"

text \<open>The parameters, of 12 and of 26 bytes, are pointers that may be NULL.\<close>

definition umac_cmd_off_raw_tx_conf :: "os \<Rightarrow> u8 list option \<Rightarrow> u8 list option \<Rightarrow> fmac \<Rightarrow> (nrf_status \<times> fmac) option" where
  "umac_cmd_off_raw_tx_conf os off_ctrl_params offload_tx_params s =
    (if \<not> fw_init_done s then Some (FAIL, s)
     else case (off_ctrl_params, offload_tx_params) of
       (Some c, Some p) \<Rightarrow> cmd_send os NRF_WIFI_HOST_RPU_MSG_TYPE_SYSTEM (sys_head 0x15 50 @ le32_bytes 0 @ c @ p) s
     | _ \<Rightarrow> Some (FAIL, s))"

definition umac_cmd_off_raw_tx_ctrl :: "os \<Rightarrow> u8 \<Rightarrow> fmac \<Rightarrow> (nrf_status \<times> fmac) option" where
  "umac_cmd_off_raw_tx_ctrl os ctrl_type s =
    (if \<not> fw_init_done s then Some (FAIL, s)
     else cmd_send os NRF_WIFI_HOST_RPU_MSG_TYPE_SYSTEM (sys_head 0x16 13 @ le32_bytes 0 @ [ctrl_type]) s)"

section \<open>Events\<close>

definition umac_event_off_raw_tx_stats_process :: "u8 list \<Rightarrow> fmac \<Rightarrow> (nrf_status \<times> fmac) option" where
  "umac_event_off_raw_tx_stats_process mem s = mode_stats_event 16 mem s"

text \<open>The flag of the mode is true while a command waits, in spite of its name.\<close>

definition umac_event_off_raw_tx_proc_events :: "u8 list \<Rightarrow> fmac \<Rightarrow> (nrf_status \<times> fmac) option" where
  "umac_event_off_raw_tx_proc_events mem s = do {
     cmd_event \<leftarrow> mem_u32 mem HOST_RPU_MSG_SIZE;
     if cmd_event = NRF_WIFI_EVENT_STATS then umac_event_off_raw_tx_stats_process mem s
     else if cmd_event = NRF_WIFI_EVENT_INIT_DONE then Some (SUCCESS, s\<lparr>fw_init_done := True\<rparr>)
     else if cmd_event = NRF_WIFI_EVENT_DEINIT_DONE then Some (SUCCESS, s\<lparr>fw_deinit_done := True\<rparr>)
     else if cmd_event = 12 then do {
       v \<leftarrow> mem_u32 mem (HOST_RPU_MSG_SIZE + 8);
       Some (SUCCESS, s\<lparr>off_priv := (off_priv s)\<lparr>off_raw_tx_cmd_status := v, off_raw_tx_cmd_done := False\<rparr>\<rparr>)
     }
     else Some (FAIL, s)
   }"

definition off_umac_event_ctrl_process :: "u8 list \<Rightarrow> fmac \<Rightarrow> (nrf_status \<times> fmac) option" where
  "off_umac_event_ctrl_process mem s = do {
     if_id \<leftarrow> nth_opt mem (HOST_RPU_MSG_SIZE + 28);
     e \<leftarrow> mem_u32 mem (HOST_RPU_MSG_SIZE + 8);
     if 2 \<le> if_id then Some (SUCCESS, s)
     else if e = NRF_WIFI_UMAC_EVENT_GET_REG then do { s \<leftarrow> mode_get_reg_event mem s; Some (SUCCESS, s) }
     else Some (SUCCESS, s)
   }"

definition nrf_wifi_off_raw_tx_fmac_event_callback :: "u8 list \<Rightarrow> fmac \<Rightarrow> (nrf_status \<times> fmac) option" where
  "nrf_wifi_off_raw_tx_fmac_event_callback mem s = do {
     ty \<leftarrow> mem_u32 mem 8;
     if ty = msg_type_num NRF_WIFI_HOST_RPU_MSG_TYPE_UMAC then off_umac_event_ctrl_process mem s
     else if ty = msg_type_num NRF_WIFI_HOST_RPU_MSG_TYPE_SYSTEM then umac_event_off_raw_tx_proc_events mem s
     else Some (FAIL, s)
   }"

section \<open>The device\<close>

definition NRF_WIFI_OFF_RAW_TX_DEF_RF_PARAMS :: "u8 list" where
  "NRF_WIFI_OFF_RAW_TX_DEF_RF_PARAMS = map of_char
    (''007077003F032424001000002800323500000CF008087D8105010071630300EED501001F6F00003B350100F52E'' @
     ''0000E35E0000B7B6000066EFFEFFB5F60000896200007A840200E28FFCFF080808080408120100000000A1A101'' @
     ''78000000080050003B020726181818181A120A140E0600'')"

definition nrf_wifi_off_raw_tx_fmac_phy_rf_params_init ::
    "u8 list \<Rightarrow> nrf_wifi_phy_rf_params \<Rightarrow> u32 \<Rightarrow> u8 list \<Rightarrow> int \<times> nrf_wifi_phy_rf_params" where
  "nrf_wifi_off_raw_tx_fmac_phy_rf_params_init board prf package_info str =
    mode_phy_rf_params_init board prf package_info str"

definition nrf_wifi_off_raw_tx_fmac_rf_params_get :: "os \<Rightarrow> u8 list \<Rightarrow> nrf_wifi_tx_pwr_ceil_params \<Rightarrow>
    nrf_wifi_phy_rf_params \<Rightarrow> fmac \<Rightarrow> (nrf_status \<times> nrf_wifi_phy_rf_params \<times> fmac) option" where
  "nrf_wifi_off_raw_tx_fmac_rf_params_get os board ceil prf s = mode_rf_params_get os NRF_WIFI_OP_MODE_OFF_RAW_TX
     (\<lambda>prf pk. nrf_wifi_off_raw_tx_fmac_phy_rf_params_init board prf pk NRF_WIFI_OFF_RAW_TX_DEF_RF_PARAMS) ceil prf s"

definition nrf_wifi_fmac_off_raw_tx_fw_init :: "os \<Rightarrow> (fmac \<Rightarrow> fmac) \<Rightarrow> (fmac \<Rightarrow> (nrf_status \<times> fmac) option) \<Rightarrow> fmac \<Rightarrow>
    (nrf_status \<times> fmac) option" where
  "nrf_wifi_fmac_off_raw_tx_fw_init os env init_cmd s = mode_fw_init os env init_cmd s"

definition nrf_wifi_off_raw_tx_fmac_init :: "os \<Rightarrow> fmac \<Rightarrow> bool \<times> fmac" where
  "nrf_wifi_off_raw_tx_fmac_init os s = mode_init os NRF_WIFI_OP_MODE_OFF_RAW_TX s"

definition nrf_wifi_off_raw_tx_fmac_dev_add :: "os \<Rightarrow> fmac \<Rightarrow> (bool \<times> fmac) option" where
  "nrf_wifi_off_raw_tx_fmac_dev_add os s =
    mode_dev_add os NRF_WIFI_OP_MODE_OFF_RAW_TX (nrf_wifi_off_raw_tx_hal_dev_add os) s"

definition nrf_wifi_off_raw_tx_fmac_dev_init :: "os \<Rightarrow> (fmac \<Rightarrow> fmac) \<Rightarrow> sys_init_build \<Rightarrow> u8 list \<Rightarrow>
    nrf_wifi_phy_rf_params \<Rightarrow> u32 \<Rightarrow> u32 \<Rightarrow> bool \<Rightarrow> nrf_wifi_tx_pwr_ctrl_params \<Rightarrow> nrf_wifi_tx_pwr_ceil_params \<Rightarrow>
    u8 list \<Rightarrow> u8 list \<Rightarrow> fmac \<Rightarrow> (nrf_status \<times> fmac) option" where
  "nrf_wifi_off_raw_tx_fmac_dev_init os env b rf_tail stack phy_calib op_band beamforming ctrl ceil board country_code s =
    mode_dev_init os env NRF_WIFI_OP_MODE_OFF_RAW_TX (nrf_wifi_off_raw_tx_fmac_rf_params_get os rf_tail ceil stack)
      (\<lambda>prf. umac_cmd_off_raw_tx_init os b (Some (rf_params_bytes prf)) phy_calib op_band beamforming ctrl board
         country_code) s"

section \<open>The transmission\<close>

definition conf_open :: "fmac \<Rightarrow> bool" where
  "conf_open s = off_raw_tx_cmd_done (off_priv s)"

text \<open>After the last turn the status is the one of the command. A refusal asks for the regulatory domain,
  for the log, and gives up the table of the channels, a local variable, with its return.\<close>

definition nrf_wifi_off_raw_tx_fmac_conf :: "os \<Rightarrow> (fmac \<Rightarrow> fmac) \<Rightarrow> u8 list option \<Rightarrow> u8 list option \<Rightarrow> fmac \<Rightarrow>
    (nrf_status \<times> fmac) option" where
  "nrf_wifi_off_raw_tx_fmac_conf os env off_ctrl_params off_tx_params s =
    (if op_mode s \<noteq> NRF_WIFI_OP_MODE_OFF_RAW_TX then Some (FAIL, s)
     else let s = s\<lparr>off_priv := (off_priv s)\<lparr>off_raw_tx_cmd_done := True\<rparr>\<rparr> in
       if off_ctrl_params = None \<or> off_tx_params = None then Some (FAIL, s)
       else do {
         (st, s) \<leftarrow> umac_cmd_off_raw_tx_conf os off_ctrl_params off_tx_params s;
         if st \<noteq> SUCCESS then Some (st, s)
         else let (cnt, s) = poll_wait conf_open env 1 100 0 s in
           if cnt = 100 then Some (st, s)
           else if off_raw_tx_cmd_status (off_priv s) \<noteq> 1 then do {
             (st, _, s) \<leftarrow> nrf_wifi_fmac_get_reg os env reg_info_zero s;
             Some (if st \<noteq> SUCCESS then st else FAIL, s)
           }
           else Some (SUCCESS, s)
       })"

definition nrf_wifi_off_raw_tx_fmac_start :: "os \<Rightarrow> fmac \<Rightarrow> (nrf_status \<times> fmac) option" where
  "nrf_wifi_off_raw_tx_fmac_start os s =
    (if op_mode s \<noteq> NRF_WIFI_OP_MODE_OFF_RAW_TX then Some (FAIL, s) else umac_cmd_off_raw_tx_ctrl os 1 s)"

definition nrf_wifi_off_raw_tx_fmac_stop :: "os \<Rightarrow> fmac \<Rightarrow> (nrf_status \<times> fmac) option" where
  "nrf_wifi_off_raw_tx_fmac_stop os s =
    (if op_mode s \<noteq> NRF_WIFI_OP_MODE_OFF_RAW_TX then Some (FAIL, s) else umac_cmd_off_raw_tx_ctrl os 0 s)"

definition nrf_wifi_off_raw_tx_fmac_stats_get :: "os \<Rightarrow> (fmac \<Rightarrow> fmac) \<Rightarrow> u8 list \<Rightarrow> fmac \<Rightarrow> (nrf_status \<times> fmac) option" where
  "nrf_wifi_off_raw_tx_fmac_stats_get os env stats s =
    mode_stats_get os env NRF_WIFI_OP_MODE_OFF_RAW_TX (umac_cmd_off_raw_tx_prog_stats_get os) stats s"

section \<open>Verdict\<close>

text \<open>A configuration that is sent fails only when its refusal comes in one of the first 98 turns: silence of the
  firmware is a success, and so is an answer in the last turn, whatever it says.\<close>

theorem off_conf_verdict:
  assumes "nrf_wifi_off_raw_tx_fmac_conf os env (Some c) (Some p) s = Some (st, t)"
    and "op_mode s = NRF_WIFI_OP_MODE_OFF_RAW_TX"
    and "umac_cmd_off_raw_tx_conf os (Some c) (Some p) (s\<lparr>off_priv := (off_priv s)\<lparr>off_raw_tx_cmd_done := True\<rparr>\<rparr>)
      = Some (SUCCESS, u)"
    and "n = answered conf_open env 1 u 100"
  shows "st = SUCCESS \<longleftrightarrow> 99 \<le> n \<or> off_raw_tx_cmd_status (off_priv (turn env 1 u n)) = 1"
proof -
  have w: "poll_wait conf_open env 1 100 0 u = (min (n + 1) 100, turn env 1 u (min n 99))"
    using poll_wait_verdict [OF _ assms(4)] by simp
  show ?thesis
  proof (cases "99 \<le> n")
    case True
    then have "min (n + 1) 100 = 100" "min n 99 = 99" by simp_all
    with assms w True show ?thesis by (simp add: nrf_wifi_off_raw_tx_fmac_conf_def)
  next
    case False
    then have "min (n + 1) 100 \<noteq> 100" "min n 99 = n" by simp_all
    with assms w False show ?thesis
      by (auto simp: nrf_wifi_off_raw_tx_fmac_conf_def split: if_split_asm Option.bind_split_asm prod.split_asm)
  qed
qed

theorem off_conf_verdict_witness:
  "\<exists>t. nrf_wifi_off_raw_tx_fmac_conf demo_buf_os id (Some (replicate 12 0)) (Some (replicate 26 0))
     (fmac_demo\<lparr>op_mode := NRF_WIFI_OP_MODE_OFF_RAW_TX\<rparr>) = Some (SUCCESS, t) \<and> conf_open t"
proof -
  let ?s = "fmac_demo\<lparr>op_mode := NRF_WIFI_OP_MODE_OFF_RAW_TX\<rparr>"
  let ?s1 = "?s\<lparr>off_priv := (off_priv ?s)\<lparr>off_raw_tx_cmd_done := True\<rparr>\<rparr>"
  have hd: "hal_dev_ctx ?s1 = hal_awake" "fw_init_done ?s1" by (simp_all add: fmac_demo_def)
  have b: "length (sys_head 0x15 50 @ le32_bytes 0 @ replicate 12 0 @ replicate 26 0) \<le> 388"
    by (simp add: sys_head_def)
  obtain h where u: "umac_cmd_off_raw_tx_conf demo_buf_os (Some (replicate 12 0)) (Some (replicate 26 0)) ?s1
      = Some (SUCCESS, ?s1\<lparr>hal_dev_ctx := h\<rparr>)"
    using cmd_send_demo [OF b hd(1)] hd(2) by (auto simp: umac_cmd_off_raw_tx_conf_def)
  let ?u = "?s1\<lparr>hal_dev_ctx := h\<rparr>"
  have o: "conf_open (turn id 1 ?u k)" for k by (simp add: conf_open_def turn_idle)
  then have n: "100 = answered conf_open id 1 ?u 100" by (simp add: answered_idle)
  have w: "poll_wait conf_open id 1 100 0 ?u = (100, turn id 1 ?u 99)"
    using poll_wait_verdict [OF _ n] by simp
  obtain st t where r: "nrf_wifi_off_raw_tx_fmac_conf demo_buf_os id (Some (replicate 12 0)) (Some (replicate 26 0)) ?s = Some (st, t)"
      "t = turn id 1 ?u 99"
    using u w by (simp add: nrf_wifi_off_raw_tx_fmac_conf_def)
  have "op_mode ?s = NRF_WIFI_OP_MODE_OFF_RAW_TX" by simp
  from off_conf_verdict [OF r(1) this u n] have "st = SUCCESS" by simp
  with r o show ?thesis by blast
qed

end
