(* ===== verification/Fw_Readers.thy ===== *)
theory Fw_Readers
  imports Fw_Sys Fw_Umac Fmac_Size Fmac_Raw_Ev Rt_Fmac Off_Fmac
begin

text \<open>The event handlers read bytes at numbers; here these are the offsets of the fields that the code names.
  When a message carries a structure, what a handler takes from the bytes are fields of the value.\<close>

section \<open>Offsets\<close>

text \<open>The headers, which are where every event starts.\<close>

lemma header_offsets:
  "offset_of nrf_wifi_umac_hdr_t [''seq''] = Some (4, CU32)"
  "offset_of nrf_wifi_umac_hdr_t [''cmd_evnt''] = Some (8, CU32)"
  "offset_of nrf_wifi_umac_hdr_t [''ids'', ''wdev_id''] = Some (28, CU64)"
  "offset_of nrf_wifi_sys_head_t [''cmd_event''] = Some (0, CU32)"
  "offset_of nrf_wifi_umac_head_t [''cmd''] = Some (0, CU32)"
  "offset_of nrf_wifi_umac_head_t [''len''] = Some (4, CU32)"
  "offset_of host_rpu_msg_t [''hdr'', ''len''] = Some (0, CU32)"
  "offset_of host_rpu_msg_t [''type''] = Some (8, CU32)"
  by (simp_all add: layouts)

lemma station_offsets:
  "offset_of nrf_wifi_umac_event_new_station_t [''umac_hdr'', ''cmd_evnt''] = Some (8, CU32)"
  "offset_of nrf_wifi_umac_event_new_station_t [''umac_hdr'', ''ids'', ''wdev_id''] = Some (28, CU64)"
  "offset_of nrf_wifi_umac_event_new_station_t [''wme''] = Some (40, CU8)"
  "offset_of nrf_wifi_umac_event_new_station_t [''is_sta_legacy''] = Some (41, CU8)"
  "offset_of nrf_wifi_umac_event_new_station_t [''mac_addr''] = Some (42, CArr 6 CU8)"
  by (simp_all add: layouts)

lemma data_offsets:
  "offset_of nrf_wifi_rx_buff_t [''rx_pkt_type''] = Some (8, CU16)"
  "offset_of nrf_wifi_rx_buff_t [''rate_flags''] = Some (10, CU8)"
  "offset_of nrf_wifi_rx_buff_t [''rate''] = Some (11, CU8)"
  "offset_of nrf_wifi_rx_buff_t [''wdev_id''] = Some (12, CU8)"
  "offset_of nrf_wifi_rx_buff_t [''rx_pkt_cnt''] = Some (13, CU8)"
  "offset_of nrf_wifi_rx_buff_t [''mac_header_len''] = Some (15, CU8)"
  "offset_of nrf_wifi_rx_buff_t [''frequency''] = Some (16, CU16)"
  "offset_of nrf_wifi_rx_buff_t [''signal''] = Some (18, CU16)"
  "offset_of nrf_wifi_rx_buff_info_t [''descriptor_id''] = Some (0, CU16)"
  "offset_of nrf_wifi_rx_buff_info_t [''rx_pkt_len''] = Some (2, CU16)"
  "offset_of nrf_wifi_rx_buff_info_t [''pkt_type''] = Some (4, CU8)"
  "offset_of nrf_wifi_tx_buff_done_t [''tx_desc_num''] = Some (8, CU8)"
  "offset_of nrf_wifi_data_carrier_state_t [''wdev_id''] = Some (8, CU32)"
  "offset_of nrf_wifi_sap_client_pwrsave_t [''sta_ps_state''] = Some (12, CU8)"
  "offset_of nrf_wifi_sap_client_pwrsave_t [''mac_addr''] = Some (13, CArr 6 CU8)"
  "offset_of nrf_wifi_sap_ps_get_frames_t [''mac_addr''] = Some (12, CArr 6 CU8)"
  "offset_of nrf_wifi_sap_ps_get_frames_t [''num_frames''] = Some (18, CU8)"
  by (simp_all add: layouts)

lemma raw_offsets:
  "offset_of nrf_wifi_event_raw_config_mode_t [''if_index''] = Some (8, CU8)"
  "offset_of nrf_wifi_event_raw_config_mode_t [''op_mode''] = Some (9, CU8)"
  "offset_of nrf_wifi_event_raw_config_mode_t [''status''] = Some (10, CU32)"
  "offset_of nrf_wifi_event_set_channel_t [''if_index''] = Some (8, CU8)"
  "offset_of nrf_wifi_event_set_channel_t [''chan_num''] = Some (9, CU32)"
  "offset_of nrf_wifi_event_set_channel_t [''status''] = Some (13, CU32)"
  "offset_of nrf_wifi_event_raw_config_filter_t [''if_index''] = Some (8, CU8)"
  "offset_of nrf_wifi_event_raw_config_filter_t [''filter''] = Some (9, CU8)"
  "offset_of nrf_wifi_event_raw_config_filter_t [''status''] = Some (12, CU32)"
  "offset_of nrf_wifi_event_raw_tx_done_t [''desc_num''] = Some (8, CU8)"
  "offset_of nrf_wifi_event_raw_tx_done_t [''status''] = Some (9, CU32)"
  by (simp_all add: layouts)

section \<open>Data events\<close>

lemmas reads = read_u8 read_u16 read_u32

lemma rx_buff_fields:
  assumes "carries nrf_wifi_rx_buff_t e mem p"
  shows "rx_buff_at mem p = Some
    \<lparr>rx_pkt_type = sint (fld16 nrf_wifi_rx_buff_t e [''rx_pkt_type'']), rx_wdev_id = fld8 nrf_wifi_rx_buff_t e [''wdev_id''],
     rx_pkt_cnt = fld8 nrf_wifi_rx_buff_t e [''rx_pkt_cnt''],
     rx_mac_header_len = fld8 nrf_wifi_rx_buff_t e [''mac_header_len''],
     rx_signal = fld16 nrf_wifi_rx_buff_t e [''signal''],
     rx_buff_infos = rx_buff_infos_at mem (p + sizeof nrf_wifi_rx_buff_t)
       (unat (fld8 nrf_wifi_rx_buff_t e [''rx_pkt_cnt'']))\<rparr>"
  using data_offsets(4-6) [THEN reads(1) [OF assms]] data_offsets(1,8) [THEN reads(2) [OF assms]]
  by (simp add: rx_buff_at_def layouts)

lemma raw_rx_hdr_fields:
  assumes "carries nrf_wifi_rx_buff_t e mem p"
  shows "raw_rx_hdr_at mem p = Some
    \<lparr>rrx_frequency = fld16 nrf_wifi_rx_buff_t e [''frequency''], rrx_signal = fld16 nrf_wifi_rx_buff_t e [''signal''],
     rrx_rate_flags = fld8 nrf_wifi_rx_buff_t e [''rate_flags''], rrx_rate = fld8 nrf_wifi_rx_buff_t e [''rate'']\<rparr>"
  using data_offsets(2,3) [THEN reads(1) [OF assms]] data_offsets(7,8) [THEN reads(2) [OF assms]]
  by (simp add: raw_rx_hdr_at_def)

lemma rx_buff_info_fields:
  assumes "carries nrf_wifi_rx_buff_info_t e mem p"
  shows "rx_buff_info_at mem p = Some
    \<lparr>descriptor_id = fld16 nrf_wifi_rx_buff_info_t e [''descriptor_id''],
     rx_pkt_len = fld16 nrf_wifi_rx_buff_info_t e [''rx_pkt_len''], pkt_type = fld8 nrf_wifi_rx_buff_info_t e [''pkt_type'']\<rparr>"
  using data_offsets(9,10) [THEN reads(2) [OF assms]] data_offsets(11) [THEN reads(1) [OF assms]]
  by (simp add: rx_buff_info_at_def)

text \<open>The packets of an event follow each other at the size of their structure.\<close>

lemma rx_buff_infos_fields:
  assumes "\<And>k. k < n \<Longrightarrow> carries nrf_wifi_rx_buff_info_t (e k) mem (p + k * sizeof nrf_wifi_rx_buff_info_t)"
  shows "rx_buff_infos_at mem p n = map (\<lambda>k.
    \<lparr>descriptor_id = fld16 nrf_wifi_rx_buff_info_t (e k) [''descriptor_id''],
     rx_pkt_len = fld16 nrf_wifi_rx_buff_info_t (e k) [''rx_pkt_len''],
     pkt_type = fld8 nrf_wifi_rx_buff_info_t (e k) [''pkt_type'']\<rparr>) [0..<n]"
  using assms
proof (induction n arbitrary: p e)
  case (Suc n)
  have s: "sizeof nrf_wifi_rx_buff_info_t = 17" by (simp add: layouts)
  have "carries nrf_wifi_rx_buff_info_t (e (Suc k)) mem (p + 17 + k * sizeof nrf_wifi_rx_buff_info_t)" if "k < n" for k
    using Suc.prems [of "Suc k"] that by (simp add: s algebra_simps)
  note IH = Suc.IH [OF this]
  have "carries nrf_wifi_rx_buff_info_t (e 0) mem p" using Suc.prems [of 0] by simp
  note rx_buff_info_fields [OF this]
  then show ?case using IH by (simp add: map_upt_Suc del: upt_Suc)
qed simp

text \<open>The other data events.\<close>

lemma data_event_fields:
  "carries nrf_wifi_tx_buff_done_t e mem p \<Longrightarrow>
    nth_opt mem (p + 8) = Some (fld8 nrf_wifi_tx_buff_done_t e [''tx_desc_num''])"
  "carries nrf_wifi_data_carrier_state_t f mem p \<Longrightarrow>
    mem_u32 mem (p + 8) = Some (fld32 nrf_wifi_data_carrier_state_t f [''wdev_id''])"
  "carries nrf_wifi_sap_client_pwrsave_t g mem p \<Longrightarrow>
    nth_opt mem (p + 12) = Some (fld8 nrf_wifi_sap_client_pwrsave_t g [''sta_ps_state'']) \<and>
    mem_bytes mem (p + 13) 6 = Some (fldbytes nrf_wifi_sap_client_pwrsave_t g [''mac_addr''])"
  "carries nrf_wifi_sap_ps_get_frames_t h mem p \<Longrightarrow>
    mem_bytes mem (p + 12) 6 = Some (fldbytes nrf_wifi_sap_ps_get_frames_t h [''mac_addr'']) \<and>
    nth_opt mem (p + 18) = Some (fld8 nrf_wifi_sap_ps_get_frames_t h [''num_frames''])"
  by (auto intro!: read_u8 read_u32 read_array simp: data_offsets)

section \<open>System events\<close>

text \<open>The statistics that are copied are the structure behind the header, in each of the three modes.\<close>

lemma stats_fields:
  "carries nrf_wifi_sys_umac_event_stats_t e mem b \<Longrightarrow>
    mem_bytes mem (b + 8) 647 = Some (fldbytes nrf_wifi_sys_umac_event_stats_t e [''fw''])"
  "carries nrf_wifi_rt_umac_event_stats_t e mem b \<Longrightarrow>
    mem_bytes mem (b + 8) 18 = Some (fldbytes nrf_wifi_rt_umac_event_stats_t e [''fw''])"
  "carries nrf_wifi_off_raw_tx_umac_event_stats_t e mem b \<Longrightarrow>
    mem_bytes mem (b + 8) 16 = Some (fldbytes nrf_wifi_off_raw_tx_umac_event_stats_t e [''fw''])"
proof -
  have "sizeof rpu_sys_fw_stats_t = 647" "sizeof rpu_rt_fw_stats_t = 18" "sizeof rpu_off_raw_tx_fw_stats_t = 16"
    and "offset_of nrf_wifi_sys_umac_event_stats_t [''fw''] = Some (8, rpu_sys_fw_stats_t)"
      "offset_of nrf_wifi_rt_umac_event_stats_t [''fw''] = Some (8, rpu_rt_fw_stats_t)"
      "offset_of nrf_wifi_off_raw_tx_umac_event_stats_t [''fw''] = Some (8, rpu_off_raw_tx_fw_stats_t)"
    by (simp_all add: layouts)
  then show "carries nrf_wifi_sys_umac_event_stats_t e mem b \<Longrightarrow>
    mem_bytes mem (b + 8) 647 = Some (fldbytes nrf_wifi_sys_umac_event_stats_t e [''fw''])"
    "carries nrf_wifi_rt_umac_event_stats_t e mem b \<Longrightarrow>
    mem_bytes mem (b + 8) 18 = Some (fldbytes nrf_wifi_rt_umac_event_stats_t e [''fw''])"
    "carries nrf_wifi_off_raw_tx_umac_event_stats_t e mem b \<Longrightarrow>
    mem_bytes mem (b + 8) 16 = Some (fldbytes nrf_wifi_off_raw_tx_umac_event_stats_t e [''fw''])"
    using read_bytes by (metis zero_less_numeral)+
qed

lemma mode_event_fields:
  assumes "carries nrf_wifi_event_raw_config_mode_t e mem HOST_RPU_MSG_SIZE"
  shows "nrf_wifi_fmac_if_mode_set_event_proc mem s = do {
     let i = fld8 nrf_wifi_event_raw_config_mode_t e [''if_index''];
     _ \<leftarrow> nth_opt (vif_ctx (raw_base s)) (unat i);
     if fld32 nrf_wifi_event_raw_config_mode_t e [''status''] \<noteq> 0 then Some (FAIL, s)
     else do {
       v \<leftarrow> vif_at (raw_base s) (unat i);
       rv \<leftarrow> nth_opt (raw_vifs s) (unat i);
       Some (SUCCESS, mode_apply i (fld8 nrf_wifi_event_raw_config_mode_t e [''op_mode'']) v rv s)
     }
   }"
  using raw_offsets(1,2) [THEN reads(1) [OF assms]] raw_offsets(3) [THEN reads(3) [OF assms]]
  by (simp add: nrf_wifi_fmac_if_mode_set_event_proc_def Let_def)

section \<open>Control events\<close>

text \<open>C15 A new station: when a message of the type of the UMAC carries a \<open>nrf_wifi_umac_event_new_station\<close> for an
  interface that is not a station, and no peer has its address, the peer is added with the
  fields \<open>mac_addr\<close>, \<open>is_sta_legacy\<close> and \<open>wme\<close> of the structure.\<close>

theorem new_station_event:
  assumes "carries host_rpu_msg_t m mem 0" "fld32 host_rpu_msg_t m [''type''] = msg_type_num NRF_WIFI_HOST_RPU_MSG_TYPE_UMAC"
    and e: "carries nrf_wifi_umac_event_new_station_t e mem HOST_RPU_MSG_SIZE"
    and "fld32 nrf_wifi_umac_event_new_station_t e [''umac_hdr'', ''cmd_evnt''] = NRF_WIFI_UMAC_EVENT_NEW_STATION"
    and "i = ucast (fld64 nrf_wifi_umac_event_new_station_t e [''umac_hdr'', ''ids'', ''wdev_id''])" "i < 2"
    and "mac = fldbytes nrf_wifi_umac_event_new_station_t e [''mac_addr'']"
    and "vif_at s (unat i) = Some v" "if_type v \<noteq> NRF_WIFI_IFTYPE_STATION" "nrf_wifi_fmac_peer_get_id mac s = -1"
  shows "nrf_wifi_sys_fmac_event_callback os c mem s = do {
      (_, s) \<leftarrow> nrf_wifi_fmac_peer_add os i mac (fld8 nrf_wifi_umac_event_new_station_t e [''is_sta_legacy''])
        (fld8 nrf_wifi_umac_event_new_station_t e [''wme'']) s;
      Some (SUCCESS, s)
    }"
proof -
  have "mem_u32 mem 0 = Some (fld32 host_rpu_msg_t m [''hdr'', ''len''])" "mem_u32 mem 8 = Some (fld32 host_rpu_msg_t m [''type''])"
    using header_offsets(7,8) [THEN reads(3) [OF assms(1)]] by simp_all
  moreover note station_offsets(1) [THEN reads(3) [OF e]] station_offsets(2) [THEN read_low [OF e]]
    station_offsets(3,4) [THEN reads(1) [OF e]] read_array [OF e station_offsets(5)]
  moreover have "nth_opt (vif_ctx s) (unat i) = Some (VIF_PTR v)"
    using assms(8) by (auto simp: vif_at_def nth_opt_def split: if_splits vif_ptr.splits)
  moreover have "\<not> 2 \<le> i" using assms(6) by simp
  ultimately show ?thesis
    using assms(2,4,5,7-)
    by (cases "nrf_wifi_fmac_peer_add os i mac (fld8 nrf_wifi_umac_event_new_station_t e [''is_sta_legacy''])
        (fld8 nrf_wifi_umac_event_new_station_t e [''wme'']) s")
      (simp_all add: nrf_wifi_sys_fmac_event_callback_def umac_event_ctrl_process_def umac_event_connect_def Let_def case_prod_beta)
qed

definition new_station_demo :: "u8 list" where
  "new_station_demo = station_demo @ replicate 569 0"

definition new_station_go :: fmac where
  "new_station_go = fmac_demo\<lparr>vif_ctx := [VIF_PTR (sta_vif\<lparr>if_type := NRF_WIFI_IFTYPE_P2P_GO\<rparr>), VIF_NULL]\<rparr>"

theorem new_station_event_witness:
  "\<exists>t. nrf_wifi_sys_fmac_event_callback demo_os all_callbacks new_station_demo new_station_go = Some (SUCCESS, t) \<and>
     ra_addr (peers t ! 0) = [2, 0, 0, 0, 0, 9] \<and> qos_supported (peers t ! 0) = 1"
proof -
  let ?T = nrf_wifi_umac_event_new_station_t and ?mem = new_station_demo and ?mac = "[2, 0, 0, 0, 0, 9] :: u8 list"
  let ?m = "decode host_rpu_msg_t (take (sizeof host_rpu_msg_t) (drop 0 ?mem))"
  let ?e = "decode ?T (take (sizeof ?T) (drop HOST_RPU_MSG_SIZE ?mem))"
  have l: "length ?mem = HOST_RPU_MSG_SIZE + sizeof ?T"
    by (simp add: new_station_demo_def station_demo_def umac_hdr_def layouts)
  have m: "carries host_rpu_msg_t ?m ?mem 0" using l by (intro carries_decode) (simp add: layouts)
  have e: "carries ?T ?e ?mem HOST_RPU_MSG_SIZE" using l by (intro carries_decode) simp
  have "mem_u32 ?mem 8 = Some (msg_type_num NRF_WIFI_HOST_RPU_MSG_TYPE_UMAC)"
    and "mem_u32 ?mem 20 = Some NRF_WIFI_UMAC_EVENT_NEW_STATION" "nth_opt ?mem 40 = Some 0"
      "nth_opt ?mem 52 = Some 1" "nth_opt ?mem 53 = Some 0" "mem_bytes ?mem 54 6 = Some ?mac"
    by (simp_all add: new_station_demo_def station_demo_def umac_hdr_def le64_bytes_def event_demo_simps)
  moreover note header_offsets(8) [THEN reads(3) [OF m]] station_offsets(1) [THEN reads(3) [OF e]]
    station_offsets(2) [THEN read_low [OF e]] station_offsets(3,4) [THEN reads(1) [OF e]] read_array [OF e station_offsets(5)]
  ultimately have f: "fld32 host_rpu_msg_t ?m [''type''] = msg_type_num NRF_WIFI_HOST_RPU_MSG_TYPE_UMAC"
      "fld32 ?T ?e [''umac_hdr'', ''cmd_evnt''] = NRF_WIFI_UMAC_EVENT_NEW_STATION"
      "(0 :: u8) = ucast (fld64 ?T ?e [''umac_hdr'', ''ids'', ''wdev_id''])" "?mac = fldbytes ?T ?e [''mac_addr'']"
      "fld8 ?T ?e [''wme''] = 1" "fld8 ?T ?e [''is_sta_legacy''] = 0"
    by simp_all
  have v: "vif_at new_station_go (unat 0) = Some (sta_vif\<lparr>if_type := NRF_WIFI_IFTYPE_P2P_GO\<rparr>)"
    by (simp add: vif_at_def new_station_go_def)
  have g: "nrf_wifi_fmac_peer_get_id ?mac new_station_go = -1"
    by (simp add: nrf_wifi_fmac_peer_get_id_def nrf_wifi_util_is_multicast_addr_def new_station_go_def fmac_demo_simps numeral_eq_Suc)
  have "\<exists>t. nrf_wifi_fmac_peer_add demo_os 0 ?mac 0 1 new_station_go = Some (0, t) \<and>
      ra_addr (peers t ! 0) = ?mac \<and> qos_supported (peers t ! 0) = 1"
    by (simp add: nrf_wifi_fmac_peer_add_def nrf_wifi_util_is_multicast_addr_def peer_slot_add_def new_station_go_def
        fmac_demo_simps upt_peers Let_def peer_mac_write_def vif_at_def peer_put_def sta_vif_def)
  then show ?thesis
    using new_station_event [OF m f(1) e f(2,3) _ f(4) v _ g, of demo_os all_callbacks] f(5,6) by force
qed

section \<open>Commands\<close>

text \<open>The header of a management command is a \<open>nrf_wifi_umac_hdr\<close> with the command, the interface and the
  mark that the interface is valid.\<close>

lemma wdev_hdr_struct:
  "\<exists>v. carries nrf_wifi_umac_hdr_t v (wdev_hdr c i @ body) 0 \<and> fld32 nrf_wifi_umac_hdr_t v [''cmd_evnt''] = c \<and>
    fld64 nrf_wifi_umac_hdr_t v [''ids'', ''wdev_id''] = ucast i \<and> fld32 nrf_wifi_umac_hdr_t v [''ids'', ''valid_fields''] = 1"
  by (rule exI [of _ "VList [V32 0, V32 0, V32 c, V32 0, VList [V32 1, V32 0, V32 0, V64 (ucast i)]]"])
    (simp add: carries_def layouts wdev_hdr_def umac_hdr_def fld32_def fld64_def)

text \<open>The sizes of the structures of the commands.\<close>

lemma cmd_sizeofs:
  "sizeof nrf_wifi_umac_cmd_auth_t = 1712" "sizeof nrf_wifi_umac_cmd_assoc_t = 1609" "sizeof nrf_wifi_umac_cmd_key_t = 581"
  "sizeof nrf_wifi_umac_cmd_set_key_t = 571" "sizeof nrf_wifi_umac_cmd_disconn_t = 50" "sizeof nrf_wifi_umac_cmd_del_sta_t = 49"
  "sizeof nrf_wifi_umac_cmd_set_bss_t = 90" "sizeof nrf_wifi_umac_cmd_mgmt_frame_reg_t = 50"
  "sizeof nrf_wifi_umac_cmd_remain_on_channel_t = 84" "sizeof nrf_wifi_umac_cmd_cancel_remain_on_channel_t = 48"
  "sizeof nrf_wifi_umac_cmd_mcast_filter_t = 46" "sizeof nrf_wifi_umac_cmd_get_sta_t = 42"
  "sizeof nrf_wifi_umac_cmd_start_ap_t = 2863" "sizeof nrf_wifi_umac_cmd_chg_sta_t = 829" "sizeof nrf_wifi_umac_cmd_add_sta_t = 829"
  "sizeof nrf_wifi_umac_cmd_set_beacon_t = 1216" "sizeof nrf_wifi_umac_cmd_mgmt_tx_t = 488" "sizeof nrf_wifi_umac_cmd_set_wiphy_t = 135"
  by (simp_all add: layouts)


definition ap_info_demo :: nrf_wifi_umac_start_ap_info where
  "ap_info_demo = \<lparr>sap_beacon_interval = 100, sap_dtim_period = 1, sap_hidden_ssid = 0, sap_auth_type = 0, sap_smps_mode = 0,
     sap_flags = 0, sap_beacon_data = \<lparr>bd_head_len = 40, bd_tail_len = 20, bd_probe_resp_len = 0, bd_head = replicate 256 0,
       bd_tail = replicate 512 0, bd_probe_resp = replicate 400 0\<rparr>,
     sap_ssid = \<lparr>ssid_len = 3, ssid_ssid = replicate 32 0\<rparr>, sap_connect_common_info = connect_common_zero,
     sap_freq_params = \<lparr>fq_valid_fields = 0, fq_frequency = 2437, fq_channel_width = 0, fq_center_frequency1 = 0,
       fq_center_frequency2 = 0, fq_channel_type = 0\<rparr>, sap_inactivity_timeout = 300, sap_p2p_go_ctwindow = 0, sap_p2p_opp_ps = 0\<rparr>"

definition wiphy_info_demo :: nrf_wifi_umac_set_wiphy_info where
  "wiphy_info_demo = \<lparr>wp_rts_threshold = 0, wp_frag_threshold = 0, wp_antenna_tx = 0, wp_antenna_rx = 0,
     wp_freq_params = \<lparr>fq_valid_fields = 0, fq_frequency = 2437, fq_channel_width = 0, fq_center_frequency1 = 0,
       fq_center_frequency2 = 0, fq_channel_type = 0\<rparr>,
     wp_txq_params = \<lparr>tq_txop = 0, tq_cwmin = 0, tq_cwmax = 0, tq_aifs = 0, tq_ac = 0\<rparr>,
     wp_tx_power_setting = \<lparr>tp_valid_fields = 0, tp_type = 0, tp_tx_power_level = 0\<rparr>, wp_retry_short = 4, wp_retry_long = 7,
     wp_coverage_class = 0, wp_wiphy_name = replicate 32 0\<rparr>"



end
