(* ===== verification/Fmac_Opt.thy ===== *)
theory Fmac_Opt
  imports Fmac_Event
begin

text \<open>Smaller build options: the check for accesses of a sleeping RPU, programming receive buffers in the nRF71
  (\<open>NRF_WIFI_RX_BUFF_PROG_UMAC\<close>), the control of a coexistence pin (\<open>NRF70_SR_COEX_SLEEP_CTRL_GPIO_CTRL\<close>),
  and frames without acknowledgement (\<open>NRF_WIFI_QOS_NOACK_POLICY\<close>).\<close>

section \<open>The check for accesses in sleep\<close>

text \<open>With \<open>NRF_WIFI_LOW_POWER_DBG\<close> every access of the bus layer first reads the power save register and
  complains when the RPU is not ready; the result is whether it does not.\<close>

definition nrf_wifi_rpu_bal_sleep_chk :: "os \<Rightarrow> u32 \<Rightarrow> hal \<Rightarrow> bool \<times> hal" where
  "nrf_wifi_rpu_bal_sleep_chk os addr h =
    (if \<not> bal_fw_booted h \<or> addr = pal_rpu_ps_ctrl_reg_addr_get then (True, h)
     else let (v, h) = bus_read_word (bal_ops_of h) os pal_rpu_ps_ctrl_reg_addr_get h in (v AND 6 = 6, h))"

text \<open>The check is one more access of the bus, of the one register that may be read in sleep.\<close>

lemma sleep_chk_trace:
  "w_trace (snd (nrf_wifi_rpu_bal_sleep_chk os addr h)) = w_trace h \<or>
   (\<exists>v. w_trace (snd (nrf_wifi_rpu_bal_sleep_chk os addr h)) =
      IoRead32 (bus_host_addr_base h + pal_rpu_ps_ctrl_reg_addr_get) v # w_trace h \<and>
      fst (nrf_wifi_rpu_bal_sleep_chk os addr h) = (v AND 6 = 6))"
  by (simp add: nrf_wifi_rpu_bal_sleep_chk_def bal_read_word [unfolded nrf_wifi_bal_read_word_def])

section \<open>Receive buffers of the nRF71\<close>

definition nrf_wifi_hal_get_buf_map_rx :: "u32 \<Rightarrow> u32 \<Rightarrow> hal \<Rightarrow> u32 option" where
  "nrf_wifi_hal_get_buf_map_rx pool_id buf_id h = do {
     e \<leftarrow> rx_entry pool_id buf_id h;
     Some (if mapped e then phy_addr e else -1)
   }"

definition nrf_wifi_fmac_get_rx_buf_map_addr :: "u32 \<Rightarrow> fmac \<Rightarrow> u32 option" where
  "nrf_wifi_fmac_get_rx_buf_map_addr desc_id s =
    (case nrf_wifi_fmac_map_desc_to_pool desc_id s of None \<Rightarrow> Some 0
     | Some _ \<Rightarrow> do {
         tbl \<leftarrow> fmac_rx_info s;
         e \<leftarrow> nth_opt tbl (unat desc_id);
         if buf_mapped e then do { b \<leftarrow> buf_nwb e; Some (nb_data_ptr b) } else Some 0
       })"

text \<open>The structure of the command is not in the repository: its bytes are the parameter \<open>enc\<close>, of the
  entries with the address and the descriptor of each buffer.\<close>

abbreviation (input) MAX_BUFS_PER_CMD :: nat where "MAX_BUFS_PER_CMD \<equiv> 32"

type_synonym rx_buf = "u32 \<times> u32"

definition prog_cmd :: "(rx_buf list \<Rightarrow> u8 list) \<Rightarrow> os \<Rightarrow> rx_buf list \<Rightarrow> nrf_status \<Rightarrow> fmac \<Rightarrow> (bool \<times> nrf_status \<times> fmac) option" where
  "prog_cmd enc os bufs st s =
    (let (ok, s) = falloc os OBJ_UMAC_CMD s in
     if \<not> ok then Some (False, st, s)
     else do {
       (st, s) \<leftarrow> umac_cmd_cfg os (enc bufs) s;
       Some (True, st, femit (IoFree OBJ_UMAC_CMD) s)
     })"

text \<open>Every turn of the loop copies from the start of the buffers.\<close>

fun prog_loop :: "(rx_buf list \<Rightarrow> u8 list) \<Rightarrow> os \<Rightarrow> rx_buf list \<Rightarrow> nat \<Rightarrow> nrf_status \<Rightarrow> fmac \<Rightarrow>
    (bool \<times> nrf_status \<times> fmac) option" where
  "prog_loop enc os chunk 0 st s = Some (True, st, s)"
| "prog_loop enc os chunk (Suc k) st s = do {
     (ok, st, s) \<leftarrow> prog_cmd enc os chunk st s;
     if \<not> ok then Some (False, st, s) else prog_loop enc os chunk k st s
   }"

definition nrf_wifi_fmac_prog_rx_buf_info ::
    "(rx_buf list \<Rightarrow> u8 list) \<Rightarrow> os \<Rightarrow> rx_buf list \<Rightarrow> fmac \<Rightarrow> (nrf_status \<times> fmac) option" where
  "nrf_wifi_fmac_prog_rx_buf_info enc os bufs s =
    (let n = length bufs;
         (cnt, remained, counter) = (if MAX_BUFS_PER_CMD < n
           then (MAX_BUFS_PER_CMD, n mod MAX_BUFS_PER_CMD, n div MAX_BUFS_PER_CMD) else (n, 0, 1))
     in do {
       (ok, st, s) \<leftarrow> prog_loop enc os (take cnt bufs) counter FAIL s;
       if \<not> ok \<or> remained = 0 then Some (st, s)
       else do {
         (_, st, s) \<leftarrow> prog_cmd enc os (take remained (drop MAX_BUFS_PER_CMD bufs)) st s;
         Some (st, s)
       }
     })"

text \<open>The end of \<open>nrf_wifi_sys_fmac_fw_init\<close>: the buffers of all descriptors. The memory of the list is not
  tested, and is not freed on the failing paths.\<close>

fun rx_bufs_of :: "bool \<Rightarrow> nat list \<Rightarrow> fmac \<Rightarrow> rx_buf list option option" where
  "rx_bufs_of ok [] s = Some (Some [])"
| "rx_bufs_of ok (d # ds) s = do {
     a \<leftarrow> nrf_wifi_fmac_get_rx_buf_map_addr (of_nat d) s;
     if a = 0 then Some None
     else if \<not> ok then None
     else do { r \<leftarrow> rx_bufs_of ok ds s; Some (map_option (Cons (a, of_nat d)) r) }
   }"

definition fw_init_prog :: "(rx_buf list \<Rightarrow> u8 list) \<Rightarrow> os \<Rightarrow> fmac \<Rightarrow> (nrf_status \<times> fmac) option" where
  "fw_init_prog enc os s =
    (let (ok, s) = falloc os OBJ_RX_BUF_LIST s in do {
       r \<leftarrow> rx_bufs_of ok [0..<unat (num_rx_bufs s)] s;
       (case r of None \<Rightarrow> Some (FAIL, s)
        | Some bufs \<Rightarrow> do {
            (st, s) \<leftarrow> nrf_wifi_fmac_prog_rx_buf_info enc os bufs s;
            if st \<noteq> SUCCESS then Some (FAIL, s) else Some (SUCCESS, femit (IoFree OBJ_RX_BUF_LIST) s)
          })
     })"

text \<open>With more than 32 buffers, only the first 32 and the ones from the thirty-third on that fill the last
  command are looked at: of 96 buffers, 64 are never programmed.\<close>

theorem prog_rx_ignores:
  assumes "length bufs = length bufs'" "take MAX_BUFS_PER_CMD bufs = take MAX_BUFS_PER_CMD bufs'"
    and "take (length bufs mod MAX_BUFS_PER_CMD) (drop MAX_BUFS_PER_CMD bufs) =
      take (length bufs mod MAX_BUFS_PER_CMD) (drop MAX_BUFS_PER_CMD bufs')"
  shows "nrf_wifi_fmac_prog_rx_buf_info enc os bufs s = nrf_wifi_fmac_prog_rx_buf_info enc os bufs' s"
proof (cases "MAX_BUFS_PER_CMD < length bufs")
  case True
  then show ?thesis
    using assms(1) by (simp add: nrf_wifi_fmac_prog_rx_buf_info_def Let_def assms(2) assms(3) [unfolded assms(1)] cong: if_cong)
next
  case False
  then have "bufs = bufs'" using assms(1,2) by simp
  then show ?thesis by simp
qed

corollary prog_rx_96:
  assumes "length bufs = 96" "length bufs' = 96" "take MAX_BUFS_PER_CMD bufs = take MAX_BUFS_PER_CMD bufs'"
  shows "nrf_wifi_fmac_prog_rx_buf_info enc os bufs s = nrf_wifi_fmac_prog_rx_buf_info enc os bufs' s"
  using assms by (intro prog_rx_ignores) simp_all

section \<open>The pin for coexistence\<close>

definition coex_gpio_val :: "u32 \<Rightarrow> u32 \<Rightarrow> u32 \<Rightarrow> u32" where
  "coex_gpio_val v status1 invert =
    (v AND NOT (0x40 OR 0x200)) OR (push_bit 6 status1 OR push_bit 9 invert)"

text \<open>The status of the first read and of the write is overwritten; a read that delivered nothing leaves
  the value 0.\<close>

definition nrf_wifi_hal_coex_config_sleep_ctrl_gpio_ctrl :: "os \<Rightarrow> u32 \<Rightarrow> u32 \<Rightarrow> hal \<Rightarrow> (nrf_status \<times> hal) option" where
  "nrf_wifi_hal_coex_config_sleep_ctrl_gpio_ctrl os status1 invert h = do {
     (_, v, h) \<leftarrow> hal_rpu_reg_read os 0xA4002DC8 h;
     (_, h) \<leftarrow> hal_rpu_reg_write os 0xA4002DC8
       (coex_gpio_val (case v of None \<Rightarrow> 0 | Some v \<Rightarrow> v) status1 invert) h;
     (st, _, h) \<leftarrow> hal_rpu_reg_read os 0xA4002DC8 h;
     Some (st, h)
   }"

definition nrf_wifi_coex_config_sleep_ctrl_gpio_ctrl :: "os \<Rightarrow> u32 \<Rightarrow> u32 \<Rightarrow> fmac \<Rightarrow> (nrf_status \<times> fmac) option" where
  "nrf_wifi_coex_config_sleep_ctrl_gpio_ctrl os status1 invert s =
    on_hal (nrf_wifi_hal_coex_config_sleep_ctrl_gpio_ctrl os status1 invert) s"

text \<open>With arguments 0 and 1 the two bits are set and the others kept.\<close>

lemma coex_gpio_bits:
  assumes "status1 \<le> 1" "invert \<le> 1" "n < 32"
  shows "bit (coex_gpio_val v status1 invert) n =
    (if n = 6 then status1 = 1 else if n = 9 then invert = 1 else bit v n)"
proof -
  have "w = 0 \<or> w = 1" if "w \<le> 1" for w :: u32
    using that by (cases "unat w = 0") (auto simp: word_le_nat_alt word_unat_eq_iff)
  with assms(1,2) have s: "status1 = 0 \<or> status1 = 1" and i: "invert = 0 \<or> invert = 1" by auto
  have "\<forall>k \<in> set [0..<32]. bit (576 :: u32) k = (k = 6 \<or> k = 9)" by code_simp
  then have "bit (576 :: u32) n = (n = 6 \<or> n = 9)" using assms(3) by simp
  then show ?thesis
    unfolding coex_gpio_val_def using s i assms(3) by (auto simp: bit_simps)
qed

section \<open>Frames without acknowledgement\<close>

text \<open>The traversal visits the whole list; one frame of the traffic identifier is enough.\<close>

definition has_matching_tid :: "os \<Rightarrow> nbuf list \<Rightarrow> nat \<Rightarrow> bool" where
  "has_matching_tid os txq target_tid = foldl (\<lambda>found b. found \<or> nrf_wifi_get_tid os b = target_tid) False txq"

definition tx_flags_noack :: "os \<Rightarrow> nat \<Rightarrow> nbuf list \<Rightarrow> nbuf \<Rightarrow> u32" where
  "tx_flags_noack os policy_tid txq nwb =
    (if has_matching_tid os txq policy_tid then tx_flags_of os nwb OR push_bit 29 1 else tx_flags_of os nwb)"

lemma has_matching_tid_iff: "has_matching_tid os txq t \<longleftrightarrow> (\<exists>b \<in> set txq. nrf_wifi_get_tid os b = t)"
proof -
  have "foldl (\<lambda>found b. found \<or> nrf_wifi_get_tid os b = t) a txq \<longleftrightarrow> a \<or> (\<exists>b \<in> set txq. nrf_wifi_get_tid os b = t)" for a
    by (induction txq arbitrary: a) auto
  then show ?thesis by (simp add: has_matching_tid_def)
qed

end
