(* ===== verification/Pcie_Bus.thy ===== *)
theory Pcie_Bus
  imports Pal "HOL-Library.Multiset"
begin

text \<open>The PCIe bus layer (\<open>bus_if/bus/pcie/src/pcie.c\<close>). Its services of the OS are not those of the
  two other buses, so they are a parameter of their own, a record of operations on an abstract host.
  How addresses are translated for DMA depends on the build: \<open>INLINE_MODE\<close>, \<open>INLINE_BB_MODE\<close> and
  \<open>OFFLINE_MODE\<close>. \<open>SOC_WEZEN\<close> is off.\<close>

section \<open>The services of the OS\<close>

datatype pcie_obj = PCIE_PRIV | PCIE_DEV_CTX | PCIE_OS_PRIV | PCIE_OS_DEV | PCIE_IOMEM | PCIE_INTR

datatype dma_dir = NRF_WIFI_OSAL_DMA_DIR_TO_DEV | NRF_WIFI_OSAL_DMA_DIR_FROM_DEV | NRF_WIFI_OSAL_DMA_DIR_BIDI

text \<open>A service that returns a pointer or NULL returns whether it succeeded.\<close>

record 'w pcie_os =
  os_mem_zalloc :: "pcie_obj \<Rightarrow> 'w \<Rightarrow> bool \<times> 'w"
  os_mem_free :: "pcie_obj \<Rightarrow> 'w \<Rightarrow> 'w"
  os_pcie_init :: "'w \<Rightarrow> bool \<times> 'w"
  os_pcie_deinit :: "'w \<Rightarrow> 'w"
  os_pcie_dev_add :: "'w \<Rightarrow> bool \<times> 'w"
  os_pcie_dev_rem :: "'w \<Rightarrow> 'w"
  os_pcie_dev_init :: "'w \<Rightarrow> nrf_status \<times> 'w"
  os_pcie_dev_deinit :: "'w \<Rightarrow> 'w"
  os_pcie_host_map_get :: "'w \<Rightarrow> u32 \<times> u32"
  os_iomem_mmap :: "u32 \<Rightarrow> u32 \<Rightarrow> 'w \<Rightarrow> u32 \<times> 'w"
  os_iomem_unmap :: "u32 \<Rightarrow> 'w \<Rightarrow> 'w"
  os_pcie_intr_reg :: "'w \<Rightarrow> nrf_status \<times> 'w"
  os_pcie_intr_unreg :: "'w \<Rightarrow> 'w"
  os_iomem_read_reg32 :: "u32 \<Rightarrow> 'w \<Rightarrow> u32 \<times> 'w"
  os_iomem_write_reg32 :: "u32 \<Rightarrow> u32 \<Rightarrow> 'w \<Rightarrow> 'w"
  os_iomem_cpy_from :: "u32 \<Rightarrow> nat \<Rightarrow> 'w \<Rightarrow> u8 list \<times> 'w"
  os_iomem_cpy_to :: "u32 \<Rightarrow> u8 list \<Rightarrow> 'w \<Rightarrow> 'w"
  os_pcie_dma_map :: "u32 \<Rightarrow> u32 \<Rightarrow> dma_dir \<Rightarrow> 'w \<Rightarrow> u32 \<times> 'w"
  os_pcie_dma_unmap :: "u32 \<Rightarrow> u32 \<Rightarrow> dma_dir \<Rightarrow> 'w \<Rightarrow> 'w"

section \<open>The device\<close>

datatype pcie_mode = INLINE_MODE | INLINE_BB_MODE | OFFLINE_MODE

record 'w pcie_dev =
  pcie_host :: 'w
  pcie_build :: pcie_mode
  pcie_cfg_pktram_base :: u32
  iomem_addr_base :: u32
  addr_pktram_base :: u32

definition host_do :: "('w \<Rightarrow> 'w) \<Rightarrow> 'w pcie_dev \<Rightarrow> 'w pcie_dev" where
  "host_do f s = s\<lparr>pcie_host := f (pcie_host s)\<rparr>"

definition host_get :: "('w \<Rightarrow> 'a \<times> 'w) \<Rightarrow> 'w pcie_dev \<Rightarrow> 'a \<times> 'w pcie_dev" where
  "host_get f s = (let (r, w) = f (pcie_host s) in (r, s\<lparr>pcie_host := w\<rparr>))"

definition nrf_wifi_bus_pcie_irq_handler :: "('w pcie_dev \<Rightarrow> 'a \<times> 'w pcie_dev) \<Rightarrow> 'w pcie_dev \<Rightarrow> 'a \<times> 'w pcie_dev" where
  "nrf_wifi_bus_pcie_irq_handler intr_callbk_fn s = intr_callbk_fn s"

definition pktram_base_of :: "pcie_mode \<Rightarrow> u32 \<Rightarrow> u32 \<Rightarrow> u32" where
  "pktram_base_of m iomem cfg = (case m of INLINE_MODE \<Rightarrow> 0 | INLINE_BB_MODE \<Rightarrow> cfg | OFFLINE_MODE \<Rightarrow> iomem + cfg)"

text \<open>The mapping is not tested for NULL.\<close>

definition nrf_wifi_bus_pcie_dev_add :: "'w pcie_os \<Rightarrow> 'w pcie_dev \<Rightarrow> bool \<times> 'w pcie_dev" where
  "nrf_wifi_bus_pcie_dev_add p s =
    (let (ok, s) = host_get (os_mem_zalloc p PCIE_DEV_CTX) s in
     if \<not> ok then (False, s)
     else let (ok, s) = host_get (os_pcie_dev_add p) s in
       if \<not> ok then (False, host_do (os_mem_free p PCIE_DEV_CTX) s)
       else let (addr, len) = os_pcie_host_map_get p (pcie_host s);
                (a, s) = host_get (os_iomem_mmap p addr len) s;
                s = s\<lparr>iomem_addr_base := a,
                      addr_pktram_base := pktram_base_of (pcie_build s) a (pcie_cfg_pktram_base s)\<rparr>;
                (st, s) = host_get (os_pcie_intr_reg p) s
         in if st \<noteq> SUCCESS
            then (False, host_do (os_mem_free p PCIE_DEV_CTX) (host_do (os_pcie_dev_rem p)
              (host_do (os_iomem_unmap p a) s)))
            else (True, s))"

definition nrf_wifi_bus_pcie_dev_rem :: "'w pcie_os \<Rightarrow> 'w pcie_dev \<Rightarrow> 'w pcie_dev" where
  "nrf_wifi_bus_pcie_dev_rem p s = host_do (os_mem_free p PCIE_DEV_CTX) (host_do (os_pcie_dev_rem p)
     (host_do (os_pcie_intr_unreg p) (host_do (os_iomem_unmap p (iomem_addr_base s)) s)))"

definition nrf_wifi_bus_pcie_dev_init :: "'w pcie_os \<Rightarrow> 'w pcie_dev \<Rightarrow> nrf_status \<times> 'w pcie_dev" where
  "nrf_wifi_bus_pcie_dev_init p s = host_get (os_pcie_dev_init p) s"

definition nrf_wifi_bus_pcie_dev_deinit :: "'w pcie_os \<Rightarrow> 'w pcie_dev \<Rightarrow> 'w pcie_dev" where
  "nrf_wifi_bus_pcie_dev_deinit p s = host_do (os_pcie_dev_deinit p) s"

definition nrf_wifi_bus_pcie_init :: "'w pcie_os \<Rightarrow> u32 \<Rightarrow> 'w pcie_dev \<Rightarrow> bool \<times> 'w pcie_dev" where
  "nrf_wifi_bus_pcie_init p cfg s =
    (let (ok, s) = host_get (os_mem_zalloc p PCIE_PRIV) s in
     if \<not> ok then (False, s)
     else let (ok, s) = host_get (os_pcie_init p) (s\<lparr>pcie_cfg_pktram_base := cfg\<rparr>) in
       if \<not> ok then (False, host_do (os_mem_free p PCIE_PRIV) s) else (True, s))"

definition nrf_wifi_bus_pcie_deinit :: "'w pcie_os \<Rightarrow> 'w pcie_dev \<Rightarrow> 'w pcie_dev" where
  "nrf_wifi_bus_pcie_deinit p s = host_do (os_mem_free p PCIE_PRIV) (host_do (os_pcie_deinit p) s)"

section \<open>Access\<close>

definition nrf_wifi_bus_pcie_read_word :: "'w pcie_os \<Rightarrow> u32 \<Rightarrow> 'w pcie_dev \<Rightarrow> u32 \<times> 'w pcie_dev" where
  "nrf_wifi_bus_pcie_read_word p off s = host_get (os_iomem_read_reg32 p (iomem_addr_base s + off)) s"

definition nrf_wifi_bus_pcie_write_word :: "'w pcie_os \<Rightarrow> u32 \<Rightarrow> u32 \<Rightarrow> 'w pcie_dev \<Rightarrow> 'w pcie_dev" where
  "nrf_wifi_bus_pcie_write_word p off v s = host_do (os_iomem_write_reg32 p (iomem_addr_base s + off) v) s"

definition nrf_wifi_bus_pcie_read_block :: "'w pcie_os \<Rightarrow> u32 \<Rightarrow> nat \<Rightarrow> 'w pcie_dev \<Rightarrow> u8 list \<times> 'w pcie_dev" where
  "nrf_wifi_bus_pcie_read_block p off len s = host_get (os_iomem_cpy_from p (iomem_addr_base s + off) len) s"

definition nrf_wifi_bus_pcie_write_block :: "'w pcie_os \<Rightarrow> u32 \<Rightarrow> u8 list \<Rightarrow> 'w pcie_dev \<Rightarrow> 'w pcie_dev" where
  "nrf_wifi_bus_pcie_write_block p off bs s = host_do (os_iomem_cpy_to p (iomem_addr_base s + off) bs) s"

text \<open>Where the host sees the packet memory; the platform gives its address.\<close>

definition nrf_wifi_bus_pcie_dma_map ::
    "'w pcie_os \<Rightarrow> u32 \<Rightarrow> u32 \<Rightarrow> u32 \<Rightarrow> dma_dir \<Rightarrow> 'w pcie_dev \<Rightarrow> u32 \<times> 'w pcie_dev" where
  "nrf_wifi_bus_pcie_dma_map p soc_host_pktram_base virt len dir s =
    (case pcie_build s of
       INLINE_MODE \<Rightarrow> host_get (os_pcie_dma_map p virt len dir) s
     | INLINE_BB_MODE \<Rightarrow> (soc_host_pktram_base + (virt - addr_pktram_base s), s)
     | OFFLINE_MODE \<Rightarrow> (iomem_addr_base s + (virt - addr_pktram_base s), s))"

text \<open>The processor is not one of the enumeration in the offline mode: no region of a processor is
  tried, and the result is 0 when the address is not of the other regions.\<close>

definition nrf_wifi_bus_pcie_dma_unmap ::
    "'w pcie_os \<Rightarrow> u32 \<Rightarrow> u32 \<Rightarrow> u32 \<Rightarrow> dma_dir \<Rightarrow> 'w pcie_dev \<Rightarrow> u32 \<times> 'w pcie_dev" where
  "nrf_wifi_bus_pcie_dma_unmap p soc_host_pktram_base phy len dir s =
    (case pcie_build s of
       INLINE_MODE \<Rightarrow> (0, host_do (os_pcie_dma_unmap p phy len dir) s)
     | INLINE_BB_MODE \<Rightarrow> (addr_pktram_base s + (phy - soc_host_pktram_base), s)
     | OFFLINE_MODE \<Rightarrow>
         (case pal_rpu_addr_offset_get (RPU_ADDR_PKTRAM_START + phy) RPU_PROC_TYPE_MAX of
            None \<Rightarrow> (0, s) | Some a \<Rightarrow> (a, s)))"

definition nrf_wifi_bus_pcie_rpu_ps_sleep :: "'w pcie_os \<Rightarrow> 'w pcie_dev \<Rightarrow> 'w pcie_dev" where
  "nrf_wifi_bus_pcie_rpu_ps_sleep p s =
    (let (v, s) = nrf_wifi_bus_pcie_read_word p pal_rpu_ps_ctrl_reg_addr_get s
     in nrf_wifi_bus_pcie_write_word p pal_rpu_ps_ctrl_reg_addr_get (v AND NOT 1) s)"

text \<open>The code hands the context of the bus to the write routine of the BAL, which takes it for its own: its
  table of operations is then the private data of the OS.\<close>

definition nrf_wifi_bus_pcie_rpu_ps_wake :: "'w pcie_os \<Rightarrow> 'w pcie_dev \<Rightarrow> 'w pcie_dev option" where
  "nrf_wifi_bus_pcie_rpu_ps_wake p s = None"

definition nrf_wifi_bus_pcie_rpu_ps_status :: "'w pcie_os \<Rightarrow> 'w pcie_dev \<Rightarrow> u32 \<times> 'w pcie_dev" where
  "nrf_wifi_bus_pcie_rpu_ps_status p s = nrf_wifi_bus_pcie_read_word p pal_rpu_ps_ctrl_reg_addr_get s"

section \<open>What is taken is given back\<close>

text \<open>What the layer relies on: an abstraction of the host to the objects it has given out, which each
  service changes as its documentation says, and registers that keep what is written.\<close>

locale pcie_platform =
  fixes p :: "'w pcie_os" and held_objs :: "'w \<Rightarrow> pcie_obj multiset" and reg :: "'w \<Rightarrow> u32 \<Rightarrow> u32"
  assumes alloc_law: "os_mem_zalloc p x w = (ok, w') \<Longrightarrow> held_objs w' = held_objs w + (if ok then {#x#} else {#})"
    and free_law: "held_objs (os_mem_free p x w) = held_objs w - {#x#}"
    and init_law: "os_pcie_init p w = (ok, w') \<Longrightarrow> held_objs w' = held_objs w + (if ok then {#PCIE_OS_PRIV#} else {#})"
    and deinit_law: "held_objs (os_pcie_deinit p w) = held_objs w - {#PCIE_OS_PRIV#}"
    and add_law: "os_pcie_dev_add p w = (ok, w') \<Longrightarrow> held_objs w' = held_objs w + (if ok then {#PCIE_OS_DEV#} else {#})"
    and rem_law: "held_objs (os_pcie_dev_rem p w) = held_objs w - {#PCIE_OS_DEV#}"
    and mmap_law: "os_iomem_mmap p a n w = (b, w') \<Longrightarrow> held_objs w' = held_objs w + {#PCIE_IOMEM#}"
    and unmap_law: "held_objs (os_iomem_unmap p a w) = held_objs w - {#PCIE_IOMEM#}"
    and intr_law: "os_pcie_intr_reg p w = (st, w') \<Longrightarrow>
      held_objs w' = held_objs w + (if st = SUCCESS then {#PCIE_INTR#} else {#})"
    and unreg_law: "held_objs (os_pcie_intr_unreg p w) = held_objs w - {#PCIE_INTR#}"
    and read_law: "os_iomem_read_reg32 p a w = (v, w') \<Longrightarrow> v = reg w a \<and> reg w' = reg w"
    and write_law: "reg (os_iomem_write_reg32 p a v w) = (reg w)(a := v)"
begin

definition objs :: "'w pcie_dev \<Rightarrow> pcie_obj multiset" where
  "objs s = held_objs (pcie_host s)"

lemma objs_fields [simp]:
  "objs (s\<lparr>iomem_addr_base := a\<rparr>) = objs s" "objs (s\<lparr>addr_pktram_base := a\<rparr>) = objs s"
  "objs (s\<lparr>pcie_cfg_pktram_base := a\<rparr>) = objs s"
  by (simp_all add: objs_def)

lemma objs_do [simp]:
  "objs (host_do (os_mem_free p x) s) = objs s - {#x#}" "objs (host_do (os_pcie_deinit p) s) = objs s - {#PCIE_OS_PRIV#}"
  "objs (host_do (os_pcie_dev_rem p) s) = objs s - {#PCIE_OS_DEV#}"
  "objs (host_do (os_iomem_unmap p a) s) = objs s - {#PCIE_IOMEM#}"
  "objs (host_do (os_pcie_intr_unreg p) s) = objs s - {#PCIE_INTR#}"
  by (simp_all add: objs_def host_do_def free_law deinit_law rem_law unmap_law unreg_law)

lemma host_getD: "host_get f s = (r, t) \<Longrightarrow> f (pcie_host s) = (r, pcie_host t)"
  by (auto simp: host_get_def split: prod.splits)

lemma objs_get:
  "host_get (os_mem_zalloc p x) s = (ok, t) \<Longrightarrow> objs t = objs s + (if ok then {#x#} else {#})"
  "host_get (os_pcie_init p) s = (ok, t) \<Longrightarrow> objs t = objs s + (if ok then {#PCIE_OS_PRIV#} else {#})"
  "host_get (os_pcie_dev_add p) s = (ok, t) \<Longrightarrow> objs t = objs s + (if ok then {#PCIE_OS_DEV#} else {#})"
  "host_get (os_iomem_mmap p a n) s = (b, t) \<Longrightarrow> objs t = objs s + {#PCIE_IOMEM#}"
  "host_get (os_pcie_intr_reg p) s = (st, t) \<Longrightarrow> objs t = objs s + (if st = SUCCESS then {#PCIE_INTR#} else {#})"
  by (simp_all add: objs_def alloc_law [OF host_getD] init_law [OF host_getD] add_law [OF host_getD]
      intr_law [OF host_getD] mmap_law [OF host_getD])

lemma dev_add_objs:
  assumes "nrf_wifi_bus_pcie_dev_add p s = (ok, t)"
  shows "objs t = objs s + (if ok then {#PCIE_DEV_CTX, PCIE_OS_DEV, PCIE_IOMEM, PCIE_INTR#} else {#})"
proof -
  obtain ok1 s1 where 1: "host_get (os_mem_zalloc p PCIE_DEV_CTX) s = (ok1, s1)" by fastforce
  show ?thesis
  proof (cases ok1)
    case True
    obtain ok2 s2 where 2: "host_get (os_pcie_dev_add p) s1 = (ok2, s2)" by fastforce
    show ?thesis
    proof (cases ok2)
      case ok2: True
      obtain addr len where m: "os_pcie_host_map_get p (pcie_host s2) = (addr, len)" by fastforce
      obtain a s3 where 3: "host_get (os_iomem_mmap p addr len) s2 = (a, s3)" by fastforce
      let ?s3 = "s3\<lparr>iomem_addr_base := a, addr_pktram_base := pktram_base_of (pcie_build s3) a (pcie_cfg_pktram_base s3)\<rparr>"
      obtain st s4 where 4: "host_get (os_pcie_intr_reg p) ?s3 = (st, s4)" by fastforce
      have "objs s4 = objs s + {#PCIE_DEV_CTX, PCIE_OS_DEV, PCIE_IOMEM#} + (if st = SUCCESS then {#PCIE_INTR#} else {#})"
        using objs_get(1) [OF 1] objs_get(3) [OF 2] objs_get(4) [OF 3] objs_get(5) [OF 4] True ok2 by simp
      moreover have "(ok, t) = (if st \<noteq> SUCCESS then (False, host_do (os_mem_free p PCIE_DEV_CTX)
          (host_do (os_pcie_dev_rem p) (host_do (os_iomem_unmap p a) s4))) else (True, s4))"
        using assms 1 2 m 3 4 True ok2 by (simp add: nrf_wifi_bus_pcie_dev_add_def Let_def split: if_splits)
      ultimately show ?thesis by (auto split: if_splits)
    next
      case False
      then show ?thesis using assms 1 2 True objs_get(1) [OF 1] objs_get(3) [OF 2]
        by (auto simp: nrf_wifi_bus_pcie_dev_add_def)
    qed
  qed (use assms 1 objs_get(1) [OF 1] in \<open>auto simp: nrf_wifi_bus_pcie_dev_add_def\<close>)
qed

lemma dev_add_rem:
  assumes "nrf_wifi_bus_pcie_dev_add p s = (True, t)"
  shows "objs (nrf_wifi_bus_pcie_dev_rem p t) = objs s"
  using dev_add_objs [OF assms] by (simp add: nrf_wifi_bus_pcie_dev_rem_def)

lemma init_objs:
  assumes "nrf_wifi_bus_pcie_init p cfg s = (ok, t)"
  shows "objs t = objs s + (if ok then {#PCIE_PRIV, PCIE_OS_PRIV#} else {#})"
  using assms by (auto simp: nrf_wifi_bus_pcie_init_def dest!: objs_get(1,2) split: prod.splits if_splits)

lemma init_deinit:
  assumes "nrf_wifi_bus_pcie_init p cfg s = (True, t)"
  shows "objs (nrf_wifi_bus_pcie_deinit p t) = objs s"
  using init_objs [OF assms] by (simp add: nrf_wifi_bus_pcie_deinit_def)

text \<open>A word that was written is read back, and putting the device to sleep clears one bit.\<close>

lemma read_write:
  assumes "nrf_wifi_bus_pcie_read_word p off (nrf_wifi_bus_pcie_write_word p off v s) = (r, t)"
  shows "r = v"
  using assms
  by (auto simp: nrf_wifi_bus_pcie_read_word_def nrf_wifi_bus_pcie_write_word_def host_do_def write_law
      dest!: host_getD read_law)

lemma sleep_status:
  assumes "nrf_wifi_bus_pcie_rpu_ps_status p (nrf_wifi_bus_pcie_rpu_ps_sleep p s) = (r, t)"
  shows "r = reg (pcie_host s) (iomem_addr_base s + pal_rpu_ps_ctrl_reg_addr_get) AND NOT 1"
proof -
  obtain v u where u: "nrf_wifi_bus_pcie_read_word p pal_rpu_ps_ctrl_reg_addr_get s = (v, u)" by fastforce
  then have "v = reg (pcie_host s) (iomem_addr_base s + pal_rpu_ps_ctrl_reg_addr_get)"
    using read_law by (auto simp: nrf_wifi_bus_pcie_read_word_def dest!: host_getD)
  then show ?thesis
    using assms u by (auto simp: nrf_wifi_bus_pcie_rpu_ps_status_def nrf_wifi_bus_pcie_rpu_ps_sleep_def dest!: read_write)
qed

end

section \<open>A host\<close>

text \<open>A host that has the objects it gave out and the registers as its state; which requests it refuses is
  given.\<close>

definition demo_pcie_os :: "(pcie_obj \<Rightarrow> bool) \<Rightarrow> u32 \<Rightarrow> (pcie_obj multiset \<times> (u32 \<Rightarrow> u32)) pcie_os" where
  "demo_pcie_os gives base =
    (let get = (\<lambda>x (m, r). if gives x then (True, (m + {#x#}, r)) else (False, (m, r)));
         put = (\<lambda>x (m, r). (m - {#x#}, r)) in
     \<lparr>os_mem_zalloc = get, os_mem_free = put, os_pcie_init = get PCIE_OS_PRIV, os_pcie_deinit = put PCIE_OS_PRIV,
      os_pcie_dev_add = get PCIE_OS_DEV, os_pcie_dev_rem = put PCIE_OS_DEV,
      os_pcie_dev_init = Pair SUCCESS, os_pcie_dev_deinit = id,
      os_pcie_host_map_get = (\<lambda>_. (base, 0x100000)),
      os_iomem_mmap = (\<lambda>a n (m, r). (a, (m + {#PCIE_IOMEM#}, r))), os_iomem_unmap = (\<lambda>a. put PCIE_IOMEM),
      os_pcie_intr_reg = (\<lambda>w. let (ok, w) = get PCIE_INTR w in (if ok then SUCCESS else FAIL, w)),
      os_pcie_intr_unreg = put PCIE_INTR,
      os_iomem_read_reg32 = (\<lambda>a (m, r). (r a, (m, r))), os_iomem_write_reg32 = (\<lambda>a v (m, r). (m, r(a := v))),
      os_iomem_cpy_from = (\<lambda>a n w. (replicate n 0, w)), os_iomem_cpy_to = (\<lambda>a bs w. w),
      os_pcie_dma_map = (\<lambda>a n d w. (a, w)), os_pcie_dma_unmap = (\<lambda>a n d w. w)\<rparr>)"

interpretation demo_pcie: pcie_platform "demo_pcie_os gives base" fst snd
  by unfold_locales (auto simp: demo_pcie_os_def Let_def split: prod.splits if_splits)

section \<open>DMA addresses\<close>

text \<open>In the mode with bounce buffers unmapping undoes mapping; in the inline mode every address is unmapped
  to 0, which the HAL takes for a failure; in the offline mode the result is an offset of the memory map of
  the RPU and not the address that was mapped.\<close>

theorem pcie_unmap_map:
  assumes "nrf_wifi_bus_pcie_dma_map p b v n d s = (phy, t)"
  shows "pcie_build s = INLINE_BB_MODE \<Longrightarrow> nrf_wifi_bus_pcie_dma_unmap p b phy n d t = (v, s)"
    "pcie_build t = INLINE_MODE \<Longrightarrow> fst (nrf_wifi_bus_pcie_dma_unmap p b phy n d t) = 0"
  using assms by (auto simp: nrf_wifi_bus_pcie_dma_map_def nrf_wifi_bus_pcie_dma_unmap_def)

theorem pcie_unmap_offline:
  assumes "pcie_build s = OFFLINE_MODE" "addr_pktram_base s = pktram_base_of OFFLINE_MODE (iomem_addr_base s) cfg"
    and "nrf_wifi_bus_pcie_dma_map p b v n d s = (phy, t)" "phy < 0x1000000"
  shows "nrf_wifi_bus_pcie_dma_unmap p b phy n d t = (v + (0xC0000 - cfg), s)"
proof -
  have phy: "phy = v - cfg" "t = s"
    using assms(1-3) by (auto simp: nrf_wifi_bus_pcie_dma_map_def pktram_base_of_def algebra_simps)
  have u: "unat (RPU_ADDR_PKTRAM_START + phy) = 0xB0000000 + unat phy"
    using assms(4) by (subst unat_add_small) (simp_all add: word_less_nat_alt)
  have base: "(RPU_ADDR_PKTRAM_START + phy) AND RPU_ADDR_MASK_BASE = RPU_ADDR_PKTRAM_START"
    using assms(4) by (simp add: pal_base_is u word_less_nat_alt)
  have "unat ((RPU_ADDR_PKTRAM_START + phy) AND RPU_ADDR_MASK_OFFSET) = unat phy"
    using assms(4) div_mod_range [of "0xB0" "0xB0000000 + unat phy"] by (simp add: mask_off u word_less_nat_alt)
  then have off: "(RPU_ADDR_PKTRAM_START + phy) AND RPU_ADDR_MASK_OFFSET = phy" by (simp add: word_unat_eq_iff)
  have gram: "\<not> (RPU_ADDR_GRAM_START \<le> RPU_ADDR_PKTRAM_START + phy)"
    using assms(4) u by (simp add: word_le_nat_alt word_less_nat_alt)
  have "pal_rpu_addr_offset_get (RPU_ADDR_PKTRAM_START + phy) RPU_PROC_TYPE_MAX = Some (0xC0000 + phy)"
    by (simp add: pal_rpu_addr_offset_get_def Let_def base off gram)
  then show ?thesis
    using assms(1) by (simp add: nrf_wifi_bus_pcie_dma_unmap_def phy(2) phy(1) algebra_simps)
qed

text \<open>Adding and removing a device of this layer is balanced on every host with the documented services, also
  when a step fails; on the host above in particular.\<close>

theorem pcie_demo_balance:
  assumes "nrf_wifi_bus_pcie_dev_add (demo_pcie_os gives base) s = (ok, t)"
  shows "fst (pcie_host t) = fst (pcie_host s) +
    (if ok then {#PCIE_DEV_CTX, PCIE_OS_DEV, PCIE_IOMEM, PCIE_INTR#} else {#})"
  using demo_pcie.dev_add_objs [OF assms] by (simp add: demo_pcie.objs_def)

end
