(* ===== verification/Spec2Isabelle.thy ===== *)
theory Spec2Isabelle
  imports Linked_Queue Util Fmac_Tx_Desc Fmac_Tx_Sched Fmac_Rx_Deliver Fw_Readers Fmac_Opt Pcie_Bus
begin

text \<open>
  A verification library for \<open>nrf_wifi\<close>, the host driver of the Nordic nRF70 Wi-Fi companion chips.

  \<^bold>\<open>The program.\<close> The driver runs on a microcontroller beside an RPU (the radio processor, whose
  LMAC and UMAC run a firmware) and consists of layers, each of which calls only the one below:
  the FMAC (\<open>fw_if/umac_if\<close>) offers interfaces, management commands, transmission and reception to
  the network stack and turns them into messages for the firmware; the HAL (\<open>hw_if/hal\<close>) carries
  messages and frames through the memory of the RPU, wakes the RPU before it touches it, and
  handles its interrupts; the bus layer (\<open>bus_if\<close>) reads and writes at offsets over QSPI, SPI or PCIe;
  the OSAL (\<open>os_if\<close>) hands locks, timers, tasklets, memory and network buffers to the operating
  system. \<open>utils\<close> holds the queues and some parsing. There are three builds of the two upper
  layers: the system mode, the radio test mode and the mode for offloaded raw transmission.
  Control flows down by calls, and up by an interrupt, whose handler reads events from queues of
  the RPU and schedules a tasklet that gives each event to the FMAC.

  \<^bold>\<open>How it is modelled.\<close> One record of the state, extended from layer to layer (\<open>world\<close> in
  \<open>Osal\<close>, \<open>bal\<close> in \<open>Bus\<close>, \<open>hal\<close> in \<open>Hal_State\<close>; the FMAC context \<open>fmac\<close> in \<open>Fmac_State\<close> holds the HAL in
  its first field), holds what the context structures of the code hold, with the names of the fields.
  A routine is a function from the state to its result and the new state. It returns an option where
  the code can loop for ever or do something undefined (follow NULL, leave an array): such a run is
  \<open>None\<close>, so a theorem that gives \<open>Some\<close> states also that the code returns and is defined. A status
  is the enumeration of the code. Integers are words of their width, with the wrap-around of C; the
  target is 32-bit and little-endian, so \<open>unsigned long\<close> is 32 bits wide. A message is the list of
  its bytes, in the packed layout of the structures of the firmware interface.

  \<^bold>\<open>The environment.\<close> The operating system and the chip are not part of the repository. They are
  the parameter \<open>os\<close> (\<open>Osal\<close>), a record of functions that answer an allocation, a read, the clock
  and so on from the whole history of the driver; the history is the trace in the state, a list of
  everything the driver did, newest first. So every theorem holds for each behaviour of the
  environment, unless a hypothesis names one, or the interpretation of \<open>os_clock\<close>
  for a clock that goes on. What happens while the driver sleeps in a wait loop is a
  parameter \<open>env\<close>, a function on the state, as the interrupt may change it there. A callback into the
  network stack is an entry of the trace. The log is not modelled.

  \<^bold>\<open>The theories, and what each group of lemmas shows.\<close>

  \<^item> \<open>Nrf_Prelude\<close>: types, statuses, the predicates \<open>sat\<close> and \<open>returns\<close> on the runs of a routine, the
    little-endian codec, and facts on words and lists, with the collections \<open>pres\<close>, \<open>frame\<close>,
    \<open>sat_intros\<close> and \<open>op_defs\<close>.
  \<^item> \<open>Osal\<close>: the environment, the trace, the wrappers of \<open>os_if/src/osal.c\<close> that the driver uses, and the
    locales \<open>os_nbufs\<close> and \<open>os_clock\<close> of what the driver relies on.
  \<^item> \<open>Linked_Queue\<close>: \<open>utils/src/list.c\<close> and \<open>queue.c\<close> over the list primitives of the OS, which the
    locale \<open>osal_llist\<close> describes; they refine a first-in first-out queue, and a heap of nodes
    satisfies the locale. The other theories use lists for queues because of this.
  \<^item> \<open>Util\<close>: \<open>utils/src/util.c\<close>; the parser of hexadecimal text is the inverse of printing.
  \<^item> \<open>Bus\<close>: \<open>bus_if/bal\<close>, \<open>bus/qspi\<close> and \<open>bus/spi\<close>; the locale \<open>bal_bus_ops\<close> is the contract of a bus,
    and both buses satisfy it.
  \<^item> \<open>Pcie_Bus\<close>: \<open>bus/pcie\<close>. It needs services of the OS that the two other buses do not use, and has a
    record and a locale of its own for them; undoing a mapping gives back the address, and everything
    that a device takes from the OS is given back.
  \<^item> \<open>Pal\<close>: the translation of RPU addresses of \<open>hal/src/common/pal.c\<close>; it is injective on the memory map.
  \<^item> \<open>Hal_State\<close>, \<open>Hal_Reg\<close>: the context; power save, registers, memory and hardware queues
    (\<open>hal_api_common.c\<close>, \<open>hal_reg.c\<close>, \<open>hal_mem.c\<close>, \<open>hpqm.c\<close>). A predicate on traces says that no access
    of the bus happens while the device may sleep and that no lock is taken twice; every routine
    keeps it. Waking the device returns in any case.
  \<^item> \<open>Hal_Cmd\<close>, \<open>Hal_Irq\<close>: commands are cut, queued and posted; events are read, assembled and queued;
    the interrupt handler and the watchdog (\<open>hal_interrupt.c\<close>).
  \<^item> \<open>Hal_Buf\<close>: the bounce buffers of \<open>hal/src/system/hal_api.c\<close>: layout, disjointness, round trip.
  \<^item> \<open>Hal_Init\<close>, \<open>Hal_Modes\<close>, \<open>Fw_Patch\<close>: bring-up and removal with the objects they take and give back,
    in the three modes, and the loader of the firmware patches (\<open>hal_fw_patch_loader.c\<close>).
  \<^item> \<open>Fmac_State\<close>, \<open>Fmac_Util\<close>, \<open>Fmac_Cmd\<close>: the context, \<open>fmac_util.c\<close>, and messages to the firmware
    (\<open>fmac_cmd.c\<close>, \<open>fmac_cmd_common.c\<close>).
  \<^item> \<open>Fmac_Vif\<close>: \<open>fmac_vif.c\<close>, \<open>fmac_peer.c\<close> and the interface operations; the counters of the interfaces
    and the table of the peers stay consistent.
  \<^item> \<open>Fmac_Step\<close>: what an operation of the FMAC keeps: a legal trace, and the balance of frames.
  \<^item> \<open>Fmac_Tx\<close>: the transmit path of \<open>tx.c\<close>, with its set-up and removal. \<open>Fmac_Tx_Own\<close> shows that each
    frame is freed once, \<open>Fmac_Tx_Desc\<close> that the descriptors are accounted for (the bitmap and the
    counters refine a partial function), \<open>Fmac_Tx_Sched\<close> that a peer is served in turn and
    that aggregation takes a prefix of a queue.
  \<^item> \<open>Fmac_Rx\<close>, \<open>Fmac_Rx_Loss\<close>, \<open>Fmac_Rx_Deliver\<close>: the receive path of \<open>rx.c\<close>, its conversion of frames, and
    what becomes of a packet, from the memory of the RPU to the stack.
  \<^item> \<open>Fmac_Ap\<close>: \<open>fmac_ap.c\<close> and \<open>fmac_promisc.c\<close>.
  \<^item> \<open>Fmac_Msg\<close>, \<open>Fmac_Api\<close>, \<open>Fmac_Ctl\<close>: the structures of \<open>host_rpu_umac_if.h\<close> that are sent, and the
    management commands of \<open>system/fmac_api.c\<close>; \<open>Fmac_Size\<close> shows that their lengths are those of the
    packed structures.
  \<^item> \<open>Fmac_Fw\<close>: \<open>fmac_api_common.c\<close>, with the parser of patch files; it is the inverse of putting one together.
  \<^item> \<open>Fmac_Event\<close>: the events of the firmware (\<open>fmac_event.c\<close>), against a relation of what a control
    event may do and a reference definition of the loop over data events.
  \<^item> \<open>Fmac_Dev\<close>: RF parameters, the INIT command, bringing a device up and down.
  \<^item> \<open>Fmac_System\<close>: every history of commands, frames, events and interrupts keeps the trace legal.
  \<^item> \<open>Fmac_Modes\<close>, \<open>Rt_Fmac\<close>, \<open>Off_Fmac\<close>: the FMAC of the other two modes (\<open>src/radio_test\<close>,
    \<open>src/offload_raw_tx\<close>): what they share, and the commands, events and waits of each.
  \<^item> \<open>Fmac_Raw_Tx\<close>, \<open>Fmac_Raw_Ev\<close>: the routines of \<open>tx.c\<close>, \<open>rx.c\<close> and \<open>fmac_event.c\<close> in a build with
    \<open>NRF70_RAW_DATA_TX\<close>, \<open>NRF70_RAW_DATA_RX\<close> and \<open>NRF70_PROMISC_DATA_RX\<close>: injected frames, frames for
    the sniffer, and the events that set mode, channel and filter. Without a raw frame they agree
    with the routines of \<open>Fmac_Tx\<close> and \<open>Fmac_Rx\<close>.
  \<^item> \<open>Fmac_Opt\<close>: smaller options: the programming of receive buffers in the nRF71, the GPIOs of the
    coexistence, the statistics of TIDs.
  \<^item> \<open>Fw_Layout\<close>, \<open>Fw_Sys\<close>, \<open>Fw_Umac\<close>, \<open>Fw_Readers\<close>: the layout of the packed structures of the firmware
    interface. A type of C layouts with sizes, offsets and values, which are encoded and decoded without loss; the
    structures of the headers as such types; and the proof that the event handlers, which read bytes at
    numbers, read the fields that the code names, and that commands have the sizes of their structures.

  \<^bold>\<open>Loops.\<close> A loop that the environment may keep going (polling a register, draining a queue,
  waiting for the firmware) is a \<open>partial_function (option)\<close> without fuel, and the theorems that it
  returns assume what makes it return, for example a clock. A wait with a count in the
  code has the count of the code: 50 turns for the statistics, 51 for their reset, 100
  and 101 for the regulatory domain, 9999 for the state of an interface; in the other modes
  the limit is an argument of \<open>poll_wait\<close>, whose recursion is justified by the distance of the count from it. Recursions that go
  over a list or a descriptor count are structural. There is no other bound and no fuel.

  \<^bold>\<open>Build options.\<close> \<open>NRF_WIFI_LOW_POWER\<close>, \<open>NRF_WIFI_RPU_RECOVERY\<close>, \<open>NRF70_STA_MODE\<close>, \<open>NRF70_AP_MODE\<close>,
  \<open>NRF70_P2P_MODE\<close>, \<open>NRF70_DATA_TX\<close> and \<open>NRF70_UTIL\<close> are on. Numbers that the build sets (tokens,
  aggregation, buffers, antenna gain) are arguments or fields.

  \<^bold>\<open>Not modelled.\<close> The logging, and what the callbacks into the network stack do (they are only
  recorded). The work queues for reception and for the completion of transmissions: the code that fills
  them names fields that the structures do not have, so that no build has them. The dispatch of the rest of \<open>osal.c\<close>, one call each through the table of the OS. The address
  map of the emulated SoC (\<open>SOC_WEZEN\<close>).
\<close>

end
